(* ===== verification/Prelude.thy ===== *)
theory Prelude
  imports Main "HOL-Library.AList" "HOL-Library.List_Lexorder" "HOL-Library.Char_ord"
begin

text \<open>
  Shared vocabulary of the development: the exceptions of the program as values, Python's
  insertion-ordered dictionaries as association lists, the string patterns that every contract
  model uses (\<open>src/src/dispatcher/config.py\<close>), and the generic lemmas on lists, options,
  dictionaries and results that the component theories share.

  Python's \<open>str\<close> is \<open>string\<close> (a list of code points, here restricted to the range 0 to 255),
  \<open>int\<close> is \<open>int\<close> or \<open>nat\<close>, a \<open>dict\<close> is an association list that keeps insertion order, a raised
  exception is \<open>Inl\<close> of the result type \<open>exn + 'a\<close>.
\<close>

named_theorems model_simps \<open>equations of the model that evaluate its operations\<close>
named_theorems frame_simps \<open>fields an operation leaves unchanged\<close>
named_theorems ok_dests \<open>what a successful operation says about its arguments\<close>

section \<open>Exceptions as values\<close>

text \<open>
  A validation error of a contract model names either the field whose constraint failed or the
  message of the model validator that raised.
\<close>

datatype verror = Field string | Rule string

datatype exn =
    KeyError string
  | StopIteration
  | ValueError string
  | ValidationError "verror list"
  | TransitionError string
  | ConfigError string
  | PlanError string
  | PolicyError string
  | SchedulingError "string list"
  | ResultError string
  | PermissionError string
  | LifecycleError string
  | StateStoreError string
  | StateStoreConflictError string
  | StateStoreCorruptionError string
  | LeaseConflictError string
  | StaleLeaseRecoveryRequired string
  | RecoveryRequiredError string
  | SequentialWorkflowError string
  | SupervisorCommandRejectedError string
  | WorkerResultValidationError string
  | MCPCompileError string
  | ProtocolError string
  | VerificationError string
  | ExecutionCoordinatorError string
  | RepositoryValidationError string
  | StructuredGitError string
  | WorkspaceError string
  | OpenCodeProtocolError string
  | DuplicateKeyError string

text \<open>
  The classes below \<open>ValueError\<close>: pydantic's \<open>ValidationError\<close> is one, and so are the program's
  own errors that are declared with that base class.
\<close>

fun is_value_error :: "exn \<Rightarrow> bool" where
  "is_value_error (KeyError _) = False"
| "is_value_error StopIteration = False"
| "is_value_error (StateStoreError _) = False"
| "is_value_error (StateStoreConflictError _) = False"
| "is_value_error (StateStoreCorruptionError _) = False"
| "is_value_error (LeaseConflictError _) = False"
| "is_value_error (StaleLeaseRecoveryRequired _) = False"
| "is_value_error (RecoveryRequiredError _) = False"
| "is_value_error (VerificationError _) = False"
| "is_value_error (ExecutionCoordinatorError _) = False"
| "is_value_error (StructuredGitError _) = False"
| "is_value_error (WorkspaceError _) = False"
| "is_value_error (OpenCodeProtocolError _) = False"
| "is_value_error _ = True"

section \<open>Results\<close>

text \<open>Sequencing: the first exception ends the computation.\<close>

fun bindr :: "'e + 'a \<Rightarrow> ('a \<Rightarrow> 'e + 'b) \<Rightarrow> 'e + 'b" where
  "bindr (Inl e) f = Inl e"
| "bindr (Inr x) f = f x"

lemma bindr_Inr_iff: "bindr m f = Inr y \<longleftrightarrow> (\<exists>x. m = Inr x \<and> f x = Inr y)"
  by (cases m) auto

lemma bindr_Inl_iff: "bindr m f = Inl e \<longleftrightarrow> m = Inl e \<or> (\<exists>x. m = Inr x \<and> f x = Inl e)"
  by (cases m) auto

lemma bindr_assoc: "bindr (bindr m f) g = bindr m (\<lambda>x. bindr (f x) g)"
  by (cases m) auto

lemma bindr_cong [fundef_cong]:
  "m = m' \<Longrightarrow> (\<And>x. m' = Inr x \<Longrightarrow> f x = g x) \<Longrightarrow> bindr m f = bindr m' g"
  by (cases m') auto

text \<open>A guarded raise that did not happen.\<close>

lemma if_raise_Inr [ok_dests]:
  "(if c then Inl e else m) = Inr y \<longleftrightarrow> \<not> c \<and> m = Inr y"
  "(if c then m else Inl e) = Inr y \<longleftrightarrow> c \<and> m = Inr y"
  by simp_all

lemma case_raise_Inr [ok_dests]:
  "(case x of None \<Rightarrow> Inl e | Some a \<Rightarrow> f a) = Inr y \<longleftrightarrow> (\<exists>a. x = Some a \<and> f a = Inr y)"
  by (cases x) auto

declare bindr_Inr_iff [ok_dests]

fun map_result :: "('a \<Rightarrow> 'e + 'b) \<Rightarrow> 'a list \<Rightarrow> 'e + 'b list" where
  "map_result f [] = Inr []"
| "map_result f (x # xs) = bindr (f x) (\<lambda>y. bindr (map_result f xs) (\<lambda>ys. Inr (y # ys)))"

lemma map_result_Inr_list_all2:
  "map_result f xs = Inr ys \<Longrightarrow> list_all2 (\<lambda>x y. f x = Inr y) xs ys"
  by (induction xs arbitrary: ys) (auto simp: bindr_Inr_iff)

lemma map_result_cong [fundef_cong]:
  "xs = ys \<Longrightarrow> (\<And>x. x \<in> set ys \<Longrightarrow> f x = g x) \<Longrightarrow> map_result f xs = map_result g ys"
  by (induction ys arbitrary: xs) auto

text \<open>A fold that stops at the first exception: a \<open>for\<close> loop whose body may raise.\<close>

fun foldr_result :: "('s \<Rightarrow> 'a \<Rightarrow> 'e + 's) \<Rightarrow> 's \<Rightarrow> 'a list \<Rightarrow> 'e + 's" where
  "foldr_result f s [] = Inr s"
| "foldr_result f s (x # xs) = bindr (f s x) (\<lambda>s'. foldr_result f s' xs)"

lemma foldr_result_append:
  "foldr_result f s (xs @ ys) = bindr (foldr_result f s xs) (\<lambda>s'. foldr_result f s' ys)"
  by (induction xs arbitrary: s) (auto simp: bindr_assoc)

lemma foldr_result_invariant:
  assumes "foldr_result f s xs = Inr s'" and "P s"
    and "\<And>t x t'. P t \<Longrightarrow> x \<in> set xs \<Longrightarrow> f t x = Inr t' \<Longrightarrow> P t'"
  shows "P s'"
  using assms
proof (induction xs arbitrary: s)
  case (Cons x xs)
  from Cons.prems(1) obtain t where t: "f s x = Inr t" "foldr_result f t xs = Inr s'"
    by (auto simp: bindr_Inr_iff)
  have "P t" by (rule Cons.prems(3) [OF Cons.prems(2) _ t(1)]) simp
  moreover have "P t'" if "P u" "y \<in> set xs" "f u y = Inr t'" for u y t'
    using Cons.prems(3) [OF that(1) _ that(3)] that(2) by simp
  ultimately show ?case by (rule Cons.IH [OF t(2)])
qed simp

section \<open>Dictionaries\<close>

text \<open>
  \<open>AList.update\<close> is Python's \<open>d[k] = v\<close>: an existing key keeps its position, a new key goes to
  the end. A dict comprehension stores its pairs in order, so the last value of a key wins.
\<close>

type_synonym ('k, 'v) dict = "('k \<times> 'v) list"

abbreviation dget :: "('k, 'v) dict \<Rightarrow> 'k \<Rightarrow> 'v option" where
  "dget d k \<equiv> map_of d k"

abbreviation dset :: "'k \<Rightarrow> 'v \<Rightarrow> ('k, 'v) dict \<Rightarrow> ('k, 'v) dict" where
  "dset k v d \<equiv> AList.update k v d"

abbreviation dkeys :: "('k, 'v) dict \<Rightarrow> 'k list" where
  "dkeys d \<equiv> map fst d"

definition dict_of :: "('k \<times> 'v) list \<Rightarrow> ('k, 'v) dict" where
  "dict_of kvs = foldl (\<lambda>d kv. AList.update (fst kv) (snd kv) d) [] kvs"

lemma dget_dset: "dget (dset k v d) k' = (if k' = k then Some v else dget d k')"
  by (simp add: update_conv')

lemma dget_dset_same [simp]: "dget (dset k v d) k = Some v"
  by (simp add: update_conv')

lemma dget_dset_other: "k' \<noteq> k \<Longrightarrow> dget (dset k v d) k' = dget d k'"
  by (simp add: update_conv')

lemma set_dkeys_dset: "set (dkeys (dset k v d)) = insert k (set (dkeys d))"
  by (metis dom_map_of_conv_image_fst dom_fun_upd update_conv' list.set_map option.distinct(1))

lemma dkeys_dset_present: "k \<in> set (dkeys d) \<Longrightarrow> dkeys (dset k v d) = dkeys d"
  by (induction d) auto

lemma distinct_dkeys_dset: "distinct (dkeys d) \<Longrightarrow> distinct (dkeys (dset k v d))"
  by (rule distinct_update)

lemma dict_of_map_of: "dget (dict_of kvs) = map_of (rev kvs)"
proof -
  have "dget (foldl (\<lambda>d kv. AList.update (fst kv) (snd kv) d) d0 kvs) = map_of d0 ++ map_of (rev kvs)"
    for d0 :: "('a, 'b) dict"
    by (induction kvs arbitrary: d0) (auto simp: update_conv' map_add_def split: option.splits)
  from this [of "[]"] show ?thesis by (simp add: dict_of_def)
qed

lemma dict_of_distinct: "distinct (map fst kvs) \<Longrightarrow> dict_of kvs = kvs"
proof -
  have "distinct (map fst (d0 @ kvs)) \<Longrightarrow>
      foldl (\<lambda>d kv. AList.update (fst kv) (snd kv) d) d0 kvs = d0 @ kvs" for d0 :: "('a, 'b) dict"
  proof (induction kvs arbitrary: d0)
    case (Cons kv kvs)
    have fresh: "k \<notin> set (map fst d) \<Longrightarrow> AList.update k v d = d @ [(k, v)]" for k v and d :: "('a, 'b) dict"
      by (induction d) auto
    from Cons.prems have "fst kv \<notin> set (map fst d0)" by auto
    with fresh have "AList.update (fst kv) (snd kv) d0 = d0 @ [kv]" by simp
    with Cons show ?case by simp
  qed simp
  from this [of "[]"] show "distinct (map fst kvs) \<Longrightarrow> dict_of kvs = kvs" by (simp add: dict_of_def)
qed

lemma distinct_dict_of: "distinct (dkeys (dict_of kvs))"
proof -
  have "distinct (dkeys d) \<Longrightarrow> distinct (dkeys (foldl (\<lambda>d kv. dset (fst kv) (snd kv) d) d kvs))"
    for d :: "('a, 'b) dict"
    by (induction kvs arbitrary: d) (auto simp: distinct_update)
  from this [of "[]"] show ?thesis by (simp add: dict_of_def)
qed

lemma dget_in_set: "dget d k = Some v \<Longrightarrow> (k, v) \<in> set d"
  by (rule map_of_SomeD)

lemma dget_None_iff: "dget d k = None \<longleftrightarrow> k \<notin> set (dkeys d)"
  by (simp add: map_of_eq_None_iff)

lemma dset_in_set: "(k', v') \<in> set (dset k v d) \<Longrightarrow> (k' = k \<and> v' = v) \<or> (k', v') \<in> set d"
  by (induction d) (auto split: if_splits)

section \<open>Strings and the patterns of the contract models\<close>

abbreviation code_point :: "char \<Rightarrow> nat" where
  "code_point c \<equiv> of_char c"

definition is_digit :: "char \<Rightarrow> bool" where
  "is_digit c \<longleftrightarrow> 48 \<le> code_point c \<and> code_point c \<le> 57"

definition is_ascii_alpha :: "char \<Rightarrow> bool" where
  "is_ascii_alpha c \<longleftrightarrow> (65 \<le> code_point c \<and> code_point c \<le> 90) \<or> (97 \<le> code_point c \<and> code_point c \<le> 122)"

definition is_identifier_char :: "char \<Rightarrow> bool" where
  "is_identifier_char c \<longleftrightarrow> is_ascii_alpha c \<or> is_digit c \<or> c \<in> set ''._-''"

text \<open>\<open>Identifier\<close>: \<open>^[A-Za-z][A-Za-z0-9._-]{0,127}$\<close>.\<close>

fun identifier_ok :: "string \<Rightarrow> bool" where
  "identifier_ok [] = False"
| "identifier_ok (c # cs) = (is_ascii_alpha c \<and> length cs \<le> 127 \<and> list_all is_identifier_char cs)"

definition is_lower_hex :: "char \<Rightarrow> bool" where
  "is_lower_hex c \<longleftrightarrow> is_digit c \<or> (97 \<le> code_point c \<and> code_point c \<le> 102)"

text \<open>\<open>Sha256\<close>: \<open>^[a-f0-9]{64}$\<close>.\<close>

definition sha256_ok :: "string \<Rightarrow> bool" where
  "sha256_ok s \<longleftrightarrow> length s = 64 \<and> list_all is_lower_hex s"

definition length_between :: "nat \<Rightarrow> nat \<Rightarrow> 'a list \<Rightarrow> bool" where
  "length_between lo hi s \<longleftrightarrow> lo \<le> length s \<and> length s \<le> hi"

definition optional :: "('a \<Rightarrow> bool) \<Rightarrow> 'a option \<Rightarrow> bool" where
  "optional P x = (case x of None \<Rightarrow> True | Some y \<Rightarrow> P y)"

lemma optional_simps [simp]: "optional P None" "optional P (Some y) = P y"
  by (simp_all add: optional_def)

text \<open>
  Field constraints in declaration order: pydantic reports every field that fails, and runs the
  model validators only when none did.
\<close>

definition field_errors :: "(string \<times> bool) list \<Rightarrow> verror list" where
  "field_errors checks = map (\<lambda>c. Field (fst c)) (filter (\<lambda>c. \<not> snd c) checks)"

lemma field_errors_Nil_iff [simp]: "field_errors cs = [] \<longleftrightarrow> list_all snd cs"
  by (auto simp: field_errors_def filter_empty_conv list_all_iff)

text \<open>A model validator is a sequence of guarded raises: the first condition that holds raises.\<close>

fun first_rule :: "(bool \<times> string) list \<Rightarrow> verror list" where
  "first_rule [] = []"
| "first_rule ((c, msg) # rest) = (if c then [Rule msg] else first_rule rest)"

lemma first_rule_Nil_iff [simp]: "first_rule rs = [] \<longleftrightarrow> list_all (\<lambda>r. \<not> fst r) rs"
  by (induction rs rule: first_rule.induct) auto

text \<open>The first error of a loop whose body may raise.\<close>

fun first_error :: "verror list list \<Rightarrow> verror list" where
  "first_error [] = []"
| "first_error (e # es) = (if e \<noteq> [] then e else first_error es)"

lemma first_error_Nil_iff [simp]: "first_error es = [] \<longleftrightarrow> (\<forall>e \<in> set es. e = [])"
  by (induction es) auto

declare first_rule.simps [simp del] first_error.simps [simp del]

definition then_rules :: "verror list \<Rightarrow> verror list \<Rightarrow> verror list" where
  "then_rules fields rules = (if fields \<noteq> [] then fields else rules)"

lemma then_rules_Nil_iff [simp]: "then_rules fs rs = [] \<longleftrightarrow> fs = [] \<and> rs = []"
  by (auto simp: then_rules_def)

text \<open>\<open>Model.model_validate\<close>: the value, or the errors.\<close>

definition checked :: "('a \<Rightarrow> verror list) \<Rightarrow> 'a \<Rightarrow> exn + 'a" where
  "checked errs x = (if errs x = [] then Inr x else Inl (ValidationError (errs x)))"

lemma checked_Inr_iff [simp]: "checked errs x = Inr y \<longleftrightarrow> errs x = [] \<and> y = x"
  by (auto simp: checked_def)

lemma checked_ok: "errs x = [] \<Longrightarrow> checked errs x = Inr x"
  by (simp add: checked_def)

section \<open>Numerals and joined text\<close>

definition digit_char :: "nat \<Rightarrow> char" where
  "digit_char d = char_of (48 + d)"

fun nat_digits :: "nat \<Rightarrow> string" where
  "nat_digits n = (if n < 10 then [digit_char n] else nat_digits (n div 10) @ [digit_char (n mod 10)])"

declare nat_digits.simps [simp del]

definition int_text :: "int \<Rightarrow> string" where
  "int_text i = (if i < 0 then ''-'' @ nat_digits (nat (- i)) else nat_digits (nat i))"

text \<open>\<open>sep.join(parts)\<close>.\<close>

fun join_text :: "string \<Rightarrow> string list \<Rightarrow> string" where
  "join_text sep [] = []"
| "join_text sep [x] = x"
| "join_text sep (x # y # zs) = x @ sep @ join_text sep (y # zs)"

text \<open>\<open>repr(s)\<close> of a text of printable characters without quotes or backslashes.\<close>

definition repr_text :: "string \<Rightarrow> string" where
  "repr_text s = CHR 0x27 # s @ [CHR 0x27]"

text \<open>\<open>", ".join(...) or "none"\<close>.\<close>

definition listed_or_none :: "string list \<Rightarrow> string" where
  "listed_or_none xs = (if xs = [] then ''none'' else join_text '', '' xs)"

section \<open>List facts shared by the components\<close>

lemma list_all_filter_iff: "filter P xs = [] \<longleftrightarrow> list_all (\<lambda>x. \<not> P x) xs"
  by (auto simp: filter_empty_conv list_all_iff)

lemma distinct_map_snoc: "distinct (map f (xs @ [x])) \<longleftrightarrow> distinct (map f xs) \<and> f x \<notin> f ` set xs"
  by auto

lemma set_sort_remdups: "set (sort (remdups xs)) = set xs"
  by simp

lemma sorted_distinct_sort_remdups: "sorted (sort (remdups xs)) \<and> distinct (sort (remdups xs))"
  by simp

end
