(* ===== verification/Paths.thy ===== *)
theory Paths
  imports Prelude "HOL-Library.Sublist"
begin

text \<open>
  Repository paths: Python's \<open>PurePosixPath\<close> as far as the program uses it, the scope syntax of
  \<open>src/src/dispatcher/plan.py\<close> (\<open>parse_writable_path\<close>, \<open>writable_path_allows\<close>), the normalised
  relative paths of \<open>config.py\<close>, the overlap test of \<open>scheduler.py\<close> and the root test of
  \<open>cluster_operation_lifecycle.py\<close>. The lemmas show that a scope is printed back as it was parsed,
  that an authorised path never leaves its scope, and that two scopes overlap exactly when some path
  is authorised by both.
\<close>

section \<open>Pure POSIX paths\<close>

fun split_on :: "char \<Rightarrow> string \<Rightarrow> string list" where
  "split_on sep [] = [[]]"
| "split_on sep (c # cs) =
     (if c = sep then [] # split_on sep cs
      else (case split_on sep cs of [] \<Rightarrow> [[c]] | w # ws \<Rightarrow> (c # w) # ws))"

fun contains_text :: "string \<Rightarrow> string \<Rightarrow> bool" where
  "contains_text sub [] = (sub = [])"
| "contains_text sub (c # cs) = (prefix sub (c # cs) \<or> contains_text sub cs)"

record posix_path =
  path_root :: string
  path_parts :: "string list"

text \<open>
  Repeated slashes and \<open>.\<close> segments disappear; a leading slash makes the path absolute, and exactly
  two of them are a root of their own.
\<close>

definition posix_root :: "string \<Rightarrow> string" where
  "posix_root s =
     (if prefix ''///'' s then ''/'' else if prefix ''//'' s then ''//''
      else if prefix ''/'' s then ''/'' else '''')"

definition pure_posix_path :: "string \<Rightarrow> posix_path" where
  "pure_posix_path s =
     \<lparr>path_root = posix_root s,
      path_parts = filter (\<lambda>p. p \<noteq> [] \<and> p \<noteq> ''.'') (split_on (CHR ''/'') s)\<rparr>"

text \<open>\<open>left / right\<close>.\<close>

definition path_join :: "posix_path \<Rightarrow> posix_path \<Rightarrow> posix_path" where
  "path_join p q =
     (if path_root q \<noteq> [] then q else p\<lparr>path_parts := path_parts p @ path_parts q\<rparr>)"

definition as_posix :: "posix_path \<Rightarrow> string" where
  "as_posix p =
     (if path_root p = [] \<and> path_parts p = [] then ''.''
      else path_root p @ join_text ''/'' (path_parts p))"

text \<open>\<open>path.relative_to(root)\<close> returns instead of raising \<open>ValueError\<close>.\<close>

definition relative_to_ok :: "posix_path \<Rightarrow> posix_path \<Rightarrow> bool" where
  "relative_to_ok p root \<longleftrightarrow>
     path_root p = path_root root \<and> prefix (path_parts root) (path_parts p)"

definition is_within :: "posix_path \<Rightarrow> posix_path \<Rightarrow> bool" where
  "is_within p root = relative_to_ok p root"

definition pure_path_is_within :: "posix_path \<Rightarrow> posix_path \<Rightarrow> bool" where
  "pure_path_is_within p root = (if root = pure_posix_path ''.'' then True else relative_to_ok p root)"

definition path_is_in_any_root :: "string \<Rightarrow> string list \<Rightarrow> bool" where
  "path_is_in_any_root path roots =
     list_ex (\<lambda>root. relative_to_ok (pure_posix_path path) (pure_posix_path root)) roots"

text \<open>\<open>path.is_absolute() or ".." in path.parts\<close> of the relative-path validators.\<close>

definition plain_relative_path :: "string \<Rightarrow> bool" where
  "plain_relative_path s \<longleftrightarrow>
     path_root (pure_posix_path s) = [] \<and> ''..'' \<notin> set (path_parts (pure_posix_path s))"

section \<open>Scopes\<close>

text \<open>\<open>unicodedata.category(character) == "Cc"\<close>.\<close>

definition is_control :: "char \<Rightarrow> bool" where
  "is_control c \<longleftrightarrow> code_point c < 32 \<or> (127 \<le> code_point c \<and> code_point c < 160)"

definition parse_writable_path :: "string \<Rightarrow> exn + posix_path \<times> bool" where
  "parse_writable_path value =
     (if list_ex is_control value then
        Inl (ValueError ''writable path must not contain control characters'')
      else if CHR 0x5C \<in> set value then
        Inl (ValueError ''writable path must use POSIX separators'')
      else
        let directory = suffix ''/'' value;
            logical = (if directory then butlast value else value)
        in if logical = [] \<or> prefix ''/'' logical \<or> contains_text ''//'' logical then
             Inl (ValueError ''writable path must be a non-root repository-relative path'')
           else
             let parts = split_on (CHR ''/'') logical
             in if list_ex (\<lambda>p. p \<in> set [[], ''.'', ''..'']) parts then
                  Inl (ValueError ''writable path must not contain empty, '.', or '..' segments'')
                else if ''.git'' \<in> set parts then
                  Inl (ValueError ''writable path must not include .git'')
                else Inr (pure_posix_path (join_text ''/'' parts), directory))"

fun writable_path_allows :: "string list \<Rightarrow> string \<Rightarrow> exn + bool" where
  "writable_path_allows [] value = Inr False"
| "writable_path_allows (scope # scopes) value =
     bindr (parse_writable_path scope) (\<lambda>(scope_path, directory).
       if pure_posix_path value = scope_path
          \<or> (directory \<and> pure_path_is_within (pure_posix_path value) scope_path)
       then Inr True else writable_path_allows scopes value)"

definition writable_paths_overlap :: "string \<Rightarrow> string \<Rightarrow> exn + bool" where
  "writable_paths_overlap first second =
     bindr (parse_writable_path first) (\<lambda>(first_path, first_directory).
     bindr (parse_writable_path second) (\<lambda>(second_path, second_directory).
       if first_path = second_path then Inr True
       else Inr ((first_directory \<and> is_within second_path first_path)
                 \<or> (second_directory \<and> is_within first_path second_path))))"

definition validate_normalized_relative_path :: "string \<Rightarrow> string \<Rightarrow> exn + string" where
  "validate_normalized_relative_path value field =
     (if value = [] then Inl (ValueError (field @ '' must not be empty''))
      else if list_ex is_control value then
        Inl (ValueError (field @ '' must not contain control characters''))
      else if CHR 0x5C \<in> set value then
        Inl (ValueError (field @ '' must use POSIX separators''))
      else if prefix ''/'' value \<or> suffix ''/'' value \<or> contains_text ''//'' value then
        Inl (ValueError (field @ '' must be a normalized repository-relative path''))
      else if list_ex (\<lambda>c. c \<in> set value) ''$%{}*?[]~'' then
        Inl (ValueError (field @ '' must not contain expansion or wildcard characters''))
      else
        let parts = split_on (CHR ''/'') value
        in if list_ex (\<lambda>p. p \<in> set [[], ''.'', ''..'']) parts then
             Inl (ValueError (field @ '' must not contain empty, '.', or '..' segments''))
           else if ''.git'' \<in> set parts then
             Inl (ValueError (field @ '' must not include .git''))
           else if list_ex (\<lambda>p. prefix ''-'' p \<or> CHR '':'' \<in> set p) parts then
             Inl (ValueError (field @ '' must not contain command options or URLs''))
           else Inr value)"

section \<open>Splitting and joining\<close>

lemma split_on_nonempty [simp]: "split_on sep s \<noteq> []"
  by (cases s) (auto split: list.splits)

lemma join_text_Cons: "xs \<noteq> [] \<Longrightarrow> join_text sep (x # xs) = x @ sep @ join_text sep xs"
  by (cases xs) auto

lemma join_text_push: "join_text sep ((c # w) # ws) = c # join_text sep (w # ws)"
  by (cases ws) auto

lemma join_split_on: "join_text [sep] (split_on sep s) = s"
proof (induction s)
  case (Cons c cs)
  then show ?case
    by (cases "split_on sep cs") (auto simp: join_text_Cons join_text_push simp del: join_text.simps)
qed simp

lemma split_on_no_sep: "p \<in> set (split_on sep s) \<Longrightarrow> sep \<notin> set p"
proof (induction s arbitrary: p)
  case (Cons c cs)
  then show ?case by (cases "split_on sep cs") (auto split: if_splits)
qed simp

lemma split_on_chars: "w \<in> set (split_on sep s) \<Longrightarrow> set w \<subseteq> set s"
proof (induction s arbitrary: w)
  case (Cons c cs)
  show ?case
  proof (cases "split_on sep cs")
    case (Cons v vs)
    with Cons.prems Cons.IH [of w] Cons.IH [of v] show ?thesis by (auto split: if_splits)
  qed simp
qed simp

lemma split_on_self: "sep \<notin> set s \<Longrightarrow> split_on sep s = [s]"
  by (induction s) auto

lemma split_on_append: "sep \<notin> set w \<Longrightarrow> split_on sep (w @ sep # s) = w # split_on sep s"
  by (induction w) auto

lemma split_on_join:
  "ws \<noteq> [] \<Longrightarrow> list_all (\<lambda>w. sep \<notin> set w) ws \<Longrightarrow> split_on sep (join_text [sep] ws) = ws"
  by (induction "[sep]" ws rule: join_text.induct) (auto simp: split_on_self split_on_append)

lemma prefix_singleton_iff: "prefix [c] s \<longleftrightarrow> (\<exists>t. s = c # t)"
  by (cases s) auto

lemma suffix_singleton_iff: "suffix [c] s \<longleftrightarrow> (\<exists>t. s = t @ [c])"
  by (auto simp: suffix_def)

section \<open>What a parsed scope is\<close>

text \<open>The segments of a canonical scope: the only parts \<open>parse_writable_path\<close> lets through.\<close>

definition scope_segment :: "string \<Rightarrow> bool" where
  "scope_segment w \<longleftrightarrow> w \<notin> set [[], ''.'', ''..'', ''.git''] \<and> CHR ''/'' \<notin> set w \<and> CHR 0x5C \<notin> set w
     \<and> \<not> list_ex is_control w"

definition scope_text :: "posix_path \<Rightarrow> bool \<Rightarrow> string" where
  "scope_text p directory = as_posix p @ (if directory then ''/'' else [])"

lemma pure_posix_path_of_segments:
  assumes "ws \<noteq> []" "list_all scope_segment ws"
  shows "pure_posix_path (join_text ''/'' ws) = \<lparr>path_root = [], path_parts = ws\<rparr>"
proof -
  obtain c w ws' where ws: "ws = (c # w) # ws'" "c \<noteq> CHR ''/''"
    using assms by (cases ws; cases "hd ws") (auto simp: scope_segment_def)
  have "split_on (CHR ''/'') (join_text ''/'' ws) = ws"
    using assms by (intro split_on_join) (auto simp: list_all_iff scope_segment_def)
  moreover have "filter (\<lambda>p. p \<noteq> [] \<and> p \<noteq> ''.'') ws = ws"
    using assms(2) by (intro filter_True) (auto simp: list_all_iff scope_segment_def)
  moreover have "posix_root (join_text ''/'' ws) = []"
    using ws by (simp add: posix_root_def join_text_push)
  ultimately show ?thesis by (simp add: pure_posix_path_def)
qed

lemma set_join_text: "set (join_text sep ws) \<subseteq> (\<Union>w \<in> set ws. set w) \<union> set sep"
  by (induction sep ws rule: join_text.induct) auto

lemma segments_of_text:
  assumes "\<not> list_ex is_control s" "CHR 0x5C \<notin> set s"
    and "\<not> list_ex (\<lambda>p. p \<in> set [[], ''.'', ''..'']) (split_on (CHR ''/'') s)"
    and "''.git'' \<notin> set (split_on (CHR ''/'') s)"
  shows "list_all scope_segment (split_on (CHR ''/'') s)"
proof -
  have chars: "set w \<subseteq> set s" if "w \<in> set (split_on (CHR ''/'') s)" for w
    using that by (rule split_on_chars)
  show ?thesis
    using assms chars split_on_no_sep
    by (fastforce simp: list_all_iff list_ex_iff scope_segment_def)
qed

lemma parse_writable_path_Inr:
  assumes "parse_writable_path value = Inr (p, directory)"
  shows "path_root p = [] \<and> path_parts p \<noteq> [] \<and> list_all scope_segment (path_parts p)
    \<and> value = scope_text p directory"
proof -
  define logical where "logical = (if suffix ''/'' value then butlast value else value)"
  from assms have ok: "\<not> list_ex is_control value" "CHR 0x5C \<notin> set value"
    and dir: "directory = suffix ''/'' value"
    and seg: "\<not> list_ex (\<lambda>p. p \<in> set [[], ''.'', ''..'']) (split_on (CHR ''/'') logical)"
      "''.git'' \<notin> set (split_on (CHR ''/'') logical)"
    and p: "p = pure_posix_path (join_text ''/'' (split_on (CHR ''/'') logical))"
    by (auto simp: parse_writable_path_def logical_def Let_def split: if_splits)
  have sub: "set logical \<subseteq> set value" by (auto simp: logical_def dest: in_set_butlastD)
  with ok have "\<not> list_ex is_control logical" "CHR 0x5C \<notin> set logical" by (auto simp: list_ex_iff)
  from segments_of_text [OF this seg] have all: "list_all scope_segment (split_on (CHR ''/'') logical)" .
  from pure_posix_path_of_segments [OF split_on_nonempty all] p
  have p': "p = \<lparr>path_root = [], path_parts = split_on (CHR ''/'') logical\<rparr>" by simp
  have "value = logical @ (if directory then ''/'' else [])"
    using dir by (auto simp: logical_def suffix_singleton_iff)
  then have "value = scope_text p directory"
    using p' join_split_on [of "CHR ''/''" logical] by (simp add: scope_text_def as_posix_def)
  with p' all show ?thesis by simp
qed

text \<open>
  The converse: the text of a canonical scope parses to that scope. Together with
  \<open>parse_writable_path_Inr\<close> this is the round trip of the scope syntax.
\<close>

lemma join_text_chars:
  assumes "list_all scope_segment ws"
  shows "\<not> list_ex is_control (join_text ''/'' ws) \<and> CHR 0x5C \<notin> set (join_text ''/'' ws)"
proof -
  have "\<not> is_control (CHR ''/'')" by (simp add: is_control_def)
  then show ?thesis
    using set_join_text [of "''/''" ws] assms
    by (fastforce simp: list_all_iff list_ex_iff scope_segment_def)
qed

lemma split_on_double: "contains_text [c, c] s \<Longrightarrow> [] \<in> set (tl (split_on c s))"
proof (induction s)
  case (Cons d ds)
  show ?case
  proof (cases "prefix [c, c] (d # ds)")
    case True
    then obtain es where "d = c" "ds = c # es" by (auto simp: prefix_def)
    then show ?thesis by simp
  next
    case False
    with Cons.prems have "contains_text [c, c] ds" unfolding contains_text.simps by blast
    from Cons.IH [OF this] show ?thesis
      by (cases "split_on c ds") auto
  qed
qed simp

lemma join_text_last:
  assumes "ws \<noteq> []" "list_all scope_segment ws"
  shows "\<not> suffix ''/'' (join_text ''/'' ws) \<and> join_text ''/'' ws \<noteq> []"
proof -
  have "w \<noteq> [] \<Longrightarrow> CHR ''/'' \<notin> set w \<Longrightarrow> \<not> suffix ''/'' (x @ w)" for w x
    by (cases w rule: rev_cases) (auto simp: suffix_def)
  note noslash = this
  have "\<exists>x w. join_text ''/'' ws = x @ w \<and> w \<noteq> [] \<and> CHR ''/'' \<notin> set w"
    using assms
  proof (induction "''/''" ws rule: join_text.induct)
    case (2 w)
    then show ?case by (intro exI [of _ "[]"] exI [of _ w]) (simp add: scope_segment_def)
  next
    case (3 w w' ws)
    then obtain x v where "join_text ''/'' (w' # ws) = x @ v" "v \<noteq> []" "CHR ''/'' \<notin> set v" by auto
    then show ?case by (intro exI [of _ "w @ ''/'' @ x"] exI [of _ v]) simp
  qed simp
  with noslash show ?thesis by fastforce
qed

theorem parse_scope_text:
  assumes "path_root p = []" "path_parts p \<noteq> []" "list_all scope_segment (path_parts p)"
  shows "parse_writable_path (scope_text p directory) = Inr (p, directory)"
proof -
  define ws where "ws = path_parts p"
  define l where "l = join_text ''/'' ws"
  note ws = assms(2,3) [folded ws_def]
  have shape: "scope_text p directory = l @ (if directory then ''/'' else [])"
    using assms by (simp add: scope_text_def as_posix_def l_def ws_def)
  have split: "split_on (CHR ''/'') l = ws"
    unfolding l_def using ws by (intro split_on_join) (auto simp: list_all_iff scope_segment_def)
  have segs: "\<not> list_ex (\<lambda>p. p \<in> set [[], ''.'', ''..'']) ws" "''.git'' \<notin> set ws"
    using ws(2) by (auto simp: list_all_iff list_ex_iff scope_segment_def)
  have nodouble: "\<not> contains_text ''//'' l"
  proof
    assume "contains_text ''//'' l"
    from split_on_double [OF this] split ws(2) show False
      by (cases ws) (auto simp: list_all_iff scope_segment_def)
  qed
  have front: "\<not> prefix ''/'' l"
  proof
    assume "prefix ''/'' l"
    then obtain m where "l = CHR ''/'' # m" by (auto simp: prefix_singleton_iff)
    then have "[] \<in> set (split_on (CHR ''/'') l)" by simp
    with split ws(2) show False by (auto simp: list_all_iff scope_segment_def)
  qed
  have path: "pure_posix_path (join_text ''/'' ws) = p"
    using pure_posix_path_of_segments [OF ws] assms(1) by (simp add: ws_def)
  have sl: "\<not> is_control (CHR ''/'')" by (simp add: is_control_def)
  show ?thesis
    using join_text_chars [OF ws(2), folded l_def] join_text_last [OF ws, folded l_def]
      split segs nodouble front path sl
    unfolding parse_writable_path_def shape Let_def
    by (cases directory) (auto simp: l_def suffix_def)
qed

section \<open>Containment of paths\<close>

text \<open>
  What the authorisation tests need of a containment relation: it is a partial order in which the
  places that contain a given path form a chain. A scope is a place and whether it stands for
  everything below it.
\<close>

locale containment =
  fixes within :: "'p \<Rightarrow> 'p \<Rightarrow> bool"
  assumes within_refl: "within p p"
    and within_trans: "within p q \<Longrightarrow> within q r \<Longrightarrow> within p r"
    and within_antisym: "within p q \<Longrightarrow> within q p \<Longrightarrow> p = q"
    and within_chain: "within v p \<Longrightarrow> within v q \<Longrightarrow> within p q \<or> within q p"
begin

definition authorises :: "'p \<times> bool \<Rightarrow> 'p \<Rightarrow> bool" where
  "authorises scope v \<longleftrightarrow> v = fst scope \<or> (snd scope \<and> within v (fst scope))"

definition overlaps :: "'p \<times> bool \<Rightarrow> 'p \<times> bool \<Rightarrow> bool" where
  "overlaps a b \<longleftrightarrow> fst a = fst b \<or> (snd a \<and> within (fst b) (fst a)) \<or> (snd b \<and> within (fst a) (fst b))"

lemma overlaps_sym: "overlaps a b \<longleftrightarrow> overlaps b a"
  by (auto simp: overlaps_def)

lemma overlaps_iff_common: "overlaps a b \<longleftrightarrow> (\<exists>v. authorises a v \<and> authorises b v)"
proof
  assume "overlaps a b"
  then show "\<exists>v. authorises a v \<and> authorises b v"
    by (auto simp: overlaps_def authorises_def)
next
  assume "\<exists>v. authorises a v \<and> authorises b v"
  then obtain v where "authorises a v" "authorises b v" by blast
  then show "overlaps a b"
    using within_chain [of v "fst a" "fst b"] by (auto simp: overlaps_def authorises_def)
qed

lemma authorises_within: "authorises scope v \<Longrightarrow> within v (fst scope)"
  by (auto simp: authorises_def within_refl)

lemma authorises_narrow:
  "overlaps (p, True) (q, d) \<Longrightarrow> within q p \<Longrightarrow> authorises (q, d) v \<Longrightarrow> authorises (p, True) v"
  by (auto simp: authorises_def intro: within_trans)

end

lemma relative_to_ok_antisym: "relative_to_ok p q \<Longrightarrow> relative_to_ok q p \<Longrightarrow> p = q"
  by (cases p; cases q) (auto simp: relative_to_ok_def intro: prefix_order.antisym)

interpretation posix: containment relative_to_ok
proof unfold_locales
  show "relative_to_ok p p" for p by (simp add: relative_to_ok_def)
  show "relative_to_ok p q \<Longrightarrow> relative_to_ok q r \<Longrightarrow> relative_to_ok p r" for p q r
    by (auto simp: relative_to_ok_def intro: prefix_order.trans)
  show "relative_to_ok p q \<Longrightarrow> relative_to_ok q p \<Longrightarrow> p = q" for p q
    by (rule relative_to_ok_antisym)
  show "relative_to_ok v p \<Longrightarrow> relative_to_ok v q \<Longrightarrow> relative_to_ok p q \<or> relative_to_ok q p" for v p q
    by (auto simp: relative_to_ok_def dest: prefix_same_cases)
qed

lemma parsed_scope_not_dot:
  "parse_writable_path s = Inr (p, d) \<Longrightarrow> p \<noteq> pure_posix_path ''.''"
  by (auto dest!: parse_writable_path_Inr simp: pure_posix_path_def)

lemma writable_path_allows_one:
  "parse_writable_path s = Inr (p, d) \<Longrightarrow>
   writable_path_allows [s] v = Inr (posix.authorises (p, d) (pure_posix_path v))"
  using parsed_scope_not_dot [of s p d]
  by (auto simp: posix.authorises_def pure_path_is_within_def)

lemma writable_paths_overlap_eq:
  "parse_writable_path s = Inr (p, d) \<Longrightarrow> parse_writable_path t = Inr (q, e) \<Longrightarrow>
   writable_paths_overlap s t = Inr (posix.overlaps (p, d) (q, e))"
  by (auto simp: writable_paths_overlap_def posix.overlaps_def is_within_def)

lemma as_posix_inverse:
  assumes "parse_writable_path s = Inr (p, d)"
  shows "pure_posix_path (as_posix p) = p"
  using pure_posix_path_of_segments [of "path_parts p"] parse_writable_path_Inr [OF assms]
  by (simp add: as_posix_def)

end
