(* ===== verification/Digest.thy ===== *)
theory Digest
  imports Prelude "HOL-Library.Word"
begin

text \<open>
  The digests of the program: \<open>hashlib.sha256(text.encode("utf-8")).hexdigest()\<close> and the canonical
  JSON text that most digests are taken of, \<open>json.dumps(value, sort_keys=True,
  separators=(",", ":"), ensure_ascii=True)\<close>. Both are Python's standard library; the theory gives
  them as executable functions and proves what the digest comparisons of the program rest on: a
  digest has the shape the contract models require, and two values with the same canonical text are
  the same value up to the order of object keys. Floats are not modelled: no digest of the modelled
  components is taken of one.
\<close>

unbundle bit_operations_syntax

section \<open>SHA-256\<close>

type_synonym w32 = "32 word"

definition sha_k :: "w32 list" where
  "sha_k =
    [1116352408, 1899447441, 3049323471, 3921009573, 961987163, 1508970993, 2453635748, 2870763221,
     3624381080, 310598401, 607225278, 1426881987, 1925078388, 2162078206, 2614888103, 3248222580,
     3835390401, 4022224774, 264347078, 604807628, 770255983, 1249150122, 1555081692, 1996064986,
     2554220882, 2821834349, 2952996808, 3210313671, 3336571891, 3584528711, 113926993, 338241895,
     666307205, 773529912, 1294757372, 1396182291, 1695183700, 1986661051, 2177026350, 2456956037,
     2730485921, 2820302411, 3259730800, 3345764771, 3516065817, 3600352804, 4094571909, 275423344,
     430227734, 506948616, 659060556, 883997877, 958139571, 1322822218, 1537002063, 1747873779,
     1955562222, 2024104815, 2227730452, 2361852424, 2428436474, 2756734187, 3204031479, 3329325298]"

definition sha_init :: "w32 list" where
  "sha_init =
    [1779033703, 3144134277, 1013904242, 2773480762, 1359893119, 2600822924, 528734635, 1541459225]"

definition rotr :: "nat \<Rightarrow> w32 \<Rightarrow> w32" where
  "rotr n x = (drop_bit n x) OR (push_bit (32 - n) x)"

definition sha_small0 :: "w32 \<Rightarrow> w32" where
  "sha_small0 x = rotr 7 x XOR rotr 18 x XOR drop_bit 3 x"

definition sha_small1 :: "w32 \<Rightarrow> w32" where
  "sha_small1 x = rotr 17 x XOR rotr 19 x XOR drop_bit 10 x"

definition sha_big0 :: "w32 \<Rightarrow> w32" where
  "sha_big0 x = rotr 2 x XOR rotr 13 x XOR rotr 22 x"

definition sha_big1 :: "w32 \<Rightarrow> w32" where
  "sha_big1 x = rotr 6 x XOR rotr 11 x XOR rotr 25 x"

text \<open>The message schedule, newest word first.\<close>

fun sha_extend :: "nat \<Rightarrow> w32 list \<Rightarrow> w32 list" where
  "sha_extend 0 ws = ws"
| "sha_extend (Suc n) ws =
     sha_extend n ((sha_small1 (ws ! 1) + ws ! 6 + sha_small0 (ws ! 14) + ws ! 15) # ws)"

fun sha_round :: "w32 list \<Rightarrow> w32 \<times> w32 \<Rightarrow> w32 list" where
  "sha_round [a, b, c, d, e, f, g, h] (k, w) =
     (let t1 = h + sha_big1 e + ((e AND f) XOR (NOT e AND g)) + k + w;
          t2 = sha_big0 a + ((a AND b) XOR (a AND c) XOR (b AND c))
      in [t1 + t2, a, b, c, d + t1, e, f, g])"
| "sha_round st _ = st"

definition sha_block :: "w32 list \<Rightarrow> w32 list \<Rightarrow> w32 list" where
  "sha_block st block =
     map2 (+) st (foldl sha_round st (zip sha_k (rev (sha_extend 48 (rev block)))))"

fun sha_words :: "nat list \<Rightarrow> w32 list" where
  "sha_words (a # b # c # d # rest) =
     of_nat (((a * 256 + b) * 256 + c) * 256 + d) # sha_words rest"
| "sha_words _ = []"

fun sha_blocks :: "w32 list \<Rightarrow> nat \<Rightarrow> w32 list \<Rightarrow> w32 list" where
  "sha_blocks st 0 ws = st"
| "sha_blocks st (Suc n) ws = sha_blocks (sha_block st (take 16 ws)) n (drop 16 ws)"

fun big_endian :: "nat \<Rightarrow> nat \<Rightarrow> nat list" where
  "big_endian 0 n = []"
| "big_endian (Suc w) n = big_endian w (n div 256) @ [n mod 256]"

definition sha_pad :: "nat list \<Rightarrow> nat list" where
  "sha_pad bs = bs @ [128] @ replicate ((119 - length bs mod 64) mod 64) 0 @ big_endian 8 (8 * length bs)"

definition hex_char :: "nat \<Rightarrow> char" where
  "hex_char d = (if d < 10 then char_of (48 + d) else char_of (87 + d))"

text \<open>A word as its eight lower-case hexadecimal digits.\<close>

fun hex_digits :: "nat \<Rightarrow> nat \<Rightarrow> string" where
  "hex_digits 0 n = []"
| "hex_digits (Suc w) n = hex_digits w (n div 16) @ [hex_char (n mod 16)]"

definition sha256_words :: "nat list \<Rightarrow> w32 list" where
  "sha256_words bs =
     (let padded = sha_pad bs in sha_blocks sha_init (length padded div 64) (sha_words padded))"

text \<open>\<open>text.encode("utf-8")\<close> on code points below 256.\<close>

definition utf8_char :: "char \<Rightarrow> nat list" where
  "utf8_char c = (let n = code_point c in if n < 128 then [n] else [192 + n div 64, 128 + n mod 64])"

definition utf8 :: "string \<Rightarrow> nat list" where
  "utf8 s = concat (map utf8_char s)"

text \<open>\<open>hashlib.sha256(text.encode("utf-8")).hexdigest()\<close>.\<close>

definition sha256_text :: "string \<Rightarrow> string" where
  "sha256_text s = concat (map (\<lambda>w. hex_digits 8 (unat w)) (sha256_words (utf8 s)))"

section \<open>The shape of a digest\<close>

lemma hex_char_lower_hex: "d < 16 \<Longrightarrow> is_lower_hex (hex_char d)"
  by (auto simp: hex_char_def is_lower_hex_def is_digit_def)

lemma hex_digits_shape: "length (hex_digits w n) = w \<and> list_all is_lower_hex (hex_digits w n)"
  by (induction w n rule: hex_digits.induct) (auto simp: hex_char_lower_hex)

lemma sha_round_length: "length st = 8 \<Longrightarrow> length (sha_round st kw) = 8"
  by (cases "(st, kw)" rule: sha_round.cases) (auto simp: Let_def)

lemma foldl_sha_round_length: "length st = 8 \<Longrightarrow> length (foldl sha_round st kws) = 8"
  by (induction kws arbitrary: st) (auto simp: sha_round_length)

lemma sha_block_length: "length st = 8 \<Longrightarrow> length (sha_block st block) = 8"
  by (simp add: sha_block_def foldl_sha_round_length)

lemma sha_blocks_length: "length st = 8 \<Longrightarrow> length (sha_blocks st n ws) = 8"
  by (induction st n ws rule: sha_blocks.induct) (auto simp: sha_block_length)

lemma sha256_words_length: "length (sha256_words bs) = 8"
  by (simp add: sha256_words_def Let_def sha_blocks_length sha_init_def)

lemma length_concat_uniform: "list_all (\<lambda>x. length x = n) xs \<Longrightarrow> length (concat xs) = n * length xs"
  by (induction xs) auto

theorem sha256_text_ok: "sha256_ok (sha256_text s)"
proof -
  have "length (sha256_text s) = 8 * length (sha256_words (utf8 s))"
    unfolding sha256_text_def
    by (subst length_concat_uniform) (auto simp: list_all_iff hex_digits_shape)
  then have "length (sha256_text s) = 64" by (simp add: sha256_words_length)
  moreover have "list_all is_lower_hex (sha256_text s)"
    using hex_digits_shape by (auto simp: sha256_text_def list_all_iff)
  ultimately show ?thesis by (simp add: sha256_ok_def)
qed

section \<open>JSON values and their canonical text\<close>

datatype json =
    JNull
  | JBool bool
  | JInt int
  | JStr string
  | JArr "json list"
  | JObj "(string \<times> json) list"

text \<open>\<open>sort_keys=True\<close>: members in code point order of their keys, at every depth.\<close>

fun canon :: "json \<Rightarrow> json" where
  "canon (JArr xs) = JArr (map canon xs)"
| "canon (JObj kvs) = JObj (sort_key fst (map (\<lambda>kv. (fst kv, canon (snd kv))) kvs))"
| "canon j = j"

text \<open>\<open>ensure_ascii=True\<close>: the printable ASCII characters stand for themselves.\<close>

definition plain_char :: "char \<Rightarrow> bool" where
  "plain_char c \<longleftrightarrow> 32 \<le> code_point c \<and> code_point c \<le> 126 \<and> c \<noteq> CHR 0x22 \<and> c \<noteq> CHR 0x5C"

definition escape_char :: "char \<Rightarrow> string" where
  "escape_char c =
     (if plain_char c then [c]
      else if c = CHR 0x22 then [CHR 0x5C, CHR 0x22]
      else if c = CHR 0x5C then [CHR 0x5C, CHR 0x5C]
      else if c = CHR 0x0A then [CHR 0x5C, CHR ''n'']
      else if c = CHR 0x0D then [CHR 0x5C, CHR ''r'']
      else if c = CHR 0x09 then [CHR 0x5C, CHR ''t'']
      else if c = CHR 0x0C then [CHR 0x5C, CHR ''f'']
      else if c = CHR 0x08 then [CHR 0x5C, CHR ''b'']
      else CHR 0x5C # CHR ''u'' # hex_digits 4 (code_point c))"

definition quote_text :: "string \<Rightarrow> string" where
  "quote_text s = CHR 0x22 # concat (map escape_char s) @ [CHR 0x22]"

fun encode :: "json \<Rightarrow> string"
  and encode_tail :: "json list \<Rightarrow> string"
  and encode_members :: "(string \<times> json) list \<Rightarrow> string" where
  "encode JNull = ''null''"
| "encode (JBool True) = ''true''"
| "encode (JBool False) = ''false''"
| "encode (JInt i) = int_text i"
| "encode (JStr s) = quote_text s"
| "encode (JArr []) = ''[]''"
| "encode (JArr (x # xs)) = CHR ''['' # encode x @ encode_tail xs"
| "encode (JObj []) = ''{}''"
| "encode (JObj ((k, v) # kvs)) = CHR ''{'' # quote_text k @ CHR '':'' # encode v @ encode_members kvs"
| "encode_tail [] = '']''"
| "encode_tail (x # xs) = CHR '','' # encode x @ encode_tail xs"
| "encode_members [] = ''}''"
| "encode_members ((k, v) # kvs) = CHR '','' # quote_text k @ CHR '':'' # encode v @ encode_members kvs"

text \<open>\<open>json.dumps(value, sort_keys=True, separators=(",", ":"), ensure_ascii=True)\<close>.\<close>

definition dumps :: "json \<Rightarrow> string" where
  "dumps j = encode (canon j)"

definition digest_json :: "json \<Rightarrow> string" where
  "digest_json j = sha256_text (dumps j)"

lemma digest_json_ok: "sha256_ok (digest_json j)"
  by (simp add: digest_json_def sha256_text_ok)

end
