(* ===== verification/Config_Model.thy ===== *)
theory Config_Model
  imports Complex_Main Paths Digest
begin

text \<open>
  The project configuration of \<open>src/src/dispatcher/config.py\<close>: one record per contract model, its
  validation (\<open>..._errors\<close>: the field constraints in declaration order, then the model validator),
  and the lookups of class \<open>Config\<close> that the other components use. Not modelled: the sections no
  modelled component reads (sources, evidence, observability, preflight and structured Git settings),
  and the checks of directories, files and Git remotes on the machine.
\<close>

section \<open>String patterns\<close>

definition is_regex_space :: "char \<Rightarrow> bool" where
  "is_regex_space c \<longleftrightarrow>
     (9 \<le> code_point c \<and> code_point c \<le> 13) \<or> code_point c \<in> {32, 133, 160}"

text \<open>\<open>ModelName\<close>: \<open>^[^/\s]+/[^/\s]+$\<close>.\<close>

definition model_name_ok :: "string \<Rightarrow> bool" where
  "model_name_ok s \<longleftrightarrow>
     length (split_on (CHR ''/'') s) = 2
     \<and> list_all (\<lambda>w. w \<noteq> [] \<and> \<not> list_ex is_regex_space w) (split_on (CHR ''/'') s)"

text \<open>\<open>^[A-Za-z0-9][A-Za-z0-9._/-]{0,n}$\<close>.\<close>

fun branch_ok :: "nat \<Rightarrow> string \<Rightarrow> bool" where
  "branch_ok n [] = False"
| "branch_ok n (c # cs) =
     ((is_ascii_alpha c \<or> is_digit c) \<and> length cs \<le> n
      \<and> list_all (\<lambda>d. is_identifier_char d \<or> d = CHR ''/'') cs)"

section \<open>Repositories\<close>

datatype commit_policy = Commit_required | Commit_prohibited

record remote_definition =
  rem_name :: string
  rem_url :: string

record repository_definition =
  repo_root :: string
  repo_expected_remote :: remote_definition
  repo_default_branch :: string
  repo_evidence_roots :: "string list"
  repo_writable_roots :: "string list"
  repo_external_roots :: "string list"
  repo_commit_policy :: commit_policy
  repo_permission_policy :: string
  repo_allow_shared_writable_roots :: bool

definition remote_definition_errors :: "remote_definition \<Rightarrow> verror list" where
  "remote_definition_errors r = field_errors
     [(''name'', identifier_ok (rem_name r)), (''url'', rem_url r \<noteq> [])]"

definition nonempty_relative_roots :: "string list \<Rightarrow> bool" where
  "nonempty_relative_roots values \<longleftrightarrow> values \<noteq> [] \<and> list_all plain_relative_path values"

definition repository_definition_errors :: "repository_definition \<Rightarrow> verror list" where
  "repository_definition_errors r =
     remote_definition_errors (repo_expected_remote r) @ field_errors
       [(''default_branch'', branch_ok 300 (repo_default_branch r)),
        (''evidence_roots'', list_all (\<lambda>s. s \<noteq> []) (repo_evidence_roots r)
           \<and> nonempty_relative_roots (repo_evidence_roots r)),
        (''writable_roots'', list_all (\<lambda>s. s \<noteq> []) (repo_writable_roots r)
           \<and> nonempty_relative_roots (repo_writable_roots r)),
        (''external_roots'', list_all (\<lambda>s. s \<noteq> []) (repo_external_roots r)),
        (''permission_policy'', identifier_ok (repo_permission_policy r))]"

section \<open>Roles and profiles\<close>

datatype role_kind = Supervisor | Executor | Reviewer

record role_definition =
  role_model :: string
  role_variant :: string
  role_display :: string
  role_permission_policy :: string
  role_mcp_tools :: "string list"

definition is_lower_alnum :: "char \<Rightarrow> bool" where
  "is_lower_alnum c \<longleftrightarrow> is_digit c \<or> (97 \<le> code_point c \<and> code_point c \<le> 122)"

text \<open>
  \<open>MCPToolName\<close>: \<open>^[a-z0-9][a-z0-9-]*_[a-z0-9][a-z0-9_-]*$\<close>; the first underscore ends the first part,
  which cannot contain one.
\<close>

definition mcp_tool_name_ok :: "string \<Rightarrow> bool" where
  "mcp_tool_name_ok s \<longleftrightarrow>
     (let first = takeWhile (\<lambda>c. c \<noteq> CHR ''_'') s;
          rest = dropWhile (\<lambda>c. c \<noteq> CHR ''_'') s
      in first \<noteq> [] \<and> is_lower_alnum (hd first)
         \<and> list_all (\<lambda>c. is_lower_alnum c \<or> c = CHR ''-'') (tl first)
         \<and> tl rest \<noteq> [] \<and> is_lower_alnum (hd (tl rest))
         \<and> list_all (\<lambda>c. is_lower_alnum c \<or> c \<in> set ''_-'') (tl (tl rest)))"

definition role_definition_errors :: "role_definition \<Rightarrow> verror list" where
  "role_definition_errors r = field_errors
     [(''model'', model_name_ok (role_model r)),
      (''variant'', length_between 1 100 (role_variant r)),
      (''display'', length_between 1 200 (role_display r)),
      (''permission_policy'', identifier_ok (role_permission_policy r)),
      (''mcp_tools'', list_all mcp_tool_name_ok (role_mcp_tools r))]"

record roles_definition =
  roles_supervisor :: "(string, role_definition) dict"
  roles_executors :: "(string, role_definition) dict"
  roles_reviewers :: "(string, role_definition) dict"

definition role_dict_errors :: "(string, role_definition) dict \<Rightarrow> verror list" where
  "role_dict_errors d =
     concat (map (\<lambda>kv. field_errors [(''[key]'', identifier_ok (fst kv))] @ role_definition_errors (snd kv)) d)"

definition roles_definition_errors :: "roles_definition \<Rightarrow> verror list" where
  "roles_definition_errors r =
     then_rules
       (role_dict_errors (roles_supervisor r) @ role_dict_errors (roles_executors r)
        @ role_dict_errors (roles_reviewers r))
       (let keys = dkeys (roles_supervisor r) @ dkeys (roles_executors r) @ dkeys (roles_reviewers r)
        in first_rule
          [(length (roles_supervisor r) \<noteq> 1, ''roles.supervisor must define exactly one role''),
           (roles_executors r = [], ''roles.executors must define at least one role''),
           (\<not> distinct keys, ''role keys must be unique across supervisor, executors, and reviewers'')])"

datatype review_schedule = Schedule_on_failure | Schedule_critical | Schedule_always
datatype multi_review = Multi_off | Multi_on_critical_only | Multi_on_every_review

record profile_definition =
  prof_review_schedule :: review_schedule
  prof_multi_review :: multi_review
  prof_reviewer_role_keys :: "string list"
  prof_required_acceptances :: int

definition profile_definition_errors :: "profile_definition \<Rightarrow> verror list" where
  "profile_definition_errors p =
     then_rules
       (field_errors
         [(''reviewer_role_keys'', list_all identifier_ok (prof_reviewer_role_keys p)),
          (''required_acceptances'', 1 \<le> prof_required_acceptances p \<and> prof_required_acceptances p \<le> 20)])
       (first_rule
         [(\<not> distinct (prof_reviewer_role_keys p), ''reviewer_role_keys must not contain duplicates''),
          (int (length (prof_reviewer_role_keys p)) < prof_required_acceptances p,
             ''required_acceptances cannot exceed reviewer_role_keys''),
          (prof_multi_review p = Multi_off \<and> prof_required_acceptances p \<noteq> 1,
             ''multi_review off profiles require exactly one acceptance''),
          (prof_multi_review p \<noteq> Multi_off \<and> prof_required_acceptances p < 2,
             ''multi_review profiles require at least two acceptances'')])"

record profiles_document =
  pd_profiles :: "(string, profile_definition) dict"
  pd_default :: string

definition profiles_document_errors :: "profiles_document \<Rightarrow> verror list" where
  "profiles_document_errors d =
     then_rules
       (concat (map (\<lambda>kv. field_errors [(''[key]'', identifier_ok (fst kv))] @ profile_definition_errors (snd kv))
          (pd_profiles d)) @ field_errors [(''default'', identifier_ok (pd_default d))])
       (first_rule [(dget (pd_profiles d) (pd_default d) = None, ''profiles.default must reference profiles'')])"

section \<open>Execution\<close>

datatype same_repository_mode = Serialized | Worktree_barrier
datatype execution_mode = Mock_workflow_test | Real_operation
datatype verification_backend = Darwin_seatbelt_v1 | Linux_bwrap_v1 | Direct_test_v1
datatype scheduling = Sequential_scheduling | Bounded_parallel
datatype underspec_mode = Underspec_ask | Underspec_auto
datatype on_exhausted = Exhausted_ask | Exhausted_halt | Exhausted_fail

record concurrency_definition =
  conc_max_active_dispatches :: int
  conc_max_batch_size :: int
  conc_role_capacities :: "(string, int) dict"
  conc_same_repository_mode :: same_repository_mode
  conc_worktree_root :: string
  conc_worktree_branch_prefix :: string

definition concurrency_definition_errors :: "concurrency_definition \<Rightarrow> verror list" where
  "concurrency_definition_errors c =
     then_rules
       (field_errors
         [(''max_active_dispatches'', 1 \<le> conc_max_active_dispatches c \<and> conc_max_active_dispatches c \<le> 100),
          (''max_batch_size'', 1 \<le> conc_max_batch_size c \<and> conc_max_batch_size c \<le> 100),
          (''role_capacities'', list_all (\<lambda>kv. identifier_ok (fst kv) \<and> 1 \<le> snd kv \<and> snd kv \<le> 100)
             (conc_role_capacities c)),
          (''worktree_root'', conc_worktree_root c \<noteq> []),
          (''worktree_branch_prefix'', branch_ok 80 (conc_worktree_branch_prefix c))])
       (first_rule
         [(conc_max_active_dispatches c < conc_max_batch_size c,
             ''max_batch_size cannot exceed max_active_dispatches''),
          (sum_list (map snd (conc_role_capacities c)) < conc_max_active_dispatches c,
             ''max_active_dispatches cannot exceed total role capacity'')])"

record stall_policy_definition =
  stall_maximum_retries_per_step :: int
  stall_cooldown_seconds :: int
  stall_on_exhausted :: on_exhausted

definition stall_policy_definition_errors :: "stall_policy_definition \<Rightarrow> verror list" where
  "stall_policy_definition_errors s = field_errors
     [(''maximum_retries_per_step'', 0 \<le> stall_maximum_retries_per_step s \<and> stall_maximum_retries_per_step s \<le> 20),
      (''cooldown_seconds'', 0 \<le> stall_cooldown_seconds s \<and> stall_cooldown_seconds s \<le> 86400)]"

record execution_definition =
  exe_mode :: execution_mode
  exe_verification_backend :: verification_backend
  exe_scheduling :: scheduling
  exe_concurrency :: concurrency_definition
  exe_default_repo_id :: string
  exe_timeout_seconds :: int
  exe_max_rounds_per_step :: int
  exe_stall_policy :: stall_policy_definition
  exe_underspec_mode :: underspec_mode

definition execution_definition_errors :: "execution_definition \<Rightarrow> verror list" where
  "execution_definition_errors e =
     then_rules
       (concurrency_definition_errors (exe_concurrency e)
        @ field_errors
           [(''default_repo_id'', identifier_ok (exe_default_repo_id e)),
            (''timeout_seconds'', 1 \<le> exe_timeout_seconds e \<and> exe_timeout_seconds e \<le> 86400),
            (''max_rounds_per_step'', 1 \<le> exe_max_rounds_per_step e \<and> exe_max_rounds_per_step e \<le> 100)]
        @ stall_policy_definition_errors (exe_stall_policy e))
       (first_rule
         [(exe_mode e = Real_operation \<and> exe_verification_backend e = Direct_test_v1,
             ''direct_test_v1 verification backend is only allowed in mock_workflow_test mode'')])"

record review_policy_definition =
  rp_mandatory_review :: bool
  rp_critical_risk_tags :: "string list"
  rp_allow_operator_waiver :: bool

definition review_policy_definition_errors :: "review_policy_definition \<Rightarrow> verror list" where
  "review_policy_definition_errors r = field_errors
     [(''critical_risk_tags'', list_all identifier_ok (rp_critical_risk_tags r) \<and> distinct (rp_critical_risk_tags r))]"

datatype on_limit = Limit_halt | Limit_ask

record budget_definition =
  bud_enabled :: bool
  bud_max_run_cost_usd :: rat
  bud_max_step_cost_usd :: rat
  bud_max_context_tokens :: int
  bud_on_limit :: on_limit

definition budget_definition_errors :: "budget_definition \<Rightarrow> verror list" where
  "budget_definition_errors b = field_errors
     [(''max_run_cost_usd'', 0 \<le> bud_max_run_cost_usd b),
      (''max_step_cost_usd'', 0 \<le> bud_max_step_cost_usd b),
      (''max_context_tokens'', 1 \<le> bud_max_context_tokens b)]"

section \<open>Permission policies\<close>

datatype permission_decision = Allow | Ask | Deny

datatype permission_action =
  Inspect | Modify | Verify | Commit | Push | Force_push | Create_branch

definition PERMISSION_ACTIONS :: "permission_action list" where
  "PERMISSION_ACTIONS = [Inspect, Modify, Verify, Commit, Push, Force_push, Create_branch]"

fun action_name :: "permission_action \<Rightarrow> string" where
  "action_name Inspect = ''inspect''"
| "action_name Modify = ''modify''"
| "action_name Verify = ''verify''"
| "action_name Commit = ''commit''"
| "action_name Push = ''push''"
| "action_name Force_push = ''force_push''"
| "action_name Create_branch = ''create_branch''"

record permission_policy =
  pp_default :: permission_decision
  pp_actions :: "(permission_action, permission_decision) dict"

record role_class_policies =
  rcp_supervisor :: string
  rcp_executor :: string
  rcp_reviewer :: string

record permission_policies_definition =
  pps_global_policy :: string
  pps_project_policy :: string
  pps_role_class_policies :: role_class_policies
  pps_policies :: "(string, permission_policy) dict"

definition permission_policies_definition_errors :: "permission_policies_definition \<Rightarrow> verror list" where
  "permission_policies_definition_errors p = field_errors
     [(''global_policy'', identifier_ok (pps_global_policy p)),
      (''project_policy'', identifier_ok (pps_project_policy p)),
      (''role_class_policies'', identifier_ok (rcp_supervisor (pps_role_class_policies p))
         \<and> identifier_ok (rcp_executor (pps_role_class_policies p))
         \<and> identifier_ok (rcp_reviewer (pps_role_class_policies p))),
      (''policies'', list_all identifier_ok (dkeys (pps_policies p)))]"

text \<open>\<open>role_class_policies.model_dump()\<close>.\<close>

definition role_class_entries :: "role_class_policies \<Rightarrow> (string \<times> string) list" where
  "role_class_entries r =
     [(''supervisor'', rcp_supervisor r), (''executor'', rcp_executor r), (''reviewer'', rcp_reviewer r)]"

section \<open>MCP servers and cluster targets\<close>

datatype mcp_server =
    Local_server (server_enabled: bool) (server_command: "string list") (server_environment: "(string, string) dict")
  | Remote_server (server_enabled: bool) (server_url: string) (server_headers: "(string, string) dict")

record mcp_registry =
  mcp_environment_passthrough :: "string list"
  mcp_servers :: "(string, mcp_server) dict"

definition MCP_TOOL_CATALOG :: "(string, string) dict" where
  "MCP_TOOL_CATALOG =
    [(''context7_resolve-library-id'', ''context7''),
     (''context7_query-docs'', ''context7''),
     (''repomix_pack_codebase'', ''repomix''),
     (''repomix_pack_remote_repository'', ''repomix''),
     (''repomix_attach_packed_output'', ''repomix''),
     (''repomix_read_repomix_output'', ''repomix''),
     (''repomix_grep_repomix_output'', ''repomix''),
     (''repomix_file_system_read_directory'', ''repomix''),
     (''repomix_file_system_read_file'', ''repomix''),
     (''semble_search'', ''semble''),
     (''semble_find_related'', ''semble'')]"

definition DEFAULT_INHERITED_MCP_TOOLS :: "string list" where
  "DEFAULT_INHERITED_MCP_TOOLS = dkeys MCP_TOOL_CATALOG"

record cluster_preflight_target =
  cpf_target_id :: string
  cpf_context :: string

record cluster_mutation_target =
  cmt_context :: string
  cmt_toolchain :: "string \<times> string"
  cmt_allowed_repository_ids :: "string list"
  cmt_operation_manifest_roots :: "string list"
  cmt_source_file_roots :: "string list"
  cmt_max_snapshot_age_seconds :: int
  cmt_max_action_timeout_seconds :: int
  cmt_preflight_target_id :: string

section \<open>The project configuration\<close>

record project_config =
  pc_project_id :: string
  pc_state_heartbeat_seconds :: int
  pc_state_stale_after_seconds :: int
  pc_repositories :: "(string, repository_definition) dict"
  pc_roles :: roles_definition
  pc_profile_id :: string
  pc_execution :: execution_definition
  pc_review_policy :: review_policy_definition
  pc_budget :: budget_definition
  pc_permission_policies :: permission_policies_definition
  pc_cluster_preflight :: "cluster_preflight_target option"
  pc_cluster_mutation :: "(string, cluster_mutation_target) dict option"
  pc_mcp :: "mcp_registry option"

record config =
  cfg_model :: project_config
  cfg_profiles :: profiles_document

definition all_roles :: "project_config \<Rightarrow> (string, role_definition) dict" where
  "all_roles m =
     dict_of (roles_supervisor (pc_roles m) @ roles_executors (pc_roles m) @ roles_reviewers (pc_roles m))"

text \<open>
  Whether a configured tool is an executable file is a question to the machine: \<open>executable\<close> answers
  \<open>path.is_file() and os.access(path, os.X_OK)\<close>.
\<close>

definition validate_cluster_mutation_toolchain :: "(string \<Rightarrow> bool) \<Rightarrow> string \<times> string \<Rightarrow> verror list" where
  "validate_cluster_mutation_toolchain executable tools =
     first_rule
       [(\<not> executable (fst tools), ''cluster_mutation.toolchain.kubectl.path''),
        (\<not> executable (snd tools), ''cluster_mutation.toolchain.helm.path'')]"

definition validate_cluster_mutation_targets :: "(string \<Rightarrow> bool) \<Rightarrow> project_config \<Rightarrow> verror list" where
  "validate_cluster_mutation_targets executable m =
     (case pc_cluster_mutation m of
        None \<Rightarrow> []
      | Some targets \<Rightarrow>
          (case pc_cluster_preflight m of
             None \<Rightarrow> [Rule ''cluster_mutation requires cluster_preflight'']
           | Some preflight \<Rightarrow>
               first_error (map (\<lambda>(target_name, target). first_error
                 [first_rule
                    [(cmt_preflight_target_id target \<noteq> cpf_target_id preflight,
                        ''cluster_mutation.targets.'' @ target_name
                        @ ''.preflight_target_id must reference cluster_preflight.target_id''),
                     (cmt_context target \<noteq> cpf_context preflight,
                        ''cluster_mutation.targets.'' @ target_name
                        @ ''.context must match cluster_preflight.context''),
                     (list_ex (\<lambda>r. dget (pc_repositories m) r = None) (cmt_allowed_repository_ids target),
                        ''cluster_mutation.targets.'' @ target_name
                        @ ''.allowed_repository_ids must reference repositories'')],
                  validate_cluster_mutation_toolchain executable (cmt_toolchain target)]) targets)))"

definition validate_mcp_registry :: "project_config \<Rightarrow> verror list" where
  "validate_mcp_registry m =
     first_error (map (\<lambda>(role_key, role). first_error
       (first_rule
          [(\<not> distinct (role_mcp_tools role),
              ''roles.'' @ role_key @ ''.mcp_tools must not contain duplicate tools'')]
        # map (\<lambda>tool.
            case dget MCP_TOOL_CATALOG tool of
              None \<Rightarrow> [Rule (''roles.'' @ role_key @ ''.mcp_tools tool '' @ repr_text tool
                          @ '' is not in the configured MCP tool catalog'')]
            | Some server_key \<Rightarrow>
                (case pc_mcp m of
                   None \<Rightarrow> []
                 | Some registry \<Rightarrow>
                     (case dget (mcp_servers registry) server_key of
                        None \<Rightarrow> [Rule (''roles.'' @ role_key @ ''.mcp_tools tool '' @ repr_text tool
                                    @ '' does not reference a configured MCP server'')]
                      | Some server \<Rightarrow> first_rule
                          [(\<not> server_enabled server,
                              ''roles.'' @ role_key @ ''.mcp_tools tool '' @ repr_text tool
                              @ '' references disabled MCP server '' @ repr_text server_key)])))
          (role_mcp_tools role))) (all_roles m))"

text \<open>The loops of \<open>validate_references\<close>, in the order the validator runs them.\<close>

definition policy_keys :: "project_config \<Rightarrow> string list" where
  "policy_keys m = dkeys (pps_policies (pc_permission_policies m))"

definition repository_policy_errors :: "project_config \<Rightarrow> verror list" where
  "repository_policy_errors m =
     first_error (map (\<lambda>(repo_id, repository). first_rule
       [(repo_permission_policy repository \<notin> set (policy_keys m),
           ''repositories.'' @ repo_id @ ''.permission_policy must reference permission_policies'')])
       (pc_repositories m))"

definition role_policy_errors :: "project_config \<Rightarrow> verror list" where
  "role_policy_errors m =
     first_error (map (\<lambda>(role_key, role). first_rule
       [(role_permission_policy role \<notin> set (policy_keys m),
           ''roles.'' @ role_key @ ''.permission_policy must reference permission_policies'')])
       (all_roles m))"

definition layer_policy_errors :: "project_config \<Rightarrow> verror list" where
  "layer_policy_errors m =
     (let pps = pc_permission_policies m
      in first_error (map (\<lambda>(layer_name, policy_id). first_rule
           [(policy_id \<notin> set (policy_keys m),
               ''permission_policies.'' @ layer_name @ '' must reference permission_policies.policies'')])
           ([(''global_policy'', pps_global_policy pps), (''project_policy'', pps_project_policy pps)]
            @ role_class_entries (pps_role_class_policies pps))))"

definition role_class_action_errors :: "project_config \<Rightarrow> verror list" where
  "role_class_action_errors m =
     (let pps = pc_permission_policies m
      in first_error (map (\<lambda>(role_kind, policy_id).
           case dget (pps_policies pps) policy_id of
             None \<Rightarrow> [Rule ''KeyError'']
           | Some policy \<Rightarrow> first_rule
               [(set (dkeys (pp_actions policy)) \<noteq> set PERMISSION_ACTIONS,
                   ''permission_policies.role_class_policies.'' @ role_kind @ '' policy '' @ repr_text policy_id
                   @ '' must define every permission action exactly once; missing: ''
                   @ listed_or_none (sort (map action_name (filter (\<lambda>a. a \<notin> set (dkeys (pp_actions policy)))
                       PERMISSION_ACTIONS)))
                   @ ''; extra: '' @ listed_or_none [])])
           (role_class_entries (pps_role_class_policies pps))))"

definition validate_references :: "(string \<Rightarrow> bool) \<Rightarrow> project_config \<Rightarrow> verror list" where
  "validate_references executable m =
     (let repositories = pc_repositories m;
          conc = exe_concurrency (pc_execution m);
          worker_roles = dkeys (roles_executors (pc_roles m)) @ dkeys (roles_reviewers (pc_roles m))
      in first_error
        [first_rule
           [(repositories = [], ''repositories must define at least one repository''),
            (dget repositories (exe_default_repo_id (pc_execution m)) = None,
               ''execution.default_repo_id must reference repositories''),
            (policy_keys m = [], ''permission_policies must define at least one policy'')],
         repository_policy_errors m,
         role_policy_errors m,
         first_rule
           [(set (dkeys (conc_role_capacities conc)) \<noteq> set worker_roles,
               ''execution.concurrency.role_capacities must exactly match worker roles''),
            (exe_scheduling (pc_execution m) = Sequential_scheduling \<and> conc_max_active_dispatches conc \<noteq> 1,
               ''sequential scheduling requires max_active_dispatches to be 1'')],
         layer_policy_errors m,
         role_class_action_errors m,
         validate_cluster_mutation_targets executable m,
         validate_mcp_registry m])"

section \<open>Lookups of class Config\<close>

definition config_repository :: "config \<Rightarrow> string \<Rightarrow> exn + repository_definition" where
  "config_repository c repo_id =
     (case dget (pc_repositories (cfg_model c)) repo_id of
        None \<Rightarrow> Inl (ConfigError (''unknown repository id: '' @ repo_id))
      | Some r \<Rightarrow> Inr r)"

definition config_role :: "config \<Rightarrow> string \<Rightarrow> exn + role_definition" where
  "config_role c role_key =
     (case dget (all_roles (cfg_model c)) role_key of
        None \<Rightarrow> Inl (ConfigError (''unknown role key: '' @ role_key))
      | Some r \<Rightarrow> Inr r)"

definition config_role_kind :: "config \<Rightarrow> string \<Rightarrow> exn + role_kind" where
  "config_role_kind c role_key =
     (let roles = pc_roles (cfg_model c)
      in if dget (roles_supervisor roles) role_key \<noteq> None then Inr Supervisor
         else if dget (roles_executors roles) role_key \<noteq> None then Inr Executor
         else if dget (roles_reviewers roles) role_key \<noteq> None then Inr Reviewer
         else Inl (ConfigError (''unknown role key: '' @ role_key)))"

definition role_class_policy :: "role_class_policies \<Rightarrow> role_kind \<Rightarrow> string" where
  "role_class_policy r k =
     (case k of Supervisor \<Rightarrow> rcp_supervisor r | Executor \<Rightarrow> rcp_executor r | Reviewer \<Rightarrow> rcp_reviewer r)"

text \<open>Policy layers in precedence order: global, project, repository, role class, concrete role.\<close>

definition permission_policy_layers :: "config \<Rightarrow> string \<Rightarrow> string \<Rightarrow> exn + permission_policy list" where
  "permission_policy_layers c repo_id role_key =
     (let policy_set = pc_permission_policies (cfg_model c)
      in bindr (config_repository c repo_id) (\<lambda>repository.
         bindr (config_role c role_key) (\<lambda>role.
         bindr (config_role_kind c role_key) (\<lambda>kind.
           map_result (\<lambda>policy_id. case dget (pps_policies policy_set) policy_id of
               None \<Rightarrow> Inl (KeyError policy_id) | Some p \<Rightarrow> Inr p)
             [pps_global_policy policy_set,
              pps_project_policy policy_set,
              repo_permission_policy repository,
              role_class_policy (pps_role_class_policies policy_set) kind,
              role_permission_policy role]))))"

lemma role_kind_cases:
  "config_role_kind c k = Inr Supervisor \<longleftrightarrow> k \<in> set (dkeys (roles_supervisor (pc_roles (cfg_model c))))"
  by (simp add: config_role_kind_def Let_def map_of_eq_None_iff)

lemma all_roles_None:
  "dget (all_roles m) k = None \<longleftrightarrow>
     dget (roles_supervisor (pc_roles m)) k = None \<and> dget (roles_executors (pc_roles m)) k = None
     \<and> dget (roles_reviewers (pc_roles m)) k = None"
  unfolding all_roles_def dict_of_map_of map_of_eq_None_iff by auto

text \<open>A role with a kind has a definition, and the other way round.\<close>

lemma config_role_kind_iff: "(\<exists>kind. config_role_kind c k = Inr kind) \<longleftrightarrow> (\<exists>r. config_role c k = Inr r)"
  using all_roles_None [of "cfg_model c" k]
  by (auto simp: config_role_kind_def config_role_def Let_def split: option.splits)

text \<open>
  Every layer of a validated configuration resolves: compiling the policy of a registered repository
  and role never fails on a lookup.
\<close>

lemma map_result_total: "(\<And>x. x \<in> set xs \<Longrightarrow> \<exists>y. f x = Inr y) \<Longrightarrow> \<exists>ys. map_result f xs = Inr ys"
proof (induction xs)
  case (Cons x xs)
  from Cons.prems [of x] obtain y where "f x = Inr y" by auto
  moreover from Cons obtain ys where "map_result f xs = Inr ys" by auto
  ultimately show ?case by simp
qed simp

lemma validate_references_parts:
  assumes "validate_references executable m = []"
  shows "repository_policy_errors m = []" "role_policy_errors m = []" "layer_policy_errors m = []"
    "role_class_action_errors m = []" "validate_mcp_registry m = []"
    "set (dkeys (conc_role_capacities (exe_concurrency (pc_execution m))))
       = set (dkeys (roles_executors (pc_roles m))) \<union> set (dkeys (roles_reviewers (pc_roles m)))"
  using assms by (simp_all add: validate_references_def Let_def)

lemma repository_policy_known:
  "repository_policy_errors m = [] \<Longrightarrow> (k, r) \<in> set (pc_repositories m) \<Longrightarrow>
   repo_permission_policy r \<in> set (policy_keys m)"
  by (fastforce simp: repository_policy_errors_def)

lemma role_policy_known:
  "role_policy_errors m = [] \<Longrightarrow> (k, d) \<in> set (all_roles m) \<Longrightarrow>
   role_permission_policy d \<in> set (policy_keys m)"
  by (fastforce simp: role_policy_errors_def)

lemma layer_policy_known:
  assumes "layer_policy_errors m = []"
  shows "pps_global_policy (pc_permission_policies m) \<in> set (policy_keys m)"
    "pps_project_policy (pc_permission_policies m) \<in> set (policy_keys m)"
    "role_class_policy (pps_role_class_policies (pc_permission_policies m)) kind \<in> set (policy_keys m)"
  using assms
  by (simp_all add: layer_policy_errors_def Let_def role_class_entries_def role_class_policy_def
      split: role_kind.split)

lemma role_class_actions_complete:
  assumes "role_class_action_errors m = []"
  shows "\<exists>policy. dget (pps_policies (pc_permission_policies m))
           (role_class_policy (pps_role_class_policies (pc_permission_policies m)) kind) = Some policy
         \<and> set (dkeys (pp_actions policy)) = set PERMISSION_ACTIONS"
  using assms
  by (cases kind) (simp_all add: role_class_action_errors_def Let_def role_class_entries_def
      role_class_policy_def split: option.splits)

lemma permission_policy_layers_total:
  assumes refs: "validate_references executable (cfg_model c) = []"
    and repo: "config_repository c repo_id = Inr repository"
    and role: "config_role c role_key = Inr role"
  shows "\<exists>layers. permission_policy_layers c repo_id role_key = Inr layers"
proof -
  from role obtain kind where kind: "config_role_kind c role_key = Inr kind"
    using config_role_kind_iff by blast
  from repo have r: "(repo_id, repository) \<in> set (pc_repositories (cfg_model c))"
    by (auto simp: config_repository_def split: option.splits dest: map_of_SomeD)
  from role have d: "(role_key, role) \<in> set (all_roles (cfg_model c))"
    by (auto simp: config_role_def split: option.splits dest: map_of_SomeD)
  have found: "p \<in> set (policy_keys m) \<Longrightarrow> \<exists>x. dget (pps_policies (pc_permission_policies m)) p = Some x"
    for p m
    unfolding policy_keys_def by (metis dget_None_iff not_None_eq)
  note parts = validate_references_parts [OF refs]
  note known = found [OF repository_policy_known [OF parts(1) r]] found [OF role_policy_known [OF parts(2) d]]
    layer_policy_known [OF parts(3), THEN found]
  show ?thesis
    unfolding permission_policy_layers_def Let_def repo role kind bindr.simps
    by (rule map_result_total) (use known in \<open>auto split: option.split\<close>)
qed

end
