(* ===== verification/Canonical_Text.thy ===== *)
theory Canonical_Text
  imports Digest
begin

text \<open>
  The canonical JSON text determines the value: no two values that differ by more than the order of
  object keys have the same text. The comparisons of plan, policy, snapshot and approval digests in
  the program rest on this; what remains open is only a collision of SHA-256 itself.
\<close>

section \<open>Reading one escaped character back\<close>

definition hex_value :: "char \<Rightarrow> nat" where
  "hex_value c = (if code_point c < 58 then code_point c - 48 else code_point c - 87)"

definition unhex :: "string \<Rightarrow> nat" where
  "unhex s = foldl (\<lambda>a c. a * 16 + hex_value c) 0 s"

definition short_escape :: "char \<Rightarrow> char" where
  "short_escape c =
     (if c = CHR ''n'' then CHR 0x0A else if c = CHR ''r'' then CHR 0x0D
      else if c = CHR ''t'' then CHR 0x09 else if c = CHR ''f'' then CHR 0x0C
      else if c = CHR ''b'' then CHR 0x08 else c)"

fun unescape :: "string \<Rightarrow> char \<times> string" where
  "unescape (c # x # r) =
     (if c \<noteq> CHR 0x5C then (c, x # r)
      else if x = CHR ''u'' then (char_of (unhex (take 4 r)), drop 4 r)
      else (short_escape x, r))"
| "unescape [c] = (c, [])"
| "unescape [] = (CHR 0x00, [])"

lemma hex_value_hex_char: "d < 16 \<Longrightarrow> hex_value (hex_char d) = d"
  by (auto simp: hex_value_def hex_char_def)

lemma unhex_hex_digits: "unhex (hex_digits w n) = n mod 16 ^ w"
proof (induction w n rule: hex_digits.induct)
  case (2 w n)
  then show ?case
    by (simp add: unhex_def hex_value_hex_char mod_mult2_eq [of n 16] algebra_simps)
qed (simp add: unhex_def)

lemma unescape_escape: "unescape (escape_char c @ r) = (c, r)"
proof -
  have small: "code_point c mod 65536 = code_point c"
    by (rule mod_less) (rule less_trans [OF nat_of_char_less_256], simp)
  show ?thesis
    using unhex_hex_digits [of 4 "code_point c"] small hex_digits_shape [of 4 "code_point c"]
    by (cases r) (auto simp: escape_char_def plain_char_def short_escape_def)
qed

lemma escape_char_inj: "escape_char c @ r = escape_char d @ s \<Longrightarrow> c = d \<and> r = s"
  by (metis unescape_escape prod.inject)

lemma escape_char_hd: "\<exists>x xs. escape_char c = x # xs \<and> x \<noteq> CHR 0x22"
  by (auto simp: escape_char_def plain_char_def)

lemma escaped_text_inj:
  "concat (map escape_char s) @ CHR 0x22 # r = concat (map escape_char t) @ CHR 0x22 # r' \<Longrightarrow>
   s = t \<and> r = r'"
proof (induction s arbitrary: t)
  case Nil
  show ?case
  proof (cases t)
    case (Cons d t')
    with Nil.prems escape_char_hd [of d] show ?thesis by auto
  qed (use Nil.prems in simp)
next
  case (Cons c s)
  show ?case
  proof (cases t)
    case Nil
    with Cons.prems escape_char_hd [of c] show ?thesis by auto
  next
    case (Cons d t')
    with Cons.prems have "escape_char c @ concat (map escape_char s) @ CHR 0x22 # r
        = escape_char d @ concat (map escape_char t') @ CHR 0x22 # r'" by simp
    from escape_char_inj [OF this] Cons.IH Cons show ?thesis by auto
  qed
qed

lemma quote_text_inj: "quote_text s @ r = quote_text t @ r' \<Longrightarrow> s = t \<and> r = r'"
  by (auto simp: quote_text_def dest: escaped_text_inj)

section \<open>Decimal numerals\<close>

definition undigits :: "string \<Rightarrow> nat" where
  "undigits s = foldl (\<lambda>a c. a * 10 + (code_point c - 48)) 0 s"

lemma undigits_nat_digits: "undigits (nat_digits n) = n"
proof (induction n rule: nat_digits.induct)
  case (1 n)
  show ?case
  proof (cases "n < 10")
    case False
    with 1 have "undigits (nat_digits (n div 10)) = n div 10" by simp
    with False show ?thesis
      by (subst nat_digits.simps) (simp add: undigits_def digit_char_def)
  qed (subst nat_digits.simps, simp add: undigits_def digit_char_def)
qed

lemma nat_digits_are_digits: "list_all is_digit (nat_digits n) \<and> nat_digits n \<noteq> []"
proof (induction n rule: nat_digits.induct)
  case (1 n)
  then show ?case
    by (cases "n < 10") (simp_all add: nat_digits.simps [of n] digit_char_def is_digit_def)
qed

definition stops_number :: "string \<Rightarrow> bool" where
  "stops_number r \<longleftrightarrow> r = [] \<or> \<not> is_digit (hd r)"

lemma takeWhile_digits:
  "list_all is_digit ds \<Longrightarrow> stops_number r \<Longrightarrow> takeWhile is_digit (ds @ r) = ds"
  by (cases r) (auto simp: stops_number_def list_all_iff takeWhile_append2)

lemma nat_digits_inj:
  assumes "stops_number r" "stops_number s" "nat_digits m @ r = nat_digits n @ s"
  shows "m = n \<and> r = s"
proof -
  have "nat_digits m = nat_digits n"
    by (metis assms nat_digits_are_digits takeWhile_digits)
  with assms(3) show ?thesis by (metis undigits_nat_digits same_append_eq)
qed

lemma nat_digits_hd: "\<exists>c cs. nat_digits n = c # cs \<and> is_digit c"
  using nat_digits_are_digits [of n] by (cases "nat_digits n") auto

lemma int_text_inj:
  assumes "stops_number r" "stops_number s" "int_text i @ r = int_text j @ s"
  shows "i = j \<and> r = s"
proof -
  have minus: "\<not> is_digit CHR ''-''" by (simp add: is_digit_def)
  obtain c cs where c: "nat_digits (nat i) = c # cs" "is_digit c" using nat_digits_hd by blast
  obtain d ds where d: "nat_digits (nat j) = d # ds" "is_digit d" using nat_digits_hd by blast
  show ?thesis
  proof (cases "i < 0 \<longleftrightarrow> j < 0")
    case True
    then show ?thesis
      using assms nat_digits_inj [OF assms(1,2), of "nat i" "nat j"]
        nat_digits_inj [OF assms(1,2), of "nat (- i)" "nat (- j)"]
      by (cases "i < 0") (auto simp: int_text_def)
  next
    case False
    with assms(3) c d minus show ?thesis by (cases "i < 0") (auto simp: int_text_def)
  qed
qed

section \<open>Values\<close>

lemma stops_number_simps [simp]:
  "stops_number []" "stops_number (CHR '','' # r)" "stops_number (CHR '']'' # r)"
  "stops_number (CHR ''}'' # r)"
  by (simp_all add: stops_number_def is_digit_def)

lemma int_text_hd: "\<exists>c cs. int_text i = c # cs \<and> (c = CHR ''-'' \<or> is_digit c)"
  using nat_digits_hd [of "nat i"] by (cases "i < 0") (auto simp: int_text_def)

text \<open>The first character of a value says which constructor it was written from.\<close>

fun starts :: "json \<Rightarrow> char \<Rightarrow> bool" where
  "starts JNull c = (c = CHR ''n'')"
| "starts (JBool b) c = (c = (if b then CHR ''t'' else CHR ''f''))"
| "starts (JInt i) c = (c = CHR ''-'' \<or> is_digit c)"
| "starts (JStr s) c = (c = CHR 0x22)"
| "starts (JArr xs) c = (c = CHR ''['')"
| "starts (JObj kvs) c = (c = CHR ''{'')"

lemma encode_starts: "\<exists>c cs. encode j = c # cs \<and> starts j c"
  by (cases j rule: encode.cases) (use int_text_hd in \<open>auto simp: quote_text_def\<close>)

lemma digit_other: "is_digit c \<Longrightarrow> c \<notin> set ''ntf-[]{},:'' \<and> c \<noteq> CHR 0x22"
  by (auto simp: is_digit_def)

lemma encode_same_kind:
  assumes "encode j @ r = encode k @ s"
  shows "\<exists>c. starts j c \<and> starts k c"
  using encode_starts [of j] encode_starts [of k] assms by auto

lemma encode_not_close: "encode j @ r \<noteq> CHR '']'' # s" "encode j @ r \<noteq> CHR ''}'' # s"
  using encode_starts [of j] by (cases j; auto dest: digit_other split: if_splits)+

lemma encode_tail_stops: "stops_number (encode_tail xs @ r)"
  by (cases xs) simp_all

lemma encode_members_stops: "stops_number (encode_members kvs @ r)"
  by (cases kvs rule: list.exhaust) (auto simp: stops_number_def is_digit_def)

lemma encode_inj_strong:
  "\<And>k r s. stops_number r \<Longrightarrow> stops_number s \<Longrightarrow> encode j @ r = encode k @ s \<Longrightarrow> j = k \<and> r = s"
  "\<And>ys r s. encode_tail xs @ r = encode_tail ys @ s \<Longrightarrow> xs = ys \<and> r = s"
  "\<And>lvs r s. encode_members kvs @ r = encode_members lvs @ s \<Longrightarrow> kvs = lvs \<and> r = s"
proof (induction j and xs and kvs rule: encode_encode_tail_encode_members.induct)
  case 1
  from encode_same_kind [OF "1.prems"(3)] "1.prems" show ?case
    by (cases k) (auto split: if_splits dest: digit_other)
next
  case 2
  from encode_same_kind [OF "2.prems"(3)] "2.prems" show ?case
    by (cases k) (auto split: if_splits dest: digit_other)
next
  case 3
  from encode_same_kind [OF "3.prems"(3)] "3.prems" show ?case
    by (cases k) (auto split: if_splits dest: digit_other)
next
  case (4 i)
  from encode_same_kind [OF "4.prems"(3)] "4.prems" int_text_inj [OF "4.prems"(1,2), of i] show ?case
    by (cases k) (auto split: if_splits dest: digit_other)
next
  case (5 t)
  from encode_same_kind [OF "5.prems"(3)] "5.prems" quote_text_inj [of t r _ s] show ?case
    by (cases k) (auto split: if_splits dest: digit_other)
next
  case 6
  from encode_same_kind [OF "6.prems"(3)] obtain ys where k: "k = JArr ys"
    by (cases k) (auto split: if_splits dest: digit_other)
  with "6.prems" encode_not_close show ?case by (cases ys) (auto dest: sym)
next
  case (7 x xs)
  from encode_same_kind [OF "7.prems"(3)] obtain ys where k: "k = JArr ys"
    by (cases k) (auto split: if_splits dest: digit_other)
  show ?case
  proof (cases ys)
    case Nil
    with k "7.prems" encode_not_close show ?thesis by auto
  next
    case (Cons y ys')
    with k "7.prems" have "encode x @ encode_tail xs @ r = encode y @ encode_tail ys' @ s" by simp
    from "7.IH"(1) [OF encode_tail_stops encode_tail_stops this] "7.IH"(2) k Cons
    show ?thesis by blast
  qed
next
  case 8
  from encode_same_kind [OF "8.prems"(3)] obtain lvs where k: "k = JObj lvs"
    by (cases k) (auto split: if_splits dest: digit_other)
  with "8.prems" show ?case by (cases lvs) (auto simp: quote_text_def)
next
  case (9 key v kvs)
  from encode_same_kind [OF "9.prems"(3)] obtain lvs where k: "k = JObj lvs"
    by (cases k) (auto split: if_splits dest: digit_other)
  show ?case
  proof (cases lvs)
    case Nil
    with k "9.prems" show ?thesis by (auto simp: quote_text_def)
  next
    case (Cons kv lvs')
    obtain l w where kv: "kv = (l, w)" by force
    with k Cons "9.prems" have "quote_text key @ CHR '':'' # encode v @ encode_members kvs @ r
        = quote_text l @ CHR '':'' # encode w @ encode_members lvs' @ s" by simp
    from quote_text_inj [OF this]
    have "key = l" and e: "encode v @ encode_members kvs @ r = encode w @ encode_members lvs' @ s" by simp_all
    from "9.IH"(1) [OF encode_members_stops encode_members_stops e] "9.IH"(2) \<open>key = l\<close> k kv Cons
    show ?thesis by blast
  qed
next
  case 10
  then show ?case by (cases ys) auto
next
  case (11 x xs)
  show ?case
  proof (cases ys)
    case (Cons y ys')
    with "11.prems" have "encode x @ encode_tail xs @ r = encode y @ encode_tail ys' @ s" by simp
    from "11.IH"(1) [OF encode_tail_stops encode_tail_stops this] "11.IH"(2) Cons show ?thesis by blast
  qed (use "11.prems" in simp)
next
  case 12
  then show ?case by (cases lvs) auto
next
  case (13 key v kvs)
  show ?case
  proof (cases lvs)
    case (Cons kv lvs')
    obtain l w where kv: "kv = (l, w)" by force
    with Cons "13.prems" have "quote_text key @ CHR '':'' # encode v @ encode_members kvs @ r
        = quote_text l @ CHR '':'' # encode w @ encode_members lvs' @ s" by simp
    from quote_text_inj [OF this]
    have "key = l" and e: "encode v @ encode_members kvs @ r = encode w @ encode_members lvs' @ s" by simp_all
    from "13.IH"(1) [OF encode_members_stops encode_members_stops e] "13.IH"(2) \<open>key = l\<close> kv Cons
    show ?thesis by blast
  qed (use "13.prems" in simp)
qed

theorem encode_inj: "encode j = encode k \<Longrightarrow> j = k"
  using encode_inj_strong(1) [of "[]" "[]" j k] by simp

theorem dumps_determines: "dumps j = dumps k \<longleftrightarrow> canon j = canon k"
  by (auto simp: dumps_def dest: encode_inj)

text \<open>
  Equal digests mean equal values, unless the two canonical texts themselves collide under SHA-256.
\<close>

definition sha_collision :: "string \<Rightarrow> string \<Rightarrow> bool" where
  "sha_collision s t \<longleftrightarrow> s \<noteq> t \<and> sha256_text s = sha256_text t"

lemma digest_json_cases:
  "digest_json j = digest_json k \<longleftrightarrow> canon j = canon k \<or> sha_collision (dumps j) (dumps k)"
  by (cases "canon j = canon k") (auto simp: digest_json_def sha_collision_def dumps_def dest: encode_inj)

end
