(* ===== verification/Plan.thy ===== *)
theory Plan
  imports Config_Model Canonical_Text
begin

text \<open>
  Normalized plans (\<open>src/src/dispatcher/plan.py\<close>): the contract models with their validators, the
  dependency graph checks of \<open>NormalizedPlan.validate_graph\<close>, the plan and source digests, approvals
  that bind them, and the checks of a plan against the project configuration. The proofs about the
  graph are in \<open>Plan_Graph\<close>, those about digests and approvals in \<open>Plan_Approval\<close>.

  Not modelled: reading the YAML sidecar and hashing the source files, and the cluster-operation
  references of \<open>validate_plan_for_config\<close>, which another module checks.
\<close>

section \<open>Data\<close>

datatype source_root = Root_plans | Root_specifications
datatype source_media = Source_markdown | Source_yaml
datatype evidence_media = Evidence_markdown | Evidence_json | Evidence_plain
datatype lock_mode = Lock_read | Lock_write
datatype retry_choice = On_halt | On_retry | On_escalate
datatype cluster_action_type =
  Kubectl_server_dry_run | Helm_upgrade_install | Port_forward | Tls_dc8_rejection

record plan_source =
  src_source_id :: string
  src_root :: source_root
  src_relative_path :: string
  src_sha256 :: string
  src_media_type :: source_media

record artifact_reference =
  art_artifact_id :: string
  art_producer_step_id :: "string option"
  art_description :: string

record resource_lock =
  lock_resource_id :: string
  lock_mode :: lock_mode

record step_authorization =
  auth_authorized_actions :: "string list"
  auth_writable_paths :: "string list"
  auth_requires_operator_approval :: bool

record verification_check =
  chk_argv :: "string list"
  chk_timeout_seconds :: int
  chk_max_output_bytes :: int
  chk_expected_exit_codes :: "int list"

record acceptance_criterion =
  crit_criterion_id :: string
  crit_description :: string
  crit_check :: verification_check

record evidence_requirement =
  ev_artifact_id :: string
  ev_relative_path :: string
  ev_media_type :: evidence_media

record review_obligation =
  rev_required :: bool
  rev_reviewer_role_keys :: "string list"
  rev_required_acceptances :: int

record retry_policy =
  rt_max_executor_attempts :: int
  rt_max_reviewer_attempts :: int
  rt_on_failed :: retry_choice
  rt_on_blocked :: retry_choice
  rt_on_changes_requested :: retry_choice
  rt_escalation_role_key :: "string option"

record cluster_operation_reference =
  cor_target_name :: string
  cor_operation_manifest_path :: string
  cor_requires_cluster_approval :: bool
  cor_preauthorized_actions :: "cluster_action_type list"
  cor_requires_automatic_rollback :: bool

record plan_step =
  ps_ordinal :: int
  ps_step_id :: string
  ps_title :: string
  ps_repo_id :: string
  ps_depends_on :: "string list"
  ps_required_inputs :: "artifact_reference list"
  ps_produced_outputs :: "artifact_reference list"
  ps_resource_locks :: "resource_lock list"
  ps_risk_tags :: "string list"
  ps_authorization :: step_authorization
  ps_acceptance_criteria :: "acceptance_criterion list"
  ps_evidence_requirements :: "evidence_requirement list"
  ps_review :: review_obligation
  ps_retry :: retry_policy
  ps_cluster_operation :: "cluster_operation_reference option"

record normalized_plan =
  np_schema_version :: int
  np_plan_id :: string
  np_sources :: "plan_source list"
  np_steps :: "plan_step list"

record plan_approval =
  pa_plan_digest :: string
  pa_source_digest :: string
  pa_operator_decision_ref :: string
  pa_approved_at :: int

section \<open>Validation of one step\<close>

definition plan_source_errors :: "plan_source \<Rightarrow> verror list" where
  "plan_source_errors s = field_errors
     [(''source_id'', identifier_ok (src_source_id s)),
      (''relative_path'', length_between 1 500 (src_relative_path s) \<and> plain_relative_path (src_relative_path s)),
      (''sha256'', sha256_ok (src_sha256 s))]"

definition artifact_reference_errors :: "artifact_reference \<Rightarrow> verror list" where
  "artifact_reference_errors a = field_errors
     [(''artifact_id'', identifier_ok (art_artifact_id a)),
      (''producer_step_id'', optional identifier_ok (art_producer_step_id a)),
      (''description'', length_between 1 1000 (art_description a))]"

definition resource_lock_errors :: "resource_lock \<Rightarrow> verror list" where
  "resource_lock_errors l = field_errors [(''resource_id'', identifier_ok (lock_resource_id l))]"

definition nonempty_unique_actions :: "string list \<Rightarrow> bool" where
  "nonempty_unique_actions values \<longleftrightarrow> values \<noteq> [] \<and> distinct values"

text \<open>
  \<open>valid_writable_paths\<close>: each scope parses and neither repeats nor contains an earlier one. The
  pairs seen so far are the list \<open>normalized\<close> of the source.
\<close>

fun valid_writable_paths_from :: "(posix_path \<times> bool) list \<Rightarrow> string list \<Rightarrow> bool" where
  "valid_writable_paths_from normalized [] = True"
| "valid_writable_paths_from normalized (value # values) =
     (case parse_writable_path value of
        Inl _ \<Rightarrow> False
      | Inr (path, directory) \<Rightarrow>
          \<not> list_ex (\<lambda>(existing_path, existing_directory).
               path = existing_path
               \<or> (existing_directory \<and> pure_path_is_within path existing_path)
               \<or> (directory \<and> pure_path_is_within existing_path path)) normalized
          \<and> valid_writable_paths_from (normalized @ [(path, directory)]) values)"

definition valid_writable_paths :: "string list \<Rightarrow> bool" where
  "valid_writable_paths values = valid_writable_paths_from [] values"

definition step_authorization_errors :: "step_authorization \<Rightarrow> verror list" where
  "step_authorization_errors a =
     then_rules
       (field_errors
         [(''authorized_actions'', list_all identifier_ok (auth_authorized_actions a)
             \<and> nonempty_unique_actions (auth_authorized_actions a)),
          (''writable_paths'', list_all (length_between 1 500) (auth_writable_paths a)
             \<and> valid_writable_paths (auth_writable_paths a))])
       (let actions = set (auth_authorized_actions a) in first_rule
         [(''modify'' \<in> actions \<and> auth_writable_paths a = [],
             ''modify authorization requires nonempty writable_paths''),
          (''commit'' \<in> actions \<and> ''modify'' \<notin> actions,
             ''commit authorization requires modify authorization''),
          (''modify'' \<notin> actions \<and> auth_writable_paths a \<noteq> [],
             ''writable_paths require modify authorization'')])"

definition verification_check_errors :: "verification_check \<Rightarrow> verror list" where
  "verification_check_errors c =
     then_rules
       (field_errors
         [(''argv'', list_all (length_between 1 1000) (chk_argv c)),
          (''timeout_seconds'', 1 \<le> chk_timeout_seconds c \<and> chk_timeout_seconds c \<le> 3600),
          (''max_output_bytes'', 1024 \<le> chk_max_output_bytes c \<and> chk_max_output_bytes c \<le> 10000000),
          (''expected_exit_codes'', list_all (\<lambda>n. 0 \<le> n \<and> n \<le> 255) (chk_expected_exit_codes c))])
       (first_rule
         [(chk_argv c = [], ''verification check argv must not be empty''),
          (chk_expected_exit_codes c = [], ''verification check expected_exit_codes must not be empty''),
          (\<not> distinct (chk_expected_exit_codes c), ''verification check expected_exit_codes must be unique'')])"

definition acceptance_criterion_errors :: "acceptance_criterion \<Rightarrow> verror list" where
  "acceptance_criterion_errors c =
     field_errors
       [(''criterion_id'', identifier_ok (crit_criterion_id c)),
        (''description'', length_between 1 2000 (crit_description c))]
     @ verification_check_errors (crit_check c)"

definition evidence_requirement_errors :: "evidence_requirement \<Rightarrow> verror list" where
  "evidence_requirement_errors e = field_errors
     [(''artifact_id'', identifier_ok (ev_artifact_id e)),
      (''relative_path'', length_between 1 500 (ev_relative_path e) \<and> plain_relative_path (ev_relative_path e))]"

definition review_obligation_errors :: "review_obligation \<Rightarrow> verror list" where
  "review_obligation_errors r =
     then_rules
       (field_errors
         [(''reviewer_role_keys'', list_all identifier_ok (rev_reviewer_role_keys r)),
          (''required_acceptances'', 0 \<le> rev_required_acceptances r \<and> rev_required_acceptances r \<le> 20)])
       (first_rule
         [(rev_required r \<and> rev_reviewer_role_keys r = [],
             ''required review needs at least one reviewer_role_key''),
          (rev_required r \<and> rev_required_acceptances r < 1,
             ''required review needs at least one required_acceptance''),
          (\<not> rev_required r \<and> (rev_reviewer_role_keys r \<noteq> [] \<or> rev_required_acceptances r \<noteq> 0),
             ''optional review must have no reviewers and zero required_acceptances''),
          (\<not> distinct (rev_reviewer_role_keys r), ''reviewer_role_keys must not contain duplicates''),
          (int (length (rev_reviewer_role_keys r)) < rev_required_acceptances r,
             ''required_acceptances cannot exceed reviewer_role_keys'')])"

definition retry_policy_errors :: "retry_policy \<Rightarrow> verror list" where
  "retry_policy_errors r =
     then_rules
       (field_errors
         [(''max_executor_attempts'', 1 \<le> rt_max_executor_attempts r \<and> rt_max_executor_attempts r \<le> 20),
          (''max_reviewer_attempts'', 0 \<le> rt_max_reviewer_attempts r \<and> rt_max_reviewer_attempts r \<le> 20),
          (''escalation_role_key'', optional identifier_ok (rt_escalation_role_key r))])
       (let needs_escalation =
              On_escalate \<in> {rt_on_failed r, rt_on_blocked r, rt_on_changes_requested r}
        in first_rule
         [(needs_escalation \<noteq> (rt_escalation_role_key r \<noteq> None),
             ''escalation_role_key is required exactly when a retry policy escalates'')])"

definition cluster_operation_reference_errors :: "cluster_operation_reference \<Rightarrow> verror list" where
  "cluster_operation_reference_errors c = field_errors
     [(''target_name'', identifier_ok (cor_target_name c)),
      (''operation_manifest_path'', length_between 1 500 (cor_operation_manifest_path c)
         \<and> validate_normalized_relative_path (cor_operation_manifest_path c) ''operation_manifest_path''
              = Inr (cor_operation_manifest_path c)
         \<and> (suffix ''.yaml'' (cor_operation_manifest_path c) \<or> suffix ''.yml'' (cor_operation_manifest_path c))),
      (''requires_cluster_approval'', cor_requires_cluster_approval c),
      (''preauthorized_actions'', length_between 1 20 (cor_preauthorized_actions c)
         \<and> distinct (cor_preauthorized_actions c)),
      (''requires_automatic_rollback'', cor_requires_automatic_rollback c)]"

definition validate_step_collections :: "plan_step \<Rightarrow> verror list" where
  "validate_step_collections s = first_rule
     [(ps_step_id s \<in> set (ps_depends_on s), ''depends_on cannot include the current step''),
      (\<not> distinct (ps_depends_on s), ''depends_on must not contain duplicates''),
      (\<not> distinct (map (\<lambda>l. (lock_resource_id l, lock_mode l)) (ps_resource_locks s)),
         ''resource_locks must not contain duplicates''),
      (\<not> distinct (ps_risk_tags s), ''risk_tags must not contain duplicates''),
      (ps_acceptance_criteria s = [], ''acceptance_criteria must not be empty''),
      (ps_evidence_requirements s = [], ''evidence_requirements must not be empty''),
      (\<not> distinct (map crit_criterion_id (ps_acceptance_criteria s)),
         ''acceptance criterion IDs must be unique per step''),
      (\<not> distinct (map art_artifact_id (ps_produced_outputs s)),
         ''produced output artifact IDs must be unique per step''),
      (\<not> distinct (map ev_artifact_id (ps_evidence_requirements s)),
         ''evidence artifact IDs must be unique per step'')]"

definition plan_step_errors :: "plan_step \<Rightarrow> verror list" where
  "plan_step_errors s =
     then_rules
       (field_errors
          [(''ordinal'', 1 \<le> ps_ordinal s),
           (''step_id'', identifier_ok (ps_step_id s)),
           (''title'', length_between 1 500 (ps_title s)),
           (''repo_id'', identifier_ok (ps_repo_id s)),
           (''depends_on'', list_all identifier_ok (ps_depends_on s))]
        @ concat (map artifact_reference_errors (ps_required_inputs s))
        @ concat (map artifact_reference_errors (ps_produced_outputs s))
        @ concat (map resource_lock_errors (ps_resource_locks s))
        @ field_errors [(''risk_tags'', list_all identifier_ok (ps_risk_tags s))]
        @ step_authorization_errors (ps_authorization s)
        @ concat (map acceptance_criterion_errors (ps_acceptance_criteria s))
        @ concat (map evidence_requirement_errors (ps_evidence_requirements s))
        @ review_obligation_errors (ps_review s)
        @ retry_policy_errors (ps_retry s)
        @ (case ps_cluster_operation s of None \<Rightarrow> [] | Some c \<Rightarrow> cluster_operation_reference_errors c))
       (validate_step_collections s)"

section \<open>The dependency graph\<close>

type_synonym step_map = "(string, plan_step) dict"

definition step_map_of :: "plan_step list \<Rightarrow> step_map" where
  "step_map_of steps = dict_of (map (\<lambda>s. (ps_step_id s, s)) steps)"

definition dependency_errors :: "step_map \<Rightarrow> plan_step \<Rightarrow> string \<Rightarrow> verror list" where
  "dependency_errors step_map step dependency_id =
     (case dget step_map dependency_id of
        None \<Rightarrow> [Rule (''steps.'' @ ps_step_id step @ ''.depends_on references unknown step '' @ dependency_id)]
      | Some dependency \<Rightarrow> first_rule
          [(ps_ordinal step \<le> ps_ordinal dependency,
              ''dependencies must have a lower ordinal than dependent steps'')])"

definition input_errors :: "step_map \<Rightarrow> plan_step \<Rightarrow> artifact_reference \<Rightarrow> verror list" where
  "input_errors step_map step artifact =
     (case art_producer_step_id artifact of
        None \<Rightarrow> []
      | Some producer \<Rightarrow> first_rule
          [(dget step_map producer = None, ''required input producer_step_id must reference a plan step''),
           (producer \<notin> set (ps_depends_on step),
              ''required input producer_step_id must be listed in depends_on'')])"

text \<open>
  \<open>_validate_no_cycles\<close>: depth-first search. \<open>visiting\<close> is the stack of open steps (the source adds a
  step before its dependencies and removes it after them, so inside a call it is the caller's stack
  plus that step), \<open>visited\<close> the set of closed ones, threaded through the calls.
\<close>

function (sequential) visit :: "step_map \<Rightarrow> string list \<Rightarrow> string list \<Rightarrow> string \<Rightarrow> exn + string list"
  and visit_all :: "step_map \<Rightarrow> string list \<Rightarrow> string list \<Rightarrow> string list \<Rightarrow> exn + string list" where
  "visit step_map visiting visited step_id =
     (if step_id \<in> set visiting then
        Inl (ValueError (''dependency cycle detected at step '' @ step_id))
      else if step_id \<in> set visited then Inr visited
      else case dget step_map step_id of
             None \<Rightarrow> Inl (KeyError step_id)
           | Some step \<Rightarrow>
               bindr (visit_all step_map (step_id # visiting) visited (ps_depends_on step))
                 (\<lambda>visited'. Inr (step_id # visited')))"
| "visit_all step_map visiting visited [] = Inr visited"
| "visit_all step_map visiting visited (dependency # rest) =
     bindr (visit step_map visiting visited dependency)
       (\<lambda>visited'. visit_all step_map visiting visited' rest)"
  by pat_completeness auto
termination
proof (relation "measures
    [\<lambda>x. case x of Inl (m, vg, vd, i) \<Rightarrow> card (set (dkeys m) - set vg)
                 | Inr (m, vg, vd, is) \<Rightarrow> card (set (dkeys m) - set vg),
     \<lambda>x. case x of Inl _ \<Rightarrow> 0 | Inr (m, vg, vd, is) \<Rightarrow> Suc (length is)]", goal_cases)
  case (2 m vg vd i s)
  then have "i \<in> set (dkeys m) - set vg" by (force dest: map_of_SomeD)
  then have "card (set (dkeys m) - insert i (set vg)) < card (set (dkeys m) - set vg)"
    by (intro psubset_card_mono) auto
  then show ?case by simp
qed auto

declare visit.simps [simp del]

definition validate_no_cycles :: "step_map \<Rightarrow> exn + string list" where
  "validate_no_cycles step_map = visit_all step_map [] [] (dkeys step_map)"

text \<open>
  \<open>_ancestor_steps\<close>: the source recurses along the dependencies without a visited set; \<open>None\<close> stands
  for a recursion that goes deeper than the fuel. \<open>Plan_Graph\<close> proves that a plan that passed the
  ordinal check never needs more fuel than it has steps.
\<close>

fun ancestor_steps :: "nat \<Rightarrow> step_map \<Rightarrow> string \<Rightarrow> (exn + string list) option" where
  "ancestor_steps 0 step_map step_id = None"
| "ancestor_steps (Suc fuel) step_map step_id =
     (case dget step_map step_id of
        None \<Rightarrow> Some (Inl (KeyError step_id))
      | Some step \<Rightarrow>
          fold (\<lambda>dependency acc. case acc of
              None \<Rightarrow> None
            | Some (Inl e) \<Rightarrow> Some (Inl e)
            | Some (Inr ancestors) \<Rightarrow>
                (case ancestor_steps fuel step_map dependency of
                   None \<Rightarrow> None
                 | Some (Inl e) \<Rightarrow> Some (Inl e)
                 | Some (Inr further) \<Rightarrow> Some (Inr (ancestors @ dependency # further))))
            (ps_depends_on step) (Some (Inr [])))"

definition add_writer :: "(string, string list) dict \<Rightarrow> string \<times> string \<Rightarrow> (string, string list) dict" where
  "add_writer writers rw =
     dset (fst rw) ((case dget writers (fst rw) of None \<Rightarrow> [] | Some ws \<Rightarrow> ws) @ [snd rw]) writers"

definition write_locks :: "plan_step list \<Rightarrow> (string \<times> string) list" where
  "write_locks steps =
     concat (map (\<lambda>s. map (\<lambda>l. (lock_resource_id l, ps_step_id s))
       (filter (\<lambda>l. lock_mode l = Lock_write) (ps_resource_locks s))) steps)"

definition writers_of :: "plan_step list \<Rightarrow> (string, string list) dict" where
  "writers_of steps = foldl add_writer [] (write_locks steps)"

text \<open>The pairs \<open>first\<close>, \<open>second\<close> of a list with \<open>first\<close> earlier, in the order of the two loops.\<close>

fun ordered_pairs :: "'a list \<Rightarrow> ('a \<times> 'a) list" where
  "ordered_pairs [] = []"
| "ordered_pairs (x # xs) = map (Pair x) xs @ ordered_pairs xs"

definition unordered_pair_errors ::
  "(string \<Rightarrow> string list) \<Rightarrow> string \<Rightarrow> string \<times> string \<Rightarrow> verror list" where
  "unordered_pair_errors ancestors resource_id pair =
     first_rule
       [(fst pair \<notin> set (ancestors (snd pair)) \<and> snd pair \<notin> set (ancestors (fst pair)),
           ''unordered write lock conflict for resource '' @ resource_id @ '': ''
           @ fst pair @ '', '' @ snd pair)]"

definition ancestors_of :: "step_map \<Rightarrow> string \<Rightarrow> string list" where
  "ancestors_of step_map step_id =
     (case ancestor_steps (Suc (length step_map)) step_map step_id of
        Some (Inr ancestors) \<Rightarrow> ancestors | _ \<Rightarrow> [])"

definition validate_unordered_write_locks :: "plan_step list \<Rightarrow> step_map \<Rightarrow> verror list" where
  "validate_unordered_write_locks steps step_map =
     first_error (map (\<lambda>(resource_id, writer_steps).
         first_error (map (unordered_pair_errors (ancestors_of step_map) resource_id)
           (ordered_pairs writer_steps)))
       (writers_of steps))"

definition step_reference_errors :: "step_map \<Rightarrow> plan_step \<Rightarrow> verror list" where
  "step_reference_errors step_map step =
     first_error
       (map (dependency_errors step_map step) (ps_depends_on step)
        @ map (input_errors step_map step) (ps_required_inputs step))"

definition validate_graph :: "normalized_plan \<Rightarrow> verror list" where
  "validate_graph p =
     (let steps = np_steps p;
          step_map = step_map_of steps
      in first_error
        [first_rule
           [(np_sources p = [], ''sources must not be empty''),
            (steps = [], ''steps must not be empty''),
            (\<not> distinct (map src_source_id (np_sources p)), ''source IDs must be unique''),
            (length step_map \<noteq> length steps, ''step IDs must be unique''),
            (map ps_ordinal steps \<noteq> map int [1..<Suc (length steps)],
               ''steps must be ordered with contiguous ordinals starting at 1'')],
         first_error (map (step_reference_errors step_map) steps),
         first_rule
           [(\<not> distinct (concat (map (\<lambda>s. map art_artifact_id (ps_produced_outputs s)) steps)),
               ''produced output artifact IDs must be globally unique'')],
         (case validate_no_cycles step_map of
            Inl (ValueError message) \<Rightarrow> [Rule message]
          | Inl _ \<Rightarrow> [Rule ''KeyError'']
          | Inr _ \<Rightarrow> []),
         validate_unordered_write_locks steps step_map])"

definition normalized_plan_errors :: "normalized_plan \<Rightarrow> verror list" where
  "normalized_plan_errors p =
     then_rules
       (field_errors [(''schema_version'', np_schema_version p = 2), (''plan_id'', identifier_ok (np_plan_id p))]
        @ concat (map plan_source_errors (np_sources p))
        @ concat (map plan_step_errors (np_steps p)))
       (validate_graph p)"

section \<open>Digests\<close>

text \<open>\<open>model_dump(mode="json")\<close> of the plan models.\<close>

definition json_strings :: "string list \<Rightarrow> json" where
  "json_strings xs = JArr (map JStr xs)"

definition json_optional :: "('a \<Rightarrow> json) \<Rightarrow> 'a option \<Rightarrow> json" where
  "json_optional f x = (case x of None \<Rightarrow> JNull | Some y \<Rightarrow> f y)"

fun source_root_text :: "source_root \<Rightarrow> string" where
  "source_root_text Root_plans = ''plans''"
| "source_root_text Root_specifications = ''specifications''"

fun source_media_text :: "source_media \<Rightarrow> string" where
  "source_media_text Source_markdown = ''text/markdown''"
| "source_media_text Source_yaml = ''application/yaml''"

fun evidence_media_text :: "evidence_media \<Rightarrow> string" where
  "evidence_media_text Evidence_markdown = ''text/markdown''"
| "evidence_media_text Evidence_json = ''application/json''"
| "evidence_media_text Evidence_plain = ''text/plain''"

fun lock_mode_text :: "lock_mode \<Rightarrow> string" where
  "lock_mode_text Lock_read = ''read''"
| "lock_mode_text Lock_write = ''write''"

fun retry_choice_text :: "retry_choice \<Rightarrow> string" where
  "retry_choice_text On_halt = ''halt''"
| "retry_choice_text On_retry = ''retry''"
| "retry_choice_text On_escalate = ''escalate''"

fun cluster_action_text :: "cluster_action_type \<Rightarrow> string" where
  "cluster_action_text Kubectl_server_dry_run = ''kubectl_server_dry_run''"
| "cluster_action_text Helm_upgrade_install = ''helm_upgrade_install''"
| "cluster_action_text Port_forward = ''port_forward''"
| "cluster_action_text Tls_dc8_rejection = ''tls_dc8_no_client_certificate_rejection''"

definition json_plan_source :: "plan_source \<Rightarrow> json" where
  "json_plan_source s = JObj
     [(''source_id'', JStr (src_source_id s)),
      (''root'', JStr (source_root_text (src_root s))),
      (''relative_path'', JStr (src_relative_path s)),
      (''sha256'', JStr (src_sha256 s)),
      (''media_type'', JStr (source_media_text (src_media_type s)))]"

definition json_artifact_reference :: "artifact_reference \<Rightarrow> json" where
  "json_artifact_reference a = JObj
     [(''artifact_id'', JStr (art_artifact_id a)),
      (''producer_step_id'', json_optional JStr (art_producer_step_id a)),
      (''description'', JStr (art_description a))]"

definition json_resource_lock :: "resource_lock \<Rightarrow> json" where
  "json_resource_lock l = JObj
     [(''resource_id'', JStr (lock_resource_id l)), (''mode'', JStr (lock_mode_text (lock_mode l)))]"

definition json_step_authorization :: "step_authorization \<Rightarrow> json" where
  "json_step_authorization a = JObj
     [(''authorized_actions'', json_strings (auth_authorized_actions a)),
      (''writable_paths'', json_strings (auth_writable_paths a)),
      (''requires_operator_approval'', JBool (auth_requires_operator_approval a))]"

definition json_verification_check :: "verification_check \<Rightarrow> json" where
  "json_verification_check c = JObj
     [(''argv'', json_strings (chk_argv c)),
      (''working_directory'', JStr ''repository''),
      (''timeout_seconds'', JInt (chk_timeout_seconds c)),
      (''max_output_bytes'', JInt (chk_max_output_bytes c)),
      (''expected_exit_codes'', JArr (map JInt (chk_expected_exit_codes c))),
      (''network_policy'', JStr ''deny'')]"

definition json_acceptance_criterion :: "acceptance_criterion \<Rightarrow> json" where
  "json_acceptance_criterion c = JObj
     [(''criterion_id'', JStr (crit_criterion_id c)),
      (''description'', JStr (crit_description c)),
      (''check'', json_verification_check (crit_check c))]"

definition json_evidence_requirement :: "evidence_requirement \<Rightarrow> json" where
  "json_evidence_requirement e = JObj
     [(''artifact_id'', JStr (ev_artifact_id e)),
      (''relative_path'', JStr (ev_relative_path e)),
      (''media_type'', JStr (evidence_media_text (ev_media_type e)))]"

definition json_review_obligation :: "review_obligation \<Rightarrow> json" where
  "json_review_obligation r = JObj
     [(''required'', JBool (rev_required r)),
      (''reviewer_role_keys'', json_strings (rev_reviewer_role_keys r)),
      (''required_acceptances'', JInt (rev_required_acceptances r))]"

definition json_retry_policy :: "retry_policy \<Rightarrow> json" where
  "json_retry_policy r = JObj
     [(''max_executor_attempts'', JInt (rt_max_executor_attempts r)),
      (''max_reviewer_attempts'', JInt (rt_max_reviewer_attempts r)),
      (''on_failed'', JStr (retry_choice_text (rt_on_failed r))),
      (''on_blocked'', JStr (retry_choice_text (rt_on_blocked r))),
      (''on_changes_requested'', JStr (retry_choice_text (rt_on_changes_requested r))),
      (''escalation_role_key'', json_optional JStr (rt_escalation_role_key r))]"

definition json_cluster_operation :: "cluster_operation_reference \<Rightarrow> json" where
  "json_cluster_operation c = JObj
     [(''target_name'', JStr (cor_target_name c)),
      (''operation_manifest_path'', JStr (cor_operation_manifest_path c)),
      (''requires_cluster_approval'', JBool (cor_requires_cluster_approval c)),
      (''preauthorized_actions'', json_strings (map cluster_action_text (cor_preauthorized_actions c))),
      (''requires_automatic_rollback'', JBool (cor_requires_automatic_rollback c))]"

definition json_plan_step :: "plan_step \<Rightarrow> json" where
  "json_plan_step s = JObj
     [(''ordinal'', JInt (ps_ordinal s)),
      (''step_id'', JStr (ps_step_id s)),
      (''title'', JStr (ps_title s)),
      (''repo_id'', JStr (ps_repo_id s)),
      (''depends_on'', json_strings (ps_depends_on s)),
      (''required_inputs'', JArr (map json_artifact_reference (ps_required_inputs s))),
      (''produced_outputs'', JArr (map json_artifact_reference (ps_produced_outputs s))),
      (''resource_locks'', JArr (map json_resource_lock (ps_resource_locks s))),
      (''risk_tags'', json_strings (ps_risk_tags s)),
      (''authorization'', json_step_authorization (ps_authorization s)),
      (''acceptance_criteria'', JArr (map json_acceptance_criterion (ps_acceptance_criteria s))),
      (''evidence_requirements'', JArr (map json_evidence_requirement (ps_evidence_requirements s))),
      (''review'', json_review_obligation (ps_review s)),
      (''retry'', json_retry_policy (ps_retry s)),
      (''cluster_operation'', json_optional json_cluster_operation (ps_cluster_operation s))]"

definition plan_payload :: "normalized_plan \<Rightarrow> json" where
  "plan_payload p = JObj
     [(''schema_version'', JInt (np_schema_version p)),
      (''plan_id'', JStr (np_plan_id p)),
      (''steps'', JArr (map json_plan_step (np_steps p)))]"

definition source_payload :: "normalized_plan \<Rightarrow> json" where
  "source_payload p = JArr (map json_plan_source (np_sources p))"

definition plan_digest :: "normalized_plan \<Rightarrow> string" where
  "plan_digest p = digest_json (plan_payload p)"

definition source_digest :: "normalized_plan \<Rightarrow> string" where
  "source_digest p = digest_json (source_payload p)"

section \<open>Approval\<close>

definition plan_approval_errors :: "plan_approval \<Rightarrow> verror list" where
  "plan_approval_errors a = field_errors
     [(''plan_digest'', sha256_ok (pa_plan_digest a)),
      (''source_digest'', sha256_ok (pa_source_digest a)),
      (''operator_decision_ref'', identifier_ok (pa_operator_decision_ref a))]"

definition approve_plan :: "normalized_plan \<Rightarrow> string \<Rightarrow> int \<Rightarrow> exn + plan_approval" where
  "approve_plan plan operator_decision_ref now =
     checked plan_approval_errors
       \<lparr>pa_plan_digest = plan_digest plan, pa_source_digest = source_digest plan,
        pa_operator_decision_ref = operator_decision_ref, pa_approved_at = now\<rparr>"

definition validate_plan_approval :: "normalized_plan \<Rightarrow> plan_approval \<Rightarrow> exn + unit" where
  "validate_plan_approval plan approval =
     (if pa_plan_digest approval \<noteq> plan_digest plan then
        Inl (PlanError ''plan approval does not match normalized plan digest'')
      else if pa_source_digest approval \<noteq> source_digest plan then
        Inl (PlanError ''plan approval does not match normalized plan source digest'')
      else Inr ())"

section \<open>The plan against the configuration\<close>

definition raise_if :: "bool \<Rightarrow> exn \<Rightarrow> exn + unit" where
  "raise_if c e = (if c then Inl e else Inr ())"

lemma raise_if_Inr [simp]: "raise_if c e = Inr u \<longleftrightarrow> \<not> c"
  by (simp add: raise_if_def)

definition check_writable_roots :: "plan_step \<Rightarrow> repository_definition \<Rightarrow> string \<Rightarrow> exn + unit" where
  "check_writable_roots step repository writable_path =
     bindr (parse_writable_path writable_path) (\<lambda>(logical_path, _).
       raise_if (\<not> list_ex (\<lambda>root. pure_path_is_within logical_path (pure_posix_path root))
                   (repo_writable_roots repository))
         (PlanError (''step '' @ ps_step_id step @ '' writable path is outside repository writable_roots: ''
            @ writable_path)))"

text \<open>The evidence roots whose join with the required path is inside the step's scopes.\<close>

fun authorized_candidates :: "string list \<Rightarrow> posix_path list \<Rightarrow> exn + posix_path list" where
  "authorized_candidates scopes [] = Inr []"
| "authorized_candidates scopes (candidate # candidates) =
     bindr (writable_path_allows scopes (as_posix candidate)) (\<lambda>allowed.
     bindr (authorized_candidates scopes candidates) (\<lambda>rest.
       Inr (if allowed then candidate # rest else rest)))"

definition check_evidence :: "plan_step \<Rightarrow> repository_definition \<Rightarrow> evidence_requirement \<Rightarrow> exn + unit" where
  "check_evidence step repository requirement =
     bindr (authorized_candidates (auth_writable_paths (ps_authorization step))
         (map (\<lambda>root. path_join (pure_posix_path root) (pure_posix_path (ev_relative_path requirement)))
            (repo_evidence_roots repository)))
       (\<lambda>authorized. raise_if (length authorized \<noteq> 1)
          (PlanError (''step '' @ ps_step_id step @ '' evidence '' @ ev_artifact_id requirement
             @ '' must resolve inside exactly one writable_paths scope'')))"

definition check_reviewer :: "config \<Rightarrow> plan_step \<Rightarrow> string \<Rightarrow> exn + unit" where
  "check_reviewer config step reviewer_role_key =
     bindr (config_role_kind config reviewer_role_key) (\<lambda>kind.
       raise_if (kind \<noteq> Reviewer)
         (PlanError (''step '' @ ps_step_id step @ '' reviewer role is not a reviewer: '' @ reviewer_role_key)))"

fun for_each :: "('a \<Rightarrow> exn + unit) \<Rightarrow> 'a list \<Rightarrow> exn + unit" where
  "for_each f [] = Inr ()"
| "for_each f (x # xs) = bindr (f x) (\<lambda>_. for_each f xs)"

lemma for_each_Inr [simp]: "for_each f xs = Inr u \<longleftrightarrow> (\<forall>x \<in> set xs. f x = Inr ())"
  by (induction xs) (auto simp: bindr_Inr_iff)

definition allowed_actions :: "permission_policy \<Rightarrow> string list" where
  "allowed_actions policy = map (\<lambda>kv. action_name (fst kv)) (filter (\<lambda>kv. snd kv = Allow) (pp_actions policy))"

definition validate_step_for_config :: "config \<Rightarrow> plan_step \<Rightarrow> exn + unit" where
  "validate_step_for_config config step =
     (let actions = auth_authorized_actions (ps_authorization step);
          fail = (\<lambda>message. PlanError (''step '' @ ps_step_id step @ message))
      in
      (case config_repository config (ps_repo_id step) of
         Inl (ConfigError message) \<Rightarrow> Inl (PlanError message)
       | Inl e \<Rightarrow> Inl e
       | Inr repository \<Rightarrow>
      (case dget (pps_policies (pc_permission_policies (cfg_model config))) (repo_permission_policy repository) of
         None \<Rightarrow> Inl (KeyError (repo_permission_policy repository))
       | Some repository_policy \<Rightarrow>
      bindr (raise_if (list_ex (\<lambda>a. a \<notin> set (allowed_actions repository_policy)) actions)
        (fail '' authorization exceeds repository policy'')) (\<lambda>_.
      bindr (raise_if (''commit'' \<in> set actions \<and> repo_commit_policy repository \<noteq> Commit_required)
        (fail '' commit authorization requires repository commit_policy required'')) (\<lambda>_.
      bindr (raise_if (repo_commit_policy repository = Commit_required \<and> ''modify'' \<in> set actions
          \<and> ''commit'' \<notin> set actions)
        (fail '' modifies a required-commit repository without commit authorization'')) (\<lambda>_.
      bindr (for_each (check_writable_roots step repository) (auth_writable_paths (ps_authorization step))) (\<lambda>_.
      bindr (if ''modify'' \<in> set actions
             then for_each (check_evidence step repository) (ps_evidence_requirements step) else Inr ()) (\<lambda>_.
      bindr (for_each (check_reviewer config step) (rev_reviewer_role_keys (ps_review step))) (\<lambda>_.
        (case rt_escalation_role_key (ps_retry step) of
           None \<Rightarrow> Inr ()
         | Some escalation_role \<Rightarrow> bindr (config_role config escalation_role) (\<lambda>_. Inr ())))))))))))"

definition validate_plan_for_config :: "config \<Rightarrow> normalized_plan \<Rightarrow> exn + unit" where
  "validate_plan_for_config config plan = for_each (validate_step_for_config config) (np_steps plan)"

end
