(* ===== verification/Plan_Graph.thy ===== *)
theory Plan_Graph
  imports Plan
begin

text \<open>
  What the graph checks of \<open>NormalizedPlan.validate_graph\<close> establish: the search for cycles is correct
  for every dependency map, the ordinal check alone already excludes cycles, the ancestor computation
  returns the transitive closure of the dependencies, and in an accepted plan two steps that write
  the same resource are always ordered.
\<close>

section \<open>The dependency relation\<close>

definition dep_rel :: "step_map \<Rightarrow> (string \<times> string) set" where
  "dep_rel m = {(d, i). \<exists>s. dget m i = Some s \<and> d \<in> set (ps_depends_on s)}"

definition closed_map :: "step_map \<Rightarrow> bool" where
  "closed_map m \<longleftrightarrow> (\<forall>i s. dget m i = Some s \<longrightarrow> set (ps_depends_on s) \<subseteq> set (dkeys m))"

definition ordinals_decrease :: "step_map \<Rightarrow> bool" where
  "ordinals_decrease m \<longleftrightarrow>
     (\<forall>i s d. dget m i = Some s \<longrightarrow> d \<in> set (ps_depends_on s) \<longrightarrow>
        (\<exists>t. dget m d = Some t \<and> ps_ordinal t < ps_ordinal s))"

section \<open>Depth-first search\<close>

text \<open>
  Soundness: a search that returns has closed every step it was asked for, and the closed steps are
  closed under dependencies and reach no cycle.
\<close>

fun ranked :: "step_map \<Rightarrow> string list \<Rightarrow> bool" where
  "ranked m [] = True"
| "ranked m (i # vd) = (i \<notin> set vd \<and> ranked m vd \<and> (\<forall>d. (d, i) \<in> dep_rel m \<longrightarrow> d \<in> set vd))"

lemma visit_sound:
  "visit m vg vd i = Inr vd' \<Longrightarrow> ranked m vd \<Longrightarrow> set vg \<inter> set vd = {} \<Longrightarrow>
     ranked m vd' \<and> set vg \<inter> set vd' = {} \<and> set vd \<subseteq> set vd' \<and> i \<in> set vd'"
  "visit_all m vg vd is = Inr vd' \<Longrightarrow> ranked m vd \<Longrightarrow> set vg \<inter> set vd = {} \<Longrightarrow>
     ranked m vd' \<and> set vg \<inter> set vd' = {} \<and> set vd \<subseteq> set vd' \<and> set is \<subseteq> set vd'"
proof (induction m vg vd i and m vg vd "is" arbitrary: vd' and vd' rule: visit_visit_all.induct)
  case (1 m vg vd i)
  show ?case
  proof (cases "i \<in> set vg \<or> i \<in> set vd")
    case True
    with 1 show ?thesis by (auto simp: visit.simps split: if_splits)
  next
    case False
    with "1.prems"(1) obtain s w where s: "dget m i = Some s"
      and w: "visit_all m (i # vg) vd (ps_depends_on s) = Inr w" and vd': "vd' = i # w"
      by (auto simp: visit.simps bindr_Inr_iff split: option.splits)
    from "1.IH" [OF _ _ s w "1.prems"(2)] False "1.prems"(3)
    have "ranked m w" "set (i # vg) \<inter> set w = {}" "set vd \<subseteq> set w" "set (ps_depends_on s) \<subseteq> set w"
      by auto
    with False s vd' show ?thesis by (auto simp: dep_rel_def)
  qed
next
  case (2 m vg vd)
  then show ?case by simp
next
  case (3 m vg vd d ds)
  then obtain w where w: "visit m vg vd d = Inr w" and rest: "visit_all m vg w ds = Inr vd'"
    by (auto simp: bindr_Inr_iff)
  from "3.IH"(1) [OF w "3.prems"(2,3)] have a: "ranked m w" "set vg \<inter> set w = {}" "set vd \<subseteq> set w" "d \<in> set w"
    by auto
  from "3.IH"(2) [OF w rest a(1,2)] a show ?case by auto
qed

text \<open>A list in which every dependency of an element comes after it reaches no cycle.\<close>

lemma ranked_closed:
  assumes "ranked m vd"
  shows "(d, i) \<in> (dep_rel m)\<^sup>+ \<Longrightarrow> i \<in> set vd \<Longrightarrow> d \<in> set vd"
proof -
  have one: "ranked m vd \<Longrightarrow> (d, i) \<in> dep_rel m \<Longrightarrow> i \<in> set vd \<Longrightarrow> d \<in> set vd" for d i
    by (induction vd) auto
  show "(d, i) \<in> (dep_rel m)\<^sup>+ \<Longrightarrow> i \<in> set vd \<Longrightarrow> d \<in> set vd"
    by (induction rule: converse_trancl_induct) (use assms one in blast)+
qed

lemma ranked_irreflexive:
  "ranked m vd \<Longrightarrow> i \<in> set vd \<Longrightarrow> (i, i) \<notin> (dep_rel m)\<^sup>+"
proof (induction vd)
  case (Cons j vd)
  show ?case
  proof (cases "i = j")
    case True
    show ?thesis
    proof
      assume "(i, i) \<in> (dep_rel m)\<^sup>+"
      then obtain e where e: "(e, j) \<in> dep_rel m" "e = i \<or> (i, e) \<in> (dep_rel m)\<^sup>+"
        using True by (auto elim: tranclE)
      with Cons.prems have "e \<in> set vd" "j \<notin> set vd" by auto
      with e True Cons.prems ranked_closed [of m vd i e] show False by auto
    qed
  qed (use Cons in auto)
qed simp

text \<open>Completeness: a search along an acyclic, closed map never raises.\<close>

lemma visit_complete:
  "acyclic (dep_rel m) \<Longrightarrow> closed_map m \<Longrightarrow> i \<in> set (dkeys m) \<Longrightarrow>
     \<forall>x \<in> set vg. (i, x) \<in> (dep_rel m)\<^sup>+ \<Longrightarrow> \<exists>vd'. visit m vg vd i = Inr vd'"
  "acyclic (dep_rel m) \<Longrightarrow> closed_map m \<Longrightarrow> set is \<subseteq> set (dkeys m) \<Longrightarrow>
     \<forall>i \<in> set is. \<forall>x \<in> set vg. (i, x) \<in> (dep_rel m)\<^sup>+ \<Longrightarrow> \<exists>vd'. visit_all m vg vd is = Inr vd'"
proof (induction m vg vd i and m vg vd "is" rule: visit_visit_all.induct)
  case (1 m vg vd i)
  from "1.prems"(1,4) have "i \<notin> set vg" by (auto simp: acyclic_def)
  moreover from "1.prems"(3) obtain s where s: "dget m i = Some s"
    using dget_None_iff [of m i] by (cases "dget m i") auto
  ultimately show ?case
  proof (cases "i \<in> set vd")
    case False
    have "set (ps_depends_on s) \<subseteq> set (dkeys m)" using "1.prems"(2) s by (auto simp: closed_map_def)
    moreover have "\<forall>d \<in> set (ps_depends_on s). \<forall>x \<in> set (i # vg). (d, x) \<in> (dep_rel m)\<^sup>+"
    proof (intro ballI)
      fix d x
      assume "d \<in> set (ps_depends_on s)" "x \<in> set (i # vg)"
      with s have "(d, i) \<in> dep_rel m" by (auto simp: dep_rel_def)
      with "1.prems"(4) \<open>x \<in> set (i # vg)\<close> show "(d, x) \<in> (dep_rel m)\<^sup>+"
        by (auto intro: trancl_into_trancl2)
    qed
    ultimately obtain w where "visit_all m (i # vg) vd (ps_depends_on s) = Inr w"
      using "1.IH" [OF \<open>i \<notin> set vg\<close> False s "1.prems"(1,2)] by blast
    with \<open>i \<notin> set vg\<close> False s show ?thesis by (simp add: visit.simps)
  qed (simp add: visit.simps)
next
  case (3 m vg vd d ds)
  from 3 obtain w where w: "visit m vg vd d = Inr w" by auto
  with "3.IH"(2) [OF w] "3.prems" show ?case by auto
qed simp

text \<open>\<open>_validate_no_cycles\<close> decides acyclicity.\<close>

lemma no_cycles_iff:
  assumes "closed_map m"
  shows "(\<exists>v. validate_no_cycles m = Inr v) \<longleftrightarrow> acyclic (dep_rel m)"
proof
  assume "\<exists>v. validate_no_cycles m = Inr v"
  then obtain v where v: "visit_all m [] [] (dkeys m) = Inr v" by (auto simp: validate_no_cycles_def)
  from visit_sound(2) [OF this] have ranked: "ranked m v" and keys: "set (dkeys m) \<subseteq> set v" by auto
  have "(i, i) \<notin> (dep_rel m)\<^sup>+" for i
  proof
    assume loop: "(i, i) \<in> (dep_rel m)\<^sup>+"
    then obtain e where "(e, i) \<in> dep_rel m" by (auto elim: tranclE)
    then have "i \<in> set (dkeys m)" by (force simp: dep_rel_def dest: map_of_SomeD)
    with keys ranked_irreflexive [OF ranked] loop show False by blast
  qed
  then show "acyclic (dep_rel m)" by (simp add: acyclic_def)
next
  assume "acyclic (dep_rel m)"
  from visit_complete(2) [OF this assms subset_refl] show "\<exists>v. validate_no_cycles m = Inr v"
    by (simp add: validate_no_cycles_def)
qed

lemma ordinals_acyclic:
  assumes "ordinals_decrease m"
  shows "acyclic (dep_rel m)" "closed_map m"
proof -
  define rank where "rank = (\<lambda>i. case dget m i of None \<Rightarrow> 0 | Some s \<Rightarrow> ps_ordinal s)"
  have less: "(d, i) \<in> (dep_rel m)\<^sup>+ \<Longrightarrow> rank d < rank i" for d i
  proof (induction rule: trancl_induct)
    case (base i)
    with assms show ?case by (fastforce simp: dep_rel_def ordinals_decrease_def rank_def)
  next
    case (step i j)
    from step.hyps(2) assms have "rank i < rank j"
      by (fastforce simp: dep_rel_def ordinals_decrease_def rank_def)
    with step.IH show ?case by simp
  qed
  show "acyclic (dep_rel m)" unfolding acyclic_def using less by (meson less_irrefl)
  show "closed_map m"
    using assms by (force simp: closed_map_def ordinals_decrease_def dest: map_of_SomeD)
qed

section \<open>Ancestors\<close>

lemma ancestor_fold:
  assumes "\<And>d. d \<in> set ds \<Longrightarrow> ancestor_steps n m d = Some (Inr (g d))"
  shows "fold (\<lambda>dependency acc. case acc of
              None \<Rightarrow> None
            | Some (Inl e) \<Rightarrow> Some (Inl e)
            | Some (Inr ancestors) \<Rightarrow>
                (case ancestor_steps n m dependency of
                   None \<Rightarrow> None
                 | Some (Inl e) \<Rightarrow> Some (Inl e)
                 | Some (Inr further) \<Rightarrow> Some (Inr (ancestors @ dependency # further))))
            ds (Some (Inr acc)) = Some (Inr (acc @ concat (map (\<lambda>d. d # g d) ds)))"
  using assms by (induction ds arbitrary: acc) auto

lemma dep_rel_ancestors:
  assumes "dget m i = Some s"
  shows "{d. (d, i) \<in> (dep_rel m)\<^sup>+} = (\<Union>d \<in> set (ps_depends_on s). insert d {e. (e, d) \<in> (dep_rel m)\<^sup>+})"
proof -
  have "(d, i) \<in> dep_rel m \<longleftrightarrow> d \<in> set (ps_depends_on s)" for d
    using assms by (auto simp: dep_rel_def)
  moreover have "(d, i) \<in> (dep_rel m)\<^sup>+ \<longleftrightarrow>
      (d, i) \<in> dep_rel m \<or> (\<exists>e. (d, e) \<in> (dep_rel m)\<^sup>+ \<and> (e, i) \<in> dep_rel m)" for d
    by (metis tranclE r_into_trancl' trancl_into_trancl)
  ultimately show ?thesis by auto
qed

text \<open>The recursion needs no more fuel than the ordinal of the step it starts from.\<close>

lemma ancestor_steps_correct:
  assumes "ordinals_decrease m" "\<forall>i s. dget m i = Some s \<longrightarrow> 1 \<le> ps_ordinal s"
  shows "dget m i = Some s \<Longrightarrow> ps_ordinal s \<le> int fuel \<Longrightarrow>
    \<exists>as. ancestor_steps fuel m i = Some (Inr as) \<and> set as = {d. (d, i) \<in> (dep_rel m)\<^sup>+}"
proof (induction fuel arbitrary: i s)
  case 0
  with assms(2) show ?case by force
next
  case (Suc n)
  have "\<exists>as. ancestor_steps n m d = Some (Inr as) \<and> set as = {e. (e, d) \<in> (dep_rel m)\<^sup>+}"
    if "d \<in> set (ps_depends_on s)" for d
  proof -
    from assms(1) Suc.prems(1) that obtain t where "dget m d = Some t" "ps_ordinal t < ps_ordinal s"
      unfolding ordinals_decrease_def by blast
    with Suc.IH Suc.prems(2) show ?thesis by auto
  qed
  then obtain g where g: "\<And>d. d \<in> set (ps_depends_on s) \<Longrightarrow>
      ancestor_steps n m d = Some (Inr (g d)) \<and> set (g d) = {e. (e, d) \<in> (dep_rel m)\<^sup>+}"
    by metis
  then have "ancestor_steps (Suc n) m i = Some (Inr (concat (map (\<lambda>d. d # g d) (ps_depends_on s))))"
    using Suc.prems(1) ancestor_fold [of "ps_depends_on s" n m g "[]"] by simp
  moreover have "set (concat (map (\<lambda>d. d # g d) (ps_depends_on s))) = {d. (d, i) \<in> (dep_rel m)\<^sup>+}"
    unfolding dep_rel_ancestors [OF Suc.prems(1)] using g by auto
  ultimately show ?case by blast
qed

section \<open>Accepted plans\<close>

lemma dkeys_dict_of: "set (dkeys (dict_of kvs)) = set (map fst kvs) \<and> distinct (dkeys (dict_of kvs))"
proof -
  have "distinct (dkeys d) \<Longrightarrow>
      set (dkeys (foldl (\<lambda>d kv. AList.update (fst kv) (snd kv) d) d kvs)) = set (dkeys d) \<union> set (map fst kvs)
      \<and> distinct (dkeys (foldl (\<lambda>d kv. AList.update (fst kv) (snd kv) d) d kvs))" for d :: "('a, 'b) dict"
  proof (induction kvs arbitrary: d)
    case (Cons kv kvs)
    from Cons.IH [OF distinct_dkeys_dset [OF Cons.prems], of "fst kv" "snd kv"]
      set_dkeys_dset [of "fst kv" "snd kv" d]
    show ?case by auto
  qed simp
  from this [of "[]"] show ?thesis by (simp add: dict_of_def)
qed

lemma dict_of_length_distinct: "length (dict_of kvs) = length kvs \<Longrightarrow> distinct (map fst kvs)"
  using dkeys_dict_of [of kvs] by (metis card_distinct distinct_card length_map)

definition accepted_plan :: "normalized_plan \<Rightarrow> bool" where
  "accepted_plan p \<longleftrightarrow> normalized_plan_errors p = []"

lemma accepted_plan_graph: "accepted_plan p \<Longrightarrow> validate_graph p = []"
  by (simp add: accepted_plan_def normalized_plan_errors_def)

lemma accepted_plan_steps: "accepted_plan p \<Longrightarrow> s \<in> set (np_steps p) \<Longrightarrow> plan_step_errors s = []"
  by (auto simp: accepted_plan_def normalized_plan_errors_def)

lemma accepted_plan_parts:
  assumes "accepted_plan p"
  shows "distinct (map ps_step_id (np_steps p))"
    "map ps_ordinal (np_steps p) = map int [1..<Suc (length (np_steps p))]"
    "s \<in> set (np_steps p) \<Longrightarrow> step_reference_errors (step_map_of (np_steps p)) s = []"
    "validate_unordered_write_locks (np_steps p) (step_map_of (np_steps p)) = []"
    "np_steps p \<noteq> []" "distinct (map src_source_id (np_sources p))"
proof -
  note g = accepted_plan_graph [OF assms, unfolded validate_graph_def Let_def first_error_Nil_iff, simplified]
  show "distinct (map ps_step_id (np_steps p))"
    using g dict_of_length_distinct [of "map (\<lambda>s. (ps_step_id s, s)) (np_steps p)"]
    by (simp add: step_map_of_def comp_def)
  show "map ps_ordinal (np_steps p) = map int [1..<Suc (length (np_steps p))]"
    "s \<in> set (np_steps p) \<Longrightarrow> step_reference_errors (step_map_of (np_steps p)) s = []"
    "validate_unordered_write_locks (np_steps p) (step_map_of (np_steps p)) = []"
    "np_steps p \<noteq> []" "distinct (map src_source_id (np_sources p))"
    using g by simp_all
qed

lemma step_map_lookup:
  assumes "distinct (map ps_step_id steps)"
  shows "dget (step_map_of steps) i = Some s \<longleftrightarrow> s \<in> set steps \<and> ps_step_id s = i"
proof -
  have "distinct (map fst (map (\<lambda>s. (ps_step_id s, s)) steps))" using assms by (simp add: comp_def)
  then show ?thesis
    unfolding step_map_of_def by (subst dict_of_distinct) (auto simp: map_of_eq_Some_iff)
qed

lemma accepted_plan_ordinals:
  assumes "accepted_plan p"
  shows "ordinals_decrease (step_map_of (np_steps p))"
    and "s \<in> set (np_steps p) \<Longrightarrow> 1 \<le> ps_ordinal s \<and> ps_ordinal s \<le> int (length (np_steps p))"
proof -
  note parts = accepted_plan_parts [OF assms]
  show "ordinals_decrease (step_map_of (np_steps p))"
    unfolding ordinals_decrease_def
  proof (intro allI impI)
    fix i s d
    assume "dget (step_map_of (np_steps p)) i = Some s" and d: "d \<in> set (ps_depends_on s)"
    then have "s \<in> set (np_steps p)" using step_map_lookup [OF parts(1)] by blast
    from parts(3) [OF this] d have "dependency_errors (step_map_of (np_steps p)) s d = []"
      by (auto simp: step_reference_errors_def)
    then show "\<exists>t. dget (step_map_of (np_steps p)) d = Some t \<and> ps_ordinal t < ps_ordinal s"
      by (auto simp: dependency_errors_def split: option.splits)
  qed
  assume "s \<in> set (np_steps p)"
  then have "ps_ordinal s \<in> set (map int [1..<Suc (length (np_steps p))])"
    using parts(2) by (metis image_eqI list.set_map)
  then show "1 \<le> ps_ordinal s \<and> ps_ordinal s \<le> int (length (np_steps p))" by auto
qed

lemma ancestors_of_accepted:
  assumes "accepted_plan p" "s \<in> set (np_steps p)"
  shows "set (ancestors_of (step_map_of (np_steps p)) (ps_step_id s))
    = {d. (d, ps_step_id s) \<in> (dep_rel (step_map_of (np_steps p)))\<^sup>+}"
proof -
  note parts = accepted_plan_parts [OF assms(1)]
  let ?m = "step_map_of (np_steps p)"
  have look: "dget ?m (ps_step_id s) = Some s" using step_map_lookup [OF parts(1)] assms(2) by blast
  have len: "length ?m = length (np_steps p)"
    unfolding step_map_of_def using parts(1) by (subst dict_of_distinct) (auto simp: comp_def)
  have "\<forall>i s. dget ?m i = Some s \<longrightarrow> 1 \<le> ps_ordinal s"
    using accepted_plan_ordinals(2) [OF assms(1)] step_map_lookup [OF parts(1)] by blast
  moreover have "ps_ordinal s \<le> int (Suc (length ?m))" using accepted_plan_ordinals(2) [OF assms] len by simp
  ultimately obtain as where "ancestor_steps (Suc (length ?m)) ?m (ps_step_id s) = Some (Inr as)"
    and "set as = {d. (d, ps_step_id s) \<in> (dep_rel ?m)\<^sup>+}"
    using ancestor_steps_correct [OF accepted_plan_ordinals(1) [OF assms(1)] _ look] by blast
  then show ?thesis by (simp add: ancestors_of_def del: ancestor_steps.simps)
qed

section \<open>Writers of one resource\<close>

lemma writers_lookup:
  "dget (foldl add_writer d kvs) r =
     (let ws = (case dget d r of None \<Rightarrow> [] | Some ws \<Rightarrow> ws) @ map snd (filter (\<lambda>kv. fst kv = r) kvs)
      in if ws = [] then dget d r else Some ws)"
  by (induction kvs arbitrary: d) (auto simp: add_writer_def Let_def dget_dset split: option.splits)

lemma ordered_pairs_complete:
  "x \<in> set xs \<Longrightarrow> y \<in> set xs \<Longrightarrow> x \<noteq> y \<Longrightarrow> (x, y) \<in> set (ordered_pairs xs) \<or> (y, x) \<in> set (ordered_pairs xs)"
  by (induction xs) auto

lemma write_locks_member:
  "(r, i) \<in> set (write_locks steps) \<longleftrightarrow>
     (\<exists>s \<in> set steps. ps_step_id s = i \<and> (\<exists>l \<in> set (ps_resource_locks s). lock_resource_id l = r \<and> lock_mode l = Lock_write))"
  by (auto simp: write_locks_def)

lemma writers_of_member:
  assumes "(r, i) \<in> set (write_locks steps)"
  shows "\<exists>ws. dget (writers_of steps) r = Some ws \<and> i \<in> set ws
    \<and> ws = map snd (filter (\<lambda>kv. fst kv = r) (write_locks steps))"
proof -
  have "filter (\<lambda>kv. fst kv = r) (write_locks steps) \<noteq> []" using assms by (force simp: filter_empty_conv)
  then show ?thesis using assms by (force simp: writers_of_def writers_lookup Let_def)
qed

definition writes :: "plan_step \<Rightarrow> string \<Rightarrow> bool" where
  "writes s r \<longleftrightarrow> (\<exists>l \<in> set (ps_resource_locks s). lock_resource_id l = r \<and> lock_mode l = Lock_write)"

lemma writers_ordered:
  assumes "accepted_plan p" "s \<in> set (np_steps p)" "t \<in> set (np_steps p)" "s \<noteq> t" "writes s r" "writes t r"
  shows "(ps_step_id s, ps_step_id t) \<in> (dep_rel (step_map_of (np_steps p)))\<^sup>+
    \<or> (ps_step_id t, ps_step_id s) \<in> (dep_rel (step_map_of (np_steps p)))\<^sup>+"
proof -
  note parts = accepted_plan_parts [OF assms(1)]
  have ids: "ps_step_id s \<noteq> ps_step_id t"
    using parts(1) assms(2-4) by (auto simp: distinct_map dest: inj_onD)
  have "(r, ps_step_id s) \<in> set (write_locks (np_steps p))" "(r, ps_step_id t) \<in> set (write_locks (np_steps p))"
    using assms by (auto simp: write_locks_member writes_def)
  then obtain ws where ws: "(r, ws) \<in> set (writers_of (np_steps p))"
    and mem: "ps_step_id s \<in> set ws" "ps_step_id t \<in> set ws"
    using writers_of_member by (metis map_of_SomeD option.inject)
  from ordered_pairs_complete [OF mem ids] obtain a b where ab: "(a, b) \<in> set (ordered_pairs ws)"
    and cases: "(a, b) = (ps_step_id s, ps_step_id t) \<or> (a, b) = (ps_step_id t, ps_step_id s)" by blast
  from parts(4) ws ab have "unordered_pair_errors (ancestors_of (step_map_of (np_steps p))) r (a, b) = []"
    by (fastforce simp: validate_unordered_write_locks_def)
  then have "a \<in> set (ancestors_of (step_map_of (np_steps p)) b) \<or> b \<in> set (ancestors_of (step_map_of (np_steps p)) a)"
    by (auto simp: unordered_pair_errors_def)
  with cases show ?thesis
    using ancestors_of_accepted [OF assms(1) assms(2)] ancestors_of_accepted [OF assms(1) assms(3)] by auto
qed

end
