(* ===== verification/Plan_Approval.thy ===== *)
theory Plan_Approval
  imports Plan_Graph
begin

text \<open>
  What an approval binds. The JSON payloads of the digests determine the data they are made of, so
  an approval of one plan passes for another one only if both have the same semantic steps and the
  same sources, or if the two canonical texts collide under SHA-256.
\<close>

section \<open>Canonical objects with fixed keys\<close>

lemma sort_key_fst_inj:
  assumes "map fst xs = map fst ys" "distinct (map fst xs)" "sort_key fst xs = sort_key fst ys"
  shows "xs = ys"
proof -
  have "set xs = set ys" using assms(3) by (metis set_sort)
  moreover have "distinct (map fst ys)" using assms(1,2) by simp
  ultimately have "map_of xs = map_of ys" using assms(2) by (simp add: map_of_inject_set)
  then have "map snd xs = map snd ys"
  proof -
    assume eq: "map_of xs = map_of ys"
    have "map snd zs = map (the \<circ> map_of zs) (map fst zs)" if "distinct (map fst zs)" for zs :: "('a \<times> 'b) list"
      using that by (auto simp: map_of_is_SomeI)
    with assms(1,2) eq \<open>distinct (map fst ys)\<close> show ?thesis by metis
  qed
  with assms(1) show ?thesis by (metis zip_map_fst_snd)
qed

lemma canon_JObj_eq:
  assumes "map fst a = map fst b" "distinct (map fst a)"
  shows "canon (JObj a) = canon (JObj b) \<longleftrightarrow> list_all2 (\<lambda>x y. canon (snd x) = canon (snd y)) a b"
proof -
  let ?f = "map (\<lambda>kv. (fst kv, canon (snd kv)))"
  have keys: "map fst (?f a) = map fst (?f b)" "distinct (map fst (?f a))"
    using assms by (simp_all add: comp_def)
  have "canon (JObj a) = canon (JObj b) \<longleftrightarrow> ?f a = ?f b"
    using sort_key_fst_inj [OF keys] by auto
  also have "\<dots> \<longleftrightarrow> list_all2 (\<lambda>x y. canon (snd x) = canon (snd y)) a b"
    using assms(1)
  proof (induction a arbitrary: b)
    case (Cons x a)
    then show ?case by (cases b) auto
  qed simp
  finally show ?thesis .
qed

lemma canon_leaf [simp]:
  "canon (JStr s) = canon (JStr t) \<longleftrightarrow> s = t" "canon (JInt i) = canon (JInt j) \<longleftrightarrow> i = j"
  "canon (JBool b) = canon (JBool c) \<longleftrightarrow> b = c"
  by simp_all

lemma canon_JArr_map_eq:
  assumes "\<And>x y. canon (f x) = canon (f y) \<longleftrightarrow> x = y"
  shows "canon (JArr (map f xs)) = canon (JArr (map f ys)) \<longleftrightarrow> xs = ys"
proof
  assume "canon (JArr (map f xs)) = canon (JArr (map f ys))"
  then have "map (canon \<circ> f) xs = map (canon \<circ> f) ys" by simp
  moreover have "inj (canon \<circ> f)" using assms by (auto simp: inj_def)
  ultimately show "xs = ys" by simp
qed simp

lemma canon_json_strings_eq: "canon (json_strings xs) = canon (json_strings ys) \<longleftrightarrow> xs = ys"
  unfolding json_strings_def by (rule canon_JArr_map_eq) simp

lemma canon_json_optional_eq:
  assumes "\<And>x y. canon (f x) = canon (f y) \<longleftrightarrow> x = y" "\<And>x. canon (f x) \<noteq> JNull"
  shows "canon (json_optional f x) = canon (json_optional f y) \<longleftrightarrow> x = y"
  using assms assms(2) [THEN not_sym] by (cases x; cases y) (auto simp: json_optional_def)

section \<open>The payloads determine the data\<close>

lemmas canon_object = canon_JObj_eq [THEN iffD1]

lemma literal_texts_inj:
  "source_root_text a = source_root_text b \<longleftrightarrow> a = b"
  "source_media_text c = source_media_text d \<longleftrightarrow> c = d"
  "evidence_media_text e = evidence_media_text f \<longleftrightarrow> e = f"
  "lock_mode_text g = lock_mode_text h \<longleftrightarrow> g = h"
  "retry_choice_text i = retry_choice_text j \<longleftrightarrow> i = j"
  "cluster_action_text k = cluster_action_text l \<longleftrightarrow> k = l"
  by ((cases a; cases b; simp), (cases c; cases d; simp), (cases e; cases f; simp),
      (cases g; cases h; simp), (cases i; cases j; simp), (cases k; cases l; simp))

lemmas canon_members = canon_json_strings_eq literal_texts_inj

lemma canon_plan_source_eq: "canon (json_plan_source x) = canon (json_plan_source y) \<longleftrightarrow> x = y"
  unfolding json_plan_source_def
  by (subst canon_JObj_eq) (auto simp: canon_members)

lemma canon_artifact_reference_eq:
  "canon (json_artifact_reference x) = canon (json_artifact_reference y) \<longleftrightarrow> x = y"
  unfolding json_artifact_reference_def
  by (subst canon_JObj_eq) (auto simp: canon_members canon_json_optional_eq)

lemma canon_resource_lock_eq: "canon (json_resource_lock x) = canon (json_resource_lock y) \<longleftrightarrow> x = y"
  unfolding json_resource_lock_def
  by (subst canon_JObj_eq) (auto simp: canon_members)

lemma canon_step_authorization_eq:
  "canon (json_step_authorization x) = canon (json_step_authorization y) \<longleftrightarrow> x = y"
  unfolding json_step_authorization_def
  by (subst canon_JObj_eq) (auto simp: canon_members)

lemma canon_ints_eq: "canon (JArr (map JInt xs)) = canon (JArr (map JInt ys)) \<longleftrightarrow> xs = ys"
  by (rule canon_JArr_map_eq) simp

lemma canon_verification_check_eq:
  "canon (json_verification_check x) = canon (json_verification_check y) \<longleftrightarrow> x = y"
  unfolding json_verification_check_def
  by (subst canon_JObj_eq) (auto simp: canon_members canon_ints_eq simp del: canon.simps(1))

lemma canon_acceptance_criterion_eq:
  "canon (json_acceptance_criterion x) = canon (json_acceptance_criterion y) \<longleftrightarrow> x = y"
  unfolding json_acceptance_criterion_def
  by (subst canon_JObj_eq) (auto simp: canon_members canon_verification_check_eq)

lemma canon_evidence_requirement_eq:
  "canon (json_evidence_requirement x) = canon (json_evidence_requirement y) \<longleftrightarrow> x = y"
  unfolding json_evidence_requirement_def
  by (subst canon_JObj_eq) (auto simp: canon_members)

lemma canon_review_obligation_eq:
  "canon (json_review_obligation x) = canon (json_review_obligation y) \<longleftrightarrow> x = y"
  unfolding json_review_obligation_def
  by (subst canon_JObj_eq) (auto simp: canon_members)

lemma canon_retry_policy_eq: "canon (json_retry_policy x) = canon (json_retry_policy y) \<longleftrightarrow> x = y"
  unfolding json_retry_policy_def
  by (subst canon_JObj_eq) (auto simp: canon_members canon_json_optional_eq)

lemma map_cluster_action_text_eq [simp]:
  "map cluster_action_text xs = map cluster_action_text ys \<longleftrightarrow> xs = ys"
  using inj_map_eq_map [of cluster_action_text xs ys] by (simp add: inj_def literal_texts_inj)

lemma canon_cluster_operation_eq:
  "canon (json_cluster_operation x) = canon (json_cluster_operation y) \<longleftrightarrow> x = y"
  unfolding json_cluster_operation_def
  by (subst canon_JObj_eq) (auto simp: canon_members)

lemma canon_object_not_null: "canon (json_cluster_operation x) \<noteq> JNull"
  by (simp add: json_cluster_operation_def)

lemmas canon_step_members =
  canon_json_strings_eq
  canon_JArr_map_eq [OF canon_artifact_reference_eq]
  canon_JArr_map_eq [OF canon_resource_lock_eq]
  canon_JArr_map_eq [OF canon_acceptance_criterion_eq]
  canon_JArr_map_eq [OF canon_evidence_requirement_eq]
  canon_step_authorization_eq canon_review_obligation_eq canon_retry_policy_eq
  canon_json_optional_eq [OF canon_cluster_operation_eq canon_object_not_null]

lemma canon_plan_step_eq: "canon (json_plan_step x) = canon (json_plan_step y) \<longleftrightarrow> x = y"
  unfolding json_plan_step_def
  by (subst canon_JObj_eq) (auto simp: canon_step_members simp del: canon.simps(1))

lemma canon_plan_payload_eq:
  "canon (plan_payload p) = canon (plan_payload q) \<longleftrightarrow>
     np_schema_version p = np_schema_version q \<and> np_plan_id p = np_plan_id q \<and> np_steps p = np_steps q"
  unfolding plan_payload_def
  by (subst canon_JObj_eq) (auto simp: canon_JArr_map_eq [OF canon_plan_step_eq] simp del: canon.simps(1))

lemma canon_source_payload_eq: "canon (source_payload p) = canon (source_payload q) \<longleftrightarrow> np_sources p = np_sources q"
  unfolding source_payload_def by (rule canon_JArr_map_eq) (rule canon_plan_source_eq)

section \<open>Approvals\<close>

lemma plan_digest_cases:
  "plan_digest p = plan_digest q \<longleftrightarrow>
     (np_schema_version p = np_schema_version q \<and> np_plan_id p = np_plan_id q \<and> np_steps p = np_steps q)
     \<or> sha_collision (dumps (plan_payload p)) (dumps (plan_payload q))"
  by (simp add: plan_digest_def digest_json_cases canon_plan_payload_eq)

lemma source_digest_cases:
  "source_digest p = source_digest q \<longleftrightarrow>
     np_sources p = np_sources q \<or> sha_collision (dumps (source_payload p)) (dumps (source_payload q))"
  by (simp add: source_digest_def digest_json_cases canon_source_payload_eq)

lemma approve_plan_Inr:
  "approve_plan p ref now = Inr a \<longleftrightarrow> identifier_ok ref \<and>
     a = \<lparr>pa_plan_digest = plan_digest p, pa_source_digest = source_digest p,
          pa_operator_decision_ref = ref, pa_approved_at = now\<rparr>"
  by (auto simp: approve_plan_def plan_approval_errors_def plan_digest_def source_digest_def digest_json_ok)

lemma validate_plan_approval_Inr:
  "validate_plan_approval p a = Inr () \<longleftrightarrow>
     pa_plan_digest a = plan_digest p \<and> pa_source_digest a = source_digest p"
  by (auto simp: validate_plan_approval_def)

lemma approval_transfer:
  assumes "approve_plan p ref now = Inr a"
  shows "validate_plan_approval q a = Inr () \<longleftrightarrow>
     plan_digest p = plan_digest q \<and> source_digest p = source_digest q"
  using assms by (auto simp: approve_plan_Inr validate_plan_approval_Inr)

lemma approval_binds_content:
  assumes "approve_plan p ref now = Inr a" "validate_plan_approval q a = Inr ()"
    and "\<not> sha_collision (dumps (plan_payload p)) (dumps (plan_payload q))"
    and "\<not> sha_collision (dumps (source_payload p)) (dumps (source_payload q))"
  shows "p = q"
  using assms by (auto simp: approval_transfer plan_digest_cases source_digest_cases)

end
