(* ===== verification/Workflow.thy ===== *)
theory Workflow
  imports Complex_Main Plan_Approval
begin

text \<open>
  Run, step, dispatch, batch and workspace-group records of \<open>src/src/dispatcher/workflow.py\<close>: the
  status enumerations with their transition tables, the contract models with their validators, the
  transition functions, and the completion obligations that guard \<open>SUCCEEDED\<close>. Timestamps are integers;
  the two float fields of the records (measured cost and process creation time) are rationals. The
  proofs are in \<open>Workflow_Machines\<close>.
\<close>

section \<open>Statuses and transition tables\<close>

datatype run_status =
    Run_new | Run_ready | Run_running | Run_waiting_operator
  | Run_halted | Run_failed | Run_succeeded | Run_cancelled

datatype step_status =
    Step_pending | Step_ready | Step_executing | Step_executed | Step_review_required | Step_reviewing
  | Step_changes_requested | Step_blocked | Step_accepted | Step_waived | Step_failed

datatype dispatch_status =
    Dispatch_prepared | Dispatch_running | Dispatch_completed | Dispatch_failed
  | Dispatch_forwarded | Dispatch_acknowledged | Dispatch_abandoned

datatype batch_status = Batch_prepared | Batch_running | Batch_joined | Batch_failed

datatype workspace_group_status =
    Group_prepared | Group_active | Group_integrating | Group_cleanup_pending | Group_cleaned | Group_failed

fun run_status_value :: "run_status \<Rightarrow> string" where
  "run_status_value Run_new = ''NEW''"
| "run_status_value Run_ready = ''READY''"
| "run_status_value Run_running = ''RUNNING''"
| "run_status_value Run_waiting_operator = ''WAITING_OPERATOR''"
| "run_status_value Run_halted = ''HALTED''"
| "run_status_value Run_failed = ''FAILED''"
| "run_status_value Run_succeeded = ''SUCCEEDED''"
| "run_status_value Run_cancelled = ''CANCELLED''"

fun step_status_value :: "step_status \<Rightarrow> string" where
  "step_status_value Step_pending = ''PENDING''"
| "step_status_value Step_ready = ''READY''"
| "step_status_value Step_executing = ''EXECUTING''"
| "step_status_value Step_executed = ''EXECUTED''"
| "step_status_value Step_review_required = ''REVIEW_REQUIRED''"
| "step_status_value Step_reviewing = ''REVIEWING''"
| "step_status_value Step_changes_requested = ''CHANGES_REQUESTED''"
| "step_status_value Step_blocked = ''BLOCKED''"
| "step_status_value Step_accepted = ''ACCEPTED''"
| "step_status_value Step_waived = ''WAIVED''"
| "step_status_value Step_failed = ''FAILED''"

fun dispatch_status_value :: "dispatch_status \<Rightarrow> string" where
  "dispatch_status_value Dispatch_prepared = ''PREPARED''"
| "dispatch_status_value Dispatch_running = ''RUNNING''"
| "dispatch_status_value Dispatch_completed = ''COMPLETED''"
| "dispatch_status_value Dispatch_failed = ''FAILED''"
| "dispatch_status_value Dispatch_forwarded = ''FORWARDED''"
| "dispatch_status_value Dispatch_acknowledged = ''ACKNOWLEDGED''"
| "dispatch_status_value Dispatch_abandoned = ''ABANDONED''"

fun batch_status_value :: "batch_status \<Rightarrow> string" where
  "batch_status_value Batch_prepared = ''PREPARED''"
| "batch_status_value Batch_running = ''RUNNING''"
| "batch_status_value Batch_joined = ''JOINED''"
| "batch_status_value Batch_failed = ''FAILED''"

fun workspace_group_status_value :: "workspace_group_status \<Rightarrow> string" where
  "workspace_group_status_value Group_prepared = ''PREPARED''"
| "workspace_group_status_value Group_active = ''ACTIVE''"
| "workspace_group_status_value Group_integrating = ''INTEGRATING''"
| "workspace_group_status_value Group_cleanup_pending = ''CLEANUP_PENDING''"
| "workspace_group_status_value Group_cleaned = ''CLEANED''"
| "workspace_group_status_value Group_failed = ''FAILED''"

fun run_transitions :: "run_status \<Rightarrow> run_status list" where
  "run_transitions Run_new = [Run_ready, Run_waiting_operator, Run_failed, Run_cancelled]"
| "run_transitions Run_ready = [Run_running, Run_waiting_operator, Run_halted, Run_failed, Run_cancelled]"
| "run_transitions Run_running = [Run_waiting_operator, Run_halted, Run_failed, Run_succeeded, Run_cancelled]"
| "run_transitions Run_waiting_operator = [Run_ready, Run_running, Run_halted, Run_failed, Run_cancelled]"
| "run_transitions Run_halted = []"
| "run_transitions Run_failed = []"
| "run_transitions Run_succeeded = []"
| "run_transitions Run_cancelled = []"

fun step_transitions :: "step_status \<Rightarrow> step_status list" where
  "step_transitions Step_pending = [Step_ready, Step_waived]"
| "step_transitions Step_ready = [Step_executing, Step_blocked, Step_waived, Step_failed]"
| "step_transitions Step_executing = [Step_executed, Step_blocked, Step_failed]"
| "step_transitions Step_executed = [Step_review_required, Step_accepted]"
| "step_transitions Step_review_required = [Step_reviewing, Step_blocked, Step_failed]"
| "step_transitions Step_reviewing =
     [Step_accepted, Step_changes_requested, Step_blocked, Step_failed, Step_review_required]"
| "step_transitions Step_changes_requested = [Step_ready, Step_review_required, Step_blocked, Step_failed]"
| "step_transitions Step_blocked = [Step_ready, Step_waived, Step_failed]"
| "step_transitions Step_accepted = []"
| "step_transitions Step_waived = []"
| "step_transitions Step_failed = []"

fun dispatch_transitions :: "dispatch_status \<Rightarrow> dispatch_status list" where
  "dispatch_transitions Dispatch_prepared = [Dispatch_running, Dispatch_abandoned]"
| "dispatch_transitions Dispatch_running = [Dispatch_completed, Dispatch_failed, Dispatch_abandoned]"
| "dispatch_transitions Dispatch_completed = [Dispatch_forwarded]"
| "dispatch_transitions Dispatch_failed = []"
| "dispatch_transitions Dispatch_forwarded = [Dispatch_acknowledged, Dispatch_abandoned]"
| "dispatch_transitions Dispatch_acknowledged = []"
| "dispatch_transitions Dispatch_abandoned = []"

fun batch_transitions :: "batch_status \<Rightarrow> batch_status list" where
  "batch_transitions Batch_prepared = [Batch_running, Batch_failed]"
| "batch_transitions Batch_running = [Batch_joined, Batch_failed]"
| "batch_transitions Batch_joined = []"
| "batch_transitions Batch_failed = []"

fun workspace_group_transitions :: "workspace_group_status \<Rightarrow> workspace_group_status list" where
  "workspace_group_transitions Group_prepared = [Group_active, Group_failed]"
| "workspace_group_transitions Group_active = [Group_integrating, Group_cleanup_pending, Group_failed]"
| "workspace_group_transitions Group_integrating = [Group_cleanup_pending, Group_failed]"
| "workspace_group_transitions Group_cleanup_pending = [Group_cleaned, Group_failed]"
| "workspace_group_transitions Group_cleaned = []"
| "workspace_group_transitions Group_failed = [Group_cleanup_pending]"

definition ACTIVE_DISPATCH_STATES :: "dispatch_status list" where
  "ACTIVE_DISPATCH_STATES = [Dispatch_prepared, Dispatch_running, Dispatch_completed, Dispatch_forwarded]"

definition validate_transition ::
  "string \<Rightarrow> ('s \<Rightarrow> string) \<Rightarrow> 's \<Rightarrow> 's \<Rightarrow> ('s \<Rightarrow> 's list) \<Rightarrow> exn + unit" where
  "validate_transition entity value current target transitions =
     raise_if (target \<notin> set (transitions current))
       (TransitionError (''invalid '' @ entity @ '' transition: '' @ value current @ '' -> '' @ value target))"

section \<open>Records\<close>

datatype actor = Actor_dispatcher | Actor_supervisor | Actor_executor | Actor_reviewer | Actor_operator

record transition_event =
  te_event_id :: string
  te_sequence :: int
  te_actor :: actor
  te_reason :: string
  te_correlation_id :: string
  te_occurred_at :: int

datatype request_kind =
    Req_underspecification | Req_risk_gate | Req_reconciliation | Req_budget | Req_escalation
  | Req_review_waiver | Req_batch_reconciliation | Req_workspace_reconciliation | Req_stall_recovery

record operator_request =
  or_request_id :: string
  or_question :: string
  or_allowed_answers :: "string list"
  or_context_ref :: string
  or_resume_to :: run_status
  or_expires_at :: "int option"
  or_required_role :: "string option"
  or_kind :: request_kind
  or_step_id :: "string option"
  or_reassignment_role_key :: "string option"

record repository_coordinate =
  rc_repo_id :: string
  rc_base_revision :: string
  rc_base_branch :: "string option"
  rc_working_branch :: "string option"
  rc_worktree_id :: "string option"
  rc_remote_name :: "string option"
  rc_remote_url :: "string option"

datatype worker_kind = Worker_executor | Worker_reviewer

record dispatch_intent =
  di_prompt_sha256 :: string
  di_policy_digest :: string
  di_expected_result_kind :: worker_kind
  di_repository :: repository_coordinate
  di_idempotency_key :: string

record dispatch_record =
  d_dispatch_id :: string
  d_batch_id :: "string option"
  d_workspace_group_id :: "string option"
  d_process_id :: "int option"
  d_process_host :: "string option"
  d_process_started_at :: "int option"
  d_process_create_time :: "rat option"
  d_cancel_requested :: bool
  d_cancel_requested_at :: "int option"
  d_failure_category :: "string option"
  d_failure_detail :: "string option"
  d_step_id :: string
  d_role_key :: string
  d_role_kind :: worker_kind
  d_attempt :: int
  d_logical_session_key :: string
  d_runtime_session_id :: "string option"
  d_state :: dispatch_status
  d_intent :: dispatch_intent
  d_result_digest :: "string option"
  d_forwarding_digest :: "string option"
  d_last_event :: transition_event

record batch_record =
  b_batch_id :: string
  b_dispatch_ids :: "string list"
  b_state :: batch_status
  b_failed_dispatch_ids :: "string list"
  b_last_event :: transition_event

record workspace_child =
  wc_step_id :: string
  wc_branch :: string
  wc_worktree_path :: string
  wc_base_revision :: string
  wc_head_revision :: "string option"

record workspace_group =
  wg_workspace_group_id :: string
  wg_repo_id :: string
  wg_base_revision :: string
  wg_base_branch :: string
  wg_integration_branch :: string
  wg_integration_worktree_path :: string
  wg_integration_revision :: "string option"
  wg_worktree_root :: string
  wg_lease_owner_id :: string
  wg_children :: "workspace_child list"
  wg_state :: workspace_group_status
  wg_last_event :: transition_event

record compiled_review_obligation =
  cro_step_id :: string
  cro_required :: bool
  cro_reviewer_role_keys :: "string list"
  cro_required_acceptances :: int
  cro_waivable :: bool
  cro_source_policy_digest :: string

record run_policy =
  pol_profile_id :: string
  pol_profile_digest :: string
  pol_review_obligations :: "(string, compiled_review_obligation) dict"
  pol_underspec_mode :: underspec_mode
  pol_policy_digest :: string

record usage_amount =
  ua_cost_usd :: rat
  ua_tokens_total :: int
  ua_tokens_input :: int
  ua_tokens_output :: int
  ua_tokens_reasoning :: int

record usage_ledger =
  ul_run :: usage_amount
  ul_by_step :: "(string, usage_amount) dict"
  ul_by_role :: "(string, usage_amount) dict"
  ul_by_session :: "(string, usage_amount) dict"

record step_record =
  s_step_id :: string
  s_state :: step_status
  s_executor_attempts :: int
  s_reviewer_attempts :: int
  s_active_dispatch_id :: "string option"
  s_accepted_artifact_ids :: "string list"
  s_review_acceptances :: int
  s_accepted_reviewer_role_keys :: "string list"
  s_rework_rounds :: int
  s_reassignment_role_key :: "string option"
  s_review_waiver_decision_ref :: "string option"
  s_stalls :: int
  s_last_stall_category :: "string option"
  s_last_stall_reason :: "string option"
  s_operator_gate_resolved :: bool
  s_waiver_decision_ref :: "string option"
  s_result_digests :: "string list"
  s_last_event :: transition_event

record run_record =
  r_run_id :: string
  r_project_id :: string
  r_config_digest :: string
  r_plan :: normalized_plan
  r_plan_digest :: string
  r_plan_approval :: plan_approval
  r_state :: run_status
  r_sequence :: int
  r_steps :: "(string, step_record) dict"
  r_dispatches :: "(string, dispatch_record) dict"
  r_batches :: "(string, batch_record) dict"
  r_workspace_groups :: "(string, workspace_group) dict"
  r_operator_request :: "operator_request option"
  r_policy :: "run_policy option"
  r_usage :: usage_ledger
  r_created_at :: int
  r_updated_at :: int

section \<open>Validation\<close>

definition transition_event_errors :: "transition_event \<Rightarrow> verror list" where
  "transition_event_errors e = field_errors
     [(''event_id'', identifier_ok (te_event_id e)),
      (''sequence'', 1 \<le> te_sequence e),
      (''reason'', length_between 1 5000 (te_reason e)),
      (''correlation_id'', identifier_ok (te_correlation_id e))]"

definition operator_request_errors :: "operator_request \<Rightarrow> verror list" where
  "operator_request_errors r =
     then_rules
       (field_errors
         [(''request_id'', identifier_ok (or_request_id r)),
          (''question'', length_between 1 10000 (or_question r)),
          (''allowed_answers'', list_all identifier_ok (or_allowed_answers r)),
          (''context_ref'', identifier_ok (or_context_ref r)),
          (''required_role'', optional identifier_ok (or_required_role r)),
          (''step_id'', optional identifier_ok (or_step_id r)),
          (''reassignment_role_key'', optional identifier_ok (or_reassignment_role_key r))])
       (first_rule
         [(or_allowed_answers r = [], ''operator request requires at least one allowed answer''),
          (\<not> distinct (or_allowed_answers r), ''operator request allowed_answers must not contain duplicates''),
          ((or_kind r = Req_escalation) \<noteq> (or_reassignment_role_key r \<noteq> None),
             ''only escalation requests may define reassignment_role_key'')])"

text \<open>\<open>^[a-f0-9]{64}$\<close> for worktree ids is the pattern of a digest.\<close>

definition repository_coordinate_errors :: "repository_coordinate \<Rightarrow> verror list" where
  "repository_coordinate_errors c = field_errors
     [(''repo_id'', identifier_ok (rc_repo_id c)),
      (''base_revision'', length_between 1 200 (rc_base_revision c)),
      (''base_branch'', optional (branch_ok 300) (rc_base_branch c)),
      (''working_branch'', optional (branch_ok 300) (rc_working_branch c)),
      (''worktree_id'', optional sha256_ok (rc_worktree_id c)),
      (''remote_name'', optional identifier_ok (rc_remote_name c)),
      (''remote_url'', optional (\<lambda>u. u \<noteq> []) (rc_remote_url c))]"

definition dispatch_intent_errors :: "dispatch_intent \<Rightarrow> verror list" where
  "dispatch_intent_errors i =
     field_errors
       [(''prompt_sha256'', sha256_ok (di_prompt_sha256 i)),
        (''policy_digest'', sha256_ok (di_policy_digest i))]
     @ repository_coordinate_errors (di_repository i)
     @ field_errors [(''idempotency_key'', identifier_ok (di_idempotency_key i))]"

definition has_result :: "dispatch_status \<Rightarrow> bool" where
  "has_result st \<longleftrightarrow> st \<in> {Dispatch_completed, Dispatch_forwarded, Dispatch_acknowledged}"

definition validate_state_data :: "dispatch_record \<Rightarrow> verror list" where
  "validate_state_data d = first_rule
     [(d_state d = Dispatch_prepared \<and> d_runtime_session_id d \<noteq> None,
         ''prepared dispatch cannot have runtime_session_id''),
      (has_result (d_state d) \<and> d_runtime_session_id d = None,
         ''completed dispatch requires runtime_session_id''),
      (has_result (d_state d) \<and> d_result_digest d = None,
         ''completed dispatch requires result_digest''),
      (d_state d \<in> {Dispatch_forwarded, Dispatch_acknowledged} \<and> d_forwarding_digest d = None,
         ''forwarded dispatch requires forwarding_digest'')]"

definition dispatch_record_errors :: "dispatch_record \<Rightarrow> verror list" where
  "dispatch_record_errors d =
     then_rules
       (field_errors
         [(''dispatch_id'', identifier_ok (d_dispatch_id d)),
          (''batch_id'', optional identifier_ok (d_batch_id d)),
          (''workspace_group_id'', optional identifier_ok (d_workspace_group_id d)),
          (''process_id'', optional (\<lambda>n. 1 \<le> n) (d_process_id d)),
          (''process_host'', optional identifier_ok (d_process_host d)),
          (''process_create_time'', optional (\<lambda>t. 0 \<le> t) (d_process_create_time d)),
          (''failure_category'', optional identifier_ok (d_failure_category d)),
          (''step_id'', identifier_ok (d_step_id d)),
          (''role_key'', identifier_ok (d_role_key d)),
          (''attempt'', 1 \<le> d_attempt d \<and> d_attempt d \<le> 100),
          (''logical_session_key'', identifier_ok (d_logical_session_key d)),
          (''runtime_session_id'', optional identifier_ok (d_runtime_session_id d))]
        @ dispatch_intent_errors (d_intent d)
        @ field_errors
           [(''result_digest'', optional sha256_ok (d_result_digest d)),
            (''forwarding_digest'', optional sha256_ok (d_forwarding_digest d))]
        @ transition_event_errors (d_last_event d))
       (validate_state_data d)"

definition batch_record_errors :: "batch_record \<Rightarrow> verror list" where
  "batch_record_errors b =
     then_rules
       (field_errors
         [(''batch_id'', identifier_ok (b_batch_id b)),
          (''dispatch_ids'', list_all identifier_ok (b_dispatch_ids b)),
          (''failed_dispatch_ids'', list_all identifier_ok (b_failed_dispatch_ids b))]
        @ transition_event_errors (b_last_event b))
       (first_rule
         [(b_dispatch_ids b = [], ''batch requires at least one dispatch''),
          (\<not> distinct (b_dispatch_ids b), ''batch dispatch_ids must not contain duplicates''),
          (\<not> set (b_failed_dispatch_ids b) \<subseteq> set (b_dispatch_ids b),
             ''batch failed_dispatch_ids must reference batch dispatch_ids'')])"

definition workspace_child_errors :: "workspace_child \<Rightarrow> verror list" where
  "workspace_child_errors c = field_errors
     [(''step_id'', identifier_ok (wc_step_id c)),
      (''branch'', branch_ok 300 (wc_branch c)),
      (''worktree_path'', wc_worktree_path c \<noteq> []),
      (''base_revision'', length_between 1 200 (wc_base_revision c)),
      (''head_revision'', optional (length_between 1 200) (wc_head_revision c))]"

definition workspace_group_errors :: "workspace_group \<Rightarrow> verror list" where
  "workspace_group_errors g =
     then_rules
       (field_errors
         [(''workspace_group_id'', identifier_ok (wg_workspace_group_id g)),
          (''repo_id'', identifier_ok (wg_repo_id g)),
          (''base_revision'', length_between 1 200 (wg_base_revision g)),
          (''base_branch'', identifier_ok (wg_base_branch g)),
          (''integration_branch'', branch_ok 300 (wg_integration_branch g)),
          (''integration_worktree_path'', wg_integration_worktree_path g \<noteq> []),
          (''integration_revision'', optional (length_between 1 200) (wg_integration_revision g)),
          (''worktree_root'', wg_worktree_root g \<noteq> []),
          (''lease_owner_id'', identifier_ok (wg_lease_owner_id g))]
        @ concat (map workspace_child_errors (wg_children g))
        @ transition_event_errors (wg_last_event g))
       (let paths = map wc_worktree_path (wg_children g) in first_rule
         [(wg_children g = [], ''workspace group requires at least one child''),
          (\<not> distinct (map wc_step_id (wg_children g)), ''workspace group children must have unique step IDs''),
          (\<not> distinct (map wc_branch (wg_children g)), ''workspace group children must have unique branches''),
          (\<not> distinct paths, ''workspace group children must have unique paths''),
          (wg_integration_worktree_path g \<in> set paths,
             ''workspace integration path must differ from child paths'')])"

definition compiled_review_obligation_errors :: "compiled_review_obligation \<Rightarrow> verror list" where
  "compiled_review_obligation_errors o' =
     then_rules
       (field_errors
         [(''step_id'', identifier_ok (cro_step_id o')),
          (''reviewer_role_keys'', list_all identifier_ok (cro_reviewer_role_keys o')),
          (''required_acceptances'', 0 \<le> cro_required_acceptances o' \<and> cro_required_acceptances o' \<le> 20),
          (''source_policy_digest'', sha256_ok (cro_source_policy_digest o'))])
       (first_rule
         [(cro_required o' \<noteq> (cro_required_acceptances o' \<noteq> 0),
             ''review obligation required must match required_acceptances''),
          (int (length (cro_reviewer_role_keys o')) < cro_required_acceptances o',
             ''review obligation acceptances cannot exceed reviewers''),
          (\<not> distinct (cro_reviewer_role_keys o'), ''review obligation reviewers must be unique'')])"

text \<open>A mapping field: every key is an \<open>Identifier\<close>, every value is a valid model.\<close>

definition dict_errors :: "('v \<Rightarrow> verror list) \<Rightarrow> (string, 'v) dict \<Rightarrow> verror list" where
  "dict_errors errs d =
     concat (map (\<lambda>kv. field_errors [(''[key]'', identifier_ok (fst kv))] @ errs (snd kv)) d)"

lemma dict_errors_Nil_iff [simp]:
  "dict_errors errs d = [] \<longleftrightarrow> (\<forall>(k, v) \<in> set d. identifier_ok k \<and> errs v = [])"
  by (auto simp: dict_errors_def)

definition run_policy_errors :: "run_policy \<Rightarrow> verror list" where
  "run_policy_errors p =
     field_errors
       [(''profile_id'', identifier_ok (pol_profile_id p)),
        (''profile_digest'', sha256_ok (pol_profile_digest p))]
     @ dict_errors compiled_review_obligation_errors (pol_review_obligations p)
     @ field_errors [(''policy_digest'', sha256_ok (pol_policy_digest p))]"

definition usage_amount_errors :: "usage_amount \<Rightarrow> verror list" where
  "usage_amount_errors u = field_errors
     [(''cost_usd'', 0 \<le> ua_cost_usd u),
      (''tokens_total'', 0 \<le> ua_tokens_total u),
      (''tokens_input'', 0 \<le> ua_tokens_input u),
      (''tokens_output'', 0 \<le> ua_tokens_output u),
      (''tokens_reasoning'', 0 \<le> ua_tokens_reasoning u)]"

definition usage_ledger_errors :: "usage_ledger \<Rightarrow> verror list" where
  "usage_ledger_errors u =
     usage_amount_errors (ul_run u) @ dict_errors usage_amount_errors (ul_by_step u)
     @ dict_errors usage_amount_errors (ul_by_role u) @ dict_errors usage_amount_errors (ul_by_session u)"

definition validate_step_record :: "step_record \<Rightarrow> verror list" where
  "validate_step_record s = first_rule
     [(s_state s = Step_waived \<and> s_waiver_decision_ref s = None, ''waived step requires waiver_decision_ref''),
      (s_state s \<noteq> Step_waived \<and> s_waiver_decision_ref s \<noteq> None,
         ''non-waived step cannot have waiver_decision_ref''),
      (\<not> distinct (s_accepted_artifact_ids s), ''accepted_artifact_ids must not contain duplicates''),
      (\<not> distinct (s_accepted_reviewer_role_keys s), ''accepted_reviewer_role_keys must not contain duplicates''),
      (s_reassignment_role_key s \<noteq> None \<and> s_state s \<noteq> Step_ready,
         ''reassignment_role_key is only valid for ready steps''),
      (s_review_waiver_decision_ref s \<noteq> None \<and> s_state s \<noteq> Step_accepted,
         ''review_waiver_decision_ref is only valid for accepted steps''),
      (\<not> distinct (s_result_digests s), ''result_digests must not contain duplicates'')]"

definition step_record_errors :: "step_record \<Rightarrow> verror list" where
  "step_record_errors s =
     then_rules
       (field_errors
         [(''step_id'', identifier_ok (s_step_id s)),
          (''executor_attempts'', 0 \<le> s_executor_attempts s \<and> s_executor_attempts s \<le> 100),
          (''reviewer_attempts'', 0 \<le> s_reviewer_attempts s \<and> s_reviewer_attempts s \<le> 100),
          (''active_dispatch_id'', optional identifier_ok (s_active_dispatch_id s)),
          (''accepted_artifact_ids'', list_all identifier_ok (s_accepted_artifact_ids s)),
          (''review_acceptances'', 0 \<le> s_review_acceptances s \<and> s_review_acceptances s \<le> 100),
          (''accepted_reviewer_role_keys'', list_all identifier_ok (s_accepted_reviewer_role_keys s)),
          (''rework_rounds'', 0 \<le> s_rework_rounds s \<and> s_rework_rounds s \<le> 100),
          (''reassignment_role_key'', optional identifier_ok (s_reassignment_role_key s)),
          (''review_waiver_decision_ref'', optional identifier_ok (s_review_waiver_decision_ref s)),
          (''stalls'', 0 \<le> s_stalls s \<and> s_stalls s \<le> 100),
          (''last_stall_category'', optional identifier_ok (s_last_stall_category s)),
          (''waiver_decision_ref'', optional identifier_ok (s_waiver_decision_ref s)),
          (''result_digests'', list_all sha256_ok (s_result_digests s))]
        @ transition_event_errors (s_last_event s))
       (validate_step_record s)"

text \<open>The checks of \<open>validate_run_record\<close>, in order.\<close>

definition run_policy_reference_errors :: "run_record \<Rightarrow> verror list" where
  "run_policy_reference_errors r =
     (case r_policy r of
        None \<Rightarrow> []
      | Some p \<Rightarrow> first_error
          (first_rule
             [(set (dkeys (pol_review_obligations p)) \<noteq> set (dkeys (r_steps r)),
                 ''run policy review obligations must exactly match run steps'')]
           # map (\<lambda>(step_id, o'). first_rule
               [(cro_step_id o' \<noteq> step_id,
                   ''run policy review obligation step_id must match its mapping key'')])
               (pol_review_obligations p)))"

definition run_batch_reference_errors :: "run_record \<Rightarrow> verror list" where
  "run_batch_reference_errors r =
     first_error (map (\<lambda>(batch_id, batch). first_rule
       [(b_batch_id batch \<noteq> batch_id, ''batch ID must match its mapping key''),
        (\<not> set (b_dispatch_ids batch) \<subseteq> set (dkeys (r_dispatches r)),
           ''batch dispatch_ids must reference run dispatches'')]) (r_batches r))"

definition run_group_reference_errors :: "run_record \<Rightarrow> verror list" where
  "run_group_reference_errors r =
     first_error (map (\<lambda>(group_id, group). first_rule
       [(wg_workspace_group_id group \<noteq> group_id, ''workspace group ID must match its mapping key''),
        (\<not> set (map wc_step_id (wg_children group)) \<subseteq> set (dkeys (r_steps r)),
           ''workspace group children must reference run steps'')]) (r_workspace_groups r))"

definition run_operator_errors :: "run_record \<Rightarrow> verror list" where
  "run_operator_errors r = first_rule
     [(r_state r = Run_waiting_operator \<and> r_operator_request r = None,
         ''waiting operator run requires operator_request''),
      (r_state r \<noteq> Run_waiting_operator \<and> r_operator_request r \<noteq> None,
         ''only waiting operator run may contain operator_request'')]"

definition validate_run_record :: "run_record \<Rightarrow> verror list" where
  "validate_run_record r = first_error
     [first_rule [(r_plan_digest r \<noteq> plan_digest (r_plan r), ''plan_digest does not match normalized plan'')],
      (case validate_plan_approval (r_plan r) (r_plan_approval r) of
         Inl (PlanError message) \<Rightarrow> [Rule message]
       | Inl _ \<Rightarrow> [Rule ''PlanError'']
       | Inr _ \<Rightarrow> []),
      first_rule
        [(set (dkeys (r_steps r)) \<noteq> set (map ps_step_id (np_steps (r_plan r))),
            ''run step records must exactly match normalized plan steps'')],
      run_policy_reference_errors r,
      run_batch_reference_errors r,
      run_group_reference_errors r,
      run_operator_errors r]"

definition run_field_errors :: "run_record \<Rightarrow> verror list" where
  "run_field_errors r =
     field_errors
       [(''run_id'', identifier_ok (r_run_id r)),
        (''project_id'', identifier_ok (r_project_id r)),
        (''config_digest'', sha256_ok (r_config_digest r))]
     @ normalized_plan_errors (r_plan r)
     @ field_errors [(''plan_digest'', sha256_ok (r_plan_digest r))]
     @ plan_approval_errors (r_plan_approval r)
     @ field_errors [(''sequence'', 0 \<le> r_sequence r)]
     @ dict_errors step_record_errors (r_steps r)
     @ dict_errors dispatch_record_errors (r_dispatches r)
     @ dict_errors batch_record_errors (r_batches r)
     @ dict_errors workspace_group_errors (r_workspace_groups r)
     @ (case r_operator_request r of None \<Rightarrow> [] | Some q \<Rightarrow> operator_request_errors q)
     @ (case r_policy r of None \<Rightarrow> [] | Some p \<Rightarrow> run_policy_errors p)
     @ usage_ledger_errors (r_usage r)"

definition run_record_errors :: "run_record \<Rightarrow> verror list" where
  "run_record_errors r = then_rules (run_field_errors r) (validate_run_record r)"

section \<open>Completion obligations\<close>

datatype obligation_code =
    Step_not_accepted | Dependency_not_accepted | Review_incomplete | Evidence_missing
  | Operator_gate_unresolved | Dispatch_in_flight | Operator_request_unresolved

record completion_obligation =
  ob_code :: obligation_code
  ob_step_id :: "string option"
  ob_detail :: string

definition is_done :: "step_status \<Rightarrow> bool" where
  "is_done st \<longleftrightarrow> st = Step_accepted \<or> st = Step_waived"

text \<open>Python's text of a list of identifiers: \<open>['a', 'b']\<close>.\<close>

definition list_repr :: "string list \<Rightarrow> string" where
  "list_repr xs = ''['' @ join_text '', '' (map (\<lambda>x. CHR 0x27 # x @ [CHR 0x27]) xs) @ '']''"

definition obligation :: "obligation_code \<Rightarrow> string \<Rightarrow> string \<Rightarrow> completion_obligation" where
  "obligation code step_id detail = \<lparr>ob_code = code, ob_step_id = Some step_id, ob_detail = detail\<rparr>"

fun dependency_obligations ::
  "(string, step_record) dict \<Rightarrow> string \<Rightarrow> string list \<Rightarrow> exn + completion_obligation list" where
  "dependency_obligations steps step_id [] = Inr []"
| "dependency_obligations steps step_id (dependency_id # rest) =
     (case dget steps dependency_id of
        None \<Rightarrow> Inl (KeyError dependency_id)
      | Some dependency \<Rightarrow>
          bindr (dependency_obligations steps step_id rest) (\<lambda>later.
            Inr ((if is_done (s_state dependency) then []
                  else [obligation Dependency_not_accepted step_id
                         (''step '' @ step_id @ '' dependency '' @ dependency_id
                          @ '' is not accepted or waived'')]) @ later)))"

definition required_acceptances_of :: "run_record \<Rightarrow> plan_step \<Rightarrow> string \<Rightarrow> exn + int" where
  "required_acceptances_of r plan_step step_id =
     (case r_policy r of
        None \<Rightarrow> Inr (rev_required_acceptances (ps_review plan_step))
      | Some p \<Rightarrow> (case dget (pol_review_obligations p) step_id of
          None \<Rightarrow> Inl (KeyError step_id)
        | Some o' \<Rightarrow> Inr (cro_required_acceptances o')))"

definition accepted_obligations :: "plan_step \<Rightarrow> step_record \<Rightarrow> string \<Rightarrow> int \<Rightarrow> completion_obligation list" where
  "accepted_obligations plan_step s step_id required_acceptances =
     (let missing = filter (\<lambda>a. a \<notin> set (s_accepted_artifact_ids s))
            (sort (remdups (map ev_artifact_id (ps_evidence_requirements plan_step))))
      in (if missing \<noteq> [] then
            [obligation Evidence_missing step_id (''step '' @ step_id @ '' is missing evidence '' @ list_repr missing)]
          else [])
         @ (if s_review_waiver_decision_ref s = None \<and> s_review_acceptances s < required_acceptances then
              [obligation Review_incomplete step_id
                 (''step '' @ step_id @ '' has '' @ int_text (s_review_acceptances s)
                  @ '' review acceptances, requires '' @ int_text required_acceptances)]
            else [])
         @ (if \<not> s_operator_gate_resolved s then
              [obligation Operator_gate_unresolved step_id
                 (''step '' @ step_id @ '' requires an unresolved operator gate'')]
            else []))"

definition step_obligations :: "run_record \<Rightarrow> step_map \<Rightarrow> string \<times> step_record \<Rightarrow> exn + completion_obligation list" where
  "step_obligations r plan_steps entry =
     (let step_id = fst entry; s = snd entry in
      case dget plan_steps step_id of
        None \<Rightarrow> Inl (KeyError step_id)
      | Some plan_step \<Rightarrow>
          bindr (required_acceptances_of r plan_step step_id) (\<lambda>required_acceptances.
            if \<not> is_done (s_state s) then
              Inr [obligation Step_not_accepted step_id
                     (''step '' @ step_id @ '' is '' @ step_status_value (s_state s))]
            else
              bindr (dependency_obligations (r_steps r) step_id (ps_depends_on plan_step)) (\<lambda>deps.
                Inr (deps @ (if s_state s = Step_accepted
                             then accepted_obligations plan_step s step_id required_acceptances else [])))))"

definition dispatch_obligations :: "run_record \<Rightarrow> completion_obligation list" where
  "dispatch_obligations r =
     map (\<lambda>(dispatch_id, d). obligation Dispatch_in_flight (d_step_id d)
            (''dispatch '' @ dispatch_id @ '' is '' @ dispatch_status_value (d_state d)))
       (filter (\<lambda>(dispatch_id, d). d_state d \<in> set ACTIVE_DISPATCH_STATES) (r_dispatches r))"

definition request_obligations :: "run_record \<Rightarrow> completion_obligation list" where
  "request_obligations r =
     (case r_operator_request r of
        None \<Rightarrow> []
      | Some q \<Rightarrow> [\<lparr>ob_code = Operator_request_unresolved, ob_step_id = None,
           ob_detail = ''operator request '' @ or_request_id q @ '' remains unresolved''\<rparr>])"

definition completion_obligations :: "run_record \<Rightarrow> exn + completion_obligation list" where
  "completion_obligations r =
     bindr (map_result (step_obligations r (step_map_of (np_steps (r_plan r)))) (r_steps r)) (\<lambda>per_step.
       Inr (concat per_step @ dispatch_obligations r @ request_obligations r))"

section \<open>Transitions\<close>

definition new_step_record :: "plan_step \<Rightarrow> transition_event \<Rightarrow> step_record" where
  "new_step_record step event =
     \<lparr>s_step_id = ps_step_id step, s_state = Step_pending, s_executor_attempts = 0, s_reviewer_attempts = 0,
      s_active_dispatch_id = None, s_accepted_artifact_ids = [], s_review_acceptances = 0,
      s_accepted_reviewer_role_keys = [], s_rework_rounds = 0, s_reassignment_role_key = None,
      s_review_waiver_decision_ref = None, s_stalls = 0, s_last_stall_category = None,
      s_last_stall_reason = None,
      s_operator_gate_resolved = (\<not> auth_requires_operator_approval (ps_authorization step)),
      s_waiver_decision_ref = None, s_result_digests = [], s_last_event = event\<rparr>"

definition zero_usage :: usage_amount where
  "zero_usage = \<lparr>ua_cost_usd = 0, ua_tokens_total = 0, ua_tokens_input = 0, ua_tokens_output = 0,
     ua_tokens_reasoning = 0\<rparr>"

definition empty_ledger :: usage_ledger where
  "empty_ledger = \<lparr>ul_run = zero_usage, ul_by_step = [], ul_by_role = [], ul_by_session = []\<rparr>"

definition new_run_record ::
  "string \<Rightarrow> string \<Rightarrow> string \<Rightarrow> normalized_plan \<Rightarrow> plan_approval \<Rightarrow> transition_event \<Rightarrow> int \<Rightarrow> exn + run_record" where
  "new_run_record run_id project_id config_digest plan approval event now =
     checked run_record_errors
       \<lparr>r_run_id = run_id, r_project_id = project_id, r_config_digest = config_digest, r_plan = plan,
        r_plan_digest = plan_digest plan, r_plan_approval = approval, r_state = Run_new,
        r_sequence = te_sequence event,
        r_steps = dict_of (map (\<lambda>s. (ps_step_id s, new_step_record s event)) (np_steps plan)),
        r_dispatches = [], r_batches = [], r_workspace_groups = [], r_operator_request = None,
        r_policy = None, r_usage = empty_ledger, r_created_at = now, r_updated_at = now\<rparr>"

definition transition_run ::
  "run_record \<Rightarrow> run_status \<Rightarrow> transition_event \<Rightarrow> operator_request option \<Rightarrow> exn + run_record" where
  "transition_run r target event operator_request =
     bindr (validate_transition ''run'' run_status_value (r_state r) target run_transitions) (\<lambda>_.
     if target = Run_waiting_operator \<and> operator_request = None then
       Inl (TransitionError ''WAITING_OPERATOR requires operator_request'')
     else if target \<noteq> Run_waiting_operator \<and> operator_request \<noteq> None then
       Inl (TransitionError ''operator_request is only valid for WAITING_OPERATOR'')
     else
       bindr (if target = Run_succeeded then completion_obligations r else Inr []) (\<lambda>obligations.
       if obligations \<noteq> [] then
         Inl (TransitionError (''completion denied: '' @ join_text ''; '' (map ob_detail obligations)))
       else checked run_record_errors
         (r\<lparr>r_state := target, r_sequence := te_sequence event, r_operator_request := operator_request,
            r_updated_at := te_occurred_at event\<rparr>)))"

definition transition_step ::
  "step_record \<Rightarrow> step_status \<Rightarrow> transition_event \<Rightarrow> string option \<Rightarrow> string option \<Rightarrow> string option
   \<Rightarrow> exn + step_record" where
  "transition_step s target event active_dispatch_id waiver_decision_ref review_waiver_decision_ref =
     (let review_waiver_acceptance =
            s_state s = Step_review_required \<and> target = Step_accepted \<and> review_waiver_decision_ref \<noteq> None
      in bindr (if review_waiver_acceptance then Inr ()
                else validate_transition ''step'' step_status_value (s_state s) target step_transitions) (\<lambda>_.
         if target = Step_waived \<and> waiver_decision_ref = None then
           Inl (TransitionError ''WAIVED requires waiver_decision_ref'')
         else if target \<noteq> Step_waived \<and> waiver_decision_ref \<noteq> None then
           Inl (TransitionError ''waiver_decision_ref is only valid for WAIVED'')
         else if target \<noteq> Step_accepted \<and> review_waiver_decision_ref \<noteq> None then
           Inl (TransitionError ''review_waiver_decision_ref is only valid for ACCEPTED'')
         else checked step_record_errors
           (s\<lparr>s_state := target, s_active_dispatch_id := active_dispatch_id,
              s_waiver_decision_ref := waiver_decision_ref,
              s_review_waiver_decision_ref := review_waiver_decision_ref,
              s_reassignment_role_key := None, s_last_event := event\<rparr>)))"

text \<open>The optional arguments of \<open>transition_dispatch\<close>.\<close>

record dispatch_update =
  du_runtime_session_id :: "string option"
  du_result_digest :: "string option"
  du_forwarding_digest :: "string option"
  du_failure_category :: "string option"
  du_failure_detail :: "string option"
  du_process_host :: "string option"
  du_process_started_at :: "int option"
  du_process_create_time :: "rat option"
  du_process_id :: "int option"

definition no_update :: dispatch_update where
  "no_update = \<lparr>du_runtime_session_id = None, du_result_digest = None, du_forwarding_digest = None,
     du_failure_category = None, du_failure_detail = None, du_process_host = None,
     du_process_started_at = None, du_process_create_time = None, du_process_id = None\<rparr>"

text \<open>\<open>updates[k] = v\<close> only where the argument is not \<open>None\<close>.\<close>

definition or_keep :: "'a option \<Rightarrow> 'a option \<Rightarrow> 'a option" where
  "or_keep new old = (case new of None \<Rightarrow> old | Some x \<Rightarrow> Some x)"

lemma or_keep_simps [simp]: "or_keep None old = old" "or_keep (Some x) old = Some x"
  by (simp_all add: or_keep_def)

definition updated_dispatch ::
  "dispatch_record \<Rightarrow> dispatch_status \<Rightarrow> transition_event \<Rightarrow> dispatch_update \<Rightarrow> dispatch_record" where
  "updated_dispatch d target event u =
     d\<lparr>d_state := target, d_last_event := event,
       d_runtime_session_id := or_keep (du_runtime_session_id u) (d_runtime_session_id d),
       d_result_digest := or_keep (du_result_digest u) (d_result_digest d),
       d_forwarding_digest := or_keep (du_forwarding_digest u) (d_forwarding_digest d),
       d_failure_category := or_keep (du_failure_category u) (d_failure_category d),
       d_failure_detail := or_keep (map_option (take 5000) (du_failure_detail u)) (d_failure_detail d),
       d_process_host := or_keep (du_process_host u) (d_process_host d),
       d_process_started_at := or_keep (du_process_started_at u) (d_process_started_at d),
       d_process_create_time := or_keep (du_process_create_time u) (d_process_create_time d),
       d_process_id := or_keep (du_process_id u) (d_process_id d)\<rparr>"

definition transition_dispatch ::
  "dispatch_record \<Rightarrow> dispatch_status \<Rightarrow> transition_event \<Rightarrow> dispatch_update \<Rightarrow> exn + dispatch_record" where
  "transition_dispatch d target event u =
     bindr (validate_transition ''dispatch'' dispatch_status_value (d_state d) target dispatch_transitions) (\<lambda>_.
     if target = Dispatch_running \<and> du_process_create_time u = None then
       Inl (TransitionError ''RUNNING dispatch requires an OS process creation time'')
     else case checked dispatch_record_errors (updated_dispatch d target event u) of
            Inl e \<Rightarrow> Inl (if is_value_error e then TransitionError ''invalid dispatch transition data'' else e)
          | Inr d' \<Rightarrow> Inr d')"

definition transition_batch :: "batch_record \<Rightarrow> batch_status \<Rightarrow> transition_event \<Rightarrow> exn + batch_record" where
  "transition_batch b target event =
     bindr (validate_transition ''batch'' batch_status_value (b_state b) target batch_transitions) (\<lambda>_.
       Inr (b\<lparr>b_state := target, b_last_event := event\<rparr>))"

definition transition_workspace_group ::
  "workspace_group \<Rightarrow> workspace_group_status \<Rightarrow> transition_event \<Rightarrow> exn + workspace_group" where
  "transition_workspace_group g target event =
     bindr (validate_transition ''workspace group'' workspace_group_status_value (wg_state g) target
         workspace_group_transitions) (\<lambda>_.
       Inr (g\<lparr>wg_state := target, wg_last_event := event\<rparr>))"

fun terminal_exit_code :: "run_status \<Rightarrow> exn + int" where
  "terminal_exit_code Run_succeeded = Inr 0"
| "terminal_exit_code Run_halted = Inr 1"
| "terminal_exit_code Run_cancelled = Inr 1"
| "terminal_exit_code Run_failed = Inr 2"
| "terminal_exit_code status =
     Inl (TransitionError (''run state '' @ run_status_value status @ '' is not terminal''))"

end
