(* ===== verification/Policy.thy ===== *)
theory Policy
  imports Workflow
begin

text \<open>
  Review policy compilation: \<open>src/src/dispatcher/policy.py\<close>, with the profile digest of
  \<open>src/src/dispatcher/config.py\<close>. A selected profile, the project's review policy and one plan step
  become the review obligation of that step; the obligations of all steps become the run policy.
\<close>

section \<open>Selected profile\<close>

fun review_schedule_text :: "review_schedule \<Rightarrow> string" where
  "review_schedule_text Schedule_on_failure = ''on_failure''"
| "review_schedule_text Schedule_critical = ''critical''"
| "review_schedule_text Schedule_always = ''always''"

fun multi_review_text :: "multi_review \<Rightarrow> string" where
  "multi_review_text Multi_off = ''off''"
| "multi_review_text Multi_on_critical_only = ''on_critical_only''"
| "multi_review_text Multi_on_every_review = ''on_every_review''"

fun underspec_mode_text :: "underspec_mode \<Rightarrow> string" where
  "underspec_mode_text Underspec_ask = ''ask''"
| "underspec_mode_text Underspec_auto = ''auto''"

definition json_profile_definition :: "profile_definition \<Rightarrow> json" where
  "json_profile_definition p = JObj
     [(''review_schedule'', JStr (review_schedule_text (prof_review_schedule p))),
      (''multi_review'', JStr (multi_review_text (prof_multi_review p))),
      (''reviewer_role_keys'', json_strings (prof_reviewer_role_keys p)),
      (''required_acceptances'', JInt (prof_required_acceptances p))]"

definition json_review_policy :: "review_policy_definition \<Rightarrow> json" where
  "json_review_policy r = JObj
     [(''mandatory_review'', JBool (rp_mandatory_review r)),
      (''critical_risk_tags'', json_strings (rp_critical_risk_tags r)),
      (''allow_operator_waiver'', JBool (rp_allow_operator_waiver r))]"

definition selected_profile :: "config \<Rightarrow> exn + profile_definition" where
  "selected_profile c =
     (case dget (pd_profiles (cfg_profiles c)) (pc_profile_id (cfg_model c)) of
        None \<Rightarrow> Inl (KeyError (pc_profile_id (cfg_model c)))
      | Some p \<Rightarrow> Inr p)"

definition profile_digest :: "config \<Rightarrow> exn + string" where
  "profile_digest c =
     bindr (selected_profile c) (\<lambda>profile. Inr (digest_json (JObj
       [(''profile_id'', JStr (pc_profile_id (cfg_model c))),
        (''profile'', json_profile_definition profile),
        (''review_policy'', json_review_policy (pc_review_policy (cfg_model c)))])))"

section \<open>Obligations\<close>

text \<open>\<open>for role_key in ...: if role_key not in roles: roles.append(role_key)\<close>.\<close>

definition append_missing :: "'a list \<Rightarrow> 'a list \<Rightarrow> 'a list" where
  "append_missing xs ys = foldl (\<lambda>acc y. if y \<in> set acc then acc else acc @ [y]) xs ys"

definition step_is_critical :: "review_policy_definition \<Rightarrow> plan_step \<Rightarrow> bool" where
  "step_is_critical rp step \<longleftrightarrow> set (ps_risk_tags step) \<inter> set (rp_critical_risk_tags rp) \<noteq> {}"

text \<open>The local values of \<open>_compile_review_obligation\<close>, each under its name in the source.\<close>

definition profile_requires_review :: "config \<Rightarrow> profile_definition \<Rightarrow> plan_step \<Rightarrow> bool" where
  "profile_requires_review c profile step \<longleftrightarrow>
     prof_review_schedule profile = Schedule_always
     \<or> prof_review_schedule profile = Schedule_critical \<and> step_is_critical (pc_review_policy (cfg_model c)) step"

definition review_mandatory :: "config \<Rightarrow> plan_step \<Rightarrow> bool" where
  "review_mandatory c step \<longleftrightarrow> rev_required (ps_review step) \<or> rp_mandatory_review (pc_review_policy (cfg_model c))"

definition review_required :: "config \<Rightarrow> profile_definition \<Rightarrow> plan_step \<Rightarrow> bool" where
  "review_required c profile step \<longleftrightarrow> review_mandatory c step \<or> profile_requires_review c profile step"

definition profile_multireview :: "config \<Rightarrow> profile_definition \<Rightarrow> plan_step \<Rightarrow> bool" where
  "profile_multireview c profile step \<longleftrightarrow>
     prof_multi_review profile = Multi_on_every_review
     \<or> prof_multi_review profile = Multi_on_critical_only \<and> step_is_critical (pc_review_policy (cfg_model c)) step"

definition profile_applies :: "config \<Rightarrow> profile_definition \<Rightarrow> plan_step \<Rightarrow> bool" where
  "profile_applies c profile step \<longleftrightarrow>
     profile_requires_review c profile step \<or> rp_mandatory_review (pc_review_policy (cfg_model c))
     \<or> profile_multireview c profile step"

definition compiled_roles :: "config \<Rightarrow> profile_definition \<Rightarrow> plan_step \<Rightarrow> string list" where
  "compiled_roles c profile step =
     (let roles = rev_reviewer_role_keys (ps_review step);
          roles = (if profile_applies c profile step
                   then append_missing roles (prof_reviewer_role_keys profile) else roles)
      in if \<not> review_required c profile step then [] else roles)"

definition compiled_acceptances :: "config \<Rightarrow> profile_definition \<Rightarrow> plan_step \<Rightarrow> int" where
  "compiled_acceptances c profile step =
     (let acceptances = rev_required_acceptances (ps_review step);
          acceptances = (if profile_applies c profile step
                         then max acceptances (prof_required_acceptances profile) else acceptances)
      in if \<not> review_required c profile step then 0 else acceptances)"

definition compile_review_obligation :: "config \<Rightarrow> plan_step \<Rightarrow> exn + compiled_review_obligation" where
  "compile_review_obligation c step =
     bindr (selected_profile c) (\<lambda>profile.
     bindr (profile_digest c) (\<lambda>digest.
     let required = review_required c profile step;
         roles = compiled_roles c profile step;
         acceptances = compiled_acceptances c profile step
     in if required \<and> roles = [] then
          Inl (PolicyError (''step '' @ ps_step_id step @ '' requires review but has no configured reviewers''))
        else if int (length roles) < acceptances then
          Inl (PolicyError (''step '' @ ps_step_id step @ '' requires '' @ int_text acceptances
                 @ '' acceptances but has '' @ int_text (int (length roles)) @ '' reviewers''))
        else if rt_max_reviewer_attempts (ps_retry step) < acceptances then
          Inl (PolicyError (''step '' @ ps_step_id step
                 @ '' retry.max_reviewer_attempts cannot satisfy compiled review obligation''))
        else checked compiled_review_obligation_errors
          \<lparr>cro_step_id = ps_step_id step, cro_required = required, cro_reviewer_role_keys = roles,
           cro_required_acceptances = acceptances,
           cro_waivable = (rp_allow_operator_waiver (pc_review_policy (cfg_model c)) \<and> \<not> review_mandatory c step),
           cro_source_policy_digest = digest\<rparr>))"

definition json_compiled_obligation :: "compiled_review_obligation \<Rightarrow> json" where
  "json_compiled_obligation o' = JObj
     [(''step_id'', JStr (cro_step_id o')),
      (''required'', JBool (cro_required o')),
      (''reviewer_role_keys'', json_strings (cro_reviewer_role_keys o')),
      (''required_acceptances'', JInt (cro_required_acceptances o')),
      (''independence'', JStr ''fresh_session''),
      (''waivable'', JBool (cro_waivable o')),
      (''source_policy_digest'', JStr (cro_source_policy_digest o'))]"

definition add_obligation ::
  "config \<Rightarrow> (string, compiled_review_obligation) dict \<Rightarrow> plan_step
   \<Rightarrow> exn + (string, compiled_review_obligation) dict" where
  "add_obligation c obligations step =
     bindr (compile_review_obligation c step) (\<lambda>o'. Inr (dset (ps_step_id step) o' obligations))"

definition compile_obligations ::
  "config \<Rightarrow> normalized_plan \<Rightarrow> exn + (string, compiled_review_obligation) dict" where
  "compile_obligations c plan = foldr_result (add_obligation c) [] (np_steps plan)"

definition compile_run_policy :: "config \<Rightarrow> normalized_plan \<Rightarrow> exn + run_policy" where
  "compile_run_policy c plan =
     bindr (compile_obligations c plan) (\<lambda>obligations.
     bindr (profile_digest c) (\<lambda>digest.
       let mode = exe_underspec_mode (pc_execution (cfg_model c));
           payload = JObj
             [(''profile_id'', JStr (pc_profile_id (cfg_model c))),
              (''profile_digest'', JStr digest),
              (''underspec_mode'', JStr (underspec_mode_text mode)),
              (''review_obligations'',
                 JObj (map (\<lambda>kv. (fst kv, json_compiled_obligation (snd kv))) obligations))]
       in checked run_policy_errors
         \<lparr>pol_profile_id = pc_profile_id (cfg_model c), pol_profile_digest = digest,
          pol_review_obligations = obligations, pol_underspec_mode = mode,
          pol_policy_digest = digest_json payload\<rparr>))"

section \<open>Reviewer lists\<close>

lemma append_missing_simps [simp]:
  "append_missing xs [] = xs"
  "append_missing xs (y # ys) = append_missing (if y \<in> set xs then xs else xs @ [y]) ys"
  by (simp_all add: append_missing_def)

lemma set_append_missing: "set (append_missing xs ys) = set xs \<union> set ys"
  by (induction ys arbitrary: xs) auto

lemma distinct_append_missing: "distinct xs \<Longrightarrow> distinct (append_missing xs ys)"
  by (induction ys arbitrary: xs) auto

lemma prefix_append_missing: "prefix xs (append_missing xs ys)"
proof (induction ys arbitrary: xs)
  case (Cons y ys)
  from Cons [of xs] Cons [of "xs @ [y]"] show ?case by (auto dest: append_prefixD)
qed simp

lemma length_append_missing: "distinct ys \<Longrightarrow> length ys \<le> length (append_missing xs ys)"
  by (metis card_mono distinct_card List.finite_set set_append_missing card_length order_trans sup_ge2)

section \<open>What a compiled obligation is\<close>

lemma profile_digest_ok: "profile_digest c = Inr d \<Longrightarrow> sha256_ok d"
  by (auto simp: profile_digest_def bindr_Inr_iff digest_json_ok)

lemma profile_digest_selected: "selected_profile c = Inr p \<Longrightarrow> \<exists>d. profile_digest c = Inr d"
  by (simp add: profile_digest_def)

text \<open>A successful compilation, and which reviewers and acceptances it gives.\<close>

lemma compile_review_obligation_Inr:
  assumes "compile_review_obligation c step = Inr o'"
  obtains profile digest where "selected_profile c = Inr profile" "profile_digest c = Inr digest"
    "o' = \<lparr>cro_step_id = ps_step_id step, cro_required = review_required c profile step,
           cro_reviewer_role_keys = compiled_roles c profile step,
           cro_required_acceptances = compiled_acceptances c profile step,
           cro_waivable = (rp_allow_operator_waiver (pc_review_policy (cfg_model c)) \<and> \<not> review_mandatory c step),
           cro_source_policy_digest = digest\<rparr>"
    "compiled_review_obligation_errors o' = []"
    "compiled_acceptances c profile step \<le> rt_max_reviewer_attempts (ps_retry step)"
  using assms unfolding compile_review_obligation_def bindr_Inr_iff Let_def
  by (auto split: if_splits)

lemma compiled_roles_cover:
  assumes "review_required c profile step"
  shows "prefix (rev_reviewer_role_keys (ps_review step)) (compiled_roles c profile step)"
    and "rev_required_acceptances (ps_review step) \<le> compiled_acceptances c profile step"
    and "profile_applies c profile step \<Longrightarrow>
      set (prof_reviewer_role_keys profile) \<subseteq> set (compiled_roles c profile step)
      \<and> prof_required_acceptances profile \<le> compiled_acceptances c profile step"
  using assms
  by (auto simp: compiled_roles_def compiled_acceptances_def Let_def prefix_append_missing set_append_missing)

text \<open>
  On a validated step and profile only a \<open>PolicyError\<close> can stop compilation: the contract model of an
  obligation never refuses what the compiler built.
\<close>

lemma review_errors_rules:
  assumes "review_obligation_errors r = []"
  shows "list_all identifier_ok (rev_reviewer_role_keys r)" "distinct (rev_reviewer_role_keys r)"
    "rev_required r \<Longrightarrow> 1 \<le> rev_required_acceptances r" "rev_required_acceptances r \<le> 20"
    "0 \<le> rev_required_acceptances r"
  using assms by (auto simp: review_obligation_errors_def)

lemma profile_errors_rules:
  assumes "profile_definition_errors p = []"
  shows "list_all identifier_ok (prof_reviewer_role_keys p)" "distinct (prof_reviewer_role_keys p)"
    "1 \<le> prof_required_acceptances p" "prof_required_acceptances p \<le> 20"
  using assms by (auto simp: profile_definition_errors_def)

lemma compiled_obligation_valid:
  assumes "review_obligation_errors (ps_review step) = []" "profile_definition_errors profile = []"
    and "identifier_ok (ps_step_id step)" "sha256_ok digest"
    and "compiled_acceptances c profile step \<le> int (length (compiled_roles c profile step))"
  shows "compiled_review_obligation_errors
     \<lparr>cro_step_id = ps_step_id step, cro_required = review_required c profile step,
      cro_reviewer_role_keys = compiled_roles c profile step,
      cro_required_acceptances = compiled_acceptances c profile step, cro_waivable = w,
      cro_source_policy_digest = digest\<rparr> = []"
proof -
  note r = review_errors_rules [OF assms(1)] and p = profile_errors_rules [OF assms(2)]
  have "distinct (compiled_roles c profile step)" "list_all identifier_ok (compiled_roles c profile step)"
    using r(1,2) p(1) by (auto simp: compiled_roles_def Let_def distinct_append_missing list_all_iff set_append_missing)
  moreover have "0 \<le> compiled_acceptances c profile step" "compiled_acceptances c profile step \<le> 20"
    using r(4,5) p(3,4) by (auto simp: compiled_acceptances_def Let_def)
  moreover have "review_required c profile step \<longleftrightarrow> compiled_acceptances c profile step \<noteq> 0"
    using r(3) p(3)
    by (auto simp: compiled_acceptances_def Let_def review_required_def review_mandatory_def profile_applies_def)
  ultimately show ?thesis using assms(3-5) by (auto simp: compiled_review_obligation_errors_def)
qed

lemma compile_review_obligation_errors:
  assumes "review_obligation_errors (ps_review step) = []" "identifier_ok (ps_step_id step)"
    and "selected_profile c = Inr profile" "profile_definition_errors profile = []"
    and "compile_review_obligation c step = Inl e"
  shows "\<exists>message. e = PolicyError message"
proof -
  from assms(3) obtain digest where digest: "profile_digest c = Inr digest"
    using profile_digest_selected by blast
  note valid = compiled_obligation_valid [OF assms(1,4,2) profile_digest_ok [OF digest], of c]
  from assms(5) valid show ?thesis
    unfolding compile_review_obligation_def assms(3) digest bindr.simps Let_def checked_def
    by (auto split: if_splits)
qed

section \<open>What a compiled run policy is\<close>

lemma add_obligation_Inr:
  "add_obligation c d step = Inr d' \<longleftrightarrow>
     (\<exists>o'. compile_review_obligation c step = Inr o' \<and> d' = dset (ps_step_id step) o' d)"
  by (auto simp: add_obligation_def bindr_Inr_iff)

lemma compile_obligations_lookup:
  assumes "foldr_result (add_obligation c) d steps = Inr d'" "distinct (map ps_step_id steps)"
  shows "set (dkeys d') = set (dkeys d) \<union> set (map ps_step_id steps)
    \<and> (\<forall>step \<in> set steps. \<exists>o'. dget d' (ps_step_id step) = Some o' \<and> compile_review_obligation c step = Inr o')
    \<and> (\<forall>i. i \<notin> set (map ps_step_id steps) \<longrightarrow> dget d' i = dget d i)"
  using assms
proof (induction steps arbitrary: d)
  case (Cons s steps)
  from Cons.prems(1) obtain o' where o': "compile_review_obligation c s = Inr o'"
    and rest: "foldr_result (add_obligation c) (dset (ps_step_id s) o' d) steps = Inr d'"
    by (auto simp: bindr_Inr_iff add_obligation_Inr)
  from Cons.prems(2) Cons.IH [OF rest] o' show ?case
    by (simp add: set_dkeys_dset [unfolded set_map] dget_dset)
qed simp

lemma compile_run_policy_Inr:
  assumes "compile_run_policy c plan = Inr p"
  shows "run_policy_errors p = []" "compile_obligations c plan = Inr (pol_review_obligations p)"
    "pol_profile_id p = pc_profile_id (cfg_model c)" "profile_digest c = Inr (pol_profile_digest p)"
  using assms by (auto simp: compile_run_policy_def bindr_Inr_iff Let_def)

lemma compile_run_policy_covers:
  assumes "compile_run_policy c plan = Inr p" "distinct (map ps_step_id (np_steps plan))"
  shows "set (dkeys (pol_review_obligations p)) = set (map ps_step_id (np_steps plan))"
    and "step \<in> set (np_steps plan) \<Longrightarrow>
      \<exists>o'. dget (pol_review_obligations p) (ps_step_id step) = Some o' \<and> compile_review_obligation c step = Inr o'"
  using compile_obligations_lookup [OF compile_run_policy_Inr(2) [OF assms(1), unfolded compile_obligations_def] assms(2)]
  by auto

end
