(* ===== verification/Results.thy ===== *)
theory Results
  imports Workflow
begin

text \<open>
  Worker proposals and results: \<open>src/src/dispatcher/results.py\<close>. Each discriminated union is the record
  of its common fields with the discriminating outcome or verdict as a datatype. The validators say
  when a decoded value is a result; the context checks bind it to the dispatch that asked for it.
\<close>

section \<open>Shared values\<close>

record artifact_record =
  ar_artifact_id :: string
  ar_relative_path :: string
  ar_sha256 :: string
  ar_media_type :: evidence_media
  ar_size_bytes :: int

definition artifact_record_errors :: "artifact_record \<Rightarrow> verror list" where
  "artifact_record_errors a = field_errors
     [(''artifact_id'', identifier_ok (ar_artifact_id a)),
      (''relative_path'', length_between 1 500 (ar_relative_path a)),
      (''sha256'', sha256_ok (ar_sha256 a)),
      (''size_bytes'', 0 \<le> ar_size_bytes a \<and> ar_size_bytes a \<le> 1000000000)]"

datatype check_status = Check_passed | Check_failed | Check_skipped

record verification_result =
  vr_check_id :: string
  vr_status :: check_status
  vr_summary :: string

definition verification_result_errors :: "verification_result \<Rightarrow> verror list" where
  "verification_result_errors v = field_errors
     [(''check_id'', identifier_ok (vr_check_id v)),
      (''summary'', length_between 1 5000 (vr_summary v))]"

section \<open>Executor proposals\<close>

record proposal_evidence =
  pe_artifact_id :: string
  pe_relative_path :: string
  pe_media_type :: evidence_media

definition proposal_evidence_errors :: "proposal_evidence \<Rightarrow> verror list" where
  "proposal_evidence_errors e = field_errors
     [(''artifact_id'', identifier_ok (pe_artifact_id e)),
      (''relative_path'', length_between 1 500 (pe_relative_path e))]"

record criterion_self_report =
  cs_check_id :: string
  cs_summary :: string

definition criterion_self_report_errors :: "criterion_self_report \<Rightarrow> verror list" where
  "criterion_self_report_errors c = field_errors
     [(''check_id'', identifier_ok (cs_check_id c)),
      (''summary'', length_between 1 2000 (cs_summary c))]"

record proposal_coordinate =
  prc_repo_id :: string
  prc_base_revision :: string

datatype executor_outcome =
    Outcome_completed
  | Outcome_blocked "string list"
  | Outcome_failed string

record executor_proposal =
  ep_dispatch_id :: string
  ep_attempt :: int
  ep_step_id :: string
  ep_repository :: proposal_coordinate
  ep_evidence :: "proposal_evidence list"
  ep_criterion_self_reports :: "criterion_self_report list"
  ep_summary :: string
  ep_transcript_ref :: "string option"
  ep_outcome :: executor_outcome

text \<open>The fields and the validator of the outcome variants.\<close>

fun outcome_field_errors :: "executor_outcome \<Rightarrow> verror list" where
  "outcome_field_errors Outcome_completed = []"
| "outcome_field_errors (Outcome_blocked blockers) =
     field_errors [(''blockers'', list_all (length_between 1 5000) blockers)]"
| "outcome_field_errors (Outcome_failed code) = field_errors [(''failure_code'', identifier_ok code)]"

fun outcome_rule_errors :: "string \<Rightarrow> executor_outcome \<Rightarrow> verror list" where
  "outcome_rule_errors kind (Outcome_blocked blockers) =
     first_rule [(blockers = [], ''blocked executor '' @ kind @ '' requires blockers'')]"
| "outcome_rule_errors kind _ = []"

definition executor_proposal_errors :: "executor_proposal \<Rightarrow> verror list" where
  "executor_proposal_errors p =
     then_rules
       (field_errors
         [(''dispatch_id'', identifier_ok (ep_dispatch_id p)),
          (''attempt'', 1 \<le> ep_attempt p \<and> ep_attempt p \<le> 100),
          (''step_id'', identifier_ok (ep_step_id p)),
          (''repository.repo_id'', identifier_ok (prc_repo_id (ep_repository p))),
          (''repository.base_revision'', length_between 1 200 (prc_base_revision (ep_repository p)))]
        @ concat (map proposal_evidence_errors (ep_evidence p))
        @ concat (map criterion_self_report_errors (ep_criterion_self_reports p))
        @ field_errors
           [(''summary'', length_between 1 10000 (ep_summary p)),
            (''transcript_ref'', optional identifier_ok (ep_transcript_ref p))]
        @ outcome_field_errors (ep_outcome p))
       (outcome_rule_errors ''proposal'' (ep_outcome p))"

section \<open>Executor results\<close>

record result_coordinate =
  rcd_repo_id :: string
  rcd_base_revision :: string
  rcd_result_revision :: "string option"
  rcd_patch_sha256 :: "string option"

definition result_coordinate_errors :: "result_coordinate \<Rightarrow> verror list" where
  "result_coordinate_errors c =
     then_rules
       (field_errors
         [(''repo_id'', identifier_ok (rcd_repo_id c)),
          (''base_revision'', length_between 1 200 (rcd_base_revision c)),
          (''result_revision'', optional (length_between 1 200) (rcd_result_revision c)),
          (''patch_sha256'', optional sha256_ok (rcd_patch_sha256 c))])
       (first_rule
         [(rcd_result_revision c = None \<and> rcd_patch_sha256 c = None,
             ''repository coordinate requires result_revision or patch_sha256'')])"

record executor_result =
  er_dispatch_id :: string
  er_attempt :: int
  er_step_id :: string
  er_repository :: result_coordinate
  er_evidence :: "artifact_record list"
  er_verification :: "verification_result list"
  er_summary :: string
  er_transcript_ref :: "string option"
  er_outcome :: executor_outcome

definition executor_result_errors :: "executor_result \<Rightarrow> verror list" where
  "executor_result_errors r =
     then_rules
       (field_errors
         [(''dispatch_id'', identifier_ok (er_dispatch_id r)),
          (''attempt'', 1 \<le> er_attempt r \<and> er_attempt r \<le> 100),
          (''step_id'', identifier_ok (er_step_id r))]
        @ result_coordinate_errors (er_repository r)
        @ concat (map artifact_record_errors (er_evidence r))
        @ concat (map verification_result_errors (er_verification r))
        @ field_errors
           [(''summary'', length_between 1 10000 (er_summary r)),
            (''transcript_ref'', optional identifier_ok (er_transcript_ref r))]
        @ outcome_field_errors (er_outcome r))
       (outcome_rule_errors ''result'' (er_outcome r))"

section \<open>Reviewer results\<close>

record review_target =
  rt_executor_dispatch_id :: string
  rt_executor_attempt :: int
  rt_result_revision :: "string option"
  rt_patch_sha256 :: "string option"
  rt_artifact_hashes :: "string list"

definition review_target_errors :: "review_target \<Rightarrow> verror list" where
  "review_target_errors t =
     then_rules
       (field_errors
         [(''executor_dispatch_id'', identifier_ok (rt_executor_dispatch_id t)),
          (''executor_attempt'', 1 \<le> rt_executor_attempt t \<and> rt_executor_attempt t \<le> 100),
          (''result_revision'', optional (length_between 1 200) (rt_result_revision t)),
          (''patch_sha256'', optional sha256_ok (rt_patch_sha256 t)),
          (''artifact_hashes'', list_all sha256_ok (rt_artifact_hashes t))])
       (first_rule
         [(rt_result_revision t = None \<and> rt_patch_sha256 t = None,
             ''review target requires result_revision or patch_sha256''),
          (\<not> distinct (rt_artifact_hashes t), ''review target artifact_hashes must not contain duplicates'')])"

datatype severity = Severity_info | Severity_warning | Severity_blocking

record review_finding =
  rf_finding_id :: string
  rf_severity :: severity
  rf_summary :: string

definition review_finding_errors :: "review_finding \<Rightarrow> verror list" where
  "review_finding_errors f = field_errors
     [(''finding_id'', identifier_ok (rf_finding_id f)),
      (''summary'', length_between 1 5000 (rf_summary f))]"

datatype verdict =
    Verdict_accepted
  | Verdict_changes_requested
  | Verdict_blocked "string list"
  | Verdict_inconclusive string

record reviewer_result =
  rr_dispatch_id :: string
  rr_attempt :: int
  rr_step_id :: string
  rr_repo_id :: string
  rr_review_target :: review_target
  rr_findings :: "review_finding list"
  rr_verification :: "verification_result list"
  rr_required_remediation :: "string list"
  rr_summary :: string
  rr_transcript_ref :: "string option"
  rr_verdict :: verdict

fun verdict_text :: "verdict \<Rightarrow> string" where
  "verdict_text Verdict_accepted = ''accepted''"
| "verdict_text Verdict_changes_requested = ''changes_requested''"
| "verdict_text (Verdict_blocked _) = ''blocked''"
| "verdict_text (Verdict_inconclusive _) = ''inconclusive''"

definition verdict_field_errors :: "verdict \<Rightarrow> verror list" where
  "verdict_field_errors v =
     (case v of
        Verdict_blocked blockers \<Rightarrow> field_errors [(''blockers'', list_all (length_between 1 5000) blockers)]
      | Verdict_inconclusive reason \<Rightarrow> field_errors [(''reason'', length_between 1 5000 reason)]
      | _ \<Rightarrow> [])"

definition verdict_rule_errors :: "reviewer_result \<Rightarrow> verror list" where
  "verdict_rule_errors r =
     (case rr_verdict r of
        Verdict_accepted \<Rightarrow> first_rule
          [(rr_required_remediation r \<noteq> [], ''accepted review cannot require remediation''),
           (list_ex (\<lambda>f. rf_severity f = Severity_blocking) (rr_findings r),
              ''accepted review cannot contain blocking findings'')]
      | Verdict_changes_requested \<Rightarrow> first_rule
          [(rr_required_remediation r = [], ''changes_requested review requires remediation'')]
      | Verdict_blocked blockers \<Rightarrow> first_rule [(blockers = [], ''blocked review requires blockers'')]
      | Verdict_inconclusive _ \<Rightarrow> [])"

definition reviewer_result_errors :: "reviewer_result \<Rightarrow> verror list" where
  "reviewer_result_errors r =
     then_rules
       (field_errors
         [(''dispatch_id'', identifier_ok (rr_dispatch_id r)),
          (''attempt'', 1 \<le> rr_attempt r \<and> rr_attempt r \<le> 100),
          (''step_id'', identifier_ok (rr_step_id r)),
          (''repo_id'', identifier_ok (rr_repo_id r))]
        @ review_target_errors (rr_review_target r)
        @ concat (map review_finding_errors (rr_findings r))
        @ concat (map verification_result_errors (rr_verification r))
        @ field_errors
           [(''required_remediation'', list_all (length_between 1 5000) (rr_required_remediation r)),
            (''summary'', length_between 1 10000 (rr_summary r)),
            (''transcript_ref'', optional identifier_ok (rr_transcript_ref r))]
        @ verdict_field_errors (rr_verdict r))
       (verdict_rule_errors r)"

section \<open>Parsing\<close>

text \<open>
  The adapters validate a decoded value; the text of each pydantic message is the name of the field
  or the message of the validator.
\<close>

fun verror_text :: "verror \<Rightarrow> string" where
  "verror_text (Field f) = f"
| "verror_text (Rule m) = m"

definition format_validation_error :: "string \<Rightarrow> verror list \<Rightarrow> string" where
  "format_validation_error kind es =
     ''invalid '' @ kind @ '' result: '' @ join_text ''; '' (map verror_text es)"

definition parse_with :: "string \<Rightarrow> ('a \<Rightarrow> verror list) \<Rightarrow> 'a \<Rightarrow> exn + 'a" where
  "parse_with kind errs x =
     (if errs x \<noteq> [] then Inl (ResultError (format_validation_error kind (errs x))) else Inr x)"

definition parse_executor_result :: "executor_result \<Rightarrow> exn + executor_result" where
  "parse_executor_result = parse_with ''executor'' executor_result_errors"

definition parse_executor_proposal :: "executor_proposal \<Rightarrow> exn + executor_proposal" where
  "parse_executor_proposal = parse_with ''executor proposal'' executor_proposal_errors"

definition parse_reviewer_result :: "reviewer_result \<Rightarrow> exn + reviewer_result" where
  "parse_reviewer_result = parse_with ''reviewer'' reviewer_result_errors"

section \<open>Context\<close>

record result_expectation =
  re_dispatch_id :: string
  re_attempt :: int
  re_step_id :: string
  re_repo_id :: string
  re_expected_review_target :: "review_target option"

definition mismatch_text :: "string \<Rightarrow> string \<Rightarrow> string \<Rightarrow> string list" where
  "mismatch_text name actual expected =
     (if actual \<noteq> expected then [name @ '' expected '' @ repr_text expected @ '', received '' @ repr_text actual] else [])"

definition validate_result_identity ::
  "string \<Rightarrow> int \<Rightarrow> string \<Rightarrow> string \<Rightarrow> result_expectation \<Rightarrow> exn + unit" where
  "validate_result_identity dispatch_id attempt step_id repo_id expected =
     (let mismatches =
            mismatch_text ''dispatch_id'' dispatch_id (re_dispatch_id expected)
            @ (if attempt \<noteq> re_attempt expected
               then [''attempt expected '' @ int_text (re_attempt expected) @ '', received '' @ int_text attempt] else [])
            @ mismatch_text ''step_id'' step_id (re_step_id expected)
            @ mismatch_text ''repo_id'' repo_id (re_repo_id expected)
      in if mismatches \<noteq> [] then
           Inl (ResultError (''result does not match active dispatch: '' @ join_text ''; '' mismatches))
         else Inr ())"

definition validate_executor_result_context :: "executor_result \<Rightarrow> result_expectation \<Rightarrow> exn + unit" where
  "validate_executor_result_context r expected =
     validate_result_identity (er_dispatch_id r) (er_attempt r) (er_step_id r) (rcd_repo_id (er_repository r)) expected"

definition validate_executor_proposal_context :: "executor_proposal \<Rightarrow> result_expectation \<Rightarrow> exn + unit" where
  "validate_executor_proposal_context p expected =
     validate_result_identity (ep_dispatch_id p) (ep_attempt p) (ep_step_id p) (prc_repo_id (ep_repository p)) expected"

definition validate_reviewer_result_context :: "reviewer_result \<Rightarrow> result_expectation \<Rightarrow> exn + unit" where
  "validate_reviewer_result_context r expected =
     bindr (validate_result_identity (rr_dispatch_id r) (rr_attempt r) (rr_step_id r) (rr_repo_id r) expected) (\<lambda>_.
       (case re_expected_review_target expected of
          None \<Rightarrow> Inl (ResultError ''review result received for a dispatch without an expected review target'')
        | Some target \<Rightarrow>
            if rr_review_target r \<noteq> target then
              Inl (ResultError ''review result target does not match the immutable dispatch target'')
            else Inr ()))"

lemma validate_result_identity_Inr:
  "validate_result_identity d a s r e = Inr u \<longleftrightarrow>
     d = re_dispatch_id e \<and> a = re_attempt e \<and> s = re_step_id e \<and> r = re_repo_id e"
  by (auto simp: validate_result_identity_def mismatch_text_def Let_def)

lemma validate_reviewer_result_context_Inr:
  "validate_reviewer_result_context r e = Inr u \<longleftrightarrow>
     rr_dispatch_id r = re_dispatch_id e \<and> rr_attempt r = re_attempt e \<and> rr_step_id r = re_step_id e
     \<and> rr_repo_id r = re_repo_id e \<and> re_expected_review_target e = Some (rr_review_target r)"
  by (auto simp: validate_reviewer_result_context_def bindr_Inr_iff validate_result_identity_Inr
      split: option.splits)

lemma accepted_result_is_clean:
  assumes "reviewer_result_errors r = []" "rr_verdict r = Verdict_accepted"
  shows "rr_required_remediation r = []" "\<forall>f \<in> set (rr_findings r). rf_severity f \<noteq> Severity_blocking"
  using assms by (auto simp: reviewer_result_errors_def verdict_rule_errors_def list_ex_iff)

end
