(* ===== verification/Scheduler.thy ===== *)
theory Scheduler
  imports Workflow
begin

text \<open>
  Readiness and batch admission: \<open>src/src/dispatcher/scheduler.py\<close>, over the dispatch requests of
  \<open>src/src/dispatcher/protocol.py\<close>. A batch is scanned child by child with the capacities and lock keys
  taken so far; the proofs say what a batch without errors is: distinct steps in the right state,
  within every capacity, with pairwise disjoint locks (or, for a workspace batch, pairwise disjoint
  resources and writable scopes in one repository).
\<close>

section \<open>Requests\<close>

datatype session_mode = Mode_new | Mode_resume | Mode_fork

record dispatch_request =
  req_step_id :: string
  req_target_role :: string
  req_session_mode :: session_mode
  req_repo_id :: "string option"
  req_prompt :: string
  req_rationale :: "string option"

definition dispatch_request_errors :: "dispatch_request \<Rightarrow> verror list" where
  "dispatch_request_errors q = field_errors
     [(''step_id'', identifier_ok (req_step_id q)),
      (''target_role'', identifier_ok (req_target_role q)),
      (''repo_id'', optional identifier_ok (req_repo_id q)),
      (''prompt'', length_between 1 50000 (req_prompt q)),
      (''rationale'', optional (length_between 1 5000) (req_rationale q))]"

section \<open>Lock keys\<close>

definition resource_keys :: "string \<Rightarrow> string list \<Rightarrow> string list" where
  "resource_keys repo_id resource_ids =
     sort (remdups ((''repository:'' @ repo_id) # map (\<lambda>r. ''resource:'' @ r) resource_ids))"

definition step_resource_keys :: "plan_step \<Rightarrow> string list" where
  "step_resource_keys step = resource_keys (ps_repo_id step) (map lock_resource_id (ps_resource_locks step))"

definition active_dispatches :: "run_record \<Rightarrow> dispatch_record list" where
  "active_dispatches r = filter (\<lambda>d. d_state d \<in> set ACTIVE_DISPATCH_STATES) (map snd (r_dispatches r))"

definition add_dispatch_keys :: "step_map \<Rightarrow> string list \<Rightarrow> dispatch_record \<Rightarrow> exn + string list" where
  "add_dispatch_keys plan_steps keys d =
     (case dget plan_steps (d_step_id d) of
        None \<Rightarrow> Inl (KeyError (d_step_id d))
      | Some step \<Rightarrow> Inr (keys @ step_resource_keys step))"

definition active_resource_keys :: "run_record \<Rightarrow> step_map \<Rightarrow> exn + string list" where
  "active_resource_keys r plan_steps = foldr_result (add_dispatch_keys plan_steps) [] (active_dispatches r)"

definition count_of :: "(string, int) dict \<Rightarrow> string \<Rightarrow> int" where
  "count_of counts role_key = (case dget counts role_key of None \<Rightarrow> 0 | Some n \<Rightarrow> n)"

definition active_role_counts :: "dispatch_record list \<Rightarrow> (string, int) dict" where
  "active_role_counts ds =
     foldl (\<lambda>counts d. dset (d_role_key d) (count_of counts (d_role_key d) + 1) counts) [] ds"

section \<open>Readiness\<close>

record step_readiness =
  rd_step_id :: string
  rd_ready :: bool
  rd_reasons :: "string list"

definition record_step :: "run_record \<Rightarrow> string \<Rightarrow> exn + step_record" where
  "record_step r step_id =
     (case dget (r_steps r) step_id of None \<Rightarrow> Inl (KeyError step_id) | Some s \<Rightarrow> Inr s)"

definition dependency_reason :: "run_record \<Rightarrow> string \<Rightarrow> exn + string list" where
  "dependency_reason r dependency_id =
     bindr (record_step r dependency_id) (\<lambda>s.
       Inr (if is_done (s_state s) then [] else [''dependency '' @ dependency_id @ '' is not accepted'']))"

definition producer_reason :: "run_record \<Rightarrow> artifact_reference \<Rightarrow> exn + string list" where
  "producer_reason r artifact =
     (case art_producer_step_id artifact of
        None \<Rightarrow> Inr []
      | Some producer \<Rightarrow>
          bindr (record_step r producer) (\<lambda>s.
            Inr (if is_done (s_state s) then [] else [''input producer '' @ producer @ '' is not accepted''])))"

definition step_reasons :: "run_record \<Rightarrow> string list \<Rightarrow> plan_step \<Rightarrow> exn + string list" where
  "step_reasons r active_keys step =
     bindr (record_step r (ps_step_id step)) (\<lambda>current.
     bindr (map_result (dependency_reason r) (ps_depends_on step)) (\<lambda>dependencies.
     bindr (map_result (producer_reason r) (ps_required_inputs step)) (\<lambda>producers.
       Inr ((if s_state current \<noteq> Step_ready then [''state is '' @ step_status_value (s_state current)] else [])
            @ (if \<not> s_operator_gate_resolved current then [''operator gate is unresolved''] else [])
            @ concat dependencies @ concat producers
            @ (if list_ex (\<lambda>k. k \<in> set active_keys) (step_resource_keys step)
               then [''resource or repository lock is held''] else [])))))"

definition evaluate_readiness :: "run_record \<Rightarrow> exn + step_readiness list" where
  "evaluate_readiness r =
     bindr (active_resource_keys r (step_map_of (np_steps (r_plan r)))) (\<lambda>active_keys.
       map_result (\<lambda>step. bindr (step_reasons r active_keys step) (\<lambda>reasons.
           Inr \<lparr>rd_step_id = ps_step_id step, rd_ready = (reasons = []), rd_reasons = reasons\<rparr>))
         (np_steps (r_plan r)))"

section \<open>Batches\<close>

record batch_scan =
  bs_role_counts :: "(string, int) dict"
  bs_selected_keys :: "string list"
  bs_errors :: "string list"

definition add_errors :: "string list \<Rightarrow> batch_scan \<Rightarrow> batch_scan" where
  "add_errors es st = st\<lparr>bs_errors := bs_errors st @ es\<rparr>"

definition order_children :: "step_map \<Rightarrow> dispatch_request list \<Rightarrow> dispatch_request list" where
  "order_children plan_steps children =
     sort_key (\<lambda>child. case dget plan_steps (req_step_id child) of None \<Rightarrow> 0 | Some s \<Rightarrow> ps_ordinal s) children"

definition expected_state :: "role_kind \<Rightarrow> step_status" where
  "expected_state kind = (if kind = Executor then Step_ready else Step_review_required)"

definition readiness_reasons :: "step_readiness list \<Rightarrow> string \<Rightarrow> exn + string list" where
  "readiness_reasons readiness step_id =
     (case dget (dict_of (map (\<lambda>i. (rd_step_id i, i)) readiness)) step_id of
        None \<Rightarrow> Inl (KeyError step_id) | Some i \<Rightarrow> Inr (rd_reasons i))"

definition capacity_of :: "config \<Rightarrow> string \<Rightarrow> exn + int" where
  "capacity_of c role_key =
     (case dget (conc_role_capacities (exe_concurrency (pc_execution (cfg_model c)))) role_key of
        None \<Rightarrow> Inl (KeyError role_key) | Some n \<Rightarrow> Inr n)"

text \<open>The body of the loop for a child whose step and role are known to be dispatchable.\<close>

definition scan_known_child ::
  "config \<Rightarrow> run_record \<Rightarrow> step_readiness list \<Rightarrow> string list \<Rightarrow> batch_scan \<Rightarrow> dispatch_request \<Rightarrow> plan_step
   \<Rightarrow> role_kind \<Rightarrow> exn + batch_scan" where
  "scan_known_child c r readiness active_keys st child step kind =
     bindr (record_step r (ps_step_id step)) (\<lambda>current.
     bindr (if s_state current = expected_state kind then Inr []
            else bindr (readiness_reasons readiness (ps_step_id step)) (\<lambda>reasons.
              let detail = (if reasons \<noteq> [] then reasons
                            else [''state requires '' @ step_status_value (expected_state kind)])
              in Inr [''step '' @ ps_step_id step @ '' is not ready: '' @ join_text ''; '' detail])) (\<lambda>state_errors.
     bindr (capacity_of c (req_target_role child)) (\<lambda>capacity.
       let mode_errors = (if req_session_mode child \<noteq> Mode_new
             then [''batch child '' @ req_step_id child @ '' requires a new session''] else []);
           count = count_of (bs_role_counts st) (req_target_role child) + 1;
           capacity_errors = (if capacity < count
             then [''role '' @ req_target_role child @ '' exceeds configured capacity''] else []);
           keys = step_resource_keys step;
           conflict = filter (\<lambda>k. k \<in> set active_keys \<or> k \<in> set (bs_selected_keys st)) keys;
           conflict_errors = (if conflict \<noteq> []
             then [''step '' @ ps_step_id step @ '' conflicts on '' @ join_text '', '' conflict] else [])
       in Inr \<lparr>bs_role_counts = dset (req_target_role child) count (bs_role_counts st),
               bs_selected_keys = bs_selected_keys st @ keys,
               bs_errors = bs_errors st @ state_errors @ mode_errors @ capacity_errors @ conflict_errors\<rparr>)))"

definition scan_child ::
  "config \<Rightarrow> run_record \<Rightarrow> step_map \<Rightarrow> step_readiness list \<Rightarrow> string list \<Rightarrow> batch_scan \<Rightarrow> dispatch_request
   \<Rightarrow> exn + batch_scan" where
  "scan_child c r plan_steps readiness active_keys st child =
     (case dget plan_steps (req_step_id child) of
        None \<Rightarrow> Inr (add_errors [''unknown step '' @ req_step_id child] st)
      | Some step \<Rightarrow> (case config_role_kind c (req_target_role child) of
            Inl (ConfigError message) \<Rightarrow> Inr (add_errors [message] st)
          | Inl e \<Rightarrow> Inl e
          | Inr kind \<Rightarrow>
              if kind = Supervisor then
                Inr (add_errors [''role '' @ req_target_role child @ '' cannot be dispatched''] st)
              else scan_known_child c r readiness active_keys st child step kind))"

definition validate_batch :: "config \<Rightarrow> run_record \<Rightarrow> dispatch_request list \<Rightarrow> exn + dispatch_request list" where
  "validate_batch c r children =
     (let concurrency = exe_concurrency (pc_execution (cfg_model c));
          plan_steps = step_map_of (np_steps (r_plan r))
      in if conc_max_batch_size concurrency < int (length children) then
           Inl (SchedulingError [''batch exceeds execution.concurrency.max_batch_size''])
         else if exe_scheduling (pc_execution (cfg_model c)) \<noteq> Bounded_parallel then
           Inl (SchedulingError [''batch dispatch requires execution.scheduling bounded_parallel''])
         else
           bindr (evaluate_readiness r) (\<lambda>readiness.
           bindr (active_resource_keys r plan_steps) (\<lambda>active_keys.
             let active = active_dispatches r;
                 ordered = order_children plan_steps children;
                 duplicate_errors = (if \<not> distinct (map req_step_id ordered)
                   then [''batch contains duplicate step IDs''] else []);
                 active_errors =
                   (if conc_max_active_dispatches concurrency < int (length active) + int (length ordered)
                    then [''batch exceeds execution.concurrency.max_active_dispatches''] else [])
             in bindr (foldr_result (scan_child c r plan_steps readiness active_keys)
                    \<lparr>bs_role_counts = active_role_counts active, bs_selected_keys = [],
                     bs_errors = duplicate_errors @ active_errors\<rparr> ordered) (\<lambda>st.
                  if bs_errors st \<noteq> [] then Inl (SchedulingError (bs_errors st)) else Inr ordered))))"

section \<open>Workspace batches\<close>

record workspace_scan =
  ws_role_counts :: "(string, int) dict"
  ws_selected_resources :: "string list"
  ws_selected_paths :: "(string \<times> string) list"
  ws_errors :: "string list"

definition step_done :: "run_record \<Rightarrow> string \<Rightarrow> exn + bool" where
  "step_done r step_id = bindr (record_step r step_id) (\<lambda>s. Inr (is_done (s_state s)))"

text \<open>\<open>any(...)\<close> with a test that may raise: it stops at the first item that holds.\<close>

fun any_result :: "('a \<Rightarrow> exn + bool) \<Rightarrow> 'a list \<Rightarrow> exn + bool" where
  "any_result f [] = Inr False"
| "any_result f (x # xs) = bindr (f x) (\<lambda>b. if b then Inr True else any_result f xs)"

definition path_conflict :: "plan_step \<Rightarrow> string \<Rightarrow> string \<times> string \<Rightarrow> exn + string list" where
  "path_conflict step writable_path selected =
     bindr (writable_paths_overlap writable_path (snd selected)) (\<lambda>overlap.
       Inr (if overlap then
              [''workspace step '' @ ps_step_id step @ '' writable path '' @ writable_path
               @ '' overlaps step '' @ fst selected @ '' path '' @ snd selected]
            else []))"

definition scan_path :: "plan_step \<Rightarrow> workspace_scan \<Rightarrow> string \<Rightarrow> exn + workspace_scan" where
  "scan_path step st writable_path =
     bindr (map_result (path_conflict step writable_path) (ws_selected_paths st)) (\<lambda>conflicts.
       Inr (st\<lparr>ws_errors := ws_errors st @ concat conflicts,
               ws_selected_paths := ws_selected_paths st @ [(ps_step_id step, writable_path)]\<rparr>))"

definition resource_names :: "plan_step \<Rightarrow> string list" where
  "resource_names step = sort (remdups (map (\<lambda>l. ''resource:'' @ lock_resource_id l) (ps_resource_locks step)))"

text \<open>The per-child checks that do not depend on the children before it.\<close>

definition workspace_child_state_errors ::
  "config \<Rightarrow> run_record \<Rightarrow> plan_step \<Rightarrow> dispatch_request \<Rightarrow> exn + string list" where
  "workspace_child_state_errors c r step child =
     bindr (config_role_kind c (req_target_role child)) (\<lambda>kind.
     bindr (record_step r (ps_step_id step)) (\<lambda>current.
     bindr (any_result (\<lambda>d. bindr (step_done r d) (\<lambda>b. Inr (\<not> b))) (ps_depends_on step)) (\<lambda>unaccepted.
     bindr (any_result (\<lambda>a. case art_producer_step_id a of
                None \<Rightarrow> Inr False | Some p \<Rightarrow> bindr (step_done r p) (\<lambda>b. Inr (\<not> b))) (ps_required_inputs step)) (\<lambda>unproduced.
       Inr ((if kind \<noteq> Executor then [''workspace child '' @ req_step_id child @ '' must target an executor role''] else [])
            @ (if s_state current \<noteq> Step_ready then [''workspace step '' @ ps_step_id step @ '' is not READY''] else [])
            @ (if \<not> s_operator_gate_resolved current
               then [''workspace step '' @ ps_step_id step @ '' has an unresolved operator gate''] else [])
            @ (if unaccepted then [''workspace step '' @ ps_step_id step @ '' has an unaccepted dependency''] else [])
            @ (if unproduced then [''workspace step '' @ ps_step_id step @ '' has an unaccepted input producer''] else [])
            @ (if req_session_mode child \<noteq> Mode_new
               then [''workspace child '' @ req_step_id child @ '' requires a new session''] else []))))))"

definition scan_workspace_child ::
  "config \<Rightarrow> run_record \<Rightarrow> step_map \<Rightarrow> workspace_scan \<Rightarrow> dispatch_request \<Rightarrow> exn + workspace_scan" where
  "scan_workspace_child c r plan_steps st child =
     (case dget plan_steps (req_step_id child) of
        None \<Rightarrow> Inr st
      | Some step \<Rightarrow>
          bindr (workspace_child_state_errors c r step child) (\<lambda>state_errors.
          bindr (capacity_of c (req_target_role child)) (\<lambda>capacity.
            let count = count_of (ws_role_counts st) (req_target_role child) + 1;
                capacity_errors = (if capacity < count
                  then [''role '' @ req_target_role child @ '' exceeds configured capacity''] else []);
                resources = resource_names step;
                conflict = filter (\<lambda>k. k \<in> set (ws_selected_resources st)) resources;
                conflict_errors = (if conflict \<noteq> []
                  then [''workspace step '' @ ps_step_id step @ '' conflicts on '' @ join_text '', '' conflict] else [])
            in foldr_result (scan_path step)
                 (st\<lparr>ws_role_counts := dset (req_target_role child) count (ws_role_counts st),
                     ws_selected_resources := ws_selected_resources st @ resources,
                     ws_errors := ws_errors st @ state_errors @ capacity_errors @ conflict_errors\<rparr>)
                 (auth_writable_paths (ps_authorization step)))))"

definition known_steps :: "step_map \<Rightarrow> dispatch_request list \<Rightarrow> plan_step list" where
  "known_steps plan_steps ordered = List.map_filter (\<lambda>child. dget plan_steps (req_step_id child)) ordered"

definition active_groups :: "run_record \<Rightarrow> workspace_group list" where
  "active_groups r =
     filter (\<lambda>g. wg_state g \<in> {Group_prepared, Group_active, Group_integrating}) (map snd (r_workspace_groups r))"

text \<open>The checks made before the loop over the children, on the whole batch.\<close>

definition workspace_batch_errors ::
  "config \<Rightarrow> run_record \<Rightarrow> step_map \<Rightarrow> dispatch_request list \<Rightarrow> exn + string list" where
  "workspace_batch_errors c r plan_steps ordered =
     (let steps = known_steps plan_steps ordered;
          repo_ids = remdups (map ps_repo_id steps)
      in bindr (if length repo_ids \<noteq> 1 then Inr [''workspace batch children must target one repository'']
                else bindr (config_repository c (hd repo_ids)) (\<lambda>repository.
                  Inr (if repo_commit_policy repository \<noteq> Commit_required
                       then [''workspace batch requires commit_policy required''] else []))) (\<lambda>repository_errors.
           Inr ((if \<not> distinct (map req_step_id ordered) then [''workspace batch contains duplicate step IDs''] else [])
             @ (if length steps \<noteq> length ordered
                then map (\<lambda>child. ''unknown step '' @ req_step_id child)
                       (filter (\<lambda>child. dget plan_steps (req_step_id child) = None) ordered) else [])
             @ repository_errors
             @ (if list_ex (\<lambda>g. wg_repo_id g \<in> set repo_ids) (active_groups r)
                then [''repository already has an active workspace group''] else [])
             @ (if conc_max_active_dispatches (exe_concurrency (pc_execution (cfg_model c)))
                     < int (length (active_dispatches r)) + int (length ordered)
                then [''workspace batch exceeds execution.concurrency.max_active_dispatches''] else []))))"

definition validate_workspace_batch ::
  "config \<Rightarrow> run_record \<Rightarrow> dispatch_request list \<Rightarrow> exn + dispatch_request list" where
  "validate_workspace_batch c r children =
     (let concurrency = exe_concurrency (pc_execution (cfg_model c));
          plan_steps = step_map_of (np_steps (r_plan r));
          ordered = order_children plan_steps children
      in if exe_scheduling (pc_execution (cfg_model c)) \<noteq> Bounded_parallel then
           Inl (SchedulingError [''workspace batch requires execution.scheduling bounded_parallel''])
         else if conc_same_repository_mode concurrency \<noteq> Worktree_barrier then
           Inl (SchedulingError [''workspace batch requires same_repository_mode worktree_barrier''])
         else if length children < 2 then
           Inl (SchedulingError [''workspace batch requires at least two children''])
         else if conc_max_batch_size concurrency < int (length children) then
           Inl (SchedulingError [''workspace batch exceeds execution.concurrency.max_batch_size''])
         else
           bindr (workspace_batch_errors c r plan_steps ordered) (\<lambda>batch_errors.
           bindr (foldr_result (scan_workspace_child c r plan_steps)
                \<lparr>ws_role_counts = active_role_counts (active_dispatches r), ws_selected_resources = [],
                 ws_selected_paths = [], ws_errors = batch_errors\<rparr> ordered) (\<lambda>st.
             if ws_errors st \<noteq> [] then Inl (SchedulingError (ws_errors st)) else Inr ordered)))"

end
