(* ===== verification/Result_Checks.thy ===== *)
theory Result_Checks
  imports Results Scheduler
begin

text \<open>
  The checks between a worker result and the step it belongs to, from
  \<open>src/src/dispatcher/sequential.py\<close> (\<open>_validate_executor_result\<close> to
  \<open>_effective_authoritative_verification\<close>, and \<open>_validate_executor_evidence\<close>). The checks of a step are
  run by the dispatcher (\<open>src/src/dispatcher/verification.py\<close>); what the model claims about them has to
  cover the plan's criteria and agree with what the dispatcher measured.
\<close>

record authoritative_verification =
  av_check_id :: string
  av_passed :: bool
  av_argv :: "string list"
  av_exit_code :: "int option"
  av_timed_out :: bool
  av_output_truncated :: bool
  av_stdout_sha256 :: string
  av_stderr_sha256 :: string
  av_transcript_sha256 :: string
  av_duration_ms :: int
  av_backend :: string
  av_summary :: string

text \<open>Python's text of a list of identifiers is \<open>list_repr\<close> of \<open>Workflow\<close>.\<close>

definition result_expectation_of :: "dispatch_record \<Rightarrow> result_expectation" where
  "result_expectation_of d =
     \<lparr>re_dispatch_id = d_dispatch_id d, re_attempt = d_attempt d, re_step_id = d_step_id d,
      re_repo_id = rc_repo_id (di_repository (d_intent d)), re_expected_review_target = None\<rparr>"

definition as_worker_error :: "exn + unit \<Rightarrow> exn + unit" where
  "as_worker_error m =
     (case m of Inl (ResultError message) \<Rightarrow> Inl (WorkerResultValidationError message) | _ \<Rightarrow> m)"

definition validate_executor_result :: "executor_result \<Rightarrow> dispatch_record \<Rightarrow> exn + unit" where
  "validate_executor_result result d =
     bindr (as_worker_error (validate_executor_result_context result (result_expectation_of d))) (\<lambda>_.
       raise_if (rcd_base_revision (er_repository result) \<noteq> rc_base_revision (di_repository (d_intent d)))
         (WorkerResultValidationError ''executor result base revision does not match prepared dispatch''))"

definition validate_executor_proposal :: "plan_step \<Rightarrow> executor_proposal \<Rightarrow> dispatch_record \<Rightarrow> exn + unit" where
  "validate_executor_proposal step proposal d =
     bindr (as_worker_error (validate_executor_proposal_context proposal (result_expectation_of d))) (\<lambda>_.
     bindr (raise_if (prc_base_revision (ep_repository proposal) \<noteq> rc_base_revision (di_repository (d_intent d)))
       (WorkerResultValidationError ''executor proposal base revision does not match prepared dispatch'')) (\<lambda>_.
     bindr (raise_if (map cs_check_id (ep_criterion_self_reports proposal)
                        \<noteq> map crit_criterion_id (ps_acceptance_criteria step))
       (WorkerResultValidationError ''executor proposal criterion self-reports must exactly match plan order'')) (\<lambda>_.
     raise_if (ep_outcome proposal = Outcome_completed
               \<and> map (\<lambda>e. (pe_artifact_id e, pe_relative_path e, pe_media_type e)) (ep_evidence proposal)
                   \<noteq> map (\<lambda>e. (ev_artifact_id e, ev_relative_path e, ev_media_type e)) (ps_evidence_requirements step))
       (WorkerResultValidationError ''completed executor proposal evidence must exactly match plan order''))))"

section \<open>Evidence\<close>

definition check_artifact :: "(string, artifact_record) dict \<Rightarrow> string \<times> evidence_requirement \<Rightarrow> exn + unit" where
  "check_artifact actual entry =
     (case dget actual (fst entry) of
        None \<Rightarrow> Inl (KeyError (fst entry))
      | Some artifact \<Rightarrow>
          raise_if (ar_relative_path artifact \<noteq> ev_relative_path (snd entry)
                    \<or> ar_media_type artifact \<noteq> ev_media_type (snd entry))
            (WorkerResultValidationError (''evidence artifact '' @ fst entry
               @ '' does not match its required path or media type'')))"

definition validate_executor_evidence :: "plan_step \<Rightarrow> executor_result \<Rightarrow> exn + unit" where
  "validate_executor_evidence step result =
     (let expected = dict_of (map (\<lambda>i. (ev_artifact_id i, i)) (ps_evidence_requirements step));
          actual = dict_of (map (\<lambda>i. (ar_artifact_id i, i)) (er_evidence result))
      in if set (dkeys actual) \<noteq> set (dkeys expected) then
           Inl (WorkerResultValidationError ''executor result evidence does not exactly match step requirements'')
         else for_each (check_artifact actual) expected)"

section \<open>Verification\<close>

text \<open>The common view of an executor and a reviewer result: the variant, whether it claims success, its checks.\<close>

datatype worker_result = Executor_result executor_result | Reviewer_result reviewer_result

fun outcome_text :: "executor_outcome \<Rightarrow> string" where
  "outcome_text Outcome_completed = ''completed''"
| "outcome_text (Outcome_blocked _) = ''blocked''"
| "outcome_text (Outcome_failed _) = ''failed''"

fun result_variant :: "worker_result \<Rightarrow> string" where
  "result_variant (Executor_result r) = ''executor '' @ outcome_text (er_outcome r)"
| "result_variant (Reviewer_result r) = ''reviewer '' @ verdict_text (rr_verdict r)"

fun result_success :: "worker_result \<Rightarrow> bool" where
  "result_success (Executor_result r) = (er_outcome r = Outcome_completed)"
| "result_success (Reviewer_result r) = (rr_verdict r = Verdict_accepted)"

fun result_verification :: "worker_result \<Rightarrow> verification_result list" where
  "result_verification (Executor_result r) = er_verification r"
| "result_verification (Reviewer_result r) = rr_verification r"

fun check_status_text :: "check_status \<Rightarrow> string" where
  "check_status_text Check_passed = ''passed''"
| "check_status_text Check_failed = ''failed''"
| "check_status_text Check_skipped = ''skipped''"

definition sorted_set :: "string list \<Rightarrow> string list" where
  "sorted_set xs = sort (remdups xs)"

definition listed :: "string \<Rightarrow> string list \<Rightarrow> string list" where
  "listed label xs = (if xs = [] then [] else [label @ list_repr xs])"

definition verification_error :: "plan_step \<Rightarrow> worker_result \<Rightarrow> string list \<Rightarrow> exn + unit" where
  "verification_error step result problems =
     raise_if (problems \<noteq> [])
       (WorkerResultValidationError (result_variant result @ '' result verification is invalid for step ''
          @ ps_step_id step @ '': '' @ join_text ''; '' problems))"

definition validate_model_verification :: "plan_step \<Rightarrow> worker_result \<Rightarrow> exn + unit" where
  "validate_model_verification step result =
     (let expected = map crit_criterion_id (ps_acceptance_criteria step);
          actual = map vr_check_id (result_verification result);
          duplicate = sorted_set (filter (\<lambda>i. 1 < count_list actual i) actual);
          missing = sorted_set (filter (\<lambda>i. i \<notin> set actual) expected);
          unknown = sorted_set (filter (\<lambda>i. i \<notin> set expected) actual);
          non_passing = sort (map (\<lambda>v. vr_check_id v @ ''='' @ check_status_text (vr_status v))
            (filter (\<lambda>v. result_success result \<and> vr_status v \<noteq> Check_passed) (result_verification result)))
      in verification_error step result
           (listed ''duplicate check IDs='' duplicate @ listed ''missing criterion IDs='' missing
            @ listed ''unknown check IDs='' unknown @ listed ''non-passing checks='' non_passing))"

definition authoritative_status :: "authoritative_verification \<Rightarrow> check_status" where
  "authoritative_status v = (if av_passed v then Check_passed else Check_failed)"

definition validate_result_verification ::
  "plan_step \<Rightarrow> worker_result \<Rightarrow> authoritative_verification list \<Rightarrow> exn + unit" where
  "validate_result_verification step result authoritative =
     bindr (validate_model_verification step result) (\<lambda>_.
       let expected = map crit_criterion_id (ps_acceptance_criteria step);
           by_id = dict_of (map (\<lambda>v. (av_check_id v, v)) authoritative);
           failed = sort (map av_check_id (filter (\<lambda>v. \<not> av_passed v) authoritative));
           disagreements = sort (map vr_check_id (filter (\<lambda>v. case dget by_id (vr_check_id v) of
               None \<Rightarrow> False | Some a \<Rightarrow> vr_status v \<noteq> authoritative_status a) (result_verification result)))
       in verification_error step result
            (if result_success result then
               (if map av_check_id authoritative \<noteq> expected
                then [''authoritative verification IDs do not exactly match plan criteria''] else [])
               @ listed ''dispatcher-owned checks failed='' failed
               @ listed ''model verification disagrees with dispatcher checks='' disagreements
             else []))"

definition mock_verification :: "verification_result \<Rightarrow> authoritative_verification" where
  "mock_verification v =
     \<lparr>av_check_id = vr_check_id v, av_passed = (vr_status v = Check_passed),
      av_argv = [''dispatcher-mock-verification'', vr_check_id v],
      av_exit_code = Some (if vr_status v = Check_passed then 0 else 1), av_timed_out = False,
      av_output_truncated = False, av_stdout_sha256 = sha256_text [], av_stderr_sha256 = sha256_text [],
      av_transcript_sha256 = sha256_text (''mock:'' @ vr_check_id v @ '':'' @ check_status_text (vr_status v)),
      av_duration_ms = 0, av_backend = ''mock-workflow-test'',
      av_summary = ''synthetic dispatcher verification for explicit mock mode''\<rparr>"

definition effective_authoritative_verification ::
  "config \<Rightarrow> worker_result \<Rightarrow> authoritative_verification list \<Rightarrow> authoritative_verification list" where
  "effective_authoritative_verification c result authoritative =
     (if authoritative \<noteq> [] \<or> \<not> result_success result then authoritative
      else if exe_mode (pc_execution (cfg_model c)) \<noteq> Mock_workflow_test then authoritative
      else map mock_verification (result_verification result))"

section \<open>What the checks establish\<close>

lemma as_worker_error_Inr [simp]: "as_worker_error m = Inr u \<longleftrightarrow> m = Inr u"
  by (auto simp: as_worker_error_def split: sum.splits exn.splits)

lemma validate_executor_result_Inr:
  "validate_executor_result r d = Inr u \<longleftrightarrow>
     er_dispatch_id r = d_dispatch_id d \<and> er_attempt r = d_attempt d \<and> er_step_id r = d_step_id d
     \<and> rcd_repo_id (er_repository r) = rc_repo_id (di_repository (d_intent d))
     \<and> rcd_base_revision (er_repository r) = rc_base_revision (di_repository (d_intent d))"
  by (auto simp: validate_executor_result_def validate_executor_result_context_def result_expectation_of_def
      validate_result_identity_Inr bindr_Inr_iff)

lemma sort_Nil_iff [simp]: "sort xs = [] \<longleftrightarrow> xs = []"
  by (metis set_empty set_sort)

lemma sorted_set_Nil [simp]: "sorted_set xs = [] \<longleftrightarrow> xs = []"
  by (simp add: sorted_set_def)

lemma listed_Nil [simp]: "listed label xs = [] \<longleftrightarrow> xs = []"
  by (simp add: listed_def)

lemma verification_error_Inr [simp]: "verification_error step result ps = Inr u \<longleftrightarrow> ps = []"
  by (simp add: verification_error_def)

lemma distinct_count_list: "distinct xs \<longleftrightarrow> (\<forall>x \<in> set xs. count_list xs x \<le> 1)"
proof (induction xs)
  case (Cons a xs)
  have "count_list xs a = 0 \<longleftrightarrow> a \<notin> set xs" by (rule count_list_0_iff)
  with Cons show ?case by auto
qed simp

lemma validate_model_verification_Inr:
  "validate_model_verification step result = Inr u \<longleftrightarrow>
     distinct (map vr_check_id (result_verification result))
     \<and> set (map vr_check_id (result_verification result)) = set (map crit_criterion_id (ps_acceptance_criteria step))
     \<and> (result_success result \<longrightarrow> (\<forall>v \<in> set (result_verification result). vr_status v = Check_passed))"
  unfolding validate_model_verification_def Let_def verification_error_Inr distinct_count_list
  by (auto simp: filter_empty_conv not_less)

text \<open>
  A result that claims success and passes: every criterion of the plan was run by the dispatcher, in
  plan order, and passed; the model's own claims cover the same criteria and agree.
\<close>

lemma validate_result_verification_Inr:
  assumes "result_success result"
  shows "validate_result_verification step result authoritative = Inr u \<longleftrightarrow>
     validate_model_verification step result = Inr ()
     \<and> map av_check_id authoritative = map crit_criterion_id (ps_acceptance_criteria step)
     \<and> (\<forall>v \<in> set authoritative. av_passed v)"
proof -
  have agree: "dget (dict_of (map (\<lambda>v. (av_check_id v, v)) authoritative)) i = Some a
      \<Longrightarrow> a \<in> set authoritative" for i a
    by (auto simp: dict_of_map_of dest!: map_of_SomeD)
  show ?thesis
    using assms agree
    unfolding validate_result_verification_def bindr_Inr_iff Let_def verification_error_Inr
    by (auto simp: filter_empty_conv validate_model_verification_Inr authoritative_status_def split: option.splits if_splits)
qed

lemma validate_executor_evidence_Inr:
  assumes "validate_executor_evidence step result = Inr ()"
  shows "set (map ar_artifact_id (er_evidence result)) = set (map ev_artifact_id (ps_evidence_requirements step))"
proof -
  have keys: "set (dkeys (dict_of kvs)) = set (map fst kvs)" for kvs :: "(string \<times> 'b) list"
    by (metis dict_of_map_of dom_map_of_conv_image_fst list.set_map rev_map set_rev)
  from assms show ?thesis
    by (auto simp: validate_executor_evidence_def Let_def keys [unfolded set_map] image_image split: if_splits)
qed

end
