(* ===== verification/Step_Outcomes.thy ===== *)
theory Step_Outcomes
  imports Policy Result_Checks
begin

text \<open>
  What a worker's answer does to its step: the pure parts of class \<open>SequentialWorkflow\<close> in
  \<open>src/src/dispatcher/sequential.py\<close>. Fresh identifiers and the clock are inputs: \<open>env_uuid e n\<close> is the
  n-th \<open>uuid4().hex\<close> of a call and \<open>env_now e n\<close> the n-th reading of the clock.
\<close>

record env =
  env_uuid :: "nat \<Rightarrow> string"
  env_now :: "nat \<Rightarrow> int"

definition make_event ::
  "env \<Rightarrow> nat \<Rightarrow> run_record \<Rightarrow> actor \<Rightarrow> string \<Rightarrow> string \<Rightarrow> int option \<Rightarrow> exn + transition_event" where
  "make_event e n r actor reason correlation_id sequence =
     checked transition_event_errors
       \<lparr>te_event_id = ''event-'' @ env_uuid e n,
        te_sequence = (case sequence of None \<Rightarrow> r_sequence r + 1 | Some s \<Rightarrow> s),
        te_actor = actor, te_reason = reason, te_correlation_id = correlation_id,
        te_occurred_at = env_now e n\<rparr>"

section \<open>Lookups\<close>

definition find_plan_step :: "run_record \<Rightarrow> string \<Rightarrow> exn + plan_step" where
  "find_plan_step r step_id =
     (case find (\<lambda>s. ps_step_id s = step_id) (np_steps (r_plan r)) of
        None \<Rightarrow> Inl (SupervisorCommandRejectedError (''supervisor requested unknown plan step: '' @ step_id))
      | Some s \<Rightarrow> Inr s)"

definition review_obligation_of :: "config \<Rightarrow> run_record \<Rightarrow> plan_step \<Rightarrow> exn + compiled_review_obligation" where
  "review_obligation_of c r step =
     bindr (case r_policy r of
              Some p \<Rightarrow> Inr p
            | None \<Rightarrow> (case compile_run_policy c (r_plan r) of
                  Inl (PolicyError m) \<Rightarrow>
                    Inl (SequentialWorkflowError (''run policy must be compiled before dispatch: '' @ m))
                | x \<Rightarrow> x)) (\<lambda>policy.
       (case dget (pol_review_obligations policy) (ps_step_id step) of
          None \<Rightarrow> Inl (SequentialWorkflowError (''run policy has no obligation for step '' @ ps_step_id step))
        | Some o' \<Rightarrow> Inr o'))"

definition dispatch_role_kind :: "config \<Rightarrow> string \<Rightarrow> exn + worker_kind" where
  "dispatch_role_kind c role_key =
     (case config_role_kind c role_key of
        Inl (ConfigError m) \<Rightarrow> Inl (SupervisorCommandRejectedError m)
      | Inl e \<Rightarrow> Inl e
      | Inr Executor \<Rightarrow> Inr Worker_executor
      | Inr Reviewer \<Rightarrow> Inr Worker_reviewer
      | Inr Supervisor \<Rightarrow> Inl (SupervisorCommandRejectedError ''supervisor cannot be a dispatch target''))"

section \<open>Readiness of one dispatch\<close>

text \<open>
  \<open>store.sessions_for_run\<close> gives the session id recorded for a pool and a role; it is an argument here.
\<close>

definition check_executor_step :: "plan_step \<Rightarrow> step_record \<Rightarrow> string \<Rightarrow> exn + unit" where
  "check_executor_step step s role_key =
     (case s_reassignment_role_key s of
        Some required \<Rightarrow>
          if role_key \<noteq> required then
            Inl (SupervisorCommandRejectedError (''step '' @ ps_step_id step @ '' requires reassignment to '' @ required))
          else raise_if (rt_max_executor_attempts (ps_retry step) \<le> s_executor_attempts s)
                 (SequentialWorkflowError (''step '' @ ps_step_id step @ '' exhausted executor attempts''))
      | None \<Rightarrow> raise_if (rt_max_executor_attempts (ps_retry step) \<le> s_executor_attempts s)
                 (SequentialWorkflowError (''step '' @ ps_step_id step @ '' exhausted executor attempts'')))"

definition check_reviewer_step ::
  "config \<Rightarrow> run_record \<Rightarrow> plan_step \<Rightarrow> step_record \<Rightarrow> session_mode \<Rightarrow> string \<Rightarrow> exn + unit" where
  "check_reviewer_step c r step s mode role_key =
     bindr (review_obligation_of c r step) (\<lambda>obligation.
       if mode \<noteq> Mode_new then
         Inl (SupervisorCommandRejectedError ''reviewer sessions must be new for independent review'')
       else if role_key \<notin> set (cro_reviewer_role_keys obligation) then
         Inl (SupervisorCommandRejectedError (''role '' @ role_key @ '' is not compiled to review step '' @ ps_step_id step))
       else if role_key \<in> set (s_accepted_reviewer_role_keys s) then
         Inl (SupervisorCommandRejectedError (''role '' @ role_key @ '' already accepted step '' @ ps_step_id step))
       else raise_if (rt_max_reviewer_attempts (ps_retry step) \<le> s_reviewer_attempts s)
         (SequentialWorkflowError (''step '' @ ps_step_id step @ '' exhausted reviewer attempts'')))"

definition check_dependency :: "run_record \<Rightarrow> plan_step \<Rightarrow> string \<Rightarrow> exn + unit" where
  "check_dependency r step dependency_id =
     bindr (record_step r dependency_id) (\<lambda>d.
       raise_if (\<not> is_done (s_state d))
         (SupervisorCommandRejectedError (''step '' @ ps_step_id step @ '' dependency '' @ dependency_id
            @ '' is not accepted'')))"

definition check_producer :: "run_record \<Rightarrow> plan_step \<Rightarrow> artifact_reference \<Rightarrow> exn + unit" where
  "check_producer r step artifact =
     (case art_producer_step_id artifact of
        None \<Rightarrow> Inr ()
      | Some producer_id \<Rightarrow> bindr (record_step r producer_id) (\<lambda>p.
          raise_if (\<not> is_done (s_state p))
            (SupervisorCommandRejectedError (''step '' @ ps_step_id step @ '' input producer '' @ producer_id
               @ '' is not accepted''))))"

definition expected_worker_state :: "worker_kind \<Rightarrow> step_status" where
  "expected_worker_state kind = (if kind = Worker_executor then Step_ready else Step_review_required)"

definition validate_step_readiness ::
  "config \<Rightarrow> (worker_kind \<Rightarrow> string \<Rightarrow> string option) \<Rightarrow> run_record \<Rightarrow> plan_step \<Rightarrow> worker_kind \<Rightarrow> session_mode
   \<Rightarrow> string \<Rightarrow> exn + unit" where
  "validate_step_readiness c sessions r step kind mode role_key =
     bindr (record_step r (ps_step_id step)) (\<lambda>s.
     if s_state s \<noteq> expected_worker_state kind then
       Inl (SupervisorCommandRejectedError (''step '' @ ps_step_id step @ '' is '' @ step_status_value (s_state s)
         @ '', not '' @ step_status_value (expected_worker_state kind)))
     else
       bindr (if kind = Worker_executor then check_executor_step step s role_key
              else check_reviewer_step c r step s mode role_key) (\<lambda>_.
       bindr (for_each (check_dependency r step) (ps_depends_on step)) (\<lambda>_.
       bindr (for_each (check_producer r step) (ps_required_inputs step)) (\<lambda>_.
         raise_if (mode \<noteq> Mode_new \<and> (sessions kind role_key = None \<or> sessions kind role_key = Some []))
           (SequentialWorkflowError ''requested session mode has no dispatcher-owned session'')))))"

section \<open>Refreshing readiness\<close>

record refresh_state =
  rs_steps :: "(string, step_record) dict"
  rs_sequence :: int
  rs_updated_at :: int
  rs_changed :: bool
  rs_events :: nat

definition dict_step :: "(string, step_record) dict \<Rightarrow> string \<Rightarrow> exn + step_record" where
  "dict_step steps step_id =
     (case dget steps step_id of None \<Rightarrow> Inl (KeyError step_id) | Some s \<Rightarrow> Inr s)"

definition not_done :: "(string, step_record) dict \<Rightarrow> string \<Rightarrow> exn + bool" where
  "not_done steps step_id = bindr (dict_step steps step_id) (\<lambda>s. Inr (\<not> is_done (s_state s)))"

definition producer_not_done :: "(string, step_record) dict \<Rightarrow> artifact_reference \<Rightarrow> exn + bool" where
  "producer_not_done steps artifact =
     (case art_producer_step_id artifact of None \<Rightarrow> Inr False | Some p \<Rightarrow> not_done steps p)"

definition refresh_step :: "env \<Rightarrow> run_record \<Rightarrow> refresh_state \<Rightarrow> plan_step \<Rightarrow> exn + refresh_state" where
  "refresh_step e r st step =
     bindr (dict_step (rs_steps st) (ps_step_id step)) (\<lambda>s.
     if s_state s \<noteq> Step_pending \<or> \<not> s_operator_gate_resolved s then Inr st
     else
       bindr (any_result (not_done (rs_steps st)) (ps_depends_on step)) (\<lambda>waiting.
       if waiting then Inr st
       else
         bindr (any_result (producer_not_done (rs_steps st)) (ps_required_inputs step)) (\<lambda>waiting.
         if waiting then Inr st
         else
           bindr (make_event e (rs_events st) r Actor_dispatcher ''normalized dependencies are satisfied''
                    (ps_step_id step) (Some (rs_sequence st + 1))) (\<lambda>event.
           bindr (transition_step s Step_ready event None None None) (\<lambda>s'.
             Inr \<lparr>rs_steps = dset (ps_step_id step) s' (rs_steps st), rs_sequence = rs_sequence st + 1,
                  rs_updated_at = te_occurred_at event, rs_changed = True, rs_events = rs_events st + 1\<rparr>)))))"

text \<open>\<open>None\<close> when nothing changed: the run is then neither copied nor saved.\<close>

definition refresh_readiness_record :: "env \<Rightarrow> run_record \<Rightarrow> exn + run_record option" where
  "refresh_readiness_record e r =
     bindr (foldr_result (refresh_step e r)
         \<lparr>rs_steps = r_steps r, rs_sequence = r_sequence r, rs_updated_at = r_updated_at r, rs_changed = False,
          rs_events = 0\<rparr> (np_steps (r_plan r))) (\<lambda>st.
       Inr (if \<not> rs_changed st then None
            else Some (r\<lparr>r_steps := rs_steps st, r_sequence := rs_sequence st, r_updated_at := rs_updated_at st\<rparr>)))"

section \<open>Outcomes\<close>

definition retry_or_terminal_step ::
  "env \<Rightarrow> nat \<Rightarrow> run_record \<Rightarrow> plan_step \<Rightarrow> step_record \<Rightarrow> retry_choice \<Rightarrow> string \<Rightarrow> exn + step_record" where
  "retry_or_terminal_step e n r step blocked policy correlation_id =
     (if policy = On_retry \<and> s_executor_attempts blocked < rt_max_executor_attempts (ps_retry step) then
        bindr (make_event e n r Actor_dispatcher ''step retry is ready'' correlation_id
                 (Some (te_sequence (s_last_event blocked) + 1))) (\<lambda>event.
          transition_step blocked Step_ready event None None None)
      else if policy = On_escalate then Inr blocked
      else
        bindr (make_event e n r Actor_dispatcher ''step retry policy halted the step'' correlation_id
                 (Some (te_sequence (s_last_event blocked) + 1))) (\<lambda>event.
          transition_step blocked Step_failed event None None None))"

definition executor_completed_outcome ::
  "env \<Rightarrow> nat \<Rightarrow> config \<Rightarrow> run_record \<Rightarrow> plan_step \<Rightarrow> step_record \<Rightarrow> dispatch_record \<Rightarrow> executor_result
   \<Rightarrow> transition_event \<Rightarrow> exn + step_record \<times> bool" where
  "executor_completed_outcome e n c r step s d result result_event =
     bindr (transition_step s Step_executed result_event None None None) (\<lambda>executed.
     bindr (review_obligation_of c r step) (\<lambda>obligation.
     let target = (if cro_required obligation then Step_review_required else Step_accepted) in
     bindr (make_event e n r Actor_dispatcher (''step moved to '' @ step_status_value target) (d_dispatch_id d)
              (Some (te_sequence result_event + 1))) (\<lambda>final_event.
     bindr (transition_step executed target final_event None None None) (\<lambda>s'.
       Inr (s'\<lparr>s_accepted_artifact_ids := map ar_artifact_id (er_evidence result), s_review_acceptances := 0,
              s_accepted_reviewer_role_keys := []\<rparr>, False)))))"

definition executor_step_outcome ::
  "env \<Rightarrow> nat \<Rightarrow> config \<Rightarrow> run_record \<Rightarrow> plan_step \<Rightarrow> step_record \<Rightarrow> dispatch_record \<Rightarrow> executor_result
   \<Rightarrow> transition_event \<Rightarrow> exn + step_record \<times> bool" where
  "executor_step_outcome e n c r step s d result result_event =
     (let retry = ps_retry step in
      case er_outcome result of
        Outcome_completed \<Rightarrow> executor_completed_outcome e n c r step s d result result_event
      | Outcome_blocked _ \<Rightarrow>
          bindr (transition_step s Step_blocked result_event None None None) (\<lambda>blocked.
          bindr (retry_or_terminal_step e n r step blocked (rt_on_blocked retry) (d_dispatch_id d)) (\<lambda>s'.
            Inr (s', rt_on_blocked retry = On_escalate)))
      | Outcome_failed _ \<Rightarrow>
          if rt_on_failed retry = On_retry \<and> s_executor_attempts s < rt_max_executor_attempts retry then
            bindr (transition_step s Step_blocked result_event None None None) (\<lambda>blocked.
            bindr (retry_or_terminal_step e n r step blocked On_retry (d_dispatch_id d)) (\<lambda>s'. Inr (s', False)))
          else if rt_on_failed retry = On_escalate then
            bindr (transition_step s Step_blocked result_event None None None) (\<lambda>s'. Inr (s', True))
          else
            bindr (transition_step s Step_failed result_event None None None) (\<lambda>s'. Inr (s', False)))"

definition reviewer_accepted_outcome ::
  "config \<Rightarrow> run_record \<Rightarrow> plan_step \<Rightarrow> step_record \<Rightarrow> dispatch_record \<Rightarrow> transition_event
   \<Rightarrow> exn + step_record \<times> bool" where
  "reviewer_accepted_outcome c r step s d verdict_event =
     bindr (review_obligation_of c r step) (\<lambda>obligation.
     let accepted_roles = s_accepted_reviewer_role_keys s @ [d_role_key d];
         accepted_count = s_review_acceptances s + 1;
         target = (if cro_required_acceptances obligation \<le> accepted_count then Step_accepted else Step_review_required)
     in bindr (transition_step s target verdict_event None None None) (\<lambda>s'.
          Inr (s'\<lparr>s_review_acceptances := accepted_count, s_accepted_reviewer_role_keys := accepted_roles,
                 s_accepted_artifact_ids :=
                   (if target = Step_accepted then map ev_artifact_id (ps_evidence_requirements step) else [])\<rparr>,
               False)))"

definition changes_requested_outcome ::
  "env \<Rightarrow> nat \<Rightarrow> config \<Rightarrow> run_record \<Rightarrow> plan_step \<Rightarrow> step_record \<Rightarrow> dispatch_record \<Rightarrow> transition_event
   \<Rightarrow> exn + step_record \<times> bool" where
  "changes_requested_outcome e n c r step s d verdict_event =
     bindr (transition_step s Step_changes_requested verdict_event None None None) (\<lambda>changed.
     let changed = changed\<lparr>s_rework_rounds := s_rework_rounds s + 1\<rparr>;
         next_event = (\<lambda>reason. make_event e n r Actor_dispatcher reason (d_dispatch_id d)
           (Some (te_sequence verdict_event + 1))) in
     bindr (review_obligation_of c r step) (\<lambda>obligation.
     let remaining = filter (\<lambda>k. k \<notin> set (s_accepted_reviewer_role_keys s) \<and> k \<noteq> d_role_key d)
           (cro_reviewer_role_keys obligation)
     in if remaining \<noteq> [] \<and> s_review_acceptances s \<noteq> 0 then
          bindr (next_event ''conflicting review requires a fresh tie-break on the immutable artifact'') (\<lambda>event.
          bindr (transition_step changed Step_review_required event None None None) (\<lambda>s'. Inr (s', False)))
        else if rt_on_changes_requested (ps_retry step) = On_retry
                \<and> s_rework_rounds changed < exe_max_rounds_per_step (pc_execution (cfg_model c))
                \<and> s_executor_attempts s < rt_max_executor_attempts (ps_retry step) then
          bindr (next_event ''review rework is ready'') (\<lambda>event.
          bindr (transition_step changed Step_ready event None None None) (\<lambda>s'. Inr (s', False)))
        else if rt_on_changes_requested (ps_retry step) = On_escalate then
          bindr (next_event ''review rework requires escalation'') (\<lambda>event.
          bindr (transition_step changed Step_blocked event None None None) (\<lambda>s'. Inr (s', True)))
        else
          bindr (next_event ''review rework policy halted the step'') (\<lambda>event.
          bindr (transition_step changed Step_failed event None None None) (\<lambda>s'. Inr (s', False)))))"

definition review_blocked_outcome ::
  "env \<Rightarrow> nat \<Rightarrow> run_record \<Rightarrow> plan_step \<Rightarrow> step_record \<Rightarrow> dispatch_record \<Rightarrow> transition_event
   \<Rightarrow> exn + step_record \<times> bool" where
  "review_blocked_outcome e n r step s d verdict_event =
     bindr (transition_step s Step_blocked verdict_event None None None) (\<lambda>blocked.
     if rt_on_blocked (ps_retry step) = On_retry \<and> s_reviewer_attempts s < rt_max_reviewer_attempts (ps_retry step) then
       bindr (make_event e n r Actor_dispatcher ''review retry is ready'' (d_dispatch_id d)
                (Some (te_sequence verdict_event + 1))) (\<lambda>event.
       bindr (transition_step blocked Step_review_required event None None None) (\<lambda>s'. Inr (s', False)))
     else if rt_on_blocked (ps_retry step) = On_escalate then Inr (blocked, True)
     else
       bindr (make_event e n r Actor_dispatcher ''review blocked policy halted the step'' (d_dispatch_id d)
                (Some (te_sequence verdict_event + 1))) (\<lambda>event.
       bindr (transition_step blocked Step_failed event None None None) (\<lambda>s'. Inr (s', False))))"

definition reviewer_step_outcome ::
  "env \<Rightarrow> nat \<Rightarrow> config \<Rightarrow> run_record \<Rightarrow> plan_step \<Rightarrow> step_record \<Rightarrow> dispatch_record \<Rightarrow> reviewer_result
   \<Rightarrow> transition_event \<Rightarrow> exn + step_record \<times> bool" where
  "reviewer_step_outcome e n c r step s d result verdict_event =
     (case rr_verdict result of
        Verdict_accepted \<Rightarrow> reviewer_accepted_outcome c r step s d verdict_event
      | Verdict_changes_requested \<Rightarrow> changes_requested_outcome e n c r step s d verdict_event
      | _ \<Rightarrow> review_blocked_outcome e n r step s d verdict_event)"

section \<open>Putting the step back into its run\<close>

definition step_replacement_record :: "env \<Rightarrow> nat \<Rightarrow> run_record \<Rightarrow> step_record \<Rightarrow> exn + run_record" where
  "step_replacement_record e n r s' =
     (let updated = r\<lparr>r_steps := dset (s_step_id s') s' (r_steps r),
                      r_sequence := te_sequence (s_last_event s'),
                      r_updated_at := te_occurred_at (s_last_event s')\<rparr>
      in if s_state s' = Step_failed then
           if r_state r \<in> {Run_running, Run_waiting_operator} then
             bindr (make_event e n r Actor_dispatcher (''step '' @ s_step_id s' @ '' entered FAILED; run failed'')
                      (s_step_id s') (Some (te_sequence (s_last_event s') + 1))) (\<lambda>failed_event.
               transition_run updated Run_failed failed_event None)
           else if r_state r \<noteq> Run_failed then
             Inl (SequentialWorkflowError (''cannot persist a failed step while run is '' @ run_status_value (r_state r)))
           else Inr updated
         else Inr updated)"

definition forwarding_record ::
  "env \<Rightarrow> nat \<Rightarrow> run_record \<Rightarrow> dispatch_record \<Rightarrow> string \<Rightarrow> string \<Rightarrow> string \<Rightarrow> exn + run_record" where
  "forwarding_record e n r completed dispatch_id event_reason forwarding =
     bindr (make_event e n r Actor_dispatcher event_reason dispatch_id None) (\<lambda>event.
     bindr (transition_dispatch completed Dispatch_forwarded event
              (no_update\<lparr>du_forwarding_digest := Some (sha256_text forwarding)\<rparr>)) (\<lambda>forwarded.
       Inr (r\<lparr>r_dispatches := dset dispatch_id forwarded (r_dispatches r),
              r_sequence := te_sequence event, r_updated_at := te_occurred_at event\<rparr>)))"

section \<open>Operator requests\<close>

definition make_request :: "operator_request \<Rightarrow> exn + operator_request" where
  "make_request q = checked operator_request_errors q"

definition wait_with ::
  "run_record \<Rightarrow> transition_event \<Rightarrow> operator_request \<Rightarrow> exn + run_record" where
  "wait_with r event q =
     bindr (make_request q) (\<lambda>request. transition_run r Run_waiting_operator event (Some request))"

definition escalation_waiting_record ::
  "env \<Rightarrow> nat \<Rightarrow> run_record \<Rightarrow> plan_step \<Rightarrow> dispatch_record \<Rightarrow> exn + run_record" where
  "escalation_waiting_record e n r step d =
     (case rt_escalation_role_key (ps_retry step) of
        None \<Rightarrow> Inl (SequentialWorkflowError ''escalation policy has no configured executor reassignment role'')
      | Some role_key \<Rightarrow>
          bindr (make_event e n r Actor_dispatcher ''review escalation requires operator reassignment'' (d_dispatch_id d) None) (\<lambda>event.
            wait_with r event
              \<lparr>or_request_id = ''request-'' @ env_uuid e (n + 1),
               or_question = ''Step '' @ ps_step_id step @ '' requires escalation. Reassign executor '' @ role_key
                 @ '' for a new attempt or halt?'',
               or_allowed_answers = [''reassign'', ''halt''], or_context_ref = d_dispatch_id d,
               or_resume_to = Run_running, or_expires_at = None, or_required_role = None, or_kind = Req_escalation,
               or_step_id = Some (ps_step_id step), or_reassignment_role_key = Some role_key\<rparr>))"

definition wait_for_operator_record ::
  "env \<Rightarrow> run_record \<Rightarrow> string option \<Rightarrow> string \<Rightarrow> exn + run_record" where
  "wait_for_operator_record e r step_id question =
     (if (case r_policy r of None \<Rightarrow> True | Some p \<Rightarrow> pol_underspec_mode p \<noteq> Underspec_ask) then
        Inl (SupervisorCommandRejectedError
          ''underspecification requests are denied when execution.underspec_mode is auto'')
      else
        bindr (make_event e 0 r Actor_supervisor ''operator input requested'' ''operator-request'' None) (\<lambda>event.
          wait_with r event
            \<lparr>or_request_id = ''request-'' @ env_uuid e 1, or_question = question,
             or_allowed_answers = [''answer'', ''halt''],
             or_context_ref = (case step_id of None \<Rightarrow> ''run'' | Some i \<Rightarrow> if i = [] then ''run'' else i),
             or_resume_to = Run_running, or_expires_at = None, or_required_role = None,
             or_kind = Req_underspecification, or_step_id = step_id, or_reassignment_role_key = None\<rparr>))"

definition request_review_waiver_record ::
  "env \<Rightarrow> config \<Rightarrow> run_record \<Rightarrow> string \<Rightarrow> string \<Rightarrow> exn + run_record" where
  "request_review_waiver_record e c r step_id rationale =
     bindr (find_plan_step r step_id) (\<lambda>step.
     bindr (review_obligation_of c r step) (\<lambda>obligation.
     bindr (record_step r (ps_step_id step)) (\<lambda>s.
     if s_state s \<noteq> Step_review_required then
       Inl (SupervisorCommandRejectedError ''review waiver requires a step awaiting review'')
     else if \<not> cro_waivable obligation then
       Inl (SupervisorCommandRejectedError ''compiled review obligation cannot be waived'')
     else
       bindr (make_event e 0 r Actor_supervisor rationale (ps_step_id step) None) (\<lambda>event.
         wait_with r event
           \<lparr>or_request_id = ''request-'' @ env_uuid e 1,
            or_question = ''Waive the non-mandatory review obligation for step '' @ ps_step_id step @ ''?'',
            or_allowed_answers = [''waive'', ''halt''], or_context_ref = ps_step_id step,
            or_resume_to = Run_running, or_expires_at = None, or_required_role = None, or_kind = Req_review_waiver,
            or_step_id = Some (ps_step_id step), or_reassignment_role_key = None\<rparr>))))"

definition request_risk_gate_record :: "env \<Rightarrow> run_record \<Rightarrow> plan_step \<Rightarrow> exn + run_record" where
  "request_risk_gate_record e r step =
     bindr (make_event e 0 r Actor_dispatcher ''risk gate requires operator decision'' (ps_step_id step) None) (\<lambda>event.
       wait_with r event
         \<lparr>or_request_id = ''request-'' @ env_uuid e 1,
          or_question = ''Approve dispatch of risk-gated step '' @ ps_step_id step @ ''?'',
          or_allowed_answers = [''approve'', ''deny''], or_context_ref = ps_step_id step,
          or_resume_to = Run_running, or_expires_at = None, or_required_role = None, or_kind = Req_risk_gate,
          or_step_id = Some (ps_step_id step), or_reassignment_role_key = None\<rparr>)"

section \<open>Usage and budget\<close>

definition add_usage :: "usage_amount \<Rightarrow> usage_amount \<Rightarrow> usage_amount" where
  "add_usage left right =
     \<lparr>ua_cost_usd = ua_cost_usd left + ua_cost_usd right,
      ua_tokens_total = ua_tokens_total left + ua_tokens_total right,
      ua_tokens_input = ua_tokens_input left + ua_tokens_input right,
      ua_tokens_output = ua_tokens_output left + ua_tokens_output right,
      ua_tokens_reasoning = ua_tokens_reasoning left + ua_tokens_reasoning right\<rparr>"

definition bucket :: "(string, usage_amount) dict \<Rightarrow> string \<Rightarrow> usage_amount" where
  "bucket d k = (case dget d k of None \<Rightarrow> zero_usage | Some u \<Rightarrow> u)"

definition updated_usage_bucket ::
  "(string, usage_amount) dict \<Rightarrow> string \<Rightarrow> usage_amount \<Rightarrow> (string, usage_amount) dict" where
  "updated_usage_bucket current key amount = dset key (add_usage (bucket current key) amount) current"

definition session_key :: "dispatch_record \<Rightarrow> string" where
  "session_key d =
     (case d_runtime_session_id d of
        None \<Rightarrow> d_logical_session_key d
      | Some i \<Rightarrow> if i = [] then d_logical_session_key d else i)"

definition ensure_budget_allows_dispatch ::
  "config \<Rightarrow> (string \<Rightarrow> string option) \<Rightarrow> run_record \<Rightarrow> plan_step \<Rightarrow> string \<Rightarrow> session_mode \<Rightarrow> exn + unit" where
  "ensure_budget_allows_dispatch c session_of r step role_key mode =
     (let budget = pc_budget (cfg_model c)
      in if \<not> bud_enabled budget then Inr ()
         else if bud_max_run_cost_usd budget \<le> ua_cost_usd (ul_run (r_usage r)) then
           Inl (SequentialWorkflowError ''run cost budget is exhausted; a new dispatch is forbidden'')
         else if bud_max_step_cost_usd budget \<le> ua_cost_usd (bucket (ul_by_step (r_usage r)) (ps_step_id step)) then
           Inl (SequentialWorkflowError (''step '' @ ps_step_id step
             @ '' cost budget is exhausted; a new dispatch is forbidden''))
         else (case (mode, session_of role_key) of
             (Mode_resume, Some session_id) \<Rightarrow>
               raise_if (bud_max_context_tokens budget \<le> ua_tokens_total (bucket (ul_by_session (r_usage r)) session_id))
                 (SequentialWorkflowError (''session context token limit is exhausted for '' @ session_id
                    @ ''; a resumed dispatch is forbidden''))
           | _ \<Rightarrow> Inr ()))"

text \<open>The usage an invocation journal has already accounted for a dispatch.\<close>

datatype journal_status = Journal_none | Journal_pending | Journal_complete | Journal_missing

definition ledger_with :: "usage_ledger \<Rightarrow> dispatch_record \<Rightarrow> usage_amount \<Rightarrow> usage_ledger" where
  "ledger_with ledger d amount =
     \<lparr>ul_run = add_usage (ul_run ledger) amount,
      ul_by_step = updated_usage_bucket (ul_by_step ledger) (d_step_id d) amount,
      ul_by_role = updated_usage_bucket (ul_by_role ledger) (d_role_key d) amount,
      ul_by_session = updated_usage_bucket (ul_by_session ledger) (session_key d) amount\<rparr>"

definition record_usage ::
  "config \<Rightarrow> run_record \<Rightarrow> dispatch_record \<Rightarrow> journal_status \<Rightarrow> usage_amount option \<Rightarrow> usage_amount option
   \<Rightarrow> exn + run_record" where
  "record_usage c r d journal journaled usage =
     (case journal of
        Journal_pending \<Rightarrow>
          Inl (SequentialWorkflowError ''OpenCode invocation usage must be finalized before result application'')
      | Journal_complete \<Rightarrow>
          if journaled = None then
            Inl (SequentialWorkflowError ''complete OpenCode invocation usage is missing its measured amount'')
          else if usage \<noteq> None \<and> usage \<noteq> journaled then
            Inl (SequentialWorkflowError ''result usage differs from the finalized OpenCode invocation'')
          else Inr r
      | Journal_missing \<Rightarrow>
          if usage \<noteq> None then
            Inl (SequentialWorkflowError ''result usage was supplied for an invocation finalized without usage'')
          else if bud_enabled (pc_budget (cfg_model c)) then
            Inl (SequentialWorkflowError ''measured OpenCode usage is required while budget enforcement is enabled'')
          else Inr r
      | Journal_none \<Rightarrow>
          (case usage of
             None \<Rightarrow>
               if bud_enabled (pc_budget (cfg_model c)) then
                 Inl (SequentialWorkflowError ''measured OpenCode usage is required while budget enforcement is enabled'')
               else Inr r
           | Some amount \<Rightarrow> Inr (r\<lparr>r_usage := ledger_with (r_usage r) d amount\<rparr>)))"

end
