(* ===== verification/Permissions.thy ===== *)
theory Permissions
  imports Config_Model Digest
begin

text \<open>
  Permission compilation: \<open>src/src/dispatcher/permissions.py\<close> and \<open>src/src/dispatcher/mcp.py\<close>. Policy
  layers, the actions a dispatch authorises, the ceiling of the role kind and the role's MCP tools
  become the rule set of one child process.
\<close>

section \<open>Rules\<close>

datatype tool_rule =
    Decision permission_decision
  | Patterns "(string, permission_decision) dict"

type_synonym rules = "(string, tool_rule) dict"

definition READ_ONLY_DIAGNOSTIC_COMMANDS :: "string list" where
  "READ_ONLY_DIAGNOSTIC_COMMANDS =
     [''pwd'', ''ls'', ''git status --porcelain=v1'', ''git branch --show-current'', ''git rev-parse HEAD'',
      ''git diff --no-ext-diff --no-textconv'']"

definition allow_patterns :: "string list \<Rightarrow> tool_rule" where
  "allow_patterns ps = Patterns (map (\<lambda>p. (p, Allow)) ps)"

fun action_rules :: "permission_action \<Rightarrow> rules" where
  "action_rules Inspect = [(''read'', Decision Allow), (''glob'', Decision Allow), (''grep'', Decision Allow)]"
| "action_rules Modify = [(''edit'', Decision Allow), (''write'', Decision Allow)]"
| "action_rules Verify = [(''bash'', allow_patterns
     [''pytest *'', ''ruff *'', ''mypy *'', ''shasum *'', ''sha256sum *'', ''ls *'', ''wc *'', ''stat *''])]"
| "action_rules Commit = [(''bash'', allow_patterns
     [''git add *'', ''git status *'', ''git diff *'', ''git rev-parse *'', ''git commit *''])]"
| "action_rules Push = [(''bash'', allow_patterns [''git push *''])]"
| "action_rules Force_push = [(''bash'', allow_patterns [''git push --force *''])]"
| "action_rules Create_branch = [(''bash'', allow_patterns [''git branch *''])]"

section \<open>Scoping by role\<close>

definition role_scoped_authorized_actions :: "string list \<Rightarrow> role_kind \<Rightarrow> exn + string list" where
  "role_scoped_authorized_actions actions kind =
     (case kind of
        Executor \<Rightarrow> Inr (filter (\<lambda>a. a \<in> {''inspect'', ''modify''}) actions)
      | Reviewer \<Rightarrow>
          if ''inspect'' \<notin> set actions then
            Inl (PermissionError ''reviewer dispatch requires step authorization to include inspect'')
          else Inr [''inspect'']
      | Supervisor \<Rightarrow> Inr [''inspect''])"

definition read_only_diagnostic_bash_rules :: "(string, permission_decision) dict" where
  "read_only_diagnostic_bash_rules =
     dict_of ((''*'', Deny) # map (\<lambda>command. (command, Allow)) READ_ONLY_DIAGNOSTIC_COMMANDS)"

section \<open>Layers\<close>

definition merge_rule :: "permission_decision \<Rightarrow> rules \<Rightarrow> string \<times> tool_rule \<Rightarrow> exn + rules" where
  "merge_rule decision target entry =
     (case snd entry of
        Decision _ \<Rightarrow> Inr (dset (fst entry) (Decision decision) target)
      | Patterns ps \<Rightarrow>
          let target = (if dget target (fst entry) = None then dset (fst entry) (Patterns []) target else target)
          in case dget target (fst entry) of
               Some (Patterns existing) \<Rightarrow>
                 Inr (dset (fst entry) (Patterns (foldl (\<lambda>d p. dset (fst p) decision d) existing ps)) target)
             | _ \<Rightarrow> Inl (PermissionError (''conflicting rule shape for OpenCode tool '' @ fst entry)))"

definition merge_action_rules :: "rules \<Rightarrow> rules \<Rightarrow> permission_decision \<Rightarrow> exn + rules" where
  "merge_action_rules target action decision = foldr_result (merge_rule decision) target action"

definition layer_decisions ::
  "permission_policy list \<Rightarrow> (permission_action, permission_decision) dict" where
  "layer_decisions layers = dict_of (concat (map pp_actions layers))"

definition compile_policy_layers :: "permission_policy list \<Rightarrow> string list \<Rightarrow> exn + rules" where
  "compile_policy_layers layers authorized =
     (if layers = [] then Inl (PermissionError ''at least one permission policy layer is required'')
      else
        let unknown = filter (\<lambda>a. a \<notin> set (map action_name PERMISSION_ACTIONS)) (sort (remdups authorized))
        in if unknown \<noteq> [] then
             Inl (PermissionError (''unknown dispatch authorization actions: '' @ join_text '', '' unknown))
           else foldr_result
             (\<lambda>rules entry. merge_action_rules rules (action_rules (fst entry))
                (if action_name (fst entry) \<notin> set authorized then Deny else snd entry))
             [(''*'', Decision (pp_default (last layers)))] (layer_decisions layers))"

section \<open>MCP tools\<close>

definition resolve_role_mcp_tools :: "config \<Rightarrow> string \<Rightarrow> exn + string list" where
  "resolve_role_mcp_tools c role_key =
     bindr (config_role c role_key) (\<lambda>role.
       Inr (if pc_mcp (cfg_model c) = None \<and> role_mcp_tools role = [] then DEFAULT_INHERITED_MCP_TOOLS
            else role_mcp_tools role))"

definition select_server ::
  "mcp_registry \<Rightarrow> string \<Rightarrow> (string, mcp_server) dict \<Rightarrow> string \<Rightarrow> exn + (string, mcp_server) dict" where
  "select_server registry role_key servers tool =
     (let missing = MCPCompileError (''role '' @ role_key @ '' tool '' @ repr_text tool
            @ '' does not reference an enabled MCP server'')
      in case dget MCP_TOOL_CATALOG tool of
           None \<Rightarrow> Inl missing
         | Some server_key \<Rightarrow> (case dget (mcp_servers registry) server_key of
               None \<Rightarrow> Inl missing
             | Some server \<Rightarrow>
                 if \<not> server_enabled server then Inl missing else Inr (dset server_key server servers)))"

definition selected_servers :: "config \<Rightarrow> string list \<Rightarrow> string \<Rightarrow> exn + (string, mcp_server) dict" where
  "selected_servers c tools role_key =
     (case pc_mcp (cfg_model c) of
        None \<Rightarrow> Inr []
      | Some registry \<Rightarrow> foldr_result (select_server registry role_key) [] tools)"

definition json_string_dict :: "(string, string) dict \<Rightarrow> json" where
  "json_string_dict d = JObj (map (\<lambda>kv. (fst kv, JStr (snd kv))) d)"

fun compile_server :: "mcp_server \<Rightarrow> json" where
  "compile_server (Local_server _ command environment) = JObj
     [(''type'', JStr ''local''), (''command'', JArr (map JStr command)),
      (''environment'', json_string_dict environment), (''enabled'', JBool True)]"
| "compile_server (Remote_server _ url headers) = JObj
     ([(''type'', JStr ''remote''), (''url'', JStr url), (''enabled'', JBool True)]
      @ (if headers \<noteq> [] then [(''headers'', json_string_dict headers)] else []))"

definition compile_role_mcp_servers :: "config \<Rightarrow> string \<Rightarrow> exn + (string, json) dict" where
  "compile_role_mcp_servers c role_key =
     (if pc_mcp (cfg_model c) = None then Inr []
      else
        bindr (resolve_role_mcp_tools c role_key) (\<lambda>tools.
        bindr (selected_servers c tools role_key) (\<lambda>servers.
          Inr (map (\<lambda>kv. (fst kv, compile_server (snd kv))) (sort_key fst servers)))))"

definition compile_mcp_permissions :: "config \<Rightarrow> string \<Rightarrow> exn + rules" where
  "compile_mcp_permissions c role_key =
     bindr (resolve_role_mcp_tools c role_key) (\<lambda>tools.
       Inr (dict_of (map (\<lambda>tool. (tool, Decision Allow)) tools)))"

section \<open>The effective policy\<close>

definition update_rules :: "rules \<Rightarrow> rules \<Rightarrow> rules" where
  "update_rules rules new = foldl (\<lambda>d kv. dset (fst kv) (snd kv) d) rules new"

definition role_ceiling :: "role_kind \<Rightarrow> rules \<Rightarrow> rules" where
  "role_ceiling kind rules =
     (if kind = Reviewer \<or> kind = Supervisor then
        dset ''bash'' (Patterns read_only_diagnostic_bash_rules)
          (dset ''write'' (Decision Deny) (dset ''edit'' (Decision Deny) rules))
      else rules)"

definition compile_effective_policy :: "config \<Rightarrow> string \<Rightarrow> string \<Rightarrow> string list \<Rightarrow> exn + rules" where
  "compile_effective_policy c repo_id role_key authorized =
     bindr (permission_policy_layers c repo_id role_key) (\<lambda>layers.
     bindr (compile_policy_layers layers authorized) (\<lambda>rules.
     bindr (config_role_kind c role_key) (\<lambda>kind.
     bindr (compile_mcp_permissions c role_key) (\<lambda>mcp_tools.
       if mcp_tools \<noteq> [] \<and> dget (role_ceiling kind rules) ''*'' \<noteq> Some (Decision Deny) then
         Inl (PermissionError
           (''role MCP tools require the compiled permission default to be deny so that ''
            @ ''unlisted MCP methods stay denied''))
       else Inr (update_rules (role_ceiling kind rules) mcp_tools)))))"

fun rule_asks :: "tool_rule \<Rightarrow> bool" where
  "rule_asks (Decision d) = (d = Ask)"
| "rule_asks (Patterns ps) = list_ex (\<lambda>p. snd p = Ask) ps"

definition should_auto_approve :: "rules \<Rightarrow> bool" where
  "should_auto_approve rules = (\<not> list_ex (\<lambda>kv. rule_asks (snd kv)) rules)"

text \<open>The generated configuration: the rules, and the servers when there are any.\<close>

fun permission_decision_text :: "permission_decision \<Rightarrow> string" where
  "permission_decision_text Allow = ''allow''"
| "permission_decision_text Ask = ''ask''"
| "permission_decision_text Deny = ''deny''"

fun json_tool_rule :: "tool_rule \<Rightarrow> json" where
  "json_tool_rule (Decision d) = JStr (permission_decision_text d)"
| "json_tool_rule (Patterns ps) = JObj (map (\<lambda>p. (fst p, JStr (permission_decision_text (snd p)))) ps)"

definition generate_opencode_config :: "rules \<Rightarrow> (string, json) dict \<Rightarrow> exn + json" where
  "generate_opencode_config rules servers =
     (if dget rules ''*'' = None then
        Inl (PermissionError ''compiled OpenCode permission rules must preserve the global default'')
      else Inr (JObj
        ((''permission'', JObj (map (\<lambda>kv. (fst kv, json_tool_rule (snd kv))) rules))
         # (if servers \<noteq> [] then [(''mcp'', JObj servers)] else []))))"

section \<open>What one action contributes\<close>

text \<open>The decision of the rule set on a tool, or on a pattern of a tool.\<close>

fun rule_decision :: "tool_rule option \<Rightarrow> string \<Rightarrow> permission_decision option" where
  "rule_decision (Some (Decision d)) p = Some d"
| "rule_decision (Some (Patterns ps)) p = dget ps p"
| "rule_decision None p = None"

definition decides :: "rules \<Rightarrow> permission_action \<Rightarrow> permission_decision \<Rightarrow> bool" where
  "decides rules action decision \<longleftrightarrow>
     (\<forall>(tool, rule) \<in> set (action_rules action). case rule of
        Decision _ \<Rightarrow> dget rules tool = Some (Decision decision)
      | Patterns ps \<Rightarrow> \<exists>existing. dget rules tool = Some (Patterns existing)
          \<and> (\<forall>p \<in> set (dkeys ps). dget existing p = Some decision))"

text \<open>Every rule set under construction keeps the shape the mapping gives to each tool.\<close>

definition shaped :: "rules \<Rightarrow> bool" where
  "shaped rules \<longleftrightarrow> (\<forall>tool rule. dget rules tool = Some rule \<longrightarrow>
     (if tool = ''bash'' then \<exists>ps. rule = Patterns ps else \<exists>d. rule = Decision d))"

lemma fold_patterns:
  "dget (foldl (\<lambda>d p. dset (fst p) decision d) existing ps) q
     = (if q \<in> set (dkeys ps) then Some decision else dget existing q)"
  by (induction ps arbitrary: existing) (auto simp: dget_dset)

lemma merge_patterns:
  assumes "shaped rules"
  shows "\<exists>existing target. (dget rules ''bash'' = Some (Patterns existing) \<or> (dget rules ''bash'' = None \<and> existing = []))
    \<and> merge_rule decision rules (''bash'', allow_patterns ps) = Inr target
    \<and> dget target ''bash'' = Some (Patterns (foldl (\<lambda>d p. dset (fst p) decision d) existing
             (map (\<lambda>p. (p, Allow)) ps)))
    \<and> (\<forall>tool. tool \<noteq> ''bash'' \<longrightarrow> dget target tool = dget rules tool)"
proof (cases "dget rules ''bash''")
  case None
  show ?thesis
    apply (rule exI [of _ "[]"])
    using None by (simp add: merge_rule_def allow_patterns_def dget_dset Let_def)
next
  case (Some rule)
  with assms obtain existing where "rule = Patterns existing" unfolding shaped_def by fastforce
  show ?thesis
    apply (rule exI [of _ existing])
    using Some \<open>rule = Patterns existing\<close>
    by (simp add: merge_rule_def allow_patterns_def dget_dset Let_def)
qed

definition plain_tools :: "permission_action \<Rightarrow> string list" where
  "plain_tools action =
     (case action of Inspect \<Rightarrow> [''read'', ''glob'', ''grep''] | Modify \<Rightarrow> [''edit'', ''write''] | _ \<Rightarrow> [])"

definition bash_patterns :: "permission_action \<Rightarrow> string list" where
  "bash_patterns action = (case dget (action_rules action) ''bash'' of Some (Patterns ps) \<Rightarrow> dkeys ps | _ \<Rightarrow> [])"

lemma action_rules_split:
  "action_rules action = map (\<lambda>t. (t, Decision Allow)) (plain_tools action)
     @ (if bash_patterns action = [] then [] else [(''bash'', allow_patterns (bash_patterns action))])"
  by (cases action) (simp_all add: plain_tools_def bash_patterns_def allow_patterns_def)

lemma patterns_disjoint: "a \<noteq> b \<Longrightarrow> set (bash_patterns a) \<inter> set (bash_patterns b) = {}"
  by (cases a; cases b; simp add: bash_patterns_def allow_patterns_def)

lemma tools_disjoint: "a \<noteq> b \<Longrightarrow> set (plain_tools a) \<inter> set (plain_tools b) = {}"
  by (cases a; cases b; simp add: plain_tools_def)

lemma plain_tools_names: "t \<in> set (plain_tools a) \<Longrightarrow> t \<noteq> ''bash'' \<and> t \<noteq> ''*''"
  by (cases a; auto simp: plain_tools_def)

lemma decides_iff:
  "decides rules a d \<longleftrightarrow> (\<forall>t \<in> set (plain_tools a). dget rules t = Some (Decision d))
     \<and> (bash_patterns a \<noteq> [] \<longrightarrow> (\<exists>existing. dget rules ''bash'' = Some (Patterns existing)
           \<and> (\<forall>p \<in> set (bash_patterns a). dget existing p = Some d)))"
  unfolding decides_def action_rules_split by (auto simp: allow_patterns_def)

lemma merge_plain:
  "foldr_result (merge_rule d) rules (map (\<lambda>t. (t, Decision Allow)) ts)
     = Inr (foldl (\<lambda>r t. dset t (Decision d) r) rules ts)"
  by (induction ts arbitrary: rules) (simp_all add: merge_rule_def)

lemma dget_foldl_plain:
  "dget (foldl (\<lambda>r t. dset t v r) rules ts) k = (if k \<in> set ts then Some v else dget rules k)"
  by (induction ts arbitrary: rules) (auto simp: dget_dset)

lemma merge_action:
  assumes "shaped rules"
  shows "\<exists>target. merge_action_rules rules (action_rules a) d = Inr target \<and> shaped target
    \<and> decides target a d \<and> (\<forall>b e. b \<noteq> a \<longrightarrow> decides rules b e \<longrightarrow> decides target b e)
    \<and> dget target ''*'' = dget rules ''*''"
proof -
  define mid where "mid = foldl (\<lambda>r t. dset t (Decision d) r) rules (plain_tools a)"
  have mid: "dget mid k = (if k \<in> set (plain_tools a) then Some (Decision d) else dget rules k)" for k
    by (simp add: mid_def dget_foldl_plain)
  have shaped_mid: "shaped mid"
    using assms plain_tools_names unfolding shaped_def mid by (auto split: if_splits)
  have run: "merge_action_rules rules (action_rules a) d
      = foldr_result (merge_rule d) mid
          (if bash_patterns a = [] then [] else [(''bash'', allow_patterns (bash_patterns a))])"
    unfolding merge_action_rules_def action_rules_split [of a] foldr_result_append merge_plain
    by (simp add: mid_def)
  have star: "dget mid ''*'' = dget rules ''*''" using plain_tools_names by (auto simp: mid)
  have keep_plain: "\<forall>t \<in> set (plain_tools b). dget mid t = Some (Decision e)"
    if "b \<noteq> a" "decides rules b e" for b e
    using that tools_disjoint [of b a] by (auto simp: mid decides_iff)
  show ?thesis
  proof (cases "bash_patterns a = []")
    case True
    have "decides mid b e" if "b \<noteq> a" "decides rules b e" for b e
      using keep_plain [OF that] that plain_tools_names [of "''bash''" a] by (auto simp: decides_iff mid)
    moreover have "decides mid a d" using True by (simp add: decides_iff mid)
    ultimately show ?thesis using run shaped_mid star True by simp
  next
    case False
    from merge_patterns [OF shaped_mid, of d "bash_patterns a"] obtain existing target where
      old: "dget mid ''bash'' = Some (Patterns existing) \<or> (dget mid ''bash'' = None \<and> existing = [])"
      and t: "merge_rule d mid (''bash'', allow_patterns (bash_patterns a)) = Inr target"
        "dget target ''bash'' = Some (Patterns (foldl (\<lambda>d' p. dset (fst p) d d') existing
             (map (\<lambda>p. (p, Allow)) (bash_patterns a))))"
        "\<forall>tool. tool \<noteq> ''bash'' \<longrightarrow> dget target tool = dget mid tool" by blast
    define new where "new = foldl (\<lambda>d' p. dset (fst p) d d') existing (map (\<lambda>p. (p, Allow)) (bash_patterns a))"
    have new: "dget new q = (if q \<in> set (bash_patterns a) then Some d else dget existing q)" for q
      unfolding new_def fold_patterns by (simp add: comp_def)
    have bash: "dget target ''bash'' = Some (Patterns new)" using t(2) by (simp add: new_def)
    have "shaped target"
      using shaped_mid bash t(3) unfolding shaped_def by (metis option.inject)
    moreover have "decides target a d"
    proof -
      have "dget target t' = Some (Decision d)" if "t' \<in> set (plain_tools a)" for t'
        using that plain_tools_names [OF that] t(3) mid by simp
      then show ?thesis unfolding decides_iff using bash new by simp
    qed
    moreover have "decides target b e" if b: "b \<noteq> a" "decides rules b e" for b e
    proof -
      have "dget rules ''bash'' = dget mid ''bash''" using plain_tools_names [of "''bash''" a] by (auto simp: mid)
      with b(2) old have "bash_patterns b \<noteq> [] \<longrightarrow> (\<forall>p \<in> set (bash_patterns b). dget existing p = Some e)"
        by (auto simp: decides_iff)
      moreover have "p \<in> set (bash_patterns b) \<Longrightarrow> p \<notin> set (bash_patterns a)" for p
        using patterns_disjoint [OF b(1)] by blast
      moreover have "dget target t' = Some (Decision e)" if "t' \<in> set (plain_tools b)" for t'
        using keep_plain [OF b] that plain_tools_names [OF that] t(3) by simp
      ultimately show ?thesis using bash by (simp add: decides_iff new)
    qed
    moreover have "dget target ''*'' = dget rules ''*''" using t(3) star by simp
    moreover have "merge_action_rules rules (action_rules a) d = Inr target" using run t(1) False by simp
    moreover note that_target = calculation
    show ?thesis
      by (rule exI [of _ target], intro conjI allI impI) (rule that_target | assumption)+
  qed
qed

section \<open>What the layers compile to\<close>

definition effective :: "string list \<Rightarrow> permission_action \<times> permission_decision \<Rightarrow> permission_decision" where
  "effective authorized entry = (if action_name (fst entry) \<notin> set authorized then Deny else snd entry)"

definition merge_entry ::
  "string list \<Rightarrow> rules \<Rightarrow> permission_action \<times> permission_decision \<Rightarrow> exn + rules" where
  "merge_entry authorized rules entry =
     merge_action_rules rules (action_rules (fst entry)) (effective authorized entry)"

lemma merge_layers:
  assumes "shaped rules" "distinct (map fst entries)"
  shows "\<exists>target. foldr_result (merge_entry authorized) rules entries = Inr target
    \<and> shaped target \<and> dget target ''*'' = dget rules ''*''
    \<and> (\<forall>entry \<in> set entries. decides target (fst entry) (effective authorized entry))
    \<and> (\<forall>b e. b \<notin> fst ` set entries \<longrightarrow> decides rules b e \<longrightarrow> decides target b e)"
  using assms
proof (induction entries arbitrary: rules)
  case (Cons entry entries)
  from merge_action [OF Cons.prems(1), of "fst entry" "effective authorized entry"] obtain mid where mid:
    "merge_entry authorized rules entry = Inr mid" "shaped mid"
    "decides mid (fst entry) (effective authorized entry)"
    "\<forall>b e. b \<noteq> fst entry \<longrightarrow> decides rules b e \<longrightarrow> decides mid b e" "dget mid ''*'' = dget rules ''*''"
    unfolding merge_entry_def by blast
  from Cons.prems(2) have fresh: "fst entry \<notin> fst ` set entries" "distinct (map fst entries)" by simp_all
  from Cons.IH [OF mid(2) fresh(2)] obtain target where target:
    "foldr_result (merge_entry authorized) mid entries = Inr target" "shaped target"
    "dget target ''*'' = dget mid ''*''"
    "\<forall>entry \<in> set entries. decides target (fst entry) (effective authorized entry)"
    "\<forall>b e. b \<notin> fst ` set entries \<longrightarrow> decides mid b e \<longrightarrow> decides target b e" by blast
  have "decides target (fst entry) (effective authorized entry)"
    using target(5) fresh(1) mid(3) by blast
  moreover have "decides target b e" if "b \<notin> fst ` set (entry # entries)" "decides rules b e" for b e
    using that target(5) mid(4) by auto
  ultimately show ?case using mid(1,5) target(1-4) by (intro exI [of _ target]) auto
qed simp

lemma compile_policy_layers_decides:
  assumes "compile_policy_layers layers authorized = Inr rules"
  shows "layers \<noteq> []" "set authorized \<subseteq> set (map action_name PERMISSION_ACTIONS)" "shaped rules"
    "dget rules ''*'' = Some (Decision (pp_default (last layers)))"
    "dget (layer_decisions layers) a = Some d \<Longrightarrow> decides rules a (effective authorized (a, d))"
proof -
  define start where "start = [(''*'', Decision (pp_default (last layers)))]"
  have body: "(\<lambda>rules entry. merge_action_rules rules (action_rules (fst entry))
                (if action_name (fst entry) \<notin> set authorized then Deny else snd entry)) = merge_entry authorized"
    by (intro ext) (simp add: merge_entry_def effective_def)
  from assms have ok: "layers \<noteq> []"
    "filter (\<lambda>a. a \<notin> set (map action_name PERMISSION_ACTIONS)) (sort (remdups authorized)) = []"
    and fold: "foldr_result (merge_entry authorized) start (layer_decisions layers) = Inr rules"
    unfolding compile_policy_layers_def Let_def ok_dests body start_def [symmetric] not_not by blast+
  have start: "shaped start" by (auto simp: shaped_def start_def)
  have distinct: "distinct (map fst (layer_decisions layers))"
    using distinct_dict_of [of "concat (map pp_actions layers)"] by (simp add: layer_decisions_def)
  from merge_layers [OF start distinct, of authorized] fold have merged:
    "shaped rules" "dget rules ''*'' = dget start ''*''"
    "\<forall>entry \<in> set (layer_decisions layers). decides rules (fst entry) (effective authorized entry)"
    by auto
  show "layers \<noteq> []" by (rule ok(1))
  show "set authorized \<subseteq> set (map action_name PERMISSION_ACTIONS)"
    using ok(2) by (auto simp: filter_empty_conv)
  show "shaped rules" by (rule merged(1))
  show "dget rules ''*'' = Some (Decision (pp_default (last layers)))" using merged(2) by (simp add: start_def)
  assume "dget (layer_decisions layers) a = Some d"
  then have "(a, d) \<in> set (layer_decisions layers)" by (rule dget_in_set)
  with merged(3) show "decides rules a (effective authorized (a, d))" by fastforce
qed

section \<open>The effective policy of a role\<close>

definition native_tools :: "string list" where
  "native_tools = [''*'', ''bash'', ''edit'', ''write'', ''read'', ''glob'', ''grep'']"

lemma mcp_tools_not_native: "set (dkeys MCP_TOOL_CATALOG) \<inter> set native_tools = {}"
  by (simp add: MCP_TOOL_CATALOG_def native_tools_def)

lemma plain_tools_native: "t \<in> set (plain_tools a) \<Longrightarrow> t \<in> set native_tools"
  by (cases a) (auto simp: plain_tools_def native_tools_def)

lemma dget_update_rules:
  "distinct (dkeys new) \<Longrightarrow> dget (update_rules rules new) k = (case dget new k of None \<Rightarrow> dget rules k | Some v \<Rightarrow> Some v)"
proof -
  have "dget (foldl (\<lambda>d kv. dset (fst kv) (snd kv) d) rules new) k
      = (case map_of (rev new) k of None \<Rightarrow> dget rules k | Some v \<Rightarrow> Some v)"
    by (induction new arbitrary: rules) (auto simp: dget_dset map_add_def split: option.splits)
  moreover assume "distinct (dkeys new)"
  then have "map_of (rev new) = map_of new" by (metis dict_of_distinct dict_of_map_of)
  ultimately show ?thesis by (simp add: update_rules_def)
qed

lemma compile_mcp_permissions_rules:
  assumes "compile_mcp_permissions c role_key = Inr new"
  obtains tools where "resolve_role_mcp_tools c role_key = Inr tools" "distinct (dkeys new)"
    "\<forall>k. dget new k = (if k \<in> set tools then Some (Decision Allow) else None)"
proof -
  from assms obtain tools where tools: "resolve_role_mcp_tools c role_key = Inr tools"
    and new: "new = dict_of (map (\<lambda>tool. (tool, Decision Allow)) tools)"
    by (auto simp: compile_mcp_permissions_def bindr_Inr_iff)
  have "dget new k = (if k \<in> set tools then Some (Decision Allow) else None)" for k
    unfolding new dict_of_map_of
    by (induction tools rule: rev_induct) auto
  moreover have "distinct (dkeys new)" unfolding new by (rule distinct_dict_of)
  ultimately show thesis using that [OF tools] by blast
qed

text \<open>In a validated configuration every tool of a role is in the catalog.\<close>

lemma registry_tools_known:
  assumes "validate_mcp_registry m = []" "(role_key, role) \<in> set (all_roles m)" "tool \<in> set (role_mcp_tools role)"
  shows "dget MCP_TOOL_CATALOG tool \<noteq> None"
proof
  assume none: "dget MCP_TOOL_CATALOG tool = None"
  define tool_errors where "tool_errors = (\<lambda>tool. case dget MCP_TOOL_CATALOG tool of
        None \<Rightarrow> [Rule (''roles.'' @ role_key @ ''.mcp_tools tool '' @ repr_text tool
                    @ '' is not in the configured MCP tool catalog'')]
      | Some server_key \<Rightarrow> (case pc_mcp m of
           None \<Rightarrow> []
         | Some registry \<Rightarrow> (case dget (mcp_servers registry) server_key of
              None \<Rightarrow> [Rule (''roles.'' @ role_key @ ''.mcp_tools tool '' @ repr_text tool
                          @ '' does not reference a configured MCP server'')]
            | Some server \<Rightarrow> first_rule
                [(\<not> server_enabled server,
                    ''roles.'' @ role_key @ ''.mcp_tools tool '' @ repr_text tool
                    @ '' references disabled MCP server '' @ repr_text server_key)])))"
  from assms(1,2) have "\<forall>tool \<in> set (role_mcp_tools role). tool_errors tool = []"
    unfolding validate_mcp_registry_def first_error_Nil_iff tool_errors_def by fastforce
  with assms(3) have "tool_errors tool = []" by (rule bspec [rotated])
  with none show False by (simp add: tool_errors_def)
qed

lemma role_tools_in_catalog:
  assumes "validate_mcp_registry (cfg_model c) = []" "resolve_role_mcp_tools c role_key = Inr tools"
  shows "set tools \<subseteq> set (dkeys MCP_TOOL_CATALOG)"
proof -
  from assms(2) obtain role where role: "dget (all_roles (cfg_model c)) role_key = Some role"
    and tools: "tools = (if pc_mcp (cfg_model c) = None \<and> role_mcp_tools role = [] then DEFAULT_INHERITED_MCP_TOOLS
            else role_mcp_tools role)"
    by (auto simp: resolve_role_mcp_tools_def config_role_def bindr_Inr_iff split: option.splits)
  from registry_tools_known [OF assms(1) dget_in_set [OF role]]
  have "set (role_mcp_tools role) \<subseteq> set (dkeys MCP_TOOL_CATALOG)"
    by (auto simp: dget_None_iff subset_iff simp del: set_map)
  then show ?thesis by (simp add: tools DEFAULT_INHERITED_MCP_TOOLS_def)
qed

lemma compile_effective_policy_Inr:
  assumes "compile_effective_policy c repo_id role_key authorized = Inr rules"
  obtains layers base kind tools where
    "permission_policy_layers c repo_id role_key = Inr layers"
    "compile_policy_layers layers authorized = Inr base"
    "config_role_kind c role_key = Inr kind"
    "resolve_role_mcp_tools c role_key = Inr tools"
    "\<forall>k. dget rules k = (if k \<in> set tools then Some (Decision Allow) else dget (role_ceiling kind base) k)"
    "tools \<noteq> [] \<Longrightarrow> dget (role_ceiling kind base) ''*'' = Some (Decision Deny)"
proof -
  from assms obtain layers base kind new where parts:
    "permission_policy_layers c repo_id role_key = Inr layers"
    "compile_policy_layers layers authorized = Inr base" "config_role_kind c role_key = Inr kind"
    and new: "compile_mcp_permissions c role_key = Inr new"
    and guard: "\<not> (new \<noteq> [] \<and> dget (role_ceiling kind base) ''*'' \<noteq> Some (Decision Deny))"
    and rules: "rules = update_rules (role_ceiling kind base) new"
    unfolding compile_effective_policy_def ok_dests sum.inject by blast
  from compile_mcp_permissions_rules [OF new] obtain tools where tools:
    "resolve_role_mcp_tools c role_key = Inr tools" "distinct (dkeys new)"
    "\<forall>k. dget new k = (if k \<in> set tools then Some (Decision Allow) else None)" by blast
  have "dget rules k = (if k \<in> set tools then Some (Decision Allow) else dget (role_ceiling kind base) k)" for k
    using tools(2,3) by (simp add: rules dget_update_rules)
  moreover have "dget (role_ceiling kind base) ''*'' = Some (Decision Deny)" if "tools \<noteq> []"
  proof -
    from that tools(3) [rule_format, of "hd tools"] have "new \<noteq> []" by auto
    with guard show ?thesis by blast
  qed
  ultimately show thesis using that parts tools(1) by blast
qed

text \<open>A reviewer or supervisor never edits, and runs only the fixed diagnostic commands.\<close>

lemma reviewer_ceiling:
  assumes "compile_effective_policy c repo_id role_key authorized = Inr rules"
    and "config_role_kind c role_key = Inr kind" "kind \<noteq> Executor"
    and "validate_mcp_registry (cfg_model c) = []"
  shows "dget rules ''edit'' = Some (Decision Deny)" "dget rules ''write'' = Some (Decision Deny)"
    "dget rules ''bash'' = Some (Patterns read_only_diagnostic_bash_rules)"
proof -
  from assms(1) obtain layers base kind' tools where r:
    "config_role_kind c role_key = Inr kind'" "resolve_role_mcp_tools c role_key = Inr tools"
    "\<forall>k. dget rules k = (if k \<in> set tools then Some (Decision Allow) else dget (role_ceiling kind' base) k)"
    by (rule compile_effective_policy_Inr)
  from r(1) assms(2,3) have "kind' = Reviewer \<or> kind' = Supervisor" by (cases kind) simp_all
  moreover have "k \<notin> set tools" if "k \<in> set native_tools" for k
    using role_tools_in_catalog [OF assms(4) r(2)] mcp_tools_not_native that by blast
  then have "''edit'' \<notin> set tools" "''write'' \<notin> set tools" "''bash'' \<notin> set tools"
    by (simp_all add: native_tools_def)
  ultimately show "dget rules ''edit'' = Some (Decision Deny)" "dget rules ''write'' = Some (Decision Deny)"
    "dget rules ''bash'' = Some (Patterns read_only_diagnostic_bash_rules)"
    using r(3) by (simp_all add: role_ceiling_def dget_dset)
qed

lemma diagnostic_rules_allow:
  "dget read_only_diagnostic_bash_rules p = Some Allow \<longleftrightarrow> p \<in> set READ_ONLY_DIAGNOSTIC_COMMANDS"
  unfolding read_only_diagnostic_bash_rules_def dict_of_map_of
  by (auto simp: READ_ONLY_DIAGNOSTIC_COMMANDS_def)

text \<open>
  In a validated configuration the role-class layer defines every action, so an executor's rules deny
  every rule of every action the dispatch does not authorise.
\<close>

lemma layer_decisions_member:
  assumes "policy \<in> set layers" "a \<in> set (dkeys (pp_actions policy))"
  shows "\<exists>d. dget (layer_decisions layers) a = Some d"
proof -
  have "a \<in> fst ` set (rev (concat (map pp_actions layers)))" using assms by auto
  then show ?thesis unfolding layer_decisions_def dict_of_map_of
    by (metis map_of_eq_None_iff not_None_eq)
qed

lemma map_result_set: "map_result f xs = Inr ys \<Longrightarrow> x \<in> set xs \<Longrightarrow> f x = Inr y \<Longrightarrow> y \<in> set ys"
  by (induction xs arbitrary: ys) (auto simp: bindr_Inr_iff)

lemma layers_define_every_action:
  assumes "role_class_action_errors (cfg_model c) = []" "permission_policy_layers c repo_id role_key = Inr layers"
  shows "\<exists>d. dget (layer_decisions layers) a = Some d"
proof -
  from assms(2) obtain kind and repository :: repository_definition and role :: role_definition where
    layers: "map_result (\<lambda>policy_id. case dget (pps_policies (pc_permission_policies (cfg_model c))) policy_id of
               None \<Rightarrow> Inl (KeyError policy_id) | Some p \<Rightarrow> Inr p)
             [pps_global_policy (pc_permission_policies (cfg_model c)),
              pps_project_policy (pc_permission_policies (cfg_model c)),
              repo_permission_policy repository,
              role_class_policy (pps_role_class_policies (pc_permission_policies (cfg_model c))) kind,
              role_permission_policy role] = Inr layers"
    unfolding permission_policy_layers_def Let_def bindr_Inr_iff by (elim exE conjE) (rule that)
  from role_class_actions_complete [OF assms(1), of kind] obtain policy where
    policy: "dget (pps_policies (pc_permission_policies (cfg_model c)))
       (role_class_policy (pps_role_class_policies (pc_permission_policies (cfg_model c))) kind) = Some policy"
    "set (dkeys (pp_actions policy)) = set PERMISSION_ACTIONS" by blast
  have "policy \<in> set layers" by (rule map_result_set [OF layers, of "role_class_policy
     (pps_role_class_policies (pc_permission_policies (cfg_model c))) kind"]) (simp_all add: policy(1))
  moreover have "a \<in> set (dkeys (pp_actions policy))"
    unfolding policy(2) by (cases a) (simp_all add: PERMISSION_ACTIONS_def)
  ultimately show ?thesis by (rule layer_decisions_member)
qed

lemma executor_unauthorised_denied:
  assumes "compile_effective_policy c repo_id role_key authorized = Inr rules"
    and "config_role_kind c role_key = Inr Executor" "validate_references executable (cfg_model c) = []"
    and "action_name a \<notin> set authorized"
  shows "decides rules a Deny"
proof -
  from assms(1) obtain layers base kind tools where r:
    "permission_policy_layers c repo_id role_key = Inr layers" "compile_policy_layers layers authorized = Inr base"
    "config_role_kind c role_key = Inr kind" "resolve_role_mcp_tools c role_key = Inr tools"
    "\<forall>k. dget rules k = (if k \<in> set tools then Some (Decision Allow) else dget (role_ceiling kind base) k)"
    by (rule compile_effective_policy_Inr)
  note refs = validate_references_parts [OF assms(3)]
  from layers_define_every_action [OF refs(4) r(1)] obtain d where "dget (layer_decisions layers) a = Some d" by blast
  from compile_policy_layers_decides(5) [OF r(2) this] assms(4) have base: "decides base a Deny"
    by (simp add: effective_def)
  have ceiling: "role_ceiling kind base = base" using r(3) assms(2) by (simp add: role_ceiling_def)
  have same: "dget rules k = dget base k" if "k \<in> set (plain_tools a) \<or> k = ''bash''" for k
  proof -
    have "''bash'' \<in> set native_tools" by (simp add: native_tools_def)
    with that have "k \<in> set native_tools" by (elim disjE) (erule plain_tools_native, simp only:)
    with role_tools_in_catalog [OF refs(5) r(4)] mcp_tools_not_native have "k \<notin> set tools" by blast
    with r(5) ceiling show ?thesis by simp
  qed
  with base show ?thesis unfolding decides_iff by simp
qed

lemma role_scoped_subset:
  "role_scoped_authorized_actions actions kind = Inr scoped \<Longrightarrow>
   set scoped \<subseteq> (if kind = Executor then set actions \<inter> {''inspect'', ''modify''} else {''inspect''})"
  by (auto simp: role_scoped_authorized_actions_def split: role_kind.splits if_splits)

end
