(* ===== verification/Dispatching.thy ===== *)
theory Dispatching
  imports Step_Outcomes Permissions
begin

text \<open>
  Admission and preparation of one dispatch: \<open>SequentialWorkflow.prepare_dispatch\<close> of
  \<open>src/src/dispatcher/sequential.py\<close> up to the record it commits, with the lease keys of the step. What
  the file system and the repository answer (the plan sources still match, the repository coordinate) are
  arguments.
\<close>

section \<open>Admission\<close>

datatype admission =
    Gate_requested run_record
  | Admitted plan_step worker_kind "string list"

definition role_kind_of_worker :: "worker_kind \<Rightarrow> role_kind" where
  "role_kind_of_worker kind = (case kind of Worker_executor \<Rightarrow> Executor | Worker_reviewer \<Rightarrow> Reviewer)"

definition scheduling_guard :: "config \<Rightarrow> run_record \<Rightarrow> dispatch_request \<Rightarrow> exn + unit" where
  "scheduling_guard c r command =
     (if exe_scheduling (pc_execution (cfg_model c)) = Sequential_scheduling then
        raise_if (active_dispatches r \<noteq> [])
          (SequentialWorkflowError ''sequential workflow already has an unresolved dispatch'')
      else (case validate_batch c r [command] of
          Inl (SchedulingError messages) \<Rightarrow>
            Inl (SequentialWorkflowError (''dispatch is not schedulable: '' @ join_text ''; '' messages))
        | Inl e \<Rightarrow> Inl e
        | Inr _ \<Rightarrow> Inr ()))"

text \<open>
  \<open>sources\<close> is what \<open>verify_plan_sources\<close> answers; \<open>sessions\<close> is \<open>store.sessions_for_run\<close>. The steps
  after admission (repository inspection and permission compilation) do not change the run.
\<close>

definition admit_dispatch ::
  "env \<Rightarrow> config \<Rightarrow> exn + unit \<Rightarrow> (worker_kind \<Rightarrow> string \<Rightarrow> string option) \<Rightarrow> run_record \<Rightarrow> dispatch_request
   \<Rightarrow> exn + admission" where
  "admit_dispatch e c sources sessions r command =
     bindr (case sources of
              Inl (PlanError m) \<Rightarrow> Inl (SequentialWorkflowError (''cannot prepare worker dispatch: '' @ m))
            | x \<Rightarrow> x) (\<lambda>_.
     if r_state r \<noteq> Run_running then Inl (SequentialWorkflowError ''only RUNNING runs may prepare a dispatch'')
     else
       bindr (scheduling_guard c r command) (\<lambda>_.
       bindr (find_plan_step r (req_step_id command)) (\<lambda>step.
       bindr (case req_repo_id command of
                None \<Rightarrow> Inr ()
              | Some repo_id \<Rightarrow> raise_if (repo_id \<noteq> ps_repo_id step)
                  (SupervisorCommandRejectedError (''supervisor repository assertion '' @ repr_text repo_id
                     @ '' does not match step repository '' @ repr_text (ps_repo_id step)))) (\<lambda>_.
       bindr (dispatch_role_kind c (req_target_role command)) (\<lambda>kind.
       bindr (role_scoped_authorized_actions (auth_authorized_actions (ps_authorization step))
                (role_kind_of_worker kind)) (\<lambda>actions.
       bindr (record_step r (ps_step_id step)) (\<lambda>s.
       if \<not> s_operator_gate_resolved s then
         bindr (request_risk_gate_record e r step) (\<lambda>waiting. Inr (Gate_requested waiting))
       else
         bindr (ensure_budget_allows_dispatch c (sessions kind) r step (req_target_role command)
                  (req_session_mode command)) (\<lambda>_.
         bindr (validate_step_readiness c sessions r step kind (req_session_mode command) (req_target_role command)) (\<lambda>_.
           Inr (Admitted step kind actions))))))))))"

section \<open>The committed record\<close>

fun worker_kind_text :: "worker_kind \<Rightarrow> string" where
  "worker_kind_text Worker_executor = ''executor''"
| "worker_kind_text Worker_reviewer = ''reviewer''"

definition next_attempt :: "worker_kind \<Rightarrow> step_record \<Rightarrow> int" where
  "next_attempt kind s = (if kind = Worker_executor then s_executor_attempts s else s_reviewer_attempts s) + 1"

definition dispatch_target_state :: "worker_kind \<Rightarrow> step_status" where
  "dispatch_target_state kind = (if kind = Worker_executor then Step_executing else Step_reviewing)"

definition dispatched_step ::
  "step_record \<Rightarrow> worker_kind \<Rightarrow> transition_event \<Rightarrow> string \<Rightarrow> exn + step_record" where
  "dispatched_step s kind event dispatch_id =
     bindr (transition_step s (dispatch_target_state kind) event (Some dispatch_id) None None) (\<lambda>s'.
       Inr (s'\<lparr>s_executor_attempts := (if kind = Worker_executor then next_attempt kind s else s_executor_attempts s),
              s_reviewer_attempts := (if kind = Worker_reviewer then next_attempt kind s else s_reviewer_attempts s),
              s_reassignment_role_key := (if kind = Worker_executor then None else s_reassignment_role_key s)\<rparr>))"

definition prepared_dispatch ::
  "env \<Rightarrow> plan_step \<Rightarrow> worker_kind \<Rightarrow> string \<Rightarrow> string option \<Rightarrow> repository_coordinate \<Rightarrow> string \<Rightarrow> string \<Rightarrow> int
   \<Rightarrow> transition_event \<Rightarrow> dispatch_record" where
  "prepared_dispatch e step kind role_key group_id coordinate prompt policy_digest attempt event =
     \<lparr>d_dispatch_id = ''dispatch-'' @ env_uuid e 0, d_batch_id = None, d_workspace_group_id = group_id,
      d_process_id = None, d_process_host = None, d_process_started_at = None, d_process_create_time = None,
      d_cancel_requested = False, d_cancel_requested_at = None, d_failure_category = None,
      d_failure_detail = None, d_step_id = ps_step_id step, d_role_key = role_key, d_role_kind = kind,
      d_attempt = attempt,
      d_logical_session_key = worker_kind_text kind @ ''-'' @ role_key @ ''-'' @ ps_step_id step,
      d_runtime_session_id = None, d_state = Dispatch_prepared,
      d_intent = \<lparr>di_prompt_sha256 = sha256_text prompt, di_policy_digest = policy_digest,
        di_expected_result_kind = kind, di_repository = coordinate,
        di_idempotency_key = ''idempotency-'' @ env_uuid e 2\<rparr>,
      d_result_digest = None, d_forwarding_digest = None, d_last_event = event\<rparr>"

definition prepare_dispatch_record ::
  "env \<Rightarrow> run_record \<Rightarrow> plan_step \<Rightarrow> worker_kind \<Rightarrow> string \<Rightarrow> string option \<Rightarrow> repository_coordinate \<Rightarrow> string
   \<Rightarrow> json \<Rightarrow> exn + run_record \<times> dispatch_record" where
  "prepare_dispatch_record e r step kind role_key group_id coordinate prompt policy =
     bindr (record_step r (ps_step_id step)) (\<lambda>s.
     let dispatch_id = ''dispatch-'' @ env_uuid e 0 in
     bindr (make_event e 1 r Actor_dispatcher (''prepared '' @ worker_kind_text kind @ '' dispatch'') dispatch_id None) (\<lambda>event.
     bindr (checked dispatch_record_errors
       (prepared_dispatch e step kind role_key group_id coordinate prompt (digest_json policy)
          (next_attempt kind s) event)) (\<lambda>d.
     bindr (dispatched_step s kind event dispatch_id) (\<lambda>s'.
       Inr (r\<lparr>r_steps := dset (ps_step_id step) s' (r_steps r),
              r_dispatches := dset dispatch_id d (r_dispatches r),
              r_sequence := te_sequence event, r_updated_at := te_occurred_at event\<rparr>, d)))))"

definition lease_keys :: "plan_step \<Rightarrow> bool \<Rightarrow> string list" where
  "lease_keys step include_repository =
     (let keys = resource_keys (ps_repo_id step) (map lock_resource_id (ps_resource_locks step))
      in if include_repository then keys else filter (\<lambda>k. k \<noteq> ''repository:'' @ ps_repo_id step) keys)"

definition dispatch_lease_owner_id :: "string \<Rightarrow> string \<Rightarrow> string" where
  "dispatch_lease_owner_id owner_id dispatch_id = owner_id @ ''.dispatch.'' @ dispatch_id"

text \<open>The session-registry slot of a dispatch: its pool and its key.\<close>

definition session_registry_identity :: "dispatch_record \<Rightarrow> worker_kind \<times> string" where
  "session_registry_identity d =
     (d_role_kind d, if d_batch_id d \<noteq> None then d_logical_session_key d else d_role_key d)"

section \<open>What admission establishes\<close>

lemma active_dispatches_Nil:
  "active_dispatches r = [] \<longleftrightarrow> (\<forall>(i, d) \<in> set (r_dispatches r). d_state d \<notin> set ACTIVE_DISPATCH_STATES)"
  by (auto simp: active_dispatches_def filter_empty_conv)

lemma find_plan_step_Inr: "find_plan_step r i = Inr step \<Longrightarrow> step \<in> set (np_steps (r_plan r)) \<and> ps_step_id step = i"
  by (auto simp: find_plan_step_def find_Some_iff split: option.splits)

definition readiness_facts ::
  "config \<Rightarrow> run_record \<Rightarrow> plan_step \<Rightarrow> step_record \<Rightarrow> worker_kind \<Rightarrow> session_mode \<Rightarrow> string \<Rightarrow> bool" where
  "readiness_facts c r step s kind mode role_key \<longleftrightarrow>
     s_state s = expected_worker_state kind
     \<and> (kind = Worker_executor \<longrightarrow> s_executor_attempts s < rt_max_executor_attempts (ps_retry step)
          \<and> (\<forall>k. s_reassignment_role_key s = Some k \<longrightarrow> role_key = k))
     \<and> (kind = Worker_reviewer \<longrightarrow> s_reviewer_attempts s < rt_max_reviewer_attempts (ps_retry step)
          \<and> mode = Mode_new \<and> role_key \<notin> set (s_accepted_reviewer_role_keys s)
          \<and> (\<exists>o'. review_obligation_of c r step = Inr o' \<and> role_key \<in> set (cro_reviewer_role_keys o')))
     \<and> (\<forall>i \<in> set (ps_depends_on step). \<exists>t. dget (r_steps r) i = Some t \<and> is_done (s_state t))
     \<and> (\<forall>a \<in> set (ps_required_inputs step). \<forall>p. art_producer_step_id a = Some p \<longrightarrow>
          (\<exists>t. dget (r_steps r) p = Some t \<and> is_done (s_state t)))"

lemma record_step_Inr: "record_step r i = Inr s \<longleftrightarrow> dget (r_steps r) i = Some s"
  by (auto simp: record_step_def split: option.splits)

lemma check_executor_step_Inr:
  "check_executor_step step s role_key = Inr u \<longleftrightarrow>
     s_executor_attempts s < rt_max_executor_attempts (ps_retry step)
     \<and> (\<forall>k. s_reassignment_role_key s = Some k \<longrightarrow> role_key = k)"
  by (auto simp: check_executor_step_def not_le split: option.splits)

lemma check_reviewer_step_Inr:
  "check_reviewer_step c r step s mode role_key = Inr u \<longleftrightarrow>
     (\<exists>o'. review_obligation_of c r step = Inr o' \<and> role_key \<in> set (cro_reviewer_role_keys o')) \<and> mode = Mode_new
     \<and> role_key \<notin> set (s_accepted_reviewer_role_keys s)
     \<and> s_reviewer_attempts s < rt_max_reviewer_attempts (ps_retry step)"
  unfolding check_reviewer_step_def ok_dests raise_if_Inr not_not not_le by auto

lemma validate_step_readiness_facts:
  assumes "validate_step_readiness c sessions r step kind mode role_key = Inr u"
  obtains s where "dget (r_steps r) (ps_step_id step) = Some s" "readiness_facts c r step s kind mode role_key"
proof -
  from assms obtain s where s: "dget (r_steps r) (ps_step_id step) = Some s"
    and state: "s_state s = expected_worker_state kind"
    and kind: "(if kind = Worker_executor then check_executor_step step s role_key
              else check_reviewer_step c r step s mode role_key) = Inr ()"
    and deps: "\<forall>i \<in> set (ps_depends_on step). check_dependency r step i = Inr ()"
    and inputs: "\<forall>a \<in> set (ps_required_inputs step). check_producer r step a = Inr ()"
    unfolding validate_step_readiness_def ok_dests for_each_Inr record_step_Inr by auto
  have "\<exists>t. dget (r_steps r) i = Some t \<and> is_done (s_state t)" if "i \<in> set (ps_depends_on step)" for i
    using deps that by (auto simp: check_dependency_def bindr_Inr_iff record_step_Inr)
  moreover have "\<exists>t. dget (r_steps r) p = Some t \<and> is_done (s_state t)"
    if "a \<in> set (ps_required_inputs step)" "art_producer_step_id a = Some p" for a p
    using bspec [OF inputs that(1)] that(2) by (auto simp: check_producer_def bindr_Inr_iff record_step_Inr)
  moreover have "kind = Worker_executor \<or> kind = Worker_reviewer" by (cases kind) auto
  ultimately have "readiness_facts c r step s kind mode role_key"
    using state kind
    unfolding readiness_facts_def by (auto simp: check_executor_step_Inr check_reviewer_step_Inr)
  with s show thesis by (rule that)
qed

lemma admit_dispatch_Admitted:
  assumes "admit_dispatch e c sources sessions r command = Inr (Admitted step kind actions)"
  obtains s where "r_state r = Run_running" "step \<in> set (np_steps (r_plan r))" "ps_step_id step = req_step_id command"
    "exe_scheduling (pc_execution (cfg_model c)) = Sequential_scheduling \<Longrightarrow> active_dispatches r = []"
    "dispatch_role_kind c (req_target_role command) = Inr kind"
    "role_scoped_authorized_actions (auth_authorized_actions (ps_authorization step)) (role_kind_of_worker kind) = Inr actions"
    "dget (r_steps r) (ps_step_id step) = Some s" "s_operator_gate_resolved s"
    "readiness_facts c r step s kind (req_session_mode command) (req_target_role command)"
    "req_repo_id command \<noteq> None \<Longrightarrow> req_repo_id command = Some (ps_repo_id step)"
proof -
  from assms obtain s where run: "r_state r = Run_running"
    and guard: "scheduling_guard c r command = Inr ()"
    and step: "find_plan_step r (req_step_id command) = Inr step"
    and repo: "(case req_repo_id command of
                None \<Rightarrow> Inr ()
              | Some repo_id \<Rightarrow> raise_if (repo_id \<noteq> ps_repo_id step)
                  (SupervisorCommandRejectedError (''supervisor repository assertion '' @ repr_text repo_id
                     @ '' does not match step repository '' @ repr_text (ps_repo_id step)))) = Inr ()"
    and kind: "dispatch_role_kind c (req_target_role command) = Inr kind"
    and actions: "role_scoped_authorized_actions (auth_authorized_actions (ps_authorization step))
                (role_kind_of_worker kind) = Inr actions"
    and s: "record_step r (ps_step_id step) = Inr s" "s_operator_gate_resolved s"
    and ready: "validate_step_readiness c sessions r step kind (req_session_mode command) (req_target_role command) = Inr ()"
    unfolding admit_dispatch_def bindr_Inr_iff if_raise_Inr
    by (simp split: if_splits) (auto simp: bindr_Inr_iff)
  from validate_step_readiness_facts [OF ready] s(1)
  have facts: "readiness_facts c r step s kind (req_session_mode command) (req_target_role command)"
    by (metis record_step_Inr option.inject)
  have "active_dispatches r = []" if "exe_scheduling (pc_execution (cfg_model c)) = Sequential_scheduling"
    using guard that by (simp add: scheduling_guard_def)
  moreover have "req_repo_id command = Some (ps_repo_id step)" if "req_repo_id command \<noteq> None"
    using repo that by auto
  ultimately show thesis
    using that [OF run _ _ _ kind actions] find_plan_step_Inr [OF step] s facts
    unfolding record_step_Inr by blast
qed

end
