(* ===== verification/Operator_Answers.thy ===== *)
theory Operator_Answers
  imports Dispatching
begin

text \<open>
  Operator answers: \<open>StateStore.answer_operator_request\<close> of \<open>src/src/dispatcher/state_store.py\<close>, up to
  the transaction that persists the updated record. One definition per kind of request gives the updated
  record and the state the run resumes to.
\<close>

type_synonym answered = "exn + run_record \<times> run_status"

definition with_steps :: "run_record \<Rightarrow> (string, step_record) dict \<Rightarrow> transition_event \<Rightarrow> run_record" where
  "with_steps r steps event =
     r\<lparr>r_steps := steps, r_sequence := te_sequence event, r_updated_at := te_occurred_at event\<rparr>"

text \<open>The step a request names, or the corruption error that says it does not name one.\<close>

definition request_step :: "run_record \<Rightarrow> operator_request \<Rightarrow> string \<Rightarrow> exn + string \<times> step_record" where
  "request_step r q message =
     (case or_step_id q of
        None \<Rightarrow> Inl (StateStoreCorruptionError message)
      | Some step_id \<Rightarrow> (case dget (r_steps r) step_id of
            None \<Rightarrow> Inl (StateStoreCorruptionError message)
          | Some s \<Rightarrow> Inr (step_id, s)))"

definition invalid_answer :: "string \<Rightarrow> string \<Rightarrow> exn" where
  "invalid_answer kind answer = StateStoreCorruptionError (''invalid '' @ kind @ '' answer '' @ repr_text answer)"

definition answer_risk_gate :: "run_record \<Rightarrow> operator_request \<Rightarrow> string \<Rightarrow> transition_event \<Rightarrow> answered" where
  "answer_risk_gate r q answer event =
     bindr (request_step r q ''risk gate request does not reference a known step'') (\<lambda>(step_id, s).
       if answer = ''approve'' then
         if s_operator_gate_resolved s then Inl (StateStoreError ''risk gate was already resolved'')
         else Inr (with_steps r (dset step_id (s\<lparr>s_operator_gate_resolved := True, s_last_event := event\<rparr>) (r_steps r))
                     event, Run_running)
       else if answer = ''deny'' then Inr (r, Run_halted)
       else Inl (invalid_answer ''risk gate'' answer))"

definition answer_escalation :: "run_record \<Rightarrow> operator_request \<Rightarrow> string \<Rightarrow> transition_event \<Rightarrow> answered" where
  "answer_escalation r q answer event =
     bindr (request_step r q ''escalation request does not reference a known step'') (\<lambda>(step_id, s).
       if answer = ''reassign'' then
         if s_state s \<noteq> Step_blocked then Inl (StateStoreError ''escalation reassignment requires a blocked step'')
         else (case find (\<lambda>p. ps_step_id p = step_id) (np_steps (r_plan r)) of
             None \<Rightarrow> Inl StopIteration
           | Some plan_step \<Rightarrow>
               if rt_escalation_role_key (ps_retry plan_step) \<noteq> or_reassignment_role_key q then
                 Inl (StateStoreCorruptionError
                   ''escalation request reassignment role does not match the normalized plan'')
               else
                 bindr (transition_step s Step_ready event None None None) (\<lambda>reassigned.
                   Inr (with_steps r (dset step_id
                          (reassigned\<lparr>s_reassignment_role_key := or_reassignment_role_key q\<rparr>) (r_steps r)) event,
                        Run_running)))
       else if answer = ''halt'' then Inr (r, Run_halted)
       else Inl (invalid_answer ''escalation'' answer))"

definition answer_review_waiver ::
  "run_record \<Rightarrow> operator_request \<Rightarrow> string \<Rightarrow> transition_event \<Rightarrow> string \<Rightarrow> answered" where
  "answer_review_waiver r q answer event decision_id =
     (let message = ''review waiver request does not reference a compiled policy step'' in
      bindr (request_step r q message) (\<lambda>(step_id, s).
        (case r_policy r of
           None \<Rightarrow> Inl (StateStoreCorruptionError message)
         | Some policy \<Rightarrow> (case dget (pol_review_obligations policy) step_id of
               None \<Rightarrow> Inl (KeyError step_id)
             | Some ob \<Rightarrow>
                 if \<not> cro_waivable ob \<or> s_state s \<noteq> Step_review_required then
                   Inl (StateStoreError ''review waiver is not available for the current step state'')
                 else if answer = ''waive'' then
                   bindr (transition_step s Step_accepted event None None (Some decision_id)) (\<lambda>waived.
                     Inr (with_steps r (dset step_id waived (r_steps r)) event, Run_running))
                 else if answer = ''halt'' then Inr (r, Run_halted)
                 else Inl (invalid_answer ''review waiver'' answer)))))"

text \<open>The step goes back to work: a blocked step becomes ready, a step awaiting review stays there.\<close>

definition resume_step :: "step_record \<Rightarrow> transition_event \<Rightarrow> exn \<Rightarrow> exn + step_record" where
  "resume_step s event otherwise =
     (if s_state s = Step_blocked then transition_step s Step_ready event None None None
      else if s_state s = Step_review_required then Inr (s\<lparr>s_last_event := event\<rparr>)
      else Inl otherwise)"

definition answer_stall_recovery :: "run_record \<Rightarrow> operator_request \<Rightarrow> string \<Rightarrow> transition_event \<Rightarrow> answered" where
  "answer_stall_recovery r q answer event =
     bindr (request_step r q ''stall recovery request does not reference a known step'') (\<lambda>(step_id, s).
       if answer = ''retry'' then
         bindr (resume_step s event (StateStoreError ''stall retry requires a blocked or review-required step'')) (\<lambda>s'.
           Inr (with_steps r (dset step_id s' (r_steps r)) event, Run_running))
       else if answer = ''halt'' then Inr (r, Run_halted)
       else Inl (invalid_answer ''stall recovery'' answer))"

definition failed_or_abandoned :: "dispatch_record \<Rightarrow> bool" where
  "failed_or_abandoned d \<longleftrightarrow> d_state d = Dispatch_failed \<or> d_state d = Dispatch_abandoned"

definition answer_reconciliation :: "run_record \<Rightarrow> operator_request \<Rightarrow> string \<Rightarrow> transition_event \<Rightarrow> answered" where
  "answer_reconciliation r q answer event =
     (if answer = ''halt'' then Inr (r, Run_halted)
      else if answer = ''reconcile'' then
        bindr (request_step r q ''reconciliation request does not reference a known step'') (\<lambda>(step_id, s).
          (case dget (r_dispatches r) (or_context_ref q) of
             None \<Rightarrow> Inl (StateStoreCorruptionError ''reconciliation request does not reference a known dispatch'')
           | Some d \<Rightarrow>
               if d_step_id d \<noteq> step_id then
                 Inl (StateStoreCorruptionError ''reconciliation dispatch does not belong to the requested step'')
               else if \<not> failed_or_abandoned d then
                 Inl (StateStoreError ''reconciliation requires a failed or abandoned dispatch'')
               else
                 bindr (resume_step s event
                          (StateStoreError ''reconciliation requires a blocked or review-required step'')) (\<lambda>s'.
                   Inr (with_steps r (dset step_id s' (r_steps r)) event, Run_running))))
      else Inl (invalid_answer ''reconciliation'' answer))"

definition affected_step :: "run_record \<Rightarrow> batch_record \<Rightarrow> string \<Rightarrow> exn + string" where
  "affected_step r batch dispatch_id =
     (case dget (r_dispatches r) dispatch_id of
        None \<Rightarrow> Inl (StateStoreCorruptionError (''batch reconciliation references unknown dispatch '' @ dispatch_id))
      | Some d \<Rightarrow>
          if d_batch_id d \<noteq> Some (b_batch_id batch) then
            Inl (StateStoreCorruptionError (''dispatch '' @ dispatch_id @ '' does not belong to batch '' @ b_batch_id batch))
          else if \<not> failed_or_abandoned d then
            Inl (StateStoreError (''batch reconciliation dispatch '' @ dispatch_id @ '' is not failed or abandoned''))
          else if dget (r_steps r) (d_step_id d) = None then
            Inl (StateStoreCorruptionError (''batch reconciliation dispatch '' @ dispatch_id @ '' references an unknown step''))
          else Inr (d_step_id d))"

definition resume_batch_step ::
  "run_record \<Rightarrow> transition_event \<Rightarrow> (string, step_record) dict \<Rightarrow> string \<Rightarrow> exn + (string, step_record) dict" where
  "resume_batch_step r event steps step_id =
     bindr (record_step r step_id) (\<lambda>s.
     bindr (resume_step s event (StateStoreError (''batch reconciliation step '' @ step_id
              @ '' has incompatible state '' @ step_status_value (s_state s)))) (\<lambda>s'.
       Inr (dset step_id s' steps)))"

definition answer_batch_reconciliation ::
  "run_record \<Rightarrow> operator_request \<Rightarrow> string \<Rightarrow> transition_event \<Rightarrow> answered" where
  "answer_batch_reconciliation r q answer event =
     (if answer = ''halt'' then Inr (r, Run_halted)
      else if answer = ''reconcile'' then
        (case dget (r_batches r) (or_context_ref q) of
           None \<Rightarrow> Inl (StateStoreCorruptionError ''batch reconciliation request does not reference a known batch'')
         | Some batch \<Rightarrow>
             if b_state batch \<noteq> Batch_failed then Inl (StateStoreError ''batch reconciliation requires a failed batch'')
             else if b_failed_dispatch_ids batch = [] then
               Inl (StateStoreCorruptionError ''failed batch reconciliation requires failed dispatch IDs'')
             else
               bindr (map_result (affected_step r batch) (b_failed_dispatch_ids batch)) (\<lambda>affected.
               bindr (foldr_result (resume_batch_step r event) (r_steps r) (sort (remdups affected))) (\<lambda>steps.
                 Inr (with_steps r steps event, Run_running))))
      else Inl (invalid_answer ''batch reconciliation'' answer))"

definition answer_workspace_reconciliation :: "run_record \<Rightarrow> operator_request \<Rightarrow> string \<Rightarrow> answered" where
  "answer_workspace_reconciliation r q answer =
     (if answer = ''halt'' then Inr (r, Run_halted)
      else if answer = ''reconcile'' then
        (case dget (r_workspace_groups r) (or_context_ref q) of
           None \<Rightarrow> Inl (StateStoreCorruptionError
             ''workspace reconciliation request does not reference a known workspace group'')
         | Some g \<Rightarrow>
             if wg_state g \<noteq> Group_cleaned then
               Inl (StateStoreError ''workspace reconciliation requires durable cleanup to reach CLEANED'')
             else Inr (r, Run_running))
      else Inl (invalid_answer ''workspace reconciliation'' answer))"

definition apply_answer ::
  "run_record \<Rightarrow> operator_request \<Rightarrow> string \<Rightarrow> transition_event \<Rightarrow> string \<Rightarrow> answered" where
  "apply_answer r q answer event decision_id =
     (case or_kind q of
        Req_risk_gate \<Rightarrow> answer_risk_gate r q answer event
      | Req_escalation \<Rightarrow> answer_escalation r q answer event
      | Req_review_waiver \<Rightarrow> answer_review_waiver r q answer event decision_id
      | Req_stall_recovery \<Rightarrow> answer_stall_recovery r q answer event
      | Req_underspecification \<Rightarrow>
          if answer = ''answer'' then Inr (r, Run_running)
          else if answer = ''halt'' then Inr (r, Run_halted)
          else Inl (invalid_answer ''underspecification'' answer)
      | Req_budget \<Rightarrow>
          if answer \<noteq> ''halt'' then Inl (invalid_answer ''budget'' answer) else Inr (r, Run_halted)
      | Req_reconciliation \<Rightarrow> answer_reconciliation r q answer event
      | Req_batch_reconciliation \<Rightarrow> answer_batch_reconciliation r q answer event
      | Req_workspace_reconciliation \<Rightarrow> answer_workspace_reconciliation r q answer)"

text \<open>The record that answering produces; \<open>now\<close> is the clock at the expiry check.\<close>

definition answer_record ::
  "env \<Rightarrow> int \<Rightarrow> run_record \<Rightarrow> string \<Rightarrow> string \<Rightarrow> string \<Rightarrow> exn + run_record" where
  "answer_record e now r request_id answer actor_id =
     (case r_operator_request r of
        None \<Rightarrow> Inl (StateStoreError ''run is not waiting for an operator answer'')
      | Some q \<Rightarrow>
          if r_state r \<noteq> Run_waiting_operator then
            Inl (StateStoreError ''run is not waiting for an operator answer'')
          else if or_request_id q \<noteq> request_id then
            Inl (StateStoreError ''operator request ID does not match the active waiting request'')
          else if answer \<notin> set (or_allowed_answers q) then
            Inl (StateStoreError ''operator answer is not one of the allowed answers'')
          else if (case or_expires_at q of None \<Rightarrow> False | Some t \<Rightarrow> t \<le> now) then
            Inl (StateStoreError ''operator request has expired'')
          else if (case or_required_role q of None \<Rightarrow> False | Some role \<Rightarrow> actor_id \<noteq> role) then
            Inl (StateStoreError ''operator actor does not satisfy the required role'')
          else
            bindr (make_event e 0 r Actor_operator (''operator answered request '' @ request_id) (or_context_ref q) None) (\<lambda>event.
            bindr (apply_answer r q answer event (''decision-'' @ env_uuid e 1)) (\<lambda>(updated, target).
              transition_run updated target event None)))"

section \<open>What an answer may do\<close>

lemma answer_record_Inr:
  assumes "answer_record e now r request_id answer actor_id = Inr r'"
  obtains q event updated target where "r_operator_request r = Some q" "r_state r = Run_waiting_operator"
    "or_request_id q = request_id" "answer \<in> set (or_allowed_answers q)"
    "\<forall>t. or_expires_at q = Some t \<longrightarrow> now < t" "\<forall>role. or_required_role q = Some role \<longrightarrow> actor_id = role"
    "make_event e 0 r Actor_operator (''operator answered request '' @ request_id) (or_context_ref q) None = Inr event"
    "apply_answer r q answer event (''decision-'' @ env_uuid e 1) = Inr (updated, target)"
    "transition_run updated target event None = Inr r'"
proof -
  from assms obtain q where q: "r_operator_request r = Some q"
    by (auto simp: answer_record_def split: option.splits)
  from assms [unfolded answer_record_def q option.case ok_dests] obtain event x where
    parts: "r_state r = Run_waiting_operator" "or_request_id q = request_id" "answer \<in> set (or_allowed_answers q)"
      "\<not> (case or_expires_at q of None \<Rightarrow> False | Some t \<Rightarrow> t \<le> now)"
      "\<not> (case or_required_role q of None \<Rightarrow> False | Some role \<Rightarrow> actor_id \<noteq> role)"
      "make_event e 0 r Actor_operator (''operator answered request '' @ request_id) (or_context_ref q) None = Inr event"
      "apply_answer r q answer event (''decision-'' @ env_uuid e 1) = Inr x"
    and run: "(case x of (updated, target) \<Rightarrow> transition_run updated target event None) = Inr r'"
    by blast
  obtain updated target where x: "x = (updated, target)" by fastforce
  show thesis
    using that [OF q parts(1-3) _ _ parts(6) parts(7) [unfolded x] run [unfolded x prod.case]] parts(4,5)
    by (auto split: option.splits)
qed

lemma request_step_Inr:
  "request_step r q m = Inr (i, s) \<longleftrightarrow> or_step_id q = Some i \<and> dget (r_steps r) i = Some s"
  by (auto simp: request_step_def split: option.splits)

text \<open>Only running or halting: an operator cannot make a run succeed or fail.\<close>

lemma apply_answer_target:
  "apply_answer r q answer event decision = Inr (updated, target) \<Longrightarrow> target = Run_running \<or> target = Run_halted"
  unfolding apply_answer_def answer_risk_gate_def answer_escalation_def answer_review_waiver_def Let_def
    answer_stall_recovery_def answer_reconciliation_def answer_batch_reconciliation_def
    answer_workspace_reconciliation_def
  by (cases "or_kind q") (auto simp: bindr_Inr_iff split: prod.splits option.splits if_splits)

end
