(* ===== verification/Workflow_Machines.thy ===== *)
theory Workflow_Machines
  imports Workflow
begin

text \<open>
  The state machines of \<open>Workflow\<close>. The interface of a transition table is a locale; every table of
  the program is an interpretation of it, and the two tables without cycles of a second one that
  bounds the length of a history. The rest of the theory says what each transition function does:
  what a successful transition establishes, what it leaves alone, and that \<open>SUCCEEDED\<close> is reached
  exactly when no completion obligation is left.
\<close>

section \<open>Transition tables\<close>

locale transition_table =
  fixes transitions :: "'s \<Rightarrow> 's list"
  assumes no_self_loop: "s \<notin> set (transitions s)"
begin

definition step :: "'s \<Rightarrow> 's \<Rightarrow> bool" where
  "step s t \<longleftrightarrow> t \<in> set (transitions s)"

definition terminal :: "'s \<Rightarrow> bool" where
  "terminal s \<longleftrightarrow> transitions s = []"

definition reach :: "'s \<Rightarrow> 's \<Rightarrow> bool" where
  "reach = step\<^sup>*\<^sup>*"

fun history :: "'s \<Rightarrow> 's list \<Rightarrow> bool" where
  "history s [] = True"
| "history s (t # ts) = (step s t \<and> history t ts)"

lemma step_irrefl: "\<not> step s s"
  by (simp add: step_def no_self_loop)

lemma terminal_no_step: "terminal s \<Longrightarrow> \<not> step s t"
  by (simp add: terminal_def step_def)

lemma terminal_reach: "terminal s \<Longrightarrow> reach s t \<longleftrightarrow> t = s"
  unfolding reach_def by (auto elim: converse_rtranclpE dest: terminal_no_step)

lemma terminal_history: "terminal s \<Longrightarrow> history s ts \<longleftrightarrow> ts = []"
  by (cases ts) (auto dest: terminal_no_step)

lemma history_reach: "history s ts \<Longrightarrow> t \<in> set (s # ts) \<Longrightarrow> reach s t"
proof (induction ts arbitrary: s)
  case (Cons u ts)
  then show ?case unfolding reach_def by (auto intro: converse_rtranclp_into_rtranclp)
qed (simp add: reach_def)

lemma reach_history: "reach s t \<Longrightarrow> \<exists>ts. history s ts \<and> last (s # ts) = t"
  unfolding reach_def
proof (induction rule: converse_rtranclp_induct)
  case base
  show ?case by (intro exI [of _ "[]"]) simp
next
  case (step s u)
  then obtain ts where "history u ts" "last (u # ts) = t" by blast
  with step.hyps(1) show ?case by (intro exI [of _ "u # ts"]) simp
qed

lemma validate_transition_Inr: "validate_transition e v s t transitions = Inr () \<longleftrightarrow> step s t"
  by (simp add: validate_transition_def step_def)

end

locale acyclic_table = transition_table transitions for transitions :: "'s \<Rightarrow> 's list" +
  fixes rank :: "'s \<Rightarrow> nat"
  assumes rank_decreases: "t \<in> set (transitions s) \<Longrightarrow> rank t < rank s"
begin

lemma history_bounded: "history s ts \<Longrightarrow> length ts \<le> rank s"
proof (induction ts arbitrary: s)
  case (Cons t ts)
  then have "rank t < rank s" by (simp add: rank_decreases step_def)
  with Cons show ?case by fastforce
qed simp

lemma history_no_repeat: "history s ts \<Longrightarrow> distinct (s # ts)"
proof -
  have "history s ts \<Longrightarrow> t \<in> set ts \<Longrightarrow> rank t < rank s" for s ts t
  proof (induction ts arbitrary: s)
    case (Cons u ts)
    then have "rank u < rank s" by (simp add: rank_decreases step_def)
    with Cons show ?case by fastforce
  qed simp
  note below = this
  show "history s ts \<Longrightarrow> distinct (s # ts)"
  proof (induction ts arbitrary: s)
    case (Cons t ts)
    with below [of s "t # ts"] show ?case by fastforce
  qed simp
qed

end

fun dispatch_rank :: "dispatch_status \<Rightarrow> nat" where
  "dispatch_rank Dispatch_prepared = 4"
| "dispatch_rank Dispatch_running = 3"
| "dispatch_rank Dispatch_completed = 2"
| "dispatch_rank Dispatch_forwarded = 1"
| "dispatch_rank _ = 0"

fun batch_rank :: "batch_status \<Rightarrow> nat" where
  "batch_rank Batch_prepared = 2"
| "batch_rank Batch_running = 1"
| "batch_rank _ = 0"

interpretation run: transition_table run_transitions
  by unfold_locales (case_tac s; simp)

interpretation step: transition_table step_transitions
  by unfold_locales (case_tac s; simp)

interpretation dispatch: acyclic_table dispatch_transitions dispatch_rank
  by unfold_locales (case_tac s; auto)+

interpretation batch: acyclic_table batch_transitions batch_rank
  by unfold_locales (case_tac s; auto)+

interpretation group: transition_table workspace_group_transitions
  by unfold_locales (case_tac s; simp)

lemma run_terminal_iff:
  "run.terminal st \<longleftrightarrow> st \<in> {Run_halted, Run_failed, Run_succeeded, Run_cancelled}"
  by (cases st) (simp_all add: run.terminal_def)

lemma step_terminal_iff: "step.terminal st \<longleftrightarrow> st \<in> {Step_accepted, Step_waived, Step_failed}"
  by (cases st) (simp_all add: step.terminal_def)

lemma dispatch_active_iff:
  "st \<in> set ACTIVE_DISPATCH_STATES \<longleftrightarrow> \<not> dispatch.terminal st"
  by (cases st) (simp_all add: ACTIVE_DISPATCH_STATES_def dispatch.terminal_def)

lemma terminal_exit_code_iff: "(\<exists>n. terminal_exit_code st = Inr n) \<longleftrightarrow> run.terminal st"
  by (cases st) (simp_all add: run.terminal_def)

lemma acknowledged_history:
  assumes "dispatch.history Dispatch_prepared ts" "last (Dispatch_prepared # ts) = Dispatch_acknowledged"
  shows "ts = [Dispatch_running, Dispatch_completed, Dispatch_forwarded, Dispatch_acknowledged]"
proof -
  have ends: "dispatch.history Dispatch_acknowledged us \<Longrightarrow> us = []"
    "dispatch.history Dispatch_failed us \<Longrightarrow> us = []" "dispatch.history Dispatch_abandoned us \<Longrightarrow> us = []" for us
    by (cases us; simp add: dispatch.step_def)+
  from assms show ?thesis
    by (cases ts; cases "tl ts"; cases "tl (tl ts)"; cases "tl (tl (tl ts))")
      (auto simp: dispatch.step_def dest!: ends split: if_splits)
qed

section \<open>Steps\<close>

lemma transition_step_Inr:
  "transition_step s target event active waiver review_waiver = Inr s' \<longleftrightarrow>
     ((s_state s = Step_review_required \<and> target = Step_accepted \<and> review_waiver \<noteq> None)
        \<or> step.step (s_state s) target)
     \<and> (target = Step_waived \<longleftrightarrow> waiver \<noteq> None)
     \<and> (review_waiver \<noteq> None \<longrightarrow> target = Step_accepted)
     \<and> s' = s\<lparr>s_state := target, s_active_dispatch_id := active, s_waiver_decision_ref := waiver,
              s_review_waiver_decision_ref := review_waiver, s_reassignment_role_key := None,
              s_last_event := event\<rparr>
     \<and> step_record_errors s' = []"
  unfolding transition_step_def Let_def bindr_Inr_iff
  by (auto simp: step.validate_transition_Inr split: if_splits)

lemma transition_step_frame [frame_simps]:
  assumes "transition_step s target event active waiver review_waiver = Inr s'"
  shows "s_step_id s' = s_step_id s" "s_executor_attempts s' = s_executor_attempts s"
    "s_reviewer_attempts s' = s_reviewer_attempts s" "s_rework_rounds s' = s_rework_rounds s"
    "s_review_acceptances s' = s_review_acceptances s"
    "s_accepted_artifact_ids s' = s_accepted_artifact_ids s"
    "s_operator_gate_resolved s' = s_operator_gate_resolved s" "s_stalls s' = s_stalls s"
    "s_result_digests s' = s_result_digests s"
  using assms by (simp_all add: transition_step_Inr)

lemma step_final:
  assumes "transition_step s target event active waiver review_waiver = Inr s'"
  shows "\<not> step.terminal (s_state s)"
  using assms by (auto simp: transition_step_Inr step.terminal_def step.step_def)

lemma accepted_sources:
  "step.step st Step_accepted \<longleftrightarrow> st \<in> {Step_executed, Step_reviewing}"
  by (cases st) (simp_all add: step.step_def)

text \<open>A step history: records linked by successful transitions.\<close>

inductive step_evolves :: "step_record \<Rightarrow> step_record \<Rightarrow> bool" where
  evolve: "transition_step s target event active waiver review_waiver = Inr s' \<Longrightarrow> step_evolves s s'"

inductive_cases step_evolvesE: "step_evolves s s'"

lemma step_evolves_gate:
  "step_evolves\<^sup>*\<^sup>* s s' \<Longrightarrow> s_operator_gate_resolved s' = s_operator_gate_resolved s \<and> s_step_id s' = s_step_id s"
  by (induction rule: rtranclp_induct) (auto elim!: step_evolvesE simp: transition_step_frame)

lemma step_evolves_terminal:
  assumes "step_evolves\<^sup>*\<^sup>* s s'" "step.terminal (s_state s)"
  shows "s' = s"
  using assms by (induction rule: converse_rtranclp_induct) (auto elim!: step_evolvesE dest: step_final)

section \<open>Dispatches\<close>

lemma transition_dispatch_Inr:
  "transition_dispatch d target event u = Inr d' \<longleftrightarrow>
     dispatch.step (d_state d) target
     \<and> (target = Dispatch_running \<longrightarrow> du_process_create_time u \<noteq> None)
     \<and> d' = updated_dispatch d target event u \<and> dispatch_record_errors d' = []"
proof -
  have "transition_dispatch d target event u = Inr d' \<longleftrightarrow>
      dispatch.step (d_state d) target \<and> \<not> (target = Dispatch_running \<and> du_process_create_time u = None)
      \<and> checked dispatch_record_errors (updated_dispatch d target event u) = Inr d'"
    unfolding transition_dispatch_def bindr_Inr_iff
    by (cases "checked dispatch_record_errors (updated_dispatch d target event u)")
      (simp_all add: dispatch.validate_transition_Inr del: checked_Inr_iff)
  then show ?thesis unfolding checked_Inr_iff by metis
qed

lemma transition_dispatch_frame [frame_simps]:
  assumes "transition_dispatch d target event u = Inr d'"
  shows "d_dispatch_id d' = d_dispatch_id d" "d_step_id d' = d_step_id d" "d_role_key d' = d_role_key d"
    "d_attempt d' = d_attempt d" "d_intent d' = d_intent d" "d_batch_id d' = d_batch_id d"
    "d_workspace_group_id d' = d_workspace_group_id d" "d_state d' = target"
  using assms by (simp_all add: transition_dispatch_Inr updated_dispatch_def)

text \<open>What a dispatch record holds in each state, beyond its own validator.\<close>

definition dispatch_evidence :: "dispatch_record \<Rightarrow> bool" where
  "dispatch_evidence d \<longleftrightarrow>
     (d_state d \<in> {Dispatch_running, Dispatch_completed, Dispatch_failed, Dispatch_forwarded, Dispatch_acknowledged}
        \<longrightarrow> d_process_create_time d \<noteq> None)
     \<and> (has_result (d_state d) \<longrightarrow> d_runtime_session_id d \<noteq> None \<and> d_result_digest d \<noteq> None)
     \<and> (d_state d \<in> {Dispatch_forwarded, Dispatch_acknowledged} \<longrightarrow> d_forwarding_digest d \<noteq> None)"

lemma or_keep_not_None: "or_keep new old \<noteq> None \<longleftrightarrow> new \<noteq> None \<or> old \<noteq> None"
  by (cases new) auto

lemma dispatch_record_errors_rules:
  assumes "dispatch_record_errors d = []"
  shows "has_result (d_state d) \<Longrightarrow> d_runtime_session_id d \<noteq> None"
    "has_result (d_state d) \<Longrightarrow> d_result_digest d \<noteq> None"
    "d_state d \<in> {Dispatch_forwarded, Dispatch_acknowledged} \<Longrightarrow> d_forwarding_digest d \<noteq> None"
    "d_state d = Dispatch_prepared \<Longrightarrow> d_runtime_session_id d = None"
  using assms by (auto simp: dispatch_record_errors_def validate_state_data_def)

lemma transition_dispatch_evidence:
  assumes "transition_dispatch d target event u = Inr d'" "dispatch_evidence d"
  shows "dispatch_evidence d'"
proof -
  from assms(1) have step: "dispatch.step (d_state d) target" and valid: "dispatch_record_errors d' = []"
    and time: "target = Dispatch_running \<longrightarrow> du_process_create_time u \<noteq> None"
    and d': "d' = updated_dispatch d target event u"
    unfolding transition_dispatch_Inr by blast+
  have state: "d_state d' = target"
    and create: "d_process_create_time d' \<noteq> None \<longleftrightarrow> du_process_create_time u \<noteq> None \<or> d_process_create_time d \<noteq> None"
    unfolding d' by (simp_all add: updated_dispatch_def or_keep_not_None [simplified])
  have "target \<in> {Dispatch_running, Dispatch_completed, Dispatch_failed, Dispatch_forwarded, Dispatch_acknowledged}
      \<Longrightarrow> d_process_create_time d' \<noteq> None"
    using step time create assms(2)
    by (cases "d_state d") (auto simp: dispatch.step_def dispatch_evidence_def)
  with dispatch_record_errors_rules [OF valid] state show ?thesis
    unfolding dispatch_evidence_def by blast
qed

inductive dispatch_evolves :: "dispatch_record \<Rightarrow> dispatch_record \<Rightarrow> bool" where
  evolve_dispatch: "transition_dispatch d target event u = Inr d' \<Longrightarrow> dispatch_evolves d d'"

inductive_cases dispatch_evolvesE: "dispatch_evolves d d'"

lemma dispatch_evolves_evidence:
  "dispatch_evolves\<^sup>*\<^sup>* d d' \<Longrightarrow> dispatch_evidence d \<Longrightarrow> dispatch_evidence d'"
  by (induction rule: rtranclp_induct) (auto elim!: dispatch_evolvesE intro: transition_dispatch_evidence)

lemma dispatch_evolves_states:
  "dispatch_evolves\<^sup>*\<^sup>* d d' \<Longrightarrow> dispatch.reach (d_state d) (d_state d')"
proof (induction rule: rtranclp_induct)
  case base
  show ?case by (simp add: dispatch.reach_def)
next
  case (step e f)
  then show ?case
    unfolding dispatch.reach_def
    by (auto elim!: dispatch_evolvesE simp: transition_dispatch_Inr updated_dispatch_def)
qed

lemma dispatch_evolves_identity:
  "dispatch_evolves\<^sup>*\<^sup>* d d' \<Longrightarrow> d_dispatch_id d' = d_dispatch_id d \<and> d_intent d' = d_intent d \<and> d_attempt d' = d_attempt d"
  by (induction rule: rtranclp_induct) (auto elim!: dispatch_evolvesE simp: transition_dispatch_frame)

section \<open>Runs\<close>

lemma transition_run_Inr:
  "transition_run r target event request = Inr r' \<longleftrightarrow>
     run.step (r_state r) target
     \<and> (target = Run_waiting_operator \<longleftrightarrow> request \<noteq> None)
     \<and> (target = Run_succeeded \<longrightarrow> completion_obligations r = Inr [])
     \<and> r' = r\<lparr>r_state := target, r_sequence := te_sequence event, r_operator_request := request,
              r_updated_at := te_occurred_at event\<rparr>
     \<and> run_record_errors r' = []"
  unfolding transition_run_def bindr_Inr_iff
  by (auto simp: run.validate_transition_Inr bindr_Inr_iff split: if_splits)

lemma transition_run_frame [frame_simps]:
  assumes "transition_run r target event request = Inr r'"
  shows "r_plan r' = r_plan r" "r_steps r' = r_steps r" "r_dispatches r' = r_dispatches r"
    "r_policy r' = r_policy r" "r_run_id r' = r_run_id r" "r_plan_approval r' = r_plan_approval r"
  using assms by (simp_all add: transition_run_Inr)

text \<open>What it means that a run is complete, read off the record.\<close>

definition step_complete :: "run_record \<Rightarrow> plan_step \<Rightarrow> step_record \<Rightarrow> bool" where
  "step_complete r p s \<longleftrightarrow>
     is_done (s_state s)
     \<and> (\<forall>d \<in> set (ps_depends_on p). \<exists>t. dget (r_steps r) d = Some t \<and> is_done (s_state t))
     \<and> (s_state s = Step_accepted \<longrightarrow>
          set (map ev_artifact_id (ps_evidence_requirements p)) \<subseteq> set (s_accepted_artifact_ids s)
          \<and> (s_review_waiver_decision_ref s \<noteq> None
             \<or> (\<exists>n. required_acceptances_of r p (ps_step_id p) = Inr n \<and> n \<le> s_review_acceptances s))
          \<and> s_operator_gate_resolved s)"

definition run_complete :: "run_record \<Rightarrow> bool" where
  "run_complete r \<longleftrightarrow>
     (\<forall>(step_id, s) \<in> set (r_steps r). \<exists>p. dget (step_map_of (np_steps (r_plan r))) step_id = Some p
        \<and> (\<exists>n. required_acceptances_of r p step_id = Inr n) \<and> step_complete r p s)
     \<and> (\<forall>(i, d) \<in> set (r_dispatches r). dispatch.terminal (d_state d))
     \<and> r_operator_request r = None"

lemma dependency_obligations_Nil:
  "dependency_obligations steps step_id ds = Inr [] \<longleftrightarrow>
     (\<forall>d \<in> set ds. \<exists>t. dget steps d = Some t \<and> is_done (s_state t))"
  by (induction ds) (auto simp: bindr_Inr_iff split: option.splits)

lemma filter_missing_Nil:
  "filter (\<lambda>a. a \<notin> A) (sort (remdups xs)) = [] \<longleftrightarrow> set xs \<subseteq> A"
  by (auto simp: filter_empty_conv)

lemma accepted_obligations_Nil:
  "accepted_obligations p s step_id n = [] \<longleftrightarrow>
     set (map ev_artifact_id (ps_evidence_requirements p)) \<subseteq> set (s_accepted_artifact_ids s)
     \<and> (s_review_waiver_decision_ref s \<noteq> None \<or> n \<le> s_review_acceptances s)
     \<and> s_operator_gate_resolved s"
  unfolding accepted_obligations_def Let_def
  by (simp add: filter_missing_Nil filter_empty_conv subset_iff) auto

lemma map_result_Nils:
  "(\<exists>ys. map_result f xs = Inr ys \<and> concat ys = []) \<longleftrightarrow> (\<forall>x \<in> set xs. f x = Inr [])"
proof (induction xs)
  case (Cons x xs)
  show ?case
  proof (cases "f x")
    case (Inr y)
    then show ?thesis using Cons by (auto simp: bindr_Inr_iff)
  qed auto
qed simp

lemma step_obligations_Nil:
  assumes "dget (step_map_of (np_steps (r_plan r))) step_id = Some p" "ps_step_id p = step_id"
  shows "step_obligations r (step_map_of (np_steps (r_plan r))) (step_id, s) = Inr [] \<longleftrightarrow>
    (\<exists>n. required_acceptances_of r p step_id = Inr n) \<and> step_complete r p s"
proof (cases "required_acceptances_of r p step_id")
  case (Inr n)
  then show ?thesis
    using assms
    by (cases "is_done (s_state s)"; cases "s_state s = Step_accepted")
      (auto simp: step_obligations_def step_complete_def bindr_Inr_iff accepted_obligations_Nil
        dependency_obligations_Nil obligation_def)
qed (use assms in \<open>simp add: step_obligations_def\<close>)

lemma step_map_id: "dget (step_map_of steps) i = Some p \<Longrightarrow> ps_step_id p = i"
  by (auto simp: step_map_of_def dict_of_map_of dest!: map_of_SomeD)

theorem completion_obligations_Nil_iff: "completion_obligations r = Inr [] \<longleftrightarrow> run_complete r"
proof -
  have "completion_obligations r = Inr [] \<longleftrightarrow>
      (\<forall>x \<in> set (r_steps r). step_obligations r (step_map_of (np_steps (r_plan r))) x = Inr [])
      \<and> dispatch_obligations r = [] \<and> request_obligations r = []"
    unfolding completion_obligations_def bindr_Inr_iff map_result_Nils [symmetric] by auto
  moreover have "step_obligations r (step_map_of (np_steps (r_plan r))) (i, s) = Inr [] \<longleftrightarrow>
      (\<exists>p. dget (step_map_of (np_steps (r_plan r))) i = Some p
         \<and> (\<exists>n. required_acceptances_of r p i = Inr n) \<and> step_complete r p s)" for i s
  proof (cases "dget (step_map_of (np_steps (r_plan r))) i")
    case None
    then show ?thesis by (simp add: step_obligations_def)
  next
    case (Some p)
    from step_obligations_Nil [OF this step_map_id [OF this], of s] Some show ?thesis by simp
  qed
  moreover have "dispatch_obligations r = [] \<longleftrightarrow> (\<forall>(i, d) \<in> set (r_dispatches r). dispatch.terminal (d_state d))"
    by (auto simp: dispatch_obligations_def filter_empty_conv dispatch_active_iff)
  moreover have "request_obligations r = [] \<longleftrightarrow> r_operator_request r = None"
    by (simp add: request_obligations_def split: option.split)
  ultimately show ?thesis unfolding run_complete_def by fastforce
qed

end
