(* ===== verification/Step_Life.thy ===== *)
theory Step_Life
  imports Dispatching Workflow_Machines
begin

text \<open>
  The life of one step: the operations of \<open>Step_Outcomes\<close> and \<open>Dispatching\<close> as the rules of a step
  relation, and the invariants of every step a run can reach. The votes of a step are those of different
  reviewers, its attempts stay within the plan's retry policy, and a step is accepted only with the votes
  its compiled obligation asks for and with every evidence artifact of the plan.
\<close>

section \<open>What each outcome does\<close>

lemma transition_step_state:
  "transition_step s target event a w rw = Inr s' \<Longrightarrow> s_state s' = target"
  by (simp add: transition_step_Inr)

lemma transition_step_event:
  "transition_step s target event a w rw = Inr s' \<Longrightarrow> s_last_event s' = event"
  by (simp add: transition_step_Inr)

text \<open>The fields that count votes and attempts.\<close>

definition same_counts :: "step_record \<Rightarrow> step_record \<Rightarrow> bool" where
  "same_counts s t \<longleftrightarrow>
     s_executor_attempts t = s_executor_attempts s \<and> s_reviewer_attempts t = s_reviewer_attempts s
     \<and> s_review_acceptances t = s_review_acceptances s
     \<and> s_accepted_reviewer_role_keys t = s_accepted_reviewer_role_keys s
     \<and> s_operator_gate_resolved t = s_operator_gate_resolved s \<and> s_step_id t = s_step_id s"

lemma same_counts_refl [simp]: "same_counts s s"
  by (simp add: same_counts_def)

lemma same_counts_trans: "same_counts s t \<Longrightarrow> same_counts t u \<Longrightarrow> same_counts s u"
  by (simp add: same_counts_def)

lemma transition_step_counts:
  "transition_step s target event a w rw = Inr s' \<Longrightarrow> same_counts s s'"
  by (simp add: transition_step_Inr same_counts_def)

lemma retry_or_terminal_step_Inr:
  assumes "retry_or_terminal_step e n r step blocked policy corr = Inr s'"
  shows "same_counts blocked s'"
    "s_state s' = Step_ready \<and> policy = On_retry \<and> s_executor_attempts blocked < rt_max_executor_attempts (ps_retry step)
     \<or> s' = blocked \<and> policy = On_escalate \<or> s_state s' = Step_failed"
  using assms unfolding retry_or_terminal_step_def
  by (auto simp: bindr_Inr_iff transition_step_counts transition_step_state split: if_splits)

lemma executor_completed_outcome_Inr:
  assumes "executor_completed_outcome e n c r step s d result ev = Inr (s', escalate)"
  obtains obligation where "review_obligation_of c r step = Inr obligation" "\<not> escalate" "s_review_waiver_decision_ref s' = None"
    "s_state s' = (if cro_required obligation then Step_review_required else Step_accepted)"
    "s_accepted_artifact_ids s' = map ar_artifact_id (er_evidence result)"
    "s_review_acceptances s' = 0" "s_accepted_reviewer_role_keys s' = []"
    "s_executor_attempts s' = s_executor_attempts s" "s_reviewer_attempts s' = s_reviewer_attempts s"
    "s_operator_gate_resolved s' = s_operator_gate_resolved s" "s_step_id s' = s_step_id s"
proof -
  from assms obtain executed obligation final s2 where
    t1: "transition_step s Step_executed ev None None None = Inr executed"
    and o': "review_obligation_of c r step = Inr obligation"
    and t2: "transition_step executed (if cro_required obligation then Step_review_required else Step_accepted)
       final None None None = Inr s2"
    and s': "(s2\<lparr>s_accepted_artifact_ids := map ar_artifact_id (er_evidence result), s_review_acceptances := 0,
              s_accepted_reviewer_role_keys := []\<rparr>, False) = (s', escalate)"
    unfolding executor_completed_outcome_def Let_def ok_dests sum.inject by blast
  from s' have eq: "s' = s2\<lparr>s_accepted_artifact_ids := map ar_artifact_id (er_evidence result),
       s_review_acceptances := 0, s_accepted_reviewer_role_keys := []\<rparr>" "\<not> escalate" by auto
  from same_counts_trans [OF transition_step_counts [OF t1] transition_step_counts [OF t2]]
  show thesis
    using that [OF o' eq(2)] transition_step_state [OF t2] t2
    unfolding eq(1) same_counts_def by (simp add: transition_step_Inr)
qed

lemma executor_step_outcome_other:
  assumes "executor_step_outcome e n c r step s d result ev = Inr (s', escalate)" "er_outcome result \<noteq> Outcome_completed"
  shows "same_counts s s'" "s_state s' \<in> {Step_ready, Step_blocked, Step_failed}"
    "escalate \<Longrightarrow> s_state s' = Step_blocked"
proof -
  have blocked: "same_counts s s' \<and> s_state s' \<in> {Step_ready, Step_blocked, Step_failed}
      \<and> (policy = On_escalate \<longrightarrow> s_state s' = Step_blocked)"
    if "transition_step s Step_blocked ev None None None = Inr b"
      "retry_or_terminal_step e n r step b policy corr = Inr s'" for b policy corr
  proof -
    note t = transition_step_counts [OF that(1)] transition_step_state [OF that(1)]
    from retry_or_terminal_step_Inr [OF that(2)] t(2) have "s_state s' \<in> {Step_ready, Step_blocked, Step_failed}" by auto
    moreover have "policy = On_escalate \<longrightarrow> s_state s' = Step_blocked"
      using that(2) t(2) by (auto simp: retry_or_terminal_step_def)
    ultimately show ?thesis using same_counts_trans [OF t(1) retry_or_terminal_step_Inr(1) [OF that(2)]] by blast
  qed
  have direct: "same_counts s s' \<and> s_state s' = target" if "transition_step s target ev None None None = Inr s'" for target
    using transition_step_counts [OF that] transition_step_state [OF that] by blast
  show "same_counts s s'" "s_state s' \<in> {Step_ready, Step_blocked, Step_failed}"
    "escalate \<Longrightarrow> s_state s' = Step_blocked"
    using assms blocked direct
    by (auto simp: executor_step_outcome_def Let_def bindr_Inr_iff split: executor_outcome.splits if_splits)
qed

lemma reviewer_accepted_outcome_Inr:
  assumes "reviewer_accepted_outcome c r step s d ev = Inr (s', escalate)"
  obtains obligation where "review_obligation_of c r step = Inr obligation" "\<not> escalate"
    "s_state s' = (if cro_required_acceptances obligation \<le> s_review_acceptances s + 1 then Step_accepted else Step_review_required)"
    "s_review_acceptances s' = s_review_acceptances s + 1"
    "s_accepted_reviewer_role_keys s' = s_accepted_reviewer_role_keys s @ [d_role_key d]"
    "s_accepted_artifact_ids s' = (if s_state s' = Step_accepted then map ev_artifact_id (ps_evidence_requirements step) else [])"
    "s_executor_attempts s' = s_executor_attempts s" "s_reviewer_attempts s' = s_reviewer_attempts s"
    "s_operator_gate_resolved s' = s_operator_gate_resolved s" "s_step_id s' = s_step_id s"
proof -
  from assms obtain obligation s2 where o': "review_obligation_of c r step = Inr obligation"
    and t: "transition_step s (if cro_required_acceptances obligation \<le> s_review_acceptances s + 1
       then Step_accepted else Step_review_required) ev None None None = Inr s2"
    and s': "s' = s2\<lparr>s_review_acceptances := s_review_acceptances s + 1,
        s_accepted_reviewer_role_keys := s_accepted_reviewer_role_keys s @ [d_role_key d],
        s_accepted_artifact_ids := (if (if cro_required_acceptances obligation \<le> s_review_acceptances s + 1
             then Step_accepted else Step_review_required) = Step_accepted
           then map ev_artifact_id (ps_evidence_requirements step) else [])\<rparr>" "\<not> escalate"
    unfolding reviewer_accepted_outcome_def Let_def ok_dests sum.inject prod.inject by blast
  show thesis
    using that [OF o' s'(2)] transition_step_state [OF t] transition_step_counts [OF t]
    unfolding s'(1) same_counts_def by (simp split: if_splits)
qed

lemma reviewer_step_outcome_other:
  assumes "reviewer_step_outcome e n c r step s d result ev = Inr (s', escalate)" "rr_verdict result \<noteq> Verdict_accepted"
  shows "same_counts s s'" "s_state s' \<in> {Step_review_required, Step_ready, Step_blocked, Step_failed}"
proof -
  have two: "same_counts s s' \<and> s_state s' = target"
    if "transition_step s mid ev None None None = Inr b" "same_counts b b'"
      "transition_step b' target ev' None None None = Inr s'" for mid b b' target ev'
    using same_counts_trans [OF same_counts_trans [OF transition_step_counts [OF that(1)] that(2)]
        transition_step_counts [OF that(3)]] transition_step_state [OF that(3)] by blast
  have rework: "same_counts b (b\<lparr>s_rework_rounds := k\<rparr>)" for b k by (simp add: same_counts_def)
  have "same_counts s s' \<and> s_state s' \<in> {Step_review_required, Step_ready, Step_blocked, Step_failed}"
  proof (cases "rr_verdict result")
    case Verdict_changes_requested
    with assms(1) show ?thesis
      by (auto simp: reviewer_step_outcome_def changes_requested_outcome_def Let_def bindr_Inr_iff
          dest: two [OF _ rework] split: if_splits)
  next
    case (Verdict_blocked bs)
    with assms(1) show ?thesis
      by (auto simp: reviewer_step_outcome_def review_blocked_outcome_def bindr_Inr_iff
          dest: two [OF _ same_counts_refl] transition_step_counts transition_step_state split: if_splits)
  next
    case (Verdict_inconclusive reason)
    with assms(1) show ?thesis
      by (auto simp: reviewer_step_outcome_def review_blocked_outcome_def bindr_Inr_iff
          dest: two [OF _ same_counts_refl] transition_step_counts transition_step_state split: if_splits)
  qed (use assms(2) in simp)
  then show "same_counts s s'" "s_state s' \<in> {Step_review_required, Step_ready, Step_blocked, Step_failed}" by auto
qed

text \<open>
  The transition table has no edge from BLOCKED to REVIEW_REQUIRED: the branch that would retry a blocked
  review always raises.
\<close>

lemma review_blocked_retry_raises:
  assumes "rt_on_blocked (ps_retry step) = On_retry" "s_reviewer_attempts s < rt_max_reviewer_attempts (ps_retry step)"
    and "transition_step s Step_blocked ev None None None = Inr blocked"
    and "make_event e n r Actor_dispatcher ''review retry is ready'' (d_dispatch_id d) (Some (te_sequence ev + 1)) = Inr ev'"
  shows "review_blocked_outcome e n r step s d ev
     = Inl (TransitionError ''invalid step transition: BLOCKED -> REVIEW_REQUIRED'')"
proof -
  have "s_state blocked = Step_blocked" by (rule transition_step_state [OF assms(3)])
  then have "transition_step blocked Step_review_required ev' None None None
      = Inl (TransitionError ''invalid step transition: BLOCKED -> REVIEW_REQUIRED'')"
    by (simp add: transition_step_def validate_transition_def raise_if_def)
  with assms show ?thesis by (simp add: review_blocked_outcome_def)
qed

lemma review_blocked_retry_never_returns:
  assumes "rt_on_blocked (ps_retry step) = On_retry" "s_reviewer_attempts s < rt_max_reviewer_attempts (ps_retry step)"
  shows "\<exists>x. review_blocked_outcome e n r step s d ev = Inl x"
proof (cases "transition_step s Step_blocked ev None None None")
  case (Inr blocked)
  show ?thesis
  proof (cases "make_event e n r Actor_dispatcher ''review retry is ready'' (d_dispatch_id d) (Some (te_sequence ev + 1))")
    case (Inl x)
    with Inr assms show ?thesis by (simp add: review_blocked_outcome_def)
  next
    case (Inr ev')
    from review_blocked_retry_raises [OF assms \<open>_ = Inr blocked\<close> Inr] show ?thesis by blast
  qed
qed (simp add: review_blocked_outcome_def)

section \<open>The step relation\<close>

text \<open>
  A step of a running plan: its record, and the worker a dispatch of it is out to. The rules are the
  operations of the program that change a step record; \<open>p\<close> is the run's policy, which no operation changes.
\<close>

type_synonym live_step = "step_record \<times> (worker_kind \<times> string) option"

definition interrupted_state :: "worker_kind \<Rightarrow> step_status" where
  "interrupted_state kind = (if kind = Worker_executor then Step_blocked else Step_review_required)"

inductive step_life :: "config \<Rightarrow> run_policy \<Rightarrow> plan_step \<Rightarrow> live_step \<Rightarrow> live_step \<Rightarrow> bool" for c p step where
  refreshed: "s_state s = Step_pending \<Longrightarrow> s_operator_gate_resolved s
    \<Longrightarrow> transition_step s Step_ready event None None None = Inr s' \<Longrightarrow> step_life c p step (s, None) (s', None)"
| dispatched: "r_policy r = Some p \<Longrightarrow> readiness_facts c r step s kind mode role_key \<Longrightarrow> s_operator_gate_resolved s
    \<Longrightarrow> dispatched_step s kind event dispatch_id = Inr s' \<Longrightarrow> step_life c p step (s, None) (s', Some (kind, role_key))"
| executor_answered: "r_policy r = Some p
    \<Longrightarrow> executor_step_outcome e n c r step s d result event = Inr (s', escalate)
    \<Longrightarrow> (er_outcome result = Outcome_completed \<Longrightarrow> validate_executor_evidence step result = Inr ())
    \<Longrightarrow> step_life c p step (s, Some (Worker_executor, d_role_key d)) (s', None)"
| reviewer_answered: "r_policy r = Some p
    \<Longrightarrow> reviewer_step_outcome e n c r step s d result event = Inr (s', escalate)
    \<Longrightarrow> step_life c p step (s, Some (Worker_reviewer, d_role_key d)) (s', None)"
| interrupted: "transition_step s (interrupted_state kind) event None None None = Inr s'
    \<Longrightarrow> step_life c p step (s, Some (kind, role_key))
          (s'\<lparr>s_stalls := stalls, s_last_stall_category := category, s_last_stall_reason := reason\<rparr>, None)"
| retried: "s_state s = Step_blocked \<Longrightarrow> transition_step s Step_ready event None None None = Inr s'
    \<Longrightarrow> step_life c p step (s, None) (s'\<lparr>s_reassignment_role_key := reassignment\<rparr>, None)"
| gate_approved: "step_life c p step (s, a) (s\<lparr>s_operator_gate_resolved := True, s_last_event := event\<rparr>, a)"
| resumed: "s_state s = Step_review_required \<Longrightarrow> step_life c p step (s, None) (s\<lparr>s_last_event := event\<rparr>, None)"
| review_waived: "dget (pol_review_obligations p) (ps_step_id step) = Some ob \<Longrightarrow> cro_waivable ob
    \<Longrightarrow> s_state s = Step_review_required
    \<Longrightarrow> transition_step s Step_accepted event None None (Some decision) = Inr s'
    \<Longrightarrow> step_life c p step (s, None) (s', None)"

inductive_cases step_lifeE: "step_life c p step x y"

definition votes_ok :: "compiled_review_obligation \<Rightarrow> step_record \<Rightarrow> bool" where
  "votes_ok ob s \<longleftrightarrow>
     s_review_acceptances s = int (length (s_accepted_reviewer_role_keys s))
     \<and> distinct (s_accepted_reviewer_role_keys s)
     \<and> set (s_accepted_reviewer_role_keys s) \<subseteq> set (cro_reviewer_role_keys ob)"

definition attempts_ok :: "plan_step \<Rightarrow> step_record \<Rightarrow> bool" where
  "attempts_ok step s \<longleftrightarrow>
     0 \<le> s_executor_attempts s \<and> s_executor_attempts s \<le> rt_max_executor_attempts (ps_retry step)
     \<and> 0 \<le> s_reviewer_attempts s \<and> s_reviewer_attempts s \<le> rt_max_reviewer_attempts (ps_retry step)"

definition worker_ok :: "compiled_review_obligation \<Rightarrow> live_step \<Rightarrow> bool" where
  "worker_ok ob x \<longleftrightarrow>
     (\<forall>kind role_key. snd x = Some (kind, role_key) \<longrightarrow>
        s_state (fst x) = dispatch_target_state kind
        \<and> (kind = Worker_reviewer \<longrightarrow> role_key \<in> set (cro_reviewer_role_keys ob)
             \<and> role_key \<notin> set (s_accepted_reviewer_role_keys (fst x))))"

definition acceptance_ok :: "plan_step \<Rightarrow> compiled_review_obligation \<Rightarrow> step_record \<Rightarrow> bool" where
  "acceptance_ok step ob s \<longleftrightarrow>
     (s_state s = Step_accepted \<longrightarrow> s_review_waiver_decision_ref s = None \<longrightarrow>
        set (map ev_artifact_id (ps_evidence_requirements step)) \<subseteq> set (s_accepted_artifact_ids s)
        \<and> cro_required_acceptances ob \<le> s_review_acceptances s)
     \<and> (s_state s = Step_accepted \<longrightarrow> s_review_waiver_decision_ref s \<noteq> None \<longrightarrow> cro_waivable ob)
     \<and> (s_state s \<noteq> Step_pending \<longrightarrow> s_operator_gate_resolved s)"

definition live_ok :: "plan_step \<Rightarrow> compiled_review_obligation \<Rightarrow> live_step \<Rightarrow> bool" where
  "live_ok step ob x \<longleftrightarrow>
     votes_ok ob (fst x) \<and> attempts_ok step (fst x) \<and> worker_ok ob x \<and> acceptance_ok step ob (fst x)"

lemma review_obligation_policy:
  "r_policy r = Some p \<Longrightarrow> review_obligation_of c r step = Inr o' \<longleftrightarrow>
     dget (pol_review_obligations p) (ps_step_id step) = Some o'"
  by (auto simp: review_obligation_of_def split: option.splits)

lemma transition_step_waiver:
  "transition_step s target event a w rw = Inr s' \<Longrightarrow> s_review_waiver_decision_ref s' = rw"
  by (simp add: transition_step_Inr)

lemma same_counts_votes: "same_counts s t \<Longrightarrow> votes_ok ob s \<Longrightarrow> votes_ok ob t"
  by (simp add: same_counts_def votes_ok_def)

lemma same_counts_attempts: "same_counts s t \<Longrightarrow> attempts_ok step s \<Longrightarrow> attempts_ok step t"
  by (simp add: same_counts_def attempts_ok_def)

lemma worker_ok_idle [simp]: "worker_ok ob (s, None)"
  by (simp add: worker_ok_def)

text \<open>An operation that keeps the counts and does not accept the step keeps the invariant.\<close>

lemma live_ok_quiet:
  assumes "live_ok step ob (s, a)" "same_counts s t" "s_state t \<noteq> Step_accepted" "s_operator_gate_resolved s"
  shows "live_ok step ob (t, None)"
  using assms same_counts_votes [OF assms(2)] same_counts_attempts [OF assms(2)]
  by (simp add: live_ok_def acceptance_ok_def same_counts_def)

lemma dispatched_step_live:
  assumes "live_ok step ob (s, None)" "r_policy r = Some p"
    and "dget (pol_review_obligations p) (ps_step_id step) = Some ob"
    and "readiness_facts c r step s kind mode role_key" "s_operator_gate_resolved s"
    and "dispatched_step s kind event i = Inr s'"
  shows "live_ok step ob (s', Some (kind, role_key))"
proof -
  from assms(6) obtain t where t: "transition_step s (dispatch_target_state kind) event (Some i) None None = Inr t"
    and s': "s' = t\<lparr>s_executor_attempts := (if kind = Worker_executor then next_attempt kind s else s_executor_attempts s),
              s_reviewer_attempts := (if kind = Worker_reviewer then next_attempt kind s else s_reviewer_attempts s),
              s_reassignment_role_key := (if kind = Worker_executor then None else s_reassignment_role_key s)\<rparr>"
    by (auto simp: dispatched_step_def bindr_Inr_iff)
  note counts = transition_step_counts [OF t] and state = transition_step_state [OF t]
  have "s_state s' = dispatch_target_state kind" using state by (simp add: s')
  moreover have "s_accepted_reviewer_role_keys s' = s_accepted_reviewer_role_keys s"
    "s_review_acceptances s' = s_review_acceptances s" "s_operator_gate_resolved s' = s_operator_gate_resolved s"
    "s_executor_attempts s' = s_executor_attempts s + (if kind = Worker_executor then 1 else 0)"
    "s_reviewer_attempts s' = s_reviewer_attempts s + (if kind = Worker_reviewer then 1 else 0)"
    using counts by (cases kind; simp add: s' same_counts_def next_attempt_def)+
  moreover have "dispatch_target_state kind \<noteq> Step_accepted" by (simp add: dispatch_target_state_def)
  ultimately show ?thesis
    using assms(1,4,5) review_obligation_policy [OF assms(2), of c step] assms(3)
    by (cases kind) (auto simp: live_ok_def votes_ok_def attempts_ok_def worker_ok_def acceptance_ok_def readiness_facts_def)
qed

lemma executor_answered_live:
  assumes "live_ok step ob (s, Some (Worker_executor, role_key))" "r_policy r = Some p"
    and "dget (pol_review_obligations p) (ps_step_id step) = Some ob" "compiled_review_obligation_errors ob = []"
    and "executor_step_outcome e n c r step s d result event = Inr (s', escalate)"
    and "er_outcome result = Outcome_completed \<Longrightarrow> validate_executor_evidence step result = Inr ()"
  shows "live_ok step ob (s', None)"
proof -
  have gate: "s_operator_gate_resolved s"
    using assms(1) by (auto simp: live_ok_def worker_ok_def acceptance_ok_def dispatch_target_state_def)
  show ?thesis
  proof (cases "er_outcome result = Outcome_completed")
    case True
    with assms(5) have "executor_completed_outcome e n c r step s d result event = Inr (s', escalate)"
      by (simp add: executor_step_outcome_def Let_def)
    then obtain ob' where out: "review_obligation_of c r step = Inr ob'" "s_review_waiver_decision_ref s' = None"
      "s_state s' = (if cro_required ob' then Step_review_required else Step_accepted)"
      "s_accepted_artifact_ids s' = map ar_artifact_id (er_evidence result)"
      "s_review_acceptances s' = 0" "s_accepted_reviewer_role_keys s' = []"
      "s_executor_attempts s' = s_executor_attempts s" "s_reviewer_attempts s' = s_reviewer_attempts s"
      "s_operator_gate_resolved s' = s_operator_gate_resolved s"
      by (rule executor_completed_outcome_Inr)
    have "ob' = ob" using out(1) review_obligation_policy [OF assms(2)] assms(3) by simp
    moreover have "cro_required_acceptances ob = 0" if "\<not> cro_required ob"
      using assms(4) that by (simp add: compiled_review_obligation_errors_def)
    moreover have "set (map ev_artifact_id (ps_evidence_requirements step)) \<subseteq> set (s_accepted_artifact_ids s')"
      using validate_executor_evidence_Inr [OF assms(6) [OF True]] out(4) by simp
    ultimately show ?thesis
      using out(2,3,5-9) gate assms(1)
      by (auto simp: live_ok_def votes_ok_def attempts_ok_def acceptance_ok_def split: if_splits)
  next
    case False
    from executor_step_outcome_other(1,2) [OF assms(5) False]
    show ?thesis using live_ok_quiet [OF assms(1) _ _ gate] by auto
  qed
qed

lemma reviewer_answered_live:
  assumes "live_ok step ob (s, Some (Worker_reviewer, d_role_key d))" "r_policy r = Some p"
    and "dget (pol_review_obligations p) (ps_step_id step) = Some ob"
    and "reviewer_step_outcome e n c r step s d result event = Inr (s', escalate)"
  shows "live_ok step ob (s', None)"
proof -
  have gate: "s_operator_gate_resolved s" and role: "d_role_key d \<in> set (cro_reviewer_role_keys ob)"
    "d_role_key d \<notin> set (s_accepted_reviewer_role_keys s)"
    using assms(1) by (auto simp: live_ok_def worker_ok_def acceptance_ok_def dispatch_target_state_def)
  show ?thesis
  proof (cases "rr_verdict result = Verdict_accepted")
    case True
    with assms(4) have "reviewer_accepted_outcome c r step s d event = Inr (s', escalate)"
      by (simp add: reviewer_step_outcome_def)
    then obtain ob' where out: "review_obligation_of c r step = Inr ob'"
      "s_state s' = (if cro_required_acceptances ob' \<le> s_review_acceptances s + 1 then Step_accepted else Step_review_required)"
      "s_review_acceptances s' = s_review_acceptances s + 1"
      "s_accepted_reviewer_role_keys s' = s_accepted_reviewer_role_keys s @ [d_role_key d]"
      "s_accepted_artifact_ids s' = (if s_state s' = Step_accepted then map ev_artifact_id (ps_evidence_requirements step) else [])"
      "s_executor_attempts s' = s_executor_attempts s" "s_reviewer_attempts s' = s_reviewer_attempts s"
      "s_operator_gate_resolved s' = s_operator_gate_resolved s"
      by (rule reviewer_accepted_outcome_Inr)
    have "ob' = ob" using out(1) review_obligation_policy [OF assms(2)] assms(3) by simp
    moreover have "s_review_waiver_decision_ref s' = None"
      using \<open>reviewer_accepted_outcome c r step s d event = Inr (s', escalate)\<close>
      by (auto simp: reviewer_accepted_outcome_def Let_def bindr_Inr_iff dest: transition_step_waiver)
    ultimately show ?thesis
      using out(2-8) gate role assms(1)
      by (simp add: live_ok_def votes_ok_def attempts_ok_def acceptance_ok_def split: if_splits)
  next
    case False
    from reviewer_step_outcome_other [OF assms(4) False]
    show ?thesis using live_ok_quiet [OF assms(1) _ _ gate] by auto
  qed
qed

lemma step_life_live:
  assumes "step_life c p step x y" "live_ok step ob x"
    and "dget (pol_review_obligations p) (ps_step_id step) = Some ob" "compiled_review_obligation_errors ob = []"
  shows "live_ok step ob y"
  using assms(1,2)
proof cases
  case (refreshed s event s')
  with assms(2) show ?thesis
    using live_ok_quiet [of step ob s None s'] transition_step_counts transition_step_state by fastforce
next
  case (dispatched r s kind mode role_key event i s')
  with assms(2,3) show ?thesis using dispatched_step_live by blast
next
  case (executor_answered r e n s d result event s' escalate)
  with assms(2-4) show ?thesis using executor_answered_live by blast
next
  case (reviewer_answered r e n s d result event s' escalate)
  with assms(2,3) show ?thesis using reviewer_answered_live by blast
next
  case (interrupted s kind event s' role_key reason category stalls)
  have "s_operator_gate_resolved s"
    using assms(2) interrupted(1) by (auto simp: live_ok_def worker_ok_def acceptance_ok_def dispatch_target_state_def split: if_splits)
  moreover have "same_counts s (s'\<lparr>s_stalls := stalls, s_last_stall_category := category, s_last_stall_reason := reason\<rparr>)"
    using transition_step_counts [OF interrupted(3)] by (simp add: same_counts_def)
  moreover have "s_state s' \<noteq> Step_accepted"
    using transition_step_state [OF interrupted(3)] by (simp add: interrupted_state_def)
  ultimately show ?thesis
    using live_ok_quiet [OF assms(2) [unfolded interrupted(1)]] interrupted(2) by simp
next
  case (retried s event s' reassignment)
  have "s_operator_gate_resolved s"
    using assms(2) retried(1,3) by (simp add: live_ok_def acceptance_ok_def)
  moreover have "same_counts s (s'\<lparr>s_reassignment_role_key := reassignment\<rparr>)"
    using transition_step_counts [OF retried(4)] by (simp add: same_counts_def)
  ultimately show ?thesis
    using assms(2) retried transition_step_state [OF retried(4)] by (auto intro: live_ok_quiet)
next
  case (gate_approved s a event)
  with assms(2) show ?thesis
    by (auto simp: live_ok_def votes_ok_def attempts_ok_def worker_ok_def acceptance_ok_def)
next
  case (resumed s event)
  with assms(2) show ?thesis
    by (auto simp: live_ok_def votes_ok_def attempts_ok_def worker_ok_def acceptance_ok_def)
next
  case (review_waived ob' s event decision s')
  with assms(2,3) transition_step_counts [OF review_waived(6)] transition_step_waiver [OF review_waived(6)]
  show ?thesis
    by (auto simp: live_ok_def votes_ok_def attempts_ok_def acceptance_ok_def same_counts_def)
qed

lemma new_step_live:
  assumes "0 \<le> rt_max_executor_attempts (ps_retry step)" "0 \<le> rt_max_reviewer_attempts (ps_retry step)"
  shows "live_ok step ob (new_step_record step event, None)"
  using assms by (simp add: new_step_record_def live_ok_def votes_ok_def attempts_ok_def acceptance_ok_def)

lemma step_life_reachable_live:
  assumes "(step_life c p step)\<^sup>*\<^sup>* (new_step_record step event, None) x"
    and "0 \<le> rt_max_executor_attempts (ps_retry step)" "0 \<le> rt_max_reviewer_attempts (ps_retry step)"
    and "dget (pol_review_obligations p) (ps_step_id step) = Some ob" "compiled_review_obligation_errors ob = []"
  shows "live_ok step ob x"
  using assms(1)
proof (induction rule: rtranclp_induct)
  case base
  show ?case by (rule new_step_live [OF assms(2,3)])
next
  case (step y z)
  from step_life_live [OF step.hyps(2) step.IH assms(4,5)] show ?case .
qed

end
