(* ===== verification/Answered_Steps.thy ===== *)
theory Answered_Steps
  imports Operator_Answers Step_Life
begin

text \<open>
  Operator answers as moves of the step relation of \<open>Step_Life\<close>: whatever an operator answers, every
  step record of the run stays as it is or makes one move of that relation. The second part is about the
  waiver of a review that has already been accepted once.
\<close>

section \<open>Answers are moves\<close>

definition moved :: "config \<Rightarrow> run_policy \<Rightarrow> string \<Rightarrow> step_record \<Rightarrow> step_record \<Rightarrow> bool" where
  "moved c p i s s' \<longleftrightarrow> s' = s \<or> (\<forall>step. ps_step_id step = i \<longrightarrow> step_life c p step (s, None) (s', None))"

definition steps_moved ::
  "config \<Rightarrow> run_policy \<Rightarrow> (string, step_record) dict \<Rightarrow> (string, step_record) dict \<Rightarrow> bool" where
  "steps_moved c p steps steps' \<longleftrightarrow>
     (\<forall>i s. dget steps i = Some s \<longrightarrow> (\<exists>s'. dget steps' i = Some s' \<and> moved c p i s s'))"

lemma steps_moved_refl [simp]: "steps_moved c p steps steps"
  by (simp add: steps_moved_def moved_def)

lemma steps_moved_dset:
  "dget steps i = Some s \<Longrightarrow> moved c p i s s' \<Longrightarrow> steps_moved c p steps (dset i s' steps)"
  by (simp add: steps_moved_def moved_def dget_dset)

lemma resume_step_moved:
  assumes "resume_step s event e = Inr s'"
  shows "moved c p i s s'"
proof (cases "s_state s = Step_blocked")
  case True
  then have t: "transition_step s Step_ready event None None None = Inr s'"
    using assms by (simp add: resume_step_def)
  then have "s'\<lparr>s_reassignment_role_key := None\<rparr> = s'" by (simp add: transition_step_Inr)
  with retried [OF True t, of c p _ None] show ?thesis by (simp add: moved_def)
next
  case False
  with assms have "s_state s = Step_review_required" "s' = s\<lparr>s_last_event := event\<rparr>"
    by (auto simp: resume_step_def split: if_splits)
  then show ?thesis by (auto simp: moved_def intro: resumed)
qed

lemma resume_batch_step_Inr:
  assumes "resume_batch_step r event steps i = Inr steps'"
  obtains s e s' where "dget (r_steps r) i = Some s" "resume_step s event e = Inr s'" "steps' = dset i s' steps"
  using assms unfolding resume_batch_step_def bindr_Inr_iff record_step_Inr by blast

lemma resume_batch_steps_moved:
  assumes "foldr_result (resume_batch_step r event) steps is = Inr steps'"
    and "\<forall>i s. dget (r_steps r) i = Some s \<longrightarrow> (\<exists>s'. dget steps i = Some s' \<and> moved c p i s s')"
  shows "steps_moved c p (r_steps r) steps'"
  using assms
proof (induction "is" arbitrary: steps)
  case Nil
  then show ?case by (simp add: steps_moved_def)
next
  case (Cons i "is")
  from Cons.prems(1) obtain mid where mid: "resume_batch_step r event steps i = Inr mid"
    and fold: "foldr_result (resume_batch_step r event) mid is = Inr steps'"
    by (auto simp: bindr_Inr_iff)
  from mid obtain s e s' where rest: "dget (r_steps r) i = Some s" "resume_step s event e = Inr s'"
    and eq: "mid = dset i s' steps"
    by (rule resume_batch_step_Inr)
  show ?case
    using Cons.prems(2) rest(1) resume_step_moved [OF rest(2)]
    by (intro Cons.IH [OF fold]) (auto simp: eq dget_dset)
qed

lemma gate_approved_moved: "moved c p i s (s\<lparr>s_operator_gate_resolved := True, s_last_event := event\<rparr>)"
  by (auto simp: moved_def intro: gate_approved)

lemma retried_moved:
  "s_state s = Step_blocked \<Longrightarrow> transition_step s Step_ready event None None None = Inr s'
   \<Longrightarrow> moved c p i s (s'\<lparr>s_reassignment_role_key := k\<rparr>)"
  by (auto simp: moved_def intro: retried)

lemma waived_moved:
  "dget (pol_review_obligations p) i = Some ob \<Longrightarrow> cro_waivable ob \<Longrightarrow> s_state s = Step_review_required
   \<Longrightarrow> transition_step s Step_accepted event None None (Some decision) = Inr s' \<Longrightarrow> moved c p i s s'"
  by (auto simp: moved_def intro: review_waived)

lemma answer_risk_gate_moved:
  "answer_risk_gate r q answer event = Inr (r', target) \<Longrightarrow> steps_moved c p (r_steps r) (r_steps r')"
  by (auto simp: answer_risk_gate_def bindr_Inr_iff request_step_Inr with_steps_def
      elim!: steps_moved_dset intro: gate_approved_moved split: if_splits)

lemma answer_escalation_moved:
  "answer_escalation r q answer event = Inr (r', target) \<Longrightarrow> steps_moved c p (r_steps r) (r_steps r')"
  by (auto simp: answer_escalation_def bindr_Inr_iff request_step_Inr with_steps_def
      elim!: steps_moved_dset intro: retried_moved split: if_splits option.splits)

lemma answer_review_waiver_moved:
  "answer_review_waiver r q answer event i = Inr (r', target) \<Longrightarrow> r_policy r = Some p
   \<Longrightarrow> steps_moved c p (r_steps r) (r_steps r')"
  by (auto simp: answer_review_waiver_def bindr_Inr_iff request_step_Inr with_steps_def
      elim!: steps_moved_dset intro: waived_moved split: if_splits option.splits)

lemma answer_stall_recovery_moved:
  "answer_stall_recovery r q answer event = Inr (r', target) \<Longrightarrow> steps_moved c p (r_steps r) (r_steps r')"
  by (auto simp: answer_stall_recovery_def bindr_Inr_iff request_step_Inr with_steps_def
      elim!: steps_moved_dset intro: resume_step_moved split: if_splits)

lemma answer_reconciliation_moved:
  "answer_reconciliation r q answer event = Inr (r', target) \<Longrightarrow> steps_moved c p (r_steps r) (r_steps r')"
  by (cases "dget (r_dispatches r) (or_context_ref q)")
    (auto simp: answer_reconciliation_def bindr_Inr_iff request_step_Inr with_steps_def
      elim!: steps_moved_dset intro: resume_step_moved split: if_splits)

lemma answer_batch_reconciliation_moved:
  "answer_batch_reconciliation r q answer event = Inr (r', target) \<Longrightarrow> steps_moved c p (r_steps r) (r_steps r')"
  by (auto simp: answer_batch_reconciliation_def bindr_Inr_iff with_steps_def moved_def
      intro: resume_batch_steps_moved split: if_splits option.splits)

lemma answer_workspace_reconciliation_moved:
  "answer_workspace_reconciliation r q answer = Inr (r', target) \<Longrightarrow> r_steps r' = r_steps r"
  by (auto simp: answer_workspace_reconciliation_def split: if_splits option.splits)

lemma apply_answer_moved:
  assumes "apply_answer r q answer event i = Inr (r', target)" "r_policy r = Some p"
  shows "steps_moved c p (r_steps r) (r_steps r')"
proof (cases "or_kind q")
  case Req_underspecification
  then show ?thesis using assms by (auto simp: apply_answer_def split: if_splits)
next
  case Req_budget
  then show ?thesis using assms by (auto simp: apply_answer_def split: if_splits)
next
  case Req_workspace_reconciliation
  then have "r_steps r' = r_steps r"
    using assms answer_workspace_reconciliation_moved by (auto simp: apply_answer_def)
  then show ?thesis by simp
qed (use assms in \<open>auto simp: apply_answer_def intro: answer_risk_gate_moved answer_escalation_moved
    answer_review_waiver_moved answer_stall_recovery_moved answer_reconciliation_moved
    answer_batch_reconciliation_moved\<close>)

section \<open>Waiving a review that was accepted once\<close>

lemma unevidenced_incomplete:
  assumes "dget (r_steps r) i = Some s" "s_state s = Step_accepted" "s_accepted_artifact_ids s = []"
    and "dget (step_map_of (np_steps (r_plan r))) i = Some step" "ps_evidence_requirements step \<noteq> []"
  shows "\<not> run_complete r"
proof
  assume "run_complete r"
  then have "step_complete r step s"
    using assms(4) dget_in_set [OF assms(1)] by (fastforce simp: run_complete_def)
  with assms(2,3,5) show False by (simp add: step_complete_def)
qed

text \<open>
  The first of several acceptances clears the artifact ids; a waiver accepts the step as it is; and an
  accepted step is final, so its missing evidence is never recorded.
\<close>

lemma waiver_after_acceptance_incomplete:
  assumes "reviewer_accepted_outcome c r step s d ev = Inr (s1, escalate)" "s_state s1 = Step_review_required"
    and "or_step_id q = Some (ps_step_id step)" "dget (r_steps r1) (ps_step_id step) = Some s1"
    and "answer_review_waiver r1 q ''waive'' ev2 decision = Inr (r2, target)"
    and "dget (step_map_of (np_steps (r_plan r1))) (ps_step_id step) = Some step"
    and "ps_evidence_requirements step \<noteq> []"
  shows "\<not> run_complete r2"
    "\<exists>s2. dget (r_steps r2) (ps_step_id step) = Some s2 \<and> (\<forall>t ev a w rw s3. transition_step s2 t ev a w rw \<noteq> Inr s3)"
proof -
  have none: "s_accepted_artifact_ids s1 = []"
    using assms(1,2) by (auto elim!: reviewer_accepted_outcome_Inr)
  from assms(3-5) obtain s2 where t: "transition_step s1 Step_accepted ev2 None None (Some decision) = Inr s2"
    and r2: "r2 = with_steps r1 (dset (ps_step_id step) s2 (r_steps r1)) ev2"
    unfolding answer_review_waiver_def Let_def bindr_Inr_iff
    by (cases "r_policy r1") (auto simp: request_step_Inr bindr_Inr_iff split: option.splits if_splits)
  have s2: "s_accepted_artifact_ids s2 = []" "s_state s2 = Step_accepted"
    using none t by (auto simp: transition_step_Inr)
  show "\<not> run_complete r2"
    using unevidenced_incomplete [of r2 "ps_step_id step" s2 step] s2 assms(6,7)
    by (simp add: r2 with_steps_def)
  show "\<exists>s2. dget (r_steps r2) (ps_step_id step) = Some s2 \<and> (\<forall>t ev a w rw s3. transition_step s2 t ev a w rw \<noteq> Inr s3)"
    using s2(2) step_final step_terminal_iff by (auto simp: r2 with_steps_def)
qed

end
