(* ===== verification/Batch_Admission.thy ===== *)
theory Batch_Admission
  imports Scheduler "HOL-Library.Multiset"
begin

text \<open>
  What admission by \<open>Scheduler\<close> means. Errors only accumulate over the scan, so a batch that is admitted
  passed every check of every child against all the children before it.
\<close>

section \<open>Counting and ordering\<close>

lemma count_of_dset: "count_of (dset k n counts) k' = (if k' = k then n else count_of counts k')"
  by (simp add: count_of_def dget_dset)

definition role_load :: "dispatch_request list \<Rightarrow> string \<Rightarrow> int" where
  "role_load children k = int (length (filter (\<lambda>child. req_target_role child = k) children))"

lemma role_load_simps [simp]:
  "role_load [] k = 0"
  "role_load (xs @ [x]) k = role_load xs k + (if req_target_role x = k then 1 else 0)"
  by (simp_all add: role_load_def)

lemma count_active_role: "count_of (active_role_counts ds) k = int (length (filter (\<lambda>d. d_role_key d = k) ds))"
proof -
  have "count_of (foldl (\<lambda>counts d. dset (d_role_key d) (count_of counts (d_role_key d) + 1) counts) c ds) k
      = count_of c k + int (length (filter (\<lambda>d. d_role_key d = k) ds))" for c
    by (induction ds arbitrary: c) (auto simp: count_of_dset)
  from this [of "[]"] show ?thesis by (simp add: active_role_counts_def count_of_def)
qed

lemma order_children_mset: "mset (order_children plan_steps children) = mset children"
  by (simp add: order_children_def)

lemma order_children_props [simp]:
  "set (order_children plan_steps children) = set children"
  "length (order_children plan_steps children) = length children"
  by (simp_all add: order_children_def)

lemma set_resource_keys:
  "set (resource_keys repo ids) = insert (''repository:'' @ repo) ((\<lambda>r. ''resource:'' @ r) ` set ids)"
  by (simp add: resource_keys_def del: remdups.simps)

lemma tagged_disjoint:
  assumes "\<And>i j. f i = f j \<longleftrightarrow> i = j" "\<And>i j. g i = g j \<longleftrightarrow> i = j" "\<And>i j. f i \<noteq> g j"
  shows "insert (f a) (g ` A) \<inter> insert (f b) (g ` B) = {} \<longleftrightarrow> a \<noteq> b \<and> A \<inter> B = {}"
proof -
  have "g ` A \<inter> g ` B = g ` (A \<inter> B)" by (rule image_Int [symmetric]) (simp add: inj_def assms(2))
  then show ?thesis using assms by auto
qed

text \<open>Two steps have disjoint lock keys exactly when they share neither repository nor resource.\<close>

lemma step_keys_disjoint:
  "set (step_resource_keys s) \<inter> set (step_resource_keys t) = {} \<longleftrightarrow>
     ps_repo_id s \<noteq> ps_repo_id t
     \<and> set (map lock_resource_id (ps_resource_locks s)) \<inter> set (map lock_resource_id (ps_resource_locks t)) = {}"
  unfolding step_resource_keys_def set_resource_keys by (rule tagged_disjoint) simp_all

section \<open>A scan without errors\<close>

definition child_admitted :: "config \<Rightarrow> run_record \<Rightarrow> string list \<Rightarrow> dispatch_request \<Rightarrow> bool" where
  "child_admitted c r active_keys child \<longleftrightarrow>
     (\<exists>step kind current. dget (step_map_of (np_steps (r_plan r))) (req_step_id child) = Some step
        \<and> config_role_kind c (req_target_role child) = Inr kind \<and> kind \<noteq> Supervisor
        \<and> dget (r_steps r) (ps_step_id step) = Some current \<and> s_state current = expected_state kind
        \<and> req_session_mode child = Mode_new
        \<and> set (step_resource_keys step) \<inter> set active_keys = {})"

definition child_keys :: "run_record \<Rightarrow> dispatch_request \<Rightarrow> string set" where
  "child_keys r child =
     (case dget (step_map_of (np_steps (r_plan r))) (req_step_id child) of
        None \<Rightarrow> {} | Some step \<Rightarrow> set (step_resource_keys step))"

lemma scan_child_clean:
  assumes "scan_child c r (step_map_of (np_steps (r_plan r))) readiness active_keys st child = Inr st'"
    and "bs_errors st' = []"
  shows "child_admitted c r active_keys child"
    and "bs_errors st = []"
    and "\<exists>n. capacity_of c (req_target_role child) = Inr n
        \<and> count_of (bs_role_counts st) (req_target_role child) + 1 \<le> n
        \<and> bs_role_counts st' = dset (req_target_role child)
            (count_of (bs_role_counts st) (req_target_role child) + 1) (bs_role_counts st)"
    and "child_keys r child \<inter> set (bs_selected_keys st) = {}"
    and "set (bs_selected_keys st') = set (bs_selected_keys st) \<union> child_keys r child"
proof -
  from assms obtain step kind where step: "dget (step_map_of (np_steps (r_plan r))) (req_step_id child) = Some step"
    and kind: "config_role_kind c (req_target_role child) = Inr kind" "kind \<noteq> Supervisor"
    and scan: "scan_known_child c r readiness active_keys st child step kind = Inr st'"
    by (auto simp: scan_child_def add_errors_def split: option.splits sum.splits exn.splits if_splits)
  define detail where "detail = (\<lambda>reasons. Inr [''step '' @ ps_step_id step @ '' is not ready: '' @ join_text ''; ''
      (if reasons \<noteq> [] then reasons else [''state requires '' @ step_status_value (expected_state kind)])]
      :: exn + string list)"
  define count where "count = count_of (bs_role_counts st) (req_target_role child) + 1"
  define conflict where "conflict = filter (\<lambda>k. k \<in> set active_keys \<or> k \<in> set (bs_selected_keys st))
      (step_resource_keys step)"
  from scan obtain current es n where current: "record_step r (ps_step_id step) = Inr current"
    and n: "capacity_of c (req_target_role child) = Inr n"
    and es: "(if s_state current = expected_state kind then Inr []
              else bindr (readiness_reasons readiness (ps_step_id step)) detail) = Inr es"
    and st': "st' = \<lparr>bs_role_counts = dset (req_target_role child) count (bs_role_counts st),
        bs_selected_keys = bs_selected_keys st @ step_resource_keys step,
        bs_errors = bs_errors st @ es
          @ (if req_session_mode child \<noteq> Mode_new
             then [''batch child '' @ req_step_id child @ '' requires a new session''] else [])
          @ (if n < count then [''role '' @ req_target_role child @ '' exceeds configured capacity''] else [])
          @ (if conflict \<noteq> []
             then [''step '' @ ps_step_id step @ '' conflicts on '' @ join_text '', '' conflict] else [])\<rparr>"
    unfolding scan_known_child_def bindr_Inr_iff Let_def count_def [symmetric] conflict_def [symmetric]
      detail_def [symmetric] by blast
  from assms(2) st' have clean: "bs_errors st = []" "es = []" "req_session_mode child = Mode_new" "count \<le> n"
    "conflict = []"
    by (simp_all split: if_splits)
  have state: "s_state current = expected_state kind"
    using es clean(2) by (auto simp: detail_def bindr_Inr_iff split: if_splits)
  have keys: "child_keys r child = set (step_resource_keys step)"
    by (simp add: child_keys_def step)
  from clean(5) have disj: "set (step_resource_keys step) \<inter> set active_keys = {}"
    "set (step_resource_keys step) \<inter> set (bs_selected_keys st) = {}"
    by (auto simp: filter_empty_conv conflict_def)
  show "child_admitted c r active_keys child"
    using step kind current state clean(3) disj(1)
    unfolding child_admitted_def by (auto simp: record_step_def split: option.splits)
  show "bs_errors st = []" by (rule clean(1))
  show "\<exists>n. capacity_of c (req_target_role child) = Inr n
        \<and> count_of (bs_role_counts st) (req_target_role child) + 1 \<le> n
        \<and> bs_role_counts st' = dset (req_target_role child)
            (count_of (bs_role_counts st) (req_target_role child) + 1) (bs_role_counts st)"
    using n clean(4) st' by (simp add: count_def)
  show "child_keys r child \<inter> set (bs_selected_keys st) = {}" using disj(2) keys by simp
  show "set (bs_selected_keys st') = set (bs_selected_keys st) \<union> child_keys r child"
    using st' keys by simp
qed

lemma scan_clean:
  assumes "foldr_result (scan_child c r (step_map_of (np_steps (r_plan r))) readiness active_keys) st0 children = Inr st"
    and "bs_errors st = []"
  shows "bs_errors st0 = []
    \<and> (\<forall>child \<in> set children. child_admitted c r active_keys child)
    \<and> (\<forall>k. count_of (bs_role_counts st) k = count_of (bs_role_counts st0) k + role_load children k)
    \<and> (\<forall>child \<in> set children. \<exists>n. capacity_of c (req_target_role child) = Inr n
         \<and> count_of (bs_role_counts st) (req_target_role child) \<le> n)
    \<and> set (bs_selected_keys st) = set (bs_selected_keys st0) \<union> (\<Union>child \<in> set children. child_keys r child)
    \<and> sorted_wrt (\<lambda>a b. child_keys r a \<inter> child_keys r b = {}) children"
  using assms
proof (induction children arbitrary: st rule: rev_induct)
  case (snoc x xs)
  from snoc.prems(1) obtain mid where mid:
    "foldr_result (scan_child c r (step_map_of (np_steps (r_plan r))) readiness active_keys) st0 xs = Inr mid"
    and x: "scan_child c r (step_map_of (np_steps (r_plan r))) readiness active_keys mid x = Inr st"
    by (auto simp: foldr_result_append bindr_Inr_iff)
  note clean = scan_child_clean [OF x snoc.prems(2)]
  note IH = snoc.IH [OF mid clean(2)]
  from clean(3) obtain n where n: "capacity_of c (req_target_role x) = Inr n"
    "count_of (bs_role_counts mid) (req_target_role x) + 1 \<le> n"
    and counts: "bs_role_counts st = dset (req_target_role x)
            (count_of (bs_role_counts mid) (req_target_role x) + 1) (bs_role_counts mid)"
    by blast
  have "\<exists>n. capacity_of c (req_target_role child) = Inr n \<and> count_of (bs_role_counts st) (req_target_role child) \<le> n"
    if "child \<in> set (xs @ [x])" for child
    using that IH n by (cases "req_target_role child = req_target_role x") (auto simp: counts count_of_dset)
  moreover have "count_of (bs_role_counts st) k = count_of (bs_role_counts st0) k + role_load (xs @ [x]) k" for k
    using IH by (simp add: counts count_of_dset)
  moreover have "child_keys r y \<inter> child_keys r x = {}" if "y \<in> set xs" for y
    using IH clean(4) that by auto
  ultimately show ?case
    using IH clean(1,5) by (auto simp: sorted_wrt_append)
qed simp

lemma evaluate_active_keys:
  "evaluate_readiness r = Inr rd \<Longrightarrow>
   \<exists>keys. active_resource_keys r (step_map_of (np_steps (r_plan r))) = Inr keys"
  by (auto simp: evaluate_readiness_def bindr_Inr_iff)

lemma validate_batch_Inr:
  assumes "validate_batch c r children = Inr ordered"
  obtains active_keys where
    "active_resource_keys r (step_map_of (np_steps (r_plan r))) = Inr active_keys"
    "ordered = order_children (step_map_of (np_steps (r_plan r))) children"
    "int (length children) \<le> conc_max_batch_size (exe_concurrency (pc_execution (cfg_model c)))"
    "exe_scheduling (pc_execution (cfg_model c)) = Bounded_parallel"
    "distinct (map req_step_id ordered)"
    "int (length (active_dispatches r)) + int (length ordered)
       \<le> conc_max_active_dispatches (exe_concurrency (pc_execution (cfg_model c)))"
    "\<forall>child \<in> set ordered. child_admitted c r active_keys child"
    "\<forall>child \<in> set ordered. \<exists>n. capacity_of c (req_target_role child) = Inr n
       \<and> count_of (active_role_counts (active_dispatches r)) (req_target_role child)
           + role_load ordered (req_target_role child) \<le> n"
    "sorted_wrt (\<lambda>a b. child_keys r a \<inter> child_keys r b = {}) ordered"
proof -
  define plan_steps where "plan_steps = step_map_of (np_steps (r_plan r))"
  define conc where "conc = exe_concurrency (pc_execution (cfg_model c))"
  define es where "es = (if \<not> distinct (map req_step_id (order_children plan_steps children))
                   then [''batch contains duplicate step IDs''] else []) @
      (if conc_max_active_dispatches conc < int (length (active_dispatches r)) + int (length (order_children plan_steps children))
                    then [''batch exceeds execution.concurrency.max_active_dispatches''] else [])"
  from assms obtain readiness active_keys st where
    size: "int (length children) \<le> conc_max_batch_size conc"
    and mode: "exe_scheduling (pc_execution (cfg_model c)) = Bounded_parallel"
    and keys: "active_resource_keys r plan_steps = Inr active_keys"
    and scan: "foldr_result (scan_child c r plan_steps readiness active_keys)
        \<lparr>bs_role_counts = active_role_counts (active_dispatches r), bs_selected_keys = [], bs_errors = es\<rparr>
        (order_children plan_steps children) = Inr st"
    and st: "bs_errors st = []" and ordered: "ordered = order_children plan_steps children"
    unfolding validate_batch_def Let_def plan_steps_def [symmetric] conc_def [symmetric] es_def [symmetric]
      ok_dests not_less not_not by blast
  note clean = scan_clean [OF scan [unfolded plan_steps_def] st, folded plan_steps_def ordered]
  from clean have "es = []" by simp
  then have "distinct (map req_step_id ordered)"
    "int (length (active_dispatches r)) + int (length ordered) \<le> conc_max_active_dispatches conc"
    by (auto simp: es_def ordered split: if_splits)
  moreover have "\<forall>child \<in> set ordered. \<exists>n. capacity_of c (req_target_role child) = Inr n
       \<and> count_of (active_role_counts (active_dispatches r)) (req_target_role child)
           + role_load ordered (req_target_role child) \<le> n"
  proof -
    have "count_of (bs_role_counts st) k = count_of (active_role_counts (active_dispatches r)) k + role_load ordered k"
      for k using clean by simp
    moreover have "\<forall>child \<in> set ordered. \<exists>n. capacity_of c (req_target_role child) = Inr n
        \<and> count_of (bs_role_counts st) (req_target_role child) \<le> n" using clean by blast
    ultimately show ?thesis by simp
  qed
  moreover have "\<forall>child \<in> set ordered. child_admitted c r active_keys child"
    "sorted_wrt (\<lambda>a b. child_keys r a \<inter> child_keys r b = {}) ordered"
    using clean by blast+
  ultimately show thesis
    using that [OF keys [unfolded plan_steps_def] ordered [unfolded plan_steps_def]] size mode
    unfolding conc_def by blast
qed

section \<open>Workspace batches\<close>

lemma map_result_member:
  "map_result f xs = Inr ys \<Longrightarrow> x \<in> set xs \<Longrightarrow> \<exists>y \<in> set ys. f x = Inr y"
  by (induction xs arbitrary: ys) (auto simp: bindr_Inr_iff)

lemma scan_path_scopes:
  assumes "foldr_result (scan_path step) st paths = Inr st'" "ws_errors st' = []"
  shows "ws_errors st = [] \<and> ws_role_counts st' = ws_role_counts st
    \<and> ws_selected_resources st' = ws_selected_resources st
    \<and> ws_selected_paths st' = ws_selected_paths st @ map (Pair (ps_step_id step)) paths
    \<and> (\<forall>path \<in> set paths. \<forall>q \<in> set (ws_selected_paths st). writable_paths_overlap path (snd q) = Inr False)"
  using assms
proof (induction paths arbitrary: st)
  case (Cons path paths)
  from Cons.prems(1) obtain conflicts where conflicts:
    "map_result (path_conflict step path) (ws_selected_paths st) = Inr conflicts"
    and rest: "foldr_result (scan_path step)
       (st\<lparr>ws_errors := ws_errors st @ concat conflicts,
           ws_selected_paths := ws_selected_paths st @ [(ps_step_id step, path)]\<rparr>) paths = Inr st'"
    unfolding foldr_result.simps scan_path_def [of step st path] bindr_Inr_iff by blast
  note IH = Cons.IH [OF rest Cons.prems(2)]
  then have none: "\<forall>x \<in> set conflicts. x = []" by simp
  have "writable_paths_overlap path (snd q) = Inr False" if "q \<in> set (ws_selected_paths st)" for q
  proof -
    from map_result_member [OF conflicts that] obtain y
      where y: "y \<in> set conflicts" "path_conflict step path q = Inr y" by (rule bexE)
    from none y(1) have "y = []" by (rule bspec)
    with y(2) have "path_conflict step path q = Inr []" by (simp only:)
    then obtain b where "writable_paths_overlap path (snd q) = Inr b" "\<not> b"
      unfolding path_conflict_def bindr_Inr_iff
      by (cases "writable_paths_overlap path (snd q)") (auto split: if_splits)
    then show ?thesis by simp
  qed
  then have "\<forall>q \<in> set (ws_selected_paths st). writable_paths_overlap path (snd q) = Inr False" by blast
  moreover have "\<forall>p \<in> set paths. \<forall>q \<in> set (ws_selected_paths st). writable_paths_overlap p (snd q) = Inr False"
    using IH by simp
  moreover have "ws_errors st = []" "ws_role_counts st' = ws_role_counts st"
    "ws_selected_resources st' = ws_selected_resources st"
    "ws_selected_paths st' = ws_selected_paths st @ map (Pair (ps_step_id step)) (path # paths)"
    using IH [THEN conjunct1] IH [THEN conjunct2, THEN conjunct1]
      IH [THEN conjunct2, THEN conjunct2, THEN conjunct1]
      IH [THEN conjunct2, THEN conjunct2, THEN conjunct2, THEN conjunct1] by simp_all
  ultimately show ?case unfolding list.set ball_simps by blast
qed simp

definition workspace_child_admitted :: "config \<Rightarrow> run_record \<Rightarrow> dispatch_request \<Rightarrow> bool" where
  "workspace_child_admitted c r child \<longleftrightarrow>
     (\<exists>step current. dget (step_map_of (np_steps (r_plan r))) (req_step_id child) = Some step
        \<and> config_role_kind c (req_target_role child) = Inr Executor
        \<and> dget (r_steps r) (ps_step_id step) = Some current \<and> s_state current = Step_ready
        \<and> s_operator_gate_resolved current \<and> req_session_mode child = Mode_new
        \<and> (\<forall>d \<in> set (ps_depends_on step). step_done r d = Inr True)
        \<and> (\<forall>a \<in> set (ps_required_inputs step). \<forall>p. art_producer_step_id a = Some p \<longrightarrow> step_done r p = Inr True))"

definition child_step :: "run_record \<Rightarrow> dispatch_request \<Rightarrow> plan_step option" where
  "child_step r child = dget (step_map_of (np_steps (r_plan r))) (req_step_id child)"

definition child_resources :: "run_record \<Rightarrow> dispatch_request \<Rightarrow> string set" where
  "child_resources r child = (case child_step r child of None \<Rightarrow> {} | Some step \<Rightarrow> set (resource_names step))"

definition child_scopes :: "run_record \<Rightarrow> dispatch_request \<Rightarrow> string set" where
  "child_scopes r child =
     (case child_step r child of None \<Rightarrow> {} | Some step \<Rightarrow> set (auth_writable_paths (ps_authorization step)))"

lemma any_result_False: "any_result f xs = Inr False \<longleftrightarrow> (\<forall>x \<in> set xs. f x = Inr False)"
  by (induction xs) (auto simp: bindr_Inr_iff)

lemma child_state_errors_Nil:
  assumes "workspace_child_state_errors c r step child = Inr []"
    and "dget (step_map_of (np_steps (r_plan r))) (req_step_id child) = Some step"
  shows "workspace_child_admitted c r child"
proof -
  from assms(1) obtain current where
    "config_role_kind c (req_target_role child) = Inr Executor"
    "record_step r (ps_step_id step) = Inr current" "s_state current = Step_ready"
    "s_operator_gate_resolved current" "req_session_mode child = Mode_new"
    and deps: "any_result (\<lambda>d. bindr (step_done r d) (\<lambda>b. Inr (\<not> b))) (ps_depends_on step) = Inr False"
    and inputs: "any_result (\<lambda>a. case art_producer_step_id a of
                None \<Rightarrow> Inr False | Some p \<Rightarrow> bindr (step_done r p) (\<lambda>b. Inr (\<not> b))) (ps_required_inputs step) = Inr False"
    unfolding workspace_child_state_errors_def bindr_Inr_iff
    by (simp split: if_splits) auto
  moreover have "\<forall>d \<in> set (ps_depends_on step). step_done r d = Inr True"
    using deps by (auto simp: any_result_False bindr_Inr_iff)
  moreover have "\<forall>a \<in> set (ps_required_inputs step). \<forall>p. art_producer_step_id a = Some p \<longrightarrow> step_done r p = Inr True"
    using inputs by (fastforce simp: any_result_False bindr_Inr_iff)
  ultimately show ?thesis
    using assms(2) by (auto simp: workspace_child_admitted_def record_step_def split: option.splits)
qed

lemma scan_workspace_child_clean:
  assumes "scan_workspace_child c r (step_map_of (np_steps (r_plan r))) st child = Inr st'"
    and "ws_errors st' = []" "child_step r child = Some step"
  shows "workspace_child_admitted c r child \<and> ws_errors st = []
    \<and> (\<exists>n. capacity_of c (req_target_role child) = Inr n
        \<and> count_of (ws_role_counts st) (req_target_role child) + 1 \<le> n
        \<and> ws_role_counts st' = dset (req_target_role child)
            (count_of (ws_role_counts st) (req_target_role child) + 1) (ws_role_counts st))
    \<and> child_resources r child \<inter> set (ws_selected_resources st) = {}
    \<and> set (ws_selected_resources st') = set (ws_selected_resources st) \<union> child_resources r child
    \<and> (\<forall>p \<in> child_scopes r child. \<forall>q \<in> snd ` set (ws_selected_paths st). writable_paths_overlap p q = Inr False)
    \<and> snd ` set (ws_selected_paths st') = snd ` set (ws_selected_paths st) \<union> child_scopes r child"
proof -
  define count where "count = count_of (ws_role_counts st) (req_target_role child) + 1"
  define conflict where "conflict = filter (\<lambda>k. k \<in> set (ws_selected_resources st)) (resource_names step)"
  from assms(3) have step: "dget (step_map_of (np_steps (r_plan r))) (req_step_id child) = Some step"
    by (simp add: child_step_def)
  from assms(1) obtain es n where es: "workspace_child_state_errors c r step child = Inr es"
    and n: "capacity_of c (req_target_role child) = Inr n"
    and scan: "foldr_result (scan_path step)
       (st\<lparr>ws_role_counts := dset (req_target_role child) count (ws_role_counts st),
           ws_selected_resources := ws_selected_resources st @ resource_names step,
           ws_errors := ws_errors st @ es
             @ (if n < count then [''role '' @ req_target_role child @ '' exceeds configured capacity''] else [])
             @ (if conflict \<noteq> []
                then [''workspace step '' @ ps_step_id step @ '' conflicts on '' @ join_text '', '' conflict] else [])\<rparr>)
       (auth_writable_paths (ps_authorization step)) = Inr st'"
    unfolding scan_workspace_child_def step option.case bindr_Inr_iff Let_def count_def [symmetric]
      conflict_def [symmetric] by blast
  note paths = scan_path_scopes [OF scan assms(2)]
  then have clean: "ws_errors st = []" "es = []" "count \<le> n" "conflict = []"
    by (simp_all split: if_splits)
  have names: "child_resources r child = set (resource_names step)"
    "child_scopes r child = set (auth_writable_paths (ps_authorization step))"
    by (simp_all add: child_resources_def child_scopes_def assms(3))
  have "workspace_child_admitted c r child"
    using child_state_errors_Nil [OF _ step] es clean(2) by simp
  moreover have "child_resources r child \<inter> set (ws_selected_resources st) = {}"
    using clean(4) by (auto simp: conflict_def names filter_empty_conv)
  ultimately show ?thesis
    using n clean paths by (simp add: names count_def image_Un image_image)
qed

text \<open>What an admitted workspace batch has in common, child against child.\<close>

definition independent :: "run_record \<Rightarrow> dispatch_request \<Rightarrow> dispatch_request \<Rightarrow> bool" where
  "independent r a b \<longleftrightarrow>
     child_resources r a \<inter> child_resources r b = {}
     \<and> (\<forall>p \<in> child_scopes r b. \<forall>q \<in> child_scopes r a. writable_paths_overlap p q = Inr False)"

lemma scan_workspace_clean:
  assumes "foldr_result (scan_workspace_child c r (step_map_of (np_steps (r_plan r)))) st0 children = Inr st"
    and "ws_errors st = []" "\<forall>child \<in> set children. child_step r child \<noteq> None"
  shows "ws_errors st0 = []
    \<and> (\<forall>child \<in> set children. workspace_child_admitted c r child)
    \<and> (\<forall>k. count_of (ws_role_counts st) k = count_of (ws_role_counts st0) k + role_load children k)
    \<and> (\<forall>child \<in> set children. \<exists>n. capacity_of c (req_target_role child) = Inr n
         \<and> count_of (ws_role_counts st) (req_target_role child) \<le> n)
    \<and> set (ws_selected_resources st) = set (ws_selected_resources st0) \<union> (\<Union>child \<in> set children. child_resources r child)
    \<and> snd ` set (ws_selected_paths st) = snd ` set (ws_selected_paths st0) \<union> (\<Union>child \<in> set children. child_scopes r child)
    \<and> sorted_wrt (independent r) children"
  using assms
proof (induction children arbitrary: st rule: rev_induct)
  case (snoc x xs)
  from snoc.prems(1) obtain mid where mid:
    "foldr_result (scan_workspace_child c r (step_map_of (np_steps (r_plan r)))) st0 xs = Inr mid"
    and x: "scan_workspace_child c r (step_map_of (np_steps (r_plan r))) mid x = Inr st"
    by (auto simp: foldr_result_append bindr_Inr_iff)
  from snoc.prems(3) obtain step where step: "child_step r x = Some step" by auto
  note clean = scan_workspace_child_clean [OF x snoc.prems(2) step]
  then obtain n where n: "capacity_of c (req_target_role x) = Inr n"
    "count_of (ws_role_counts mid) (req_target_role x) + 1 \<le> n"
    and counts: "ws_role_counts st = dset (req_target_role x)
            (count_of (ws_role_counts mid) (req_target_role x) + 1) (ws_role_counts mid)"
    by blast
  from clean have clean_mid: "ws_errors mid = []" by blast
  from snoc.prems(3) have known: "\<forall>child \<in> set xs. child_step r child \<noteq> None" by simp
  note I = snoc.IH [OF mid clean_mid known]
  note IH = I [THEN conjunct1]
    I [THEN conjunct2, THEN conjunct1]
    I [THEN conjunct2, THEN conjunct2, THEN conjunct1]
    I [THEN conjunct2, THEN conjunct2, THEN conjunct2, THEN conjunct1]
    I [THEN conjunct2, THEN conjunct2, THEN conjunct2, THEN conjunct2, THEN conjunct1]
    I [THEN conjunct2, THEN conjunct2, THEN conjunct2, THEN conjunct2, THEN conjunct2, THEN conjunct1]
    I [THEN conjunct2, THEN conjunct2, THEN conjunct2, THEN conjunct2, THEN conjunct2, THEN conjunct2]
  have "\<exists>n. capacity_of c (req_target_role child) = Inr n \<and> count_of (ws_role_counts st) (req_target_role child) \<le> n"
    if "child \<in> set (xs @ [x])" for child
    using that IH(4) n by (cases "req_target_role child = req_target_role x") (auto simp: counts count_of_dset)
  moreover have "count_of (ws_role_counts st) k = count_of (ws_role_counts st0) k + role_load (xs @ [x]) k" for k
    using IH(3) by (simp add: counts count_of_dset)
  moreover have "independent r y x" if "y \<in> set xs" for y
  proof -
    have "child_resources r y \<subseteq> set (ws_selected_resources mid)" using IH(5) that by blast
    moreover have "child_scopes r y \<subseteq> snd ` set (ws_selected_paths mid)" using IH(6) that by blast
    moreover have "child_resources r x \<inter> set (ws_selected_resources mid) = {}" using clean by blast
    moreover have "\<forall>p \<in> child_scopes r x. \<forall>q \<in> snd ` set (ws_selected_paths mid). writable_paths_overlap p q = Inr False"
      using clean by blast
    ultimately show ?thesis unfolding independent_def by (simp add: disjoint_iff subset_iff) blast
  qed
  then have "sorted_wrt (independent r) (xs @ [x])"
    using IH(7) by (simp add: sorted_wrt_append)
  moreover have "set (ws_selected_resources st) = set (ws_selected_resources st0)
       \<union> (\<Union>child \<in> set (xs @ [x]). child_resources r child)"
    "snd ` set (ws_selected_paths st) = snd ` set (ws_selected_paths st0)
       \<union> (\<Union>child \<in> set (xs @ [x]). child_scopes r child)"
    using IH(5,6) clean by auto
  moreover have "\<forall>child \<in> set (xs @ [x]). workspace_child_admitted c r child"
    using IH(2) clean by simp
  ultimately show ?case using IH(1) by blast
qed simp

lemma known_steps_complete:
  "length (known_steps plan_steps ordered) = length ordered \<longleftrightarrow>
     (\<forall>child \<in> set ordered. dget plan_steps (req_step_id child) \<noteq> None)"
proof (induction ordered)
  case (Cons child ordered)
  have "length (known_steps plan_steps ordered) \<le> length ordered"
    by (simp add: known_steps_def List.map_filter_def)
  with Cons show ?case by (auto simp: known_steps_def List.map_filter_simps split: option.splits)
qed (simp add: known_steps_def List.map_filter_simps)

lemma length_remdups_one: "length (remdups xs) = Suc 0 \<longleftrightarrow> xs \<noteq> [] \<and> (\<forall>x \<in> set xs. x = hd (remdups xs))"
proof
  assume "length (remdups xs) = Suc 0"
  then obtain y where "remdups xs = [y]" by (auto simp: length_Suc_conv)
  then have "set xs = {y}" by (metis set_remdups list.set(1) list.set(2))
  with \<open>remdups xs = [y]\<close> show "xs \<noteq> [] \<and> (\<forall>x \<in> set xs. x = hd (remdups xs))" by auto
next
  assume r: "xs \<noteq> [] \<and> (\<forall>x \<in> set xs. x = hd (remdups xs))"
  then have "set xs \<subseteq> {hd (remdups xs)}" by blast
  from subset_singletonD [OF this] have "set xs = {hd (remdups xs)}" using conjunct1 [OF r] by simp
  then have "card (set xs) = Suc 0" by (metis card_1_singleton_iff)
  then show "length (remdups xs) = Suc 0" by (simp only: length_remdups_card_conv)
qed

lemma known_steps_member:
  "(\<forall>step \<in> set (known_steps plan_steps ordered). P step) \<longleftrightarrow>
     (\<forall>child \<in> set ordered. \<forall>step. dget plan_steps (req_step_id child) = Some step \<longrightarrow> P step)"
  by (induction ordered) (auto simp: known_steps_def List.map_filter_simps split: option.splits)

lemma scan_workspace_errors:
  assumes "foldr_result (scan_workspace_child c r (step_map_of (np_steps (r_plan r)))) st0 children = Inr st"
    and "ws_errors st = []"
  shows "ws_errors st0 = []"
proof (rule ccontr)
  assume "ws_errors st0 \<noteq> []"
  with assms(1) have "ws_errors st \<noteq> []"
  proof (rule foldr_result_invariant)
    fix t child t'
    assume t: "ws_errors t \<noteq> []" and
      scan: "scan_workspace_child c r (step_map_of (np_steps (r_plan r))) t child = Inr t'"
    show "ws_errors t' \<noteq> []"
    proof (cases "child_step r child")
      case None
      with scan t show ?thesis by (simp add: scan_workspace_child_def child_step_def)
    next
      case (Some step)
      with scan_workspace_child_clean [OF scan] t show ?thesis by blast
    qed
  qed
  with assms(2) show False by simp
qed

lemma workspace_batch_errors_Nil:
  assumes "workspace_batch_errors c r plan_steps ordered = Inr []"
  shows "distinct (map req_step_id ordered) \<and> (\<forall>child \<in> set ordered. dget plan_steps (req_step_id child) \<noteq> None)
    \<and> int (length (active_dispatches r)) + int (length ordered)
       \<le> conc_max_active_dispatches (exe_concurrency (pc_execution (cfg_model c)))
    \<and> (\<exists>repo_id repository. config_repository c repo_id = Inr repository
       \<and> repo_commit_policy repository = Commit_required
       \<and> (\<forall>step \<in> set (known_steps plan_steps ordered). ps_repo_id step = repo_id)
       \<and> (\<forall>g \<in> set (active_groups r). wg_repo_id g \<noteq> repo_id))"
proof -
  define repo_ids where "repo_ids = remdups (map ps_repo_id (known_steps plan_steps ordered))"
  from assms obtain es where es: "(if length repo_ids \<noteq> 1 then Inr [''workspace batch children must target one repository'']
                else bindr (config_repository c (hd repo_ids)) (\<lambda>repository.
                  Inr (if repo_commit_policy repository \<noteq> Commit_required
                       then [''workspace batch requires commit_policy required''] else []))) = Inr es"
    and parts: "es = []" "distinct (map req_step_id ordered)"
    "length (known_steps plan_steps ordered) = length ordered
       \<or> filter (\<lambda>child. dget plan_steps (req_step_id child) = None) ordered = []"
    "\<not> list_ex (\<lambda>g. wg_repo_id g \<in> set repo_ids) (active_groups r)"
    "int (length (active_dispatches r)) + int (length ordered)
       \<le> conc_max_active_dispatches (exe_concurrency (pc_execution (cfg_model c)))"
    unfolding workspace_batch_errors_def Let_def bindr_Inr_iff repo_ids_def [symmetric]
    by (auto split: if_splits)
  from es parts(1) have one: "length repo_ids = 1" by (auto split: if_splits)
  with es parts(1) obtain repository where repository: "config_repository c (hd repo_ids) = Inr repository"
    "repo_commit_policy repository = Commit_required"
    by (auto simp: bindr_Inr_iff split: if_splits)
  from one have same: "\<forall>step \<in> set (known_steps plan_steps ordered). ps_repo_id step = hd repo_ids"
    unfolding repo_ids_def by (simp add: length_remdups_one)
  from one have "hd repo_ids \<in> set repo_ids" by (intro hd_in_set) auto
  with parts(4) have "\<forall>g \<in> set (active_groups r). wg_repo_id g \<noteq> hd repo_ids" by (auto simp: list_ex_iff)
  moreover have "\<forall>child \<in> set ordered. dget plan_steps (req_step_id child) \<noteq> None"
    using parts(3) known_steps_complete [of plan_steps ordered] by (auto simp: filter_empty_conv)
  ultimately show ?thesis using parts(2,5) repository same by blast
qed

lemma validate_workspace_batch_Inr:
  assumes "validate_workspace_batch c r children = Inr ordered"
  shows "mset ordered = mset children" "2 \<le> length ordered"
    "exe_scheduling (pc_execution (cfg_model c)) = Bounded_parallel"
    "conc_same_repository_mode (exe_concurrency (pc_execution (cfg_model c))) = Worktree_barrier"
    "int (length ordered) \<le> conc_max_batch_size (exe_concurrency (pc_execution (cfg_model c)))"
    "distinct (map req_step_id ordered)"
    "\<exists>repo_id repository. config_repository c repo_id = Inr repository
       \<and> repo_commit_policy repository = Commit_required
       \<and> (\<forall>child \<in> set ordered. \<exists>step. child_step r child = Some step \<and> ps_repo_id step = repo_id)
       \<and> (\<forall>g \<in> set (active_groups r). wg_repo_id g \<noteq> repo_id)"
    "int (length (active_dispatches r)) + int (length ordered)
       \<le> conc_max_active_dispatches (exe_concurrency (pc_execution (cfg_model c)))"
    "\<forall>child \<in> set ordered. workspace_child_admitted c r child"
    "\<forall>child \<in> set ordered. \<exists>n. capacity_of c (req_target_role child) = Inr n
       \<and> count_of (active_role_counts (active_dispatches r)) (req_target_role child)
           + role_load ordered (req_target_role child) \<le> n"
    "sorted_wrt (independent r) ordered"
proof -
  define plan_steps where "plan_steps = step_map_of (np_steps (r_plan r))"
  define conc where "conc = exe_concurrency (pc_execution (cfg_model c))"
  define steps where "steps = known_steps plan_steps (order_children plan_steps children)"
  define repo_ids where "repo_ids = remdups (map ps_repo_id steps)"
  from assms obtain es st where
    mode: "exe_scheduling (pc_execution (cfg_model c)) = Bounded_parallel"
      "conc_same_repository_mode conc = Worktree_barrier"
    and size: "2 \<le> length children" "int (length children) \<le> conc_max_batch_size conc"
    and es: "workspace_batch_errors c r plan_steps (order_children plan_steps children) = Inr es"
    and scan: "foldr_result (scan_workspace_child c r plan_steps)
        \<lparr>ws_role_counts = active_role_counts (active_dispatches r), ws_selected_resources = [],
         ws_selected_paths = [], ws_errors = es\<rparr> (order_children plan_steps children) = Inr st"
    and st: "ws_errors st = []" and ordered: "ordered = order_children plan_steps children"
    unfolding validate_workspace_batch_def Let_def plan_steps_def [symmetric] conc_def [symmetric]
      ok_dests not_less not_not sum.inject by blast
  show "mset ordered = mset children" "2 \<le> length ordered"
    "exe_scheduling (pc_execution (cfg_model c)) = Bounded_parallel"
    "conc_same_repository_mode (exe_concurrency (pc_execution (cfg_model c))) = Worktree_barrier"
    "int (length ordered) \<le> conc_max_batch_size (exe_concurrency (pc_execution (cfg_model c)))"
    using mode size by (simp_all add: ordered order_children_mset conc_def)
  from scan_workspace_errors [OF scan [unfolded plan_steps_def] st] have "es = []" by simp
  from workspace_batch_errors_Nil [OF es [unfolded this], folded ordered] have batch:
    "distinct (map req_step_id ordered)" "\<forall>child \<in> set ordered. dget plan_steps (req_step_id child) \<noteq> None"
    "int (length (active_dispatches r)) + int (length ordered) \<le> conc_max_active_dispatches conc"
    and repo: "\<exists>repo_id repository. config_repository c repo_id = Inr repository
       \<and> repo_commit_policy repository = Commit_required
       \<and> (\<forall>step \<in> set (known_steps plan_steps ordered). ps_repo_id step = repo_id)
       \<and> (\<forall>g \<in> set (active_groups r). wg_repo_id g \<noteq> repo_id)"
    unfolding conc_def by blast+
  then have known: "\<forall>child \<in> set ordered. child_step r child \<noteq> None"
    by (simp add: child_step_def plan_steps_def)
  note clean = scan_workspace_clean [OF scan [unfolded plan_steps_def, folded ordered [unfolded plan_steps_def]] st known]
  show "distinct (map req_step_id ordered)"
    "int (length (active_dispatches r)) + int (length ordered)
       \<le> conc_max_active_dispatches (exe_concurrency (pc_execution (cfg_model c)))"
    using batch by (simp_all add: conc_def)
  from repo obtain repo_id repository where "config_repository c repo_id = Inr repository"
    "repo_commit_policy repository = Commit_required" "\<forall>g \<in> set (active_groups r). wg_repo_id g \<noteq> repo_id"
    and same: "\<forall>step \<in> set (known_steps plan_steps ordered). ps_repo_id step = repo_id"
    by (elim exE conjE)
  moreover have "\<exists>step. child_step r child = Some step \<and> ps_repo_id step = repo_id" if "child \<in> set ordered" for child
  proof -
    from known that obtain step where "child_step r child = Some step" by auto
    with same that show ?thesis unfolding known_steps_member by (auto simp: child_step_def plan_steps_def)
  qed
  ultimately show "\<exists>repo_id repository. config_repository c repo_id = Inr repository
       \<and> repo_commit_policy repository = Commit_required
       \<and> (\<forall>child \<in> set ordered. \<exists>step. child_step r child = Some step \<and> ps_repo_id step = repo_id)
       \<and> (\<forall>g \<in> set (active_groups r). wg_repo_id g \<noteq> repo_id)" by (intro exI [of _ repo_id] exI [of _ repository] conjI ballI) auto
  show "\<forall>child \<in> set ordered. workspace_child_admitted c r child" "sorted_wrt (independent r) ordered"
    using clean by simp_all
  have "count_of (ws_role_counts st) k = count_of (active_role_counts (active_dispatches r)) k + role_load ordered k"
    for k using clean by simp
  moreover have "\<forall>child \<in> set ordered. \<exists>n. capacity_of c (req_target_role child) = Inr n
       \<and> count_of (ws_role_counts st) (req_target_role child) \<le> n" using clean by blast
  ultimately show "\<forall>child \<in> set ordered. \<exists>n. capacity_of c (req_target_role child) = Inr n
       \<and> count_of (active_role_counts (active_dispatches r)) (req_target_role child)
           + role_load ordered (req_target_role child) \<le> n" by simp
qed

end
