(* ===== verification/Readiness_Refresh.thy ===== *)
theory Readiness_Refresh
  imports Step_Life Batch_Admission
begin

text \<open>
  What \<open>refresh_readiness\<close> does to a whole record: exactly the pending steps whose gate is resolved and
  whose dependencies and producers are finished become ready, in one pass, and nothing else changes.
\<close>

section \<open>One step of the pass\<close>

definition finished :: "(string, step_record) dict \<Rightarrow> string \<Rightarrow> bool" where
  "finished steps i \<longleftrightarrow> (\<exists>s. dget steps i = Some s \<and> is_done (s_state s))"

definition satisfied :: "(string, step_record) dict \<Rightarrow> plan_step \<Rightarrow> bool" where
  "satisfied steps step \<longleftrightarrow>
     (\<forall>i \<in> set (ps_depends_on step). finished steps i)
     \<and> (\<forall>a \<in> set (ps_required_inputs step). \<forall>p. art_producer_step_id a = Some p \<longrightarrow> finished steps p)"

definition becomes_ready :: "(string, step_record) dict \<Rightarrow> plan_step \<Rightarrow> step_record \<Rightarrow> bool" where
  "becomes_ready steps step s \<longleftrightarrow> s_state s = Step_pending \<and> s_operator_gate_resolved s \<and> satisfied steps step"

lemma any_result_Inr: "any_result f xs = Inr b \<Longrightarrow> \<not> b \<longleftrightarrow> (\<forall>x \<in> set xs. f x = Inr False)"
proof (induction xs)
  case (Cons x xs)
  then show ?case by (cases "f x") (auto split: if_splits)
qed simp

lemma not_done_Inr: "not_done steps i = Inr False \<longleftrightarrow> finished steps i"
  by (auto simp: not_done_def dict_step_def finished_def bindr_Inr_iff split: option.splits)

lemma producer_not_done_Inr:
  "producer_not_done steps a = Inr False \<longleftrightarrow> (\<forall>p. art_producer_step_id a = Some p \<longrightarrow> finished steps p)"
  by (auto simp: producer_not_done_def not_done_Inr split: option.splits)

lemma refresh_step_Inr:
  assumes "refresh_step e r st step = Inr st'"
  obtains s where "dget (rs_steps st) (ps_step_id step) = Some s"
    "\<not> becomes_ready (rs_steps st) step s \<and> st' = st
     \<or> becomes_ready (rs_steps st) step s \<and> rs_changed st'
        \<and> (\<exists>event s'. transition_step s Step_ready event None None None = Inr s'
             \<and> rs_steps st' = dset (ps_step_id step) s' (rs_steps st))"
proof -
  from assms obtain s where s: "dget (rs_steps st) (ps_step_id step) = Some s"
    by (auto simp: refresh_step_def dict_step_def bindr_Inr_iff split: option.splits)
  show thesis
  proof (rule that [OF s])
    note ready = becomes_ready_def satisfied_def
    have depends: "b \<longleftrightarrow> \<not> (\<forall>i \<in> set (ps_depends_on step). finished (rs_steps st) i)"
      if "any_result (not_done (rs_steps st)) (ps_depends_on step) = Inr b" for b
      using any_result_Inr [OF that] by (auto simp: not_done_Inr)
    have inputs: "b \<longleftrightarrow> \<not> (\<forall>a \<in> set (ps_required_inputs step).
        \<forall>p. art_producer_step_id a = Some p \<longrightarrow> finished (rs_steps st) p)"
      if "any_result (producer_not_done (rs_steps st)) (ps_required_inputs step) = Inr b" for b
      using any_result_Inr [OF that] by (auto simp: producer_not_done_Inr)
    show "\<not> becomes_ready (rs_steps st) step s \<and> st' = st
     \<or> becomes_ready (rs_steps st) step s \<and> rs_changed st'
        \<and> (\<exists>event s'. transition_step s Step_ready event None None None = Inr s'
             \<and> rs_steps st' = dset (ps_step_id step) s' (rs_steps st))"
    proof (cases "s_state s \<noteq> Step_pending \<or> \<not> s_operator_gate_resolved s")
      case True
      with assms s show ?thesis by (simp add: refresh_step_def dict_step_def ready) blast
    next
      case False
      with assms s obtain b where b: "any_result (not_done (rs_steps st)) (ps_depends_on step) = Inr b"
        by (auto simp: refresh_step_def dict_step_def bindr_Inr_iff)
      show ?thesis
      proof (cases b)
        case True
        with False assms s b depends [OF b] show ?thesis by (simp add: refresh_step_def dict_step_def ready)
      next
        case waits: False
        with False assms s b obtain c
          where c: "any_result (producer_not_done (rs_steps st)) (ps_required_inputs step) = Inr c"
          by (auto simp: refresh_step_def dict_step_def bindr_Inr_iff)
        have "becomes_ready (rs_steps st) step s \<longleftrightarrow> \<not> c"
          using False waits depends [OF b] inputs [OF c] by (simp add: ready)
        with False waits assms s b c show ?thesis
          by (cases c) (fastforce simp: refresh_step_def dict_step_def bindr_Inr_iff)+
      qed
    qed
  qed
qed

section \<open>The whole pass\<close>

definition refreshed_to :: "(string, step_record) dict \<Rightarrow> plan_step \<Rightarrow> step_record \<Rightarrow> step_record \<Rightarrow> bool" where
  "refreshed_to steps step s s' \<longleftrightarrow>
     (if becomes_ready steps step s then \<exists>event. transition_step s Step_ready event None None None = Inr s' else s' = s)"

lemma finished_dset:
  assumes "dget steps i = Some s" "is_done (s_state s') \<longleftrightarrow> is_done (s_state s)"
  shows "finished (dset i s' steps) k \<longleftrightarrow> finished steps k"
  using assms by (auto simp: finished_def dget_dset)

lemma becomes_ready_cong:
  "(\<And>i. finished steps i \<longleftrightarrow> finished base i) \<Longrightarrow> becomes_ready steps step s \<longleftrightarrow> becomes_ready base step s"
  by (simp add: becomes_ready_def satisfied_def)

lemma refresh_fold:
  assumes "foldr_result (refresh_step e r) st todo = Inr st'" "distinct (map ps_step_id todo)"
    and "\<And>i. finished (rs_steps st) i \<longleftrightarrow> finished base i"
    and "\<And>step. step \<in> set todo \<Longrightarrow> dget (rs_steps st) (ps_step_id step) = dget base (ps_step_id step)"
  shows "(\<forall>i. i \<notin> ps_step_id ` set todo \<longrightarrow> dget (rs_steps st') i = dget (rs_steps st) i)
    \<and> (\<forall>step \<in> set todo. \<exists>s s'. dget base (ps_step_id step) = Some s
         \<and> dget (rs_steps st') (ps_step_id step) = Some s' \<and> refreshed_to base step s s')
    \<and> (rs_changed st' \<or> st' = st)"
  using assms
proof (induction todo arbitrary: st)
  case (Cons step todo)
  from Cons.prems(1) obtain mid where mid: "refresh_step e r st step = Inr mid"
    and fold: "foldr_result (refresh_step e r) mid todo = Inr st'" by (auto simp: bindr_Inr_iff)
  from mid obtain s where s: "dget (rs_steps st) (ps_step_id step) = Some s"
    and moves: "\<not> becomes_ready (rs_steps st) step s \<and> mid = st
     \<or> becomes_ready (rs_steps st) step s \<and> rs_changed mid
        \<and> (\<exists>event s'. transition_step s Step_ready event None None None = Inr s'
             \<and> rs_steps mid = dset (ps_step_id step) s' (rs_steps st))"
    by (rule refresh_step_Inr)
  note same = becomes_ready_cong [OF Cons.prems(3)]
  from moves obtain s' where s': "dget (rs_steps mid) (ps_step_id step) = Some s'" "refreshed_to base step s s'"
    and rest: "\<forall>i. i \<noteq> ps_step_id step \<longrightarrow> dget (rs_steps mid) i = dget (rs_steps st) i"
    and fin: "\<forall>i. finished (rs_steps mid) i \<longleftrightarrow> finished base i" and changed: "rs_changed mid \<or> mid = st"
  proof (elim disjE conjE exE)
    assume "\<not> becomes_ready (rs_steps st) step s" "mid = st"
    with s same Cons.prems(3) show thesis by (intro that [of s]) (simp_all add: refreshed_to_def)
  next
    fix event s'
    assume ready: "becomes_ready (rs_steps st) step s"
      and t: "transition_step s Step_ready event None None None = Inr s'"
      and steps: "rs_steps mid = dset (ps_step_id step) s' (rs_steps st)" and "rs_changed mid"
    have "is_done (s_state s') \<longleftrightarrow> is_done (s_state s)"
      using ready transition_step_state [OF t] by (simp add: becomes_ready_def is_done_def)
    with finished_dset [OF s] Cons.prems(3) have "\<forall>i. finished (rs_steps mid) i \<longleftrightarrow> finished base i"
      by (simp add: steps)
    then show thesis
      using ready same t \<open>rs_changed mid\<close> by (intro that [of s']) (auto simp: steps refreshed_to_def dget_dset)
  qed
  have IH: "(\<forall>i. i \<notin> ps_step_id ` set todo \<longrightarrow> dget (rs_steps st') i = dget (rs_steps mid) i)
    \<and> (\<forall>step \<in> set todo. \<exists>s s'. dget base (ps_step_id step) = Some s
         \<and> dget (rs_steps st') (ps_step_id step) = Some s' \<and> refreshed_to base step s s')
    \<and> (rs_changed st' \<or> st' = mid)"
  proof (rule Cons.IH [OF fold])
    fix later assume "later \<in> set todo"
    with Cons.prems(2,4) rest show "dget (rs_steps mid) (ps_step_id later) = dget base (ps_step_id later)"
      by (metis distinct.simps(2) imageI list.set_intros(2) list.set_map list.simps(9))
  qed (use Cons.prems(2) fin in auto)
  have base: "dget base (ps_step_id step) = Some s" using s Cons.prems(4) by simp
  have "ps_step_id step \<notin> ps_step_id ` set todo" using Cons.prems(2) by simp
  with IH s' have "dget (rs_steps st') (ps_step_id step) = Some s'" by simp
  with IH s'(2) rest base changed show ?case by auto
qed simp

lemma refresh_readiness_record_Inr:
  assumes "refresh_readiness_record e r = Inr out" "distinct (map ps_step_id (np_steps (r_plan r)))"
    and "step \<in> set (np_steps (r_plan r))"
  shows "\<exists>s s'. dget (r_steps r) (ps_step_id step) = Some s
    \<and> dget (case out of None \<Rightarrow> r_steps r | Some r' \<Rightarrow> r_steps r') (ps_step_id step) = Some s'
    \<and> refreshed_to (r_steps r) step s s'"
proof -
  define start where "start = \<lparr>rs_steps = r_steps r, rs_sequence = r_sequence r, rs_updated_at = r_updated_at r,
     rs_changed = False, rs_events = 0\<rparr>"
  from assms(1) obtain st where fold: "foldr_result (refresh_step e r) start (np_steps (r_plan r)) = Inr st"
    and out: "out = (if \<not> rs_changed st then None
       else Some (r\<lparr>r_steps := rs_steps st, r_sequence := rs_sequence st, r_updated_at := rs_updated_at st\<rparr>))"
    unfolding refresh_readiness_record_def start_def by (auto simp: bindr_Inr_iff)
  have start: "rs_steps start = r_steps r" by (simp add: start_def)
  from refresh_fold [OF fold assms(2), of "r_steps r"] start assms(3) obtain s s' where
    "dget (r_steps r) (ps_step_id step) = Some s" "dget (rs_steps st) (ps_step_id step) = Some s'"
    "refreshed_to (r_steps r) step s s'" and "rs_changed st \<or> st = start" by auto
  then show ?thesis by (auto simp: out start)
qed

end
