(* ===== verification/Usage_Budget.thy ===== *)
theory Usage_Budget
  imports Step_Outcomes
begin

text \<open>
  The usage ledger of a run: its buckets by step, by role and by session each add up to the total of the
  run, and the budget check of a new dispatch reads exactly the limits of the configuration.
\<close>

section \<open>Sums of usage\<close>

definition total_usage :: "(string, usage_amount) dict \<Rightarrow> usage_amount" where
  "total_usage d = foldr (\<lambda>kv acc. add_usage (snd kv) acc) d zero_usage"

lemma total_usage_simps [simp]:
  "total_usage [] = zero_usage"
  "total_usage ((k, u) # d) = add_usage u (total_usage d)"
  by (simp_all add: total_usage_def)

lemma add_usage_commute: "add_usage a b = add_usage b a"
  by (simp add: add_usage_def algebra_simps)

lemma add_usage_assoc: "add_usage (add_usage a b) c = add_usage a (add_usage b c)"
  by (simp add: add_usage_def algebra_simps)

lemma add_zero_usage [simp]: "add_usage zero_usage a = a" "add_usage a zero_usage = a"
  by (simp_all add: add_usage_def zero_usage_def)

lemma bucket_simps [simp]:
  "bucket [] k = zero_usage"
  "bucket ((k', u) # d) k = (if k' = k then u else bucket d k)"
  by (simp_all add: bucket_def)

text \<open>Charging one bucket adds the amount to the sum of all of them.\<close>

lemma total_updated_bucket: "total_usage (updated_usage_bucket d k a) = add_usage (total_usage d) a"
  unfolding updated_usage_bucket_def
proof (induction d)
  case (Cons kv d)
  obtain k' u where kv: "kv = (k', u)" by fastforce
  show ?case
  proof (cases "k' = k")
    case True
    then show ?thesis
      by (simp add: kv add_usage_assoc) (metis add_usage_assoc add_usage_commute)
  next
    case False
    with Cons show ?thesis by (simp add: kv add_usage_assoc)
  qed
qed simp

lemma bucket_updated: "bucket (updated_usage_bucket d k a) k' = (if k' = k then add_usage (bucket d k) a else bucket d k')"
  by (simp add: updated_usage_bucket_def bucket_def dget_dset)

section \<open>The ledger\<close>

definition ledger_balanced :: "usage_ledger \<Rightarrow> bool" where
  "ledger_balanced l \<longleftrightarrow>
     total_usage (ul_by_step l) = ul_run l \<and> total_usage (ul_by_role l) = ul_run l
     \<and> total_usage (ul_by_session l) = ul_run l"

lemma empty_ledger_balanced: "ledger_balanced empty_ledger"
  by (simp add: ledger_balanced_def empty_ledger_def)

lemma ledger_with_balanced: "ledger_balanced l \<Longrightarrow> ledger_balanced (ledger_with l d a)"
  by (simp add: ledger_balanced_def ledger_with_def total_updated_bucket)

lemma record_usage_Inr:
  assumes "record_usage c r d journal journaled usage = Inr r'"
  shows "r' = r \<or> (\<exists>a. journal = Journal_none \<and> usage = Some a \<and> r' = r\<lparr>r_usage := ledger_with (r_usage r) d a\<rparr>)"
  using assms by (auto simp: record_usage_def split: journal_status.splits option.splits if_splits)

lemma record_usage_balanced:
  assumes "record_usage c r d journal journaled usage = Inr r'" "ledger_balanced (r_usage r)"
  shows "ledger_balanced (r_usage r')"
  using record_usage_Inr [OF assms(1)] assms(2) by (auto intro: ledger_with_balanced)

lemma ensure_budget_Inr:
  "ensure_budget_allows_dispatch c session_of r step role_key mode = Inr () \<longleftrightarrow>
     (bud_enabled (pc_budget (cfg_model c)) \<longrightarrow>
        ua_cost_usd (ul_run (r_usage r)) < bud_max_run_cost_usd (pc_budget (cfg_model c))
        \<and> ua_cost_usd (bucket (ul_by_step (r_usage r)) (ps_step_id step)) < bud_max_step_cost_usd (pc_budget (cfg_model c))
        \<and> (\<forall>i. mode = Mode_resume \<longrightarrow> session_of role_key = Some i \<longrightarrow>
             ua_tokens_total (bucket (ul_by_session (r_usage r)) i) < bud_max_context_tokens (pc_budget (cfg_model c))))"
  by (auto simp: ensure_budget_allows_dispatch_def Let_def not_le split: session_mode.splits option.splits)

end
