(* ===== verification/Sample_Project.thy ===== *)
theory Sample_Project
  imports Answered_Steps Readiness_Refresh Usage_Budget Permissions Plan_Approval
begin

text \<open>
  A small concrete project: a configuration with one supervisor, two executors and two reviewers, a plan
  of four steps and a running record of it. The examples of the other theories are instances over it.
\<close>

section \<open>Configuration\<close>

definition sample_policy :: permission_policy where
  "sample_policy = \<lparr>pp_default = Deny, pp_actions = map (\<lambda>a. (a, Allow)) PERMISSION_ACTIONS\<rparr>"

definition sample_role :: role_definition where
  "sample_role = \<lparr>role_model = ''m/x'', role_variant = ''v'', role_display = ''r'',
     role_permission_policy = ''base'', role_mcp_tools = []\<rparr>"

definition sample_concurrency :: concurrency_definition where
  "sample_concurrency = \<lparr>conc_max_active_dispatches = 2, conc_max_batch_size = 2,
     conc_role_capacities = [(''e1'', 1), (''e2'', 1), (''r1'', 1), (''r2'', 1)],
     conc_same_repository_mode = Worktree_barrier, conc_worktree_root = ''/w'', conc_worktree_branch_prefix = ''wf''\<rparr>"

definition sample_execution :: execution_definition where
  "sample_execution = \<lparr>exe_mode = Mock_workflow_test, exe_verification_backend = Direct_test_v1,
     exe_scheduling = Bounded_parallel, exe_concurrency = sample_concurrency, exe_default_repo_id = ''app'',
     exe_timeout_seconds = 60, exe_max_rounds_per_step = 3,
     exe_stall_policy = \<lparr>stall_maximum_retries_per_step = 1, stall_cooldown_seconds = 0,
       stall_on_exhausted = Exhausted_ask\<rparr>, exe_underspec_mode = Underspec_ask\<rparr>"

definition sample_repository :: repository_definition where
  "sample_repository = \<lparr>repo_root = ''/a'', repo_expected_remote = \<lparr>rem_name = ''o'', rem_url = ''u''\<rparr>,
     repo_default_branch = ''main'', repo_evidence_roots = [''docs''], repo_writable_roots = [''lib''],
     repo_external_roots = [], repo_commit_policy = Commit_required, repo_permission_policy = ''base'',
     repo_allow_shared_writable_roots = False\<rparr>"

definition sample_config :: config where
  "sample_config =
    \<lparr>cfg_model =
      \<lparr>pc_project_id = ''p'', pc_state_heartbeat_seconds = 5, pc_state_stale_after_seconds = 30,
       pc_repositories = [(''app'', sample_repository), (''web'', sample_repository)],
       pc_roles = \<lparr>roles_supervisor = [(''s1'', sample_role)],
         roles_executors = [(''e1'', sample_role), (''e2'', sample_role)],
         roles_reviewers = [(''r1'', sample_role), (''r2'', sample_role)]\<rparr>,
       pc_profile_id = ''std'', pc_execution = sample_execution,
       pc_review_policy = \<lparr>rp_mandatory_review = False, rp_critical_risk_tags = [], rp_allow_operator_waiver = True\<rparr>,
       pc_budget = \<lparr>bud_enabled = True, bud_max_run_cost_usd = 10, bud_max_step_cost_usd = 5,
         bud_max_context_tokens = 1000, bud_on_limit = Limit_ask\<rparr>,
       pc_permission_policies = \<lparr>pps_global_policy = ''base'', pps_project_policy = ''base'',
         pps_role_class_policies = \<lparr>rcp_supervisor = ''base'', rcp_executor = ''base'', rcp_reviewer = ''base''\<rparr>,
         pps_policies = [(''base'', sample_policy)]\<rparr>,
       pc_cluster_preflight = None, pc_cluster_mutation = None,
       pc_mcp = Some \<lparr>mcp_environment_passthrough = [], mcp_servers = []\<rparr>\<rparr>,
     cfg_profiles = \<lparr>pd_profiles = [(''std'', \<lparr>prof_review_schedule = Schedule_always,
         prof_multi_review = Multi_on_every_review, prof_reviewer_role_keys = [''r1'', ''r2''],
         prof_required_acceptances = 2\<rparr>)], pd_default = ''std''\<rparr>\<rparr>"

section \<open>Plan\<close>

definition sample_step :: "int \<Rightarrow> string \<Rightarrow> string \<Rightarrow> string list \<Rightarrow> string \<Rightarrow> string \<Rightarrow> plan_step" where
  "sample_step ordinal step_id repo_id depends_on resource scope =
    \<lparr>ps_ordinal = ordinal, ps_step_id = step_id, ps_title = ''t'', ps_repo_id = repo_id, ps_depends_on = depends_on,
     ps_required_inputs = [],
     ps_produced_outputs = [\<lparr>art_artifact_id = ''out-'' @ step_id, art_producer_step_id = None, art_description = ''d''\<rparr>],
     ps_resource_locks = [\<lparr>lock_resource_id = resource, lock_mode = Lock_write\<rparr>], ps_risk_tags = [],
     ps_authorization = \<lparr>auth_authorized_actions = [''inspect'', ''modify''], auth_writable_paths = [scope],
       auth_requires_operator_approval = False\<rparr>,
     ps_acceptance_criteria = [\<lparr>crit_criterion_id = ''c1'', crit_description = ''d'', crit_check =
       \<lparr>chk_argv = [''make''], chk_timeout_seconds = 60, chk_max_output_bytes = 4096, chk_expected_exit_codes = [0]\<rparr>\<rparr>],
     ps_evidence_requirements = [\<lparr>ev_artifact_id = ''report'', ev_relative_path = ''docs/r.md'',
       ev_media_type = Evidence_markdown\<rparr>],
     ps_review = \<lparr>rev_required = False, rev_reviewer_role_keys = [], rev_required_acceptances = 0\<rparr>,
     ps_retry = \<lparr>rt_max_executor_attempts = 3, rt_max_reviewer_attempts = 3, rt_on_failed = On_retry,
       rt_on_blocked = On_retry, rt_on_changes_requested = On_retry, rt_escalation_role_key = None\<rparr>,
     ps_cluster_operation = None\<rparr>"

definition step_a :: plan_step where "step_a = sample_step 1 ''a'' ''app'' [] ''db'' ''lib/a/''"
definition step_b :: plan_step where "step_b = sample_step 2 ''b'' ''app'' [''a''] ''db'' ''lib/b/''"
definition step_c :: plan_step where "step_c = sample_step 3 ''c'' ''app'' [] ''ui'' ''lib/c/''"
definition step_d :: plan_step where "step_d = sample_step 4 ''d'' ''web'' [] ''api'' ''lib/d/''"

definition sample_plan :: normalized_plan where
  "sample_plan = \<lparr>np_schema_version = 2, np_plan_id = ''plan'',
     np_sources = [\<lparr>src_source_id = ''s'', src_root = Root_plans, src_relative_path = ''p.md'',
       src_sha256 = replicate 64 (CHR ''a''), src_media_type = Source_markdown\<rparr>],
     np_steps = [step_a, step_b, step_c, step_d]\<rparr>"

section \<open>A running record\<close>

definition sample_event :: transition_event where
  "sample_event = \<lparr>te_event_id = ''event-1'', te_sequence = 1, te_actor = Actor_dispatcher, te_reason = ''r'',
     te_correlation_id = ''c'', te_occurred_at = 100\<rparr>"

definition sample_obligation :: "string \<Rightarrow> compiled_review_obligation" where
  "sample_obligation i = \<lparr>cro_step_id = i, cro_required = True, cro_reviewer_role_keys = [''r1'', ''r2''],
     cro_required_acceptances = 2, cro_waivable = True, cro_source_policy_digest = replicate 64 (CHR ''b'')\<rparr>"

definition sample_run_policy :: run_policy where
  "sample_run_policy = \<lparr>pol_profile_id = ''std'', pol_profile_digest = replicate 64 (CHR ''b''),
     pol_review_obligations = map (\<lambda>i. (i, sample_obligation i)) [''a'', ''b'', ''c'', ''d''],
     pol_underspec_mode = Underspec_ask, pol_policy_digest = replicate 64 (CHR ''c'')\<rparr>"

definition sample_step_record :: "plan_step \<Rightarrow> step_status \<Rightarrow> step_record" where
  "sample_step_record step st = (new_step_record step sample_event)\<lparr>s_state := st\<rparr>"

definition sample_run :: run_record where
  "sample_run = \<lparr>r_run_id = ''run-1'', r_project_id = ''p'', r_config_digest = replicate 64 (CHR ''d''),
     r_plan = sample_plan, r_plan_digest = replicate 64 (CHR ''e''),
     r_plan_approval = \<lparr>pa_plan_digest = replicate 64 (CHR ''e''), pa_source_digest = replicate 64 (CHR ''f''),
       pa_operator_decision_ref = ''op'', pa_approved_at = 1\<rparr>,
     r_state = Run_running, r_sequence = 1,
     r_steps = [(''a'', sample_step_record step_a Step_ready), (''b'', sample_step_record step_b Step_pending),
       (''c'', sample_step_record step_c Step_ready), (''d'', sample_step_record step_d Step_ready)],
     r_dispatches = [], r_batches = [], r_workspace_groups = [], r_operator_request = None,
     r_policy = Some sample_run_policy, r_usage = empty_ledger, r_created_at = 1, r_updated_at = 100\<rparr>"

definition sample_request :: "string \<Rightarrow> string \<Rightarrow> dispatch_request" where
  "sample_request step_id role_key = \<lparr>req_step_id = step_id, req_target_role = role_key,
     req_session_mode = Mode_new, req_repo_id = None, req_prompt = ''go'', req_rationale = None\<rparr>"

definition sample_env :: env where
  "sample_env = \<lparr>env_uuid = (\<lambda>n. nat_digits n), env_now = (\<lambda>n. 200 + int n)\<rparr>"

lemmas sample_defs = sample_policy_def sample_role_def sample_concurrency_def sample_execution_def
  sample_repository_def sample_config_def sample_step_def step_a_def step_b_def step_c_def step_d_def sample_plan_def
  sample_event_def sample_obligation_def sample_run_policy_def sample_step_record_def sample_run_def
  sample_request_def sample_env_def

lemma sample_plan_accepted: "normalized_plan_errors sample_plan = []"
  by code_simp

lemma sample_config_valid: "validate_references (\<lambda>_. True) (cfg_model sample_config) = []"
  by code_simp

lemma sample_config_kinds: "config_role_kind sample_config ''e1'' = Inr Executor"
  "config_role_kind sample_config ''r1'' = Inr Reviewer"
  by code_simp+

section \<open>Signed records\<close>

text \<open>
  The digests of a valid record are those of its plan. They are left symbolic: the remaining conditions
  are evaluated apart from them.
\<close>

definition signed :: "run_record \<Rightarrow> run_record" where
  "signed r = r\<lparr>r_plan_digest := plan_digest (r_plan r),
     r_plan_approval := \<lparr>pa_plan_digest = plan_digest (r_plan r), pa_source_digest = source_digest (r_plan r),
       pa_operator_decision_ref = ''op'', pa_approved_at = 1\<rparr>\<rparr>"

definition unsigned_errors :: "run_record \<Rightarrow> verror list" where
  "unsigned_errors r =
     field_errors [(''run_id'', identifier_ok (r_run_id r)), (''project_id'', identifier_ok (r_project_id r)),
        (''config_digest'', sha256_ok (r_config_digest r)), (''sequence'', 0 \<le> r_sequence r)]
     @ normalized_plan_errors (r_plan r)
     @ dict_errors step_record_errors (r_steps r)
     @ dict_errors dispatch_record_errors (r_dispatches r)
     @ dict_errors batch_record_errors (r_batches r)
     @ dict_errors workspace_group_errors (r_workspace_groups r)
     @ (case r_operator_request r of None \<Rightarrow> [] | Some q \<Rightarrow> operator_request_errors q)
     @ (case r_policy r of None \<Rightarrow> [] | Some p \<Rightarrow> run_policy_errors p)
     @ usage_ledger_errors (r_usage r)
     @ first_rule [(set (dkeys (r_steps r)) \<noteq> set (map ps_step_id (np_steps (r_plan r))), ''steps'')]
     @ run_policy_reference_errors r @ run_batch_reference_errors r @ run_group_reference_errors r
     @ run_operator_errors r"

lemma digests_ok: "sha256_ok (plan_digest p)" "sha256_ok (source_digest p)"
  by (simp_all add: plan_digest_def source_digest_def digest_json_ok)

lemma signed_errors: "run_record_errors (signed r) = [] \<longleftrightarrow> unsigned_errors r = []"
proof -
  have frame: "run_policy_reference_errors (signed r) = run_policy_reference_errors r"
    "run_batch_reference_errors (signed r) = run_batch_reference_errors r"
    "run_group_reference_errors (signed r) = run_group_reference_errors r"
    "run_operator_errors (signed r) = run_operator_errors r"
    by (simp_all add: signed_def run_policy_reference_errors_def run_batch_reference_errors_def
        run_group_reference_errors_def run_operator_errors_def split: option.split)
  have "identifier_ok ''op''" by code_simp
  then have "plan_approval_errors (r_plan_approval (signed r)) = []"
    using digests_ok by (simp add: signed_def plan_approval_errors_def)
  moreover have "validate_plan_approval (r_plan (signed r)) (r_plan_approval (signed r)) = Inr ()"
    by (simp add: validate_plan_approval_Inr signed_def)
  ultimately show ?thesis
    using digests_ok frame
    unfolding run_record_errors_def run_field_errors_def validate_run_record_def unsigned_errors_def
    by (auto simp: signed_def)
qed

lemma sample_run_plan: "r_plan sample_run = sample_plan"
  by (simp add: sample_run_def)

lemma sample_run_unsigned: "unsigned_errors sample_run = []"
  unfolding unsigned_errors_def append_is_Nil_conv sample_run_plan
  by (intro conjI, rule_tac [2] sample_plan_accepted) code_simp+

lemma unsigned_errors_state:
  assumes "unsigned_errors r = []" "s \<noteq> Run_waiting_operator" "r_operator_request r = None" "0 \<le> q"
  shows "unsigned_errors (r\<lparr>r_state := s, r_sequence := q, r_updated_at := t\<rparr>) = []"
  using assms unfolding unsigned_errors_def append_is_Nil_conv
  by (auto simp: run_policy_reference_errors_def run_batch_reference_errors_def run_group_reference_errors_def
      run_operator_errors_def split: option.splits)

section \<open>Operations on the sample\<close>

lemma sample_batch:
  "validate_batch sample_config sample_run [sample_request ''d'' ''e2'', sample_request ''a'' ''e1'']
     = Inr [sample_request ''a'' ''e1'', sample_request ''d'' ''e2'']"
  by code_simp

lemma sample_workspace_batch:
  "validate_workspace_batch sample_config sample_run [sample_request ''a'' ''e1'', sample_request ''c'' ''e2'']
     = Inr [sample_request ''a'' ''e1'', sample_request ''c'' ''e2'']"
  by code_simp

definition serial_config :: config where
  "serial_config = (sample_config\<lparr>cfg_model := (cfg_model sample_config)
     \<lparr>pc_execution := sample_execution\<lparr>exe_scheduling := Sequential_scheduling\<rparr>\<rparr>\<rparr>)"

lemma serial_admission_parts:
  "scheduling_guard serial_config sample_run (sample_request ''a'' ''e1'') = Inr ()"
  "find_plan_step sample_run ''a'' = Inr step_a"
  "dispatch_role_kind serial_config ''e1'' = Inr Worker_executor"
  "role_scoped_authorized_actions (auth_authorized_actions (ps_authorization step_a)) Executor
     = Inr [''inspect'', ''modify'']"
  "record_step sample_run (ps_step_id step_a) = Inr (sample_step_record step_a Step_ready)"
  "ensure_budget_allows_dispatch serial_config (\<lambda>_. None) sample_run step_a ''e1'' Mode_new = Inr ()"
  "validate_step_readiness serial_config (\<lambda>_ _. None) sample_run step_a Worker_executor Mode_new ''e1'' = Inr ()"
  "s_operator_gate_resolved (sample_step_record step_a Step_ready)"
  "r_state sample_run = Run_running"
  by code_simp+

lemma sample_admission:
  "admit_dispatch sample_env serial_config (Inr ()) (\<lambda>_ _. None) sample_run (sample_request ''a'' ''e1'')
     = Inr (Admitted step_a Worker_executor [''inspect'', ''modify''])"
proof -
  have "req_step_id (sample_request ''a'' ''e1'') = ''a''" "req_repo_id (sample_request ''a'' ''e1'') = None"
    "req_target_role (sample_request ''a'' ''e1'') = ''e1''" "req_session_mode (sample_request ''a'' ''e1'') = Mode_new"
    "role_kind_of_worker Worker_executor = Executor"
    by (simp_all add: sample_request_def role_kind_of_worker_def)
  then show ?thesis by (simp add: admit_dispatch_def serial_admission_parts)
qed

end
