(* ===== verification/Sample_Compilation.thy ===== *)
theory Sample_Compilation
  imports Sample_Project
begin

text \<open>
  The sample configuration compiles: the profile of its first step, the obligation and the run policy of a
  plan of that step. Digests stay symbolic.
\<close>

definition sample_profile :: profile_definition where
  "sample_profile = \<lparr>prof_review_schedule = Schedule_always, prof_multi_review = Multi_on_every_review,
     prof_reviewer_role_keys = [''r1'', ''r2''], prof_required_acceptances = 2\<rparr>"

lemma sample_compilation_parts:
  "selected_profile sample_config = Inr sample_profile" "profile_definition_errors sample_profile = []"
  "review_required sample_config sample_profile step_a" "profile_applies sample_config sample_profile step_a"
  "compiled_acceptances sample_config sample_profile step_a = 2"
  "compiled_roles sample_config sample_profile step_a = [''r1'', ''r2'']"
  "review_obligation_errors (ps_review step_a) = []" "identifier_ok (ps_step_id step_a)"
  "rt_max_reviewer_attempts (ps_retry step_a) = 3"
  by code_simp+

lemma sample_compilation: "\<exists>ob. compile_review_obligation sample_config step_a = Inr ob"
proof -
  obtain digest where digest: "profile_digest sample_config = Inr digest"
    using profile_digest_selected [OF sample_compilation_parts(1)] by blast
  have "compiled_acceptances sample_config sample_profile step_a
      \<le> int (length (compiled_roles sample_config sample_profile step_a))"
    by (simp add: sample_compilation_parts)
  note valid = compiled_obligation_valid [OF sample_compilation_parts(7,2,8) profile_digest_ok [OF digest] this]
  show ?thesis
    unfolding compile_review_obligation_def sample_compilation_parts(1) digest bindr.simps Let_def
    using valid [of "rp_allow_operator_waiver (pc_review_policy (cfg_model sample_config)) \<and> \<not> review_mandatory sample_config step_a"]
    by (simp add: sample_compilation_parts)
qed

lemma sample_run_policy_compiles: "\<exists>p. compile_run_policy sample_config (sample_plan\<lparr>np_steps := [step_a]\<rparr>) = Inr p"
proof -
  obtain ob where ob: "compile_review_obligation sample_config step_a = Inr ob" using sample_compilation by blast
  then have valid: "compiled_review_obligation_errors ob = []"
    by (rule compile_review_obligation_Inr)
  obtain digest where digest: "profile_digest sample_config = Inr digest"
    using profile_digest_selected [OF sample_compilation_parts(1)] by blast
  have ids: "identifier_ok (ps_step_id step_a)" "identifier_ok (pc_profile_id (cfg_model sample_config))" by code_simp+
  show ?thesis
    unfolding compile_run_policy_def compile_obligations_def
    by (simp add: sample_compilation_parts(1) digest ob add_obligation_def Let_def run_policy_errors_def ids valid
        profile_digest_ok [OF digest] digest_json_ok)
qed

end
