(* ===== verification/Redaction.thy ===== *)
theory Redaction
  imports Digest "HOL-Library.Sublist"
begin

text \<open>
  Redaction before persistence: \<open>redact_text\<close>, \<open>redact_value\<close> and the private JSON text of
  \<open>src/src/dispatcher/security.py\<close>, which every row that \<open>state_store.py\<close> writes goes through. The
  three patterns are regular expressions; the theory gives the part of Python's \<open>re\<close> they use: an
  ordered backtracking matcher (alternatives left to right, repetitions greedy), word boundaries on
  Unicode word characters, and \<open>sub\<close>, which replaces the leftmost matches from left to right. The file
  helpers of the module (modes, atomic replacement) act on the file system and are not modelled.
\<close>

section \<open>Regular expressions\<close>

text \<open>
  Characters are compared as Python compares \<open>str\<close> patterns on the code points below 256: \<open>\s\<close> and
  \<open>\w\<close> are the Unicode classes, \<open>IGNORECASE\<close> folds the ASCII letters of the patterns.
\<close>

definition is_space :: "char \<Rightarrow> bool" where
  "is_space c \<longleftrightarrow>
     (let n = code_point c in 9 \<le> n \<and> n \<le> 13 \<or> 28 \<le> n \<and> n \<le> 32 \<or> n = 133 \<or> n = 160)"

definition is_word :: "char \<Rightarrow> bool" where
  "is_word c \<longleftrightarrow>
     is_digit c \<or> is_ascii_alpha c \<or> c = CHR ''_''
     \<or> (let n = code_point c in
          n \<in> {170, 178, 179, 181, 185, 186, 188, 189, 190}
          \<or> 192 \<le> n \<and> n \<noteq> 215 \<and> n \<noteq> 247)"

definition lower_char :: "char \<Rightarrow> char" where
  "lower_char c =
     (let n = code_point c in
      if 65 \<le> n \<and> n \<le> 90 \<or> 192 \<le> n \<and> n \<le> 222 \<and> n \<noteq> 215 then char_of (n + 32) else c)"

text \<open>\<open>str.lower()\<close>.\<close>

definition lower_text :: "string \<Rightarrow> string" where
  "lower_text s = map lower_char s"

text \<open>A position in the subject: the characters before it, last first, the rest, and group 1.\<close>

record cursor =
  cur_before :: string
  cur_rest :: string
  cur_group :: string

datatype regex =
    Nothing
  | One "char \<Rightarrow> bool"
  | Many "char \<Rightarrow> bool"
  | Boundary
  | Seq regex regex
  | Alt regex regex
  | Group regex

fun greedy :: "(char \<Rightarrow> bool) \<Rightarrow> string \<Rightarrow> string \<Rightarrow> (string \<times> string) list" where
  "greedy P behind [] = [(behind, [])]"
| "greedy P behind (c # rest) =
     (if P c then greedy P (c # behind) rest @ [(behind, c # rest)] else [(behind, c # rest)])"

definition at_boundary :: "cursor \<Rightarrow> bool" where
  "at_boundary cur \<longleftrightarrow>
     (case cur_before cur of [] \<Rightarrow> False | c # _ \<Rightarrow> is_word c)
     \<noteq> (case cur_rest cur of [] \<Rightarrow> False | c # _ \<Rightarrow> is_word c)"

text \<open>The ways to match at a position, in the order in which the matcher tries them.\<close>

fun run :: "regex \<Rightarrow> cursor \<Rightarrow> cursor list" where
  "run Nothing cur = [cur]"
| "run (One P) cur =
     (case cur_rest cur of
        [] \<Rightarrow> []
      | c # rest \<Rightarrow> if P c then [cur\<lparr>cur_before := c # cur_before cur, cur_rest := rest\<rparr>] else [])"
| "run (Many P) cur =
     map (\<lambda>(behind, rest). cur\<lparr>cur_before := behind, cur_rest := rest\<rparr>)
       (greedy P (cur_before cur) (cur_rest cur))"
| "run Boundary cur = (if at_boundary cur then [cur] else [])"
| "run (Seq p q) cur = concat (map (run q) (run p cur))"
| "run (Alt p q) cur = run p cur @ run q cur"
| "run (Group p) cur =
     map (\<lambda>cur'. cur'\<lparr>cur_group := take (length (cur_rest cur) - length (cur_rest cur')) (cur_rest cur)\<rparr>)
       (run p cur)"

text \<open>
  \<open>pattern.sub(replacement, text)\<close>: \<open>replacement\<close> receives group 1 and the matched text. The patterns
  of the module never match the empty string; an empty match would be passed over.
\<close>

function substitute :: "regex \<Rightarrow> (string \<Rightarrow> string \<Rightarrow> string) \<Rightarrow> string \<Rightarrow> string \<Rightarrow> string" where
  "substitute p replacement behind rest =
     (case run p \<lparr>cur_before = behind, cur_rest = rest, cur_group = []\<rparr> of
        [] \<Rightarrow> (case rest of [] \<Rightarrow> [] | c # cs \<Rightarrow> c # substitute p replacement (c # behind) cs)
      | m # _ \<Rightarrow>
          if length (cur_rest m) < length rest then
            replacement (cur_group m) (take (length rest - length (cur_rest m)) rest)
            @ substitute p replacement (cur_before m) (cur_rest m)
          else (case rest of [] \<Rightarrow> [] | c # cs \<Rightarrow> c # substitute p replacement (c # behind) cs))"
  by pat_completeness auto
termination by (relation "measure (\<lambda>(p, replacement, behind, rest). length rest)") auto

declare substitute.simps [simp del]

definition sub :: "regex \<Rightarrow> (string \<Rightarrow> string \<Rightarrow> string) \<Rightarrow> string \<Rightarrow> string" where
  "sub p replacement s = substitute p replacement [] s"

fun seqs :: "regex list \<Rightarrow> regex" where
  "seqs [] = Nothing"
| "seqs [p] = p"
| "seqs (p # ps) = Seq p (seqs ps)"

fun alts :: "regex list \<Rightarrow> regex" where
  "alts [] = One (\<lambda>_. False)"
| "alts [p] = p"
| "alts (p # ps) = Alt p (alts ps)"

definition any_of :: "string \<Rightarrow> regex" where
  "any_of cs = One (\<lambda>c. c \<in> set cs)"

definition maybe :: "regex \<Rightarrow> regex" where
  "maybe p = Alt p Nothing"

definition some_of :: "(char \<Rightarrow> bool) \<Rightarrow> regex" where
  "some_of P = Seq (One P) (Many P)"

text \<open>A literal of the pattern, under \<open>IGNORECASE\<close>.\<close>

definition same_letter :: "char \<Rightarrow> char \<Rightarrow> bool" where
  "same_letter a b \<longleftrightarrow>
     a = b \<or> is_ascii_alpha a \<and> is_ascii_alpha b \<and> lower_char a = lower_char b"

definition literal :: "string \<Rightarrow> regex" where
  "literal s = seqs (map (\<lambda>c. One (same_letter c)) s)"

section \<open>The patterns\<close>

definition is_alnum_ascii :: "char \<Rightarrow> bool" where
  "is_alnum_ascii c \<longleftrightarrow> is_ascii_alpha c \<or> is_digit c"

definition URL_CREDENTIAL_PATTERN :: regex where
  "URL_CREDENTIAL_PATTERN = seqs
     [Group (seqs [One is_ascii_alpha, Many (\<lambda>c. is_alnum_ascii c \<or> c \<in> set ''+.-''), literal ''://'']),
      some_of (\<lambda>c. \<not> is_space c \<and> c \<notin> set ''/@:''), any_of '':'',
      some_of (\<lambda>c. \<not> is_space c \<and> c \<notin> set ''/@''), any_of ''@'']"

definition BEARER_PATTERN :: regex where
  "BEARER_PATTERN = seqs
     [Boundary, literal ''bearer'', some_of is_space,
      some_of (\<lambda>c. is_alnum_ascii c \<or> c \<in> set ''._~+/=-'')]"

definition secret_word :: regex where
  "secret_word = alts
     [seqs [literal ''api'', maybe (any_of ''_-''), literal ''key''], literal ''authorization'',
      literal ''cookie'', literal ''credential'', literal ''password'', literal ''secret'', literal ''token'']"

definition secret_text :: regex where
  "secret_text = alts
     [seqs [any_of [CHR 0x22], Many (\<lambda>c. c \<noteq> CHR 0x22), any_of [CHR 0x22]],
      seqs [any_of [CHR 0x27], Many (\<lambda>c. c \<noteq> CHR 0x27), any_of [CHR 0x27]],
      some_of (\<lambda>c. \<not> is_space c \<and> c \<notin> set '',;'')]"

definition ASSIGNMENT_PATTERN :: regex where
  "ASSIGNMENT_PATTERN = seqs
     [Boundary, secret_word, Boundary, Many is_space, any_of '':='', Many is_space,
      maybe (Seq (literal ''bearer'') (some_of is_space)), secret_text]"

section \<open>Redaction\<close>

definition redacted :: string where
  "redacted = ''[REDACTED]''"

definition redact_assignment :: "string \<Rightarrow> string" where
  "redact_assignment value =
     (let separator = (if CHR '':'' \<in> set value \<and> CHR ''='' \<notin> set value then CHR '':'' else CHR ''='')
      in takeWhile (\<lambda>c. c \<noteq> separator) value @ [separator] @ redacted)"

definition redact_text :: "string \<Rightarrow> string" where
  "redact_text value =
     (let value = sub URL_CREDENTIAL_PATTERN (\<lambda>group _. group @ redacted @ ''@'') value;
          value = sub BEARER_PATTERN (\<lambda>_ _. ''Bearer '' @ redacted) value
      in sub ASSIGNMENT_PATTERN (\<lambda>_ text. redact_assignment text) value)"

definition SECRET_FIELD_NAMES :: "string list" where
  "SECRET_FIELD_NAMES =
     [''api_key'', ''apikey'', ''cookie'', ''credential'', ''password'', ''secret'', ''token'']"

text \<open>\<open>_redact_mapping_item\<close> is the member case of \<open>redact_value\<close>.\<close>

fun is_text :: "json \<Rightarrow> bool" where
  "is_text (JStr _) = True"
| "is_text _ = False"

definition hides :: "string \<Rightarrow> json \<Rightarrow> bool" where
  "hides key value \<longleftrightarrow>
     lower_text key \<in> set SECRET_FIELD_NAMES \<or> lower_text key = ''authorization'' \<and> is_text value"

fun redact_value :: "json \<Rightarrow> json"
  and redact_mapping_item :: "string \<times> json \<Rightarrow> string \<times> json" where
  "redact_value (JObj kvs) = JObj (map redact_mapping_item kvs)"
| "redact_value (JArr xs) = JArr (map redact_value xs)"
| "redact_value (JStr s) = JStr (redact_text s)"
| "redact_value j = j"
| "redact_mapping_item (key, value) =
     (key, if hides key value then JStr redacted else redact_value value)"

section \<open>Texts a pattern leaves alone\<close>

text \<open>\<open>needs Q p\<close>: no match of \<open>p\<close> goes without a character that satisfies \<open>Q\<close>.\<close>

fun needs :: "(char \<Rightarrow> bool) \<Rightarrow> regex \<Rightarrow> bool" where
  "needs Q (One P) \<longleftrightarrow> (\<forall>c. P c \<longrightarrow> Q c)"
| "needs Q (Seq p q) \<longleftrightarrow> needs Q p \<or> needs Q q"
| "needs Q (Alt p q) \<longleftrightarrow> needs Q p \<and> needs Q q"
| "needs Q (Group p) \<longleftrightarrow> needs Q p"
| "needs Q p \<longleftrightarrow> False"

lemma greedy_suffix: "(b, r) \<in> set (greedy P behind rest) \<Longrightarrow> suffix r rest"
  by (induction P behind rest rule: greedy.induct) (auto split: if_splits intro: suffix_ConsI)

lemma run_suffix: "cur' \<in> set (run p cur) \<Longrightarrow> suffix (cur_rest cur') (cur_rest cur)"
proof (induction p cur arbitrary: cur' rule: run.induct)
  case (5 p q cur)
  then show ?case by (fastforce dest: suffix_order.order_trans)
next
  case (2 P cur)
  then show ?case by (cases "cur_rest cur") (auto split: if_splits intro: suffix_ConsI)
qed (auto split: list.splits if_splits dest: greedy_suffix intro: suffix_ConsI)

lemma run_needs:
  "cur' \<in> set (run p cur) \<Longrightarrow> needs Q p \<Longrightarrow> \<exists>c \<in> set (cur_rest cur). Q c"
proof (induction p cur arbitrary: cur' rule: run.induct)
  case (5 p q cur)
  then obtain mid where mid: "mid \<in> set (run p cur)" "cur' \<in> set (run q mid)" by auto
  from "5.prems"(2) show ?case
  proof (cases "needs Q p")
    case True
    with "5.IH"(1) mid(1) show ?thesis by blast
  next
    case False
    with "5.prems"(2) have "needs Q q" by simp
    with "5.IH"(2) mid have "\<exists>c \<in> set (cur_rest mid). Q c" by blast
    with run_suffix [OF mid(1)] show ?thesis by (meson set_mono_suffix subsetD)
  qed
next
  case (2 P cur)
  then show ?case by (cases "cur_rest cur") (auto split: if_splits)
qed (auto split: if_splits)

lemma run_without: "needs Q p \<Longrightarrow> list_all (\<lambda>c. \<not> Q c) (cur_rest cur) \<Longrightarrow> run p cur = []"
  using run_needs by (metis list.set_intros(1) list_all_iff neq_Nil_conv)

lemma substitute_without:
  "needs Q p \<Longrightarrow> list_all (\<lambda>c. \<not> Q c) rest \<Longrightarrow> substitute p f behind rest = rest"
proof (induction rest arbitrary: behind)
  case Nil
  then show ?case by (subst substitute.simps) (simp add: run_without)
next
  case (Cons c rest)
  then show ?case by (subst substitute.simps) (simp add: run_without)
qed

lemma sub_without: "needs Q p \<Longrightarrow> list_all (\<lambda>c. \<not> Q c) s \<Longrightarrow> sub p f s = s"
  by (simp add: sub_def substitute_without)

lemma greedy_all: "list_all P s \<Longrightarrow> \<exists>rs. greedy P behind s = (rev s @ behind, []) # rs"
proof (induction s arbitrary: behind)
  case (Cons c s)
  then obtain rs where "greedy P (c # behind) s = (rev s @ c # behind, []) # rs" by auto
  with Cons.prems show ?case by simp
qed simp

text \<open>A match of the whole text is replaced as a whole.\<close>

lemma sub_whole:
  assumes "run p \<lparr>cur_before = [], cur_rest = s, cur_group = []\<rparr> = m # ms" "cur_rest m = []" "s \<noteq> []"
    and "run p \<lparr>cur_before = cur_before m, cur_rest = [], cur_group = []\<rparr> = []"
  shows "sub p f s = f (cur_group m) s"
  unfolding sub_def
  by (subst substitute.simps, subst (2) substitute.simps) (use assms in simp)

section \<open>Assignments in a text\<close>

text \<open>
  The names the assignment pattern knows, in lower case, and the values without blanks, separators,
  quotes or an at sign.
\<close>

definition plain_secret :: "string \<Rightarrow> bool" where
  "plain_secret s \<longleftrightarrow> s \<noteq> [] \<and> list_all (\<lambda>c. \<not> is_space c \<and> c \<notin> set '',;@'' \<and> c \<noteq> CHR 0x22 \<and> c \<noteq> CHR 0x27) s"

definition secret_words :: "string list" where
  "secret_words = [''api_key'', ''api-key'', ''apikey'', ''authorization'', ''cookie'', ''credential'', ''password'', ''secret'', ''token'']"

definition assignment_tail :: regex where
  "assignment_tail = seqs [Many is_space, any_of '':='', Many is_space,
      maybe (Seq (literal ''bearer'') (some_of is_space)), secret_text]"

lemma ASSIGNMENT_PATTERN_split:
  "ASSIGNMENT_PATTERN = Seq Boundary (Seq secret_word (Seq Boundary assignment_tail))"
  by (simp add: ASSIGNMENT_PATTERN_def assignment_tail_def)

lemma needs_space_bearer: "needs is_space (Seq (literal ''bearer'') (some_of is_space))"
  by (simp add: some_of_def)

lemma run_secret_text:
  assumes "plain_secret s"
  shows "\<exists>ms. run secret_text \<lparr>cur_before = b, cur_rest = s, cur_group = g\<rparr>
     = \<lparr>cur_before = rev s @ b, cur_rest = [], cur_group = g\<rparr> # ms"
proof -
  obtain c t where s: "s = c # t" using assms by (auto simp: plain_secret_def neq_Nil_conv)
  obtain rs where "greedy (\<lambda>c. \<not> is_space c \<and> c \<notin> set '',;'') (c # b) t = (rev t @ c # b, []) # rs"
    using greedy_all [of "\<lambda>c. \<not> is_space c \<and> c \<notin> set '',;''" t "c # b"] assms
    by (auto simp: plain_secret_def s list_all_iff)
  with assms show ?thesis
    by (auto simp: secret_text_def any_of_def some_of_def s plain_secret_def)
qed

lemma run_assignment_tail:
  assumes "plain_secret s" "sep \<in> set '':=''"
  shows "\<exists>ms. run assignment_tail \<lparr>cur_before = b, cur_rest = sep # s, cur_group = g\<rparr>
     = \<lparr>cur_before = rev s @ sep # b, cur_rest = [], cur_group = g\<rparr> # ms"
proof -
  obtain c t where s: "s = c # t" using assms by (auto simp: plain_secret_def neq_Nil_conv)
  have c: "\<not> is_space c" "\<not> is_space sep" using assms by (auto simp: plain_secret_def s is_space_def)
  have "run (Seq (literal ''bearer'') (some_of is_space)) \<lparr>cur_before = sep # b, cur_rest = s, cur_group = g\<rparr> = []"
    using assms(1) by (intro run_without [OF needs_space_bearer]) (auto simp: plain_secret_def list_all_iff)
  then have "run (maybe (Seq (literal ''bearer'') (some_of is_space)))
      \<lparr>cur_before = sep # b, cur_rest = s, cur_group = g\<rparr> = [\<lparr>cur_before = sep # b, cur_rest = s, cur_group = g\<rparr>]"
    by (simp add: maybe_def del: run.simps(5))
  moreover obtain ms where "run secret_text \<lparr>cur_before = sep # b, cur_rest = s, cur_group = g\<rparr>
     = \<lparr>cur_before = rev s @ sep # b, cur_rest = [], cur_group = g\<rparr> # ms"
    using run_secret_text [OF assms(1)] by blast
  ultimately show ?thesis
    using assms c by (auto simp: assignment_tail_def any_of_def s)
qed

lemma run_secret_word:
  assumes "w \<in> set secret_words" "sep \<in> set '':=''"
  shows "run (Seq Boundary secret_word) \<lparr>cur_before = [], cur_rest = w @ sep # s, cur_group = []\<rparr>
    = [\<lparr>cur_before = rev w, cur_rest = sep # s, cur_group = []\<rparr>]"
  using assms
  by (auto simp: secret_words_def secret_word_def literal_def same_letter_def at_boundary_def is_word_def maybe_def any_of_def
    is_ascii_alpha_def lower_char_def)

lemma concat_map_concat: "concat (map f (concat xss)) = concat (map (\<lambda>xs. concat (map f xs)) xss)"
  by (induction xss) auto

lemma secret_words_facts:
  "list_all (\<lambda>w. w \<noteq> [] \<and> is_word (last w) \<and> list_all (\<lambda>c. \<not> is_space c \<and> c \<noteq> CHR ''@'') w) secret_words"
  "list_all (\<lambda>c. \<not> is_word c \<and> \<not> is_space c \<and> c \<noteq> CHR ''@'') '':=''"
  by code_simp+

lemma run_assignment:
  "run ASSIGNMENT_PATTERN cur =
     concat (map (run assignment_tail) (concat (map (run Boundary) (run (Seq Boundary secret_word) cur))))"
proof -
  have seq: "run (Seq p q) = (\<lambda>cur. concat (map (run q) (run p cur)))" for p q by (rule ext) simp
  show ?thesis unfolding ASSIGNMENT_PATTERN_split seq by (simp add: concat_map_concat comp_def)
qed

lemma run_whole_assignment:
  assumes "w \<in> set secret_words" "sep \<in> set '':=''" "plain_secret s"
  shows "\<exists>ms. run ASSIGNMENT_PATTERN \<lparr>cur_before = [], cur_rest = w @ sep # s, cur_group = []\<rparr>
     = \<lparr>cur_before = rev s @ sep # rev w, cur_rest = [], cur_group = []\<rparr> # ms"
proof -
  have "at_boundary \<lparr>cur_before = rev w, cur_rest = sep # s, cur_group = []\<rparr>"
  proof -
    from secret_words_facts assms(1,2) have w: "w \<noteq> []" "is_word (last w)" "\<not> is_word sep"
      by (auto simp: list_all_iff)
    then show ?thesis by (cases w rule: rev_cases) (simp_all add: at_boundary_def)
  qed
  then show ?thesis
    unfolding run_assignment run_secret_word [OF assms(1,2)]
    using run_assignment_tail [OF assms(3,2), of "rev w" "[]"] by auto
qed

lemma sub_assignment:
  assumes "w \<in> set secret_words" "sep \<in> set '':=''" "plain_secret s"
  shows "sub ASSIGNMENT_PATTERN f (w @ sep # s) = f [] (w @ sep # s)"
proof -
  have "needs (\<lambda>_. True) ASSIGNMENT_PATTERN" by (simp add: ASSIGNMENT_PATTERN_def any_of_def)
  then have "run ASSIGNMENT_PATTERN \<lparr>cur_before = b, cur_rest = [], cur_group = []\<rparr> = []" for b
    by (rule run_without) simp
  with run_whole_assignment [OF assms] show ?thesis
    using sub_whole [of ASSIGNMENT_PATTERN "w @ sep # s"] by auto
qed

lemma needs_patterns:
  "needs (\<lambda>c. c = CHR ''@'') URL_CREDENTIAL_PATTERN" "needs is_space BEARER_PATTERN"
  by (simp_all add: URL_CREDENTIAL_PATTERN_def BEARER_PATTERN_def any_of_def some_of_def)

lemma untouched_by_others:
  assumes "w \<in> set secret_words" "sep \<in> set '':=''" "plain_secret s"
  shows "sub URL_CREDENTIAL_PATTERN f (w @ sep # s) = w @ sep # s"
    and "sub BEARER_PATTERN g (w @ sep # s) = w @ sep # s"
proof -
  have "list_all (\<lambda>c. \<not> is_space c \<and> c \<noteq> CHR ''@'') (w @ sep # s)"
    using assms secret_words_facts by (auto simp: plain_secret_def list_all_iff)
  then have "list_all (\<lambda>c. \<not> c = CHR ''@'') (w @ sep # s)" "list_all (\<lambda>c. \<not> is_space c) (w @ sep # s)"
    by (auto simp: list_all_iff)
  then show "sub URL_CREDENTIAL_PATTERN f (w @ sep # s) = w @ sep # s"
    and "sub BEARER_PATTERN g (w @ sep # s) = w @ sep # s"
    using needs_patterns by (blast intro: sub_without)+
qed

lemma redact_assignment_words:
  assumes "w \<in> set secret_words"
  shows "redact_assignment (w @ CHR ''='' # s) = w @ CHR ''='' # redacted"
    and "CHR ''='' \<notin> set s \<Longrightarrow> redact_assignment (w @ CHR '':'' # s) = w @ CHR '':'' # redacted"
    and "CHR ''='' \<in> set s \<Longrightarrow> redact_assignment (w @ CHR '':'' # s)
       = w @ CHR '':'' # takeWhile (\<lambda>c. c \<noteq> CHR ''='') s @ CHR ''='' # redacted"
  using assms by (auto simp: redact_assignment_def secret_words_def Let_def)

theorem redact_plain_assignment:
  assumes "w \<in> set secret_words" "plain_secret s"
  shows "redact_text (w @ ''='' @ s) = w @ ''='' @ redacted"
    and "redact_text (w @ '':'' @ s) =
       (if CHR ''='' \<in> set s then w @ '':'' @ takeWhile (\<lambda>c. c \<noteq> CHR ''='') s @ ''='' @ redacted
        else w @ '':'' @ redacted)"
  using assms by (simp_all add: redact_text_def Let_def untouched_by_others sub_assignment redact_assignment_words)

section \<open>Mappings\<close>

text \<open>\<open>hidden_secrets j\<close>: the value of every secret key of \<open>j\<close>, at any depth, is the placeholder.\<close>

fun hidden_secrets :: "json \<Rightarrow> bool" where
  "hidden_secrets (JObj kvs) \<longleftrightarrow>
     list_all (\<lambda>kv. (hides (fst kv) (snd kv) \<longrightarrow> snd kv = JStr redacted) \<and> hidden_secrets (snd kv)) kvs"
| "hidden_secrets (JArr xs) \<longleftrightarrow> list_all hidden_secrets xs"
| "hidden_secrets j \<longleftrightarrow> True"

text \<open>Another value under every secret key.\<close>

fun with_secrets :: "(string \<Rightarrow> json \<Rightarrow> json) \<Rightarrow> json \<Rightarrow> json" where
  "with_secrets f (JObj kvs) =
     JObj (map (\<lambda>kv. (fst kv,
       if lower_text (fst kv) \<in> set SECRET_FIELD_NAMES then f (fst kv) (snd kv)
       else with_secrets f (snd kv))) kvs)"
| "with_secrets f (JArr xs) = JArr (map (with_secrets f) xs)"
| "with_secrets f j = j"

lemma redact_mapping_item_eq:
  "redact_mapping_item kv = (fst kv, if hides (fst kv) (snd kv) then JStr redacted else redact_value (snd kv))"
  by (cases kv) simp

lemma is_text_redact [simp]: "is_text (redact_value j) = is_text j"
  by (cases j) auto

lemma is_text_with_secrets [simp]: "is_text (with_secrets f j) = is_text j"
  by (cases j) auto

lemma hidden_redact: "hidden_secrets (redact_value j)"
  by (induction j) (fastforce simp: redact_mapping_item_eq list_all_iff hides_def)+

lemma redact_with_secrets: "redact_value (with_secrets f j) = redact_value j"
  by (induction j) (fastforce simp: redact_mapping_item_eq hides_def)+

end
