(* ===== verification/Store.thy ===== *)
theory Store
  imports Workflow_Machines Redaction "HOL-Library.Product_Lexorder"
begin

text \<open>
  The authoritative store of \<open>src/src/dispatcher/state_store.py\<close>: the tables a run is kept in, the
  writes every operation is composed of (run snapshot, dispatch payload, final structured Git row) and
  the operations that create, save and load runs.

  A table is a dictionary from its primary key to its row, in insertion order. A column that holds JSON
  is the value it parses to. An operation is one SQLite transaction: its result is the error it raises
  or its value with the store after the commit, so an error leaves the store as it was. Constraint
  violations of the schema are the error \<open>_transaction\<close> raises for them.
\<close>

section \<open>Rows\<close>

type_synonym json_object = "(string, json) dict"

type_synonym sessions = "(string, (string, json_object) dict) dict"

record dispatch_payload =
  pl_prompt :: string
  pl_policy :: json_object
  pl_result :: "json_object option"
  pl_authoritative_verification :: "json list option"
  pl_forwarding_payload :: "string option"
  pl_process_id :: "int option"
  pl_session_metadata :: "json_object option"
  pl_repository_before :: "json_object option"
  pl_repository_after :: "json_object option"

record run_row =
  rr_record :: run_record
  rr_generation :: int

record plan_row =
  pr_plan_digest :: string
  pr_plan :: normalized_plan
  pr_source_digest :: string
  pr_generation :: int

record step_row =
  sr_state :: step_status
  sr_generation :: int
  sr_record :: step_record

record dispatch_row =
  dw_step_id :: string
  dw_attempt :: int
  dw_state :: dispatch_status
  dw_idempotency_key :: string
  dw_prompt_sha256 :: string
  dw_policy_digest :: string
  dw_repository_id :: string
  dw_repository_revision :: string
  dw_runtime_session_id :: "string option"
  dw_generation :: int
  dw_record :: dispatch_record

record group_row =
  gw_repo_id :: string
  gw_state :: workspace_group_status
  gw_base_revision :: string
  gw_integration_branch :: string
  gw_lease_owner_id :: string
  gw_generation :: int
  gw_record :: workspace_group

datatype git_state =
    Git_proposal_received | Git_checked | Git_commit_intent_persisted | Git_staged
  | Git_committed | Git_no_commit_finalized | Git_reconciliation_required

fun git_state_value :: "git_state \<Rightarrow> string" where
  "git_state_value Git_proposal_received = ''PROPOSAL_RECEIVED''"
| "git_state_value Git_checked = ''CHECKED''"
| "git_state_value Git_commit_intent_persisted = ''COMMIT_INTENT_PERSISTED''"
| "git_state_value Git_staged = ''STAGED''"
| "git_state_value Git_committed = ''COMMITTED''"
| "git_state_value Git_no_commit_finalized = ''NO_COMMIT_FINALIZED''"
| "git_state_value Git_reconciliation_required = ''RECONCILIATION_REQUIRED''"

record git_row =
  gr_state :: git_state
  gr_proposal :: json_object
  gr_proposal_digest :: string
  gr_checked :: "json_object option"
  gr_intent :: "json_object option"
  gr_stage :: "json_object option"
  gr_commit :: "json_object option"
  gr_result_revision :: "string option"
  gr_repository_after :: "json_object option"
  gr_failure_detail :: "string option"
  gr_created_at :: int
  gr_updated_at :: int

datatype lifecycle = Invocation_prepared | Invocation_succeeded | Invocation_failed

datatype usage_status = Usage_pending | Usage_complete | Usage_missing

record invocation_row =
  iv_run_id :: string
  iv_dispatch_id :: "string option"
  iv_role_kind :: string
  iv_role_key :: string
  iv_step_id :: "string option"
  iv_session_mode :: string
  iv_requested_session_id :: "string option"
  iv_runtime_session_id :: "string option"
  iv_lifecycle :: lifecycle
  iv_usage_status :: usage_status
  iv_usage :: "usage_amount option"
  iv_failure_category :: "string option"
  iv_created_at :: int
  iv_finished_at :: "int option"

record review_row =
  rw_run_id :: string
  rw_dispatch_id :: string
  rw_review :: json_object
  rw_created_at :: int

record decision_row =
  de_run_id :: string
  de_request_id :: string
  de_actor_id :: string
  de_answer :: string
  de_created_at :: int

record audit_row =
  au_run_id :: string
  au_sequence :: int
  au_kind :: string
  au_correlation_id :: string
  au_causation_id :: "string option"
  au_payload :: json_object
  au_created_at :: int

record store =
  st_runs :: "(string, run_row) dict"
  st_plans :: "(string, plan_row) dict"
  st_steps :: "(string \<times> string, step_row) dict"
  st_dispatches :: "(string \<times> string, dispatch_row) dict"
  st_groups :: "(string \<times> string, group_row) dict"
  st_sessions :: "(string \<times> string \<times> string, json_object) dict"
  st_payloads :: "(string \<times> string, dispatch_payload) dict"
  st_git :: "(string \<times> string, git_row) dict"
  st_invocations :: "(string, invocation_row) dict"
  st_reviews :: "(string, review_row) dict"
  st_decisions :: "(string, decision_row) dict"
  st_audit :: "(string, audit_row) dict"

definition empty_store :: store where
  "empty_store = \<lparr>st_runs = [], st_plans = [], st_steps = [], st_dispatches = [], st_groups = [],
     st_sessions = [], st_payloads = [], st_git = [], st_invocations = [], st_reviews = [],
     st_decisions = [], st_audit = []\<rparr>"

text \<open>\<open>_transaction\<close> reports what SQLite raised.\<close>

definition transaction_failed :: "string \<Rightarrow> exn" where
  "transaction_failed message = StateStoreError (''authoritative state transaction failed: '' @ message)"

text \<open>\<open>_json_text\<close> of a mapping or a tuple, as the value the column parses to.\<close>

definition stored_object :: "json_object \<Rightarrow> json_object" where
  "stored_object m = sort_key fst (map (\<lambda>kv. (fst kv, canon (snd kv))) (map redact_mapping_item m))"

definition stored_list :: "json list \<Rightarrow> json list" where
  "stored_list xs = map canon (map redact_value xs)"

lemma stored_object_json: "JObj (stored_object m) = canon (redact_value (JObj m))"
  by (simp add: stored_object_def comp_def)

lemma stored_list_json: "JArr (stored_list xs) = canon (redact_value (JArr xs))"
  by (simp add: stored_list_def)

section \<open>Writes\<close>

definition TERMINAL_RUN_STATES :: "run_status list" where
  "TERMINAL_RUN_STATES = [Run_halted, Run_failed, Run_succeeded, Run_cancelled]"

definition is_active :: "run_record \<Rightarrow> bool" where
  "is_active r \<longleftrightarrow> r_state r \<notin> set TERMINAL_RUN_STATES"

text \<open>The run ids of \<open>SELECT run_id FROM runs WHERE project_id = ? AND state NOT IN (...)\<close>.\<close>

definition active_runs :: "store \<Rightarrow> string \<Rightarrow> string list" where
  "active_runs st project_id =
     map fst (filter (\<lambda>(_, row). r_project_id (rr_record row) = project_id \<and> is_active (rr_record row)) (st_runs st))"

text \<open>The schema: \<open>CHECK(generation >= 1)\<close> and the unique index \<open>runs_one_active_project\<close>.\<close>

definition write_run_row :: "run_record \<Rightarrow> int \<Rightarrow> store \<Rightarrow> exn + store" where
  "write_run_row r generation st =
     (if generation < 1 then Inl (transaction_failed ''CHECK constraint failed: generation >= 1'')
      else if is_active r \<and> \<not> set (active_runs st (r_project_id r)) \<subseteq> {r_run_id r} then
        Inl (transaction_failed ''UNIQUE constraint failed: runs.project_id'')
      else Inr (st\<lparr>st_runs := dset (r_run_id r) \<lparr>rr_record = r, rr_generation = generation\<rparr> (st_runs st)\<rparr>))"

definition write_plan_row :: "run_record \<Rightarrow> int \<Rightarrow> store \<Rightarrow> store" where
  "write_plan_row r generation st =
     st\<lparr>st_plans := dset (r_run_id r)
         \<lparr>pr_plan_digest = r_plan_digest r, pr_plan = r_plan r, pr_source_digest = source_digest (r_plan r),
          pr_generation = generation\<rparr> (st_plans st)\<rparr>"

definition write_step_row :: "string \<Rightarrow> int \<Rightarrow> step_record \<Rightarrow> store \<Rightarrow> store" where
  "write_step_row run_id generation s st =
     st\<lparr>st_steps := dset (run_id, s_step_id s)
         \<lparr>sr_state = s_state s, sr_generation = generation, sr_record = s\<rparr> (st_steps st)\<rparr>"

definition new_dispatch_row :: "int \<Rightarrow> dispatch_record \<Rightarrow> dispatch_row" where
  "new_dispatch_row generation d =
     \<lparr>dw_step_id = d_step_id d, dw_attempt = d_attempt d, dw_state = d_state d,
      dw_idempotency_key = di_idempotency_key (d_intent d), dw_prompt_sha256 = di_prompt_sha256 (d_intent d),
      dw_policy_digest = di_policy_digest (d_intent d),
      dw_repository_id = rc_repo_id (di_repository (d_intent d)),
      dw_repository_revision = rc_base_revision (di_repository (d_intent d)),
      dw_runtime_session_id = d_runtime_session_id d, dw_generation = generation, dw_record = d\<rparr>"

definition used_idempotency_keys :: "store \<Rightarrow> string \<Rightarrow> string list" where
  "used_idempotency_keys st run_id =
     map (\<lambda>(_, row). dw_idempotency_key row) (filter (\<lambda>((run, _), _). run = run_id) (st_dispatches st))"

definition write_dispatch_row :: "string \<Rightarrow> int \<Rightarrow> store \<Rightarrow> dispatch_record \<Rightarrow> exn + store" where
  "write_dispatch_row run_id generation st d =
     (let key = (run_id, d_dispatch_id d) in
      case dget (st_dispatches st) key of
        Some row \<Rightarrow>
          Inr (st\<lparr>st_dispatches := dset key
                (row\<lparr>dw_state := d_state d, dw_runtime_session_id := d_runtime_session_id d,
                     dw_generation := generation, dw_record := d\<rparr>) (st_dispatches st)\<rparr>)
      | None \<Rightarrow>
          if di_idempotency_key (d_intent d) \<in> set (used_idempotency_keys st run_id) then
            Inl (transaction_failed ''UNIQUE constraint failed: dispatches.run_id, dispatches.idempotency_key'')
          else Inr (st\<lparr>st_dispatches := dset key (new_dispatch_row generation d) (st_dispatches st)\<rparr>))"

definition write_group_row :: "string \<Rightarrow> int \<Rightarrow> workspace_group \<Rightarrow> store \<Rightarrow> store" where
  "write_group_row run_id generation g st =
     (let key = (run_id, wg_workspace_group_id g);
          repo_id = (case dget (st_groups st) key of None \<Rightarrow> wg_repo_id g | Some row \<Rightarrow> gw_repo_id row)
      in st\<lparr>st_groups := dset key
          \<lparr>gw_repo_id = repo_id, gw_state = wg_state g, gw_base_revision = wg_base_revision g,
           gw_integration_branch = wg_integration_branch g, gw_lease_owner_id = wg_lease_owner_id g,
           gw_generation = generation, gw_record = g\<rparr> (st_groups st)\<rparr>)"

definition session_rows :: "string \<Rightarrow> sessions \<Rightarrow> (string \<times> string \<times> string, json_object) dict" where
  "session_rows run_id sessions =
     concat (map (\<lambda>(pool, entries).
       map (\<lambda>(role_key, session). ((run_id, pool, role_key), stored_object session)) entries) sessions)"

definition write_sessions :: "string \<Rightarrow> sessions \<Rightarrow> store \<Rightarrow> store" where
  "write_sessions run_id sessions st =
     st\<lparr>st_sessions := filter (\<lambda>((run, _), _). run \<noteq> run_id) (st_sessions st) @ session_rows run_id sessions\<rparr>"

definition write_snapshot :: "run_record \<Rightarrow> int \<Rightarrow> sessions \<Rightarrow> store \<Rightarrow> exn + store" where
  "write_snapshot r generation sessions st =
     bindr (write_run_row r generation st) (\<lambda>st.
     let st = write_plan_row r generation st;
         st = fold (write_step_row (r_run_id r) generation) (map snd (r_steps r)) st
     in bindr (foldr_result (write_dispatch_row (r_run_id r) generation) st (map snd (r_dispatches r))) (\<lambda>st.
     let st = fold (write_group_row (r_run_id r) generation) (map snd (r_workspace_groups r)) st
     in Inr (write_sessions (r_run_id r) sessions st)))"

text \<open>\<open>_write_dispatch_payload\<close>: the row refers to its dispatch by a foreign key.\<close>

definition stored_payload :: "dispatch_payload \<Rightarrow> dispatch_payload" where
  "stored_payload p =
     \<lparr>pl_prompt = redact_text (pl_prompt p), pl_policy = stored_object (pl_policy p),
      pl_result = map_option stored_object (pl_result p),
      pl_authoritative_verification = map_option stored_list (pl_authoritative_verification p),
      pl_forwarding_payload = map_option redact_text (pl_forwarding_payload p),
      pl_process_id = pl_process_id p,
      pl_session_metadata = map_option stored_object (pl_session_metadata p),
      pl_repository_before = map_option stored_object (pl_repository_before p),
      pl_repository_after = map_option stored_object (pl_repository_after p)\<rparr>"

definition write_dispatch_payload ::
  "string \<Rightarrow> store \<Rightarrow> string \<times> dispatch_payload \<Rightarrow> exn + store" where
  "write_dispatch_payload run_id st entry =
     (let key = (run_id, fst entry) in
      case dget (st_dispatches st) key of
        None \<Rightarrow> Inl (transaction_failed ''FOREIGN KEY constraint failed'')
      | Some _ \<Rightarrow> Inr (st\<lparr>st_payloads := dset key (stored_payload (snd entry)) (st_payloads st)\<rparr>))"

text \<open>The mapping a caller passes as the final structured Git update.\<close>

record git_final =
  gf_state :: string
  gf_commit :: "json_object option"
  gf_result_revision :: "string option"
  gf_repository_after :: "json_object option"

definition final_source :: "string \<Rightarrow> (git_state \<times> git_state) option" where
  "final_source target =
     (if target = ''COMMITTED'' then Some (Git_staged, Git_committed)
      else if target = ''NO_COMMIT_FINALIZED'' then Some (Git_checked, Git_no_commit_finalized)
      else None)"

definition write_structured_git_final ::
  "string \<Rightarrow> int \<Rightarrow> store \<Rightarrow> string \<times> git_final \<Rightarrow> exn + store" where
  "write_structured_git_final run_id now st entry =
     (let key = (run_id, fst entry); update = snd entry in
      case final_source (gf_state update) of
        None \<Rightarrow> Inl (StateStoreError ''structured Git final update has an invalid target state'')
      | Some (source, target) \<Rightarrow>
          (case dget (st_git st) key of
             None \<Rightarrow> Inl (StateStoreConflictError
               (''structured Git final update cannot move from missing to '' @ gf_state update))
           | Some row \<Rightarrow>
               if gr_state row \<noteq> source then
                 Inl (StateStoreConflictError
                   (''structured Git final update cannot move from '' @ git_state_value (gr_state row)
                    @ '' to '' @ gf_state update))
               else Inr (st\<lparr>st_git := dset key
                 (row\<lparr>gr_state := target, gr_commit := map_option stored_object (gf_commit update),
                      gr_result_revision := gf_result_revision update,
                      gr_repository_after :=
                        Some (case gf_repository_after update of None \<Rightarrow> [] | Some m \<Rightarrow> stored_object m),
                      gr_updated_at := now\<rparr>) (st_git st)\<rparr>)))"

section \<open>Runs\<close>

definition sessions_for_run :: "store \<Rightarrow> string \<Rightarrow> sessions" where
  "sessions_for_run st run_id =
     fold (\<lambda>((_, pool, role_key), session) acc.
         dset pool (dset role_key session (case dget acc pool of None \<Rightarrow> [] | Some entries \<Rightarrow> entries)) acc)
       (sort_key fst (filter (\<lambda>((run, _), _). run = run_id) (st_sessions st))) []"

definition create_run :: "run_record \<Rightarrow> sessions \<Rightarrow> store \<Rightarrow> exn + int \<times> store" where
  "create_run r sessions st =
     (case active_runs st (r_project_id r) of
        active # _ \<Rightarrow> Inl (StateStoreConflictError
          (''project '' @ r_project_id r @ '' already has active run '' @ active
           @ ''; archive or terminate it before starting a new run''))
      | [] \<Rightarrow>
          if dget (st_runs st) (r_run_id r) \<noteq> None then
            Inl (StateStoreConflictError (''run already exists: '' @ r_run_id r))
          else bindr (write_snapshot r 1 sessions st) (\<lambda>st. Inr (1, st)))"

definition load_run :: "store \<Rightarrow> string \<Rightarrow> exn + run_record \<times> int" where
  "load_run st run_id =
     (case dget (st_runs st) run_id of
        None \<Rightarrow> Inl (StateStoreError (''run not found: '' @ run_id))
      | Some row \<Rightarrow>
          if run_record_errors (rr_record row) \<noteq> [] then
            Inl (StateStoreCorruptionError
              (''stored run '' @ run_id @ '' does not match the current workflow schema; recover from backup''))
          else Inr (rr_record row, rr_generation row))"

definition active_run :: "store \<Rightarrow> string \<Rightarrow> exn + (run_record \<times> int) option" where
  "active_run st project_id =
     (case active_runs st project_id of
        [] \<Rightarrow> Inr None
      | [run_id] \<Rightarrow> bindr (load_run st run_id) (\<lambda>loaded. Inr (Some loaded))
      | _ \<Rightarrow> Inl (StateStoreCorruptionError
          (''project '' @ project_id @ '' has multiple active runs; operator reconciliation is required'')))"

definition resume_run :: "store \<Rightarrow> string \<Rightarrow> string \<Rightarrow> exn + run_record \<times> int" where
  "resume_run st project_id run_id =
     bindr (load_run st run_id) (\<lambda>(r, generation).
       if r_project_id r \<noteq> project_id then
         Inl (StateStoreError ''run does not belong to the selected project'')
       else if \<not> is_active r then
         Inl (StateStoreError ''terminal runs require archive or explicit new-run handling'')
       else bindr (active_run st project_id) (\<lambda>active.
         let sole = (case active of None \<Rightarrow> False | Some (a, _) \<Rightarrow> r_run_id a = run_id) in
         if \<not> sole then
           Inl (StateStoreCorruptionError
             ''selected resumable run is not the project's sole active run; operator reconciliation is required'')
         else Inr (r, generation)))"

text \<open>The optional arguments of \<open>save_run\<close>; \<open>fault_hook\<close> is a test hook and always \<open>None\<close> here.\<close>

record save_extras =
  se_sessions :: "sessions option"
  se_payloads :: "(string, dispatch_payload) dict"
  se_git_updates :: "(string, git_final) dict"

definition no_extras :: save_extras where
  "no_extras = \<lparr>se_sessions = None, se_payloads = [], se_git_updates = []\<rparr>"

definition generation_conflict :: "string \<Rightarrow> int \<Rightarrow> string \<Rightarrow> exn" where
  "generation_conflict run_id expected found = StateStoreConflictError
     (''run '' @ run_id @ '' generation conflict: expected '' @ int_text expected @ '', found '' @ found)"

definition save_run :: "run_record \<Rightarrow> int \<Rightarrow> save_extras \<Rightarrow> int \<Rightarrow> store \<Rightarrow> exn + int \<times> store" where
  "save_run r expected_generation extras now st =
     (let current_sessions = (case se_sessions extras of
            None \<Rightarrow> sessions_for_run st (r_run_id r) | Some sessions \<Rightarrow> sessions)
      in case dget (st_runs st) (r_run_id r) of
        None \<Rightarrow> Inl (StateStoreConflictError (''run does not exist: '' @ r_run_id r))
      | Some row \<Rightarrow>
          if rr_generation row \<noteq> expected_generation then
            Inl (generation_conflict (r_run_id r) expected_generation (int_text (rr_generation row)))
          else
            bindr (write_snapshot r (expected_generation + 1) current_sessions st) (\<lambda>st.
            bindr (foldr_result (write_dispatch_payload (r_run_id r)) st (se_payloads extras)) (\<lambda>st.
            bindr (foldr_result (write_structured_git_final (r_run_id r) now) st (se_git_updates extras)) (\<lambda>st.
              Inr (expected_generation + 1, st)))))"

definition with_event :: "run_record \<Rightarrow> transition_event \<Rightarrow> run_record" where
  "with_event r event = r\<lparr>r_sequence := te_sequence event, r_updated_at := te_occurred_at event\<rparr>"

definition save_workspace_group ::
  "run_record \<Rightarrow> int \<Rightarrow> workspace_group \<Rightarrow> int \<Rightarrow> store \<Rightarrow> exn + (run_record \<times> int) \<times> store" where
  "save_workspace_group r expected_generation g now st =
     (let updated = with_event (r\<lparr>r_workspace_groups := dset (wg_workspace_group_id g) g (r_workspace_groups r)\<rparr>)
            (wg_last_event g)
      in bindr (save_run updated expected_generation no_extras now st) (\<lambda>(generation, st).
           Inr ((updated, generation), st)))"

text \<open>A new audit row: its event id is the primary key, its run must exist.\<close>

definition insert_audit_event :: "string \<Rightarrow> audit_row \<Rightarrow> store \<Rightarrow> exn + store" where
  "insert_audit_event event_id row st =
     (if dget (st_audit st) event_id \<noteq> None then
        Inl (transaction_failed ''UNIQUE constraint failed: audit_events.event_id'')
      else if dget (st_runs st) (au_run_id row) = None then
        Inl (transaction_failed ''FOREIGN KEY constraint failed'')
      else Inr (st\<lparr>st_audit := st_audit st @ [(event_id, row)]\<rparr>))"

definition append_audit_event ::
  "string \<Rightarrow> string \<Rightarrow> int \<Rightarrow> string \<Rightarrow> string \<Rightarrow> string option \<Rightarrow> json_object \<Rightarrow> int \<Rightarrow> store \<Rightarrow> exn + store" where
  "append_audit_event run_id event_id sequence kind correlation_id causation_id payload now st =
     insert_audit_event event_id
       \<lparr>au_run_id = run_id, au_sequence = sequence, au_kind = kind, au_correlation_id = correlation_id,
        au_causation_id = causation_id, au_payload = stored_object payload, au_created_at = now\<rparr> st"

definition complete_run ::
  "run_record \<Rightarrow> int \<Rightarrow> string \<Rightarrow> int \<Rightarrow> string \<Rightarrow> string \<Rightarrow> int \<Rightarrow> store \<Rightarrow> exn + int \<times> store" where
  "complete_run r expected_generation event_id sequence correlation_id report_path now st =
     (if r_state r \<noteq> Run_succeeded then
        Inl (StateStoreError ''complete_run requires a SUCCEEDED run record'')
      else
        let changed = Inl (StateStoreConflictError (''run '' @ r_run_id r @ '' changed before terminal commit''))
        in case dget (st_runs st) (r_run_id r) of
          None \<Rightarrow> changed
        | Some row \<Rightarrow>
            if rr_generation row \<noteq> expected_generation then changed
            else
              bindr (write_snapshot r (expected_generation + 1) (sessions_for_run st (r_run_id r)) st) (\<lambda>st.
              bindr (append_audit_event (r_run_id r) event_id sequence ''run_succeeded'' correlation_id None
                       [(''report_path'', JStr report_path)] now st) (\<lambda>st.
                Inr (expected_generation + 1, st))))"

end
