(* ===== verification/Store_Dispatches.thy ===== *)
theory Store_Dispatches
  imports Store Operator_Answers
begin

text \<open>
  The dispatch operations of \<open>src/src/dispatcher/state_store.py\<close>: the preparation of one dispatch or of a
  batch, the transition of a dispatch with its payload, the forwarding of a result, the adoption of a
  failed review, the binding of a session, the request to cancel, and the operator's answer with the
  transaction that persists it. Times are inputs (\<open>now\<close>), as are fresh identifiers (\<open>env\<close>).
\<close>

section \<open>Preparation\<close>

definition object_digest :: "json_object \<Rightarrow> string" where
  "object_digest m = digest_json (JObj m)"

text \<open>\<open>snapshot.get("repo_id") != dispatch.intent.repository.repo_id\<close>.\<close>

definition snapshot_of_other_repo :: "json_object \<Rightarrow> dispatch_record \<Rightarrow> bool" where
  "snapshot_of_other_repo snapshot d \<longleftrightarrow>
     dget snapshot ''repo_id'' \<noteq> Some (JStr (rc_repo_id (di_repository (d_intent d))))"

definition new_payload :: "string \<Rightarrow> json_object \<Rightarrow> dispatch_payload" where
  "new_payload prompt policy =
     \<lparr>pl_prompt = prompt, pl_policy = policy, pl_result = None, pl_authoritative_verification = None,
      pl_forwarding_payload = None, pl_process_id = None, pl_session_metadata = None,
      pl_repository_before = None, pl_repository_after = None\<rparr>"

definition prepare_dispatch ::
  "run_record \<Rightarrow> int \<Rightarrow> dispatch_record \<Rightarrow> string \<Rightarrow> json_object \<Rightarrow> json_object \<Rightarrow> json_object option
   \<Rightarrow> sessions option \<Rightarrow> int \<Rightarrow> store \<Rightarrow> exn + int \<times> store" where
  "prepare_dispatch r expected_generation d prompt policy repository_before session_metadata sessions now st =
     (if d_state d \<noteq> Dispatch_prepared then
        Inl (StateStoreError ''only PREPARED dispatches may be committed before launch'')
      else if sha256_text prompt \<noteq> di_prompt_sha256 (d_intent d) then
        Inl (StateStoreError ''dispatch prompt does not match durable prompt_sha256'')
      else if object_digest policy \<noteq> di_policy_digest (d_intent d) then
        Inl (StateStoreError ''dispatch policy does not match durable policy_digest'')
      else if dget (r_dispatches r) (d_dispatch_id d) \<noteq> Some d then
        Inl (StateStoreError ''run record does not contain the exact prepared dispatch'')
      else if snapshot_of_other_repo repository_before d then
        Inl (StateStoreError ''prepared repository snapshot does not match dispatch repository'')
      else save_run r expected_generation
        \<lparr>se_sessions = sessions,
         se_payloads = [(d_dispatch_id d,
           (new_payload prompt policy)\<lparr>pl_repository_before := Some repository_before,
                                       pl_session_metadata := session_metadata\<rparr>)],
         se_git_updates = []\<rparr> now st)"

definition check_prepared :: "run_record \<Rightarrow> string \<times> dispatch_payload \<Rightarrow> exn + unit" where
  "check_prepared r entry =
     (let payload = snd entry in
      case dget (r_dispatches r) (fst entry) of
        None \<Rightarrow> Inl (StateStoreError (''batch payload references unknown dispatch: '' @ fst entry))
      | Some d \<Rightarrow>
          if d_state d \<noteq> Dispatch_prepared then
            Inl (StateStoreError ''batch payload requires PREPARED dispatches'')
          else if sha256_text (pl_prompt payload) \<noteq> di_prompt_sha256 (d_intent d) then
            Inl (StateStoreError ''batch dispatch prompt does not match durable prompt_sha256'')
          else if object_digest (pl_policy payload) \<noteq> di_policy_digest (d_intent d) then
            Inl (StateStoreError ''batch dispatch policy does not match durable policy_digest'')
          else if (case pl_repository_before payload of
                     None \<Rightarrow> True | Some snapshot \<Rightarrow> snapshot_of_other_repo snapshot d) then
            Inl (StateStoreError ''batch prepared repository snapshot does not match dispatch repository'')
          else Inr ())"

definition prepare_dispatch_batch ::
  "run_record \<Rightarrow> int \<Rightarrow> (string, dispatch_payload) dict \<Rightarrow> int \<Rightarrow> store \<Rightarrow> exn + int \<times> store" where
  "prepare_dispatch_batch r expected_generation payloads now st =
     (if payloads = [] then Inl (StateStoreError ''prepared batch requires at least one dispatch payload'')
      else bindr (map_result (check_prepared r) payloads) (\<lambda>_.
        save_run r expected_generation (no_extras\<lparr>se_payloads := payloads\<rparr>) now st))"

section \<open>Payloads\<close>

definition load_dispatch_payload :: "store \<Rightarrow> string \<Rightarrow> string \<Rightarrow> exn + dispatch_payload" where
  "load_dispatch_payload st run_id dispatch_id =
     (case dget (st_payloads st) (run_id, dispatch_id) of
        None \<Rightarrow> Inl (StateStoreError (''dispatch payload not found: '' @ dispatch_id))
      | Some payload \<Rightarrow> Inr payload)"

text \<open>\<open>COALESCE(?, column)\<close> is \<open>or_keep\<close>: a null argument keeps the column.\<close>

record payload_update =
  pu_process_id :: "int option"
  pu_session_metadata :: "json_object option"
  pu_result :: "json_object option"
  pu_authoritative_verification :: "json list option"
  pu_forwarding_payload :: "string option"

definition update_dispatch_payload :: "string \<Rightarrow> string \<Rightarrow> payload_update \<Rightarrow> store \<Rightarrow> exn + store" where
  "update_dispatch_payload run_id dispatch_id u st =
     (let key = (run_id, dispatch_id) in
      if dget (st_dispatches st) key = None then
        Inl (StateStoreError (''dispatch not found: '' @ dispatch_id))
      else case dget (st_payloads st) key of
          None \<Rightarrow> Inr st
        | Some p \<Rightarrow> Inr (st\<lparr>st_payloads := dset key
            (p\<lparr>pl_process_id := or_keep (pu_process_id u) (pl_process_id p),
               pl_session_metadata :=
                 or_keep (map_option stored_object (pu_session_metadata u)) (pl_session_metadata p),
               pl_result := or_keep (map_option stored_object (pu_result u)) (pl_result p),
               pl_authoritative_verification :=
                 or_keep (map_option stored_list (pu_authoritative_verification u))
                   (pl_authoritative_verification p),
               pl_forwarding_payload :=
                 or_keep (map_option redact_text (pu_forwarding_payload u)) (pl_forwarding_payload p)\<rparr>)
            (st_payloads st)\<rparr>))"

section \<open>Transitions\<close>

text \<open>
  The optional arguments of \<open>commit_dispatch_transition\<close> beside those of \<open>transition_dispatch\<close>.
\<close>

record commit_extras =
  ce_result :: "json_object option"
  ce_authoritative_verification :: "json list option"
  ce_forwarding_payload :: "string option"
  ce_session_metadata :: "json_object option"
  ce_repository_after :: "json_object option"
  ce_sessions :: "sessions option"
  ce_structured_git_final :: "git_final option"

definition no_commit_extras :: commit_extras where
  "no_commit_extras = \<lparr>ce_result = None, ce_authoritative_verification = None, ce_forwarding_payload = None,
     ce_session_metadata = None, ce_repository_after = None, ce_sessions = None,
     ce_structured_git_final = None\<rparr>"

definition missing_transition_data ::
  "dispatch_status \<Rightarrow> dispatch_update \<Rightarrow> commit_extras \<Rightarrow> string option" where
  "missing_transition_data target u x =
     (if target = Dispatch_completed \<and> ce_result x = None then
        Some ''COMPLETED dispatch transition requires the exact result payload''
      else if target = Dispatch_completed \<and> ce_repository_after x = None then
        Some ''COMPLETED dispatch transition requires the inspected repository snapshot''
      else if target = Dispatch_running
           \<and> (\<not> (case du_process_id u of None \<Rightarrow> False | Some pid \<Rightarrow> 1 \<le> pid)
              \<or> du_process_create_time u = None) then
        Some ''RUNNING dispatch transition requires a positive process_id and OS process creation time''
      else if target = Dispatch_forwarded \<and> ce_forwarding_payload x = None then
        Some ''FORWARDED dispatch transition requires the complete forwarding payload''
      else None)"

definition replacement_payload ::
  "dispatch_payload \<Rightarrow> dispatch_update \<Rightarrow> commit_extras \<Rightarrow> dispatch_payload" where
  "replacement_payload p u x =
     p\<lparr>pl_result := or_keep (ce_result x) (pl_result p),
       pl_authoritative_verification := or_keep (ce_authoritative_verification x) (pl_authoritative_verification p),
       pl_forwarding_payload := or_keep (ce_forwarding_payload x) (pl_forwarding_payload p),
       pl_process_id := or_keep (du_process_id u) (pl_process_id p),
       pl_session_metadata := or_keep (ce_session_metadata x) (pl_session_metadata p),
       pl_repository_after := or_keep (ce_repository_after x) (pl_repository_after p)\<rparr>"

definition find_dispatch :: "run_record \<Rightarrow> string \<Rightarrow> exn + dispatch_record" where
  "find_dispatch r dispatch_id =
     (case dget (r_dispatches r) dispatch_id of
        None \<Rightarrow> Inl (StateStoreError (''run record does not contain dispatch: '' @ dispatch_id))
      | Some d \<Rightarrow> Inr d)"

definition with_dispatch :: "run_record \<Rightarrow> string \<Rightarrow> dispatch_record \<Rightarrow> transition_event \<Rightarrow> run_record" where
  "with_dispatch r dispatch_id d event =
     with_event (r\<lparr>r_dispatches := dset dispatch_id d (r_dispatches r)\<rparr>) event"

definition commit_dispatch_transition ::
  "run_record \<Rightarrow> int \<Rightarrow> string \<Rightarrow> dispatch_status \<Rightarrow> transition_event \<Rightarrow> dispatch_update \<Rightarrow> commit_extras
   \<Rightarrow> int \<Rightarrow> store \<Rightarrow> exn + (run_record \<times> int) \<times> store" where
  "commit_dispatch_transition r expected_generation dispatch_id target event u x now st =
     bindr (find_dispatch r dispatch_id) (\<lambda>current.
     case missing_transition_data target u x of
       Some message \<Rightarrow> Inl (StateStoreError message)
     | None \<Rightarrow>
         bindr (transition_dispatch current target event u) (\<lambda>transitioned.
         let updated = with_dispatch r dispatch_id transitioned event in
         bindr (load_dispatch_payload st (r_run_id r) dispatch_id) (\<lambda>payload.
         bindr (save_run updated expected_generation
                  \<lparr>se_sessions = ce_sessions x,
                   se_payloads = [(dispatch_id, replacement_payload payload u x)],
                   se_git_updates = (case ce_structured_git_final x of
                       None \<Rightarrow> [] | Some final \<Rightarrow> [(dispatch_id, final)])\<rparr> now st) (\<lambda>(generation, st).
           Inr ((updated, generation), st)))))"

definition bind_dispatch_session ::
  "run_record \<Rightarrow> int \<Rightarrow> string \<Rightarrow> string \<Rightarrow> transition_event \<Rightarrow> string \<Rightarrow> string \<Rightarrow> json_object \<Rightarrow> int
   \<Rightarrow> store \<Rightarrow> exn + (run_record \<times> int) \<times> store" where
  "bind_dispatch_session r expected_generation dispatch_id runtime_session_id event pool role_key session_entry now st =
     bindr (find_dispatch r dispatch_id) (\<lambda>current.
     if d_state current \<noteq> Dispatch_running then
       Inl (StateStoreError ''session identity can only bind to a RUNNING dispatch'')
     else if d_runtime_session_id current \<noteq> None then
       Inl (StateStoreConflictError ''running dispatch already has a runtime session ID'')
     else
       let updated = with_dispatch r dispatch_id
             (current\<lparr>d_runtime_session_id := Some runtime_session_id, d_last_event := event\<rparr>) event;
           sessions = sessions_for_run st (r_run_id r);
           entries = (case dget sessions pool of None \<Rightarrow> [] | Some entries \<Rightarrow> entries);
           sessions = dset pool (dset role_key session_entry entries) sessions
       in bindr (load_dispatch_payload st (r_run_id r) dispatch_id) (\<lambda>payload.
          let metadata = (case pl_session_metadata payload of None \<Rightarrow> [] | Some m \<Rightarrow> m);
              metadata = dset ''runtime_session_id'' (JStr runtime_session_id) metadata
          in bindr (save_run updated expected_generation
                     \<lparr>se_sessions = Some sessions,
                      se_payloads = [(dispatch_id, payload\<lparr>pl_session_metadata := Some metadata\<rparr>)],
                      se_git_updates = []\<rparr> now st) (\<lambda>(generation, st).
               Inr ((updated, generation), st))))"

section \<open>Forwarding and adoption\<close>

text \<open>A new review row: its id is the primary key, its run must exist.\<close>

definition insert_review :: "string \<Rightarrow> review_row \<Rightarrow> store \<Rightarrow> exn + store" where
  "insert_review review_id row st =
     (if dget (st_reviews st) review_id \<noteq> None then
        Inl (transaction_failed ''UNIQUE constraint failed: reviews.review_id'')
      else if dget (st_runs st) (rw_run_id row) = None then
        Inl (transaction_failed ''FOREIGN KEY constraint failed'')
      else Inr (st\<lparr>st_reviews := st_reviews st @ [(review_id, row)]\<rparr>))"

definition review_for_dispatch :: "store \<Rightarrow> string \<Rightarrow> string \<Rightarrow> bool" where
  "review_for_dispatch st run_id dispatch_id \<longleftrightarrow>
     list_ex (\<lambda>(_, row). rw_run_id row = run_id \<and> rw_dispatch_id row = dispatch_id) (st_reviews st)"

definition record_review :: "string \<Rightarrow> string \<Rightarrow> string \<Rightarrow> json_object \<Rightarrow> int \<Rightarrow> store \<Rightarrow> exn + store" where
  "record_review run_id dispatch_id review_id review now st =
     (if dget (st_dispatches st) (run_id, dispatch_id) = None then
        Inl (StateStoreError (''review references unknown dispatch: '' @ dispatch_id))
      else insert_review review_id
        \<lparr>rw_run_id = run_id, rw_dispatch_id = dispatch_id, rw_review = stored_object review,
         rw_created_at = now\<rparr> st)"

text \<open>A decision row: one per request of a run.\<close>

definition insert_decision :: "string \<Rightarrow> decision_row \<Rightarrow> store \<Rightarrow> exn + store" where
  "insert_decision decision_id row st =
     (if dget (st_decisions st) decision_id \<noteq> None then
        Inl (transaction_failed ''UNIQUE constraint failed: operator_decisions.decision_id'')
      else if list_ex (\<lambda>(_, other). de_run_id other = de_run_id row \<and> de_request_id other = de_request_id row)
                (st_decisions st) then
        Inl (transaction_failed
          ''UNIQUE constraint failed: operator_decisions.run_id, operator_decisions.request_id'')
      else if dget (st_runs st) (de_run_id row) = None then
        Inl (transaction_failed ''FOREIGN KEY constraint failed'')
      else Inr (st\<lparr>st_decisions := st_decisions st @ [(decision_id, row)]\<rparr>))"

text \<open>The generation check inside a transaction that also names the generation it found.\<close>

definition check_generation :: "store \<Rightarrow> string \<Rightarrow> int \<Rightarrow> exn + run_row" where
  "check_generation st run_id expected =
     (case dget (st_runs st) run_id of
        None \<Rightarrow> Inl (generation_conflict run_id expected ''None'')
      | Some row \<Rightarrow>
          if rr_generation row \<noteq> expected then
            Inl (generation_conflict run_id expected (int_text (rr_generation row)))
          else Inr row)"

record forwarded_result =
  fw_result :: json_object
  fw_authoritative_verification :: "json list option"
  fw_repository_after :: "json_object option"
  fw_forwarding_payload :: string
  fw_review_id :: "string option"
  fw_review :: "json_object option"
  fw_structured_git_final :: "git_final option"
  fw_sessions :: "sessions option"

definition check_forwarded :: "dispatch_record \<Rightarrow> forwarded_result \<Rightarrow> string option" where
  "check_forwarded d f =
     (if d_state d \<noteq> Dispatch_forwarded then Some ''forwarded persistence requires a FORWARDED dispatch record''
      else if d_result_digest d = None then Some ''forwarded persistence requires a durable result digest''
      else if d_forwarding_digest d = None then Some ''forwarded persistence requires a durable forwarding digest''
      else if d_forwarding_digest d \<noteq> Some (sha256_text (fw_forwarding_payload f)) then
        Some ''forwarding payload does not match the durable forwarding digest''
      else if d_result_digest d \<noteq> Some (object_digest (fw_result f)) then
        Some ''result payload does not match the durable result digest''
      else if fw_review f \<noteq> None \<and> fw_review_id f = None then Some ''review persistence requires a review_id''
      else None)"

text \<open>The optional writes of the transaction.\<close>

definition insert_forwarded_review :: "string \<Rightarrow> string \<Rightarrow> forwarded_result \<Rightarrow> int \<Rightarrow> store \<Rightarrow> exn + store" where
  "insert_forwarded_review run_id dispatch_id f now st =
     (case (fw_review_id f, fw_review f) of
        (Some review_id, Some review) \<Rightarrow> insert_review review_id
          \<lparr>rw_run_id = run_id, rw_dispatch_id = dispatch_id, rw_review = stored_object review,
           rw_created_at = now\<rparr> st
      | _ \<Rightarrow> Inr st)"

definition write_forwarded_git :: "string \<Rightarrow> string \<Rightarrow> forwarded_result \<Rightarrow> int \<Rightarrow> store \<Rightarrow> exn + store" where
  "write_forwarded_git run_id dispatch_id f now st =
     (case fw_structured_git_final f of
        None \<Rightarrow> Inr st
      | Some final \<Rightarrow> write_structured_git_final run_id now st (dispatch_id, final))"

definition forwarded_payload :: "dispatch_payload \<Rightarrow> forwarded_result \<Rightarrow> dispatch_payload" where
  "forwarded_payload existing f =
     existing\<lparr>pl_result := Some (fw_result f),
       pl_authoritative_verification :=
         or_keep (fw_authoritative_verification f) (pl_authoritative_verification existing),
       pl_forwarding_payload := Some (fw_forwarding_payload f),
       pl_repository_after := or_keep (fw_repository_after f) (pl_repository_after existing)\<rparr>"

definition persist_forwarded_dispatch ::
  "run_record \<Rightarrow> int \<Rightarrow> string \<Rightarrow> forwarded_result \<Rightarrow> int \<Rightarrow> store \<Rightarrow> exn + (run_record \<times> int) \<times> store" where
  "persist_forwarded_dispatch r expected_generation dispatch_id f now st =
     bindr (find_dispatch r dispatch_id) (\<lambda>d.
     case check_forwarded d f of
       Some message \<Rightarrow> Inl (StateStoreError message)
     | None \<Rightarrow>
       (case dget (st_dispatches st) (r_run_id r, dispatch_id) of
          None \<Rightarrow> Inl (StateStoreConflictError (''dispatch does not exist: '' @ dispatch_id))
        | Some row \<Rightarrow>
          if dw_state row \<notin> {Dispatch_running, Dispatch_completed} then
            Inl (StateStoreConflictError
              (''dispatch cannot be forwarded from durable state '' @ dispatch_status_value (dw_state row)))
          else
            bindr (check_generation st (r_run_id r) expected_generation) (\<lambda>_.
            bindr (load_dispatch_payload st (r_run_id r) dispatch_id) (\<lambda>existing.
            let sessions = (case fw_sessions f of None \<Rightarrow> sessions_for_run st (r_run_id r) | Some s \<Rightarrow> s) in
            bindr (write_snapshot r (expected_generation + 1) sessions st) (\<lambda>st.
            bindr (write_dispatch_payload (r_run_id r) st (dispatch_id, forwarded_payload existing f)) (\<lambda>st.
            bindr (insert_forwarded_review (r_run_id r) dispatch_id f now st) (\<lambda>st.
            bindr (write_forwarded_git (r_run_id r) dispatch_id f now st) (\<lambda>st.
              Inr ((r, expected_generation + 1), st)))))))))"

definition persist_adopted_failed_review ::
  "run_record \<Rightarrow> int \<Rightarrow> string \<Rightarrow> json_object \<Rightarrow> json list \<Rightarrow> json_object \<Rightarrow> string \<Rightarrow> string \<Rightarrow> string
   \<Rightarrow> env \<Rightarrow> int \<Rightarrow> store \<Rightarrow> exn + (run_record \<times> int) \<times> store" where
  "persist_adopted_failed_review r expected_generation dispatch_id result authoritative_verification
     repository_after review_id request_id actor_id e now st =
     bindr (find_dispatch r dispatch_id) (\<lambda>d.
     if d_state d \<noteq> Dispatch_failed then
       Inl (StateStoreError ''failed review adoption requires a FAILED dispatch record'')
     else if \<not> (case dget (st_dispatches st) (r_run_id r, dispatch_id) of
                  None \<Rightarrow> False | Some row \<Rightarrow> dw_state row = Dispatch_failed) then
       Inl (StateStoreConflictError ''durable dispatch is not the failed review attempt'')
     else
       bindr (check_generation st (r_run_id r) expected_generation) (\<lambda>row.
       if r_state (rr_record row) \<noteq> Run_waiting_operator then
         Inl (StateStoreConflictError ''durable run is not waiting on the failed review reconciliation'')
       else if review_for_dispatch st (r_run_id r) dispatch_id then
         Inl (StateStoreConflictError ''failed dispatch review was already adopted'')
       else
         bindr (load_dispatch_payload st (r_run_id r) dispatch_id) (\<lambda>existing.
         let replacement = existing\<lparr>pl_result := Some result,
               pl_authoritative_verification := Some authoritative_verification,
               pl_repository_after := Some repository_after\<rparr> in
         bindr (write_snapshot r (expected_generation + 1) (sessions_for_run st (r_run_id r)) st) (\<lambda>st.
         bindr (write_dispatch_payload (r_run_id r) st (dispatch_id, replacement)) (\<lambda>st.
         bindr (insert_review review_id
                  \<lparr>rw_run_id = r_run_id r, rw_dispatch_id = dispatch_id, rw_review = stored_object result,
                   rw_created_at = now\<rparr> st) (\<lambda>st.
         bindr (insert_decision (''decision-'' @ env_uuid e 0)
                  \<lparr>de_run_id = r_run_id r, de_request_id = request_id, de_actor_id = actor_id,
                   de_answer = ''reconcile'', de_created_at = now\<rparr> st) (\<lambda>st.
           Inr ((r, expected_generation + 1), st))))))))"

section \<open>Cancellation and answers\<close>

text \<open>
  Two transactions: the outcome stands beside the store, since the audit event may fail after the
  generation was committed.
\<close>

definition cancellable :: "dispatch_record \<Rightarrow> exn + int \<times> string \<times> rat" where
  "cancellable d =
     (if d_state d \<noteq> Dispatch_running \<or> d_process_id d = None then
        Inl (StateStoreError ''cancellation requires a running dispatch with a recorded process'')
      else if d_cancel_requested d then
        Inl (StateStoreError ''dispatch cancellation was already requested'')
      else case (d_process_id d, d_process_host d, d_process_create_time d) of
          (Some pid, Some host, Some created) \<Rightarrow> Inr (pid, host, created)
        | (_, None, _) \<Rightarrow> Inl (StateStoreCorruptionError ''running dispatch has no recorded process host'')
        | _ \<Rightarrow> Inl (StateStoreCorruptionError ''running dispatch has no recorded OS process creation time''))"

definition cancelled_record :: "run_record \<Rightarrow> string \<Rightarrow> dispatch_record \<Rightarrow> transition_event \<Rightarrow> run_record" where
  "cancelled_record r dispatch_id d event =
     with_dispatch r dispatch_id
       (d\<lparr>d_cancel_requested := True, d_cancel_requested_at := Some (te_occurred_at event),
          d_last_event := event\<rparr>) event"

definition prepare_cancellation ::
  "env \<Rightarrow> store \<Rightarrow> string \<Rightarrow> int \<Rightarrow> string \<Rightarrow> exn + run_record \<times> transition_event \<times> int \<times> string \<times> rat" where
  "prepare_cancellation e st run_id expected_generation dispatch_id =
     bindr (load_run st run_id) (\<lambda>(r, generation).
     if generation \<noteq> expected_generation then
       Inl (StateStoreConflictError ''run changed before cancellation request'')
     else case dget (r_dispatches r) dispatch_id of
         None \<Rightarrow> Inl (StateStoreError (''dispatch not found: '' @ dispatch_id))
       | Some d \<Rightarrow>
           bindr (cancellable d) (\<lambda>process.
           bindr (make_event e 0 r Actor_operator
                    ''operator requested dispatch cancellation before signalling process'' dispatch_id None) (\<lambda>event.
             Inr (cancelled_record r dispatch_id d event, event, process))))"

definition request_dispatch_cancellation ::
  "env \<Rightarrow> int \<Rightarrow> string \<Rightarrow> int \<Rightarrow> string \<Rightarrow> string \<Rightarrow> store
   \<Rightarrow> (exn + run_record \<times> int \<times> int \<times> string \<times> rat) \<times> store" where
  "request_dispatch_cancellation e now run_id expected_generation dispatch_id actor_id st =
     (case prepare_cancellation e st run_id expected_generation dispatch_id of
        Inl err \<Rightarrow> (Inl err, st)
      | Inr (updated, event, pid, host, created) \<Rightarrow>
          (case save_run updated expected_generation no_extras now st of
             Inl err \<Rightarrow> (Inl err, st)
           | Inr (next_generation, st1) \<Rightarrow>
               (case append_audit_event run_id (''audit-'' @ te_event_id event) (te_sequence event)
                       ''dispatch_cancellation_requested'' dispatch_id None
                       [(''actor_id'', JStr actor_id), (''process_host'', JStr host)] now st1 of
                  Inl err \<Rightarrow> (Inl err, st1)
                | Inr st2 \<Rightarrow> (Inr (updated, next_generation, pid, host, created), st2))))"

definition answer_operator_request ::
  "env \<Rightarrow> int \<Rightarrow> string \<Rightarrow> int \<Rightarrow> string \<Rightarrow> string \<Rightarrow> string \<Rightarrow> store \<Rightarrow> exn + (run_record \<times> int) \<times> store" where
  "answer_operator_request e now run_id expected_generation request_id answer actor_id st =
     bindr (load_run st run_id) (\<lambda>(r, generation).
     if generation \<noteq> expected_generation then
       Inl (generation_conflict run_id expected_generation (int_text generation))
     else
       bindr (answer_record e now r request_id answer actor_id) (\<lambda>updated.
       bindr (write_snapshot updated (expected_generation + 1) (sessions_for_run st run_id) st) (\<lambda>st.
       bindr (insert_decision (''decision-'' @ env_uuid e 1)
                \<lparr>de_run_id = run_id, de_request_id = request_id, de_actor_id = actor_id,
                 de_answer = redact_text answer, de_created_at = now\<rparr> st) (\<lambda>st.
         Inr ((updated, expected_generation + 1), st)))))"

end
