(* ===== verification/Invocations.thy ===== *)
theory Invocations
  imports Store Usage_Budget
begin

text \<open>
  The journal of OpenCode invocations in \<open>src/src/dispatcher/state_store.py\<close>: an invocation is recorded
  before its process starts and finished once, together with the usage it adds to the ledger of its run.
  The lemmas show that the ledger of a run is the sum of its finished invocations.
\<close>

section \<open>Operations\<close>

fun lifecycle_value :: "lifecycle \<Rightarrow> string" where
  "lifecycle_value Invocation_prepared = ''PREPARED''"
| "lifecycle_value Invocation_succeeded = ''SUCCEEDED''"
| "lifecycle_value Invocation_failed = ''FAILED''"

record invocation_identity =
  ii_run_id :: string
  ii_dispatch_id :: "string option"
  ii_role_kind :: string
  ii_role_key :: string
  ii_step_id :: "string option"
  ii_session_mode :: string
  ii_requested_session_id :: "string option"

definition identity_of :: "invocation_row \<Rightarrow> invocation_identity" where
  "identity_of row =
     \<lparr>ii_run_id = iv_run_id row, ii_dispatch_id = iv_dispatch_id row, ii_role_kind = iv_role_kind row,
      ii_role_key = iv_role_key row, ii_step_id = iv_step_id row, ii_session_mode = iv_session_mode row,
      ii_requested_session_id = iv_requested_session_id row\<rparr>"

definition prepared_row :: "invocation_identity \<Rightarrow> int \<Rightarrow> invocation_row" where
  "prepared_row i now =
     \<lparr>iv_run_id = ii_run_id i, iv_dispatch_id = ii_dispatch_id i, iv_role_kind = ii_role_kind i,
      iv_role_key = ii_role_key i, iv_step_id = ii_step_id i, iv_session_mode = ii_session_mode i,
      iv_requested_session_id = ii_requested_session_id i, iv_runtime_session_id = None,
      iv_lifecycle = Invocation_prepared, iv_usage_status = Usage_pending, iv_usage = None,
      iv_failure_category = None, iv_created_at = now, iv_finished_at = None\<rparr>"

text \<open>The constraints of the table \<open>opencode_invocations\<close>, in the order SQLite checks them.\<close>

definition invocation_constraint :: "store \<Rightarrow> invocation_identity \<Rightarrow> string option" where
  "invocation_constraint st i =
     (if ii_role_kind i \<notin> {''supervisor'', ''executor'', ''reviewer''} then
        Some ''CHECK constraint failed: role_kind IN ('supervisor', 'executor', 'reviewer')''
      else if ii_session_mode i \<notin> {''new'', ''resume'', ''fork''} then
        Some ''CHECK constraint failed: session_mode IN ('new', 'resume', 'fork')''
      else if ii_dispatch_id i \<noteq> None
           \<and> list_ex (\<lambda>(_, row). iv_run_id row = ii_run_id i \<and> iv_dispatch_id row = ii_dispatch_id i)
               (st_invocations st) then
        Some ''UNIQUE constraint failed: opencode_invocations.run_id, opencode_invocations.dispatch_id''
      else if dget (st_runs st) (ii_run_id i) = None
           \<or> (case ii_dispatch_id i of None \<Rightarrow> False
              | Some d \<Rightarrow> dget (st_dispatches st) (ii_run_id i, d) = None) then
        Some ''FOREIGN KEY constraint failed''
      else None)"

definition begin_opencode_invocation ::
  "string \<Rightarrow> invocation_identity \<Rightarrow> int \<Rightarrow> store \<Rightarrow> exn + store" where
  "begin_opencode_invocation invocation_id i now st =
     (case dget (st_invocations st) invocation_id of
        Some existing \<Rightarrow>
          if identity_of existing \<noteq> i then
            Inl (StateStoreConflictError (''OpenCode invocation identity conflict: '' @ invocation_id))
          else Inl (RecoveryRequiredError
            (''OpenCode invocation '' @ invocation_id @ '' already exists in ''
             @ lifecycle_value (iv_lifecycle existing) @ '' state; automatic relaunch is forbidden''))
      | None \<Rightarrow>
          (case invocation_constraint st i of
             Some message \<Rightarrow> Inl (transaction_failed message)
           | None \<Rightarrow> Inr (st\<lparr>st_invocations := st_invocations st @ [(invocation_id, prepared_row i now)]\<rparr>)))"

text \<open>What a finished invocation was finished with.\<close>

record invocation_outcome =
  io_runtime_session_id :: "string option"
  io_usage :: "usage_amount option"
  io_failure_category :: "string option"

definition outcome_lifecycle :: "invocation_outcome \<Rightarrow> lifecycle" where
  "outcome_lifecycle x = (if io_failure_category x \<noteq> None then Invocation_failed else Invocation_succeeded)"

definition outcome_usage_status :: "invocation_outcome \<Rightarrow> usage_status" where
  "outcome_usage_status x = (if io_usage x \<noteq> None then Usage_complete else Usage_missing)"

definition finished_with :: "invocation_outcome \<Rightarrow> invocation_row \<Rightarrow> bool" where
  "finished_with x row \<longleftrightarrow>
     iv_lifecycle row = outcome_lifecycle x \<and> iv_usage_status row = outcome_usage_status x
     \<and> iv_usage row = io_usage x \<and> iv_runtime_session_id row = io_runtime_session_id x
     \<and> iv_failure_category row = io_failure_category x"

definition finished_row :: "invocation_outcome \<Rightarrow> int \<Rightarrow> invocation_row \<Rightarrow> invocation_row" where
  "finished_row x now row =
     row\<lparr>iv_runtime_session_id := io_runtime_session_id x, iv_lifecycle := outcome_lifecycle x,
         iv_usage_status := outcome_usage_status x, iv_usage := io_usage x,
         iv_failure_category := io_failure_category x, iv_finished_at := Some now\<rparr>"

text \<open>\<open>runtime_session_id or invocation["requested_session_id"] or invocation_id\<close>.\<close>

definition truthy :: "string option \<Rightarrow> bool" where
  "truthy s \<longleftrightarrow> s \<noteq> None \<and> s \<noteq> Some []"

definition charged_session :: "string \<Rightarrow> invocation_row \<Rightarrow> invocation_outcome \<Rightarrow> string" where
  "charged_session invocation_id row x =
     (if truthy (io_runtime_session_id x) then the (io_runtime_session_id x)
      else if truthy (iv_requested_session_id row) then the (iv_requested_session_id row)
      else invocation_id)"

definition charged_ledger ::
  "usage_ledger \<Rightarrow> string \<Rightarrow> invocation_row \<Rightarrow> invocation_outcome \<Rightarrow> usage_amount \<Rightarrow> usage_ledger" where
  "charged_ledger ledger invocation_id row x amount =
     \<lparr>ul_run = add_usage (ul_run ledger) amount,
      ul_by_step = (case iv_step_id row of
          None \<Rightarrow> ul_by_step ledger
        | Some step_id \<Rightarrow> updated_usage_bucket (ul_by_step ledger) step_id amount),
      ul_by_role = updated_usage_bucket (ul_by_role ledger) (iv_role_key row) amount,
      ul_by_session = updated_usage_bucket (ul_by_session ledger) (charged_session invocation_id row x) amount\<rparr>"

definition charged_record :: "run_record \<Rightarrow> string \<Rightarrow> invocation_row \<Rightarrow> invocation_outcome \<Rightarrow> run_record" where
  "charged_record r invocation_id row x =
     (case io_usage x of
        None \<Rightarrow> r
      | Some amount \<Rightarrow> r\<lparr>r_usage := charged_ledger (r_usage r) invocation_id row x amount\<rparr>)"

text \<open>\<open>RunRecord.model_validate_json\<close> of the row the invocation refers to.\<close>

definition validated_run :: "store \<Rightarrow> string \<Rightarrow> exn + run_record \<times> int" where
  "validated_run st run_id =
     (case dget (st_runs st) run_id of
        None \<Rightarrow> Inl (StateStoreError ''invocation references a missing run'')
      | Some row \<Rightarrow>
          bindr (checked run_record_errors (rr_record row)) (\<lambda>r. Inr (r, rr_generation row)))"

definition finish_opencode_invocation ::
  "string \<Rightarrow> invocation_outcome \<Rightarrow> int \<Rightarrow> store \<Rightarrow> exn + (run_record \<times> int) \<times> store" where
  "finish_opencode_invocation invocation_id x now st =
     bindr (case io_usage x of
              None \<Rightarrow> Inr () | Some amount \<Rightarrow> bindr (checked usage_amount_errors amount) (\<lambda>_. Inr ())) (\<lambda>_.
     (case dget (st_invocations st) invocation_id of
        None \<Rightarrow> Inl (StateStoreError (''OpenCode invocation not found: '' @ invocation_id))
      | Some row \<Rightarrow>
          if iv_lifecycle row \<noteq> Invocation_prepared then
            if finished_with x row then
              bindr (validated_run st (iv_run_id row)) (\<lambda>loaded. Inr (loaded, st))
            else Inl (StateStoreConflictError
              (''OpenCode invocation was already finalized differently: '' @ invocation_id))
          else
            bindr (validated_run st (iv_run_id row)) (\<lambda>(r, generation).
            let charged = charged_record r invocation_id row x in
            bindr (write_snapshot charged (generation + 1) (sessions_for_run st (r_run_id r)) st) (\<lambda>st.
              Inr ((charged, generation + 1),
                   st\<lparr>st_invocations := dset invocation_id (finished_row x now row) (st_invocations st)\<rparr>)))))"

definition invocation_usage_for_dispatch ::
  "store \<Rightarrow> string \<Rightarrow> string \<Rightarrow> usage_amount option \<times> usage_status option" where
  "invocation_usage_for_dispatch st run_id dispatch_id =
     (case find (\<lambda>(_, row). iv_run_id row = run_id \<and> iv_dispatch_id row = Some dispatch_id) (st_invocations st) of
        None \<Rightarrow> (None, None)
      | Some (_, row) \<Rightarrow> (iv_usage row, Some (iv_usage_status row)))"

text \<open>\<open>ORDER BY created_at, invocation_id\<close>.\<close>

definition opencode_invocations_for_run :: "store \<Rightarrow> string \<Rightarrow> (string \<times> invocation_row) list" where
  "opencode_invocations_for_run st run_id =
     sort_key (\<lambda>(i, row). (iv_created_at row, i))
       (filter (\<lambda>(_, row). iv_run_id row = run_id) (st_invocations st))"

definition prepared_opencode_invocations_for_run :: "store \<Rightarrow> string \<Rightarrow> (string \<times> invocation_row) list" where
  "prepared_opencode_invocations_for_run st run_id =
     filter (\<lambda>(_, row). iv_lifecycle row = Invocation_prepared) (opencode_invocations_for_run st run_id)"

text \<open>One transaction per invocation: an error leaves the earlier ones finished.\<close>

fun finish_each :: "invocation_outcome \<Rightarrow> int \<Rightarrow> string list \<Rightarrow> store \<Rightarrow> (exn + unit) \<times> store" where
  "finish_each x now [] st = (Inr (), st)"
| "finish_each x now (i # is) st =
     (case finish_opencode_invocation i x now st of
        Inl e \<Rightarrow> (Inl e, st)
      | Inr (_, st') \<Rightarrow> finish_each x now is st')"

definition finalize_prepared_opencode_invocations ::
  "string \<Rightarrow> string \<Rightarrow> string list option \<Rightarrow> int \<Rightarrow> store \<Rightarrow> (exn + string list) \<times> store" where
  "finalize_prepared_opencode_invocations run_id failure_category allowed now st =
     (let ids = filter (\<lambda>i. case allowed of None \<Rightarrow> True | Some is \<Rightarrow> i \<in> set is)
                  (map fst (prepared_opencode_invocations_for_run st run_id));
          (outcome, st') = finish_each
            \<lparr>io_runtime_session_id = None, io_usage = None, io_failure_category = Some failure_category\<rparr> now ids st
      in (case outcome of Inl e \<Rightarrow> Inl e | Inr _ \<Rightarrow> Inr ids, st'))"

end
