(* ===== verification/Structured_Git.thy ===== *)
theory Structured_Git
  imports Store
begin

text \<open>
  The structured Git lifecycle of one executor attempt in \<open>src/src/dispatcher/state_store.py\<close>: the
  proposal, the checks with an optional commit intent, the staged tree, and the final state, which only
  the transaction that forwards the result writes (\<open>write_structured_git_final\<close>).
\<close>

section \<open>The text a digest is taken of\<close>

text \<open>
  \<open>json.dumps(..., ensure_ascii=False, sort_keys=True, separators=(",", ":"))\<close>: only quotes, backslashes
  and control characters are escaped.
\<close>

definition raw_escape_char :: "char \<Rightarrow> string" where
  "raw_escape_char c = (if code_point c < 127 then escape_char c else [c])"

definition raw_quote_text :: "string \<Rightarrow> string" where
  "raw_quote_text s = CHR 0x22 # concat (map raw_escape_char s) @ [CHR 0x22]"

fun raw_encode :: "json \<Rightarrow> string" where
  "raw_encode (JStr s) = raw_quote_text s"
| "raw_encode (JArr xs) = CHR ''['' # join_text '','' (map raw_encode xs) @ '']''"
| "raw_encode (JObj kvs) =
     CHR ''{'' # join_text '','' (map (\<lambda>kv. raw_quote_text (fst kv) @ CHR '':'' # raw_encode (snd kv)) kvs) @ ''}''"
| "raw_encode j = encode j"

definition stored_digest :: "json_object \<Rightarrow> string" where
  "stored_digest m = sha256_text (raw_encode (JObj (stored_object m)))"

section \<open>Operations\<close>

definition load_structured_git_record :: "store \<Rightarrow> string \<Rightarrow> string \<Rightarrow> exn + git_row" where
  "load_structured_git_record st run_id dispatch_id =
     (case dget (st_git st) (run_id, dispatch_id) of
        None \<Rightarrow> Inl (StateStoreError (''structured Git record not found: '' @ dispatch_id))
      | Some row \<Rightarrow> Inr (row\<lparr>gr_result_revision :=
          (if gr_result_revision row = Some [] then None else gr_result_revision row)\<rparr>))"

definition new_git_row :: "json_object \<Rightarrow> int \<Rightarrow> git_row" where
  "new_git_row proposal now =
     \<lparr>gr_state = Git_proposal_received, gr_proposal = stored_object proposal,
      gr_proposal_digest = stored_digest proposal, gr_checked = None, gr_intent = None, gr_stage = None,
      gr_commit = None, gr_result_revision = None, gr_repository_after = None, gr_failure_detail = None,
      gr_created_at = now, gr_updated_at = now\<rparr>"

definition loaded_git :: "string \<Rightarrow> string \<Rightarrow> exn + store \<Rightarrow> exn + git_row \<times> store" where
  "loaded_git run_id dispatch_id written =
     bindr written (\<lambda>st. bindr (load_structured_git_record st run_id dispatch_id) (\<lambda>row. Inr (row, st)))"

definition record_executor_proposal ::
  "string \<Rightarrow> string \<Rightarrow> json_object \<Rightarrow> int \<Rightarrow> store \<Rightarrow> exn + git_row \<times> store" where
  "record_executor_proposal run_id dispatch_id proposal now st =
     (let key = (run_id, dispatch_id) in
      loaded_git run_id dispatch_id
        (if dget (st_dispatches st) key = None then
           Inl (StateStoreError (''executor proposal references unknown dispatch: '' @ dispatch_id))
         else case dget (st_git st) key of
             Some existing \<Rightarrow>
               if gr_proposal_digest existing \<noteq> stored_digest proposal then
                 Inl (StateStoreConflictError ''executor proposal differs from the durable proposal'')
               else Inr st
           | None \<Rightarrow> Inr (st\<lparr>st_git := st_git st @ [(key, new_git_row proposal now)]\<rparr>)))"

text \<open>\<open>_transition_structured_git_record\<close>; the fields a caller does not pass keep their value.\<close>

record git_update =
  gu_checked :: "json_object option"
  gu_intent :: "json_object option"
  gu_stage :: "json_object option"
  gu_failure_detail :: "string option"

definition no_git_update :: git_update where
  "no_git_update = \<lparr>gu_checked = None, gu_intent = None, gu_stage = None, gu_failure_detail = None\<rparr>"

definition transition_structured_git_record ::
  "string \<Rightarrow> string \<Rightarrow> git_state list \<Rightarrow> git_state \<Rightarrow> git_update \<Rightarrow> int \<Rightarrow> store \<Rightarrow> exn + store" where
  "transition_structured_git_record run_id dispatch_id allowed target u now st =
     (let key = (run_id, dispatch_id) in
      case dget (st_git st) key of
        None \<Rightarrow> Inl (StateStoreError (''structured Git record not found: '' @ dispatch_id))
      | Some row \<Rightarrow>
          if gr_state row \<notin> set allowed then
            Inl (StateStoreConflictError
              (''structured Git record cannot move from '' @ git_state_value (gr_state row)
               @ '' to '' @ git_state_value target))
          else Inr (st\<lparr>st_git := dset key
            (row\<lparr>gr_state := target,
                 gr_checked := or_keep (map_option stored_object (gu_checked u)) (gr_checked row),
                 gr_intent := or_keep (map_option stored_object (gu_intent u)) (gr_intent row),
                 gr_stage := or_keep (map_option stored_object (gu_stage u)) (gr_stage row),
                 gr_failure_detail := or_keep (gu_failure_detail u) (gr_failure_detail row),
                 gr_updated_at := now\<rparr>) (st_git st)\<rparr>))"

definition record_structured_git_checked ::
  "string \<Rightarrow> string \<Rightarrow> json_object \<Rightarrow> json_object option \<Rightarrow> int \<Rightarrow> store \<Rightarrow> exn + git_row \<times> store" where
  "record_structured_git_checked run_id dispatch_id checks intent now st =
     loaded_git run_id dispatch_id
       (transition_structured_git_record run_id dispatch_id [Git_proposal_received]
          (if intent \<noteq> None then Git_commit_intent_persisted else Git_checked)
          (no_git_update\<lparr>gu_checked := Some checks, gu_intent := intent\<rparr>) now st)"

definition record_structured_git_staged ::
  "string \<Rightarrow> string \<Rightarrow> json_object \<Rightarrow> int \<Rightarrow> store \<Rightarrow> exn + git_row \<times> store" where
  "record_structured_git_staged run_id dispatch_id stage now st =
     loaded_git run_id dispatch_id
       (transition_structured_git_record run_id dispatch_id [Git_commit_intent_persisted] Git_staged
          (no_git_update\<lparr>gu_stage := Some stage\<rparr>) now st)"

definition mark_structured_git_reconciliation ::
  "string \<Rightarrow> string \<Rightarrow> string \<Rightarrow> int \<Rightarrow> store \<Rightarrow> exn + git_row \<times> store" where
  "mark_structured_git_reconciliation run_id dispatch_id detail now st =
     loaded_git run_id dispatch_id
       (transition_structured_git_record run_id dispatch_id
          [Git_proposal_received, Git_checked, Git_commit_intent_persisted, Git_staged]
          Git_reconciliation_required
          (no_git_update\<lparr>gu_failure_detail := Some (take 5000 (redact_text detail))\<rparr>) now st)"

end
