(* ===== verification/Store_Invariant.thy ===== *)
theory Store_Invariant
  imports Store_Dispatches Invocations Structured_Git
begin

text \<open>
  What the tables of the store keep: the constraints of the schema, the agreement of the dispatch rows
  with the records they hold, and the redaction of everything at rest. Every write of the store keeps
  them, hence every operation does.
\<close>


section \<open>The invariants\<close>

definition run_rows_ok :: "store \<Rightarrow> bool" where
  "run_rows_ok st \<longleftrightarrow>
     distinct (dkeys (st_runs st))
     \<and> (\<forall>(k, row) \<in> set (st_runs st). r_run_id (rr_record row) = k \<and> 1 \<le> rr_generation row)
     \<and> (\<forall>(k, row) \<in> set (st_runs st). \<forall>(k', row') \<in> set (st_runs st).
          is_active (rr_record row) \<and> is_active (rr_record row')
          \<and> r_project_id (rr_record row) = r_project_id (rr_record row') \<longrightarrow> k = k')"

text \<open>A dispatch row belongs to a run, and its columns agree with the record it holds.\<close>

definition dispatch_row_ok :: "string set \<Rightarrow> (string \<times> string) \<times> dispatch_row \<Rightarrow> bool" where
  "dispatch_row_ok run_ids entry \<longleftrightarrow>
     (case entry of ((run_id, i), row) \<Rightarrow>
        run_id \<in> run_ids \<and> d_dispatch_id (dw_record row) = i
        \<and> dw_state row = d_state (dw_record row)
        \<and> dw_runtime_session_id row = d_runtime_session_id (dw_record row))"

definition idempotency_claim :: "(string \<times> string) \<times> dispatch_row \<Rightarrow> string \<times> string" where
  "idempotency_claim entry = (fst (fst entry), dw_idempotency_key (snd entry))"

definition dispatch_rows_ok :: "store \<Rightarrow> bool" where
  "dispatch_rows_ok st \<longleftrightarrow>
     distinct (dkeys (st_dispatches st))
     \<and> list_all (dispatch_row_ok (dom (dget (st_runs st)))) (st_dispatches st)
     \<and> distinct (map idempotency_claim (st_dispatches st))"

definition invocation_refs_ok :: "string set \<Rightarrow> (string \<times> string) set \<Rightarrow> string \<times> invocation_row \<Rightarrow> bool" where
  "invocation_refs_ok runs dispatches entry \<longleftrightarrow>
     (case entry of (_, row) \<Rightarrow> iv_run_id row \<in> runs
        \<and> (\<forall>d. iv_dispatch_id row = Some d \<longrightarrow> (iv_run_id row, d) \<in> dispatches))"

definition references_ok :: "store \<Rightarrow> bool" where
  "references_ok st \<longleftrightarrow>
     dom (dget (st_payloads st)) \<subseteq> dom (dget (st_dispatches st))
     \<and> dom (dget (st_git st)) \<subseteq> dom (dget (st_dispatches st))
     \<and> list_all (invocation_refs_ok (dom (dget (st_runs st))) (dom (dget (st_dispatches st)))) (st_invocations st)
     \<and> (\<forall>(_, row) \<in> set (st_reviews st). rw_run_id row \<in> dom (dget (st_runs st)))
     \<and> (\<forall>(_, row) \<in> set (st_decisions st). de_run_id row \<in> dom (dget (st_runs st)))
     \<and> (\<forall>(_, row) \<in> set (st_audit st). au_run_id row \<in> dom (dget (st_runs st)))"

definition invocation_row_ok :: "string \<times> invocation_row \<Rightarrow> bool" where
  "invocation_row_ok entry \<longleftrightarrow>
     (case entry of (_, row) \<Rightarrow>
        (iv_lifecycle row = Invocation_prepared \<longleftrightarrow> iv_usage_status row = Usage_pending)
        \<and> (iv_usage row \<noteq> None \<longleftrightarrow> iv_usage_status row = Usage_complete)
        \<and> (iv_finished_at row = None \<longleftrightarrow> iv_lifecycle row = Invocation_prepared))"

definition invocation_rows_ok :: "store \<Rightarrow> bool" where
  "invocation_rows_ok st \<longleftrightarrow>
     distinct (dkeys (st_invocations st)) \<and> list_all invocation_row_ok (st_invocations st)"

text \<open>No JSON column holds the value of a secret key.\<close>

definition hidden_object :: "json_object \<Rightarrow> bool" where
  "hidden_object m \<longleftrightarrow> hidden_secrets (JObj m)"

definition hidden_payload :: "dispatch_payload \<Rightarrow> bool" where
  "hidden_payload p \<longleftrightarrow>
     hidden_object (pl_policy p) \<and> pred_option hidden_object (pl_result p)
     \<and> pred_option (list_all hidden_secrets) (pl_authoritative_verification p)
     \<and> pred_option hidden_object (pl_session_metadata p)
     \<and> pred_option hidden_object (pl_repository_before p)
     \<and> pred_option hidden_object (pl_repository_after p)"

definition hidden_git :: "git_row \<Rightarrow> bool" where
  "hidden_git row \<longleftrightarrow>
     hidden_object (gr_proposal row) \<and> pred_option hidden_object (gr_checked row)
     \<and> pred_option hidden_object (gr_intent row) \<and> pred_option hidden_object (gr_stage row)
     \<and> pred_option hidden_object (gr_commit row) \<and> pred_option hidden_object (gr_repository_after row)"

definition secrets_at_rest :: "store \<Rightarrow> bool" where
  "secrets_at_rest st \<longleftrightarrow>
     list_all (\<lambda>(_, p). hidden_payload p) (st_payloads st)
     \<and> list_all (\<lambda>(_, row). hidden_git row) (st_git st)
     \<and> list_all (\<lambda>(_, m). hidden_object m) (st_sessions st)
     \<and> list_all (\<lambda>(_, row). hidden_object (rw_review row)) (st_reviews st)
     \<and> list_all (\<lambda>(_, row). hidden_object (au_payload row)) (st_audit st)"

definition store_ok :: "store \<Rightarrow> bool" where
  "store_ok st \<longleftrightarrow>
     run_rows_ok st \<and> dispatch_rows_ok st \<and> references_ok st \<and> invocation_rows_ok st \<and> secrets_at_rest st"

lemmas store_ok_defs =
  store_ok_def run_rows_ok_def dispatch_rows_ok_def references_ok_def invocation_rows_ok_def secrets_at_rest_def

lemma store_ok_empty: "store_ok empty_store"
  by (simp add: store_ok_defs empty_store_def)

section \<open>Redaction of the columns\<close>

lemma canon_text: "canon j = JStr s \<longleftrightarrow> j = JStr s"
  by (cases j) auto

lemma is_text_canon [simp]: "is_text (canon j) = is_text j"
  by (cases j) auto

lemma hidden_canon: "hidden_secrets (canon j) = hidden_secrets j"
  by (induction j) (fastforce simp: list_all_iff hides_def canon_text)+

lemma hidden_stored_object [simp]: "hidden_object (stored_object m)"
  by (simp add: hidden_object_def stored_object_json hidden_canon hidden_redact del: redact_value.simps canon.simps)

lemma hidden_stored_list [simp]: "list_all hidden_secrets (stored_list xs)"
  by (simp add: stored_list_def list_all_iff hidden_canon hidden_redact)

lemma hidden_empty [simp]: "hidden_object []"
  by (simp add: hidden_object_def)

lemma pred_map_stored [simp]:
  "pred_option hidden_object (map_option stored_object x)"
  "pred_option (list_all hidden_secrets) (map_option stored_list y)"
  by (cases x; cases y; simp)+

lemma pred_or_keep: "pred_option P new \<Longrightarrow> pred_option P old \<Longrightarrow> pred_option P (or_keep new old)"
  by (cases new) (simp_all add: or_keep_def)

lemma hidden_stored_payload: "hidden_payload (stored_payload p)"
  by (simp add: hidden_payload_def stored_payload_def)

lemma list_all_dset: "list_all P d \<Longrightarrow> P (k, v) \<Longrightarrow> list_all P (dset k v d)"
  by (auto simp: list_all_iff dest!: dset_in_set)

lemma list_all_dget: "list_all (\<lambda>(_, v). P v) d \<Longrightarrow> dget d k = Some v \<Longrightarrow> P v"
  by (auto simp: list_all_iff dest!: dget_in_set)

section \<open>Frames\<close>

text \<open>The loops of a snapshot change one table each.\<close>

lemma fold_step_rows:
  "fold (write_step_row run_id g) ss st =
     st\<lparr>st_steps := fold (\<lambda>s. dset (run_id, s_step_id s)
         \<lparr>sr_state = s_state s, sr_generation = g, sr_record = s\<rparr>) ss (st_steps st)\<rparr>"
  by (induction ss arbitrary: st) (simp_all add: write_step_row_def)

lemma fold_group_rows: "\<exists>groups. fold (write_group_row run_id g) gs st = st\<lparr>st_groups := groups\<rparr>"
proof (induction gs arbitrary: st)
  case Nil
  have "st = st\<lparr>st_groups := st_groups st\<rparr>" by simp
  then show ?case by (metis fold_Nil id_apply)
next
  case (Cons h gs)
  obtain groups where h: "write_group_row run_id g h st = st\<lparr>st_groups := groups\<rparr>"
    by (auto simp: write_group_row_def Let_def)
  from Cons [of "st\<lparr>st_groups := groups\<rparr>"] show ?case by (auto simp: h)
qed

lemma write_dispatch_row_frame:
  "write_dispatch_row run_id g st d = Inr st' \<Longrightarrow> st' = st\<lparr>st_dispatches := st_dispatches st'\<rparr>"
  by (auto simp: write_dispatch_row_def Let_def split: option.splits if_splits)

lemma dispatch_rows_frame:
  "foldr_result (write_dispatch_row run_id g) st ds = Inr st' \<Longrightarrow> st' = st\<lparr>st_dispatches := st_dispatches st'\<rparr>"
proof (induction ds arbitrary: st)
  case (Cons d ds)
  then obtain mid where mid: "write_dispatch_row run_id g st d = Inr mid"
    "foldr_result (write_dispatch_row run_id g) mid ds = Inr st'" by (auto simp: bindr_Inr_iff)
  from write_dispatch_row_frame [OF mid(1)] Cons.IH [OF mid(2)] show ?case
    by (metis store.surjective store.update_convs(4))
qed simp

text \<open>A snapshot, table by table.\<close>

lemma write_snapshot_Inr:
  assumes "write_snapshot r g sessions st = Inr st'"
  obtains mid mid' plans steps groups where
    "write_run_row r g st = Inr mid"
    "foldr_result (write_dispatch_row (r_run_id r) g) (mid\<lparr>st_plans := plans, st_steps := steps\<rparr>)
       (map snd (r_dispatches r)) = Inr mid'"
    "st' = write_sessions (r_run_id r) sessions (mid'\<lparr>st_groups := groups\<rparr>)"
proof -
  from assms obtain mid where mid: "write_run_row r g st = Inr mid"
    by (auto simp: write_snapshot_def bindr_Inr_iff)
  let ?plans = "st_plans (write_plan_row r g mid)"
  let ?steps = "fold (\<lambda>s. dset (r_run_id r, s_step_id s)
         \<lparr>sr_state = s_state s, sr_generation = g, sr_record = s\<rparr>) (map snd (r_steps r)) (st_steps mid)"
  have plan: "write_plan_row r g mid = mid\<lparr>st_plans := ?plans\<rparr>" by (simp add: write_plan_row_def)
  from assms mid plan obtain mid' where mid':
    "foldr_result (write_dispatch_row (r_run_id r) g) (mid\<lparr>st_plans := ?plans, st_steps := ?steps\<rparr>)
       (map snd (r_dispatches r)) = Inr mid'"
    "st' = write_sessions (r_run_id r) sessions
       (fold (write_group_row (r_run_id r) g) (map snd (r_workspace_groups r)) mid')"
    by (auto simp: write_snapshot_def bindr_Inr_iff Let_def fold_step_rows write_plan_row_def)
  obtain groups where "fold (write_group_row (r_run_id r) g) (map snd (r_workspace_groups r)) mid'
      = mid'\<lparr>st_groups := groups\<rparr>"
    using fold_group_rows by blast
  with mid mid' show thesis using that by simp
qed

lemma write_run_row_Inr:
  "write_run_row r g st = Inr st' \<longleftrightarrow>
     1 \<le> g \<and> (is_active r \<longrightarrow> set (active_runs st (r_project_id r)) \<subseteq> {r_run_id r})
     \<and> st' = st\<lparr>st_runs := dset (r_run_id r) \<lparr>rr_record = r, rr_generation = g\<rparr> (st_runs st)\<rparr>"
  by (auto simp: write_run_row_def)

lemma write_snapshot_frame:
  assumes "write_snapshot r g sessions st = Inr st'"
  shows "st_runs st' = dset (r_run_id r) \<lparr>rr_record = r, rr_generation = g\<rparr> (st_runs st)"
    and "st_payloads st' = st_payloads st" and "st_git st' = st_git st"
    and "st_invocations st' = st_invocations st" and "st_reviews st' = st_reviews st"
    and "st_decisions st' = st_decisions st" and "st_audit st' = st_audit st"
  using assms
  by (auto elim!: write_snapshot_Inr simp: write_run_row_Inr write_sessions_def dest!: dispatch_rows_frame
      dest: arg_cong [where f = st_runs] arg_cong [where f = st_payloads] arg_cong [where f = st_git]
        arg_cong [where f = st_invocations] arg_cong [where f = st_reviews] arg_cong [where f = st_decisions]
        arg_cong [where f = st_audit])

lemma dom_dset: "dom (dget (dset k v d)) = insert k (dom (dget d))"
  by (auto simp: dget_dset split: if_splits)

section \<open>The writes keep the invariants\<close>

lemma run_rows_ok_dset:
  assumes "run_rows_ok st" "1 \<le> g" "is_active r \<longrightarrow> set (active_runs st (r_project_id r)) \<subseteq> {r_run_id r}"
  shows "run_rows_ok (st\<lparr>st_runs := dset (r_run_id r) \<lparr>rr_record = r, rr_generation = g\<rparr> (st_runs st)\<rparr>)"
proof -
  let ?row = "\<lparr>rr_record = r, rr_generation = g\<rparr>"
  have other: "k = r_run_id r"
    if "(k, row) \<in> set (st_runs st)" "is_active (rr_record row)" "is_active r"
      "r_project_id (rr_record row) = r_project_id r" for k row
  proof -
    have "k \<in> set (active_runs st (r_project_id r))" using that by (force simp: active_runs_def)
    with assms(3) that(3) show ?thesis by auto
  qed
  show ?thesis
    using assms(1,2) other
    by (auto simp: run_rows_ok_def distinct_dkeys_dset dest!: dset_in_set)
qed

lemma references_grow:
  assumes "references_ok st" "dom (dget (st_runs st)) \<subseteq> dom (dget (st_runs st'))"
    "dom (dget (st_dispatches st)) \<subseteq> dom (dget (st_dispatches st'))"
    "st_payloads st' = st_payloads st" "st_git st' = st_git st" "st_invocations st' = st_invocations st"
    "st_reviews st' = st_reviews st" "st_decisions st' = st_decisions st" "st_audit st' = st_audit st"
  shows "references_ok st'"
proof -
  have "invocation_refs_ok (dom (dget (st_runs st'))) (dom (dget (st_dispatches st'))) entry"
    if "invocation_refs_ok (dom (dget (st_runs st))) (dom (dget (st_dispatches st))) entry" for entry
    using that assms(2,3) unfolding invocation_refs_ok_def by (cases entry) blast
  then have "list_all (invocation_refs_ok (dom (dget (st_runs st'))) (dom (dget (st_dispatches st')))) (st_invocations st)"
    if "list_all (invocation_refs_ok (dom (dget (st_runs st))) (dom (dget (st_dispatches st)))) (st_invocations st)"
    using that by (auto simp: list_all_iff)
  with assms(1) show ?thesis
    unfolding references_ok_def assms(4-9) case_prod_beta
    using subsetD [OF assms(2)] subsetD [OF assms(3)] by (simp add: subset_iff del: domIff)
qed

lemma dset_absent: "dget d k = None \<Longrightarrow> dset k v d = d @ [(k, v)]"
  by (induction d) (auto split: if_splits)

lemma map_dset_present:
  "dget d k = Some v \<Longrightarrow> f (k, v') = f (k, v) \<Longrightarrow> map f (dset k v' d) = map f d"
  by (induction d) (auto split: if_splits)

lemma idempotency_claims_of_run:
  "(run_id, i) \<in> set (map idempotency_claim (st_dispatches st)) \<longleftrightarrow> i \<in> set (used_idempotency_keys st run_id)"
  by (force simp: used_idempotency_keys_def idempotency_claim_def)

lemma dispatch_rows_ok_row:
  assumes "write_dispatch_row run_id g st d = Inr st'" "dispatch_rows_ok st" "run_id \<in> dom (dget (st_runs st))"
  shows "dispatch_rows_ok st'"
proof (cases "dget (st_dispatches st) (run_id, d_dispatch_id d)")
  case (Some row)
  then show ?thesis
    using assms
    by (auto simp: write_dispatch_row_def dispatch_rows_ok_def distinct_dkeys_dset idempotency_claim_def
        dispatch_row_ok_def map_dset_present [OF Some] intro!: list_all_dset)
next
  case None
  from None assms have "di_idempotency_key (d_intent d) \<notin> set (used_idempotency_keys st run_id)"
    and st': "st' = st\<lparr>st_dispatches := st_dispatches st @ [((run_id, d_dispatch_id d), new_dispatch_row g d)]\<rparr>"
    by (auto simp: write_dispatch_row_def dset_absent split: if_splits)
  then have "(run_id, di_idempotency_key (d_intent d)) \<notin> set (map idempotency_claim (st_dispatches st))"
    using idempotency_claims_of_run by blast
  with assms(2,3) None show ?thesis
    by (auto simp: st' dispatch_rows_ok_def dispatch_row_ok_def new_dispatch_row_def idempotency_claim_def
        dget_None_iff domIff)
qed

lemma dispatch_rows_ok_runs:
  assumes "dispatch_rows_ok st" "dom (dget (st_runs st)) \<subseteq> dom (dget (st_runs st'))"
    "st_dispatches st' = st_dispatches st"
  shows "dispatch_rows_ok st'"
proof -
  have "dispatch_row_ok (dom (dget (st_runs st'))) entry" if "dispatch_row_ok (dom (dget (st_runs st))) entry" for entry
    using that assms(2) by (cases entry) (auto simp: dispatch_row_ok_def split: prod.splits)
  with assms show ?thesis by (auto simp: dispatch_rows_ok_def list_all_iff)
qed

lemma write_dispatch_row_Inr:
  "write_dispatch_row run_id g st d = Inr st' \<Longrightarrow>
     \<exists>row. st' = st\<lparr>st_dispatches := dset (run_id, d_dispatch_id d) row (st_dispatches st)\<rparr>"
  by (auto simp: write_dispatch_row_def Let_def split: option.splits if_splits)

lemma write_dispatch_row_keys:
  "write_dispatch_row run_id g st d = Inr st' \<Longrightarrow>
     dom (dget (st_dispatches st')) = insert (run_id, d_dispatch_id d) (dom (dget (st_dispatches st)))"
  by (drule write_dispatch_row_Inr, erule exE) (simp add: dom_dset)

text \<open>What a snapshot leaves of the dispatch rows.\<close>

lemma write_snapshot_dispatch_rows:
  assumes "write_snapshot r g sessions st = Inr st'" "dispatch_rows_ok st"
  shows "dispatch_rows_ok st' \<and> dom (dget (st_dispatches st)) \<subseteq> dom (dget (st_dispatches st'))"
  using assms(1)
proof (rule write_snapshot_Inr)
  fix mid mid' plans steps groups
  assume mid: "write_run_row r g st = Inr mid"
    and mid': "foldr_result (write_dispatch_row (r_run_id r) g) (mid\<lparr>st_plans := plans, st_steps := steps\<rparr>)
       (map snd (r_dispatches r)) = Inr mid'"
    and st': "st' = write_sessions (r_run_id r) sessions (mid'\<lparr>st_groups := groups\<rparr>)"
  let ?P = "\<lambda>s. dispatch_rows_ok s \<and> r_run_id r \<in> dom (dget (st_runs s))
     \<and> dom (dget (st_dispatches st)) \<subseteq> dom (dget (st_dispatches s))"
  have "?P mid'"
  proof (rule foldr_result_invariant [OF mid'])
    show "?P (mid\<lparr>st_plans := plans, st_steps := steps\<rparr>)"
    proof (intro conjI)
      show "dispatch_rows_ok (mid\<lparr>st_plans := plans, st_steps := steps\<rparr>)"
        by (rule dispatch_rows_ok_runs [OF assms(2)]) (use mid in \<open>auto simp: write_run_row_Inr dom_dset\<close>)
    qed (use mid in \<open>auto simp: write_run_row_Inr dom_dset\<close>)
    fix s d s' assume "?P s" "write_dispatch_row (r_run_id r) g s d = Inr s'"
    then show "?P s'"
      using write_dispatch_row_frame write_dispatch_row_keys
      by (metis (no_types, lifting) dispatch_rows_ok_row insert_subset store.select_convs(1) store.surjective
          store.update_convs(4) subset_insertI2)
  qed
  then show ?thesis by (auto simp: st' write_sessions_def intro: dispatch_rows_ok_runs)
qed

lemma secrets_write_sessions:
  assumes "secrets_at_rest st" shows "secrets_at_rest (write_sessions run_id sessions st)"
proof -
  have "list_all (\<lambda>(_, m). hidden_object m) (session_rows run_id sessions)"
    by (auto simp: session_rows_def list_all_iff)
  with assms show ?thesis by (auto simp: secrets_at_rest_def write_sessions_def list_all_iff)
qed

theorem write_snapshot_ok:
  assumes "write_snapshot r g sessions st = Inr st'" "store_ok st"
  shows "store_ok st'"
proof -
  note frame = write_snapshot_frame [OF assms(1)]
  from assms(2) have ok: "run_rows_ok st" "dispatch_rows_ok st" "references_ok st" "invocation_rows_ok st"
    "secrets_at_rest st" by (auto simp: store_ok_def)
  note rows = write_snapshot_dispatch_rows [OF assms(1) ok(2)]
  have "run_rows_ok st'"
    using assms(1)
  proof (rule write_snapshot_Inr)
    fix mid assume "write_run_row r g st = Inr mid"
    then have "run_rows_ok (st\<lparr>st_runs := st_runs st'\<rparr>)"
      using run_rows_ok_dset [OF ok(1)] by (simp add: write_run_row_Inr frame(1))
    then show ?thesis by (simp add: run_rows_ok_def)
  qed
  moreover have "references_ok st'"
    by (rule references_grow [OF ok(3)]) (use rows frame in \<open>auto simp: dom_dset\<close>)
  moreover have "invocation_rows_ok st'" using ok(4) by (simp add: invocation_rows_ok_def frame(4))
  moreover have "secrets_at_rest st'"
    using assms(1)
  proof (rule write_snapshot_Inr)
    fix mid mid' plans steps groups
    assume mid: "write_run_row r g st = Inr mid"
      and mid': "foldr_result (write_dispatch_row (r_run_id r) g) (mid\<lparr>st_plans := plans, st_steps := steps\<rparr>)
         (map snd (r_dispatches r)) = Inr mid'"
      and st': "st' = write_sessions (r_run_id r) sessions (mid'\<lparr>st_groups := groups\<rparr>)"
    obtain rows where "mid' = mid\<lparr>st_plans := plans, st_steps := steps, st_dispatches := rows\<rparr>"
      using dispatch_rows_frame [OF mid'] by blast
    with mid ok(5) have "secrets_at_rest (mid'\<lparr>st_groups := groups\<rparr>)"
      by (simp add: write_run_row_Inr secrets_at_rest_def)
    then show ?thesis unfolding st' by (rule secrets_write_sessions)
  qed
  ultimately show ?thesis using rows by (simp add: store_ok_def)
qed

lemma write_payload_ok:
  assumes "write_dispatch_payload run_id st entry = Inr st'" "store_ok st"
  shows "store_ok st'"
proof -
  obtain p where "st' = st\<lparr>st_payloads := dset (run_id, fst entry) (stored_payload p) (st_payloads st)\<rparr>"
    "(run_id, fst entry) \<in> dom (dget (st_dispatches st))"
    using assms(1) by (auto simp: write_dispatch_payload_def Let_def split: option.splits)
  with assms(2) show ?thesis
    by (auto simp: store_ok_defs dom_dset hidden_stored_payload simp del: domIff intro!: list_all_dset)
qed

lemma hidden_git_dget: "secrets_at_rest st \<Longrightarrow> dget (st_git st) key = Some row \<Longrightarrow> hidden_git row"
  unfolding secrets_at_rest_def by (blast dest: list_all_dget)

lemma git_dset_ok:
  assumes "store_ok st" "key \<in> dom (dget (st_dispatches st))" "hidden_git row"
  shows "store_ok (st\<lparr>st_git := dset key row (st_git st)\<rparr>)"
  using assms by (auto simp: store_ok_defs dom_dset simp del: domIff intro!: list_all_dset)

lemma git_row_of_dispatch:
  "store_ok st \<Longrightarrow> dget (st_git st) key = Some row \<Longrightarrow> key \<in> dom (dget (st_dispatches st)) \<and> hidden_git row"
  unfolding store_ok_def references_ok_def using hidden_git_dget by blast

lemma write_git_final_ok:
  assumes "write_structured_git_final run_id now st entry = Inr st'" "store_ok st"
  shows "store_ok st'"
proof -
  obtain source target where fs: "final_source (gf_state (snd entry)) = Some (source, target)"
    using assms(1) by (cases "final_source (gf_state (snd entry))") (auto simp: write_structured_git_final_def)
  obtain row where row: "dget (st_git st) (run_id, fst entry) = Some row"
    using assms(1) fs by (cases "dget (st_git st) (run_id, fst entry)") (auto simp: write_structured_git_final_def)
  have st': "st' = st\<lparr>st_git := dset (run_id, fst entry)
      (row\<lparr>gr_state := target, gr_commit := map_option stored_object (gf_commit (snd entry)),
           gr_result_revision := gf_result_revision (snd entry),
           gr_repository_after :=
             Some (case gf_repository_after (snd entry) of None \<Rightarrow> [] | Some m \<Rightarrow> stored_object m),
           gr_updated_at := now\<rparr>) (st_git st)\<rparr>"
    using assms(1) fs row by (simp add: write_structured_git_final_def Let_def split: if_splits)
  from git_row_of_dispatch [OF assms(2) row] show ?thesis
    unfolding st' by (intro git_dset_ok [OF assms(2)]) (auto simp: hidden_git_def split: option.splits)
qed

lemma save_run_Inr:
  assumes "save_run r g x now st = Inr (g', st')"
  obtains row sessions st1 st2 where "dget (st_runs st) (r_run_id r) = Some row" "rr_generation row = g"
    "g' = g + 1" "write_snapshot r (g + 1) sessions st = Inr st1"
    "foldr_result (write_dispatch_payload (r_run_id r)) st1 (se_payloads x) = Inr st2"
    "foldr_result (write_structured_git_final (r_run_id r) now) st2 (se_git_updates x) = Inr st'"
  using assms by (auto simp: save_run_def Let_def bindr_Inr_iff split: option.splits if_splits)

theorem save_run_ok:
  assumes "save_run r g x now st = Inr (g', st')" "store_ok st"
  shows "store_ok st'"
proof (rule save_run_Inr [OF assms(1)])
  fix sessions st1 st2
  assume steps: "write_snapshot r (g + 1) sessions st = Inr st1"
    "foldr_result (write_dispatch_payload (r_run_id r)) st1 (se_payloads x) = Inr st2"
    "foldr_result (write_structured_git_final (r_run_id r) now) st2 (se_git_updates x) = Inr st'"
  have "store_ok st1" by (rule write_snapshot_ok [OF steps(1) assms(2)])
  then have "store_ok st2" by (rule foldr_result_invariant [OF steps(2)]) (rule write_payload_ok)
  then show ?thesis by (rule foldr_result_invariant [OF steps(3)]) (rule write_git_final_ok)
qed

section \<open>The other operations keep the invariants\<close>

lemma create_run_ok: "create_run r sessions st = Inr (g, st') \<Longrightarrow> store_ok st \<Longrightarrow> store_ok st'"
  by (auto simp: create_run_def bindr_Inr_iff split: list.splits if_splits intro: write_snapshot_ok)

lemma insert_audit_event_Inr:
  "insert_audit_event i row st = Inr st' \<longleftrightarrow>
     dget (st_audit st) i = None \<and> au_run_id row \<in> dom (dget (st_runs st))
     \<and> st' = st\<lparr>st_audit := st_audit st @ [(i, row)]\<rparr>"
  by (auto simp: insert_audit_event_def)

lemma insert_review_Inr:
  "insert_review i row st = Inr st' \<longleftrightarrow>
     dget (st_reviews st) i = None \<and> rw_run_id row \<in> dom (dget (st_runs st))
     \<and> st' = st\<lparr>st_reviews := st_reviews st @ [(i, row)]\<rparr>"
  by (auto simp: insert_review_def)

lemma insert_decision_Inr:
  "insert_decision i row st = Inr st' \<longleftrightarrow>
     dget (st_decisions st) i = None
     \<and> \<not> list_ex (\<lambda>(_, other). de_run_id other = de_run_id row \<and> de_request_id other = de_request_id row)
           (st_decisions st)
     \<and> de_run_id row \<in> dom (dget (st_runs st))
     \<and> st' = st\<lparr>st_decisions := st_decisions st @ [(i, row)]\<rparr>"
  by (auto simp: insert_decision_def)

lemma append_audit_event_ok:
  "append_audit_event run_id i n k c d p now st = Inr st' \<Longrightarrow> store_ok st \<Longrightarrow> store_ok st'"
  by (simp add: append_audit_event_def insert_audit_event_Inr store_ok_defs del: domIff)

lemma insert_review_ok:
  "insert_review i row st = Inr st' \<Longrightarrow> hidden_object (rw_review row) \<Longrightarrow> store_ok st \<Longrightarrow> store_ok st'"
  by (simp add: insert_review_Inr store_ok_defs del: domIff)

lemma insert_decision_ok: "insert_decision i row st = Inr st' \<Longrightarrow> store_ok st \<Longrightarrow> store_ok st'"
  by (simp add: insert_decision_Inr store_ok_defs del: domIff)

lemma complete_run_Inr:
  assumes "complete_run r g i n c p now st = Inr (g', st')"
  obtains row st1 where "r_state r = Run_succeeded" "dget (st_runs st) (r_run_id r) = Some row"
    "rr_generation row = g" "g' = g + 1"
    "write_snapshot r (g + 1) (sessions_for_run st (r_run_id r)) st = Inr st1"
    "append_audit_event (r_run_id r) i n ''run_succeeded'' c None [(''report_path'', JStr p)] now st1 = Inr st'"
proof (cases "dget (st_runs st) (r_run_id r)")
  case (Some row)
  with assms that show thesis by (simp add: complete_run_def Let_def bindr_Inr_iff split: if_splits) blast
qed (use assms in \<open>simp add: complete_run_def Let_def split: if_splits\<close>)

lemma complete_run_ok: "complete_run r g i n c p now st = Inr (g', st') \<Longrightarrow> store_ok st \<Longrightarrow> store_ok st'"
  by (erule complete_run_Inr) (blast intro: write_snapshot_ok append_audit_event_ok)

lemma record_review_ok: "record_review run_id d i m now st = Inr st' \<Longrightarrow> store_ok st \<Longrightarrow> store_ok st'"
  unfolding record_review_def by (auto split: if_splits elim: insert_review_ok)

lemma payload_dset_ok:
  assumes "store_ok st" "dget (st_payloads st) key = Some p" "hidden_payload p \<Longrightarrow> hidden_payload p'"
  shows "store_ok (st\<lparr>st_payloads := dset key p' (st_payloads st)\<rparr>)"
proof -
  have "hidden_payload p"
    using assms(1,2) unfolding store_ok_def secrets_at_rest_def by (blast dest: list_all_dget)
  moreover have "key \<in> dom (dget (st_dispatches st))"
    using assms(1,2) unfolding store_ok_def references_ok_def by blast
  ultimately show ?thesis
    using assms(1,3) by (auto simp: store_ok_defs dom_dset simp del: domIff intro!: list_all_dset)
qed

lemma update_dispatch_payload_ok:
  assumes "update_dispatch_payload run_id i u st = Inr st'" "store_ok st"
  shows "store_ok st'"
proof (cases "dget (st_payloads st) (run_id, i)")
  case None
  with assms show ?thesis by (simp add: update_dispatch_payload_def Let_def split: if_splits)
next
  case (Some p)
  with assms(1) show ?thesis
    by (auto simp: update_dispatch_payload_def Let_def hidden_payload_def intro!: payload_dset_ok [OF assms(2) Some]
        pred_or_keep split: if_splits)
qed

lemma insert_forwarded_review_ok:
  "insert_forwarded_review run_id i f now st = Inr st' \<Longrightarrow> store_ok st \<Longrightarrow> store_ok st'"
  unfolding insert_forwarded_review_def
  by (cases "fw_review_id f"; cases "fw_review f") (auto elim: insert_review_ok)

lemma write_forwarded_git_ok: "write_forwarded_git run_id i f now st = Inr st' \<Longrightarrow> store_ok st \<Longrightarrow> store_ok st'"
  unfolding write_forwarded_git_def
  by (cases "fw_structured_git_final f") (auto elim: write_git_final_ok)

text \<open>The writes of the two multi-table transactions, in their order.\<close>

lemma persist_forwarded_Inr:
  assumes "persist_forwarded_dispatch r g i f now st = Inr ((r', g'), st')"
  obtains d row run_row existing sessions st1 st2 st3 where
    "find_dispatch r i = Inr d" "check_forwarded d f = None"
    "dget (st_dispatches st) (r_run_id r, i) = Some row" "dw_state row \<in> {Dispatch_running, Dispatch_completed}"
    "check_generation st (r_run_id r) g = Inr run_row"
    "load_dispatch_payload st (r_run_id r) i = Inr existing" "r' = r" "g' = g + 1"
    "write_snapshot r (g + 1) sessions st = Inr st1"
    "write_dispatch_payload (r_run_id r) st1 (i, forwarded_payload existing f) = Inr st2"
    "insert_forwarded_review (r_run_id r) i f now st2 = Inr st3"
    "write_forwarded_git (r_run_id r) i f now st3 = Inr st'"
proof -
  from assms obtain d where d: "find_dispatch r i = Inr d" by (auto simp: persist_forwarded_dispatch_def bindr_Inr_iff)
  from assms d have c: "check_forwarded d f = None"
    by (cases "check_forwarded d f") (simp_all add: persist_forwarded_dispatch_def)
  from assms d c obtain row where row: "dget (st_dispatches st) (r_run_id r, i) = Some row"
    by (cases "dget (st_dispatches st) (r_run_id r, i)") (auto simp: persist_forwarded_dispatch_def)
  from assms [unfolded persist_forwarded_dispatch_def Let_def d bindr.simps option.case c row ok_dests] that [OF d c row]
  show thesis by blast
qed

lemma persist_forwarded_ok:
  "persist_forwarded_dispatch r g i f now st = Inr ((r', g'), st') \<Longrightarrow> store_ok st \<Longrightarrow> store_ok st'"
  by (erule persist_forwarded_Inr)
    (blast intro: write_snapshot_ok write_payload_ok insert_forwarded_review_ok write_forwarded_git_ok)

lemma persist_adopted_Inr:
  assumes "persist_adopted_failed_review r g i result verification after review_id request actor e now st = Inr ((r', g'), st')"
  obtains d run_row existing st1 st2 st3 where
    "find_dispatch r i = Inr d" "d_state d = Dispatch_failed"
    "map_option dw_state (dget (st_dispatches st) (r_run_id r, i)) = Some Dispatch_failed"
    "check_generation st (r_run_id r) g = Inr run_row" "r_state (rr_record run_row) = Run_waiting_operator"
    "\<not> review_for_dispatch st (r_run_id r) i" "load_dispatch_payload st (r_run_id r) i = Inr existing"
    "r' = r" "g' = g + 1"
    "write_snapshot r (g + 1) (sessions_for_run st (r_run_id r)) st = Inr st1"
    "write_dispatch_payload (r_run_id r) st1
       (i, existing\<lparr>pl_result := Some result, pl_authoritative_verification := Some verification,
                    pl_repository_after := Some after\<rparr>) = Inr st2"
    "insert_review review_id \<lparr>rw_run_id = r_run_id r, rw_dispatch_id = i, rw_review = stored_object result,
       rw_created_at = now\<rparr> st2 = Inr st3"
    "insert_decision (''decision-'' @ env_uuid e 0)
       \<lparr>de_run_id = r_run_id r, de_request_id = request, de_actor_id = actor, de_answer = ''reconcile'',
        de_created_at = now\<rparr> st3 = Inr st'"
proof -
  have failed: "\<not> \<not> (case x of None \<Rightarrow> False | Some row \<Rightarrow> dw_state row = Dispatch_failed) \<longleftrightarrow>
      map_option dw_state x = Some Dispatch_failed" for x
    by (cases x) auto
  from assms [unfolded persist_adopted_failed_review_def Let_def ok_dests failed] that show thesis
    by blast
qed

lemma insert_stored_review_ok:
  "insert_review i \<lparr>rw_run_id = run_id, rw_dispatch_id = d, rw_review = stored_object m, rw_created_at = now\<rparr> st
     = Inr st' \<Longrightarrow> store_ok st \<Longrightarrow> store_ok st'"
  by (erule insert_review_ok) simp_all

lemma persist_adopted_ok:
  "persist_adopted_failed_review r g i result verification after review_id request actor e now st = Inr ((r', g'), st')
     \<Longrightarrow> store_ok st \<Longrightarrow> store_ok st'"
  by (erule persist_adopted_Inr)
    (blast intro: write_snapshot_ok write_payload_ok insert_decision_ok insert_stored_review_ok)

lemma answer_operator_request_Inr:
  assumes "answer_operator_request e now run_id g request answer actor st = Inr ((r', g'), st')"
  obtains r st1 where "load_run st run_id = Inr (r, g)" "answer_record e now r request answer actor = Inr r'"
    "g' = g + 1" "write_snapshot r' (g + 1) (sessions_for_run st run_id) st = Inr st1"
    "insert_decision (''decision-'' @ env_uuid e 1)
       \<lparr>de_run_id = run_id, de_request_id = request, de_actor_id = actor, de_answer = redact_text answer,
        de_created_at = now\<rparr> st1 = Inr st'"
proof -
  obtain r generation where loaded: "load_run st run_id = Inr (r, generation)"
    using assms by (cases "load_run st run_id") (auto simp: answer_operator_request_def)
  from assms [unfolded answer_operator_request_def loaded bindr.simps prod.case ok_dests] loaded that
  show thesis by blast
qed

lemma answer_operator_request_ok:
  "answer_operator_request e now run_id g request answer actor st = Inr ((r', g'), st') \<Longrightarrow> store_ok st \<Longrightarrow> store_ok st'"
  by (erule answer_operator_request_Inr) (blast intro: write_snapshot_ok insert_decision_ok)

section \<open>Invocations and structured Git rows\<close>

lemma begin_invocation_Inr:
  assumes "begin_opencode_invocation i identity now st = Inr st'"
  shows "dget (st_invocations st) i = None \<and> invocation_constraint st identity = None
    \<and> st' = st\<lparr>st_invocations := st_invocations st @ [(i, prepared_row identity now)]\<rparr>"
  using assms
  by (cases "dget (st_invocations st) i"; cases "invocation_constraint st identity")
    (auto simp: begin_opencode_invocation_def split: if_splits)

lemma begin_invocation_ok:
  assumes "begin_opencode_invocation i identity now st = Inr st'" "store_ok st"
  shows "store_ok st'"
proof -
  note st' = begin_invocation_Inr [OF assms(1)]
  have "ii_run_id identity \<in> dom (dget (st_runs st))"
    "\<forall>d. ii_dispatch_id identity = Some d \<longrightarrow> (ii_run_id identity, d) \<in> dom (dget (st_dispatches st))"
    using st' by (auto simp: invocation_constraint_def split: if_splits option.splits)
  then show ?thesis
    using assms(2) st'
    by (simp add: store_ok_defs invocation_refs_ok_def invocation_row_ok_def prepared_row_def dget_None_iff del: domIff)
qed

text \<open>The first time an invocation finishes, and every later time.\<close>

lemma finish_invocation_Inr:
  assumes "finish_opencode_invocation i x now st = Inr ((r', g'), st')"
  obtains (again) row where "dget (st_invocations st) i = Some row" "iv_lifecycle row \<noteq> Invocation_prepared"
      "finished_with x row" "validated_run st (iv_run_id row) = Inr (r', g')" "st' = st"
  | (first) row r g st1 where "dget (st_invocations st) i = Some row" "iv_lifecycle row = Invocation_prepared"
      "\<forall>amount. io_usage x = Some amount \<longrightarrow> usage_amount_errors amount = []"
      "validated_run st (iv_run_id row) = Inr (r, g)" "r' = charged_record r i row x" "g' = g + 1"
      "write_snapshot r' (g + 1) (sessions_for_run st (r_run_id r)) st = Inr st1"
      "st' = st1\<lparr>st_invocations := dset i (finished_row x now row) (st_invocations st1)\<rparr>"
proof -
  have usage: "\<forall>amount. io_usage x = Some amount \<longrightarrow> usage_amount_errors amount = []"
    using assms by (auto simp: finish_opencode_invocation_def checked_def split: if_splits)
  then have valid: "(case io_usage x of None \<Rightarrow> Inr ()
      | Some amount \<Rightarrow> bindr (checked usage_amount_errors amount) (\<lambda>_. Inr ())) = Inr ()"
    by (auto simp: checked_def split: option.splits)
  from assms obtain row where row: "dget (st_invocations st) i = Some row"
    unfolding finish_opencode_invocation_def valid bindr.simps by (cases "dget (st_invocations st) i") auto
  show thesis
  proof (cases "iv_lifecycle row = Invocation_prepared")
    case True
    from assms [unfolded finish_opencode_invocation_def valid bindr.simps row option.case Let_def]
    show thesis using True usage row
      by (auto simp: bindr_Inr_iff intro: first)
  next
    case False
    from assms [unfolded finish_opencode_invocation_def valid bindr.simps row option.case Let_def]
    show thesis using False row
      by (auto simp: bindr_Inr_iff split: if_splits intro: again)
  qed
qed

lemma finished_row_facts:
  "iv_run_id (finished_row x now row) = iv_run_id row"
  "iv_dispatch_id (finished_row x now row) = iv_dispatch_id row"
  "iv_lifecycle (finished_row x now row) \<noteq> Invocation_prepared"
  "iv_usage_status (finished_row x now row) \<noteq> Usage_pending"
  "iv_usage (finished_row x now row) \<noteq> None \<longleftrightarrow> iv_usage_status (finished_row x now row) = Usage_complete"
  "iv_finished_at (finished_row x now row) \<noteq> None"
  by (simp_all add: finished_row_def outcome_lifecycle_def outcome_usage_status_def)

lemma invocation_dset_ok:
  assumes "store_ok st" "dget (st_invocations st) i = Some row"
  shows "store_ok (st\<lparr>st_invocations := dset i (finished_row x now row) (st_invocations st)\<rparr>)"
proof -
  let ?new = "finished_row x now row"
  have "invocation_refs_ok (dom (dget (st_runs st))) (dom (dget (st_dispatches st))) (i, row)"
    using assms dget_in_set [OF assms(2)] by (auto simp: store_ok_def references_ok_def list_all_iff simp del: domIff)
  then have "invocation_refs_ok (dom (dget (st_runs st))) (dom (dget (st_dispatches st))) (i, ?new)"
    by (simp add: invocation_refs_ok_def finished_row_facts)
  moreover have "invocation_row_ok (i, ?new)"
    using finished_row_facts [of x now row] by (simp add: invocation_row_ok_def)
  ultimately show ?thesis
    using assms(1) by (simp add: store_ok_defs distinct_dkeys_dset list_all_dset del: domIff)
qed

lemma finish_invocation_ok:
  assumes "finish_opencode_invocation i x now st = Inr ((r', g'), st')" "store_ok st"
  shows "store_ok st'"
  using assms(1)
proof (cases rule: finish_invocation_Inr)
  case (first row r g st1)
  then have "store_ok st1" "dget (st_invocations st1) i = Some row"
    using assms(2) write_snapshot_ok by (auto simp: write_snapshot_frame)
  with first(8) show ?thesis using invocation_dset_ok by simp
qed (use assms(2) in simp)

lemma finish_each_ok: "finish_each x now is st = (outcome, st') \<Longrightarrow> store_ok st \<Longrightarrow> store_ok st'"
proof (induction "is" arbitrary: st)
  case (Cons i "is")
  then show ?case
    by (cases "finish_opencode_invocation i x now st") (auto dest: finish_invocation_ok)
qed simp

lemma record_proposal_ok:
  assumes "record_executor_proposal run_id i proposal now st = Inr (row, st')" "store_ok st"
  shows "store_ok st'"
proof -
  let ?key = "(run_id, i)"
  have "st' = st \<or> dget (st_git st) ?key = None \<and> ?key \<in> dom (dget (st_dispatches st))
      \<and> st' = st\<lparr>st_git := dset ?key (new_git_row proposal now) (st_git st)\<rparr>"
    using assms(1) by (cases "dget (st_git st) ?key")
      (auto simp: record_executor_proposal_def loaded_git_def bindr_Inr_iff Let_def dset_absent split: if_splits)
  then show ?thesis
    using assms(2) by (auto simp del: domIff intro!: git_dset_ok simp: hidden_git_def new_git_row_def)
qed

lemma transition_git_Inr:
  assumes "transition_structured_git_record run_id i allowed target u now st = Inr st'"
  shows "\<exists>row. dget (st_git st) (run_id, i) = Some row \<and> gr_state row \<in> set allowed
    \<and> st' = st\<lparr>st_git := dset (run_id, i)
            (row\<lparr>gr_state := target,
                 gr_checked := or_keep (map_option stored_object (gu_checked u)) (gr_checked row),
                 gr_intent := or_keep (map_option stored_object (gu_intent u)) (gr_intent row),
                 gr_stage := or_keep (map_option stored_object (gu_stage u)) (gr_stage row),
                 gr_failure_detail := or_keep (gu_failure_detail u) (gr_failure_detail row),
                 gr_updated_at := now\<rparr>) (st_git st)\<rparr>"
  using assms by (cases "dget (st_git st) (run_id, i)")
    (auto simp: transition_structured_git_record_def Let_def split: if_splits)

lemma transition_git_ok:
  assumes "transition_structured_git_record run_id i allowed target u now st = Inr st'" "store_ok st"
  shows "store_ok st'"
proof -
  obtain row row' where row: "dget (st_git st) (run_id, i) = Some row"
    and st': "st' = st\<lparr>st_git := dset (run_id, i) row' (st_git st)\<rparr>"
    and row': "row' = row\<lparr>gr_state := target,
                 gr_checked := or_keep (map_option stored_object (gu_checked u)) (gr_checked row),
                 gr_intent := or_keep (map_option stored_object (gu_intent u)) (gr_intent row),
                 gr_stage := or_keep (map_option stored_object (gu_stage u)) (gr_stage row),
                 gr_failure_detail := or_keep (gu_failure_detail u) (gr_failure_detail row),
                 gr_updated_at := now\<rparr>"
    using transition_git_Inr [OF assms(1)] by blast
  from git_row_of_dispatch [OF assms(2) row] have "(run_id, i) \<in> dom (dget (st_dispatches st))" "hidden_git row'"
    by (auto simp: row' hidden_git_def intro!: pred_or_keep simp del: domIff)
  then show ?thesis unfolding st' by (rule git_dset_ok [OF assms(2)])
qed

lemma loaded_git_Inr: "loaded_git run_id i written = Inr (row, st) \<Longrightarrow> written = Inr st"
  by (auto simp: loaded_git_def bindr_Inr_iff)

end
