(* ===== verification/Store_Life.thy ===== *)
theory Store_Life
  imports Store_Invariant
begin

text \<open>
  The life of the store: the relation of its operations, the invariants of every reachable store, the
  contract of a store with versions and what follows for a writer that read a generation, the identity
  of durable dispatches, and the lifecycle of structured Git rows.
\<close>

section \<open>Steps\<close>

inductive store_step :: "store \<Rightarrow> store \<Rightarrow> bool" where
  step_create_run: "create_run r sessions st = Inr (g, st') \<Longrightarrow> store_step st st'"
| step_save_run: "save_run r g x now st = Inr (g', st') \<Longrightarrow> store_step st st'"
| step_complete_run: "complete_run r g event_id n correlation path now st = Inr (g', st') \<Longrightarrow> store_step st st'"
| step_forwarded: "persist_forwarded_dispatch r g i f now st = Inr ((r', g'), st') \<Longrightarrow> store_step st st'"
| step_adopted:
    "persist_adopted_failed_review r g i result verification after review_id request actor e now st
       = Inr ((r', g'), st') \<Longrightarrow> store_step st st'"
| step_answer:
    "answer_operator_request e now run_id g request answer actor st = Inr ((r', g'), st') \<Longrightarrow> store_step st st'"
| step_payload: "update_dispatch_payload run_id i u st = Inr st' \<Longrightarrow> store_step st st'"
| step_review: "record_review run_id i review_id review now st = Inr st' \<Longrightarrow> store_step st st'"
| step_audit:
    "append_audit_event run_id event_id n kind correlation causation payload now st = Inr st' \<Longrightarrow> store_step st st'"
| step_begin: "begin_opencode_invocation invocation_id identity now st = Inr st' \<Longrightarrow> store_step st st'"
| step_finish: "finish_opencode_invocation invocation_id outcome now st = Inr ((r', g'), st') \<Longrightarrow> store_step st st'"
| step_proposal: "record_executor_proposal run_id i proposal now st = Inr (row, st') \<Longrightarrow> store_step st st'"
| step_checked: "record_structured_git_checked run_id i checks intent now st = Inr (row, st') \<Longrightarrow> store_step st st'"
| step_staged: "record_structured_git_staged run_id i stage now st = Inr (row, st') \<Longrightarrow> store_step st st'"
| step_reconciliation:
    "mark_structured_git_reconciliation run_id i detail now st = Inr (row, st') \<Longrightarrow> store_step st st'"

abbreviation store_steps :: "store \<Rightarrow> store \<Rightarrow> bool" where
  "store_steps \<equiv> store_step\<^sup>*\<^sup>*"

text \<open>The remaining operations are compositions of these steps.\<close>

lemma prepare_dispatch_step:
  "prepare_dispatch r g d prompt policy snapshot metadata sessions now st = Inr (g', st') \<Longrightarrow> store_step st st'"
  by (auto simp: prepare_dispatch_def split: if_splits intro: step_save_run)

lemma prepare_dispatch_batch_step:
  "prepare_dispatch_batch r g payloads now st = Inr (g', st') \<Longrightarrow> store_step st st'"
  by (auto simp: prepare_dispatch_batch_def bindr_Inr_iff split: if_splits intro: step_save_run)

lemma save_workspace_group_step: "save_workspace_group r g wg now st = Inr (y, st') \<Longrightarrow> store_step st st'"
  by (auto simp: save_workspace_group_def bindr_Inr_iff Let_def intro: step_save_run)

lemma commit_dispatch_transition_step:
  assumes "commit_dispatch_transition r g i target event u x now st = Inr (y, st')"
  shows "store_step st st'"
  using assms
  by (cases "missing_transition_data target u x")
    (auto simp: commit_dispatch_transition_def bindr_Inr_iff Let_def intro: step_save_run)

lemma bind_dispatch_session_step:
  "bind_dispatch_session r g i session event pool role entry now st = Inr (y, st') \<Longrightarrow> store_step st st'"
  by (auto simp: bind_dispatch_session_def bindr_Inr_iff Let_def split: if_splits intro: step_save_run)

lemma request_cancellation_steps:
  assumes "request_dispatch_cancellation e now run_id g i actor st = (outcome, st')"
  shows "store_steps st st'"
  using assms unfolding request_dispatch_cancellation_def
  by (auto split: sum.splits prod.splits dest!: step_save_run step_audit)

lemma finish_each_steps: "finish_each x now is st = (outcome, st') \<Longrightarrow> store_steps st st'"
proof (induction "is" arbitrary: st)
  case (Cons i "is")
  show ?case
  proof (cases "finish_opencode_invocation i x now st")
    case (Inr result)
    obtain r g st1 where "result = ((r, g), st1)" by (metis prod.collapse)
    moreover from this Inr have "store_step st st1" by (auto intro: step_finish)
    ultimately show ?thesis using Cons Inr by (auto intro: converse_rtranclp_into_rtranclp)
  qed (use Cons.prems in simp)
qed simp

theorem store_step_ok: "store_step st st' \<Longrightarrow> store_ok st \<Longrightarrow> store_ok st'"
proof (induction rule: store_step.induct)
  case (step_checked run_id i checks intent now st row st')
  then show ?case unfolding record_structured_git_checked_def by (blast dest: loaded_git_Inr intro: transition_git_ok)
next
  case (step_staged run_id i stage now st row st')
  then show ?case unfolding record_structured_git_staged_def by (blast dest: loaded_git_Inr intro: transition_git_ok)
next
  case (step_reconciliation run_id i detail now st row st')
  then show ?case unfolding mark_structured_git_reconciliation_def
    by (blast dest: loaded_git_Inr intro: transition_git_ok)
qed (blast intro: create_run_ok save_run_ok complete_run_ok persist_forwarded_ok persist_adopted_ok
    answer_operator_request_ok update_dispatch_payload_ok record_review_ok append_audit_event_ok
    begin_invocation_ok finish_invocation_ok record_proposal_ok)+

lemma store_steps_ok: "store_steps st st' \<Longrightarrow> store_ok st \<Longrightarrow> store_ok st'"
  by (induction rule: rtranclp_induct) (auto intro: store_step_ok)

section \<open>The contract of a store with versions\<close>

text \<open>
  A step changes the value of a key only together with its version, which counts up by one; a new key
  starts at version one.
\<close>

locale versioned_store =
  fixes invar :: "'s \<Rightarrow> bool"
    and version :: "'s \<Rightarrow> 'k \<Rightarrow> int option"
    and content :: "'s \<Rightarrow> 'k \<Rightarrow> 'v option"
    and step :: "'s \<Rightarrow> 's \<Rightarrow> bool"
  assumes step_invar: "invar s \<Longrightarrow> step s s' \<Longrightarrow> invar s'"
    and step_version: "invar s \<Longrightarrow> step s s' \<Longrightarrow>
          version s' k = version s k \<and> content s' k = content s k
          \<or> version s' k = Some (case version s k of None \<Rightarrow> 1 | Some g \<Rightarrow> g + 1)"
begin

lemma steps_invar: "step\<^sup>*\<^sup>* s s' \<Longrightarrow> invar s \<Longrightarrow> invar s'"
  by (induction rule: rtranclp_induct) (auto intro: step_invar)

lemma versions_grow:
  assumes "step\<^sup>*\<^sup>* s s'" "invar s" "version s k = Some g"
  shows "\<exists>g'. version s' k = Some g' \<and> g \<le> g'"
  using assms
proof (induction rule: rtranclp_induct)
  case (step t u)
  then obtain g' where "version t k = Some g'" "g \<le> g'" by blast
  moreover have "invar t" using step steps_invar by blast
  ultimately show ?case using step_version [OF _ step(2), of k] by force
qed simp

text \<open>While the version stays, the content stays.\<close>

theorem same_version_same_content:
  assumes "step\<^sup>*\<^sup>* s s'" "invar s" "version s k = Some g" "version s' k = Some g"
  shows "content s' k = content s k"
  using assms
proof (induction rule: converse_rtranclp_induct)
  case (step s t)
  from step_version [OF step(4) step(1), of k] show ?case
  proof
    assume "version t k = version s k \<and> content t k = content s k"
    with step step_invar [OF step(4) step(1)] show ?thesis by simp
  next
    assume "version t k = Some (case version s k of None \<Rightarrow> 1 | Some g \<Rightarrow> g + 1)"
    then have "version t k = Some (g + 1)" using step by simp
    with versions_grow [OF step(2) step_invar [OF step(4) step(1)] this] step(6) show ?thesis by auto
  qed
qed simp

end

section \<open>Runs are versioned\<close>

definition run_generation :: "store \<Rightarrow> string \<Rightarrow> int option" where
  "run_generation st run_id = map_option rr_generation (dget (st_runs st) run_id)"

definition stored_run :: "store \<Rightarrow> string \<Rightarrow> run_record option" where
  "stored_run st run_id = map_option rr_record (dget (st_runs st) run_id)"

text \<open>How a step changes the run rows: not at all, or one row with the next generation.\<close>

definition run_rows_step :: "store \<Rightarrow> store \<Rightarrow> bool" where
  "run_rows_step st st' \<longleftrightarrow>
     st_runs st' = st_runs st
     \<or> (\<exists>r g. st_runs st' = dset (r_run_id r) \<lparr>rr_record = r, rr_generation = g\<rparr> (st_runs st)
          \<and> g = (case run_generation st (r_run_id r) of None \<Rightarrow> 1 | Some g \<Rightarrow> g + 1))"

lemma run_rows_step_snapshot:
  assumes "write_snapshot r g sessions st = Inr st1" "st_runs st' = st_runs st1"
    "g = (case run_generation st (r_run_id r) of None \<Rightarrow> 1 | Some g \<Rightarrow> g + 1)"
  shows "run_rows_step st st'"
  using assms unfolding run_rows_step_def by (auto simp: write_snapshot_frame)

lemma run_rows_step_version:
  "run_rows_step st st' \<Longrightarrow>
     run_generation st' k = run_generation st k \<and> stored_run st' k = stored_run st k
     \<or> run_generation st' k = Some (case run_generation st k of None \<Rightarrow> 1 | Some g \<Rightarrow> g + 1)"
  unfolding run_rows_step_def by (auto simp: run_generation_def stored_run_def dget_dset)

lemma payload_runs: "write_dispatch_payload run_id st entry = Inr st' \<Longrightarrow> st_runs st' = st_runs st"
  by (auto simp: write_dispatch_payload_def Let_def split: option.splits)

lemma git_final_runs: "write_structured_git_final run_id now st entry = Inr st' \<Longrightarrow> st_runs st' = st_runs st"
  by (cases "final_source (gf_state (snd entry))"; cases "dget (st_git st) (run_id, fst entry)")
    (auto simp: write_structured_git_final_def Let_def split: if_splits)

lemma forwarded_review_runs: "insert_forwarded_review run_id i f now st = Inr st' \<Longrightarrow> st_runs st' = st_runs st"
  unfolding insert_forwarded_review_def
  by (cases "fw_review_id f"; cases "fw_review f") (auto simp: insert_review_Inr)

lemma forwarded_git_runs: "write_forwarded_git run_id i f now st = Inr st' \<Longrightarrow> st_runs st' = st_runs st"
  unfolding write_forwarded_git_def by (cases "fw_structured_git_final f") (auto dest: git_final_runs)

lemma save_run_frame:
  assumes "save_run r g x now st = Inr (g', st')"
  shows "g' = g + 1" and "run_generation st (r_run_id r) = Some g"
    and "st_runs st' = dset (r_run_id r) \<lparr>rr_record = r, rr_generation = g + 1\<rparr> (st_runs st)"
proof -
  from assms obtain row sessions st1 st2 where row: "dget (st_runs st) (r_run_id r) = Some row" "rr_generation row = g"
    and g': "g' = g + 1" and snap: "write_snapshot r (g + 1) sessions st = Inr st1"
    and pay: "foldr_result (write_dispatch_payload (r_run_id r)) st1 (se_payloads x) = Inr st2"
    and git: "foldr_result (write_structured_git_final (r_run_id r) now) st2 (se_git_updates x) = Inr st'"
    by (rule save_run_Inr)
  have "st_runs st2 = st_runs st1" by (rule foldr_result_invariant [OF pay]) (auto dest: payload_runs)
  moreover have "st_runs st' = st_runs st2" by (rule foldr_result_invariant [OF git]) (auto dest: git_final_runs)
  ultimately show "st_runs st' = dset (r_run_id r) \<lparr>rr_record = r, rr_generation = g + 1\<rparr> (st_runs st)"
    using write_snapshot_frame(1) [OF snap] by simp
  show "g' = g + 1" "run_generation st (r_run_id r) = Some g" using g' row by (simp_all add: run_generation_def)
qed

lemma check_generation_Inr: "check_generation st run_id g = Inr row \<Longrightarrow> run_generation st run_id = Some g"
  by (auto simp: check_generation_def run_generation_def split: option.splits if_splits)

lemma load_run_Inr:
  "load_run st run_id = Inr (r, g) \<longleftrightarrow>
     stored_run st run_id = Some r \<and> run_generation st run_id = Some g \<and> run_record_errors r = []"
  by (auto simp: load_run_def stored_run_def run_generation_def split: option.splits if_splits)

lemma validated_run_Inr: "validated_run st run_id = Inr (r, g) \<longleftrightarrow> load_run st run_id = Inr (r, g)"
  by (auto simp: validated_run_def load_run_def bindr_Inr_iff split: option.splits if_splits)

lemma stored_run_id: "store_ok st \<Longrightarrow> stored_run st run_id = Some r \<Longrightarrow> r_run_id r = run_id"
  by (auto simp: store_ok_def run_rows_ok_def stored_run_def dest!: dget_in_set)

lemma answer_review_waiver_run_id:
  "answer_review_waiver r q answer event decision = Inr (r', target) \<Longrightarrow> r_run_id r' = r_run_id r"
  unfolding answer_review_waiver_def with_steps_def Let_def bindr_Inr_iff case_raise_Inr
  by (auto simp: bindr_Inr_iff case_raise_Inr split: if_splits prod.splits)

lemma apply_answer_run_id: "apply_answer r q answer event decision = Inr (r', target) \<Longrightarrow> r_run_id r' = r_run_id r"
  unfolding apply_answer_def answer_risk_gate_def answer_escalation_def Let_def
    answer_stall_recovery_def answer_reconciliation_def answer_batch_reconciliation_def
    answer_workspace_reconciliation_def with_steps_def
  by (cases "or_kind q") (auto simp: bindr_Inr_iff answer_review_waiver_run_id split: prod.splits option.splits if_splits)

lemma answer_record_run_id: "answer_record e now r request answer actor = Inr r' \<Longrightarrow> r_run_id r' = r_run_id r"
  by (erule answer_record_Inr) (simp add: apply_answer_run_id frame_simps)

text \<open>The operations that write neither runs nor dispatches.\<close>

definition same_tables :: "store \<Rightarrow> store \<Rightarrow> bool" where
  "same_tables st st' \<longleftrightarrow> st_runs st' = st_runs st \<and> st_dispatches st' = st_dispatches st"

lemma git_step_tables:
  "transition_structured_git_record run_id i allowed target u now st = Inr st' \<Longrightarrow> same_tables st st'"
  by (drule transition_git_Inr) (auto simp: same_tables_def)

lemma proposal_tables: "record_executor_proposal run_id i proposal now st = Inr (row, st') \<Longrightarrow> same_tables st st'"
  by (cases "dget (st_git st) (run_id, i)")
    (auto simp: record_executor_proposal_def Let_def same_tables_def dest!: loaded_git_Inr split: if_splits)

lemma payload_update_tables: "update_dispatch_payload run_id i u st = Inr st' \<Longrightarrow> same_tables st st'"
  by (cases "dget (st_payloads st) (run_id, i)")
    (auto simp: update_dispatch_payload_def Let_def same_tables_def split: if_splits)

lemma append_audit_tables: "append_audit_event run_id i n k c d p now st = Inr st' \<Longrightarrow> same_tables st st'"
  by (auto simp: append_audit_event_def insert_audit_event_Inr same_tables_def)

lemma record_review_tables: "record_review run_id i review_id m now st = Inr st' \<Longrightarrow> same_tables st st'"
  by (auto simp: record_review_def insert_review_Inr same_tables_def split: if_splits)

lemma begin_tables: "begin_opencode_invocation i identity now st = Inr st' \<Longrightarrow> same_tables st st'"
  by (drule begin_invocation_Inr) (auto simp: same_tables_def)

lemma checked_tables: "record_structured_git_checked run_id i checks intent now st = Inr (row, st') \<Longrightarrow> same_tables st st'"
  unfolding record_structured_git_checked_def by (blast dest: loaded_git_Inr git_step_tables)

lemma staged_tables: "record_structured_git_staged run_id i stage now st = Inr (row, st') \<Longrightarrow> same_tables st st'"
  unfolding record_structured_git_staged_def by (blast dest: loaded_git_Inr git_step_tables)

lemma reconciliation_tables:
  "mark_structured_git_reconciliation run_id i detail now st = Inr (row, st') \<Longrightarrow> same_tables st st'"
  unfolding mark_structured_git_reconciliation_def by (blast dest: loaded_git_Inr git_step_tables)

lemmas small_steps = proposal_tables payload_update_tables append_audit_tables record_review_tables begin_tables
  checked_tables staged_tables reconciliation_tables

lemma same_runs_step: "same_tables st st' \<Longrightarrow> run_rows_step st st'"
  by (simp add: run_rows_step_def same_tables_def)

lemma run_rows_stepI:
  "st_runs st' = dset (r_run_id r) \<lparr>rr_record = r, rr_generation = g\<rparr> (st_runs st) \<Longrightarrow>
     g = (case run_generation st (r_run_id r) of None \<Rightarrow> 1 | Some g \<Rightarrow> g + 1) \<Longrightarrow> run_rows_step st st'"
  by (auto simp: run_rows_step_def)

lemma complete_run_rows: "complete_run r g i n c p now st = Inr (g', st') \<Longrightarrow> run_rows_step st st'"
  by (erule complete_run_Inr)
    (rule run_rows_step_snapshot, assumption, auto simp: run_generation_def same_tables_def dest!: append_audit_tables)

lemma forwarded_run_rows:
  "persist_forwarded_dispatch r g i f now st = Inr ((r', g'), st') \<Longrightarrow> run_rows_step st st'"
  by (erule persist_forwarded_Inr)
    (rule run_rows_step_snapshot, assumption,
      auto dest!: payload_runs forwarded_review_runs forwarded_git_runs check_generation_Inr)

lemma adopted_run_rows:
  "persist_adopted_failed_review r g i result verification after review_id request actor e now st = Inr ((r', g'), st')
     \<Longrightarrow> run_rows_step st st'"
  by (erule persist_adopted_Inr)
    (rule run_rows_step_snapshot, assumption,
      auto simp: insert_review_Inr insert_decision_Inr dest!: payload_runs check_generation_Inr)

lemma answer_run_rows:
  assumes "answer_operator_request e now run_id g request answer actor st = Inr ((r', g'), st')" "store_ok st"
  shows "run_rows_step st st'"
  using assms(1)
proof (rule answer_operator_request_Inr, goal_cases)
  case (1 r st1)
  from 1(1,2) have "r_run_id r' = run_id"
    by (metis answer_record_run_id load_run_Inr assms(2) stored_run_id)
  with 1(1,5) show ?case
    by (intro run_rows_step_snapshot [OF 1(4)]) (auto simp: load_run_Inr insert_decision_Inr)
qed

lemma store_step_runs:
  assumes "store_step st st'" "store_ok st"
  shows "run_rows_step st st'"
  using assms
proof (induction rule: store_step.induct)
  case (step_create_run r sessions st g st')
  then have "dget (st_runs st) (r_run_id r) = None" "write_snapshot r 1 sessions st = Inr st'"
    by (auto simp: create_run_def bindr_Inr_iff split: list.splits if_splits)
  then show ?case by (auto intro!: run_rows_step_snapshot [where st' = st'] simp: run_generation_def)
next
  case (step_save_run r g x now st g' st')
  from save_run_frame [OF step_save_run(1)] show ?case by (auto intro!: run_rows_stepI)
next
  case (step_finish i x now st r' g' st')
  from step_finish(1) show ?case
  proof (cases rule: finish_invocation_Inr)
    case (first row r g st1)
    then have "load_run st (iv_run_id row) = Inr (r, g)" by (simp add: validated_run_Inr)
    then have "r_run_id r = iv_run_id row" "run_generation st (iv_run_id row) = Some g"
      using stored_run_id [OF step_finish(2)] by (auto simp: load_run_Inr)
    with first show ?thesis
      by (intro run_rows_step_snapshot [OF first(7)]) (auto simp: charged_record_def split: option.splits)
  qed (simp add: run_rows_step_def)
qed (blast intro: same_runs_step small_steps complete_run_rows forwarded_run_rows adopted_run_rows answer_run_rows)+

interpretation runs: versioned_store store_ok run_generation stored_run store_step
  by unfold_locales (blast intro: store_step_ok, rule run_rows_step_version, rule store_step_runs)

text \<open>A writer whose generation is still current replaces exactly the record it read.\<close>

lemma save_replaces_what_was_read:
  assumes "store_ok st" "load_run st run_id = Inr (r, g)" "store_steps st st'"
    "save_run r' g x now st' = Inr (g', st'')" "r_run_id r' = run_id"
  shows "stored_run st' run_id = Some r \<and> stored_run st'' run_id = Some r' \<and> run_generation st'' run_id = Some (g + 1)"
proof -
  note frame = save_run_frame [OF assms(4)]
  from assms(2) have read: "stored_run st run_id = Some r" "run_generation st run_id = Some g"
    by (auto simp: load_run_Inr)
  have "run_generation st' run_id = Some g" using frame(2) assms(5) by simp
  with runs.same_version_same_content [OF assms(3,1) read(2)] read(1) have "stored_run st' run_id = Some r" by simp
  moreover have "stored_run st'' run_id = Some r'" "run_generation st'' run_id = Some (g + 1)"
    using frame(3) assms(5) by (simp_all add: stored_run_def run_generation_def)
  ultimately show ?thesis by simp
qed

section \<open>Durable dispatches keep their identity\<close>

text \<open>The columns of a dispatch row that no operation writes again.\<close>

definition dispatch_identity :: "dispatch_row \<Rightarrow> string \<times> int \<times> string \<times> string \<times> string \<times> string \<times> string" where
  "dispatch_identity row =
     (dw_step_id row, dw_attempt row, dw_idempotency_key row, dw_prompt_sha256 row, dw_policy_digest row,
      dw_repository_id row, dw_repository_revision row)"

definition identities_kept :: "store \<Rightarrow> store \<Rightarrow> bool" where
  "identities_kept st st' \<longleftrightarrow>
     (\<forall>key row. dget (st_dispatches st) key = Some row \<longrightarrow>
        (\<exists>row'. dget (st_dispatches st') key = Some row' \<and> dispatch_identity row' = dispatch_identity row))"

lemma identities_kept_refl [simp]: "st_dispatches st' = st_dispatches st \<Longrightarrow> identities_kept st st'"
  by (simp add: identities_kept_def)

lemma identities_kept_trans: "identities_kept st st' \<Longrightarrow> identities_kept st' st'' \<Longrightarrow> identities_kept st st''"
  unfolding identities_kept_def by metis

lemma write_dispatch_row_identity:
  assumes "write_dispatch_row run_id g st d = Inr st'" shows "identities_kept st st'"
  using assms
  by (cases "dget (st_dispatches st) (run_id, d_dispatch_id d)")
    (auto simp: write_dispatch_row_def Let_def identities_kept_def dispatch_identity_def dget_dset split: if_splits)

lemma write_snapshot_identity:
  assumes "write_snapshot r g sessions st = Inr st'" shows "identities_kept st st'"
  using assms
proof (rule write_snapshot_Inr)
  fix mid mid' plans steps groups
  assume mid: "write_run_row r g st = Inr mid"
    and mid': "foldr_result (write_dispatch_row (r_run_id r) g) (mid\<lparr>st_plans := plans, st_steps := steps\<rparr>)
       (map snd (r_dispatches r)) = Inr mid'"
    and st': "st' = write_sessions (r_run_id r) sessions (mid'\<lparr>st_groups := groups\<rparr>)"
  have "identities_kept st (mid\<lparr>st_plans := plans, st_steps := steps\<rparr>)"
    using mid by (simp add: write_run_row_Inr)
  then have "identities_kept st mid'"
    by (rule foldr_result_invariant [OF mid']) (blast intro: identities_kept_trans write_dispatch_row_identity)
  then show ?thesis by (simp add: st' write_sessions_def identities_kept_def)
qed

lemma snapshot_then_identity:
  "write_snapshot r g sessions st = Inr st1 \<Longrightarrow> st_dispatches st' = st_dispatches st1 \<Longrightarrow> identities_kept st st'"
  by (blast intro: identities_kept_trans write_snapshot_identity identities_kept_refl)

lemma payload_dispatches: "write_dispatch_payload run_id st entry = Inr st' \<Longrightarrow> st_dispatches st' = st_dispatches st"
  by (auto simp: write_dispatch_payload_def Let_def split: option.splits)

lemma git_final_dispatches:
  "write_structured_git_final run_id now st entry = Inr st' \<Longrightarrow> st_dispatches st' = st_dispatches st"
  by (cases "final_source (gf_state (snd entry))"; cases "dget (st_git st) (run_id, fst entry)")
    (auto simp: write_structured_git_final_def Let_def split: if_splits)

lemma forwarded_review_dispatches:
  "insert_forwarded_review run_id i f now st = Inr st' \<Longrightarrow> st_dispatches st' = st_dispatches st"
  unfolding insert_forwarded_review_def
  by (cases "fw_review_id f"; cases "fw_review f") (auto simp: insert_review_Inr)

lemma forwarded_git_dispatches:
  "write_forwarded_git run_id i f now st = Inr st' \<Longrightarrow> st_dispatches st' = st_dispatches st"
  unfolding write_forwarded_git_def by (cases "fw_structured_git_final f") (auto dest: git_final_dispatches)

lemma save_run_identity:
  assumes "save_run r g x now st = Inr (g', st')" shows "identities_kept st st'"
  using assms
proof (rule save_run_Inr, goal_cases)
  case (1 row sessions st1 st2)
  have "st_dispatches st2 = st_dispatches st1"
    by (rule foldr_result_invariant [OF 1(5)]) (auto dest: payload_dispatches)
  moreover have "st_dispatches st' = st_dispatches st2"
    by (rule foldr_result_invariant [OF 1(6)]) (auto dest: git_final_dispatches)
  ultimately show ?case by (intro snapshot_then_identity [OF 1(4)]) simp
qed

lemma create_run_identity: "create_run r sessions st = Inr (g, st') \<Longrightarrow> identities_kept st st'"
  by (auto simp: create_run_def bindr_Inr_iff split: list.splits if_splits intro: write_snapshot_identity)

lemma complete_run_identity: "complete_run r g i n c p now st = Inr (g', st') \<Longrightarrow> identities_kept st st'"
  by (erule complete_run_Inr)
    (rule snapshot_then_identity, assumption, simp add: append_audit_event_def insert_audit_event_Inr)

lemma forwarded_identity: "persist_forwarded_dispatch r g i f now st = Inr ((r', g'), st') \<Longrightarrow> identities_kept st st'"
  by (erule persist_forwarded_Inr)
    (rule snapshot_then_identity, assumption,
      auto dest!: payload_dispatches forwarded_review_dispatches forwarded_git_dispatches)

lemma adopted_identity:
  "persist_adopted_failed_review r g i result verification after review_id request actor e now st = Inr ((r', g'), st')
     \<Longrightarrow> identities_kept st st'"
  by (erule persist_adopted_Inr)
    (rule snapshot_then_identity, assumption,
      auto simp: insert_review_Inr insert_decision_Inr dest!: payload_dispatches)

lemma answer_identity:
  "answer_operator_request e now run_id g request answer actor st = Inr ((r', g'), st') \<Longrightarrow> identities_kept st st'"
  by (erule answer_operator_request_Inr) (rule snapshot_then_identity, assumption, simp add: insert_decision_Inr)

lemma finish_identity:
  assumes "finish_opencode_invocation i x now st = Inr ((r', g'), st')" shows "identities_kept st st'"
  using assms by (cases rule: finish_invocation_Inr) (auto intro: snapshot_then_identity)

lemma same_tables_identity: "same_tables st st' \<Longrightarrow> identities_kept st st'"
  by (simp add: same_tables_def)

lemma store_step_identity: "store_step st st' \<Longrightarrow> identities_kept st st'"
  by (induction rule: store_step.induct)
    (blast intro: create_run_identity save_run_identity complete_run_identity forwarded_identity adopted_identity
      answer_identity finish_identity same_tables_identity small_steps)+

lemma store_steps_identity: "store_steps st st' \<Longrightarrow> identities_kept st st'"
  by (induction rule: rtranclp_induct) (auto intro: identities_kept_trans store_step_identity)

end
