(* ===== verification/Store_Journals.thy ===== *)
theory Store_Journals
  imports Store_Life
begin

text \<open>
  The two journals of the store. A structured Git row keeps its proposal and moves only along its
  lifecycle; an invocation finishes once, and the usage it reports enters the ledger of its run once.
\<close>

section \<open>The lifecycle of structured Git rows\<close>

fun git_next :: "git_state \<Rightarrow> git_state list" where
  "git_next Git_proposal_received = [Git_checked, Git_commit_intent_persisted, Git_reconciliation_required]"
| "git_next Git_checked = [Git_no_commit_finalized, Git_reconciliation_required]"
| "git_next Git_commit_intent_persisted = [Git_staged, Git_reconciliation_required]"
| "git_next Git_staged = [Git_committed, Git_reconciliation_required]"
| "git_next Git_committed = []"
| "git_next Git_no_commit_finalized = []"
| "git_next Git_reconciliation_required = []"

abbreviation git_reaches :: "git_state \<Rightarrow> git_state \<Rightarrow> bool" where
  "git_reaches \<equiv> (\<lambda>a b. b \<in> set (git_next a))\<^sup>*\<^sup>*"

text \<open>One row moved: the proposal stays, the state goes forward.\<close>

definition git_row_moved :: "git_row \<Rightarrow> git_row \<Rightarrow> bool" where
  "git_row_moved row row' \<longleftrightarrow>
     gr_proposal row' = gr_proposal row \<and> gr_proposal_digest row' = gr_proposal_digest row
     \<and> git_reaches (gr_state row) (gr_state row')"

definition git_moved :: "store \<Rightarrow> store \<Rightarrow> bool" where
  "git_moved st st' \<longleftrightarrow>
     (\<forall>key row. dget (st_git st) key = Some row \<longrightarrow>
        (\<exists>row'. dget (st_git st') key = Some row' \<and> git_row_moved row row'))"

lemma git_row_moved_refl [simp]: "git_row_moved row row"
  by (simp add: git_row_moved_def)

lemma git_moved_same [simp]: "st_git st' = st_git st \<Longrightarrow> git_moved st st'"
  by (simp add: git_moved_def)

lemma git_row_moved_trans: "git_row_moved a b \<Longrightarrow> git_row_moved b c \<Longrightarrow> git_row_moved a c"
  unfolding git_row_moved_def by (auto intro: rtranclp_trans)

lemma git_moved_trans: "git_moved st st' \<Longrightarrow> git_moved st' st'' \<Longrightarrow> git_moved st st''"
  unfolding git_moved_def by (blast intro: git_row_moved_trans)

lemma git_moved_dset:
  "dget (st_git st) key = Some row \<Longrightarrow> git_row_moved row row'
     \<Longrightarrow> git_moved st (st\<lparr>st_git := dset key row' (st_git st)\<rparr>)"
  by (auto simp: git_moved_def dget_dset)

lemma git_final_moved:
  assumes "write_structured_git_final run_id now st entry = Inr st'" shows "git_moved st st'"
proof -
  obtain source target where fs: "final_source (gf_state (snd entry)) = Some (source, target)"
    using assms by (cases "final_source (gf_state (snd entry))") (auto simp: write_structured_git_final_def)
  obtain row where row: "dget (st_git st) (run_id, fst entry) = Some row"
    using assms fs by (cases "dget (st_git st) (run_id, fst entry)") (auto simp: write_structured_git_final_def)
  have moves: "target \<in> set (git_next source)" using fs by (auto simp: final_source_def split: if_splits)
  from assms fs row have "gr_state row = source" and st': "st' = st\<lparr>st_git := dset (run_id, fst entry)
      (row\<lparr>gr_state := target, gr_commit := map_option stored_object (gf_commit (snd entry)),
           gr_result_revision := gf_result_revision (snd entry),
           gr_repository_after :=
             Some (case gf_repository_after (snd entry) of None \<Rightarrow> [] | Some m \<Rightarrow> stored_object m),
           gr_updated_at := now\<rparr>) (st_git st)\<rparr>"
    by (simp_all add: write_structured_git_final_def Let_def split: if_splits)
  with moves show ?thesis
    unfolding st' by (intro git_moved_dset [OF row]) (auto simp: git_row_moved_def)
qed

lemma git_transition_moved:
  assumes "transition_structured_git_record run_id i allowed target u now st = Inr st'"
    "\<forall>source \<in> set allowed. target \<in> set (git_next source)"
  shows "git_moved st st'"
proof -
  from transition_git_Inr [OF assms(1)] obtain row where
    row: "dget (st_git st) (run_id, i) = Some row" "gr_state row \<in> set allowed" and
    st': "st' = st\<lparr>st_git := dset (run_id, i)
            (row\<lparr>gr_state := target,
                 gr_checked := or_keep (map_option stored_object (gu_checked u)) (gr_checked row),
                 gr_intent := or_keep (map_option stored_object (gu_intent u)) (gr_intent row),
                 gr_stage := or_keep (map_option stored_object (gu_stage u)) (gr_stage row),
                 gr_failure_detail := or_keep (gu_failure_detail u) (gr_failure_detail row),
                 gr_updated_at := now\<rparr>) (st_git st)\<rparr>" by blast
  with assms(2) show ?thesis
    unfolding st' by (intro git_moved_dset [OF row(1)]) (auto simp: git_row_moved_def)
qed

lemma checked_moved: "record_structured_git_checked run_id i checks intent now st = Inr (row, st') \<Longrightarrow> git_moved st st'"
  unfolding record_structured_git_checked_def
  by (drule loaded_git_Inr, erule git_transition_moved) (auto split: if_splits)

lemma staged_moved: "record_structured_git_staged run_id i stage now st = Inr (row, st') \<Longrightarrow> git_moved st st'"
  unfolding record_structured_git_staged_def by (drule loaded_git_Inr, erule git_transition_moved) auto

lemma reconciliation_moved:
  "mark_structured_git_reconciliation run_id i detail now st = Inr (row, st') \<Longrightarrow> git_moved st st'"
  unfolding mark_structured_git_reconciliation_def by (drule loaded_git_Inr, erule git_transition_moved) auto

lemma proposal_moved: "record_executor_proposal run_id i proposal now st = Inr (row, st') \<Longrightarrow> git_moved st st'"
  by (cases "dget (st_git st) (run_id, i)")
    (auto simp: record_executor_proposal_def Let_def git_moved_def dest!: loaded_git_Inr split: if_splits)

lemma snapshot_then_moved:
  "write_snapshot r g sessions st = Inr st1 \<Longrightarrow> git_moved st1 st' \<Longrightarrow> git_moved st st'"
  by (rule git_moved_trans [of _ st1]) (simp add: write_snapshot_frame)

lemma payload_git: "write_dispatch_payload run_id st entry = Inr st' \<Longrightarrow> st_git st' = st_git st"
  by (auto simp: write_dispatch_payload_def Let_def split: option.splits)

lemma save_run_moved:
  assumes "save_run r g x now st = Inr (g', st')" shows "git_moved st st'"
  using assms
proof (rule save_run_Inr, goal_cases)
  case (1 row sessions st1 st2)
  have "st_git st2 = st_git st1"
    by (rule foldr_result_invariant [OF 1(5)]) (auto dest: payload_git)
  moreover have "git_moved st2 st'"
    by (rule foldr_result_invariant [OF 1(6)]) (auto intro: git_moved_trans git_final_moved)
  ultimately show ?case by (intro snapshot_then_moved [OF 1(4)]) (simp add: git_moved_def)
qed

lemma create_run_moved: "create_run r sessions st = Inr (g, st') \<Longrightarrow> git_moved st st'"
  by (auto simp: create_run_def bindr_Inr_iff write_snapshot_frame split: list.splits if_splits)

lemma complete_run_moved: "complete_run r g i n c p now st = Inr (g', st') \<Longrightarrow> git_moved st st'"
  by (erule complete_run_Inr)
    (rule snapshot_then_moved, assumption, simp add: append_audit_event_def insert_audit_event_Inr)

lemma forwarded_git_moved: "write_forwarded_git run_id i f now st = Inr st' \<Longrightarrow> git_moved st st'"
  unfolding write_forwarded_git_def by (cases "fw_structured_git_final f") (auto dest: git_final_moved)

lemma forwarded_review_git: "insert_forwarded_review run_id i f now st = Inr st' \<Longrightarrow> st_git st' = st_git st"
  unfolding insert_forwarded_review_def
  by (cases "fw_review_id f"; cases "fw_review f") (auto simp: insert_review_Inr)

lemma forwarded_moved:
  "persist_forwarded_dispatch r g i f now st = Inr ((r', g'), st') \<Longrightarrow> git_moved st st'"
proof (erule persist_forwarded_Inr, goal_cases)
  case (1 d row run_row existing sessions st1 st2 st3)
  from 1(10,11) have "st_git st3 = st_git st1" by (simp add: payload_git forwarded_review_git)
  with forwarded_git_moved [OF 1(12)] have "git_moved st1 st'" by (simp add: git_moved_def)
  then show ?case by (rule snapshot_then_moved [OF 1(9)])
qed

lemma adopted_moved:
  "persist_adopted_failed_review r g i result verification after review_id request actor e now st = Inr ((r', g'), st')
     \<Longrightarrow> git_moved st st'"
  by (erule persist_adopted_Inr)
    (rule snapshot_then_moved, assumption, auto simp: insert_review_Inr insert_decision_Inr dest!: payload_git)

lemma answer_moved:
  "answer_operator_request e now run_id g request answer actor st = Inr ((r', g'), st') \<Longrightarrow> git_moved st st'"
  by (erule answer_operator_request_Inr) (rule snapshot_then_moved, assumption, simp add: insert_decision_Inr)

lemma finish_moved: "finish_opencode_invocation i x now st = Inr ((r', g'), st') \<Longrightarrow> git_moved st st'"
  by (cases rule: finish_invocation_Inr) (auto intro: snapshot_then_moved)

lemma other_moved:
  "update_dispatch_payload run_id i u st = Inr st' \<Longrightarrow> git_moved st st'"
  "record_review run_id i review_id m now st = Inr st' \<Longrightarrow> git_moved st st'"
  "append_audit_event run_id i n k c d payload now st = Inr st' \<Longrightarrow> git_moved st st'"
  "begin_opencode_invocation i identity now st = Inr st' \<Longrightarrow> git_moved st st'"
proof -
  show "git_moved st st'" if "update_dispatch_payload run_id i u st = Inr st'"
    using that by (cases "dget (st_payloads st) (run_id, i)") (auto simp: update_dispatch_payload_def Let_def split: if_splits)
  show "git_moved st st'" if "record_review run_id i review_id m now st = Inr st'"
    using that by (auto simp: record_review_def insert_review_Inr split: if_splits)
  show "git_moved st st'" if "append_audit_event run_id i n k c d payload now st = Inr st'"
    using that by (auto simp: append_audit_event_def insert_audit_event_Inr)
  show "git_moved st st'" if "begin_opencode_invocation i identity now st = Inr st'"
    using begin_invocation_Inr [OF that] by auto
qed

lemma store_step_moved: "store_step st st' \<Longrightarrow> git_moved st st'"
  by (induction rule: store_step.induct)
    (blast intro: create_run_moved save_run_moved complete_run_moved forwarded_moved adopted_moved answer_moved
      finish_moved other_moved proposal_moved checked_moved staged_moved reconciliation_moved)+

lemma store_steps_moved: "store_steps st st' \<Longrightarrow> git_moved st st'"
  by (induction rule: rtranclp_induct) (auto intro: git_moved_trans store_step_moved)

text \<open>A final state is where the lifecycle ends.\<close>

lemma git_reaches_final: "git_reaches a b \<Longrightarrow> git_next a = [] \<Longrightarrow> b = a"
  by (erule converse_rtranclpE) auto

lemma git_reaches_committed:
  "git_reaches a Git_committed \<Longrightarrow> a \<in> {Git_proposal_received, Git_commit_intent_persisted, Git_staged, Git_committed}"
  by (erule converse_rtranclpE; cases a) (auto dest: git_reaches_final)

section \<open>Invocations are counted once\<close>

definition row_usage :: "string \<Rightarrow> string \<times> invocation_row \<Rightarrow> (string, usage_amount) dict" where
  "row_usage run_id entry =
     (if iv_run_id (snd entry) = run_id
      then (case iv_usage (snd entry) of None \<Rightarrow> [] | Some u \<Rightarrow> [(fst entry, u)]) else [])"

definition invocation_total :: "store \<Rightarrow> string \<Rightarrow> usage_amount" where
  "invocation_total st run_id = total_usage (concat (map (row_usage run_id) (st_invocations st)))"

definition run_usage :: "store \<Rightarrow> string \<Rightarrow> usage_amount" where
  "run_usage st run_id = (case stored_run st run_id of None \<Rightarrow> zero_usage | Some r \<Rightarrow> ul_run (r_usage r))"

lemma total_usage_append: "total_usage (d @ d') = add_usage (total_usage d) (total_usage d')"
  by (induction d) (auto simp: add_usage_assoc)

lemma total_dset_row:
  assumes "dget rows i = Some row" "iv_usage row = None" "iv_run_id new = iv_run_id row"
  shows "total_usage (concat (map (row_usage run_id) (dset i new rows))) =
     add_usage (total_usage (concat (map (row_usage run_id) rows)))
       (if iv_run_id row = run_id then (case iv_usage new of None \<Rightarrow> zero_usage | Some u \<Rightarrow> u) else zero_usage)"
  using assms
proof (induction rows)
  case (Cons entry rows)
  obtain j r where entry: "entry = (j, r)" by fastforce
  show ?case
  proof (cases "j = i")
    case True
    with Cons.prems show ?thesis
      by (auto simp: entry row_usage_def total_usage_append split: option.splits) (metis add_usage_commute)
  next
    case False
    with Cons show ?thesis by (simp add: entry total_usage_append add_usage_assoc)
  qed
qed simp

lemma charged_run_usage:
  "ul_run (r_usage (charged_record r i row x)) =
     add_usage (ul_run (r_usage r)) (case io_usage x of None \<Rightarrow> zero_usage | Some u \<Rightarrow> u)"
  by (auto simp: charged_record_def charged_ledger_def split: option.splits)

text \<open>
  Finishing adds the reported usage to the ledger and to the journal when the invocation was prepared, and
  changes nothing when it was finished with the same outcome before.
\<close>

lemma finish_counts_once:
  assumes "store_ok st" "finish_opencode_invocation i x now st = Inr ((r', g'), st')"
    "dget (st_invocations st) i = Some row"
  shows "let amount = (if iv_lifecycle row = Invocation_prepared
           then (case io_usage x of None \<Rightarrow> zero_usage | Some u \<Rightarrow> u) else zero_usage) in
     run_usage st' (iv_run_id row) = add_usage (run_usage st (iv_run_id row)) amount
     \<and> invocation_total st' (iv_run_id row) = add_usage (invocation_total st (iv_run_id row)) amount
     \<and> (iv_lifecycle row \<noteq> Invocation_prepared \<longrightarrow> st' = st)"
  using assms(2)
proof (cases rule: finish_invocation_Inr)
  case (again row')
  with assms(3) show ?thesis by simp
next
  case (first row' r g st1)
  then have row': "row' = row" using assms(3) by simp
  have loaded: "stored_run st (iv_run_id row) = Some r" "r_run_id r = iv_run_id row"
    using first(4) stored_run_id [OF assms(1)] by (auto simp: validated_run_Inr load_run_Inr row')
  have id: "r_run_id r' = iv_run_id row" using first(5) loaded by (auto simp: charged_record_def split: option.splits)
  note frame = write_snapshot_frame [OF first(7)]
  have "stored_run st' (iv_run_id row) = Some r'" using first(8) id by (simp add: stored_run_def frame)
  then have ledger: "run_usage st' (iv_run_id row) = add_usage (run_usage st (iv_run_id row))
      (case io_usage x of None \<Rightarrow> zero_usage | Some u \<Rightarrow> u)"
    using loaded first(5) by (simp add: run_usage_def charged_run_usage)
  have "invocation_row_ok (i, row)"
    using assms(1) dget_in_set [OF assms(3)] by (auto simp: store_ok_def invocation_rows_ok_def list_all_iff)
  then have "iv_usage row = None" using first(2) by (auto simp: invocation_row_ok_def row')
  then have "invocation_total st' (iv_run_id row) = add_usage (invocation_total st (iv_run_id row))
      (case io_usage x of None \<Rightarrow> zero_usage | Some u \<Rightarrow> u)"
    using total_dset_row [OF assms(3), of "finished_row x now row" "iv_run_id row"] first(8)
    by (simp add: invocation_total_def frame row' finished_row_def)
  with ledger first(2) show ?thesis by (simp add: row')
qed

text \<open>A finished invocation is refused under any other outcome.\<close>

lemma finished_differently:
  "dget (st_invocations st) i = Some row \<Longrightarrow> iv_lifecycle row \<noteq> Invocation_prepared \<Longrightarrow> \<not> finished_with x row
     \<Longrightarrow> \<exists>e. finish_opencode_invocation i x now st = Inl e"
  by (cases "finish_opencode_invocation i x now st") (auto elim: finish_invocation_Inr)

end
