(* ===== verification/Leases.thy ===== *)
theory Leases
  imports Prelude
begin

text \<open>
  Leases on runs and repository resources: the table \<open>leases\<close> of \<open>src/src/dispatcher/state_store.py\<close> and
  the operations that acquire, refresh and release its rows. An operation is one transaction: an error
  leaves the table as it was. Timestamps count microseconds; \<open>clock k\<close> is the clock when the operation
  reaches the resource \<open>k\<close>.
\<close>

section \<open>Operations\<close>

record lease =
  le_owner_id :: string
  le_owner_pid :: int
  le_owner_host :: string
  le_run_id :: string
  le_acquired_at :: int
  le_heartbeat_at :: int
  le_recovery_approved_by :: "string option"

type_synonym lease_table = "(string, lease) dict"

text \<open>Who asks: the owner with its process, the run, and the operator who approved a takeover.\<close>

record claimant =
  cl_owner_id :: string
  cl_owner_pid :: int
  cl_owner_host :: string
  cl_run_id :: string
  cl_recovery_approved_by :: "string option"

definition lease_is_stale :: "int \<Rightarrow> int \<Rightarrow> int \<Rightarrow> bool" where
  "lease_is_stale stale_after_seconds now heartbeat \<longleftrightarrow> heartbeat \<le> now - stale_after_seconds * 1000000"

definition resource_keys_of :: "string list \<Rightarrow> string list" where
  "resource_keys_of keys = sort (remdups keys)"

definition takeover_approved :: "claimant \<Rightarrow> bool" where
  "takeover_approved c \<longleftrightarrow> cl_recovery_approved_by c \<noteq> None \<and> cl_recovery_approved_by c \<noteq> Some []"

definition new_lease :: "claimant \<Rightarrow> int \<Rightarrow> lease" where
  "new_lease c now =
     \<lparr>le_owner_id = cl_owner_id c, le_owner_pid = cl_owner_pid c, le_owner_host = cl_owner_host c,
      le_run_id = cl_run_id c, le_acquired_at = now, le_heartbeat_at = now,
      le_recovery_approved_by = cl_recovery_approved_by c\<rparr>"

definition refusal :: "int \<Rightarrow> (string \<Rightarrow> int) \<Rightarrow> claimant \<Rightarrow> lease_table \<Rightarrow> string \<Rightarrow> exn option" where
  "refusal stale_after clock c leases key =
     (case dget leases key of
        None \<Rightarrow> None
      | Some row \<Rightarrow>
          if le_owner_id row = cl_owner_id c then None
          else if \<not> lease_is_stale stale_after (clock key) (le_heartbeat_at row) then
            Some (LeaseConflictError
              (''resource '' @ key @ '' is held by '' @ le_owner_id row @ '' on '' @ le_owner_host row))
          else if \<not> takeover_approved c then
            Some (StaleLeaseRecoveryRequired
              (''resource '' @ key @ '' has a stale lease from '' @ le_owner_id row
               @ ''; explicit operator approval is required''))
          else None)"

fun acquire_each ::
  "int \<Rightarrow> (string \<Rightarrow> int) \<Rightarrow> claimant \<Rightarrow> int \<Rightarrow> string list \<Rightarrow> lease_table \<Rightarrow> exn + (string \<times> lease) list \<times> lease_table"
  where
  "acquire_each stale_after clock c now [] leases = Inr ([], leases)"
| "acquire_each stale_after clock c now (key # keys) leases =
     (case refusal stale_after clock c leases key of
        Some e \<Rightarrow> Inl e
      | None \<Rightarrow>
          bindr (acquire_each stale_after clock c now keys (dset key (new_lease c now) leases)) (\<lambda>(held, leases).
            Inr ((key, new_lease c now) # held, leases)))"

definition acquire_resource_leases ::
  "int \<Rightarrow> (string \<Rightarrow> int) \<Rightarrow> claimant \<Rightarrow> int \<Rightarrow> string list \<Rightarrow> lease_table
   \<Rightarrow> exn + (string \<times> lease) list \<times> lease_table" where
  "acquire_resource_leases stale_after clock c now keys leases =
     (if resource_keys_of keys = [] then Inl (ValueError ''at least one resource key is required'')
      else acquire_each stale_after clock c now (resource_keys_of keys) leases)"

definition acquire_run_lease ::
  "int \<Rightarrow> (string \<Rightarrow> int) \<Rightarrow> claimant \<Rightarrow> int \<Rightarrow> string \<Rightarrow> lease_table
   \<Rightarrow> exn + (string \<times> lease) list \<times> lease_table" where
  "acquire_run_lease stale_after clock c now project_id leases =
     acquire_resource_leases stale_after clock c now [''run:'' @ project_id] leases"

fun heartbeat_each :: "(string \<Rightarrow> int) \<Rightarrow> string \<Rightarrow> string list \<Rightarrow> lease_table \<Rightarrow> exn + lease_table" where
  "heartbeat_each clock owner_id [] leases = Inr leases"
| "heartbeat_each clock owner_id (key # keys) leases =
     (case dget leases key of
        None \<Rightarrow> Inl (LeaseConflictError (''cannot heartbeat unowned resource: '' @ key))
      | Some row \<Rightarrow>
          if le_owner_id row \<noteq> owner_id then
            Inl (LeaseConflictError (''cannot heartbeat unowned resource: '' @ key))
          else heartbeat_each clock owner_id keys (dset key (row\<lparr>le_heartbeat_at := clock key\<rparr>) leases))"

definition heartbeat_leases ::
  "(string \<Rightarrow> int) \<Rightarrow> string \<Rightarrow> string list \<Rightarrow> lease_table \<Rightarrow> exn + lease_table" where
  "heartbeat_leases clock owner_id keys leases =
     (if resource_keys_of keys = [] then Inl (ValueError ''at least one resource key is required'')
      else heartbeat_each clock owner_id (resource_keys_of keys) leases)"

text \<open>\<open>DELETE ... WHERE resource_key = ? AND owner_id = ?\<close> for every key.\<close>

definition release_leases :: "string \<Rightarrow> string list \<Rightarrow> lease_table \<Rightarrow> lease_table" where
  "release_leases owner_id keys leases =
     filter (\<lambda>(key, row). \<not> (key \<in> set keys \<and> le_owner_id row = owner_id)) leases"

definition release_interrupted_dispatch_leases ::
  "string \<Rightarrow> string list \<Rightarrow> lease_table \<Rightarrow> string list \<times> lease_table" where
  "release_interrupted_dispatch_leases run_id keys leases =
     (let deleted = (\<lambda>key. case dget leases key of None \<Rightarrow> False | Some row \<Rightarrow> le_run_id row = run_id)
      in (filter deleted (resource_keys_of keys),
          filter (\<lambda>(key, row). \<not> (key \<in> set keys \<and> le_run_id row = run_id)) leases))"

definition leases_for_run :: "string \<Rightarrow> lease_table \<Rightarrow> (string \<times> lease) list" where
  "leases_for_run run_id leases = sort_key fst (filter (\<lambda>(_, row). le_run_id row = run_id) leases)"

section \<open>The contract of a lock table\<close>

text \<open>
  \<open>holder s k\<close> is the owner of \<open>k\<close>; \<open>step o approved s s'\<close> is a step of the owner \<open>o\<close>, with an operator's
  approval or without.
\<close>

locale lock_table =
  fixes invar :: "'s \<Rightarrow> bool"
    and holder :: "'s \<Rightarrow> 'k \<Rightarrow> 'o option"
    and step :: "'o \<Rightarrow> bool \<Rightarrow> 's \<Rightarrow> 's \<Rightarrow> bool"
  assumes step_invar: "invar s \<Longrightarrow> step a approval s s' \<Longrightarrow> invar s'"
    and step_keeps: "step a False s s' \<Longrightarrow> holder s k = Some b \<Longrightarrow> b \<noteq> a \<Longrightarrow> holder s' k = Some b"
    and step_takes: "invar s \<Longrightarrow> step a approval s s' \<Longrightarrow> holder s' k = Some b \<Longrightarrow> b \<noteq> a \<Longrightarrow> holder s k = Some b"
begin

inductive history :: "'o set \<Rightarrow> bool \<Rightarrow> 's \<Rightarrow> 's \<Rightarrow> bool" for owners approval where
  history_start: "history owners approval s s"
| history_step: "history owners approval s s' \<Longrightarrow> a \<in> owners \<Longrightarrow> step a approved s' s''
    \<Longrightarrow> (approved \<longrightarrow> approval) \<Longrightarrow> history owners approval s s''"

text \<open>Without an approval, nobody else ends a hold.\<close>

lemma history_keeps:
  assumes "history owners False s s'" "b \<notin> owners" "holder s k = Some b"
  shows "holder s' k = Some b"
  using assms
proof (induction rule: history.induct)
  case (history_step s s' a approved s'')
  then have "\<not> approved" "b \<noteq> a" by auto
  with history_step show ?case by (auto intro: step_keeps)
qed simp

text \<open>Nobody holds what they did not take.\<close>

lemma history_invar: "history owners approval s s' \<Longrightarrow> invar s \<Longrightarrow> invar s'"
  by (induction rule: history.induct) (auto intro: step_invar)

lemma history_takes:
  assumes "history owners approval s s'" "invar s" "b \<notin> owners" "holder s' k = Some b"
  shows "holder s k = Some b"
  using assms
proof (induction rule: history.induct)
  case (history_step s s' a approved s'')
  then have "b \<noteq> a" "invar s'" using history_invar by auto
  with history_step show ?case by (auto dest: step_takes)
qed simp

end

section \<open>The lease table keeps it\<close>

definition holder :: "lease_table \<Rightarrow> string \<Rightarrow> string option" where
  "holder leases key = map_option le_owner_id (dget leases key)"

text \<open>A step of an owner: any of its operations. Both releases delete rows, the second one by run.\<close>

inductive lease_step :: "string \<Rightarrow> bool \<Rightarrow> lease_table \<Rightarrow> lease_table \<Rightarrow> bool" where
  step_acquire: "acquire_resource_leases stale_after clock c now keys leases = Inr (held, leases')
    \<Longrightarrow> lease_step (cl_owner_id c) (takeover_approved c) leases leases'"
| step_heartbeat: "heartbeat_leases clock owner_id keys leases = Inr leases'
    \<Longrightarrow> lease_step owner_id False leases leases'"
| step_release: "lease_step owner_id False leases (release_leases owner_id keys leases)"

lemma holder_dset: "holder (dset key row leases) k = (if k = key then Some (le_owner_id row) else holder leases k)"
  by (simp add: holder_def dget_dset)

lemma set_resource_keys_of [simp]: "set (resource_keys_of keys) = set keys"
  by (simp add: resource_keys_of_def)

lemma resource_keys_of_Nil [simp]: "resource_keys_of keys = [] \<longleftrightarrow> keys = []"
  by (metis set_resource_keys_of set_empty)

lemma distinct_resource_keys_of [simp]: "distinct (resource_keys_of keys)"
  by (simp add: resource_keys_of_def)

definition grantable :: "int \<Rightarrow> (string \<Rightarrow> int) \<Rightarrow> claimant \<Rightarrow> lease_table \<Rightarrow> string \<Rightarrow> bool" where
  "grantable stale_after clock c leases key \<longleftrightarrow>
     (\<forall>row. dget leases key = Some row \<longrightarrow> le_owner_id row = cl_owner_id c
        \<or> takeover_approved c \<and> lease_is_stale stale_after (clock key) (le_heartbeat_at row))"

lemma refusal_None_iff: "refusal stale_after clock c leases key = None \<longleftrightarrow> grantable stale_after clock c leases key"
  by (auto simp: refusal_def grantable_def split: option.splits)

lemma refusal_dset: "key' \<noteq> key \<Longrightarrow> refusal stale_after clock c (dset key row leases) key' = refusal stale_after clock c leases key'"
  by (simp add: refusal_def dget_dset)

lemma acquire_each_Inr_iff:
  "distinct keys \<Longrightarrow>
     (\<exists>result. acquire_each stale_after clock c now keys leases = Inr result)
       \<longleftrightarrow> list_all (grantable stale_after clock c leases) keys"
proof (induction keys arbitrary: leases)
  case (Cons key keys)
  have same: "list_all (grantable stale_after clock c (dset key (new_lease c now) leases)) keys
      = list_all (grantable stale_after clock c leases) keys"
    using Cons.prems by (auto simp: list_all_iff grantable_def dget_dset)
  show ?case
  proof (cases "refusal stale_after clock c leases key")
    case None
    then have "grantable stale_after clock c leases key" by (simp add: refusal_None_iff)
    moreover have "(\<exists>result. acquire_each stale_after clock c now keys (dset key (new_lease c now) leases) = Inr result)
        = list_all (grantable stale_after clock c leases) keys"
      using Cons same by simp
    ultimately show ?thesis
      using None by (cases "acquire_each stale_after clock c now keys (dset key (new_lease c now) leases)") auto
  next
    case (Some e)
    then have "\<not> grantable stale_after clock c leases key" by (metis option.distinct(1) refusal_None_iff)
    with Some show ?thesis by simp
  qed
qed simp

lemma acquire_each_table:
  "acquire_each stale_after clock c now keys leases = Inr (held, leases') \<Longrightarrow>
     dget leases' k = (if k \<in> set keys then Some (new_lease c now) else dget leases k)
     \<and> held = map (\<lambda>key. (key, new_lease c now)) keys"
proof (induction keys arbitrary: leases held)
  case (Cons key keys)
  then show ?case
    by (auto simp: bindr_Inr_iff dget_dset split: option.splits prod.splits)
qed simp

lemma heartbeat_each_table:
  "heartbeat_each clock owner_id keys leases = Inr leases' \<Longrightarrow>
     holder leases' k = holder leases k \<and> (\<forall>key \<in> set keys. holder leases key = Some owner_id)"
proof (induction keys arbitrary: leases)
  case (Cons key keys)
  then show ?case
    by (fastforce simp: holder_def dget_dset split: option.splits if_splits)
qed simp

lemma dget_filter:
  assumes "distinct (dkeys d)"
  shows "dget (filter (\<lambda>(k, v). P k v) d) k =
     (case dget d k of None \<Rightarrow> None | Some v \<Rightarrow> if P k v then Some v else None)"
  using assms
proof (induction d)
  case (Cons kv d)
  obtain k' v' where kv: "kv = (k', v')" by fastforce
  have "k' = k \<Longrightarrow> dget d k = None" using Cons.prems by (simp add: kv dget_None_iff)
  with Cons show ?case by (auto simp: kv)
qed simp

lemma holder_release:
  assumes "distinct (dkeys leases)"
  shows "holder (release_leases owner_id keys leases) k =
     (if k \<in> set keys \<and> holder leases k = Some owner_id then None else holder leases k)"
proof (cases "dget leases k")
  case None
  then show ?thesis using dget_filter [OF assms, of "\<lambda>key row. \<not> (key \<in> set keys \<and> le_owner_id row = owner_id)" k]
    by (simp add: release_leases_def holder_def)
next
  case (Some row)
  then show ?thesis using dget_filter [OF assms, of "\<lambda>key row. \<not> (key \<in> set keys \<and> le_owner_id row = owner_id)" k]
    by (simp add: release_leases_def holder_def)
qed

lemma holder_release_other:
  assumes "holder leases k = Some b" "b \<noteq> owner_id"
  shows "holder (release_leases owner_id keys leases) k = Some b"
proof -
  have "dget (filter (\<lambda>(key, row). \<not> (key \<in> set keys \<and> le_owner_id row = owner_id)) leases) k = Some row"
    if "dget leases k = Some row" "le_owner_id row \<noteq> owner_id" for row
    using that by (induction leases) (auto split: if_splits)
  with assms show ?thesis by (auto simp: holder_def release_leases_def)
qed

lemma acquire_Inr:
  "acquire_resource_leases stale_after clock c now keys leases = Inr (held, leases') \<longleftrightarrow>
     keys \<noteq> [] \<and> acquire_each stale_after clock c now (resource_keys_of keys) leases = Inr (held, leases')"
  by (simp add: acquire_resource_leases_def)

lemma acquire_holder:
  assumes "acquire_resource_leases stale_after clock c now keys leases = Inr (held, leases')"
  shows "holder leases' k = (if k \<in> set keys then Some (cl_owner_id c) else holder leases k)"
  using assms by (auto simp: acquire_Inr holder_def new_lease_def dest!: acquire_each_table [where k = k])

lemma acquire_grantable:
  assumes "acquire_resource_leases stale_after clock c now keys leases = Inr (held, leases')" "k \<in> set keys"
  shows "grantable stale_after clock c leases k"
  using assms acquire_each_Inr_iff [OF distinct_resource_keys_of, of stale_after clock c now keys leases]
  by (auto simp: acquire_Inr list_all_iff)

lemma heartbeat_holder: "heartbeat_leases clock owner_id keys leases = Inr leases' \<Longrightarrow> holder leases' k = holder leases k"
  by (auto simp: heartbeat_leases_def split: if_splits dest!: heartbeat_each_table [where k = k])

lemma acquire_each_distinct:
  "acquire_each stale_after clock c now keys leases = Inr (held, leases') \<Longrightarrow> distinct (dkeys leases)
     \<Longrightarrow> distinct (dkeys leases')"
  by (induction keys arbitrary: leases held)
    (auto simp: bindr_Inr_iff distinct_dkeys_dset split: option.splits prod.splits)

lemma heartbeat_each_distinct:
  "heartbeat_each clock owner_id keys leases = Inr leases' \<Longrightarrow> distinct (dkeys leases) \<Longrightarrow> distinct (dkeys leases')"
  by (induction keys arbitrary: leases) (auto simp: distinct_dkeys_dset split: option.splits if_splits)

lemma distinct_dkeys_filter: "distinct (dkeys d) \<Longrightarrow> distinct (dkeys (filter P d))"
  by (induction d) auto

lemma lease_step_distinct: "lease_step a approval leases leases' \<Longrightarrow> distinct (dkeys leases) \<Longrightarrow> distinct (dkeys leases')"
  by (induction rule: lease_step.induct)
    (auto simp: acquire_Inr heartbeat_leases_def release_leases_def distinct_dkeys_filter
      split: if_splits intro: acquire_each_distinct heartbeat_each_distinct)

lemma lease_step_keeps:
  assumes "lease_step a approval leases leases'" "\<not> approval" "holder leases k = Some b" "b \<noteq> a"
  shows "holder leases' k = Some b"
  using assms
proof (induction rule: lease_step.induct)
  case (step_acquire stale_after clock c now keys leases held leases')
  have "k \<notin> set keys"
  proof
    assume "k \<in> set keys"
    from acquire_grantable [OF step_acquire(1) this] step_acquire show False
      by (auto simp: grantable_def holder_def)
  qed
  with acquire_holder [OF step_acquire(1)] step_acquire show ?case by simp
qed (auto simp: heartbeat_holder holder_release_other)

interpretation leases: lock_table "\<lambda>leases. distinct (dkeys leases)" holder lease_step
proof
  fix leases leases' a approval k b
  show "distinct (dkeys leases) \<Longrightarrow> lease_step a approval leases leases' \<Longrightarrow> distinct (dkeys leases')"
    by (rule lease_step_distinct)
  show "lease_step a False leases leases' \<Longrightarrow> holder leases k = Some b \<Longrightarrow> b \<noteq> a \<Longrightarrow> holder leases' k = Some b"
    by (rule lease_step_keeps) auto
  assume "distinct (dkeys leases)" "lease_step a approval leases leases'" "holder leases' k = Some b" "b \<noteq> a"
  then show "holder leases k = Some b"
    by (auto elim!: lease_step.cases simp: acquire_holder heartbeat_holder holder_release split: if_splits)
qed

end
