(* ===== verification/Recovery.thy ===== *)
theory Recovery
  imports Store
begin

text \<open>
  Recovery after an interruption: \<open>classify_recovery\<close> and \<open>classify_workspace_recovery\<close> of
  \<open>src/src/dispatcher/state_store.py\<close> say what to do about every unresolved dispatch and workspace group
  of a stored run, without starting or repeating any work.
\<close>

section \<open>Dispositions\<close>

datatype disposition =
    Safe_to_retry | Structured_commit_adoption_required | Operator_reconciliation_required
  | Forwarding_required | Acknowledgement_required

record recovery_item =
  ri_dispatch_id :: string
  ri_state :: dispatch_status
  ri_disposition :: disposition
  ri_detail :: string

datatype workspace_disposition = Cleanup_required | Workspace_reconciliation_required

record workspace_recovery_item =
  wi_workspace_group_id :: string
  wi_state :: workspace_group_status
  wi_disposition :: workspace_disposition
  wi_detail :: string

definition running_disposition :: "git_state option \<Rightarrow> disposition \<times> string" where
  "running_disposition commit =
     (case commit of
        Some Git_staged \<Rightarrow>
          (Structured_commit_adoption_required,
           ''durable staged intent requires exact committed HEAD adoption; ''
           @ ''any mismatch requires operator reconciliation'')
      | Some state \<Rightarrow>
          (Operator_reconciliation_required,
           if state \<in> {Git_checked, Git_commit_intent_persisted, Git_reconciliation_required} then
             ''structured Git state '' @ git_state_value state @ '' may have external side effects; ''
             @ ''exact commit adoption or operator reconciliation is required''
           else ''external side effects may have completed; automatic retry is forbidden'')
      | None \<Rightarrow>
          (Operator_reconciliation_required,
           ''external side effects may have completed; automatic retry is forbidden''))"

definition dispatch_disposition :: "store \<Rightarrow> string \<Rightarrow> dispatch_record \<Rightarrow> (disposition \<times> string) option" where
  "dispatch_disposition st run_id d =
     (case d_state d of
        Dispatch_prepared \<Rightarrow> Some (Operator_reconciliation_required,
          ''a crash may have occurred after process creation but before RUNNING was committed'')
      | Dispatch_running \<Rightarrow>
          Some (running_disposition (map_option gr_state (dget (st_git st) (run_id, d_dispatch_id d))))
      | Dispatch_completed \<Rightarrow> Some (Forwarding_required,
          ''the result is durable but supervisor forwarding is not acknowledged'')
      | Dispatch_forwarded \<Rightarrow> Some (Acknowledgement_required,
          ''the forwarding payload is durable but acknowledgement is missing'')
      | _ \<Rightarrow> None)"

definition recovery_items :: "store \<Rightarrow> string \<Rightarrow> dispatch_record \<Rightarrow> recovery_item list" where
  "recovery_items st run_id d =
     (case dispatch_disposition st run_id d of
        None \<Rightarrow> []
      | Some (disposition, detail) \<Rightarrow>
          [\<lparr>ri_dispatch_id = d_dispatch_id d, ri_state = d_state d, ri_disposition = disposition, ri_detail = detail\<rparr>])"

definition classify_recovery :: "store \<Rightarrow> string \<Rightarrow> exn + recovery_item list" where
  "classify_recovery st run_id =
     bindr (load_run st run_id) (\<lambda>(r, _).
       Inr (concat (map (recovery_items st run_id) (sort_key d_dispatch_id (map snd (r_dispatches r))))))"

definition workspace_recovery_items :: "workspace_group \<Rightarrow> workspace_recovery_item list" where
  "workspace_recovery_items g =
     (if wg_state g = Group_cleaned then []
      else if wg_state g = Group_cleanup_pending then
        [\<lparr>wi_workspace_group_id = wg_workspace_group_id g, wi_state = wg_state g, wi_disposition = Cleanup_required,
          wi_detail = ''workspace cleanup intent is durable; inspect and remove only owned temporary Git state''\<rparr>]
      else
        [\<lparr>wi_workspace_group_id = wg_workspace_group_id g, wi_state = wg_state g,
          wi_disposition = Workspace_reconciliation_required,
          wi_detail = ''temporary workspace branches may contain unintegrated work; automatic retry is forbidden''\<rparr>])"

definition classify_workspace_recovery :: "store \<Rightarrow> string \<Rightarrow> exn + workspace_recovery_item list" where
  "classify_workspace_recovery st run_id =
     bindr (load_run st run_id) (\<lambda>(r, _).
       Inr (concat (map workspace_recovery_items
         (sort_key wg_workspace_group_id (map snd (r_workspace_groups r))))))"

section \<open>What is classified\<close>

lemma recovery_items_iff:
  "i \<in> set (recovery_items st run_id d) \<longleftrightarrow>
     (\<exists>disposition detail. dispatch_disposition st run_id d = Some (disposition, detail)
       \<and> i = \<lparr>ri_dispatch_id = d_dispatch_id d, ri_state = d_state d, ri_disposition = disposition,
              ri_detail = detail\<rparr>)"
  by (auto simp: recovery_items_def split: option.splits)

lemma dispatch_disposition_None_iff:
  "dispatch_disposition st run_id d = None \<longleftrightarrow> d_state d \<notin> set ACTIVE_DISPATCH_STATES"
  by (auto simp: dispatch_disposition_def ACTIVE_DISPATCH_STATES_def split: dispatch_status.splits)

text \<open>Nothing is ever retried: the disposition says who acts, and only a staged commit may be adopted.\<close>

lemma dispatch_disposition_cases:
  assumes "dispatch_disposition st run_id d = Some (disposition, detail)"
  shows "disposition =
     (if d_state d = Dispatch_completed then Forwarding_required
      else if d_state d = Dispatch_forwarded then Acknowledgement_required
      else if d_state d = Dispatch_running
           \<and> map_option gr_state (dget (st_git st) (run_id, d_dispatch_id d)) = Some Git_staged
        then Structured_commit_adoption_required
      else Operator_reconciliation_required)"
  using assms
  by (cases "dget (st_git st) (run_id, d_dispatch_id d)")
    (auto simp: dispatch_disposition_def running_disposition_def
      split: dispatch_status.splits git_state.splits)

lemma classify_recovery_Inr:
  assumes "classify_recovery st run_id = Inr items"
  obtains r generation where "load_run st run_id = Inr (r, generation)"
    "items = concat (map (recovery_items st run_id) (sort_key d_dispatch_id (map snd (r_dispatches r))))"
  using assms by (auto simp: classify_recovery_def bindr_Inr_iff)

lemma map_ri_dispatch_id:
  "map ri_dispatch_id (concat (map (recovery_items st run_id) ds)) =
     map d_dispatch_id (filter (\<lambda>d. d_state d \<in> set ACTIVE_DISPATCH_STATES) ds)"
proof (induction ds)
  case (Cons d ds)
  then show ?case
    using dispatch_disposition_None_iff [of st run_id d]
    by (cases "dispatch_disposition st run_id d") (auto simp: recovery_items_def)
qed simp

end
