(* ===== verification/Launch_Check.thy ===== *)
theory Launch_Check
  imports Store_Life
begin

text \<open>
  The check before a worker starts: \<open>_validate_persisted_worker_prompt\<close> of
  \<open>src/src/dispatcher/execution.py\<close> compares the stored prompt of a dispatch with the digest of its
  intent. The store keeps the redacted text of a prompt, so a prompt that redaction changes never passes.

  Reading the plan sources is file access: \<open>sources\<close> is the outcome of \<open>verify_plan_sources\<close> and
  \<open>ledger\<close> says whether the prompt parses to an object with the expected source ledger.
\<close>

section \<open>The check\<close>

definition validate_persisted_worker_prompt ::
  "(normalized_plan \<Rightarrow> exn + unit) \<Rightarrow> (normalized_plan \<Rightarrow> string \<Rightarrow> bool) \<Rightarrow> string \<Rightarrow> string \<Rightarrow> string
   \<Rightarrow> store \<Rightarrow> exn + unit" where
  "validate_persisted_worker_prompt sources ledger run_id dispatch_id prompt st =
     (let unreadable = Inl (ExecutionCoordinatorError
            (''cannot load persisted worker prompt for dispatch '' @ dispatch_id))
      in case load_run st run_id of
           Inl _ \<Rightarrow> unreadable
         | Inr (r, _) \<Rightarrow>
       (case dget (r_dispatches r) dispatch_id of
           None \<Rightarrow> unreadable
         | Some d \<Rightarrow>
       (case load_dispatch_payload st run_id dispatch_id of
           Inl _ \<Rightarrow> unreadable
         | Inr stored \<Rightarrow>
       (case sources (r_plan r) of
           Inl (PlanError message) \<Rightarrow>
             Inl (ExecutionCoordinatorError (''immutable plan source verification failed: '' @ message))
         | Inl e \<Rightarrow> Inl e
         | Inr _ \<Rightarrow>
             if sha256_text (pl_prompt stored) \<noteq> di_prompt_sha256 (d_intent d) then
               Inl (ExecutionCoordinatorError
                 ''persisted worker prompt does not match its immutable dispatch intent'')
             else if \<not> ledger (r_plan r) (pl_prompt stored) then
               Inl (ExecutionCoordinatorError
                 ''persisted worker prompt lacks a valid authoritative-source ledger'')
             else if pl_prompt stored \<noteq> prompt then
               Inl (ExecutionCoordinatorError
                 ''persisted worker prompt does not match the launchable worker context'')
             else Inr ()))))"

section \<open>What a prepared dispatch passes\<close>

text \<open>The rows a preparation leaves.\<close>

lemma save_run_one_payload:
  assumes "save_run r g x now st = Inr (g', st')" "se_payloads x = [(i, p)]" "se_git_updates x = []"
  shows "dget (st_payloads st') (r_run_id r, i) = Some (stored_payload p)"
    and "stored_run st' (r_run_id r) = Some r"
proof -
  from assms(1) show "dget (st_payloads st') (r_run_id r, i) = Some (stored_payload p)"
  proof (rule save_run_Inr, goal_cases)
    case (1 row sessions st1 st2)
    then have "write_dispatch_payload (r_run_id r) st1 (i, p) = Inr st'"
      using assms(2,3) by (simp add: bindr_Inr_iff)
    then show ?case by (auto simp: write_dispatch_payload_def Let_def split: option.splits)
  qed
  show "stored_run st' (r_run_id r) = Some r"
    using save_run_frame(3) [OF assms(1)] by (simp add: stored_run_def)
qed

lemma prepare_dispatch_Inr:
  assumes "prepare_dispatch r g d prompt policy snapshot metadata sessions now st = Inr (g', st')"
  shows "d_state d = Dispatch_prepared" and "di_prompt_sha256 (d_intent d) = sha256_text prompt"
    and "di_policy_digest (d_intent d) = object_digest policy"
    and "dget (r_dispatches r) (d_dispatch_id d) = Some d"
    and "stored_run st' (r_run_id r) = Some r"
    and "load_dispatch_payload st' (r_run_id r) (d_dispatch_id d) = Inr (stored_payload
           ((new_payload prompt policy)\<lparr>pl_repository_before := Some snapshot, pl_session_metadata := metadata\<rparr>))"
proof -
  let ?p = "(new_payload prompt policy)\<lparr>pl_repository_before := Some snapshot, pl_session_metadata := metadata\<rparr>"
  let ?x = "\<lparr>se_sessions = sessions, se_payloads = [(d_dispatch_id d, ?p)], se_git_updates = []\<rparr>"
  have parts: "d_state d = Dispatch_prepared" "sha256_text prompt = di_prompt_sha256 (d_intent d)"
      "object_digest policy = di_policy_digest (d_intent d)" "dget (r_dispatches r) (d_dispatch_id d) = Some d"
      "save_run r g ?x now st = Inr (g', st')"
    using assms unfolding prepare_dispatch_def ok_dests by blast+
  then show "d_state d = Dispatch_prepared" "di_prompt_sha256 (d_intent d) = sha256_text prompt"
    "di_policy_digest (d_intent d) = object_digest policy" "dget (r_dispatches r) (d_dispatch_id d) = Some d"
    by simp_all
  note saved = save_run_one_payload [OF parts(5), of "d_dispatch_id d" ?p]
  show "stored_run st' (r_run_id r) = Some r" using saved(2) by simp
  show "load_dispatch_payload st' (r_run_id r) (d_dispatch_id d) = Inr (stored_payload ?p)"
    using saved(1) by (simp add: load_dispatch_payload_def)
qed

text \<open>A prompt with something to redact is prepared and can never be launched.\<close>

lemma redacted_prompt_refused:
  assumes "prepare_dispatch r g d prompt policy snapshot metadata sessions now st = Inr (g', st')"
    and "redact_text prompt \<noteq> prompt" and "\<not> sha_collision prompt (redact_text prompt)"
  shows "validate_persisted_worker_prompt sources ledger (r_run_id r) (d_dispatch_id d) launched st' \<noteq> Inr ()"
proof
  assume ok: "validate_persisted_worker_prompt sources ledger (r_run_id r) (d_dispatch_id d) launched st' = Inr ()"
  note prepared = prepare_dispatch_Inr [OF assms(1)]
  obtain loaded where "load_run st' (r_run_id r) = Inr loaded"
    using ok by (cases "load_run st' (r_run_id r)") (auto simp: validate_persisted_worker_prompt_def Let_def)
  moreover obtain r' g' where "loaded = (r', g')" by fastforce
  ultimately have loaded: "load_run st' (r_run_id r) = Inr (r, g')" using prepared(5) by (auto simp: load_run_Inr)
  have "sha256_text (redact_text prompt) = sha256_text prompt"
    using ok by (simp add: validate_persisted_worker_prompt_def Let_def loaded prepared stored_payload_def new_payload_def
      split: sum.splits exn.splits if_splits)
  with assms(2,3) show False by (simp add: sha_collision_def)
qed

text \<open>A prompt that redaction leaves alone passes the digest check.\<close>

lemma plain_prompt_accepted:
  assumes "prepare_dispatch r g d prompt policy snapshot metadata sessions now st = Inr (g', st')"
    and "redact_text prompt = prompt" "run_record_errors r = []" "sources (r_plan r) = Inr ()" "ledger (r_plan r) prompt"
  shows "validate_persisted_worker_prompt sources ledger (r_run_id r) (d_dispatch_id d) prompt st' = Inr ()"
proof -
  note prepared = prepare_dispatch_Inr [OF assms(1)]
  from prepared(5) obtain row where row: "dget (st_runs st') (r_run_id r) = Some row" "rr_record row = r"
    by (auto simp: stored_run_def)
  then have "load_run st' (r_run_id r) = Inr (r, rr_generation row)" using assms(3) by (simp add: load_run_def)
  with prepared assms(2,4,5) show ?thesis
    by (simp add: validate_persisted_worker_prompt_def stored_payload_def new_payload_def)
qed

end
