(* ===== verification/Sample_Store.thy ===== *)
theory Sample_Store
  imports Sample_Project Store_Journals Leases Recovery Launch_Check
begin

text \<open>
  Sample stores for the witnesses: a run is created, then saved with a dispatch. Digests stay symbolic, so
  the stores are given by the rows the witnesses read.
\<close>

section \<open>Snapshots that succeed\<close>

lemma snapshot_frames:
  "st_dispatches (fold (write_step_row run_id g) ss (write_plan_row r g st)) = st_dispatches st"
  "used_idempotency_keys (fold (write_step_row run_id g) ss (write_plan_row r g st)) run_id' = used_idempotency_keys st run_id'"
  "st_dispatches (fold (write_group_row run_id g) gs st) = st_dispatches st"
  "used_idempotency_keys (st\<lparr>st_runs := rows\<rparr>) run_id' = used_idempotency_keys st run_id'"
  using fold_group_rows [of run_id g gs st]
  by (auto simp: fold_step_rows write_plan_row_def used_idempotency_keys_def)

lemma write_snapshot_no_dispatch:
  assumes "1 \<le> g" "is_active r \<longrightarrow> set (active_runs st (r_project_id r)) \<subseteq> {r_run_id r}" "r_dispatches r = []"
  shows "\<exists>st'. write_snapshot r g sessions st = Inr st' \<and> st_dispatches st' = st_dispatches st"
  using assms by (auto simp: write_snapshot_def write_run_row_def Let_def write_sessions_def snapshot_frames)

lemma write_snapshot_one_dispatch:
  assumes "1 \<le> g" "is_active r \<longrightarrow> set (active_runs st (r_project_id r)) \<subseteq> {r_run_id r}" "r_dispatches r = [(i, d)]"
    "dget (st_dispatches st) (r_run_id r, d_dispatch_id d) \<noteq> None
     \<or> di_idempotency_key (d_intent d) \<notin> set (used_idempotency_keys st (r_run_id r))"
  shows "\<exists>st'. write_snapshot r g sessions st = Inr st'
    \<and> dget (st_dispatches st') (r_run_id r, d_dispatch_id d) \<noteq> None"
  using assms
  by (auto simp: write_snapshot_def write_run_row_def Let_def write_dispatch_row_def snapshot_frames
      write_sessions_def split: option.splits)

section \<open>A run with a dispatch\<close>

definition sample_intent :: "string \<Rightarrow> json_object \<Rightarrow> dispatch_intent" where
  "sample_intent prompt policy =
     \<lparr>di_prompt_sha256 = sha256_text prompt, di_policy_digest = object_digest policy,
      di_expected_result_kind = Worker_executor,
      di_repository = \<lparr>rc_repo_id = ''app'', rc_base_revision = ''abc'', rc_base_branch = None,
        rc_working_branch = None, rc_worktree_id = None, rc_remote_name = None, rc_remote_url = None\<rparr>,
      di_idempotency_key = ''key-1''\<rparr>"

text \<open>A prepared review.\<close>

definition sample_dispatch :: dispatch_record where
  "sample_dispatch =
     \<lparr>d_dispatch_id = ''dispatch-0'', d_batch_id = None, d_workspace_group_id = None, d_process_id = None,
      d_process_host = None, d_process_started_at = None, d_process_create_time = None, d_cancel_requested = False,
      d_cancel_requested_at = None, d_failure_category = None, d_failure_detail = None, d_step_id = ''a'',
      d_role_key = ''r1'', d_role_kind = Worker_reviewer, d_attempt = 1, d_logical_session_key = ''reviewer-r1-a'',
      d_runtime_session_id = None, d_state = Dispatch_prepared,
      d_intent = \<lparr>di_prompt_sha256 = replicate 64 (CHR ''a''), di_policy_digest = replicate 64 (CHR ''a''),
        di_expected_result_kind = Worker_reviewer, di_repository =
          \<lparr>rc_repo_id = ''app'', rc_base_revision = replicate 40 (CHR ''b''), rc_base_branch = None,
           rc_working_branch = None, rc_worktree_id = None, rc_remote_name = None, rc_remote_url = None\<rparr>,
        di_idempotency_key = ''key''\<rparr>,
      d_result_digest = None, d_forwarding_digest = None, d_last_event = sample_event\<rparr>"

definition sample_attempt :: "string \<Rightarrow> json_object \<Rightarrow> dispatch_status \<Rightarrow> dispatch_record" where
  "sample_attempt prompt policy state =
     \<lparr>d_dispatch_id = ''d-1'', d_batch_id = None, d_workspace_group_id = None, d_process_id = None,
      d_process_host = None, d_process_started_at = None, d_process_create_time = None, d_cancel_requested = False,
      d_cancel_requested_at = None, d_failure_category = None, d_failure_detail = None, d_step_id = ''a'',
      d_role_key = ''e1'', d_role_kind = Worker_executor, d_attempt = 1, d_logical_session_key = ''executor-e1-a'',
      d_runtime_session_id = None, d_state = state, d_intent = sample_intent prompt policy, d_result_digest = None,
      d_forwarding_digest = None, d_last_event = sample_event\<rparr>"

definition running_run :: "(string, dispatch_record) dict \<Rightarrow> run_record" where
  "running_run ds = signed (sample_run\<lparr>r_state := Run_running, r_dispatches := ds\<rparr>)"

lemma running_run_simps [simp]:
  "r_run_id (running_run ds) = ''run-1''" "r_project_id (running_run ds) = ''p''"
  "r_state (running_run ds) = Run_running" "r_dispatches (running_run ds) = ds"
  "r_usage (running_run ds) = empty_ledger" "is_active (running_run ds)" "r_workspace_groups (running_run ds) = []"
  by (simp_all add: running_run_def signed_def sample_run_def is_active_def TERMINAL_RUN_STATES_def)

lemma dispatch_record_digests:
  assumes "sha256_ok p" "sha256_ok q" "sha256_ok (di_prompt_sha256 (d_intent d))" "sha256_ok (di_policy_digest (d_intent d))"
  shows "dispatch_record_errors d = [] \<longleftrightarrow>
     dispatch_record_errors (d\<lparr>d_intent := (d_intent d)\<lparr>di_prompt_sha256 := p, di_policy_digest := q\<rparr>\<rparr>) = []"
proof -
  have "dispatch_intent_errors (d_intent d) = [] \<longleftrightarrow>
      dispatch_intent_errors ((d_intent d)\<lparr>di_prompt_sha256 := p, di_policy_digest := q\<rparr>) = []"
    unfolding dispatch_intent_errors_def append_is_Nil_conv field_errors_Nil_iff using assms by simp
  moreover have "validate_state_data (d\<lparr>d_intent := i\<rparr>) = validate_state_data d" for i
    by (simp add: validate_state_data_def)
  ultimately show ?thesis
    unfolding dispatch_record_errors_def then_rules_Nil_iff append_is_Nil_conv field_errors_Nil_iff by simp
qed

definition plain_dispatch :: dispatch_record where
  "plain_dispatch = (sample_attempt [] [] Dispatch_prepared)\<lparr>d_intent :=
     (sample_intent [] [])\<lparr>di_prompt_sha256 := replicate 64 (CHR ''a''), di_policy_digest := replicate 64 (CHR ''a'')\<rparr>\<rparr>"

lemma plain_dispatch_fields:
  "plain_dispatch =
     \<lparr>d_dispatch_id = ''d-1'', d_batch_id = None, d_workspace_group_id = None, d_process_id = None,
      d_process_host = None, d_process_started_at = None, d_process_create_time = None, d_cancel_requested = False,
      d_cancel_requested_at = None, d_failure_category = None, d_failure_detail = None, d_step_id = ''a'',
      d_role_key = ''e1'', d_role_kind = Worker_executor, d_attempt = 1, d_logical_session_key = ''executor-e1-a'',
      d_runtime_session_id = None, d_state = Dispatch_prepared,
      d_intent = \<lparr>di_prompt_sha256 = replicate 64 (CHR ''a''), di_policy_digest = replicate 64 (CHR ''a''),
        di_expected_result_kind = Worker_executor,
        di_repository = \<lparr>rc_repo_id = ''app'', rc_base_revision = ''abc'', rc_base_branch = None,
          rc_working_branch = None, rc_worktree_id = None, rc_remote_name = None, rc_remote_url = None\<rparr>,
        di_idempotency_key = ''key-1''\<rparr>,
      d_result_digest = None, d_forwarding_digest = None, d_last_event = sample_event\<rparr>"
  by (simp add: plain_dispatch_def sample_attempt_def sample_intent_def)

lemma sample_attempt_valid: "dispatch_record_errors (sample_attempt prompt policy Dispatch_prepared) = []"
proof -
  let ?d = "sample_attempt prompt policy Dispatch_prepared"
  have a: "sha256_ok (replicate 64 (CHR ''a''))" by code_simp
  have "sha256_ok (di_prompt_sha256 (d_intent ?d))" "sha256_ok (di_policy_digest (d_intent ?d))"
    by (simp_all add: sample_attempt_def sample_intent_def sha256_text_ok object_digest_def digest_json_ok)
  note digests = dispatch_record_digests [OF a a this]
  have same: "?d\<lparr>d_intent := (d_intent ?d)\<lparr>di_prompt_sha256 := replicate 64 (CHR ''a''),
      di_policy_digest := replicate 64 (CHR ''a'')\<rparr>\<rparr> = plain_dispatch"
    by (simp add: plain_dispatch_def sample_attempt_def sample_intent_def)
  show ?thesis unfolding digests same plain_dispatch_fields by code_simp
qed

lemma unsigned_errors_dispatches:
  assumes "r_batches r = []"
  shows "unsigned_errors (r\<lparr>r_dispatches := ds\<rparr>) = [] \<longleftrightarrow>
     dict_errors dispatch_record_errors ds = [] \<and> unsigned_errors (r\<lparr>r_dispatches := []\<rparr>) = []"
proof -
  have "run_policy_reference_errors (r\<lparr>r_dispatches := es\<rparr>) = run_policy_reference_errors r"
    "run_group_reference_errors (r\<lparr>r_dispatches := es\<rparr>) = run_group_reference_errors r"
    "run_operator_errors (r\<lparr>r_dispatches := es\<rparr>) = run_operator_errors r"
    "run_batch_reference_errors (r\<lparr>r_dispatches := es\<rparr>) = []" for es
    unfolding run_policy_reference_errors_def run_group_reference_errors_def run_operator_errors_def
      run_batch_reference_errors_def
    using assms by (cases "r_policy r"; simp)+
  then show ?thesis
    unfolding unsigned_errors_def append_is_Nil_conv by (auto simp del: field_errors_Nil_iff first_rule_Nil_iff)
qed

lemma running_run_valid:
  "run_record_errors (running_run []) = []"
  "run_record_errors (running_run [(''d-1'', sample_attempt prompt policy Dispatch_prepared)]) = []"
proof -
  let ?r = "sample_run\<lparr>r_state := Run_running\<rparr>"
  have "?r\<lparr>r_dispatches := []\<rparr> = sample_run" by (simp add: sample_run_def)
  then have plain: "unsigned_errors (?r\<lparr>r_dispatches := []\<rparr>) = []" by (simp only: sample_run_unsigned)
  then show "run_record_errors (running_run []) = []" unfolding running_run_def signed_errors by simp
  have facts: "r_batches ?r = []" "identifier_ok ''d-1''" by code_simp+
  have "unsigned_errors (?r\<lparr>r_dispatches := [(''d-1'', sample_attempt prompt policy Dispatch_prepared)]\<rparr>) = []"
    by (rule unsigned_errors_dispatches [OF facts(1), THEN iffD2]) (use plain sample_attempt_valid facts(2) in simp)
  then show "run_record_errors (running_run [(''d-1'', sample_attempt prompt policy Dispatch_prepared)]) = []"
    unfolding running_run_def signed_errors by simp
qed

section \<open>The sample stores\<close>

lemma sample_created: "\<exists>st. create_run (running_run []) [] empty_store = Inr (1, st) \<and> st_dispatches st = []
    \<and> st_git st = [] \<and> st_invocations st = [] \<and> st_runs st = [(''run-1'', \<lparr>rr_record = running_run [], rr_generation = 1\<rparr>)]"
proof -
  obtain st where st: "write_snapshot (running_run []) 1 [] empty_store = Inr st" "st_dispatches st = st_dispatches empty_store"
    using write_snapshot_no_dispatch [of 1 "running_run []" empty_store "[]"] by (auto simp: active_runs_def empty_store_def)
  then have "create_run (running_run []) [] empty_store = Inr (1, st)"
    by (simp add: create_run_def active_runs_def empty_store_def)
  with st write_snapshot_frame [OF st(1)] show ?thesis by (simp add: empty_store_def)
qed

definition sample_snapshot :: json_object where
  "sample_snapshot = [(''repo_id'', JStr ''app'')]"

definition prepared_run :: "string \<Rightarrow> run_record" where
  "prepared_run prompt = running_run [(''d-1'', sample_attempt prompt [] Dispatch_prepared)]"

text \<open>A run created and then saved with a prepared dispatch.\<close>

lemma sample_prepared:
  "\<exists>st x st'. create_run (running_run []) [] empty_store = Inr (1, st)
     \<and> save_run (prepared_run prompt) 1 x 7 st = Inr (2, st')
     \<and> prepare_dispatch (prepared_run prompt) 1 (sample_attempt prompt [] Dispatch_prepared) prompt []
         sample_snapshot None None 7 st = Inr (2, st')
     \<and> dget (st_dispatches st') (''run-1'', ''d-1'') \<noteq> None \<and> st_git st' = []"
proof -
  let ?d = "sample_attempt prompt [] Dispatch_prepared"
  let ?r = "prepared_run prompt"
  obtain st where st: "create_run (running_run []) [] empty_store = Inr (1, st)" "st_dispatches st = []"
    "st_git st = []" "st_runs st = [(''run-1'', \<lparr>rr_record = running_run [], rr_generation = 1\<rparr>)]"
    using sample_created by blast
  have d: "d_dispatch_id ?d = ''d-1''" "d_state ?d = Dispatch_prepared"
    "di_prompt_sha256 (d_intent ?d) = sha256_text prompt" "di_policy_digest (d_intent ?d) = object_digest []"
    "rc_repo_id (di_repository (d_intent ?d)) = ''app''"
    by (simp_all add: sample_attempt_def sample_intent_def)
  obtain st1 where st1: "write_snapshot ?r 2 (sessions_for_run st ''run-1'') st = Inr st1"
    "dget (st_dispatches st1) (''run-1'', ''d-1'') \<noteq> None"
    using write_snapshot_one_dispatch [of 2 ?r st "''d-1''" ?d "sessions_for_run st ''run-1''"] st(2,4)
    by (auto simp: prepared_run_def active_runs_def used_idempotency_keys_def d)
  let ?p = "(new_payload prompt [])\<lparr>pl_repository_before := Some sample_snapshot, pl_session_metadata := None\<rparr>"
  obtain st2 where st2: "write_dispatch_payload ''run-1'' st1 (''d-1'', ?p) = Inr st2" "st_dispatches st2 = st_dispatches st1"
    using st1(2) by (auto simp: write_dispatch_payload_def)
  then have saved: "save_run ?r 1 \<lparr>se_sessions = None, se_payloads = [(''d-1'', ?p)], se_git_updates = []\<rparr> 7 st = Inr (2, st2)"
    using st(4) st1 by (simp add: save_run_def prepared_run_def)
  then have prepared: "prepare_dispatch ?r 1 ?d prompt [] sample_snapshot None None 7 st = Inr (2, st2)"
    by (simp add: prepare_dispatch_def d prepared_run_def snapshot_of_other_repo_def sample_snapshot_def)
  have "dget (st_dispatches st2) (''run-1'', ''d-1'') \<noteq> None" using st1(2) \<open>st_dispatches st2 = st_dispatches st1\<close> by simp
  moreover have "st_git st2 = []" using payload_git [OF st2(1)] write_snapshot_frame [OF st1(1)] st(3) by simp
  ultimately show ?thesis using st(1) saved prepared by blast
qed

lemma sample_created_loads:
  assumes "create_run (running_run []) [] empty_store = Inr (1, st)"
  shows "load_run st ''run-1'' = Inr (running_run [], 1)" and "store_steps empty_store st"
proof -
  from sample_created assms have "st_runs st = [(''run-1'', \<lparr>rr_record = running_run [], rr_generation = 1\<rparr>)]" by auto
  then show "load_run st ''run-1'' = Inr (running_run [], 1)" by (simp add: load_run_def running_run_valid)
  show "store_steps empty_store st" using step_create_run [OF assms] by blast
qed

lemma sample_reached:
  "\<exists>st. store_steps empty_store st \<and> dget (st_dispatches st) (''run-1'', ''d-1'') \<noteq> None"
proof -
  from sample_prepared obtain st x st' where st: "create_run (running_run []) [] empty_store = Inr (1, st)"
    "save_run (prepared_run []) 1 x 7 st = Inr (2, st')" "dget (st_dispatches st') (''run-1'', ''d-1'') \<noteq> None" by blast
  from sample_created_loads(2) [OF st(1)] step_save_run [OF st(2)] have "store_steps empty_store st'" by simp
  with st(3) show ?thesis by blast
qed

lemma sample_saved:
  "\<exists>st x st'. store_steps empty_store st \<and> load_run st ''run-1'' = Inr (running_run [], 1)
     \<and> save_run (prepared_run prompt) 1 x 7 st = Inr (2, st')"
  using sample_prepared [of prompt] sample_created_loads by blast

text \<open>A proposal of the prepared dispatch that is then left to the operator.\<close>

lemma sample_proposal:
  "\<exists>st st' st'' row row' drow. store_steps empty_store st
     \<and> record_executor_proposal ''run-1'' ''d-1'' [] 8 st = Inr (row, st')
     \<and> mark_structured_git_reconciliation ''run-1'' ''d-1'' ''lost'' 9 st' = Inr (row', st'')
     \<and> dget (st_dispatches st) (''run-1'', ''d-1'') = Some drow
     \<and> dget (st_git st) (''run-1'', ''d-1'') = None
     \<and> dget (st_git st') (''run-1'', ''d-1'') = Some row \<and> gr_state row = Git_proposal_received
     \<and> dget (st_git st'') (''run-1'', ''d-1'') = Some row' \<and> gr_state row' = Git_reconciliation_required"
proof -
  from sample_prepared obtain st0 x st drow where st: "create_run (running_run []) [] empty_store = Inr (1, st0)"
    "save_run (prepared_run []) 1 x 7 st0 = Inr (2, st)" "dget (st_dispatches st) (''run-1'', ''d-1'') = Some drow"
    "st_git st = []" by blast
  have reached: "store_steps empty_store st" using sample_created_loads(2) [OF st(1)] step_save_run [OF st(2)] by simp
  let ?row = "new_git_row [] 8"
  let ?key = "(''run-1'', ''d-1'')"
  let ?next = "st\<lparr>st_git := [(?key, ?row)]\<rparr>"
  have "record_executor_proposal ''run-1'' ''d-1'' [] 8 st = Inr (?row, ?next)"
    using st(3,4)
    by (auto simp: record_executor_proposal_def loaded_git_def load_structured_git_record_def new_git_row_def Let_def)
  moreover obtain row st'' where
    "mark_structured_git_reconciliation ''run-1'' ''d-1'' ''lost'' 9 ?next = Inr (row, st'')"
    "dget (st_git st'') ?key = Some row" "gr_state row = Git_reconciliation_required"
    by (simp add: mark_structured_git_reconciliation_def transition_structured_git_record_def loaded_git_def
      load_structured_git_record_def new_git_row_def Let_def)
  moreover have "gr_state ?row = Git_proposal_received" "dget (st_git ?next) ?key = Some ?row"
    by (simp_all add: new_git_row_def)
  moreover have "dget (st_git st) ?key = None" using st(4) by simp
  ultimately show ?thesis using reached st(3) by blast
qed

text \<open>The prepared dispatch after a restart.\<close>

lemma sample_recovery:
  "\<exists>st items. classify_recovery st ''run-1'' = Inr items \<and> map ri_state items = [Dispatch_prepared]"
proof -
  from sample_prepared obtain st0 x st where "save_run (prepared_run []) 1 x 7 st0 = Inr (2, st)" by blast
  from save_run_frame(3) [OF this] have "load_run st ''run-1'' = Inr (prepared_run [], 2)"
    by (simp add: load_run_def prepared_run_def running_run_valid)
  then have "\<exists>items. classify_recovery st ''run-1'' = Inr items \<and> map ri_state items = [Dispatch_prepared]"
    by (simp add: classify_recovery_def prepared_run_def recovery_items_def dispatch_disposition_def sample_attempt_def)
  then show ?thesis by - (rule exI)
qed

text \<open>Two owners and a lease of the first.\<close>

definition sample_claimant :: "string \<Rightarrow> claimant" where
  "sample_claimant owner = \<lparr>cl_owner_id = owner, cl_owner_pid = 7, cl_owner_host = ''host'', cl_run_id = ''run-1'',
     cl_recovery_approved_by = None\<rparr>"

definition sample_leases :: lease_table where
  "sample_leases = [(''run:app'', new_lease (sample_claimant ''a'') 1)]"

text \<open>A supervisor invocation of the created run that finishes with its usage.\<close>

definition sample_identity :: invocation_identity where
  "sample_identity =
     \<lparr>ii_run_id = ''run-1'', ii_dispatch_id = None, ii_role_kind = ''supervisor'', ii_role_key = ''lead'',
      ii_step_id = None, ii_session_mode = ''new'', ii_requested_session_id = None\<rparr>"

definition sample_outcome :: invocation_outcome where
  "sample_outcome = \<lparr>io_runtime_session_id = None, io_usage = Some \<lparr>ua_cost_usd = 1 / 4, ua_tokens_total = 5,
     ua_tokens_input = 3, ua_tokens_output = 2, ua_tokens_reasoning = 0\<rparr>, io_failure_category = None\<rparr>"

lemma sample_finished:
  "\<exists>st r st'. store_steps empty_store st
     \<and> dget (st_invocations st) ''i-1'' = Some (prepared_row sample_identity 8)
     \<and> finish_opencode_invocation ''i-1'' sample_outcome 9 st = Inr ((r, 2), st')"
proof -
  obtain st where st: "create_run (running_run []) [] empty_store = Inr (1, st)" "st_dispatches st = []"
    "st_invocations st = []" "st_runs st = [(''run-1'', \<lparr>rr_record = running_run [], rr_generation = 1\<rparr>)]"
    using sample_created by blast
  let ?st = "st\<lparr>st_invocations := [(''i-1'', prepared_row sample_identity 8)]\<rparr>"
  have begun: "begin_opencode_invocation ''i-1'' sample_identity 8 st = Inr ?st"
    using st(3,4) by (simp add: begin_opencode_invocation_def invocation_constraint_def sample_identity_def)
  with sample_created_loads(2) [OF st(1)] have reached: "store_steps empty_store ?st" by (auto dest: step_begin)
  let ?r = "charged_record (running_run []) ''i-1'' (prepared_row sample_identity 8) sample_outcome"
  obtain st' where "write_snapshot ?r 2 (sessions_for_run ?st ''run-1'') ?st = Inr st'"
    using write_snapshot_no_dispatch [of 2 ?r ?st "sessions_for_run ?st ''run-1''"] st(4)
    by (auto simp: active_runs_def charged_record_def sample_outcome_def)
  moreover have "iv_lifecycle (prepared_row sample_identity 8) = Invocation_prepared"
    "iv_run_id (prepared_row sample_identity 8) = ''run-1''"
    by code_simp+
  moreover have "case io_usage sample_outcome of None \<Rightarrow> False | Some u \<Rightarrow> usage_amount_errors u = []" by code_simp
  then obtain u where "io_usage sample_outcome = Some u" "checked usage_amount_errors u = Inr u"
    by (auto split: option.splits)
  moreover have "validated_run ?st ''run-1'' = Inr (running_run [], 1)" "r_run_id (running_run []) = ''run-1''"
    using st(4) by (simp_all add: validated_run_def checked_def running_run_valid)
  ultimately have "\<exists>st'. finish_opencode_invocation ''i-1'' sample_outcome 9 ?st = Inr ((?r, 2), st')"
    by (simp add: finish_opencode_invocation_def Let_def del: checked_Inr_iff)
  with reached show ?thesis by auto
qed

end
