(* ===== verification/Result_Json.thy ===== *)
theory Result_Json
  imports Result_Checks
begin

text \<open>
  Worker results as JSON values (\<open>src/src/dispatcher/results.py\<close>): \<open>model_dump(mode="json")\<close> and the strict,
  closed parsing of the discriminated unions. Of several structural errors the first is reported, by the
  outermost field it is in. A result that is dumped and parsed is the result.
\<close>

section \<open>Decoders\<close>

type_synonym 'a decoder = "json \<Rightarrow> verror list + 'a"

fun as_text :: "string decoder" where
  "as_text (JStr s) = Inr s"
| "as_text _ = Inl [Field ''string'']"

fun as_int :: "int decoder" where
  "as_int (JInt i) = Inr i"
| "as_int _ = Inl [Field ''integer'']"

fun as_list :: "'a decoder \<Rightarrow> 'a list decoder" where
  "as_list dec (JArr vs) = map_result dec vs"
| "as_list dec _ = Inl [Field ''array'']"

fun nullable :: "'a decoder \<Rightarrow> 'a option decoder" where
  "nullable dec JNull = Inr None"
| "nullable dec v = bindr (dec v) (\<lambda>x. Inr (Some x))"

text \<open>A value of a \<open>Literal\<close> type: the text of one of the values.\<close>

definition one_of :: "(string \<times> 'a) list \<Rightarrow> 'a decoder" where
  "one_of options v =
     bindr (as_text v) (\<lambda>s. case dget options s of None \<Rightarrow> Inl [Field ''literal''] | Some x \<Rightarrow> Inr x)"

definition literal_text :: "string \<Rightarrow> unit decoder" where
  "literal_text s v = (if v = JStr s then Inr () else Inl [Field ''literal''])"

definition literal_int :: "int \<Rightarrow> unit decoder" where
  "literal_int i v = (if v = JInt i then Inr () else Inl [Field ''literal''])"

definition closed_object :: "string list \<Rightarrow> json \<Rightarrow> verror list + (string \<times> json) list" where
  "closed_object names v = (case v of
       JObj m \<Rightarrow>
         (case filter (\<lambda>k. k \<notin> set names) (dkeys m) of [] \<Rightarrow> Inr m | k # _ \<Rightarrow> Inl [Field k])
     | _ \<Rightarrow> Inl [Field ''object''])"

definition member :: "string \<Rightarrow> 'a decoder \<Rightarrow> (string \<times> json) list \<Rightarrow> verror list + 'a" where
  "member name dec m = (case dget m name of
       None \<Rightarrow> Inl [Field name]
     | Some v \<Rightarrow> (case dec v of Inl _ \<Rightarrow> Inl [Field name] | Inr x \<Rightarrow> Inr x))"

definition member_or_none :: "string \<Rightarrow> 'a decoder \<Rightarrow> (string \<times> json) list \<Rightarrow> verror list + 'a option" where
  "member_or_none name dec m = (if dget m name = None then Inr None else member name (nullable dec) m)"

section \<open>Shared values\<close>

fun evidence_media_options :: "unit \<Rightarrow> (string \<times> evidence_media) list" where
  "evidence_media_options () = map (\<lambda>x. (evidence_media_text x, x)) [Evidence_markdown, Evidence_json, Evidence_plain]"

definition json_artifact :: "artifact_record \<Rightarrow> json" where
  "json_artifact a = JObj
     [(''artifact_id'', JStr (ar_artifact_id a)), (''relative_path'', JStr (ar_relative_path a)),
      (''sha256'', JStr (ar_sha256 a)), (''media_type'', JStr (evidence_media_text (ar_media_type a))),
      (''size_bytes'', JInt (ar_size_bytes a))]"

definition decode_artifact :: "artifact_record decoder" where
  "decode_artifact v =
     bindr (closed_object [''artifact_id'', ''relative_path'', ''sha256'', ''media_type'', ''size_bytes''] v) (\<lambda>m.
     bindr (member ''artifact_id'' as_text m) (\<lambda>artifact_id.
     bindr (member ''relative_path'' as_text m) (\<lambda>relative_path.
     bindr (member ''sha256'' as_text m) (\<lambda>sha256.
     bindr (member ''media_type'' (one_of (evidence_media_options ())) m) (\<lambda>media_type.
     bindr (member ''size_bytes'' as_int m) (\<lambda>size_bytes.
       Inr \<lparr>ar_artifact_id = artifact_id, ar_relative_path = relative_path, ar_sha256 = sha256,
            ar_media_type = media_type, ar_size_bytes = size_bytes\<rparr>))))))"

fun check_status_options :: "unit \<Rightarrow> (string \<times> check_status) list" where
  "check_status_options () = map (\<lambda>x. (check_status_text x, x)) [Check_passed, Check_failed, Check_skipped]"

definition json_verification_result :: "verification_result \<Rightarrow> json" where
  "json_verification_result v = JObj
     [(''check_id'', JStr (vr_check_id v)), (''status'', JStr (check_status_text (vr_status v))),
      (''summary'', JStr (vr_summary v))]"

definition decode_verification_result :: "verification_result decoder" where
  "decode_verification_result v =
     bindr (closed_object [''check_id'', ''status'', ''summary''] v) (\<lambda>m.
     bindr (member ''check_id'' as_text m) (\<lambda>check_id.
     bindr (member ''status'' (one_of (check_status_options ())) m) (\<lambda>status.
     bindr (member ''summary'' as_text m) (\<lambda>summary.
       Inr \<lparr>vr_check_id = check_id, vr_status = status, vr_summary = summary\<rparr>))))"

text \<open>The tag of a union and the fields its variants add.\<close>

fun outcome_members :: "executor_outcome \<Rightarrow> (string \<times> json) list" where
  "outcome_members Outcome_completed = [(''outcome'', JStr ''completed'')]"
| "outcome_members (Outcome_blocked blockers) =
     [(''outcome'', JStr ''blocked''), (''blockers'', json_strings blockers)]"
| "outcome_members (Outcome_failed code) = [(''outcome'', JStr ''failed''), (''failure_code'', JStr code)]"

text \<open>
  The fields of the variant the tag selects besides the common ones, and the variant. A value that is no
  object or has no known tag is no result.
\<close>

definition decode_outcome ::
  "json \<Rightarrow> verror list + string list \<times> ((string \<times> json) list \<Rightarrow> verror list + executor_outcome)" where
  "decode_outcome v = (case v of
       JObj m \<Rightarrow> bindr (member ''outcome'' as_text m) (\<lambda>tag.
         if tag = ''completed'' then Inr ([''outcome''], \<lambda>m. Inr Outcome_completed)
         else if tag = ''blocked'' then Inr ([''outcome'', ''blockers''], \<lambda>m.
           bindr (member ''blockers'' (as_list as_text) m) (\<lambda>blockers. Inr (Outcome_blocked blockers)))
         else if tag = ''failed'' then Inr ([''outcome'', ''failure_code''], \<lambda>m.
           bindr (member ''failure_code'' as_text m) (\<lambda>code. Inr (Outcome_failed code)))
         else Inl [Field ''outcome''])
     | _ \<Rightarrow> Inl [Field ''object''])"

section \<open>Executor results\<close>

definition json_result_coordinate :: "result_coordinate \<Rightarrow> json" where
  "json_result_coordinate c = JObj
     [(''repo_id'', JStr (rcd_repo_id c)), (''base_revision'', JStr (rcd_base_revision c)),
      (''result_revision'', json_optional JStr (rcd_result_revision c)),
      (''patch_sha256'', json_optional JStr (rcd_patch_sha256 c))]"

definition decode_result_coordinate :: "result_coordinate decoder" where
  "decode_result_coordinate v =
     bindr (closed_object [''repo_id'', ''base_revision'', ''result_revision'', ''patch_sha256''] v) (\<lambda>m.
     bindr (member ''repo_id'' as_text m) (\<lambda>repo_id.
     bindr (member ''base_revision'' as_text m) (\<lambda>base_revision.
     bindr (member ''result_revision'' (nullable as_text) m) (\<lambda>result_revision.
     bindr (member ''patch_sha256'' (nullable as_text) m) (\<lambda>patch_sha256.
       Inr \<lparr>rcd_repo_id = repo_id, rcd_base_revision = base_revision, rcd_result_revision = result_revision,
            rcd_patch_sha256 = patch_sha256\<rparr>)))))"

definition EXECUTOR_RESPONSE_CONTRACT :: string where
  "EXECUTOR_RESPONSE_CONTRACT = ''dispatcher.executor_result.v1''"

definition json_executor_result :: "executor_result \<Rightarrow> (string \<times> json) list" where
  "json_executor_result r =
     [(''result_version'', JInt 1), (''response_contract'', JStr EXECUTOR_RESPONSE_CONTRACT),
      (''dispatch_id'', JStr (er_dispatch_id r)), (''attempt'', JInt (er_attempt r)),
      (''step_id'', JStr (er_step_id r)), (''repository'', json_result_coordinate (er_repository r)),
      (''evidence'', JArr (map json_artifact (er_evidence r))),
      (''verification'', JArr (map json_verification_result (er_verification r))),
      (''summary'', JStr (er_summary r)), (''transcript_ref'', json_optional JStr (er_transcript_ref r))]
     @ outcome_members (er_outcome r)"

definition executor_result_members :: "string list" where
  "executor_result_members =
     [''result_version'', ''response_contract'', ''dispatch_id'', ''attempt'', ''step_id'', ''repository'',
      ''evidence'', ''verification'', ''summary'', ''transcript_ref'']"

definition decode_executor_result :: "executor_result decoder" where
  "decode_executor_result v =
     bindr (decode_outcome v) (\<lambda>(tagged, variant).
     bindr (closed_object (executor_result_members @ tagged) v) (\<lambda>m.
     bindr (member ''result_version'' (literal_int 1) m) (\<lambda>_.
     bindr (member ''response_contract'' (literal_text EXECUTOR_RESPONSE_CONTRACT) m) (\<lambda>_.
     bindr (member ''dispatch_id'' as_text m) (\<lambda>dispatch_id.
     bindr (member ''attempt'' as_int m) (\<lambda>attempt.
     bindr (member ''step_id'' as_text m) (\<lambda>step_id.
     bindr (member ''repository'' decode_result_coordinate m) (\<lambda>repository.
     bindr (member ''evidence'' (as_list decode_artifact) m) (\<lambda>evidence.
     bindr (member ''verification'' (as_list decode_verification_result) m) (\<lambda>verification.
     bindr (member ''summary'' as_text m) (\<lambda>summary.
     bindr (member_or_none ''transcript_ref'' as_text m) (\<lambda>transcript_ref.
     bindr (variant m) (\<lambda>outcome.
       Inr \<lparr>er_dispatch_id = dispatch_id, er_attempt = attempt, er_step_id = step_id,
            er_repository = repository, er_evidence = evidence, er_verification = verification,
            er_summary = summary, er_transcript_ref = transcript_ref, er_outcome = outcome\<rparr>)))))))))))))"

definition parsed_as :: "string \<Rightarrow> 'a decoder \<Rightarrow> ('a \<Rightarrow> exn + 'a) \<Rightarrow> json \<Rightarrow> exn + 'a" where
  "parsed_as kind dec validate v = (case dec v of
       Inl es \<Rightarrow> Inl (ResultError (format_validation_error kind es)) | Inr x \<Rightarrow> validate x)"

definition parse_executor_result_json :: "json \<Rightarrow> exn + executor_result" where
  "parse_executor_result_json = parsed_as ''executor'' decode_executor_result parse_executor_result"

section \<open>Executor proposals\<close>

definition EXECUTOR_PROPOSAL_CONTRACT :: string where
  "EXECUTOR_PROPOSAL_CONTRACT = ''dispatcher.executor_proposal.v2''"

definition json_proposal_evidence :: "proposal_evidence \<Rightarrow> json" where
  "json_proposal_evidence e = JObj
     [(''artifact_id'', JStr (pe_artifact_id e)), (''relative_path'', JStr (pe_relative_path e)),
      (''media_type'', JStr (evidence_media_text (pe_media_type e)))]"

definition decode_proposal_evidence :: "proposal_evidence decoder" where
  "decode_proposal_evidence v =
     bindr (closed_object [''artifact_id'', ''relative_path'', ''media_type''] v) (\<lambda>m.
     bindr (member ''artifact_id'' as_text m) (\<lambda>artifact_id.
     bindr (member ''relative_path'' as_text m) (\<lambda>relative_path.
     bindr (member ''media_type'' (one_of (evidence_media_options ())) m) (\<lambda>media_type.
       Inr \<lparr>pe_artifact_id = artifact_id, pe_relative_path = relative_path, pe_media_type = media_type\<rparr>))))"

definition json_self_report :: "criterion_self_report \<Rightarrow> json" where
  "json_self_report c = JObj
     [(''check_id'', JStr (cs_check_id c)), (''status'', JStr ''not_run''), (''summary'', JStr (cs_summary c))]"

definition decode_self_report :: "criterion_self_report decoder" where
  "decode_self_report v =
     bindr (closed_object [''check_id'', ''status'', ''summary''] v) (\<lambda>m.
     bindr (member ''check_id'' as_text m) (\<lambda>check_id.
     bindr (member ''status'' (literal_text ''not_run'') m) (\<lambda>_.
     bindr (member ''summary'' as_text m) (\<lambda>summary.
       Inr \<lparr>cs_check_id = check_id, cs_summary = summary\<rparr>))))"

definition json_proposal_coordinate :: "proposal_coordinate \<Rightarrow> json" where
  "json_proposal_coordinate c = JObj
     [(''repo_id'', JStr (prc_repo_id c)), (''base_revision'', JStr (prc_base_revision c))]"

definition decode_proposal_coordinate :: "proposal_coordinate decoder" where
  "decode_proposal_coordinate v =
     bindr (closed_object [''repo_id'', ''base_revision''] v) (\<lambda>m.
     bindr (member ''repo_id'' as_text m) (\<lambda>repo_id.
     bindr (member ''base_revision'' as_text m) (\<lambda>base_revision.
       Inr \<lparr>prc_repo_id = repo_id, prc_base_revision = base_revision\<rparr>)))"

definition json_executor_proposal :: "executor_proposal \<Rightarrow> (string \<times> json) list" where
  "json_executor_proposal p =
     [(''proposal_version'', JInt 2), (''response_contract'', JStr EXECUTOR_PROPOSAL_CONTRACT),
      (''dispatch_id'', JStr (ep_dispatch_id p)), (''attempt'', JInt (ep_attempt p)),
      (''step_id'', JStr (ep_step_id p)), (''repository'', json_proposal_coordinate (ep_repository p)),
      (''evidence'', JArr (map json_proposal_evidence (ep_evidence p))),
      (''criterion_self_reports'', JArr (map json_self_report (ep_criterion_self_reports p))),
      (''summary'', JStr (ep_summary p)), (''transcript_ref'', json_optional JStr (ep_transcript_ref p))]
     @ outcome_members (ep_outcome p)"

definition executor_proposal_members :: "string list" where
  "executor_proposal_members =
     [''proposal_version'', ''response_contract'', ''dispatch_id'', ''attempt'', ''step_id'', ''repository'',
      ''evidence'', ''criterion_self_reports'', ''summary'', ''transcript_ref'']"

definition decode_executor_proposal :: "executor_proposal decoder" where
  "decode_executor_proposal v =
     bindr (decode_outcome v) (\<lambda>(tagged, variant).
     bindr (closed_object (executor_proposal_members @ tagged) v) (\<lambda>m.
     bindr (member ''proposal_version'' (literal_int 2) m) (\<lambda>_.
     bindr (member ''response_contract'' (literal_text EXECUTOR_PROPOSAL_CONTRACT) m) (\<lambda>_.
     bindr (member ''dispatch_id'' as_text m) (\<lambda>dispatch_id.
     bindr (member ''attempt'' as_int m) (\<lambda>attempt.
     bindr (member ''step_id'' as_text m) (\<lambda>step_id.
     bindr (member ''repository'' decode_proposal_coordinate m) (\<lambda>repository.
     bindr (member ''evidence'' (as_list decode_proposal_evidence) m) (\<lambda>evidence.
     bindr (member ''criterion_self_reports'' (as_list decode_self_report) m) (\<lambda>reports.
     bindr (member ''summary'' as_text m) (\<lambda>summary.
     bindr (member_or_none ''transcript_ref'' as_text m) (\<lambda>transcript_ref.
     bindr (variant m) (\<lambda>outcome.
       Inr \<lparr>ep_dispatch_id = dispatch_id, ep_attempt = attempt, ep_step_id = step_id,
            ep_repository = repository, ep_evidence = evidence, ep_criterion_self_reports = reports,
            ep_summary = summary, ep_transcript_ref = transcript_ref, ep_outcome = outcome\<rparr>)))))))))))))"

definition parse_executor_proposal_json :: "json \<Rightarrow> exn + executor_proposal" where
  "parse_executor_proposal_json = parsed_as ''executor proposal'' decode_executor_proposal parse_executor_proposal"

section \<open>Reviewer results\<close>

definition REVIEWER_RESPONSE_CONTRACT :: string where
  "REVIEWER_RESPONSE_CONTRACT = ''dispatcher.reviewer_result.v1''"

definition json_review_target :: "review_target \<Rightarrow> (string \<times> json) list" where
  "json_review_target t =
     [(''executor_dispatch_id'', JStr (rt_executor_dispatch_id t)), (''executor_attempt'', JInt (rt_executor_attempt t)),
      (''result_revision'', json_optional JStr (rt_result_revision t)),
      (''patch_sha256'', json_optional JStr (rt_patch_sha256 t)),
      (''artifact_hashes'', json_strings (rt_artifact_hashes t))]"

definition decode_review_target :: "review_target decoder" where
  "decode_review_target v =
     bindr (closed_object [''executor_dispatch_id'', ''executor_attempt'', ''result_revision'', ''patch_sha256'',
       ''artifact_hashes''] v) (\<lambda>m.
     bindr (member ''executor_dispatch_id'' as_text m) (\<lambda>executor_dispatch_id.
     bindr (member ''executor_attempt'' as_int m) (\<lambda>executor_attempt.
     bindr (member ''result_revision'' (nullable as_text) m) (\<lambda>result_revision.
     bindr (member ''patch_sha256'' (nullable as_text) m) (\<lambda>patch_sha256.
     bindr (member ''artifact_hashes'' (as_list as_text) m) (\<lambda>artifact_hashes.
       Inr \<lparr>rt_executor_dispatch_id = executor_dispatch_id, rt_executor_attempt = executor_attempt,
            rt_result_revision = result_revision, rt_patch_sha256 = patch_sha256,
            rt_artifact_hashes = artifact_hashes\<rparr>))))))"

fun severity_text :: "severity \<Rightarrow> string" where
  "severity_text Severity_info = ''info''"
| "severity_text Severity_warning = ''warning''"
| "severity_text Severity_blocking = ''blocking''"

fun severity_options :: "unit \<Rightarrow> (string \<times> severity) list" where
  "severity_options () = map (\<lambda>x. (severity_text x, x)) [Severity_info, Severity_warning, Severity_blocking]"

definition json_review_finding :: "review_finding \<Rightarrow> json" where
  "json_review_finding f = JObj
     [(''finding_id'', JStr (rf_finding_id f)), (''severity'', JStr (severity_text (rf_severity f))),
      (''summary'', JStr (rf_summary f))]"

definition decode_review_finding :: "review_finding decoder" where
  "decode_review_finding v =
     bindr (closed_object [''finding_id'', ''severity'', ''summary''] v) (\<lambda>m.
     bindr (member ''finding_id'' as_text m) (\<lambda>finding_id.
     bindr (member ''severity'' (one_of (severity_options ())) m) (\<lambda>severity.
     bindr (member ''summary'' as_text m) (\<lambda>summary.
       Inr \<lparr>rf_finding_id = finding_id, rf_severity = severity, rf_summary = summary\<rparr>))))"

fun verdict_members :: "verdict \<Rightarrow> (string \<times> json) list" where
  "verdict_members Verdict_accepted = [(''verdict'', JStr ''accepted'')]"
| "verdict_members Verdict_changes_requested = [(''verdict'', JStr ''changes_requested'')]"
| "verdict_members (Verdict_blocked blockers) =
     [(''verdict'', JStr ''blocked''), (''blockers'', json_strings blockers)]"
| "verdict_members (Verdict_inconclusive reason) =
     [(''verdict'', JStr ''inconclusive''), (''reason'', JStr reason)]"

definition decode_verdict ::
  "json \<Rightarrow> verror list + string list \<times> ((string \<times> json) list \<Rightarrow> verror list + verdict)" where
  "decode_verdict v = (case v of
       JObj m \<Rightarrow> bindr (member ''verdict'' as_text m) (\<lambda>tag.
         if tag = ''accepted'' then Inr ([''verdict''], \<lambda>m. Inr Verdict_accepted)
         else if tag = ''changes_requested'' then Inr ([''verdict''], \<lambda>m. Inr Verdict_changes_requested)
         else if tag = ''blocked'' then Inr ([''verdict'', ''blockers''], \<lambda>m.
           bindr (member ''blockers'' (as_list as_text) m) (\<lambda>blockers. Inr (Verdict_blocked blockers)))
         else if tag = ''inconclusive'' then Inr ([''verdict'', ''reason''], \<lambda>m.
           bindr (member ''reason'' as_text m) (\<lambda>reason. Inr (Verdict_inconclusive reason)))
         else Inl [Field ''verdict''])
     | _ \<Rightarrow> Inl [Field ''object''])"

definition json_reviewer_result :: "reviewer_result \<Rightarrow> (string \<times> json) list" where
  "json_reviewer_result r =
     [(''result_version'', JInt 1), (''response_contract'', JStr REVIEWER_RESPONSE_CONTRACT),
      (''dispatch_id'', JStr (rr_dispatch_id r)), (''attempt'', JInt (rr_attempt r)),
      (''step_id'', JStr (rr_step_id r)), (''repo_id'', JStr (rr_repo_id r)),
      (''review_target'', JObj (json_review_target (rr_review_target r))),
      (''findings'', JArr (map json_review_finding (rr_findings r))),
      (''verification'', JArr (map json_verification_result (rr_verification r))),
      (''required_remediation'', json_strings (rr_required_remediation r)),
      (''summary'', JStr (rr_summary r)), (''transcript_ref'', json_optional JStr (rr_transcript_ref r))]
     @ verdict_members (rr_verdict r)"

definition reviewer_result_members :: "string list" where
  "reviewer_result_members =
     [''result_version'', ''response_contract'', ''dispatch_id'', ''attempt'', ''step_id'', ''repo_id'',
      ''review_target'', ''findings'', ''verification'', ''required_remediation'', ''summary'', ''transcript_ref'']"

definition decode_reviewer_result :: "reviewer_result decoder" where
  "decode_reviewer_result v =
     bindr (decode_verdict v) (\<lambda>(tagged, variant).
     bindr (closed_object (reviewer_result_members @ tagged) v) (\<lambda>m.
     bindr (member ''result_version'' (literal_int 1) m) (\<lambda>_.
     bindr (member ''response_contract'' (literal_text REVIEWER_RESPONSE_CONTRACT) m) (\<lambda>_.
     bindr (member ''dispatch_id'' as_text m) (\<lambda>dispatch_id.
     bindr (member ''attempt'' as_int m) (\<lambda>attempt.
     bindr (member ''step_id'' as_text m) (\<lambda>step_id.
     bindr (member ''repo_id'' as_text m) (\<lambda>repo_id.
     bindr (member ''review_target'' decode_review_target m) (\<lambda>target.
     bindr (member ''findings'' (as_list decode_review_finding) m) (\<lambda>findings.
     bindr (member ''verification'' (as_list decode_verification_result) m) (\<lambda>verification.
     bindr (member ''required_remediation'' (as_list as_text) m) (\<lambda>remediation.
     bindr (member ''summary'' as_text m) (\<lambda>summary.
     bindr (member_or_none ''transcript_ref'' as_text m) (\<lambda>transcript_ref.
     bindr (variant m) (\<lambda>verdict.
       Inr \<lparr>rr_dispatch_id = dispatch_id, rr_attempt = attempt, rr_step_id = step_id, rr_repo_id = repo_id,
            rr_review_target = target, rr_findings = findings, rr_verification = verification,
            rr_required_remediation = remediation, rr_summary = summary, rr_transcript_ref = transcript_ref,
            rr_verdict = verdict\<rparr>)))))))))))))))"

definition parse_reviewer_result_json :: "json \<Rightarrow> exn + reviewer_result" where
  "parse_reviewer_result_json = parsed_as ''reviewer'' decode_reviewer_result parse_reviewer_result"

section \<open>Round trips\<close>

lemma map_result_inverse [simp]: "(\<And>x. dec (enc x) = Inr x) \<Longrightarrow> map_result dec (map enc xs) = Inr xs"
  by (induction xs) auto

lemma as_list_inverse [simp]: "(\<And>x. dec (enc x) = Inr x) \<Longrightarrow> as_list dec (JArr (map enc xs)) = Inr xs"
  by (simp add: map_result_inverse)

lemma as_list_texts [simp]: "as_list as_text (json_strings xs) = Inr xs"
  by (simp add: json_strings_def map_result_inverse)

lemma nullable_not_null: "v \<noteq> JNull \<Longrightarrow> nullable dec v = bindr (dec v) (\<lambda>x. Inr (Some x))"
  by (cases v) simp_all

lemma nullable_inverse [simp]:
  "(\<And>x. dec (enc x) = Inr x) \<Longrightarrow> (\<And>x. enc x \<noteq> JNull) \<Longrightarrow> nullable dec (json_optional enc x) = Inr x"
  by (cases x) (simp_all add: json_optional_def nullable_not_null)

lemma evidence_media_inverse [simp]: "one_of (evidence_media_options ()) (JStr (evidence_media_text x)) = Inr x"
  by (cases x) (simp_all add: one_of_def)

lemma check_status_inverse [simp]: "one_of (check_status_options ()) (JStr (check_status_text x)) = Inr x"
  by (cases x) (simp_all add: one_of_def)

lemma severity_inverse [simp]: "one_of (severity_options ()) (JStr (severity_text x)) = Inr x"
  by (cases x) (simp_all add: one_of_def)

lemma literals [simp]: "literal_text s (JStr s) = Inr ()" "literal_int i (JInt i) = Inr ()"
  by (simp_all add: literal_text_def literal_int_def)

lemma artifact_inverse [simp]: "decode_artifact (json_artifact a) = Inr a"
  by (simp add: decode_artifact_def json_artifact_def closed_object_def member_def del: evidence_media_options.simps)

lemma verification_inverse [simp]: "decode_verification_result (json_verification_result v) = Inr v"
  by (simp add: decode_verification_result_def json_verification_result_def closed_object_def member_def
      del: check_status_options.simps)

lemma coordinate_inverse [simp]: "decode_result_coordinate (json_result_coordinate c) = Inr c"
  by (simp add: decode_result_coordinate_def json_result_coordinate_def closed_object_def member_def)

lemma executor_result_inverse: "decode_executor_result (JObj (json_executor_result r)) = Inr r"
  by (cases "er_outcome r")
    (simp_all add: decode_executor_result_def json_executor_result_def executor_result_members_def
      decode_outcome_def closed_object_def member_def member_or_none_def)

lemma proposal_evidence_inverse [simp]: "decode_proposal_evidence (json_proposal_evidence e) = Inr e"
  by (simp add: decode_proposal_evidence_def json_proposal_evidence_def closed_object_def member_def
      del: evidence_media_options.simps)

lemma self_report_inverse [simp]: "decode_self_report (json_self_report c) = Inr c"
  by (simp add: decode_self_report_def json_self_report_def closed_object_def member_def)

lemma proposal_coordinate_inverse [simp]: "decode_proposal_coordinate (json_proposal_coordinate c) = Inr c"
  by (simp add: decode_proposal_coordinate_def json_proposal_coordinate_def closed_object_def member_def)

lemma executor_proposal_inverse: "decode_executor_proposal (JObj (json_executor_proposal p)) = Inr p"
  by (cases "ep_outcome p")
    (simp_all add: decode_executor_proposal_def json_executor_proposal_def executor_proposal_members_def
      decode_outcome_def closed_object_def member_def member_or_none_def)

lemma review_target_inverse [simp]: "decode_review_target (JObj (json_review_target t)) = Inr t"
  by (simp add: decode_review_target_def json_review_target_def closed_object_def member_def)

lemma review_finding_inverse [simp]: "decode_review_finding (json_review_finding f) = Inr f"
  by (simp add: decode_review_finding_def json_review_finding_def closed_object_def member_def
      del: severity_options.simps)

lemma reviewer_result_inverse: "decode_reviewer_result (JObj (json_reviewer_result r)) = Inr r"
  by (cases "rr_verdict r")
    (simp_all add: decode_reviewer_result_def json_reviewer_result_def reviewer_result_members_def
      decode_verdict_def closed_object_def member_def member_or_none_def)

end
