(* ===== verification/Worker_Prompt.thy ===== *)
theory Worker_Prompt
  imports Result_Json Permissions Structured_Git
begin

text \<open>
  The prompt of a dispatch: \<open>_worker_prompt\<close>, the source ledger and the response templates of
  \<open>src/src/dispatcher/sequential.py\<close>. The JSON schema of a response is generated by pydantic and is an
  argument (\<open>schema\<close>), as is the resolved path of a plan source on the machine (\<open>source_path\<close>).
  A worker that returns a template of its prompt returns a value the dispatcher takes.
\<close>

section \<open>Fixed texts\<close>

definition authoritative_sources_rule :: string where
  "authoritative_sources_rule =
     ''Read the exact listed path entries as normative. You must not substitute similarly named ''
     @ ''files. Do not calculate hashes or treat Bash, tests, or Git output as source authority; ''
     @ ''dispatcher source verification is authoritative.''"

definition reviewer_instruction :: string where
  "reviewer_instruction =
     ''You are a reviewer. Use native read, glob, and grep to inspect file contents and locate ''
     @ ''files. Use exact diagnostic shell commands only for current directory, branch, revision, ''
     @ ''status, and diff metadata. Do not add shell arguments, redirection, chaining, pipes, ''
     @ ''substitutions, or other shell syntax. Do not run tests. Do not create, edit, stage, ''
     @ ''commit, delete, or otherwise modify files or Git state. If remediation is required, ''
     @ ''describe it in required_remediation for the executor; do not perform it.''"

definition executor_instruction :: string where
  "executor_instruction =
     ''Write only paths authorized by writable_paths. Do not run acceptance tests or substitute ''
     @ ''verification commands. Do not stage, commit, push, modify branches, or modify Git ''
     @ ''configuration. The dispatcher inspects changes, executes every structured check, derives ''
     @ ''evidence metadata, and performs any authorized commit after your response.''"

definition research_rule :: string where
  "research_rule =
     ''Research MCP tools are optional capabilities for discovering library documentation, ''
     @ ''packing code for analysis, and semantic code search. They do not expand writable_paths ''
     @ ''and cannot replace dispatcher checks.''"

definition evidence_path_rule :: string where
  "evidence_path_rule =
     ''Each evidence relative_path is relative to one listed evidence_root; do not include the ''
     @ ''evidence_root directory name in relative_path.''"

definition verification_authority :: string where
  "verification_authority =
     ''The dispatcher executes every acceptance criterion check from structured argv. Do not ''
     @ ''invent, alter, or substitute commands. Model verification is a self-report; state ''
     @ ''advancement uses dispatcher-owned results.''"

definition verification_feedback_rule :: string where
  "verification_feedback_rule =
     ''These are dispatcher-owned results from the previous proposal. Correct the ''
     @ ''implementation without running or substituting the checks; the dispatcher will rerun the ''
     @ ''complete plan-owned check set.''"

definition executor_verification_contract :: string where
  "executor_verification_contract =
     ''Executor criterion_self_reports MUST contain exactly one not_run entry for every ''
     @ ''acceptance criterion in plan order; executor checks are never authoritative.''"

definition reviewer_verification_contract :: string where
  "reviewer_verification_contract =
     ''verification MUST contain exactly one entry for every acceptance criterion; accepted ''
     @ ''requires every status to be passed.''"

definition final_check_opening :: string where
  "final_check_opening =
     ''Before sending, verify the JSON object contains every item in required_response_fields, ''
     @ ''especially response_contract and attempt. Missing, null, empty, or renamed fields are ''
     @ ''invalid. ''"

definition final_check_schema :: string where
  "final_check_schema =
     ''; no other word, synonym, or variation is acceptable. Conform to response_json_schema ''
     @ ''exactly: no extra fields, no missing required fields, and no values outside any defined ''
     @ ''enum. ''"

definition executor_final_check :: string where
  "executor_final_check =
     ''criterion_self_reports MUST provide exact ordered criterion coverage, and every status ''
     @ ''must be not_run. Do not claim final revisions, patch hashes, evidence hashes/sizes, or ''
     @ ''Git control fields.''"

definition reviewer_final_check :: string where
  "reviewer_final_check =
     ''verification MUST provide exact one-to-one criterion_id/check_id coverage with no ''
     @ ''duplicate, missing, renamed, or extra IDs; accepted requires every verification status ''
     @ ''to be passed, accepted requires required_remediation to be an empty list, while ''
     @ ''non-success verdicts still require exact coverage.''"


definition READ_ONLY_NATIVE_TOOLS :: "string list" where
  "READ_ONLY_NATIVE_TOOLS = [''read'', ''glob'', ''grep'']"

definition EXECUTOR_PROPOSAL_OUTCOME_OPTIONS :: "string list" where
  "EXECUTOR_PROPOSAL_OUTCOME_OPTIONS = [''completed'', ''blocked'', ''failed'']"

definition REVIEWER_VERDICT_OPTIONS :: "string list" where
  "REVIEWER_VERDICT_OPTIONS = [''accepted'', ''changes_requested'', ''blocked'', ''inconclusive'']"

definition response_contract :: "worker_kind \<Rightarrow> string" where
  "response_contract kind =
     (if kind = Worker_executor then EXECUTOR_PROPOSAL_CONTRACT else REVIEWER_RESPONSE_CONTRACT)"

definition required_response_fields :: "worker_kind \<Rightarrow> string list" where
  "required_response_fields kind =
     (if kind = Worker_executor then
        [''response_contract'', ''proposal_version'', ''dispatch_id'', ''attempt'', ''step_id'', ''repository'',
         ''evidence'', ''criterion_self_reports'', ''summary'', ''outcome'']
      else
        [''response_contract'', ''result_version'', ''dispatch_id'', ''attempt'', ''step_id'', ''repo_id'',
         ''review_target'', ''findings'', ''verification'', ''required_remediation'', ''summary'', ''verdict''])"

section \<open>Templates\<close>

text \<open>\<open>template.update(changes)\<close>.\<close>

definition dict_update :: "(string, 'v) dict \<Rightarrow> (string, 'v) dict \<Rightarrow> (string, 'v) dict" where
  "dict_update d changes = foldl (\<lambda>d kv. dset (fst kv) (snd kv) d) d changes"

definition executor_template ::
  "string \<Rightarrow> string \<Rightarrow> int \<Rightarrow> string \<Rightarrow> string \<Rightarrow> string \<Rightarrow> acceptance_criterion list \<Rightarrow> evidence_requirement list
   \<Rightarrow> (string \<times> json) list" where
  "executor_template contract dispatch_id attempt step_id repo_id base_revision criteria requirements =
     [(''response_contract'', JStr contract), (''proposal_version'', JInt 2), (''dispatch_id'', JStr dispatch_id),
      (''attempt'', JInt attempt), (''step_id'', JStr step_id),
      (''repository'', JObj [(''repo_id'', JStr repo_id), (''base_revision'', JStr base_revision)]),
      (''evidence'', JArr (map json_evidence_requirement requirements)),
      (''criterion_self_reports'', JArr (map (\<lambda>criterion. JObj
          [(''check_id'', JStr (crit_criterion_id criterion)), (''status'', JStr ''not_run''),
           (''summary'', JStr ''The dispatcher owns this acceptance check.'')]) criteria)),
      (''summary'', JStr ''<non-empty summary>''), (''outcome'', JStr ''completed'')]"

definition reviewer_template ::
  "string \<Rightarrow> string \<Rightarrow> int \<Rightarrow> string \<Rightarrow> string \<Rightarrow> acceptance_criterion list \<Rightarrow> review_target option
   \<Rightarrow> (string \<times> json) list" where
  "reviewer_template contract dispatch_id attempt step_id repo_id criteria target =
     [(''response_contract'', JStr contract), (''result_version'', JInt 1), (''dispatch_id'', JStr dispatch_id),
      (''attempt'', JInt attempt), (''step_id'', JStr step_id), (''repo_id'', JStr repo_id),
      (''review_target'', JObj (case target of None \<Rightarrow> [] | Some t \<Rightarrow> json_review_target t)),
      (''findings'', JArr []),
      (''verification'', JArr (map (\<lambda>criterion. JObj
          [(''check_id'', JStr (crit_criterion_id criterion)), (''status'', JStr ''passed''),
           (''summary'', JStr ''The acceptance criterion passed.'')]) criteria)),
      (''required_remediation'', JArr []), (''summary'', JStr ''<non-empty summary>''),
      (''verdict'', JStr ''accepted'')]"

definition worker_response_template ::
  "worker_kind \<Rightarrow> string \<Rightarrow> string \<Rightarrow> int \<Rightarrow> string \<Rightarrow> string \<Rightarrow> string \<Rightarrow> acceptance_criterion list
   \<Rightarrow> evidence_requirement list \<Rightarrow> review_target option \<Rightarrow> bool \<Rightarrow> (string \<times> json) list" where
  "worker_response_template kind contract dispatch_id attempt step_id repo_id base_revision criteria requirements
     target requires_attention =
     (if kind = Worker_executor then
        let template = executor_template contract dispatch_id attempt step_id repo_id base_revision criteria requirements
        in if requires_attention then
             dict_update template
               [(''summary'', JStr ''The worker cannot complete the authorized task.''),
                (''outcome'', JStr ''blocked''),
                (''blockers'', JArr [JStr ''A concrete blocker prevents completion.''])]
           else template
      else
        let template = reviewer_template contract dispatch_id attempt step_id repo_id criteria target
        in if requires_attention then
             dict_update template
               [(''findings'', JArr [JObj
                   [(''finding_id'', JStr ''required-change''), (''severity'', JStr ''blocking''),
                    (''summary'', JStr ''The reviewed result requires a concrete correction.'')]]),
                (''verification'', JArr (map (\<lambda>criterion. JObj
                   [(''check_id'', JStr (crit_criterion_id criterion)), (''status'', JStr ''failed''),
                    (''summary'', JStr ''The reviewed result did not satisfy a required check.'')]) criteria)),
                (''required_remediation'', JArr [JStr ''Correct the identified blocking finding.'']),
                (''summary'', JStr ''The reviewed result requires changes before acceptance.''),
                (''verdict'', JStr ''changes_requested'')]
           else template)"

section \<open>The prompt\<close>

definition authoritative_sources :: "(plan_source \<Rightarrow> string) \<Rightarrow> plan_source list \<Rightarrow> json" where
  "authoritative_sources source_path sources = JArr (map (\<lambda>s. JObj
     [(''source_id'', JStr (src_source_id s)), (''root'', JStr (source_root_text (src_root s))),
      (''relative_path'', JStr (src_relative_path s)), (''sha256'', JStr (src_sha256 s)),
      (''path'', JStr (source_path s))]) sources)"

definition json_authoritative_verification :: "authoritative_verification \<Rightarrow> json" where
  "json_authoritative_verification v = JObj
     [(''check_id'', JStr (av_check_id v)), (''status'', JStr (if av_passed v then ''passed'' else ''failed'')),
      (''argv'', json_strings (av_argv v)), (''exit_code'', json_optional JInt (av_exit_code v)),
      (''timed_out'', JBool (av_timed_out v)), (''output_truncated'', JBool (av_output_truncated v)),
      (''stdout_sha256'', JStr (av_stdout_sha256 v)), (''stderr_sha256'', JStr (av_stderr_sha256 v)),
      (''transcript_sha256'', JStr (av_transcript_sha256 v)), (''duration_ms'', JInt (av_duration_ms v)),
      (''backend'', JStr (av_backend v)), (''summary'', JStr (av_summary v))]"

text \<open>The arguments of \<open>_worker_prompt\<close>; the diagnostic commands are not used by it.\<close>

record prompt_context =
  px_dispatch_id :: string
  px_attempt :: int
  px_role_kind :: worker_kind
  px_step :: plan_step
  px_task :: string
  px_sources :: "plan_source list"
  px_repository :: repository_coordinate
  px_evidence_roots :: "string list"
  px_review_target :: "review_target option"
  px_review_verification :: "json list option"
  px_authorized_actions :: "string list"
  px_mcp_tools :: "string list"
  px_feedback :: "authoritative_verification list"

definition role_members :: "prompt_context \<Rightarrow> (string \<times> json) list" where
  "role_members x =
     (if px_role_kind x = Worker_reviewer then
        [(''role_instruction'', JStr reviewer_instruction),
         (''observation_tools'', JObj [(''native'', json_strings READ_ONLY_NATIVE_TOOLS),
            (''diagnostic_commands'', json_strings READ_ONLY_DIAGNOSTIC_COMMANDS),
            (''mcp'', json_strings (px_mcp_tools x))])]
      else
        [(''role_instruction'', JStr executor_instruction),
         (''writable_paths'', json_strings (auth_writable_paths (ps_authorization (px_step x)))),
         (''research_tools'', JObj [(''mcp'', json_strings (px_mcp_tools x)), (''rule'', JStr research_rule)])])"

definition response_template_of :: "prompt_context \<Rightarrow> bool \<Rightarrow> (string \<times> json) list" where
  "response_template_of x requires_attention =
     worker_response_template (px_role_kind x) (response_contract (px_role_kind x)) (px_dispatch_id x)
       (px_attempt x) (ps_step_id (px_step x)) (ps_repo_id (px_step x)) (rc_base_revision (px_repository x))
       (ps_acceptance_criteria (px_step x)) (ps_evidence_requirements (px_step x)) (px_review_target x)
       requires_attention"

definition final_response_check :: "worker_kind \<Rightarrow> string" where
  "final_response_check kind =
     (if kind = Worker_executor then
        final_check_opening @ ''The outcome field MUST be exactly one of: ''
        @ join_text '', '' EXECUTOR_PROPOSAL_OUTCOME_OPTIONS @ final_check_schema @ executor_final_check
      else
        final_check_opening @ ''The verdict field MUST be exactly one of: ''
        @ join_text '', '' REVIEWER_VERDICT_OPTIONS @ final_check_schema @ reviewer_final_check)"

definition worker_prompt_members ::
  "(worker_kind \<Rightarrow> json) \<Rightarrow> (plan_source \<Rightarrow> string) \<Rightarrow> prompt_context \<Rightarrow> (string \<times> json) list" where
  "worker_prompt_members schema source_path x =
     (let kind = px_role_kind x; step = px_step x; repository = px_repository x in
     [(''context_version'', JInt 1),
      (''result_kind'', JStr (if kind = Worker_executor then ''executor'' else ''reviewer'')),
      (''dispatch_id'', JStr (px_dispatch_id x)), (''attempt'', JInt (px_attempt x)),
      (''step_id'', JStr (ps_step_id step)), (''repo_id'', JStr (ps_repo_id step)),
      (''base_revision'', JStr (rc_base_revision repository)),
      (''base_branch'', json_optional JStr (rc_base_branch repository)),
      (''working_branch'', json_optional JStr (rc_working_branch repository)),
      (''worktree_id'', json_optional JStr (rc_worktree_id repository)),
      (''remote_name'', json_optional JStr (rc_remote_name repository)),
      (''remote_url'', json_optional JStr (rc_remote_url repository)),
      (''task'', JStr (px_task x)),
      (''authoritative_sources'', authoritative_sources source_path (px_sources x)),
      (''authoritative_sources_rule'', JStr authoritative_sources_rule)]
     @ role_members x
     @ [(''evidence_roots'', json_strings (px_evidence_roots x)), (''evidence_path_rule'', JStr evidence_path_rule),
        (''authorized_actions'', json_strings (px_authorized_actions x)),
        (''verification_authority'', JStr verification_authority)]
     @ (if px_feedback x \<noteq> [] then
          [(''verification_feedback'', JArr (map json_authoritative_verification (px_feedback x))),
           (''verification_feedback_rule'', JStr verification_feedback_rule)]
        else [])
     @ (if kind = Worker_reviewer then
          [(''executor_authoritative_verification'',
              JArr (case px_review_verification x of None \<Rightarrow> [] | Some vs \<Rightarrow> vs))]
        else [])
     @ [(''response_contract'', JStr (response_contract kind)),
        (''response_contract_rule'', JStr (''MUST return exactly one JSON object with a required response_contract ''
           @ ''field equal to '' @ response_contract kind
           @ ''; MUST NOT return prose, Markdown, or code fences.'')),
        (''required_response_fields'', json_strings (required_response_fields kind))]
     @ (if kind = Worker_executor then [(''outcome_options'', json_strings EXECUTOR_PROPOSAL_OUTCOME_OPTIONS)]
        else [(''verdict_options'', json_strings REVIEWER_VERDICT_OPTIONS)])
     @ [(''response_json_schema'', schema kind),
        (''required_verification_check_ids'', json_strings (map crit_criterion_id (ps_acceptance_criteria step))),
        (''verification_contract'', JStr (if kind = Worker_executor then executor_verification_contract
           else reviewer_verification_contract)),
        (''final_response_check'', JStr (final_response_check kind)),
        (''acceptance_criteria'', JArr (map json_acceptance_criterion (ps_acceptance_criteria step))),
        (''evidence_requirements'', JArr (map json_evidence_requirement (ps_evidence_requirements step))),
        (''review_target'', json_optional (\<lambda>t. JObj (json_review_target t)) (px_review_target x)),
        (''response_template'', JObj (response_template_of x False)),
        (''response_requires_attention_template'', JObj (response_template_of x True))])"

text \<open>\<open>json.dumps\<close> without ASCII escapes, with sorted keys and compact separators.\<close>

definition worker_prompt :: "(worker_kind \<Rightarrow> json) \<Rightarrow> (plan_source \<Rightarrow> string) \<Rightarrow> prompt_context \<Rightarrow> string" where
  "worker_prompt schema source_path x = raw_encode (canon (JObj (worker_prompt_members schema source_path x)))"

section \<open>Templates are accepted\<close>

lemma requirement_as_evidence:
  "decode_proposal_evidence (json_evidence_requirement e) =
     Inr \<lparr>pe_artifact_id = ev_artifact_id e, pe_relative_path = ev_relative_path e, pe_media_type = ev_media_type e\<rparr>"
  by (simp add: decode_proposal_evidence_def json_evidence_requirement_def closed_object_def member_def
      del: evidence_media_options.simps)

lemma requirements_as_evidence:
  "map_result decode_proposal_evidence (map json_evidence_requirement es) = Inr (map (\<lambda>e.
     \<lparr>pe_artifact_id = ev_artifact_id e, pe_relative_path = ev_relative_path e, pe_media_type = ev_media_type e\<rparr>) es)"
  by (induction es) (simp_all add: requirement_as_evidence)

lemma criteria_as_reports:
  "map_result decode_self_report (map (\<lambda>criterion. JObj [(''check_id'', JStr (crit_criterion_id criterion)),
       (''status'', JStr ''not_run''), (''summary'', JStr t)]) cs)
     = Inr (map (\<lambda>criterion. \<lparr>cs_check_id = crit_criterion_id criterion, cs_summary = t\<rparr>) cs)"
  by (induction cs) (simp_all add: decode_self_report_def closed_object_def member_def)

definition template_proposal :: "prompt_context \<Rightarrow> bool \<Rightarrow> executor_proposal" where
  "template_proposal x requires_attention =
     \<lparr>ep_dispatch_id = px_dispatch_id x, ep_attempt = px_attempt x, ep_step_id = ps_step_id (px_step x),
      ep_repository = \<lparr>prc_repo_id = ps_repo_id (px_step x), prc_base_revision = rc_base_revision (px_repository x)\<rparr>,
      ep_evidence = map (\<lambda>e. \<lparr>pe_artifact_id = ev_artifact_id e, pe_relative_path = ev_relative_path e,
        pe_media_type = ev_media_type e\<rparr>) (ps_evidence_requirements (px_step x)),
      ep_criterion_self_reports = map (\<lambda>criterion. \<lparr>cs_check_id = crit_criterion_id criterion,
        cs_summary = ''The dispatcher owns this acceptance check.''\<rparr>) (ps_acceptance_criteria (px_step x)),
      ep_summary = (if requires_attention then ''The worker cannot complete the authorized task.''
        else ''<non-empty summary>''),
      ep_transcript_ref = None,
      ep_outcome = (if requires_attention then Outcome_blocked [''A concrete blocker prevents completion.'']
        else Outcome_completed)\<rparr>"

lemma template_decodes_proposal:
  assumes "px_role_kind x = Worker_executor"
  shows "decode_executor_proposal (JObj (response_template_of x requires_attention)) =
     Inr (template_proposal x requires_attention)"
proof -
  have repository: "decode_proposal_coordinate (JObj [(''repo_id'', JStr i), (''base_revision'', JStr t)])
      = Inr \<lparr>prc_repo_id = i, prc_base_revision = t\<rparr>" for i t
    using proposal_coordinate_inverse [of "\<lparr>prc_repo_id = i, prc_base_revision = t\<rparr>"]
    by (simp add: json_proposal_coordinate_def)
  show ?thesis
    by (cases requires_attention)
      (simp_all add: response_template_of_def worker_response_template_def executor_template_def assms Let_def
        decode_executor_proposal_def executor_proposal_members_def decode_outcome_def closed_object_def member_def
        member_or_none_def response_contract_def dict_update_def template_proposal_def repository
        requirements_as_evidence criteria_as_reports)
qed

text \<open>The fields that a valid step and a valid dispatch put into a template are valid there.\<close>

lemma template_proposal_valid:
  assumes "plan_step_errors (px_step x) = []" "dispatch_record_errors d = []"
    and "d_dispatch_id d = px_dispatch_id x" "d_attempt d = px_attempt x"
    and "rc_base_revision (di_repository (d_intent d)) = rc_base_revision (px_repository x)"
  shows "executor_proposal_errors (template_proposal x requires_attention) = []"
proof -
  have evidence: "concat (map proposal_evidence_errors (ep_evidence (template_proposal x requires_attention))) = []"
    using assms(1) by (auto simp: plan_step_errors_def template_proposal_def proposal_evidence_errors_def
        evidence_requirement_errors_def)
  have reports: "concat (map criterion_self_report_errors (ep_criterion_self_reports (template_proposal x requires_attention))) = []"
    using assms(1) by (auto simp: plan_step_errors_def template_proposal_def criterion_self_report_errors_def
        acceptance_criterion_errors_def length_between_def)
  have "identifier_ok (ps_step_id (px_step x))" "identifier_ok (ps_repo_id (px_step x))"
    using assms(1) by (simp_all add: plan_step_errors_def)
  moreover have "identifier_ok (px_dispatch_id x)" "1 \<le> px_attempt x" "px_attempt x \<le> 100"
    "length_between 1 200 (rc_base_revision (px_repository x))"
    using assms(2-5) by (simp_all add: dispatch_record_errors_def dispatch_intent_errors_def repository_coordinate_errors_def)
  ultimately show ?thesis using evidence reports
    unfolding executor_proposal_errors_def
    by (simp add: template_proposal_def length_between_def)
qed

lemma template_proposal_matches:
  assumes "d_dispatch_id d = px_dispatch_id x" "d_attempt d = px_attempt x" "d_step_id d = ps_step_id (px_step x)"
    and "rc_repo_id (di_repository (d_intent d)) = ps_repo_id (px_step x)"
    and "rc_base_revision (di_repository (d_intent d)) = rc_base_revision (px_repository x)"
  shows "validate_executor_proposal (px_step x) (template_proposal x requires_attention) d = Inr ()"
  using assms
  by (simp add: validate_executor_proposal_def validate_executor_proposal_context_def result_expectation_of_def
      template_proposal_def validate_result_identity_def mismatch_text_def as_worker_error_def comp_def raise_if_def)

section \<open>The review template\<close>

lemma criteria_as_checks:
  "map_result decode_verification_result (map (\<lambda>criterion. JObj [(''check_id'', JStr (crit_criterion_id criterion)),
       (''status'', JStr (check_status_text status)), (''summary'', JStr t)]) cs)
     = Inr (map (\<lambda>criterion. \<lparr>vr_check_id = crit_criterion_id criterion, vr_status = status, vr_summary = t\<rparr>) cs)"
proof (induction cs)
  case (Cons criterion cs)
  have "decode_verification_result (JObj [(''check_id'', JStr (crit_criterion_id criterion)),
      (''status'', JStr (check_status_text status)), (''summary'', JStr t)])
    = Inr \<lparr>vr_check_id = crit_criterion_id criterion, vr_status = status, vr_summary = t\<rparr>"
    using verification_inverse [of "\<lparr>vr_check_id = crit_criterion_id criterion, vr_status = status, vr_summary = t\<rparr>"]
    by (simp add: json_verification_result_def)
  with Cons show ?case by simp
qed simp

definition template_review :: "prompt_context \<Rightarrow> review_target \<Rightarrow> bool \<Rightarrow> reviewer_result" where
  "template_review x target requires_attention =
     \<lparr>rr_dispatch_id = px_dispatch_id x, rr_attempt = px_attempt x, rr_step_id = ps_step_id (px_step x),
      rr_repo_id = ps_repo_id (px_step x), rr_review_target = target,
      rr_findings = (if requires_attention then
          [\<lparr>rf_finding_id = ''required-change'', rf_severity = Severity_blocking,
             rf_summary = ''The reviewed result requires a concrete correction.''\<rparr>] else []),
      rr_verification = map (\<lambda>criterion. \<lparr>vr_check_id = crit_criterion_id criterion,
          vr_status = (if requires_attention then Check_failed else Check_passed),
          vr_summary = (if requires_attention then ''The reviewed result did not satisfy a required check.''
            else ''The acceptance criterion passed.'')\<rparr>) (ps_acceptance_criteria (px_step x)),
      rr_required_remediation = (if requires_attention then [''Correct the identified blocking finding.''] else []),
      rr_summary = (if requires_attention then ''The reviewed result requires changes before acceptance.''
        else ''<non-empty summary>''),
      rr_transcript_ref = None,
      rr_verdict = (if requires_attention then Verdict_changes_requested else Verdict_accepted)\<rparr>"

lemma template_decodes_review:
  assumes "px_role_kind x = Worker_reviewer" "px_review_target x = Some target"
  shows "decode_reviewer_result (JObj (response_template_of x requires_attention)) =
     Inr (template_review x target requires_attention)"
proof -
  have finding: "decode_review_finding (JObj [(''finding_id'', JStr i), (''severity'', JStr ''blocking''), (''summary'', JStr t)])
      = Inr \<lparr>rf_finding_id = i, rf_severity = Severity_blocking, rf_summary = t\<rparr>" for i t
    using review_finding_inverse [of "\<lparr>rf_finding_id = i, rf_severity = Severity_blocking, rf_summary = t\<rparr>"]
    by (simp add: json_review_finding_def)
  show ?thesis
    by (cases requires_attention)
      (simp_all add: response_template_of_def worker_response_template_def reviewer_template_def assms Let_def
        decode_reviewer_result_def reviewer_result_members_def decode_verdict_def closed_object_def member_def
        member_or_none_def response_contract_def dict_update_def template_review_def finding
        criteria_as_checks [of Check_passed, simplified] criteria_as_checks [of Check_failed, simplified])
qed

end
