(* ===== verification/Snapshots.thy ===== *)
theory Snapshots
  imports Result_Checks Redaction
begin

text \<open>
  Repository snapshots: the observations of \<open>src/src/dispatcher/repository.py\<close> and the checks between the
  snapshot before a dispatch and the one after it, with the reading of \<open>git status\<close> and \<open>git diff --raw\<close>.

  Running Git and reading files is not modelled: the fields of a snapshot, the output of the two commands
  and three answers of the file system are arguments (\<open>patch\<close>, the digest of the working patch;
  \<open>symlink p\<close>, whether the changed path \<open>p\<close> is a symbolic link; \<open>outside p\<close>, whether its nearest existing
  parent resolves outside the worktree).
\<close>

section \<open>Observations\<close>

datatype manifest_file_type = Manifest_file | Manifest_symlink

fun manifest_file_type_text :: "manifest_file_type \<Rightarrow> string" where
  "manifest_file_type_text Manifest_file = ''file''"
| "manifest_file_type_text Manifest_symlink = ''symlink''"

record manifest_entry =
  me_root :: string
  me_relative_path :: string
  me_file_type :: manifest_file_type
  me_size_bytes :: int
  me_mode :: int
  me_mtime_ns :: int
  me_sha256 :: string

definition manifest_entry_errors :: "manifest_entry \<Rightarrow> verror list" where
  "manifest_entry_errors m = field_errors
     [(''root'', plain_relative_path (me_root m)), (''relative_path'', plain_relative_path (me_relative_path m)),
      (''size_bytes'', 0 \<le> me_size_bytes m), (''mode'', 0 \<le> me_mode m), (''mtime_ns'', 0 \<le> me_mtime_ns m),
      (''sha256'', sha256_ok (me_sha256 m))]"

datatype change_type = Created | Modified | Deleted | Renamed | Untracked

fun change_type_text :: "change_type \<Rightarrow> string" where
  "change_type_text Created = ''created''"
| "change_type_text Modified = ''modified''"
| "change_type_text Deleted = ''deleted''"
| "change_type_text Renamed = ''renamed''"
| "change_type_text Untracked = ''untracked''"

record repository_change =
  ch_change_type :: change_type
  ch_paths :: "string list"
  ch_index_status :: string
  ch_worktree_status :: string
  ch_mode_changed :: bool

definition repository_change_errors :: "repository_change \<Rightarrow> verror list" where
  "repository_change_errors h = field_errors
     [(''paths'', ch_paths h \<noteq> [] \<and> list_all plain_relative_path (ch_paths h)),
      (''index_status'', length_between 1 1 (ch_index_status h)),
      (''worktree_status'', length_between 1 1 (ch_worktree_status h))]"

record repository_snapshot =
  sn_repo_id :: string
  sn_branch :: string
  sn_revision :: string
  sn_worktree_id :: string
  sn_remote_name :: string
  sn_remote_url :: string
  sn_clean :: bool
  sn_evidence :: "manifest_entry list"
  sn_external :: "manifest_entry list"
  sn_changes :: "repository_change list"
  sn_ignored :: "string list"
  sn_dirty_patch_sha256 :: string
  sn_git_metadata_sha256 :: string
  sn_git_refs_sha256 :: string
  sn_manifest_sha256 :: string

definition repository_snapshot_errors :: "repository_snapshot \<Rightarrow> verror list" where
  "repository_snapshot_errors s =
     then_rules
       (field_errors
          [(''repo_id'', identifier_ok (sn_repo_id s)), (''branch'', branch_ok 300 (sn_branch s)),
           (''revision'', length_between 1 200 (sn_revision s)), (''worktree_id'', sha256_ok (sn_worktree_id s)),
           (''remote_name'', identifier_ok (sn_remote_name s)), (''remote_url'', sn_remote_url s \<noteq> []),
           (''dirty_patch_sha256'', sha256_ok (sn_dirty_patch_sha256 s)),
           (''git_metadata_sha256'', sha256_ok (sn_git_metadata_sha256 s)),
           (''git_refs_sha256'', sha256_ok (sn_git_refs_sha256 s)),
           (''manifest_sha256'', sha256_ok (sn_manifest_sha256 s))]
        @ concat (map manifest_entry_errors (sn_evidence s)) @ concat (map manifest_entry_errors (sn_external s))
        @ concat (map repository_change_errors (sn_changes s)))
       (first_rule [(sn_clean s \<and> sn_changes s \<noteq> [], ''clean repository snapshot cannot contain changes'')])"

text \<open>\<open>base_branch or self.branch\<close>.\<close>

definition dispatch_coordinate :: "repository_snapshot \<Rightarrow> string option \<Rightarrow> repository_coordinate" where
  "dispatch_coordinate s base_branch =
     \<lparr>rc_repo_id = sn_repo_id s, rc_base_revision = sn_revision s,
      rc_base_branch = Some (case base_branch of None \<Rightarrow> sn_branch s | Some b \<Rightarrow> if b = [] then sn_branch s else b),
      rc_working_branch = Some (sn_branch s), rc_worktree_id = Some (sn_worktree_id s),
      rc_remote_name = Some (sn_remote_name s), rc_remote_url = Some (sn_remote_url s)\<rparr>"

text \<open>\<open>model_dump(mode="json")\<close>.\<close>

definition json_manifest_entry :: "manifest_entry \<Rightarrow> json" where
  "json_manifest_entry m = JObj
     [(''root'', JStr (me_root m)), (''relative_path'', JStr (me_relative_path m)),
      (''file_type'', JStr (manifest_file_type_text (me_file_type m))), (''size_bytes'', JInt (me_size_bytes m)),
      (''mode'', JInt (me_mode m)), (''mtime_ns'', JInt (me_mtime_ns m)), (''sha256'', JStr (me_sha256 m))]"

definition json_repository_change :: "repository_change \<Rightarrow> json" where
  "json_repository_change h = JObj
     [(''change_type'', JStr (change_type_text (ch_change_type h))), (''paths'', json_strings (ch_paths h)),
      (''index_status'', JStr (ch_index_status h)), (''worktree_status'', JStr (ch_worktree_status h)),
      (''mode_changed'', JBool (ch_mode_changed h))]"

definition snapshot_payload :: "repository_snapshot \<Rightarrow> (string \<times> json) list" where
  "snapshot_payload s =
     [(''repo_id'', JStr (sn_repo_id s)), (''branch'', JStr (sn_branch s)), (''revision'', JStr (sn_revision s)),
      (''worktree_id'', JStr (sn_worktree_id s)), (''remote_name'', JStr (sn_remote_name s)),
      (''remote_url'', JStr (sn_remote_url s)), (''evidence'', JArr (map json_manifest_entry (sn_evidence s))),
      (''external'', JArr (map json_manifest_entry (sn_external s))),
      (''changes'', JArr (map json_repository_change (sn_changes s))), (''ignored'', json_strings (sn_ignored s)),
      (''dirty_patch_sha256'', JStr (sn_dirty_patch_sha256 s)),
      (''git_metadata_sha256'', JStr (sn_git_metadata_sha256 s)), (''git_refs_sha256'', JStr (sn_git_refs_sha256 s))]"

definition snapshot_digest :: "repository_snapshot \<Rightarrow> string" where
  "snapshot_digest s = digest_json (JObj (snapshot_payload s))"

definition json_snapshot :: "repository_snapshot \<Rightarrow> (string \<times> json) list" where
  "json_snapshot s =
     snapshot_payload s @ [(''clean'', JBool (sn_clean s)), (''manifest_sha256'', JStr (sn_manifest_sha256 s))]"

section \<open>Checks between two observations\<close>

definition change_paths :: "repository_change list \<Rightarrow> string list" where
  "change_paths changes = concat (map ch_paths changes)"

definition identity_mismatch :: "string \<times> string option \<times> string \<Rightarrow> string list" where
  "identity_mismatch entry =
     (case entry of (field, expected, actual) \<Rightarrow>
        if expected = Some actual then []
        else [field @ '' expected '' @ (case expected of None \<Rightarrow> ''None'' | Some e \<Rightarrow> repr_text e)
              @ '', found '' @ repr_text actual])"

definition validate_snapshot_identity :: "repository_coordinate \<Rightarrow> repository_snapshot \<Rightarrow> exn + unit" where
  "validate_snapshot_identity coordinate s =
     (let mismatches = concat (map identity_mismatch
            [(''repo_id'', Some (rc_repo_id coordinate), sn_repo_id s),
             (''working_branch'', rc_working_branch coordinate, sn_branch s),
             (''worktree_id'', rc_worktree_id coordinate, sn_worktree_id s),
             (''remote_name'', rc_remote_name coordinate, sn_remote_name s),
             (''remote_url'', rc_remote_url coordinate, sn_remote_url s)])
      in raise_if (mismatches \<noteq> [])
           (RepositoryValidationError (''repository identity changed after dispatch preparation: ''
              @ join_text ''; '' mismatches)))"

definition validate_git_metadata_unchanged ::
  "repository_snapshot \<Rightarrow> repository_snapshot \<Rightarrow> bool \<Rightarrow> exn + unit" where
  "validate_git_metadata_unchanged earlier later include_refs =
     (if sn_git_metadata_sha256 earlier \<noteq> sn_git_metadata_sha256 later then
        Inl (RepositoryValidationError (''repository Git metadata changed during the dispatch; ''
          @ ''executor Git config, exclude, attributes, hooks, or HEAD mutation is rejected''))
      else raise_if (include_refs \<and> sn_git_refs_sha256 earlier \<noteq> sn_git_refs_sha256 later)
        (RepositoryValidationError
          ''repository Git refs changed during the dispatch before structured staging''))"

definition validate_external_roots :: "repository_snapshot \<Rightarrow> repository_snapshot \<Rightarrow> exn + unit" where
  "validate_external_roots earlier later =
     raise_if (sn_external earlier \<noteq> sn_external later)
       (RepositoryValidationError ''configured external root changed without an isolated dispatch artifact'')"

definition within_roots :: "string list \<Rightarrow> string \<Rightarrow> bool" where
  "within_roots roots path \<longleftrightarrow>
     list_ex (\<lambda>root. pure_path_is_within (pure_posix_path path) (pure_posix_path root)) roots"

definition validate_changed_paths :: "config \<Rightarrow> string \<Rightarrow> repository_change list \<Rightarrow> exn + unit" where
  "validate_changed_paths c repo_id changes =
     bindr (config_repository c repo_id) (\<lambda>repository.
       let unexpected = filter (\<lambda>p. \<not> within_roots (repo_writable_roots repository) p) (change_paths changes)
       in raise_if (unexpected \<noteq> [])
            (RepositoryValidationError (''repository '' @ repo_id @ '' changed outside configured writable roots: ''
               @ list_repr (sorted_set unexpected))))"

text \<open>
  The manifest is a dictionary on the relative path: of two entries with one path the later counts.
\<close>

definition manifest_of :: "repository_snapshot \<Rightarrow> (string, manifest_entry) dict" where
  "manifest_of s = dict_of (map (\<lambda>m. (me_relative_path m, m)) (sn_evidence s))"

definition evidence_candidates ::
  "repository_definition \<Rightarrow> (string, manifest_entry) dict \<Rightarrow> string \<Rightarrow> manifest_entry list" where
  "evidence_candidates repository manifest relative_path =
     concat (map (\<lambda>root. case dget manifest (as_posix (path_join (pure_posix_path root) (pure_posix_path relative_path))) of
         None \<Rightarrow> [] | Some m \<Rightarrow> [m]) (repo_evidence_roots repository))"

definition unsupported_evidence :: "repository_snapshot \<Rightarrow> exn + unit" where
  "unsupported_evidence s =
     raise_if (list_ex (\<lambda>m. me_file_type m \<noteq> Manifest_file) (sn_evidence s))
       (RepositoryValidationError ''evidence manifest contains an unsupported symlink'')"

definition resolve_evidence ::
  "config \<Rightarrow> string \<Rightarrow> repository_snapshot \<Rightarrow> string \<Rightarrow> string \<Rightarrow> exn + manifest_entry" where
  "resolve_evidence c repo_id s artifact_id relative_path =
     bindr (config_repository c repo_id) (\<lambda>repository.
       case evidence_candidates repository (manifest_of s) relative_path of
         [m] \<Rightarrow> Inr m
       | _ \<Rightarrow> Inl (RepositoryValidationError (''evidence artifact '' @ artifact_id
                @ '' must resolve to exactly one registered evidence path'')))"

definition check_evidence_content ::
  "config \<Rightarrow> string \<Rightarrow> repository_snapshot \<Rightarrow> artifact_record \<Rightarrow> exn + unit" where
  "check_evidence_content c repo_id s a =
     bindr (resolve_evidence c repo_id s (ar_artifact_id a) (ar_relative_path a)) (\<lambda>m.
       raise_if (me_sha256 m \<noteq> ar_sha256 a \<or> me_size_bytes m \<noteq> ar_size_bytes a)
         (RepositoryValidationError (''evidence artifact '' @ ar_artifact_id a
            @ '' does not match the inspected content manifest'')))"

definition validate_evidence ::
  "config \<Rightarrow> string \<Rightarrow> repository_snapshot \<Rightarrow> artifact_record list \<Rightarrow> exn + unit" where
  "validate_evidence c repo_id s evidence =
     bindr (unsupported_evidence s) (\<lambda>_. for_each (check_evidence_content c repo_id s) evidence)"

definition check_required_commit :: "repository_snapshot \<Rightarrow> executor_result \<Rightarrow> exn + unit" where
  "check_required_commit later result =
     (if \<not> sn_clean later then
        Inl (RepositoryValidationError (''committing repository policy rejects uncommitted executor changes: ''
          @ list_repr (change_paths (sn_changes later))))
      else raise_if (rcd_result_revision (er_repository result) \<noteq> Some (sn_revision later)
                     \<or> rcd_patch_sha256 (er_repository result) \<noteq> None)
        (RepositoryValidationError ''executor result must report the inspected committed revision only''))"

definition check_working_patch :: "string \<Rightarrow> repository_snapshot \<Rightarrow> executor_result \<Rightarrow> exn + unit" where
  "check_working_patch patch later result =
     (if sn_clean later \<or> rcd_patch_sha256 (er_repository result) \<noteq> Some patch then
        Inl (RepositoryValidationError
          ''non-committing repository policy requires the exact inspected patch SHA-256'')
      else raise_if (rcd_result_revision (er_repository result) \<noteq> None
                     \<and> rcd_result_revision (er_repository result) \<noteq> Some (sn_revision later))
        (RepositoryValidationError ''executor result revision does not match the inspected repository''))"

definition validate_executor_snapshot ::
  "config \<Rightarrow> exn + string \<Rightarrow> repository_coordinate \<Rightarrow> repository_snapshot \<Rightarrow> repository_snapshot
   \<Rightarrow> executor_result \<Rightarrow> exn + unit" where
  "validate_executor_snapshot c patch coordinate earlier later result =
     bindr (validate_snapshot_identity coordinate later) (\<lambda>_.
     bindr (validate_external_roots earlier later) (\<lambda>_.
     bindr (validate_git_metadata_unchanged earlier later False) (\<lambda>_.
     bindr (config_repository c (rc_repo_id coordinate)) (\<lambda>repository.
     bindr (if repo_commit_policy repository = Commit_required then check_required_commit later result
            else bindr patch (\<lambda>p. check_working_patch p later result)) (\<lambda>_.
     bindr (validate_changed_paths c (rc_repo_id coordinate) (sn_changes later)) (\<lambda>_.
       validate_evidence c (rc_repo_id coordinate) later (er_evidence result)))))))"

definition outside_scopes :: "string list \<Rightarrow> string list \<Rightarrow> exn + string list" where
  "outside_scopes scopes paths =
     bindr (map_result (\<lambda>p. bindr (writable_path_allows scopes p) (\<lambda>ok. Inr (if ok then [] else [p]))) paths)
       (\<lambda>parts. Inr (concat parts))"

definition unsupported_changes :: "(string \<Rightarrow> bool) \<Rightarrow> repository_change list \<Rightarrow> string list" where
  "unsupported_changes symlink changes =
     concat (map (\<lambda>h. filter (\<lambda>p. ch_mode_changed h \<or> symlink p) (ch_paths h)) changes)"

definition validate_changed_parent_paths :: "(string \<Rightarrow> bool) \<Rightarrow> string list \<Rightarrow> exn + unit" where
  "validate_changed_parent_paths outside paths =
     for_each (\<lambda>p. raise_if (outside p) (RepositoryValidationError
       (''executor changed path traverses outside registered worktree: '' @ p))) paths"

definition validate_pending_executor_changes ::
  "config \<Rightarrow> (string \<Rightarrow> bool) \<Rightarrow> (string \<Rightarrow> bool) \<Rightarrow> repository_coordinate \<Rightarrow> repository_snapshot
   \<Rightarrow> repository_snapshot \<Rightarrow> string list \<Rightarrow> bool \<Rightarrow> exn + string list" where
  "validate_pending_executor_changes c symlink outside coordinate earlier later writable_paths require_changes =
     bindr (validate_snapshot_identity coordinate later) (\<lambda>_.
     bindr (validate_external_roots earlier later) (\<lambda>_.
     bindr (validate_git_metadata_unchanged earlier later True) (\<lambda>_.
     if sn_revision later \<noteq> rc_base_revision coordinate \<or> sn_revision earlier \<noteq> rc_base_revision coordinate then
       Inl (RepositoryValidationError ''repository HEAD moved after dispatch preparation'')
     else if require_changes \<and> sn_changes later = [] then
       Inl (RepositoryValidationError ''completed required-commit proposal produced no changes'')
     else if list_ex (\<lambda>h. ch_index_status h \<notin> {'' '', ''?''}) (sn_changes later) then
       Inl (RepositoryValidationError ''executor must not stage repository changes'')
     else
       let unsupported = unsupported_changes symlink (sn_changes later);
           paths = sorted_set (change_paths (sn_changes later))
       in if unsupported \<noteq> [] then
            Inl (RepositoryValidationError (''executor changes contain a mode change or symlink: ''
              @ join_text '', '' (sorted_set unsupported)))
          else
            bindr (outside_scopes writable_paths paths) (\<lambda>unexpected.
            if unexpected \<noteq> [] then
              Inl (RepositoryValidationError (''executor changed paths outside step writable_paths: ''
                @ join_text '', '' (sort unexpected)))
            else
              bindr (outside_scopes writable_paths
                       (filter (\<lambda>p. p \<notin> set (sn_ignored earlier)) (sn_ignored later))) (\<lambda>unexpected_ignored.
              if unexpected_ignored \<noteq> [] then
                Inl (RepositoryValidationError (''executor created ignored paths outside step writable_paths: ''
                  @ join_text '', '' (sort unexpected_ignored)))
              else
                bindr (validate_changed_paths c (rc_repo_id coordinate) (sn_changes later)) (\<lambda>_.
                bindr (validate_changed_parent_paths outside paths) (\<lambda>_.
                  Inr paths)))))))"

definition artifact_of ::
  "config \<Rightarrow> string \<Rightarrow> repository_snapshot \<Rightarrow> proposal_evidence \<Rightarrow> exn + artifact_record" where
  "artifact_of c repo_id s declaration =
     bindr (resolve_evidence c repo_id s (pe_artifact_id declaration) (pe_relative_path declaration)) (\<lambda>m.
       checked artifact_record_errors
         \<lparr>ar_artifact_id = pe_artifact_id declaration, ar_relative_path = pe_relative_path declaration,
          ar_sha256 = me_sha256 m, ar_media_type = pe_media_type declaration, ar_size_bytes = me_size_bytes m\<rparr>)"

definition authoritative_evidence ::
  "config \<Rightarrow> string \<Rightarrow> repository_snapshot \<Rightarrow> evidence_requirement list \<Rightarrow> proposal_evidence list
   \<Rightarrow> exn + artifact_record list" where
  "authoritative_evidence c repo_id s requirements declarations =
     (if map (\<lambda>e. (pe_artifact_id e, pe_relative_path e, pe_media_type e)) declarations
           \<noteq> map (\<lambda>e. (ev_artifact_id e, ev_relative_path e, ev_media_type e)) requirements then
        Inl (RepositoryValidationError
          ''executor proposal evidence declarations do not exactly match plan requirements'')
      else bindr (unsupported_evidence s) (\<lambda>_. map_result (artifact_of c repo_id s) declarations))"

definition validate_review_snapshot ::
  "config \<Rightarrow> exn + string \<Rightarrow> repository_coordinate \<Rightarrow> repository_snapshot \<Rightarrow> repository_snapshot
   \<Rightarrow> review_target \<Rightarrow> exn + unit" where
  "validate_review_snapshot c patch coordinate earlier later target =
     bindr (validate_snapshot_identity coordinate later) (\<lambda>_.
     bindr (validate_external_roots earlier later) (\<lambda>_.
     bindr (validate_git_metadata_unchanged earlier later False) (\<lambda>_.
     bindr (config_repository c (rc_repo_id coordinate)) (\<lambda>repository.
     bindr (if repo_commit_policy repository = Commit_required then
              if \<not> sn_clean later then
                Inl (RepositoryValidationError ''review repository changed after executor result'')
              else raise_if (rt_result_revision target \<noteq> Some (sn_revision later) \<or> rt_patch_sha256 target \<noteq> None)
                (RepositoryValidationError ''review target no longer matches the inspected repository revision'')
            else bindr patch (\<lambda>p. raise_if (sn_clean later \<or> rt_patch_sha256 target \<noteq> Some p)
              (RepositoryValidationError ''review target no longer matches the inspected repository patch''))) (\<lambda>_.
       raise_if (\<not> set (rt_artifact_hashes target)
                   \<subseteq> set (map me_sha256 (filter (\<lambda>m. me_file_type m = Manifest_file) (sn_evidence later))))
         (RepositoryValidationError
           ''review target evidence hashes no longer match the repository manifest''))))))"

section \<open>Reading Git's reports\<close>

text \<open>
  \<open>raw.split("\0")\<close> of \<open>git status --porcelain=v1 -z\<close> is the list of fields. An entry is two status
  characters, a space and a path; a rename is followed by the field of its old path. \<open>modes\<close> are the paths
  whose mode \<open>git diff --raw\<close> reports as changed.
\<close>

definition status_change_type :: "string \<Rightarrow> change_type" where
  "status_change_type status =
     (let code = filter (\<lambda>ch. ch \<noteq> CHR '' '') status in
      if CHR ''R'' \<in> set code then Renamed
      else if status = ''??'' then Untracked
      else if CHR ''D'' \<in> set code then Deleted
      else if CHR ''A'' \<in> set code then Created
      else Modified)"

definition reported_change :: "string list \<Rightarrow> string \<Rightarrow> string list \<Rightarrow> repository_change" where
  "reported_change modes status paths =
     \<lparr>ch_change_type = status_change_type status, ch_paths = paths, ch_index_status = [status ! 0],
      ch_worktree_status = [status ! 1], ch_mode_changed = list_ex (\<lambda>p. p \<in> set modes) paths\<rparr>"

definition add_change ::
  "repository_change \<Rightarrow> exn + repository_change list \<times> string list
   \<Rightarrow> exn + repository_change list \<times> string list" where
  "add_change h further =
     bindr (checked repository_change_errors h) (\<lambda>h. bindr further (\<lambda>(changes, ignored). Inr (h # changes, ignored)))"

fun git_changes :: "string list \<Rightarrow> string list \<Rightarrow> exn + repository_change list \<times> string list" where
  "git_changes modes [] = Inr ([], [])"
| "git_changes modes (field # rest) =
     (if field = [] then git_changes modes rest
      else if length field < 4 then
        Inl (RepositoryValidationError ''Git status returned malformed porcelain output'')
      else
        let status = take 2 field; first_path = drop 3 field in
        if status = ''!!'' then
          bindr (git_changes modes rest) (\<lambda>(changes, ignored). Inr (changes, first_path # ignored))
        else if CHR ''C'' \<in> set status then
          Inl (RepositoryValidationError ''Git copy status is unsupported for executor changes'')
        else if CHR ''R'' \<in> set status then
          (case rest of
             [] \<Rightarrow> Inl (RepositoryValidationError ''Git rename status omitted its paired path'')
           | old_path # rest_after \<Rightarrow>
               if old_path = [] then
                 Inl (RepositoryValidationError ''Git rename status omitted its paired path'')
               else add_change (reported_change modes status [first_path, old_path]) (git_changes modes rest_after))
        else add_change (reported_change modes status [first_path]) (git_changes modes rest))"

text \<open>\<open>text.split()\<close>: the words between runs of white space.\<close>

fun words_from :: "string \<Rightarrow> string \<Rightarrow> string list" where
  "words_from word [] = (if word = [] then [] else [word])"
| "words_from word (ch # rest) =
     (if is_space ch then (if word = [] then words_from [] rest else word # words_from [] rest)
      else words_from (word @ [ch]) rest)"

fun git_mode_changes :: "string list \<Rightarrow> exn + string list" where
  "git_mode_changes [] = Inr []"
| "git_mode_changes (field # rest) =
     (let metadata = dropWhile (\<lambda>ch. ch = CHR 0x0A) field in
      if metadata = [] then git_mode_changes rest
      else if hd metadata \<noteq> CHR '':'' then
        Inl (RepositoryValidationError ''Git raw diff returned malformed output'')
      else (case rest of
          [] \<Rightarrow> Inl (RepositoryValidationError ''Git raw diff returned malformed output'')
        | path # rest_after \<Rightarrow>
            (case words_from [] (tl metadata) of
               [old_mode, new_mode, _, _, _] \<Rightarrow>
                 bindr (git_mode_changes rest_after) (\<lambda>changed.
                   Inr (if old_mode \<noteq> new_mode then path # changed else changed))
             | _ \<Rightarrow> Inl (RepositoryValidationError ''Git raw diff metadata is malformed''))))"

section \<open>What an accepted observation is\<close>

lemma set_sorted_set [simp]: "set (sorted_set xs) = set xs"
  by (simp add: sorted_set_def)

lemma validate_snapshot_identity_Inr [ok_dests]:
  "validate_snapshot_identity coordinate s = Inr u \<longleftrightarrow>
     rc_repo_id coordinate = sn_repo_id s \<and> rc_working_branch coordinate = Some (sn_branch s)
     \<and> rc_worktree_id coordinate = Some (sn_worktree_id s) \<and> rc_remote_name coordinate = Some (sn_remote_name s)
     \<and> rc_remote_url coordinate = Some (sn_remote_url s)"
  by (simp add: validate_snapshot_identity_def identity_mismatch_def raise_if_Inr)

lemma validate_external_roots_Inr [ok_dests]:
  "validate_external_roots earlier later = Inr u \<longleftrightarrow> sn_external earlier = sn_external later"
  by (simp add: validate_external_roots_def raise_if_Inr)

lemma validate_git_metadata_Inr [ok_dests]:
  "validate_git_metadata_unchanged earlier later refs = Inr u \<longleftrightarrow>
     sn_git_metadata_sha256 earlier = sn_git_metadata_sha256 later
     \<and> (refs \<longrightarrow> sn_git_refs_sha256 earlier = sn_git_refs_sha256 later)"
  by (auto simp: validate_git_metadata_unchanged_def raise_if_Inr)

lemma outside_scopes_Nil:
  "outside_scopes scopes paths = Inr [] \<longleftrightarrow> (\<forall>p \<in> set paths. writable_path_allows scopes p = Inr True)"
proof (induction paths)
  case (Cons p paths)
  then show ?case
    by (cases "writable_path_allows scopes p") (auto simp: outside_scopes_def bindr_Inr_iff)
qed (simp add: outside_scopes_def)

lemma validate_changed_paths_Inr:
  "validate_changed_paths c repo_id changes = Inr u \<longleftrightarrow>
     (\<exists>repository. config_repository c repo_id = Inr repository
        \<and> (\<forall>p \<in> set (change_paths changes). within_roots (repo_writable_roots repository) p))"
  by (auto simp: validate_changed_paths_def bindr_Inr_iff Let_def raise_if_Inr filter_empty_conv)

lemma unsupported_changes_Nil:
  "unsupported_changes symlink changes = [] \<longleftrightarrow>
     (\<forall>h \<in> set changes. \<forall>p \<in> set (ch_paths h). \<not> ch_mode_changed h \<and> \<not> symlink p)"
  by (auto simp: unsupported_changes_def filter_empty_conv)

lemma validate_changed_parent_paths_Inr:
  "validate_changed_parent_paths outside paths = Inr u \<longleftrightarrow> (\<forall>p \<in> set paths. \<not> outside p)"
  by (cases u) (simp add: validate_changed_parent_paths_def for_each_Inr raise_if_Inr)

text \<open>What pending changes have to be before they are checked and staged.\<close>

definition pending_changes_ok ::
  "repository_definition \<Rightarrow> (string \<Rightarrow> bool) \<Rightarrow> (string \<Rightarrow> bool) \<Rightarrow> string list \<Rightarrow> repository_snapshot
   \<Rightarrow> repository_snapshot \<Rightarrow> bool" where
  "pending_changes_ok repository symlink outside scopes earlier later \<longleftrightarrow>
     (\<forall>h \<in> set (sn_changes later). ch_index_status h \<in> {'' '', ''?''}
        \<and> (\<forall>p \<in> set (ch_paths h). \<not> ch_mode_changed h \<and> \<not> symlink p \<and> \<not> outside p
             \<and> writable_path_allows scopes p = Inr True \<and> within_roots (repo_writable_roots repository) p))
     \<and> (\<forall>p \<in> set (sn_ignored later) - set (sn_ignored earlier). writable_path_allows scopes p = Inr True)"

lemma validate_pending_Inr:
  assumes "validate_pending_executor_changes c symlink outside coordinate earlier later scopes require_changes = Inr paths"
  obtains repository where "config_repository c (rc_repo_id coordinate) = Inr repository"
    "pending_changes_ok repository symlink outside scopes earlier later"
    "validate_snapshot_identity coordinate later = Inr ()" "sn_external earlier = sn_external later"
    "sn_git_metadata_sha256 earlier = sn_git_metadata_sha256 later"
    "sn_git_refs_sha256 earlier = sn_git_refs_sha256 later"
    "sn_revision later = rc_base_revision coordinate" "sn_revision earlier = rc_base_revision coordinate"
    "require_changes \<longrightarrow> sn_changes later \<noteq> []" "paths = sorted_set (change_paths (sn_changes later))"
proof -
  let ?paths = "sorted_set (change_paths (sn_changes later))"
  from assms have facts: "validate_snapshot_identity coordinate later = Inr ()" "sn_external earlier = sn_external later"
    "sn_git_metadata_sha256 earlier = sn_git_metadata_sha256 later"
    "sn_git_refs_sha256 earlier = sn_git_refs_sha256 later"
    "sn_revision later = rc_base_revision coordinate" "sn_revision earlier = rc_base_revision coordinate"
    "require_changes \<longrightarrow> sn_changes later \<noteq> []"
    and index: "\<not> list_ex (\<lambda>h. ch_index_status h \<notin> {'' '', ''?''}) (sn_changes later)"
    and plain: "unsupported_changes symlink (sn_changes later) = []"
    and scopes: "outside_scopes scopes ?paths = Inr []"
      "outside_scopes scopes (filter (\<lambda>p. p \<notin> set (sn_ignored earlier)) (sn_ignored later)) = Inr []"
    and roots: "validate_changed_paths c (rc_repo_id coordinate) (sn_changes later) = Inr ()"
    and parents: "validate_changed_parent_paths outside ?paths = Inr ()" and paths: "paths = ?paths"
    unfolding validate_pending_executor_changes_def Let_def ok_dests not_not de_Morgan_conj sum.inject by auto
  from roots obtain repository where repository: "config_repository c (rc_repo_id coordinate) = Inr repository"
    "\<forall>p \<in> set (change_paths (sn_changes later)). within_roots (repo_writable_roots repository) p"
    unfolding validate_changed_paths_Inr by blast
  have member: "p \<in> set (change_paths (sn_changes later))" if "h \<in> set (sn_changes later)" "p \<in> set (ch_paths h)" for h p
    using that by (auto simp: change_paths_def)
  have "pending_changes_ok repository symlink outside scopes earlier later"
    using index plain scopes parents repository(2) member
    unfolding pending_changes_ok_def unsupported_changes_Nil outside_scopes_Nil validate_changed_parent_paths_Inr
      set_sorted_set list_ex_iff by auto
  with repository(1) facts paths show thesis by (intro that)
qed

section \<open>Reports read back\<close>

text \<open>What Git writes for one entry: an ignored path, or a change with one path, or a rename with two.\<close>

datatype status_entry = Ignored_entry string | Change_entry string string | Rename_entry string string string

fun entry_fields :: "status_entry \<Rightarrow> string list" where
  "entry_fields (Ignored_entry path) = [''!! '' @ path]"
| "entry_fields (Change_entry status path) = [status @ '' '' @ path]"
| "entry_fields (Rename_entry status path old_path) = [status @ '' '' @ path, old_path]"

fun entry_ok :: "status_entry \<Rightarrow> bool" where
  "entry_ok (Ignored_entry path) \<longleftrightarrow> path \<noteq> []"
| "entry_ok (Change_entry status path) \<longleftrightarrow>
     length status = 2 \<and> status \<noteq> ''!!'' \<and> CHR ''C'' \<notin> set status \<and> CHR ''R'' \<notin> set status
     \<and> path \<noteq> [] \<and> plain_relative_path path"
| "entry_ok (Rename_entry status path old_path) \<longleftrightarrow>
     length status = 2 \<and> CHR ''C'' \<notin> set status \<and> CHR ''R'' \<in> set status
     \<and> path \<noteq> [] \<and> plain_relative_path path \<and> old_path \<noteq> [] \<and> plain_relative_path old_path"

fun entry_changes :: "string list \<Rightarrow> status_entry \<Rightarrow> repository_change list" where
  "entry_changes modes (Ignored_entry path) = []"
| "entry_changes modes (Change_entry status path) = [reported_change modes status [path]]"
| "entry_changes modes (Rename_entry status path old_path) = [reported_change modes status [path, old_path]]"

fun entry_ignored :: "status_entry \<Rightarrow> string list" where
  "entry_ignored (Ignored_entry path) = [path]"
| "entry_ignored entry = []"

lemma entry_field_parts:
  assumes "length status = 2"
  shows "take 2 (status @ CHR '' '' # path) = status" "drop 3 (status @ CHR '' '' # path) = path"
  using assms by (simp_all add: eval_nat_numeral)

lemma reported_change_ok:
  "length status = 2 \<Longrightarrow> paths \<noteq> [] \<Longrightarrow> list_all plain_relative_path paths \<Longrightarrow>
     repository_change_errors (reported_change modes status paths) = []"
  by (simp add: repository_change_errors_def reported_change_def length_between_def)

lemma git_changes_read_back:
  assumes "list_all entry_ok entries"
  shows "git_changes modes (concat (map entry_fields entries) @ [[]]) =
     Inr (concat (map (entry_changes modes) entries), concat (map entry_ignored entries))"
  using assms
proof (induction entries)
  case (Cons entry entries)
  have size: "path \<noteq> [] \<Longrightarrow> \<not> length (status @ CHR '' '' # path) < 4" if "length status = 2" for status path :: string
    using that by (cases path) auto
  show ?case
  proof (cases entry)
    case (Ignored_entry path)
    with Cons show ?thesis by (cases path) (auto simp: eval_nat_numeral)
  next
    case (Change_entry status path)
    with Cons have ok: "length status = 2" "path \<noteq> []" "plain_relative_path path" by auto
    with Cons Change_entry size [OF ok(1,2)] show ?thesis
      by (simp add: entry_field_parts add_change_def checked_ok reported_change_ok)
  next
    case (Rename_entry status path old_path)
    with Cons have ok: "length status = 2" "path \<noteq> []" "plain_relative_path path" "plain_relative_path old_path" by auto
    moreover have "status \<noteq> ''!!''" using Cons.prems Rename_entry by auto
    ultimately show ?thesis using Cons Rename_entry size [OF ok(1,2)]
      by (simp add: entry_field_parts add_change_def checked_ok reported_change_ok)
  qed
qed simp

end
