(* ===== verification/Transactions.thy ===== *)
theory Transactions
  imports Store_Life Leases Snapshots
begin

text \<open>
  Operations of more than one transaction. An action maps the state of the system to its outcome and the
  state it leaves: an exception keeps what the earlier transactions committed. The state is the store and
  the lease table, two groups of tables of one database, and what the machine outside it keeps (files and
  Git repositories, of a type \<open>'g\<close> the model leaves open). A relation that every transaction keeps is kept
  by every action built from them.
\<close>

section \<open>Actions\<close>

type_synonym ('s, 'a) action = "'s \<Rightarrow> (exn + 'a) \<times> 's"

text \<open>A value or an exception without any effect.\<close>

definition give :: "exn + 'a \<Rightarrow> ('s, 'a) action" where
  "give r = (\<lambda>s. (r, s))"

definition then_do :: "('s, 'a) action \<Rightarrow> ('a \<Rightarrow> ('s, 'b) action) \<Rightarrow> ('s, 'b) action" where
  "then_do m f = (\<lambda>s. case m s of (Inl e, s') \<Rightarrow> (Inl e, s') | (Inr x, s') \<Rightarrow> f x s')"

text \<open>\<open>try: m finally: f\<close> for an \<open>f\<close> that does not raise, and \<open>try: m except Exception as exc: h\<close>.\<close>

definition ensuring :: "('s, 'a) action \<Rightarrow> ('s \<Rightarrow> 's) \<Rightarrow> ('s, 'a) action" where
  "ensuring m f = (\<lambda>s. case m s of (r, s') \<Rightarrow> (r, f s'))"

definition catching :: "('s, 'a) action \<Rightarrow> (exn \<Rightarrow> ('s, 'a) action) \<Rightarrow> ('s, 'a) action" where
  "catching m h = (\<lambda>s. case m s of (Inl e, s') \<Rightarrow> h e s' | (Inr x, s') \<Rightarrow> (Inr x, s'))"

lemma give_eq [simp]: "give r s = (o', s') \<longleftrightarrow> o' = r \<and> s' = s"
  by (auto simp: give_def)

lemma then_do_Inr [simp]: "then_do m f s = (Inr y, s') \<longleftrightarrow> (\<exists>x s1. m s = (Inr x, s1) \<and> f x s1 = (Inr y, s'))"
  by (auto simp: then_do_def split: prod.splits sum.splits)

lemma if_give_Inr [ok_dests]: "(if b then give (Inl e) else m) s = (Inr y, s') \<longleftrightarrow> \<not> b \<and> m s = (Inr y, s')"
  by auto

lemma case_give_Inr [ok_dests]:
  "(case x of None \<Rightarrow> give (Inl e) | Some a \<Rightarrow> f a) s = (Inr y, s') \<longleftrightarrow> (\<exists>a. x = Some a \<and> f a s = (Inr y, s'))"
  by (cases x) auto

lemma then_do_Inl:
  "then_do m f s = (Inl e, s') \<longleftrightarrow> m s = (Inl e, s') \<or> (\<exists>x s1. m s = (Inr x, s1) \<and> f x s1 = (Inl e, s'))"
  by (auto simp: then_do_def split: prod.splits sum.splits)

lemma ensuring_eq [simp]: "ensuring m f s = (o', s') \<longleftrightarrow> (\<exists>s1. m s = (o', s1) \<and> s' = f s1)"
  by (auto simp: ensuring_def split: prod.splits)

lemma catching_eq:
  "catching m h s = (o', s') \<longleftrightarrow>
     (\<exists>x. o' = Inr x \<and> m s = (Inr x, s')) \<or> (\<exists>e s1. m s = (Inl e, s1) \<and> h e s1 = (o', s'))"
  by (auto simp: catching_def split: prod.splits sum.splits)

section \<open>The system\<close>

record 'g system =
  sy_store :: store
  sy_leases :: lease_table
  sy_disk :: 'g

definition query :: "(store \<Rightarrow> exn + 'a) \<Rightarrow> ('g system, 'a) action" where
  "query q = (\<lambda>s. (q (sy_store s), s))"

definition commit :: "(store \<Rightarrow> exn + 'a \<times> store) \<Rightarrow> ('g system, 'a) action" where
  "commit t = (\<lambda>s. case t (sy_store s) of Inl e \<Rightarrow> (Inl e, s) | Inr (x, st) \<Rightarrow> (Inr x, s\<lparr>sy_store := st\<rparr>))"

definition lock :: "(lease_table \<Rightarrow> exn + 'a \<times> lease_table) \<Rightarrow> ('g system, 'a) action" where
  "lock t = (\<lambda>s. case t (sy_leases s) of Inl e \<Rightarrow> (Inl e, s) | Inr (x, leases) \<Rightarrow> (Inr x, s\<lparr>sy_leases := leases\<rparr>))"

definition unlock :: "string \<Rightarrow> string list \<Rightarrow> 'g system \<Rightarrow> 'g system" where
  "unlock owner keys s = s\<lparr>sy_leases := release_leases owner keys (sy_leases s)\<rparr>"

lemma query_eq [simp]: "query q s = (o', s') \<longleftrightarrow> o' = q (sy_store s) \<and> s' = s"
  by (auto simp: query_def)

lemma commit_Inr [simp]: "commit t s = (Inr x, s') \<longleftrightarrow> (\<exists>st. t (sy_store s) = Inr (x, st) \<and> s' = s\<lparr>sy_store := st\<rparr>)"
  by (auto simp: commit_def split: sum.splits)

lemma commit_Inl [simp]: "commit t s = (Inl e, s') \<longleftrightarrow> t (sy_store s) = Inl e \<and> s' = s"
  by (auto simp: commit_def split: sum.splits)

lemma lock_Inr [simp]: "lock t s = (Inr x, s') \<longleftrightarrow> (\<exists>l. t (sy_leases s) = Inr (x, l) \<and> s' = s\<lparr>sy_leases := l\<rparr>)"
  by (auto simp: lock_def split: sum.splits)

lemma lock_Inl [simp]: "lock t s = (Inl e, s') \<longleftrightarrow> t (sy_leases s) = Inl e \<and> s' = s"
  by (auto simp: lock_def split: sum.splits)

text \<open>An action of the machine outside the store.\<close>

definition on_disk :: "('g, 'a) action \<Rightarrow> ('g system, 'a) action" where
  "on_disk m = (\<lambda>s. case m (sy_disk s) of (o', g) \<Rightarrow> (o', s\<lparr>sy_disk := g\<rparr>))"

lemma on_disk_eq [simp]: "on_disk m s = (o', s') \<longleftrightarrow> (\<exists>g. m (sy_disk s) = (o', g) \<and> s' = s\<lparr>sy_disk := g\<rparr>)"
  by (auto simp: on_disk_def split: prod.splits)

definition asks :: "('s \<Rightarrow> 'a) \<Rightarrow> ('s, 'a) action" where
  "asks f = (\<lambda>s. (Inr (f s), s))"

lemma asks_eq [simp]: "asks f s = (o', s') \<longleftrightarrow> o' = Inr (f s) \<and> s' = s"
  by (auto simp: asks_def)

text \<open>A loop over a list that collects the values of its body.\<close>

fun each_do :: "('a \<Rightarrow> ('s, 'b) action) \<Rightarrow> 'a list \<Rightarrow> ('s, 'b list) action" where
  "each_do f [] = give (Inr [])"
| "each_do f (x # xs) = then_do (f x) (\<lambda>y. then_do (each_do f xs) (\<lambda>ys. give (Inr (y # ys))))"

text \<open>The exception an effect raises after it.\<close>

definition unlock_and_raise :: "string \<Rightarrow> string list \<Rightarrow> exn \<Rightarrow> ('g system, 'a) action" where
  "unlock_and_raise owner keys e = (\<lambda>s. (Inl e, unlock owner keys s))"

lemma unlock_and_raise_eq [simp]: "unlock_and_raise owner keys e s = (o', s') \<longleftrightarrow> o' = Inl e \<and> s' = unlock owner keys s"
  by (auto simp: unlock_and_raise_def)

text \<open>\<open>store.release_leases\<close> as a statement.\<close>

definition release :: "string \<Rightarrow> string list \<Rightarrow> ('g system, unit) action" where
  "release owner keys = (\<lambda>s. (Inr (), unlock owner keys s))"

lemma release_eq [simp]: "release owner keys s = (o', s') \<longleftrightarrow> o' = Inr () \<and> s' = unlock owner keys s"
  by (auto simp: release_def)

text \<open>\<open>save_run\<close> with the record it stored.\<close>

definition saved :: "int \<Rightarrow> run_record \<Rightarrow> int \<Rightarrow> ('g system, run_record \<times> int) action" where
  "saved now r g = then_do (commit (save_run r g no_extras now)) (\<lambda>g'. give (Inr (r, g')))"

section \<open>The machine\<close>

text \<open>
  What the operating system answers: the process and host of the dispatcher, the lease settings with the
  clock, whether the process of a dispatch is gone, and whether the plan sources are unchanged.
\<close>

record world =
  wo_pid :: int
  wo_host :: string
  wo_stale_after :: int
  wo_clock :: "string \<Rightarrow> int"
  wo_process_gone :: "int \<Rightarrow> bool"
  wo_sources :: "normalized_plan \<Rightarrow> exn + unit"

definition acquire :: "world \<Rightarrow> string \<Rightarrow> string \<Rightarrow> string list \<Rightarrow> int \<Rightarrow> ('g system, (string \<times> lease) list) action" where
  "acquire w run_id owner keys now = lock (acquire_resource_leases (wo_stale_after w) (wo_clock w)
     \<lparr>cl_owner_id = owner, cl_owner_pid = wo_pid w, cl_owner_host = wo_host w, cl_run_id = run_id,
      cl_recovery_approved_by = None\<rparr> now keys)"

text \<open>\<open>type(exc).__name__\<close> and \<open>str(exc)\<close>.\<close>

fun exn_class :: "exn \<Rightarrow> string" where
  "exn_class (KeyError _) = ''KeyError''"
| "exn_class StopIteration = ''StopIteration''"
| "exn_class (ValueError _) = ''ValueError''"
| "exn_class (ValidationError _) = ''ValidationError''"
| "exn_class (TransitionError _) = ''TransitionError''"
| "exn_class (ConfigError _) = ''ConfigError''"
| "exn_class (PlanError _) = ''PlanError''"
| "exn_class (PolicyError _) = ''PolicyError''"
| "exn_class (SchedulingError _) = ''SchedulingError''"
| "exn_class (ResultError _) = ''ResultError''"
| "exn_class (PermissionError _) = ''PermissionError''"
| "exn_class (LifecycleError _) = ''LifecycleError''"
| "exn_class (StateStoreError _) = ''StateStoreError''"
| "exn_class (StateStoreConflictError _) = ''StateStoreConflictError''"
| "exn_class (StateStoreCorruptionError _) = ''StateStoreCorruptionError''"
| "exn_class (LeaseConflictError _) = ''LeaseConflictError''"
| "exn_class (StaleLeaseRecoveryRequired _) = ''StaleLeaseRecoveryRequired''"
| "exn_class (RecoveryRequiredError _) = ''RecoveryRequiredError''"
| "exn_class (SequentialWorkflowError _) = ''SequentialWorkflowError''"
| "exn_class (SupervisorCommandRejectedError _) = ''SupervisorCommandRejectedError''"
| "exn_class (WorkerResultValidationError _) = ''WorkerResultValidationError''"
| "exn_class (MCPCompileError _) = ''MCPCompileError''"
| "exn_class (ProtocolError _) = ''ProtocolError''"
| "exn_class (VerificationError _) = ''VerificationError''"
| "exn_class (ExecutionCoordinatorError _) = ''ExecutionCoordinatorError''"
| "exn_class (RepositoryValidationError _) = ''RepositoryValidationError''"
| "exn_class (StructuredGitError _) = ''StructuredGitError''"
| "exn_class (WorkspaceError _) = ''WorkspaceError''"
| "exn_class (OpenCodeProtocolError _) = ''OpenCodeProtocolError''"
| "exn_class (DuplicateKeyError _) = ''DuplicateKeyError''"

fun exn_text :: "exn \<Rightarrow> string" where
  "exn_text (KeyError key) = repr_text key"
| "exn_text StopIteration = []"
| "exn_text (ValueError m) = m"
| "exn_text (ValidationError es) = join_text ''; '' (map verror_text es)"
| "exn_text (TransitionError m) = m"
| "exn_text (ConfigError m) = m"
| "exn_text (PlanError m) = m"
| "exn_text (PolicyError m) = m"
| "exn_text (SchedulingError ms) = join_text ''; '' ms"
| "exn_text (ResultError m) = m"
| "exn_text (PermissionError m) = m"
| "exn_text (LifecycleError m) = m"
| "exn_text (StateStoreError m) = m"
| "exn_text (StateStoreConflictError m) = m"
| "exn_text (StateStoreCorruptionError m) = m"
| "exn_text (LeaseConflictError m) = m"
| "exn_text (StaleLeaseRecoveryRequired m) = m"
| "exn_text (RecoveryRequiredError m) = m"
| "exn_text (SequentialWorkflowError m) = m"
| "exn_text (SupervisorCommandRejectedError m) = m"
| "exn_text (WorkerResultValidationError m) = m"
| "exn_text (MCPCompileError m) = m"
| "exn_text (ProtocolError m) = m"
| "exn_text (VerificationError m) = m"
| "exn_text (ExecutionCoordinatorError m) = m"
| "exn_text (RepositoryValidationError m) = m"
| "exn_text (StructuredGitError m) = m"
| "exn_text (WorkspaceError m) = m"
| "exn_text (OpenCodeProtocolError m) = m"
| "exn_text (DuplicateKeyError m) = m"

section \<open>What every transaction keeps\<close>

text \<open>
  \<open>rel s s'\<close>: from \<open>s\<close> the system may get to \<open>s'\<close>. An action keeps the relation when it relates every
  state to the one it leaves, whatever the outcome.
\<close>

locale transactional =
  fixes rel :: "'s \<Rightarrow> 's \<Rightarrow> bool"
  assumes rel_refl: "rel s s"
    and rel_trans: "rel s s' \<Longrightarrow> rel s' s'' \<Longrightarrow> rel s s''"
begin

definition keeps :: "('s, 'a) action \<Rightarrow> bool" where
  "keeps m \<longleftrightarrow> (\<forall>s. rel s (snd (m s)))"

lemma keepsI: "(\<And>s o' s'. m s = (o', s') \<Longrightarrow> rel s s') \<Longrightarrow> keeps m"
  unfolding keeps_def by (metis prod.collapse)

lemma keepsD: "keeps m \<Longrightarrow> m s = (o', s') \<Longrightarrow> rel s s'"
  unfolding keeps_def by (metis snd_conv)

lemma keeps_give: "keeps (give r)"
  by (rule keepsI) (auto intro: rel_refl)

lemma keeps_then:
  assumes "keeps m" "\<And>x. keeps (f x)" shows "keeps (then_do m f)"
proof (rule keepsI)
  fix s o' s'
  assume finished: "then_do m f s = (o', s')"
  obtain x s1 where m: "m s = (x, s1)" by fastforce
  show "rel s s'"
  proof (cases x)
    case (Inl e)
    with m finished keepsD [OF assms(1) m] show ?thesis by (simp add: then_do_def)
  next
    case (Inr y)
    with m finished have "f y s1 = (o', s')" by (simp add: then_do_def)
    from rel_trans [OF keepsD [OF assms(1) m] keepsD [OF assms(2) this]] show ?thesis .
  qed
qed

lemma keeps_ensuring:
  assumes "keeps m" "\<And>s. rel s (f s)" shows "keeps (ensuring m f)"
proof (rule keepsI)
  fix s o' s'
  assume "ensuring m f s = (o', s')"
  then obtain s1 where "m s = (o', s1)" "s' = f s1" by auto
  with rel_trans [OF keepsD [OF assms(1)] assms(2)] show "rel s s'" by blast
qed

lemma keeps_catching:
  assumes "keeps m" "\<And>e. keeps (h e)" shows "keeps (catching m h)"
proof (rule keepsI)
  fix s o' s'
  assume "catching m h s = (o', s')"
  then consider x where "m s = (Inr x, s')" | e s1 where "m s = (Inl e, s1)" "h e s1 = (o', s')"
    by (auto simp: catching_eq)
  then show "rel s s'"
    by cases (blast intro: keepsD [OF assms(1)] rel_trans keepsD [OF assms(2)])+
qed

lemma keeps_if: "(b \<Longrightarrow> keeps m) \<Longrightarrow> (\<not> b \<Longrightarrow> keeps m') \<Longrightarrow> keeps (if b then m else m')"
  by simp

lemma keeps_option:
  "(x = None \<Longrightarrow> keeps m) \<Longrightarrow> (\<And>y. x = Some y \<Longrightarrow> keeps (f y)) \<Longrightarrow> keeps (case x of None \<Rightarrow> m | Some y \<Rightarrow> f y)"
  by (cases x) auto

lemma keeps_prod: "(\<And>a b. keeps (f a b)) \<Longrightarrow> keeps (case p of (a, b) \<Rightarrow> f a b)"
  by (cases p) auto

lemma keeps_let: "(\<And>x. keeps (f x)) \<Longrightarrow> keeps (Let x f)"
  by (simp add: Let_def)

lemma keeps_each: "(\<And>x. keeps (f x)) \<Longrightarrow> keeps (each_do f xs)"
  by (induction xs) (auto intro: keeps_give keeps_then)

lemma keeps_asks: "keeps (asks f)"
  by (rule keepsI) (auto intro: rel_refl)

lemma keeps_case_sum:
  "(\<And>e. keeps (f e)) \<Longrightarrow> (\<And>x. keeps (g x)) \<Longrightarrow> keeps (case r of Inl e \<Rightarrow> f e | Inr x \<Rightarrow> g x)"
  by (cases r) auto

lemma keeps_prod_app: "(\<And>a b. keeps (f a b y)) \<Longrightarrow> keeps ((case p of (a, b) \<Rightarrow> f a b) y)"
  by (cases p) auto

lemmas keeps_rules = keeps_prod_app keeps_each keeps_asks keeps_case_sum keeps_give keeps_then keeps_ensuring keeps_catching keeps_if keeps_option keeps_prod keeps_let

end

section \<open>The two relations of the system\<close>

definition store_moves :: "'g system \<Rightarrow> 'g system \<Rightarrow> bool" where
  "store_moves s s' \<longleftrightarrow> store_steps (sy_store s) (sy_store s')"

interpretation moves: transactional store_moves
  by unfold_locales (auto simp: store_moves_def)

lemma moves_query: "moves.keeps (query q)"
  by (rule moves.keepsI) (auto simp: store_moves_def)

lemma moves_commit:
  assumes "\<And>st x st'. t st = Inr (x, st') \<Longrightarrow> store_step st st'"
  shows "moves.keeps (commit t)"
proof (rule moves.keepsI)
  fix s o' s'
  assume "commit t s = (o', s')"
  then show "store_moves s s'" using assms by (cases o') (auto simp: store_moves_def)
qed

lemma moves_lock: "moves.keeps (lock t)"
proof (rule moves.keepsI)
  fix s o' s'
  assume "lock t s = (o', s')"
  then show "store_moves s s'" by (cases o') (auto simp: store_moves_def)
qed

lemma moves_unlock: "store_moves s (unlock owner keys s)"
  by (simp add: store_moves_def unlock_def)

lemma moves_saved: "moves.keeps (saved now r g)"
  unfolding saved_def by (intro moves.keeps_rules moves_commit) (erule step_save_run)

lemma moves_on_disk: "moves.keeps (on_disk m)"
  by (rule moves.keepsI) (auto simp: store_moves_def)

lemma moves_release: "moves.keeps (release owner keys)"
  by (rule moves.keepsI) (auto simp: store_moves_def unlock_def)

lemma moves_unlock_and_raise: "moves.keeps (unlock_and_raise owner keys e)"
  by (rule moves.keepsI) (auto simp: store_moves_def unlock_def)

lemma moves_acquire: "moves.keeps (acquire w run_id owner keys now)"
  by (simp add: acquire_def moves_lock)

lemmas moves_rules = moves.keeps_rules moves_on_disk moves_query moves_unlock moves_saved moves_release moves_unlock_and_raise
  moves_acquire

text \<open>The leases of an owner outside \<open>owners\<close> stay.\<close>

definition leases_stay :: "string set \<Rightarrow> 'g system \<Rightarrow> 'g system \<Rightarrow> bool" where
  "leases_stay owners s s' \<longleftrightarrow>
     (\<forall>k b. b \<notin> owners \<longrightarrow> holder (sy_leases s) k = Some b \<longrightarrow> holder (sy_leases s') k = Some b)"

interpretation stay: transactional "leases_stay owners" for owners
  by unfold_locales (auto simp: leases_stay_def)

lemma stay_query: "stay.keeps owners (query q)"
  by (rule stay.keepsI) (auto simp: leases_stay_def)

lemma stay_commit: "stay.keeps owners (commit t)"
proof (rule stay.keepsI)
  fix s o' s'
  assume "commit t s = (o', s')"
  then show "leases_stay owners s s'" by (cases o') (auto simp: leases_stay_def)
qed

lemma stay_unlock: "owner \<in> owners \<Longrightarrow> leases_stay owners s (unlock owner keys s)"
  by (auto simp: leases_stay_def unlock_def intro: holder_release_other)

lemma stay_lock:
  assumes "cl_owner_id c \<in> owners" "\<not> takeover_approved c"
  shows "stay.keeps owners (lock (acquire_resource_leases stale_after clock c now keys))"
proof (rule stay.keepsI)
  fix s o' s'
  assume finished: "lock (acquire_resource_leases stale_after clock c now keys) s = (o', s')"
  show "leases_stay owners s s'"
  proof (cases o')
    case (Inr held)
    with finished obtain l where l: "acquire_resource_leases stale_after clock c now keys (sy_leases s) = Inr (held, l)"
      "s' = s\<lparr>sy_leases := l\<rparr>" by auto
    from step_acquire [OF l(1)] assms(2) have "lease_step (cl_owner_id c) False (sy_leases s) l" by simp
    with l(2) assms(1) show ?thesis by (auto simp: leases_stay_def intro: lease_step_keeps)
  qed (use finished in \<open>auto simp: leases_stay_def\<close>)
qed

lemma stay_saved: "stay.keeps owners (saved now r g)"
  unfolding saved_def by (intro stay.keeps_rules stay_commit)

lemma stay_on_disk: "stay.keeps owners (on_disk m)"
  by (rule stay.keepsI) (auto simp: leases_stay_def)

lemma stay_release: "owner \<in> owners \<Longrightarrow> stay.keeps owners (release owner keys)"
  by (rule stay.keepsI) (auto intro: stay_unlock)

lemma stay_unlock_and_raise: "owner \<in> owners \<Longrightarrow> stay.keeps owners (unlock_and_raise owner keys e)"
  by (rule stay.keepsI) (auto intro: stay_unlock)

lemma stay_acquire: "owner \<in> owners \<Longrightarrow> stay.keeps owners (acquire w run_id owner keys now)"
  unfolding acquire_def by (rule stay_lock) (auto simp: takeover_approved_def)

lemmas stay_rules = stay.keeps_rules stay_on_disk stay_query stay_commit stay_unlock stay_saved stay_release stay_unlock_and_raise
  stay_acquire

end
