(* ===== verification/Inspections.thy ===== *)
theory Inspections
  imports Transactions
begin

text \<open>
  The machine outside the store and the inspection of a repository: \<open>_inspect_repository_at\<close> with its Git
  commands (\<open>src/src/dispatcher/repository.py\<close>).

  What is on the disk has a type \<open>'g\<close> the model leaves open. A record \<open>'g machine\<close> says how the machine
  answers: running a command in a directory with an environment, whether a path exists or is a link, what a
  path resolves to, making and removing directories, and the files below a directory. A command answers
  with its output or with its failure.
\<close>

section \<open>The machine\<close>

text \<open>A failed command: \<open>str(exc)\<close>, and the standard error it left, stripped, when that is what is shown.\<close>

record command_failure =
  cf_text :: string
  cf_detail :: string

text \<open>One file below a walked directory; \<open>None\<close> as its type is a special file.\<close>

record observed_file =
  of_relative_path :: string
  of_file_type :: "manifest_file_type option"
  of_size_bytes :: int
  of_mode :: int
  of_mtime_ns :: int
  of_sha256 :: string

record 'g machine =
  ma_command :: "string \<Rightarrow> (string \<times> string) list \<Rightarrow> string list \<Rightarrow> 'g \<Rightarrow> (command_failure + string) \<times> 'g"
  ma_exists :: "string \<Rightarrow> 'g \<Rightarrow> bool"
  ma_is_symlink :: "string \<Rightarrow> 'g \<Rightarrow> bool"
  ma_resolve :: "string \<Rightarrow> 'g \<Rightarrow> string"
  ma_make_parents :: "string \<Rightarrow> ('g, unit) action"
  ma_remove_tree :: "string \<Rightarrow> ('g, unit) action"
  ma_search_path :: "string option"
  ma_file_sha256 :: "string \<Rightarrow> 'g \<Rightarrow> string option"
  ma_hook_names :: "string \<Rightarrow> 'g \<Rightarrow> string list"
  ma_ref_paths :: "string \<Rightarrow> 'g \<Rightarrow> string list"
  ma_walk :: "string \<Rightarrow> 'g \<Rightarrow> observed_file list"
  ma_patch :: "string \<Rightarrow> 'g \<Rightarrow> exn + string"

definition SAFE_GIT_ARGS :: "string list" where
  "SAFE_GIT_ARGS = [''-c'', ''core.fsmonitor=false'', ''-c'', ''core.hooksPath=/dev/null'']"

definition hardened_git_environment :: "string option \<Rightarrow> (string \<times> string) list" where
  "hardened_git_environment search_path =
     [(''GIT_CONFIG_NOSYSTEM'', ''1''), (''GIT_CONFIG_GLOBAL'', ''/dev/null''), (''GIT_ATTR_NOSYSTEM'', ''1''),
      (''GIT_TERMINAL_PROMPT'', ''0''), (''GIT_ASKPASS'', ''/usr/bin/false''), (''GIT_EDITOR'', ''/usr/bin/true''),
      (''GIT_PAGER'', ''cat''), (''LANG'', ''C.UTF-8''), (''LC_ALL'', ''C.UTF-8''),
      (''PATH'', case search_path of None \<Rightarrow> ''/usr/local/bin:/usr/bin:/bin'' | Some p \<Rightarrow> p)]"

definition git_argv :: "string list \<Rightarrow> string list" where
  "git_argv args = ''git'' # SAFE_GIT_ARGS @ args"

definition git_command ::
  "'g machine \<Rightarrow> string \<Rightarrow> string list \<Rightarrow> 'g \<Rightarrow> (command_failure + string) \<times> 'g" where
  "git_command m cwd args =
     ma_command m cwd (hardened_git_environment (ma_search_path m)) (git_argv args)"

text \<open>\<open>text.rstrip("\n")\<close>.\<close>

definition without_newlines :: "string \<Rightarrow> string" where
  "without_newlines s = rev (dropWhile (\<lambda>ch. ch = CHR 0x0A) (rev s))"

definition inspect_git :: "'g machine \<Rightarrow> string \<Rightarrow> string list \<Rightarrow> ('g, string) action" where
  "inspect_git m worktree args = (\<lambda>g. case git_command m worktree args g of
       (Inl f, g') \<Rightarrow>
         (Inl (RepositoryValidationError (''Git inspection failed in '' @ worktree @ '': '' @ cf_text f)), g')
     | (Inr out, g') \<Rightarrow> (Inr (without_newlines out), g'))"

section \<open>Parts of an inspection\<close>

definition path_text :: "string \<Rightarrow> string \<Rightarrow> string" where
  "path_text worktree value = as_posix (path_join (pure_posix_path worktree) (pure_posix_path value))"

text \<open>\<open>worktree / value\<close> is \<open>value\<close> itself when that is absolute.\<close>

definition resolve_git_path :: "'g machine \<Rightarrow> string \<Rightarrow> string \<Rightarrow> 'g \<Rightarrow> string" where
  "resolve_git_path m worktree value g = ma_resolve m (path_text worktree value) g"

definition json_observed :: "(string \<times> string option) list \<Rightarrow> json" where
  "json_observed entries = JObj [(''entries'', JArr (map (\<lambda>(label, digest).
     JObj [(''label'', JStr label), (''sha256'', case digest of None \<Rightarrow> JNull | Some d \<Rightarrow> JStr d)]) entries))]"

definition hash_observed_files :: "'g machine \<Rightarrow> (string \<times> string) list \<Rightarrow> 'g \<Rightarrow> string" where
  "hash_observed_files m paths g =
     digest_json (json_observed (map (\<lambda>(label, path). (label, ma_file_sha256 m path g)) paths))"

definition git_metadata_fingerprint :: "'g machine \<Rightarrow> string \<Rightarrow> string \<Rightarrow> 'g \<Rightarrow> string \<times> string" where
  "git_metadata_fingerprint m git_dir common_dir g =
     (hash_observed_files m
        ([(''common/config'', path_text common_dir ''config''),
          (''common/info/exclude'', path_text common_dir ''info/exclude''),
          (''common/info/attributes'', path_text common_dir ''info/attributes'')]
         @ map (\<lambda>name. (''common/hooks/'' @ name, path_text (path_text common_dir ''hooks'') name))
             (ma_hook_names m (path_text common_dir ''hooks'') g)
         @ [(''worktree/HEAD'', path_text git_dir ''HEAD'')]) g,
      hash_observed_files m
        ((''common/packed-refs'', path_text common_dir ''packed-refs'')
         # map (\<lambda>name. (''common/refs/'' @ name, path_text (path_text common_dir ''refs'') name))
             (ma_ref_paths m (path_text common_dir ''refs'') g)) g)"

definition split_nul :: "string \<Rightarrow> string list" where
  "split_nul s = split_on (CHR 0x00) s"

text \<open>\<open>_git_changes\<close>: both commands run before the status is read.\<close>

definition inspect_changes :: "'g machine \<Rightarrow> string \<Rightarrow> ('g, repository_change list \<times> string list) action" where
  "inspect_changes m worktree =
     then_do (inspect_git m worktree [''status'', ''--porcelain=v1'', ''-z'', ''--untracked-files=all'', ''--ignored''])
       (\<lambda>status.
     then_do (inspect_git m worktree [''diff'', ''--raw'', ''-z'', ''--no-renames'', ''HEAD'', ''--'']) (\<lambda>raw.
     then_do (give (git_mode_changes (split_nul raw))) (\<lambda>modes.
       give (git_changes modes (split_nul status)))))"

text \<open>
  \<open>_manifest_entries\<close>: the files below one directory in the order of the walk; the label of the root, the
  directory, and the path the reported paths start with.
\<close>

definition manifest_entry_for :: "string \<Rightarrow> string \<Rightarrow> observed_file \<Rightarrow> exn + manifest_entry" where
  "manifest_entry_for entry_root below f =
     (let relative_path = path_text below (of_relative_path f) in
      case of_file_type f of
        None \<Rightarrow> Inl (RepositoryValidationError (''unsupported evidence path type: '' @ relative_path))
      | Some file_type \<Rightarrow> checked manifest_entry_errors
          \<lparr>me_root = entry_root, me_relative_path = relative_path, me_file_type = file_type,
           me_size_bytes = of_size_bytes f, me_mode = of_mode f, me_mtime_ns = of_mtime_ns f,
           me_sha256 = of_sha256 f\<rparr>)"

definition manifest_entries ::
  "'g machine \<Rightarrow> (string \<times> string \<times> string) list \<Rightarrow> 'g \<Rightarrow> exn + manifest_entry list" where
  "manifest_entries m roots g =
     bindr (map_result (\<lambda>(entry_root, directory, below).
         map_result (manifest_entry_for entry_root below) (ma_walk m directory g)) roots) (\<lambda>parts.
       Inr (sort_key me_root (sort_key me_relative_path (concat parts))))"

definition evidence_entries :: "'g machine \<Rightarrow> string \<Rightarrow> string list \<Rightarrow> 'g \<Rightarrow> exn + manifest_entry list" where
  "evidence_entries m worktree evidence_roots =
     manifest_entries m (map (\<lambda>r. (r, path_text worktree r, r)) evidence_roots)"

definition external_entries :: "'g machine \<Rightarrow> string list \<Rightarrow> 'g \<Rightarrow> exn + manifest_entry list" where
  "external_entries m external_roots =
     manifest_entries m (map (\<lambda>(i, r). (''external-'' @ int_text (int i), r, ''.''))
       (enumerate 0 external_roots))"

text \<open>\<open>_validate_changed_parent_paths\<close>: the nearest parent of a changed path that exists, below the root.\<close>

fun existing_parent :: "'g machine \<Rightarrow> posix_path \<Rightarrow> string list \<Rightarrow> 'g \<Rightarrow> string" where
  "existing_parent m worktree segments g =
     (let path = as_posix (worktree\<lparr>path_parts := path_parts worktree @ segments\<rparr>) in
      if segments = [] \<or> ma_exists m path g then path else existing_parent m worktree (butlast segments) g)"

declare existing_parent.simps [simp del]

definition leaves_worktree :: "'g machine \<Rightarrow> string \<Rightarrow> 'g \<Rightarrow> string \<Rightarrow> bool" where
  "leaves_worktree m worktree g value =
     (let parent = existing_parent m (pure_posix_path worktree) (butlast (path_parts (pure_posix_path value))) g
      in \<not> relative_to_ok (pure_posix_path (ma_resolve m parent g)) (pure_posix_path (ma_resolve m worktree g)))"

section \<open>Inspection\<close>

definition inspect_repository_at ::
  "config \<Rightarrow> 'g machine \<Rightarrow> string \<Rightarrow> string \<Rightarrow> string \<Rightarrow> bool \<Rightarrow> ('g, repository_snapshot) action" where
  "inspect_repository_at c m repo_id worktree expected_branch require_clean =
     then_do (give (config_repository c repo_id)) (\<lambda>repository.
     then_do (inspect_git m worktree [''rev-parse'', ''--show-toplevel'']) (\<lambda>top_level.
     then_do (asks (ma_resolve m top_level)) (\<lambda>top_level.
     if top_level \<noteq> worktree then
       give (Inl (RepositoryValidationError
         (''repository '' @ repo_id @ '' root is not the registered Git worktree: '' @ worktree)))
     else
     then_do (inspect_git m worktree [''symbolic-ref'', ''--quiet'', ''--short'', ''HEAD'']) (\<lambda>branch.
     if branch \<noteq> expected_branch then
       give (Inl (RepositoryValidationError (''repository '' @ repo_id @ '' branch mismatch: expected ''
         @ repr_text expected_branch @ '', found '' @ repr_text branch)))
     else
     let remote = repo_expected_remote repository in
     then_do (inspect_git m worktree [''remote'', ''get-url'', rem_name remote]) (\<lambda>remote_url.
     if remote_url \<noteq> rem_url remote then
       give (Inl (RepositoryValidationError (''repository '' @ repo_id @ '' remote mismatch: expected ''
         @ repr_text (rem_url remote) @ '', found '' @ repr_text remote_url)))
     else
     then_do (inspect_git m worktree [''rev-parse'', ''HEAD'']) (\<lambda>revision.
     then_do (inspect_git m worktree [''rev-parse'', ''--git-dir'']) (\<lambda>git_dir.
     then_do (asks (resolve_git_path m worktree git_dir)) (\<lambda>git_dir.
     then_do (inspect_git m worktree [''rev-parse'', ''--git-common-dir'']) (\<lambda>common_dir.
     then_do (asks (resolve_git_path m worktree common_dir)) (\<lambda>common_dir.
     then_do (asks (git_metadata_fingerprint m git_dir common_dir)) (\<lambda>(metadata, refs).
     then_do (inspect_changes m worktree) (\<lambda>(changes, ignored).
     if require_clean \<and> changes \<noteq> [] then
       give (Inl (RepositoryValidationError (''repository '' @ repo_id @ '' must be clean before dispatch: ''
         @ list_repr (change_paths changes))))
     else
     then_do (\<lambda>g. (ma_patch m worktree g, g)) (\<lambda>patch.
     then_do (\<lambda>g. (evidence_entries m worktree (repo_evidence_roots repository) g, g)) (\<lambda>evidence.
     then_do (\<lambda>g. (external_entries m (repo_external_roots repository) g, g)) (\<lambda>external.
     let observed = \<lparr>sn_repo_id = repo_id, sn_branch = branch, sn_revision = revision,
           sn_worktree_id = sha256_text (worktree @ CHR 0x00 # git_dir), sn_remote_name = rem_name remote,
           sn_remote_url = remote_url, sn_clean = (changes = []), sn_evidence = evidence,
           sn_external = external, sn_changes = changes, sn_ignored = sort ignored,
           sn_dirty_patch_sha256 = patch, sn_git_metadata_sha256 = metadata, sn_git_refs_sha256 = refs,
           sn_manifest_sha256 = []\<rparr>
     in give (checked repository_snapshot_errors
          (observed\<lparr>sn_manifest_sha256 := snapshot_digest observed\<rparr>)))))))))))))))))"

definition inspect_repository ::
  "config \<Rightarrow> 'g machine \<Rightarrow> string \<Rightarrow> bool \<Rightarrow> ('g, repository_snapshot) action" where
  "inspect_repository c m repo_id require_clean =
     then_do (give (config_repository c repo_id)) (\<lambda>repository.
     then_do (asks (ma_resolve m (repo_root repository))) (\<lambda>worktree.
       inspect_repository_at c m repo_id worktree (repo_default_branch repository) require_clean))"

definition inspect_workspace ::
  "config \<Rightarrow> 'g machine \<Rightarrow> string \<Rightarrow> string \<Rightarrow> string \<Rightarrow> bool \<Rightarrow> ('g, repository_snapshot) action" where
  "inspect_workspace c m repo_id worktree expected_branch require_clean =
     then_do (asks (ma_resolve m worktree)) (\<lambda>worktree.
       inspect_repository_at c m repo_id worktree expected_branch require_clean)"

end
