(* ===== verification/Workspaces.thy ===== *)
theory Workspaces
  imports Inspections
begin

text \<open>
  Temporary worktrees for the children of a barrier batch: class \<open>WorktreeManager\<close> on the machine, and
  class \<open>WorkspaceCoordinator\<close>, which saves each step of the life of a workspace group before and after
  the Git commands (\<open>src/src/dispatcher/workspaces.py\<close>).
\<close>

section \<open>Git commands\<close>

text \<open>\<open>text.strip()\<close>.\<close>

definition stripped :: "string \<Rightarrow> string" where
  "stripped s = rev (dropWhile is_space (rev (dropWhile is_space s)))"

definition workspace_git :: "'g machine \<Rightarrow> string \<Rightarrow> string list \<Rightarrow> ('g, string) action" where
  "workspace_git m cwd args = (\<lambda>g. case git_command m cwd args g of
       (Inl f, g') \<Rightarrow>
         (Inl (WorkspaceError (''git '' @ join_text '' '' args @ '' failed: '' @ cf_detail f)), g')
     | (Inr out, g') \<Rightarrow> (Inr (stripped out), g'))"

text \<open>\<open>except WorkspaceError\<close>; every other exception goes on.\<close>

definition catching_workspace :: "('s, 'a) action \<Rightarrow> (string \<Rightarrow> ('s, 'a) action) \<Rightarrow> ('s, 'a) action" where
  "catching_workspace a h =
     catching a (\<lambda>e. case e of WorkspaceError message \<Rightarrow> h message | _ \<Rightarrow> give (Inl e))"

definition branch_ref :: "string \<Rightarrow> string" where
  "branch_ref branch = ''refs/heads/'' @ branch"

definition branch_exists :: "'g machine \<Rightarrow> string \<Rightarrow> string \<Rightarrow> ('g, bool) action" where
  "branch_exists m cwd branch =
     catching_workspace
       (then_do (workspace_git m cwd [''show-ref'', ''--verify'', ''--quiet'', branch_ref branch]) (\<lambda>_.
         give (Inr True)))
       (\<lambda>_. give (Inr False))"

definition is_descendant :: "'g machine \<Rightarrow> string \<Rightarrow> string \<Rightarrow> string \<Rightarrow> ('g, bool) action" where
  "is_descendant m cwd base_revision head_revision = (\<lambda>g.
     case git_command m cwd [''merge-base'', ''--is-ancestor'', base_revision, head_revision] g of
       (Inl _, g') \<Rightarrow> (Inr False, g') | (Inr _, g') \<Rightarrow> (Inr True, g'))"

definition safe_path_component :: "string \<Rightarrow> string" where
  "safe_path_component value = map (\<lambda>ch. if ch = CHR ''/'' then CHR ''-'' else ch) value"

definition branch_name :: "string \<Rightarrow> string \<Rightarrow> string \<Rightarrow> string" where
  "branch_name first group_id name = first @ ''/'' @ group_id @ ''/'' @ safe_path_component name"

section \<open>The manager\<close>

definition concurrency_of :: "config \<Rightarrow> concurrency_definition" where
  "concurrency_of c = exe_concurrency (pc_execution (cfg_model c))"

definition planned_child ::
  "config \<Rightarrow> 'g machine \<Rightarrow> string \<Rightarrow> string \<Rightarrow> string \<Rightarrow> 'g \<Rightarrow> string \<Rightarrow> exn + workspace_child" where
  "planned_child c m group_id group_root revision g step_id =
     checked workspace_child_errors
       \<lparr>wc_step_id = step_id,
        wc_branch = branch_name (conc_worktree_branch_prefix (concurrency_of c)) group_id step_id,
        wc_worktree_path = ma_resolve m (path_text group_root (safe_path_component step_id)) g,
        wc_base_revision = revision, wc_head_revision = None\<rparr>"

definition plan_group ::
  "config \<Rightarrow> 'g machine \<Rightarrow> string \<Rightarrow> string \<Rightarrow> string list \<Rightarrow> transition_event \<Rightarrow> ('g, workspace_group) action" where
  "plan_group c m group_id repo_id step_ids event =
     (if conc_same_repository_mode (concurrency_of c) \<noteq> Worktree_barrier then
        give (Inl (WorkspaceError ''same-repository worktrees require worktree_barrier mode''))
      else then_do (give (config_repository c repo_id)) (\<lambda>repository.
      if repo_commit_policy repository \<noteq> Commit_required then
        give (Inl (WorkspaceError ''same-repository worktrees require commit_policy required''))
      else then_do (inspect_repository c m repo_id True) (\<lambda>snapshot.
      then_do (asks (ma_resolve m (conc_worktree_root (concurrency_of c)))) (\<lambda>base.
      let group_root = path_text base group_id in
      then_do (\<lambda>g. (map_result (planned_child c m group_id group_root (sn_revision snapshot) g) step_ids, g))
        (\<lambda>children.
      then_do (asks (ma_resolve m (path_text group_root ''integration''))) (\<lambda>integration.
        give (checked workspace_group_errors
          \<lparr>wg_workspace_group_id = group_id, wg_repo_id = repo_id, wg_base_revision = sn_revision snapshot,
           wg_base_branch = sn_branch snapshot,
           wg_integration_branch = branch_name (conc_worktree_branch_prefix (concurrency_of c)) group_id ''integration'',
           wg_integration_worktree_path = integration, wg_integration_revision = None,
           wg_worktree_root = group_root, wg_lease_owner_id = ''workspace-'' @ group_id,
           wg_children = children, wg_state = Group_prepared, wg_last_event = event\<rparr>)))))))"

text \<open>Paths are compared after they are resolved.\<close>

definition resolved_below :: "'g machine \<Rightarrow> 'g \<Rightarrow> string \<Rightarrow> string \<Rightarrow> bool" where
  "resolved_below m g path base \<longleftrightarrow>
     relative_to_ok (pure_posix_path (ma_resolve m path g)) (pure_posix_path (ma_resolve m base g))"

definition group_branch_prefix :: "config \<Rightarrow> workspace_group \<Rightarrow> string" where
  "group_branch_prefix c wg =
     conc_worktree_branch_prefix (concurrency_of c) @ ''/'' @ wg_workspace_group_id wg @ ''/''"

definition validate_group :: "config \<Rightarrow> 'g machine \<Rightarrow> workspace_group \<Rightarrow> 'g \<Rightarrow> exn + unit" where
  "validate_group c m wg g =
     (if dget (pc_repositories (cfg_model c)) (wg_repo_id wg) = None then
        Inl (WorkspaceError (''unknown workspace repository: '' @ wg_repo_id wg))
      else if \<not> resolved_below m g (wg_worktree_root wg) (conc_worktree_root (concurrency_of c)) then
        Inl (WorkspaceError ''workspace group root escapes configured worktree_root'')
      else if \<not> prefix (group_branch_prefix c wg) (wg_integration_branch wg) then
        Inl (WorkspaceError ''workspace integration branch does not use configured prefix'')
      else bindr (for_each (\<lambda>child.
          if \<not> prefix (group_branch_prefix c wg) (wc_branch child) then
            Inl (WorkspaceError ''workspace child branch does not use configured prefix'')
          else raise_if (\<not> resolved_below m g (wc_worktree_path child) (wg_worktree_root wg))
            (WorkspaceError ''workspace child path escapes group root'')) (wg_children wg)) (\<lambda>_.
        raise_if (\<not> resolved_below m g (wg_integration_worktree_path wg) (wg_worktree_root wg))
          (WorkspaceError ''workspace integration path escapes group root'')))"

definition validated :: "config \<Rightarrow> 'g machine \<Rightarrow> workspace_group \<Rightarrow> ('g, unit) action" where
  "validated c m wg = (\<lambda>g. (validate_group c m wg g, g))"

text \<open>A command whose failure is left aside.\<close>

definition tried :: "('g, 'a) action \<Rightarrow> ('g, unit) action" where
  "tried a = catching_workspace (then_do a (\<lambda>_. give (Inr ()))) (\<lambda>_. give (Inr ()))"

definition remove_created :: "'g machine \<Rightarrow> string \<Rightarrow> workspace_child \<Rightarrow> ('g, unit) action" where
  "remove_created m source child =
     then_do (asks (ma_exists m (wc_worktree_path child))) (\<lambda>there.
     then_do (if there then tried (workspace_git m source [''worktree'', ''remove'', ''--force'', wc_worktree_path child])
              else give (Inr ())) (\<lambda>_.
       tried (workspace_git m source [''branch'', ''-D'', wc_branch child])))"

definition rollback_created :: "'g machine \<Rightarrow> string \<Rightarrow> workspace_child list \<Rightarrow> ('g, unit) action" where
  "rollback_created m source children =
     then_do (each_do (remove_created m source) (rev children)) (\<lambda>_.
       tried (workspace_git m source [''worktree'', ''prune'']))"

definition add_worktree ::
  "'g machine \<Rightarrow> string \<Rightarrow> workspace_group \<Rightarrow> workspace_child \<Rightarrow> ('g, unit) action" where
  "add_worktree m source wg child =
     then_do (asks (ma_exists m (wc_worktree_path child))) (\<lambda>there.
     if there then give (Inl (WorkspaceError (''workspace path already exists: '' @ wc_worktree_path child)))
     else then_do (ma_make_parents m (wc_worktree_path child)) (\<lambda>_.
     then_do (workspace_git m source [''worktree'', ''add'', ''-b'', wc_branch child, wc_worktree_path child,
                wg_base_revision wg]) (\<lambda>_.
       give (Inr ()))))"

text \<open>An exception that is no \<open>WorkspaceError\<close> is wrapped in one.\<close>

fun as_workspace_error :: "string \<Rightarrow> exn \<Rightarrow> exn" where
  "as_workspace_error what (WorkspaceError message) = WorkspaceError message"
| "as_workspace_error what e = WorkspaceError (what @ exn_text e)"

text \<open>
  The loop over the children with the children created so far: a failure first removes those, last first.
\<close>

fun provision_children ::
  "'g machine \<Rightarrow> string \<Rightarrow> workspace_group \<Rightarrow> workspace_child list \<Rightarrow> workspace_child list \<Rightarrow> ('g, unit) action" where
  "provision_children m source wg created [] = give (Inr ())"
| "provision_children m source wg created (child # rest) =
     then_do
       (catching (add_worktree m source wg child) (\<lambda>e.
          then_do (rollback_created m source created) (\<lambda>_.
            give (Inl (as_workspace_error ''could not provision workspace group: '' e)))))
       (\<lambda>_. provision_children m source wg (created @ [child]) rest)"

definition source_unmoved :: "config \<Rightarrow> 'g machine \<Rightarrow> workspace_group \<Rightarrow> ('g, unit) action" where
  "source_unmoved c m wg =
     then_do (inspect_repository c m (wg_repo_id wg) True) (\<lambda>snapshot.
       give (raise_if (sn_revision snapshot \<noteq> wg_base_revision wg \<or> sn_branch snapshot \<noteq> wg_base_branch wg)
         (WorkspaceError ''repository moved after workspace group preparation'')))"

text \<open>\<open>self.config.repository_root(group.repo_id)\<close>.\<close>

definition source_of :: "config \<Rightarrow> workspace_group \<Rightarrow> exn + string" where
  "source_of c wg = bindr (config_repository c (wg_repo_id wg)) (\<lambda>repository. Inr (repo_root repository))"

text \<open>
  The final transition stands inside the \<open>try\<close> of the code, so its failure removes the worktrees as well.
\<close>

definition provision ::
  "config \<Rightarrow> 'g machine \<Rightarrow> workspace_group \<Rightarrow> transition_event \<Rightarrow> ('g, workspace_group) action" where
  "provision c m wg event =
     (if wg_state wg \<noteq> Group_prepared then
        give (Inl (WorkspaceError ''only prepared workspace groups can be provisioned''))
      else then_do (validated c m wg) (\<lambda>_.
      then_do (give (source_of c wg)) (\<lambda>source.
      then_do (source_unmoved c m wg) (\<lambda>_.
      then_do (provision_children m source wg [] (wg_children wg)) (\<lambda>_.
        catching (give (transition_workspace_group wg Group_active event)) (\<lambda>e.
          then_do (rollback_created m source (wg_children wg)) (\<lambda>_.
            give (Inl (as_workspace_error ''could not provision workspace group: '' e)))))))))"

definition begin_integration :: "workspace_group \<Rightarrow> transition_event \<Rightarrow> exn + workspace_group" where
  "begin_integration wg event =
     (if wg_state wg \<noteq> Group_active then
        Inl (WorkspaceError ''only active workspace groups can begin integration'')
      else transition_workspace_group wg Group_integrating event)"

definition merge_children :: "'g machine \<Rightarrow> string \<Rightarrow> workspace_group \<Rightarrow> ('g, unit) action" where
  "merge_children m source wg =
     then_do (workspace_git m source [''worktree'', ''add'', ''-b'', wg_integration_branch wg,
                wg_integration_worktree_path wg, wg_base_revision wg]) (\<lambda>_.
     then_do (each_do (\<lambda>child. workspace_git m (wg_integration_worktree_path wg)
                [''merge'', ''--no-ff'', ''--no-edit'', wc_branch child]) (wg_children wg)) (\<lambda>_.
     then_do (workspace_git m source [''merge'', ''--ff-only'', wg_integration_branch wg]) (\<lambda>_.
       give (Inr ()))))"

definition integrate ::
  "config \<Rightarrow> 'g machine \<Rightarrow> workspace_group \<Rightarrow> transition_event \<Rightarrow> ('g, workspace_group) action" where
  "integrate c m wg event =
     (if wg_state wg \<noteq> Group_integrating then
        give (Inl (WorkspaceError ''workspace integration intent must be recorded before merging''))
      else then_do (validated c m wg) (\<lambda>_.
      then_do (give (source_of c wg)) (\<lambda>source.
      then_do (source_unmoved c m wg) (\<lambda>_.
      then_do (asks (ma_exists m (wg_integration_worktree_path wg))) (\<lambda>there.
      then_do (if there then give (Inr True) else branch_exists m source (wg_integration_branch wg)) (\<lambda>taken.
      if taken then give (Inl (WorkspaceError ''workspace integration branch or path already exists''))
      else then_do (ma_make_parents m (wg_integration_worktree_path wg)) (\<lambda>_.
      then_do (catching (merge_children m source wg) (\<lambda>e.
                 give (Inl (as_workspace_error ''workspace integration failed: '' e)))) (\<lambda>_.
      then_do (workspace_git m source [''rev-parse'', ''HEAD'']) (\<lambda>revision.
        give (Inr (wg\<lparr>wg_integration_revision := Some revision, wg_last_event := event\<rparr>)))))))))))"

definition begin_cleanup :: "workspace_group \<Rightarrow> transition_event \<Rightarrow> exn + workspace_group" where
  "begin_cleanup wg event =
     (if wg_state wg \<notin> {Group_active, Group_integrating, Group_failed} then
        Inl (WorkspaceError ''workspace group is not eligible for cleanup'')
      else transition_workspace_group wg Group_cleanup_pending event)"

section \<open>Cleanup\<close>

text \<open>The worktrees and branches of a group.\<close>

definition owned_workspaces :: "workspace_group \<Rightarrow> (string \<times> string) list" where
  "owned_workspaces wg =
     map (\<lambda>child. (wc_worktree_path child, wc_branch child)) (wg_children wg)
     @ [(wg_integration_worktree_path wg, wg_integration_branch wg)]"

definition validate_unused ::
  "'g machine \<Rightarrow> string \<Rightarrow> string \<Rightarrow> string \<times> string \<Rightarrow> ('g, unit) action" where
  "validate_unused m source source_head owned = (case owned of (path, branch) \<Rightarrow>
     then_do (asks (ma_exists m path)) (\<lambda>there.
     then_do
       (if there then
          then_do (workspace_git m path [''symbolic-ref'', ''--quiet'', ''--short'', ''HEAD'']) (\<lambda>actual.
          if actual \<noteq> branch then
            give (Inl (WorkspaceError (''workspace branch mismatch before cleanup: '' @ path)))
          else then_do (workspace_git m path [''status'', ''--porcelain'', ''--untracked-files=all'']) (\<lambda>status.
            give (raise_if (status \<noteq> []) (WorkspaceError (''workspace has uncommitted changes: '' @ path)))))
        else give (Inr ())) (\<lambda>_.
     then_do (branch_exists m source branch) (\<lambda>exists.
     if exists then
       then_do (workspace_git m source [''rev-parse'', branch_ref branch]) (\<lambda>branch_head.
       then_do (is_descendant m source branch_head source_head) (\<lambda>merged.
         give (raise_if (\<not> merged) (WorkspaceError (''workspace branch is not merged: '' @ branch)))))
     else give (Inr ())))))"

definition validate_non_force_cleanup :: "'g machine \<Rightarrow> string \<Rightarrow> workspace_group \<Rightarrow> ('g, unit) action" where
  "validate_non_force_cleanup m source wg =
     then_do (workspace_git m source [''rev-parse'', ''HEAD'']) (\<lambda>source_head.
     then_do (each_do (validate_unused m source source_head) (owned_workspaces wg)) (\<lambda>_.
       give (Inr ())))"

text \<open>A command that adds its error to a list instead of raising it: the errors it adds.\<close>

definition noted :: "('g, string) action \<Rightarrow> ('g, string list) action" where
  "noted a = catching_workspace (then_do a (\<lambda>_. give (Inr []))) (\<lambda>message. give (Inr [message]))"

definition remove_worktree :: "'g machine \<Rightarrow> string \<Rightarrow> bool \<Rightarrow> string \<Rightarrow> ('g, string) action" where
  "remove_worktree m source force path =
     workspace_git m source
       (if force then [''worktree'', ''remove'', ''--force'', path] else [''worktree'', ''remove'', path])"

definition remove_branch :: "'g machine \<Rightarrow> string \<Rightarrow> bool \<Rightarrow> string \<Rightarrow> ('g, string) action" where
  "remove_branch m source force branch =
     workspace_git m source [''branch'', if force then ''-D'' else ''-d'', branch]"

text \<open>A child whose worktree could not be removed keeps its branch.\<close>

definition clean_child :: "'g machine \<Rightarrow> string \<Rightarrow> bool \<Rightarrow> workspace_child \<Rightarrow> ('g, string list) action" where
  "clean_child m source force child =
     then_do (asks (ma_exists m (wc_worktree_path child))) (\<lambda>there.
     then_do (if there then noted (remove_worktree m source force (wc_worktree_path child)) else give (Inr []))
       (\<lambda>errors.
     if errors \<noteq> [] then give (Inr errors) else noted (remove_branch m source force (wc_branch child))))"

definition clean_integration :: "'g machine \<Rightarrow> string \<Rightarrow> bool \<Rightarrow> workspace_group \<Rightarrow> ('g, string list) action" where
  "clean_integration m source force wg =
     then_do (asks (ma_exists m (wg_integration_worktree_path wg))) (\<lambda>there.
     then_do (if there then noted (remove_worktree m source force (wg_integration_worktree_path wg))
              else give (Inr [])) (\<lambda>errors.
     then_do (branch_exists m source (wg_integration_branch wg)) (\<lambda>exists.
     then_do (if exists then noted (remove_branch m source force (wg_integration_branch wg)) else give (Inr []))
       (\<lambda>more_errors. give (Inr (errors @ more_errors))))))"

definition cleanup ::
  "config \<Rightarrow> 'g machine \<Rightarrow> workspace_group \<Rightarrow> transition_event \<Rightarrow> bool \<Rightarrow> ('g, workspace_group) action" where
  "cleanup c m wg event force =
     (if wg_state wg \<noteq> Group_cleanup_pending then
        give (Inl (WorkspaceError ''workspace cleanup must be recorded before removal''))
      else then_do (validated c m wg) (\<lambda>_.
      then_do (give (source_of c wg)) (\<lambda>source.
      then_do (if force then give (Inr ()) else validate_non_force_cleanup m source wg) (\<lambda>_.
      then_do (each_do (clean_child m source force) (wg_children wg)) (\<lambda>children.
      then_do (clean_integration m source force wg) (\<lambda>integration.
      then_do (noted (workspace_git m source [''worktree'', ''prune''])) (\<lambda>prune.
      let errors = concat children @ integration @ prune in
      if errors \<noteq> [] then
        give (Inl (WorkspaceError (''workspace cleanup incomplete: '' @ join_text ''; '' errors)))
      else then_do (asks (ma_exists m (wg_worktree_root wg))) (\<lambda>there.
      then_do (if there then ma_remove_tree m (wg_worktree_root wg) else give (Inr ())) (\<lambda>_.
        give (transition_workspace_group wg Group_cleaned event))))))))))"

end
