(* ===== verification/Workspace_Groups.thy ===== *)
theory Workspace_Groups
  imports Workspaces
begin

text \<open>
  Class \<open>WorkspaceCoordinator\<close> (\<open>src/src/dispatcher/workspaces.py\<close>): each change of a workspace group is
  saved before the Git commands it announces and after them. A failure leaves the group \<open>FAILED\<close>.
  The lemmas say which commands the manager runs and what the coordinator leaves behind.
\<close>

section \<open>The coordinator\<close>

definition workspace_event ::
  "env \<Rightarrow> nat \<Rightarrow> run_record \<Rightarrow> string \<Rightarrow> string \<Rightarrow> ('g system, transition_event) action" where
  "workspace_event e n r correlation_id reason = give (make_event e n r Actor_dispatcher reason correlation_id None)"

definition fail_group ::
  "env \<Rightarrow> nat \<Rightarrow> int \<Rightarrow> run_record \<Rightarrow> int \<Rightarrow> workspace_group \<Rightarrow> string \<Rightarrow> string \<Rightarrow> exn \<Rightarrow> ('g system, 'a) action" where
  "fail_group e n now r g wg group_id what exc =
     then_do (workspace_event e n r group_id (what @ exn_class exc)) (\<lambda>event.
     then_do (give (transition_workspace_group wg Group_failed event)) (\<lambda>failed.
     then_do (commit (save_workspace_group r g failed now)) (\<lambda>_.
       give (Inl (WorkspaceError (what @ exn_text exc))))))"

definition repository_key :: "string \<Rightarrow> string" where
  "repository_key repo_id = ''repository:'' @ repo_id"

definition prepare_workspace ::
  "config \<Rightarrow> 'g machine \<Rightarrow> world \<Rightarrow> env \<Rightarrow> int \<Rightarrow> string \<Rightarrow> int \<Rightarrow> string \<Rightarrow> string list
   \<Rightarrow> ('g system, run_record \<times> int \<times> workspace_group) action" where
  "prepare_workspace c m w e now run_id expected_generation repo_id step_ids =
     then_do (query (\<lambda>st. load_run st run_id)) (\<lambda>(r, g).
     if g \<noteq> expected_generation then
       give (Inl (WorkspaceError ''run generation changed before workspace preparation''))
     else let group_id = ''workspace-'' @ env_uuid e 0 in
     then_do (workspace_event e 1 r group_id ''prepared same-repository workspace group'') (\<lambda>event.
     then_do (on_disk (plan_group c m group_id repo_id step_ids event)) (\<lambda>prepared.
     then_do (commit (save_workspace_group r g prepared now)) (\<lambda>(r, g).
     let owner = wg_lease_owner_id prepared; keys = [repository_key repo_id] in
     catching
       (then_do (acquire w run_id owner keys now) (\<lambda>_.
        then_do (workspace_event e 2 r group_id ''provisioned same-repository workspace group'') (\<lambda>event.
        then_do (on_disk (provision c m prepared event)) (\<lambda>active.
        then_do (commit (save_workspace_group r g active now)) (\<lambda>(r, g). give (Inr (r, g, active)))))))
       (\<lambda>exc. then_do (release owner keys) (\<lambda>_.
          fail_group e 3 now r g prepared group_id ''workspace provisioning failed: '' exc))))))"

definition cleanup_workspace ::
  "config \<Rightarrow> 'g machine \<Rightarrow> env \<Rightarrow> nat \<Rightarrow> int \<Rightarrow> string \<Rightarrow> int \<Rightarrow> string \<Rightarrow> bool
   \<Rightarrow> ('g system, run_record \<times> int \<times> workspace_group) action" where
  "cleanup_workspace c m e n now run_id expected_generation group_id force =
     then_do (query (\<lambda>st. load_run st run_id)) (\<lambda>(r, g).
     if g \<noteq> expected_generation then
       give (Inl (WorkspaceError ''run generation changed before workspace cleanup''))
     else case dget (r_workspace_groups r) group_id of
       None \<Rightarrow> give (Inl (WorkspaceError (''unknown workspace group: '' @ group_id)))
     | Some wg \<Rightarrow>
         if wg_state wg = Group_cleaned then give (Inr (r, g, wg))
         else
         then_do
           (if wg_state wg = Group_cleanup_pending then give (Inr ((r, g), wg))
            else
              then_do (workspace_event e n r group_id ''workspace cleanup requested'') (\<lambda>event.
              then_do (give (begin_cleanup wg event)) (\<lambda>pending.
              then_do (commit (save_workspace_group r g pending now)) (\<lambda>saved_run.
                give (Inr (saved_run, pending)))))) (\<lambda>((r, g), pending).
         catching
           (then_do (workspace_event e (n + 1) r group_id ''workspace cleanup completed'') (\<lambda>event.
            then_do (on_disk (cleanup c m pending event force)) (\<lambda>cleaned.
            then_do (release (wg_lease_owner_id cleaned) [repository_key (wg_repo_id cleaned)]) (\<lambda>_.
            then_do (commit (save_workspace_group r g cleaned now)) (\<lambda>(r, g). give (Inr (r, g, cleaned)))))))
           (\<lambda>exc. fail_group e (n + 2) now r g pending group_id ''workspace cleanup failed: '' exc)))"

definition integrate_workspace ::
  "config \<Rightarrow> 'g machine \<Rightarrow> env \<Rightarrow> nat \<Rightarrow> int \<Rightarrow> string \<Rightarrow> int \<Rightarrow> string
   \<Rightarrow> ('g system, run_record \<times> int \<times> workspace_group) action" where
  "integrate_workspace c m e n now run_id expected_generation group_id =
     then_do (query (\<lambda>st. load_run st run_id)) (\<lambda>(r, g).
     if g \<noteq> expected_generation then
       give (Inl (WorkspaceError ''run generation changed before workspace integration''))
     else case dget (r_workspace_groups r) group_id of
       None \<Rightarrow> give (Inl (WorkspaceError (''unknown workspace group: '' @ group_id)))
     | Some wg \<Rightarrow>
         then_do (workspace_event e n r group_id ''workspace integration requested'') (\<lambda>event.
         then_do (give (begin_integration wg event)) (\<lambda>integrating.
         then_do (commit (save_workspace_group r g integrating now)) (\<lambda>(r, g).
         then_do
           (catching
             (then_do (workspace_event e (n + 1) r group_id ''workspace integration promoted'') (\<lambda>event.
              then_do (on_disk (integrate c m integrating event)) (\<lambda>integrated.
                commit (save_workspace_group r g integrated now))))
             (\<lambda>exc. fail_group e (n + 2) now r g integrating group_id ''workspace integration failed: '' exc))
           (\<lambda>(r, g). cleanup_workspace c m e (n + 3) now run_id g group_id False)))))"

section \<open>What the coordinator keeps\<close>

lemma moves_save_group: "moves.keeps (commit (save_workspace_group r g wg now))"
  by (rule moves_commit) (metis save_workspace_group_step prod.collapse)

lemma moves_event: "moves.keeps (workspace_event e n r i reason)"
  by (simp add: workspace_event_def moves_rules)

lemma moves_fail_group: "moves.keeps (fail_group e n now r g wg i what exc)"
  unfolding fail_group_def by (intro moves_rules moves_save_group moves_event)

theorem moves_prepare_workspace: "moves.keeps (prepare_workspace c m w e now run_id expected repo_id step_ids)"
  unfolding prepare_workspace_def by (intro moves_rules moves_save_group moves_event moves_fail_group)

theorem moves_cleanup_workspace: "moves.keeps (cleanup_workspace c m e n now run_id expected i force)"
  unfolding cleanup_workspace_def by (intro moves_rules moves_save_group moves_event moves_fail_group)

theorem moves_integrate_workspace: "moves.keeps (integrate_workspace c m e n now run_id expected i)"
  unfolding integrate_workspace_def
  by (intro moves_rules moves_save_group moves_event moves_fail_group moves_cleanup_workspace)

section \<open>The commands of the manager\<close>

text \<open>Commands that only read.\<close>

fun reading_command :: "string list \<Rightarrow> bool" where
  "reading_command [] = False"
| "reading_command (name # args) \<longleftrightarrow>
     name \<in> {''rev-parse'', ''symbolic-ref'', ''status'', ''show-ref'', ''merge-base''}"

text \<open>What the cleanup of a group may do: read, prune, and remove its own worktrees and branches.\<close>

inductive removal :: "'g machine \<Rightarrow> workspace_group \<Rightarrow> 'g \<Rightarrow> 'g \<Rightarrow> bool" for m wg where
  reads: "reading_command args \<Longrightarrow> removal m wg g (snd (git_command m cwd args g))"
| prunes: "removal m wg g (snd (git_command m cwd [''worktree'', ''prune''] g))"
| removes_worktree: "path \<in> fst ` set (owned_workspaces wg) \<Longrightarrow> flags \<in> {[], [''--force'']}
    \<Longrightarrow> removal m wg g (snd (git_command m cwd ([''worktree'', ''remove''] @ flags @ [path]) g))"
| removes_branch: "branch \<in> snd ` set (owned_workspaces wg) \<Longrightarrow> flag \<in> {''-d'', ''-D''}
    \<Longrightarrow> removal m wg g (snd (git_command m cwd [''branch'', flag, branch] g))"
| removes_root: "removal m wg g (snd (ma_remove_tree m (wg_worktree_root wg) g))"

abbreviation removals :: "'g machine \<Rightarrow> workspace_group \<Rightarrow> 'g \<Rightarrow> 'g \<Rightarrow> bool" where
  "removals m wg \<equiv> (removal m wg)\<^sup>*\<^sup>*"

interpretation removing: transactional "removals m wg" for m wg
  by unfold_locales auto

lemma removing_git:
  assumes "\<And>g. removal m wg g (snd (git_command m cwd args g))"
  shows "removing.keeps m wg (workspace_git m cwd args)"
proof (rule removing.keepsI)
  fix g o' g'
  assume "workspace_git m cwd args g = (o', g')"
  then have "g' = snd (git_command m cwd args g)"
    by (auto simp: workspace_git_def split: prod.splits sum.splits)
  then show "removals m wg g g'" using assms by auto
qed

lemma removing_reads: "reading_command args \<Longrightarrow> removing.keeps m wg (workspace_git m cwd args)"
  by (rule removing_git) (rule reads)

lemma removing_catching:
  "removing.keeps m wg a \<Longrightarrow> (\<And>message. removing.keeps m wg (h message))
     \<Longrightarrow> removing.keeps m wg (catching_workspace a h)"
  unfolding catching_workspace_def
  by (intro removing.keeps_catching) (auto split: exn.split intro: removing.keeps_give)

lemma removing_exists: "removing.keeps m wg (branch_exists m cwd branch)"
  unfolding branch_exists_def by (intro removing_catching removing.keeps_rules removing_reads) simp

lemma removing_descendant: "removing.keeps m wg (is_descendant m cwd base head)"
proof (rule removing.keepsI)
  fix g o' g'
  assume "is_descendant m cwd base head g = (o', g')"
  then have "g' = snd (git_command m cwd [''merge-base'', ''--is-ancestor'', base, head] g)"
    by (auto simp: is_descendant_def split: prod.splits sum.splits)
  then show "removals m wg g g'" using reads [of "[''merge-base'', ''--is-ancestor'', base, head]" m wg g cwd] by auto
qed

lemma removing_noted: "removing.keeps m wg a \<Longrightarrow> removing.keeps m wg (noted a)"
  unfolding noted_def by (intro removing_catching removing.keeps_rules)

lemma removing_remove_worktree:
  assumes "path \<in> fst ` set (owned_workspaces wg)"
  shows "removing.keeps m wg (remove_worktree m cwd force path)"
proof -
  have "removal m wg g (snd (git_command m cwd [''worktree'', ''remove'', ''--force'', path] g))"
    "removal m wg g (snd (git_command m cwd [''worktree'', ''remove'', path] g))" for g
    using removes_worktree [OF assms, of "[''--force'']" m g cwd] removes_worktree [OF assms, of "[]" m g cwd]
    by simp_all
  then show ?thesis unfolding remove_worktree_def by (auto intro: removing_git)
qed

lemma removing_remove_branch:
  "branch \<in> snd ` set (owned_workspaces wg) \<Longrightarrow> removing.keeps m wg (remove_branch m cwd force branch)"
  unfolding remove_branch_def by (intro removing_git) (auto intro: removes_branch)

lemma removing_validated: "removing.keeps m wg (validated c m' wg')"
  by (rule removing.keepsI) (auto simp: validated_def)

lemma removing_unused: "removing.keeps m wg (validate_unused m source head owned)"
  unfolding validate_unused_def
  by (intro removing.keeps_rules removing_reads removing_exists removing_descendant) simp_all

lemma removing_non_force: "removing.keeps m wg (validate_non_force_cleanup m source wg)"
  unfolding validate_non_force_cleanup_def by (intro removing.keeps_rules removing_reads removing_unused) simp

lemma removing_each:
  "(\<And>x. x \<in> set xs \<Longrightarrow> removing.keeps m wg (f x)) \<Longrightarrow> removing.keeps m wg (each_do f xs)"
  by (induction xs) (auto intro: removing.keeps_give removing.keeps_then)

lemma removing_clean_child:
  "child \<in> set (wg_children wg) \<Longrightarrow> removing.keeps m wg (clean_child m source force child)"
  unfolding clean_child_def
  by (intro removing.keeps_rules removing_noted removing_remove_worktree removing_remove_branch)
    (force simp: owned_workspaces_def)+

lemma removing_clean_integration: "removing.keeps m wg (clean_integration m source force wg)"
  unfolding clean_integration_def
  by (intro removing.keeps_rules removing_noted removing_remove_worktree removing_remove_branch removing_exists)
    (simp_all add: owned_workspaces_def)

lemma removing_root: "removing.keeps m wg (ma_remove_tree m (wg_worktree_root wg))"
proof (rule removing.keepsI)
  fix g o' g'
  assume "ma_remove_tree m (wg_worktree_root wg) g = (o', g')"
  then show "removals m wg g g'" using removes_root [of m wg g] by auto
qed

theorem removing_cleanup: "removing.keeps m wg (cleanup c m wg event force)"
  unfolding cleanup_def
  by (intro removing.keeps_rules removing_validated removing_non_force removing_each removing_clean_child
      removing_clean_integration removing_noted removing_git prunes removing_root)

section \<open>Groups that stay within their root\<close>

definition group_owned :: "config \<Rightarrow> 'g machine \<Rightarrow> workspace_group \<Rightarrow> 'g \<Rightarrow> bool" where
  "group_owned c m wg g \<longleftrightarrow>
     resolved_below m g (wg_worktree_root wg) (conc_worktree_root (concurrency_of c))
     \<and> (\<forall>(path, branch) \<in> set (owned_workspaces wg).
          resolved_below m g path (wg_worktree_root wg) \<and> prefix (group_branch_prefix c wg) branch)"

lemma validate_group_Inr: "validate_group c m wg g = Inr u \<Longrightarrow> group_owned c m wg g"
  by (auto simp: validate_group_def group_owned_def owned_workspaces_def for_each_Inr raise_if_Inr bindr_Inr_iff
      split: if_splits)

text \<open>Nothing is run for a group that is not owned.\<close>

lemma cleanup_not_owned:
  assumes "cleanup c m wg event force g = (o', g')" "\<not> group_owned c m wg g"
  shows "g' = g \<and> (\<exists>e. o' = Inl e)"
proof -
  have "validate_group c m wg g \<noteq> Inr u" for u using assms(2) by (auto dest: validate_group_Inr)
  then obtain e where "validate_group c m wg g = Inl e" by (metis sum.exhaust)
  with assms(1) show ?thesis by (auto simp: cleanup_def then_do_def validated_def split: if_splits)
qed

section \<open>Branches that are gone\<close>

text \<open>
  Git refuses to delete a branch that does not exist. \<open>gone\<close> is a set of states in which the branch of a
  child does not exist and that no removal leaves.
\<close>

definition stays_gone :: "'g machine \<Rightarrow> workspace_group \<Rightarrow> string \<Rightarrow> ('g \<Rightarrow> bool) \<Rightarrow> bool" where
  "stays_gone m wg branch gone \<longleftrightarrow>
     (\<forall>g g'. gone g \<longrightarrow> removal m wg g g' \<longrightarrow> gone g')
     \<and> (\<forall>g cwd flag. gone g \<longrightarrow> (\<exists>f g'. git_command m cwd [''branch'', flag, branch] g = (Inl f, g')))"

lemma stays_gone_removals:
  assumes "stays_gone m wg branch gone" "removals m wg g g'" "gone g"
  shows "gone g'"
  using assms(2,3,1) by (induction rule: rtranclp_induct) (auto simp: stays_gone_def)

lemma noted_removal_fails:
  assumes "stays_gone m wg branch gone" "gone g" "noted (remove_branch m source force branch) g = (Inr errors, g')"
  shows "errors \<noteq> []"
proof -
  obtain f g1 where "git_command m source [''branch'', if force then ''-D'' else ''-d'', branch] g = (Inl f, g1)"
    using assms(1,2) unfolding stays_gone_def by blast
  with assms(3) show ?thesis
    by (auto simp: noted_def catching_workspace_def catching_eq remove_branch_def workspace_git_def then_do_def)
qed

lemma clean_child_fails:
  assumes gone: "stays_gone m wg (wc_branch child) gone" "gone g" and child: "child \<in> set (wg_children wg)"
    and clean: "clean_child m source force child g = (Inr errors, g')"
  shows "errors \<noteq> []"
proof -
  have path: "wc_worktree_path child \<in> fst ` set (owned_workspaces wg)" using child by (force simp: owned_workspaces_def)
  from clean obtain removed g1 where removed:
    "(if ma_exists m (wc_worktree_path child) g then noted (remove_worktree m source force (wc_worktree_path child))
      else give (Inr [])) g = (Inr removed, g1)"
    and rest: "(if removed \<noteq> [] then give (Inr removed) else noted (remove_branch m source force (wc_branch child))) g1
      = (Inr errors, g')"
    by (auto simp: clean_child_def)
  have "removing.keeps m wg (if ma_exists m (wc_worktree_path child) g
      then noted (remove_worktree m source force (wc_worktree_path child)) else give (Inr []))"
    by (intro removing.keeps_rules removing_noted removing_remove_worktree path)
  from stays_gone_removals [OF gone(1) removing.keepsD [OF this removed] gone(2)] have "gone g1" .
  with rest noted_removal_fails [OF gone(1)] show ?thesis by (auto split: if_splits)
qed

lemma each_clean_fails:
  assumes gone: "stays_gone m wg (wc_branch child) gone" "gone g" and child: "child \<in> set children"
    and children: "set children \<subseteq> set (wg_children wg)"
    and clean: "each_do (clean_child m source force) children g = (Inr errors, g')"
  shows "concat errors \<noteq> []"
  using gone(2) child children clean
proof (induction children arbitrary: g errors)
  case (Cons first rest)
  from Cons.prems(4) obtain es g1 ess where first: "clean_child m source force first g = (Inr es, g1)"
    and rest: "each_do (clean_child m source force) rest g1 = (Inr ess, g')" and errors: "errors = es # ess"
    by auto
  have "first \<in> set (wg_children wg)" using Cons.prems(3) by simp
  from stays_gone_removals [OF gone(1) removing.keepsD [OF removing_clean_child [OF this] first] Cons.prems(1)]
  have "gone g1" .
  show ?case
  proof (cases "first = child")
    case True
    with clean_child_fails [OF gone(1) Cons.prems(1)] Cons.prems(3) first errors show ?thesis by auto
  next
    case False
    with Cons.IH [OF \<open>gone g1\<close> _ _ rest] Cons.prems(2,3) errors show ?thesis by auto
  qed
qed simp

theorem cleanup_never_completes:
  assumes gone: "stays_gone m wg (wc_branch child) gone" "gone g" and child: "child \<in> set (wg_children wg)"
    and clean: "cleanup c m wg event force g = (o', g')"
  shows "gone g' \<and> (\<exists>e. o' = Inl e)"
proof
  show "gone g'" using stays_gone_removals [OF gone(1) removing.keepsD [OF removing_cleanup clean] gone(2)] .
  show "\<exists>e. o' = Inl e"
  proof (rule ccontr)
    assume "\<nexists>e. o' = Inl e"
    then obtain cleaned where "o' = Inr cleaned" by (cases o') auto
    with clean have "cleanup c m wg event force g = (Inr cleaned, g')" by simp
    then obtain source g1 errors g2 where
      checked: "(if force then give (Inr ()) else validate_non_force_cleanup m source wg) g = (Inr (), g1)"
      and errors: "each_do (clean_child m source force) (wg_children wg) g1 = (Inr errors, g2)" "concat errors = []"
      unfolding cleanup_def Let_def validated_def ok_dests then_do_Inr by auto
    have "removing.keeps m wg (if force then give (Inr ()) else validate_non_force_cleanup m source wg)"
      by (intro removing.keeps_rules removing_non_force)
    from stays_gone_removals [OF gone(1) removing.keepsD [OF this checked] gone(2)] have "gone g1" .
    from each_clean_fails [OF gone(1) this child order.refl errors(1)] errors(2) show False by simp
  qed
qed

end
