(* ===== verification/Run_Operations.thy ===== *)
theory Run_Operations
  imports Worker_Prompt Workspace_Groups Dispatching Invocations
begin

text \<open>
  Class \<open>SequentialWorkflow\<close> (\<open>src/src/dispatcher/sequential.py\<close>) as operations on the system: activation of
  a run, waiting for an operator, and the preparation and launch of one dispatch. Each transaction of the
  store is a commit, so an exception keeps what was committed before it.

  The record \<open>'g workflow\<close> holds the attributes of the class and what the operations ask the machine: the
  generated response schemas, the resolved paths of plan sources, Python's text of a float, and the path
  of an exported run report.
\<close>

record 'g workflow =
  wf_config :: config
  wf_owner_id :: string
  wf_machine :: "'g machine"
  wf_world :: world
  wf_schema :: "worker_kind \<Rightarrow> json"
  wf_source_path :: "plan_source \<Rightarrow> string"
  wf_float_text :: "rat \<Rightarrow> string"
  wf_export_report :: "run_record \<Rightarrow> int \<Rightarrow> exn + string"

text \<open>\<open>PreparedDispatch\<close>.\<close>

record prepared_worker =
  pw_run_id :: string
  pw_generation :: int
  pw_dispatch :: dispatch_record
  pw_prompt :: string
  pw_workdir :: string
  pw_permission_config :: "(string \<times> json) list"
  pw_auto_approve :: bool
  pw_lease_keys :: "string list"
  pw_lease_owner_id :: string
  pw_review_target :: "review_target option"
  pw_session_mode :: session_mode
  pw_session_id :: "string option"
  pw_repository_before :: repository_snapshot

section \<open>Shared steps\<close>

definition event_of ::
  "env \<Rightarrow> nat \<Rightarrow> run_record \<Rightarrow> actor \<Rightarrow> string \<Rightarrow> string \<Rightarrow> ('s, transition_event) action" where
  "event_of e n r actor reason correlation_id = give (make_event e n r actor reason correlation_id None)"

definition raise_workflow :: "string \<Rightarrow> ('s, 'a) action" where
  "raise_workflow message = give (Inl (SequentialWorkflowError message))"

definition dict_item :: "(string, 'v) dict \<Rightarrow> string \<Rightarrow> exn + 'v" where
  "dict_item d k = (case dget d k of None \<Rightarrow> Inl (KeyError k) | Some v \<Rightarrow> Inr v)"

text \<open>A transition of the run that is saved.\<close>

definition move_run ::
  "env \<Rightarrow> nat \<Rightarrow> int \<Rightarrow> run_record \<Rightarrow> int \<Rightarrow> run_status \<Rightarrow> actor \<Rightarrow> string \<Rightarrow> string
   \<Rightarrow> ('g system, run_record \<times> int) action" where
  "move_run e n now r g target actor reason correlation_id =
     then_do (event_of e n r actor reason correlation_id) (\<lambda>event.
     then_do (give (transition_run r target event None)) (\<lambda>moved. saved now moved g))"

text \<open>A request that the run waits for, saved.\<close>

definition ask_operator ::
  "env \<Rightarrow> nat \<Rightarrow> int \<Rightarrow> run_record \<Rightarrow> int \<Rightarrow> string \<Rightarrow> string \<Rightarrow> operator_request
   \<Rightarrow> ('g system, run_record \<times> int) action" where
  "ask_operator e n now r g reason correlation_id request =
     then_do (event_of e n r Actor_dispatcher reason correlation_id) (\<lambda>event.
     then_do (give (wait_with r event request)) (\<lambda>waiting. saved now waiting g))"

definition is_sequential :: "config \<Rightarrow> bool" where
  "is_sequential c \<longleftrightarrow> exe_scheduling (pc_execution (cfg_model c)) = Sequential_scheduling"

text \<open>\<open>_replace_step\<close>.\<close>

definition replace_step ::
  "env \<Rightarrow> nat \<Rightarrow> int \<Rightarrow> run_record \<Rightarrow> int \<Rightarrow> step_record \<Rightarrow> ('g system, run_record \<times> int) action" where
  "replace_step e n now r g s' =
     then_do (give (step_replacement_record e n r s')) (\<lambda>updated. saved now updated g)"

section \<open>Activation\<close>

definition compile_policy_of_run ::
  "config \<Rightarrow> int \<Rightarrow> run_record \<Rightarrow> int \<Rightarrow> ('g system, run_record \<times> int) action" where
  "compile_policy_of_run c now r g =
     (case compile_run_policy c (r_plan r) of
        Inl (PolicyError message) \<Rightarrow> raise_workflow (''cannot compile run policy: '' @ message)
      | Inl e \<Rightarrow> give (Inl e)
      | Inr compiled \<Rightarrow>
          (case r_policy r of
             Some policy \<Rightarrow>
               if policy \<noteq> compiled then
                 raise_workflow ''stored run policy no longer matches selected configuration''
               else give (Inr (r, g))
           | None \<Rightarrow> saved now (r\<lparr>r_policy := Some compiled\<rparr>) g))"

definition refresh_readiness ::
  "env \<Rightarrow> int \<Rightarrow> run_record \<Rightarrow> int \<Rightarrow> ('g system, run_record \<times> int) action" where
  "refresh_readiness e now r g =
     then_do (give (refresh_readiness_record e r)) (\<lambda>refreshed.
       case refreshed of None \<Rightarrow> give (Inr (r, g)) | Some updated \<Rightarrow> saved now updated g)"

text \<open>The refresh takes at most one event per step; the two moves of the run take the next ones.\<close>

definition activate ::
  "'g workflow \<Rightarrow> env \<Rightarrow> int \<Rightarrow> string \<Rightarrow> int \<Rightarrow> ('g system, run_record \<times> int) action" where
  "activate flow e now run_id expected_generation =
     then_do (query (\<lambda>st. load_run st run_id)) (\<lambda>(r, g).
     if g \<noteq> expected_generation then raise_workflow ''run generation changed before activation''
     else
     let n = length (np_steps (r_plan r)) in
     then_do (compile_policy_of_run (wf_config flow) now r g) (\<lambda>(r, g).
     then_do (refresh_readiness e now r g) (\<lambda>(r, g).
     then_do
       (if r_state r = Run_new then
          move_run e n now r g Run_ready Actor_dispatcher ''run approved and ready'' ''run-activation''
        else give (Inr (r, g))) (\<lambda>(r, g).
     then_do
       (if r_state r = Run_ready then
          move_run e (n + 1) now r g Run_running Actor_dispatcher ''supervisor workflow started'' ''run-activation''
        else give (Inr (r, g))) (\<lambda>(r, g).
     if r_state r \<noteq> Run_running then
       raise_workflow (''run is not dispatchable from state '' @ run_status_value (r_state r))
     else give (Inr (r, g)))))))"

section \<open>Waiting and halting\<close>

definition wait_for_operator ::
  "env \<Rightarrow> int \<Rightarrow> run_record \<Rightarrow> int \<Rightarrow> string option \<Rightarrow> string \<Rightarrow> ('g system, run_record \<times> int) action" where
  "wait_for_operator e now r g step_id question =
     then_do (give (wait_for_operator_record e r step_id question)) (\<lambda>waiting. saved now waiting g)"

definition request_review_waiver ::
  "'g workflow \<Rightarrow> env \<Rightarrow> int \<Rightarrow> run_record \<Rightarrow> int \<Rightarrow> string \<Rightarrow> string \<Rightarrow> ('g system, run_record \<times> int) action" where
  "request_review_waiver flow e now r g step_id rationale =
     then_do (give (request_review_waiver_record e (wf_config flow) r step_id rationale)) (\<lambda>waiting. saved now waiting g)"

definition halt_run :: "env \<Rightarrow> int \<Rightarrow> run_record \<Rightarrow> int \<Rightarrow> string \<Rightarrow> ('g system, run_record \<times> int) action" where
  "halt_run e now r g reason = move_run e 0 now r g Run_halted Actor_supervisor reason ''supervisor-halt''"

text \<open>\<open>CompletionDecision\<close> and \<open>evaluate_completion\<close>.\<close>

record completion_decision =
  cd_accepted :: bool
  cd_obligations :: "string list"
  cd_report_path :: "string option"

fun obligation_code_text :: "obligation_code \<Rightarrow> string" where
  "obligation_code_text Step_not_accepted = ''step_not_accepted''"
| "obligation_code_text Dependency_not_accepted = ''dependency_not_accepted''"
| "obligation_code_text Review_incomplete = ''review_incomplete''"
| "obligation_code_text Evidence_missing = ''evidence_missing''"
| "obligation_code_text Operator_gate_unresolved = ''operator_gate_unresolved''"
| "obligation_code_text Dispatch_in_flight = ''dispatch_in_flight''"
| "obligation_code_text Operator_request_unresolved = ''operator_request_unresolved''"

definition obligation_texts :: "run_record \<Rightarrow> exn + string list" where
  "obligation_texts r = bindr (completion_obligations r) (\<lambda>obligations.
     Inr (map (\<lambda>item. obligation_code_text (ob_code item) @ '': '' @ ob_detail item) obligations))"

definition evaluate_completion ::
  "'g workflow \<Rightarrow> env \<Rightarrow> int \<Rightarrow> run_record \<Rightarrow> int \<Rightarrow> ('g system, completion_decision) action" where
  "evaluate_completion flow e now r g =
     then_do (give (obligation_texts r)) (\<lambda>obligations.
     if obligations \<noteq> [] then
       give (Inr \<lparr>cd_accepted = False, cd_obligations = obligations, cd_report_path = None\<rparr>)
     else
     then_do (event_of e 0 r Actor_dispatcher ''completion guard passed'' ''completion'') (\<lambda>event.
     then_do (give (transition_run r Run_succeeded event None)) (\<lambda>succeeded.
     then_do (give (wf_export_report flow succeeded (g + 1))) (\<lambda>path.
     then_do (commit (complete_run succeeded g (te_event_id event) (te_sequence event)
                (te_correlation_id event) path now)) (\<lambda>_.
       give (Inr \<lparr>cd_accepted = True, cd_obligations = [], cd_report_path = Some path\<rparr>))))))"

section \<open>Where a step works\<close>

definition group_owns_step :: "workspace_group \<Rightarrow> string \<Rightarrow> bool" where
  "group_owns_step wg step_id \<longleftrightarrow> step_id \<in> set (map wc_step_id (wg_children wg))"

definition workspace_group_for_step ::
  "run_record \<Rightarrow> string \<Rightarrow> string option \<Rightarrow> exn + workspace_group option" where
  "workspace_group_for_step r step_id group_id =
     (case group_id of
        Some i \<Rightarrow>
          (case dget (r_workspace_groups r) i of
             None \<Rightarrow> Inl (SequentialWorkflowError ''dispatch references an unknown workspace group'')
           | Some wg \<Rightarrow>
               if \<not> group_owns_step wg step_id then
                 Inl (SequentialWorkflowError ''workspace group does not own dispatch step'')
               else Inr (Some wg))
      | None \<Rightarrow>
          (case filter (\<lambda>wg. wg_state wg \<in> {Group_active, Group_integrating} \<and> group_owns_step wg step_id)
             (map snd (r_workspace_groups r)) of
             [] \<Rightarrow> Inr None
           | [wg] \<Rightarrow> Inr (Some wg)
           | _ \<Rightarrow> Inl (SequentialWorkflowError ''multiple active workspace groups own one step'')))"

definition workspace_child_of :: "workspace_group \<Rightarrow> string \<Rightarrow> exn + workspace_child" where
  "workspace_child_of wg step_id =
     (case find (\<lambda>child. wc_step_id child = step_id) (wg_children wg) of
        None \<Rightarrow> Inl (SequentialWorkflowError
          (''workspace group '' @ wg_workspace_group_id wg @ '' does not own step '' @ step_id))
      | Some child \<Rightarrow> Inr child)"

text \<open>\<open>except RepositoryValidationError\<close>.\<close>

definition as_workflow_error :: "('s, 'a) action \<Rightarrow> ('s, 'a) action" where
  "as_workflow_error a = catching a (\<lambda>e. case e of
       RepositoryValidationError message \<Rightarrow> raise_workflow message | _ \<Rightarrow> give (Inl e))"

definition inspect_registered ::
  "'g workflow \<Rightarrow> string \<Rightarrow> bool \<Rightarrow> ('g system, repository_snapshot) action" where
  "inspect_registered flow repo_id require_clean =
     as_workflow_error (on_disk (inspect_repository (wf_config flow) (wf_machine flow) repo_id require_clean))"

definition inspect_child ::
  "'g workflow \<Rightarrow> string \<Rightarrow> workspace_child \<Rightarrow> bool \<Rightarrow> ('g system, repository_snapshot) action" where
  "inspect_child flow repo_id child require_clean =
     as_workflow_error (on_disk (inspect_workspace (wf_config flow) (wf_machine flow) repo_id
       (wc_worktree_path child) (wc_branch child) require_clean))"

definition inspect_dispatch_repository ::
  "'g workflow \<Rightarrow> run_record \<Rightarrow> dispatch_record \<Rightarrow> bool \<Rightarrow> ('g system, repository_snapshot) action" where
  "inspect_dispatch_repository flow r d require_clean =
     (let repo_id = rc_repo_id (di_repository (d_intent d)) in
      then_do (give (workspace_group_for_step r (d_step_id d) (d_workspace_group_id d))) (\<lambda>owner.
        case owner of
          None \<Rightarrow> inspect_registered flow repo_id require_clean
        | Some wg \<Rightarrow> then_do (give (workspace_child_of wg (d_step_id d))) (\<lambda>child.
            inspect_child flow repo_id child require_clean)))"

text \<open>\<open>working_patch_sha256\<close> of the registered root.\<close>

definition working_patch :: "'g workflow \<Rightarrow> string \<Rightarrow> 'g \<Rightarrow> exn + string" where
  "working_patch flow repo_id disk =
     bindr (config_repository (wf_config flow) repo_id) (\<lambda>repository.
       ma_patch (wf_machine flow) (repo_root repository) disk)"

definition pending_changes ::
  "'g workflow \<Rightarrow> repository_coordinate \<Rightarrow> repository_snapshot \<Rightarrow> repository_snapshot \<Rightarrow> string \<Rightarrow> string list
   \<Rightarrow> bool \<Rightarrow> ('g system, string list) action" where
  "pending_changes flow coordinate earlier later worktree scopes require_changes =
     on_disk (\<lambda>disk. (validate_pending_executor_changes (wf_config flow)
        (\<lambda>path. ma_is_symlink (wf_machine flow) (path_text worktree path) disk)
        (\<lambda>path. leaves_worktree (wf_machine flow) worktree disk path)
        coordinate earlier later scopes require_changes, disk))"

end
