(* ===== verification/Worker_Dispatch.thy ===== *)
theory Worker_Dispatch
  imports Run_Operations
begin

text \<open>
  The preparation of a dispatch, its launch and the binding of its session: \<open>prepare_dispatch\<close>,
  \<open>mark_running\<close>, \<open>record_session_id\<close> and \<open>prepare_stall_retry\<close> of class \<open>SequentialWorkflow\<close>
  (\<open>src/src/dispatcher/sequential.py\<close>).
\<close>

section \<open>What the store knows\<close>

fun pool_name :: "worker_kind \<Rightarrow> string" where
  "pool_name Worker_executor = ''executors''"
| "pool_name Worker_reviewer = ''reviewers''"

text \<open>\<open>sessions.get(pool, {}).get(role_key, {}).get("session_id")\<close> when it is a non-empty text.\<close>

definition session_of :: "store \<Rightarrow> string \<Rightarrow> worker_kind \<Rightarrow> string \<Rightarrow> string option" where
  "session_of st run_id kind role_key =
     (case dget (sessions_for_run st run_id) (pool_name kind) of
        None \<Rightarrow> None
      | Some entries \<Rightarrow>
          (case dget entries role_key of
             None \<Rightarrow> None
           | Some session \<Rightarrow>
               (case dget session ''session_id'' of
                  Some (JStr i) \<Rightarrow> if i = [] then None else Some i
                | _ \<Rightarrow> None)))"

definition owned_session_id ::
  "store \<Rightarrow> string \<Rightarrow> worker_kind \<Rightarrow> string \<Rightarrow> session_mode \<Rightarrow> exn + string option" where
  "owned_session_id st run_id kind role_key mode =
     (if mode = Mode_new then Inr None
      else case session_of st run_id kind role_key of
        None \<Rightarrow> Inl (SequentialWorkflowError ''requested session mode has no dispatcher-owned session'')
      | Some i \<Rightarrow> Inr (Some i))"

text \<open>\<open>max(candidates, key=attempt)\<close>: the first of those with the greatest attempt.\<close>

definition latest_attempt :: "dispatch_record list \<Rightarrow> dispatch_record" where
  "latest_attempt ds = foldl (\<lambda>best d. if d_attempt best < d_attempt d then d else best) (hd ds) (tl ds)"

definition review_target_of :: "run_record \<Rightarrow> plan_step \<Rightarrow> store \<Rightarrow> exn + review_target" where
  "review_target_of r step st =
     (case filter (\<lambda>d. d_step_id d = ps_step_id step \<and> d_role_kind d = Worker_executor) (map snd (r_dispatches r)) of
        [] \<Rightarrow> Inl (SequentialWorkflowError ''review dispatch requires a completed executor dispatch'')
      | candidates \<Rightarrow>
          let d = latest_attempt candidates in
          if d_state d \<notin> {Dispatch_completed, Dispatch_forwarded, Dispatch_acknowledged} then
            Inl (SequentialWorkflowError ''review dispatch requires durable executor completion'')
          else bindr (load_dispatch_payload st (r_run_id r) (d_dispatch_id d)) (\<lambda>payload.
            case pl_result payload of
              None \<Rightarrow> Inl (SequentialWorkflowError ''completed executor dispatch has no durable result payload'')
            | Some stored \<Rightarrow>
                (case parse_executor_result_json (JObj stored) of
                   Inl (ResultError _) \<Rightarrow> Inl (SequentialWorkflowError ''durable executor result is invalid'')
                 | Inl e \<Rightarrow> Inl e
                 | Inr result \<Rightarrow> checked review_target_errors
                     \<lparr>rt_executor_dispatch_id = d_dispatch_id d, rt_executor_attempt = d_attempt d,
                      rt_result_revision = rcd_result_revision (er_repository result),
                      rt_patch_sha256 = rcd_patch_sha256 (er_repository result),
                      rt_artifact_hashes = map ar_sha256 (er_evidence result)\<rparr>)))"

section \<open>Preparation\<close>

text \<open>The optional arguments of a retry after a failed verification.\<close>

record retry_context =
  rx_repository_before :: "repository_snapshot option"
  rx_expected_snapshot :: "repository_snapshot option"
  rx_require_changes :: "bool option"
  rx_feedback :: "authoritative_verification list"

definition no_retry :: retry_context where
  "no_retry = \<lparr>rx_repository_before = None, rx_expected_snapshot = None, rx_require_changes = None,
     rx_feedback = []\<rparr>"

text \<open>
  The snapshot the dispatch starts from. A retry keeps the snapshot of the failed attempt; the repository
  then has to be as that attempt left it.
\<close>

definition repository_baseline ::
  "'g workflow \<Rightarrow> plan_step \<Rightarrow> worker_kind \<Rightarrow> session_mode \<Rightarrow> workspace_child option \<Rightarrow> string \<Rightarrow> retry_context
   \<Rightarrow> ('g system, repository_snapshot) action" where
  "repository_baseline flow step kind mode child workdir x =
     (if rx_repository_before x = None \<and> rx_expected_snapshot x = None then
        (case child of
           Some owned \<Rightarrow> inspect_child flow (ps_repo_id step) owned True
         | None \<Rightarrow> inspect_registered flow (ps_repo_id step) True)
      else case (rx_repository_before x, rx_expected_snapshot x) of
        (Some earlier, Some expected) \<Rightarrow>
          if child \<noteq> None \<or> kind \<noteq> Worker_executor \<or> mode \<noteq> Mode_resume \<or> rx_feedback x = [] then
            raise_workflow ''verification retry context is incomplete or unsupported''
          else
          then_do (inspect_registered flow (ps_repo_id step) False) (\<lambda>observed.
          if observed \<noteq> expected then
            raise_workflow ''repository changed after failed verification; operator reconciliation is required''
          else
          then_do (give (config_repository (wf_config flow) (ps_repo_id step))) (\<lambda>repository.
          then_do (pending_changes flow (dispatch_coordinate earlier None) earlier observed workdir
                     (auth_writable_paths (ps_authorization step))
                     (case rx_require_changes x of
                        None \<Rightarrow> repo_commit_policy repository = Commit_required | Some b \<Rightarrow> b)) (\<lambda>_.
            give (Inr earlier))))
      | _ \<Rightarrow> raise_workflow ''verification retry context is incomplete or unsupported'')"

text \<open>The permission configuration of the worker process.\<close>

definition worker_policy :: "config \<Rightarrow> plan_step \<Rightarrow> string \<Rightarrow> string list \<Rightarrow> exn + rules \<times> (string \<times> json) list" where
  "worker_policy c step role_key actions =
     bindr (compile_effective_policy c (ps_repo_id step) role_key actions) (\<lambda>rules.
     bindr (compile_role_mcp_servers c role_key) (\<lambda>servers.
     bindr (generate_opencode_config rules servers) (\<lambda>policy.
       case policy of JObj members \<Rightarrow> Inr (rules, members) | _ \<Rightarrow> Inr (rules, []))))"

fun session_mode_text :: "session_mode \<Rightarrow> string" where
  "session_mode_text Mode_new = ''new''"
| "session_mode_text Mode_resume = ''resume''"
| "session_mode_text Mode_fork = ''fork''"

definition dispatch_metadata ::
  "session_mode \<Rightarrow> string option \<Rightarrow> review_target option \<Rightarrow> authoritative_verification list \<Rightarrow> json_object" where
  "dispatch_metadata mode session_id target feedback =
     [(''session_mode'', JStr (session_mode_text mode)), (''parent_session_id'', json_optional JStr session_id),
      (''review_target'', json_optional (\<lambda>t. JObj (json_review_target t)) target),
      (''verification_feedback'', JArr (map json_authoritative_verification feedback))]"

datatype dispatch_outcome = Worker_prepared prepared_worker | Run_waits run_record int

text \<open>The review target of a review and what the dispatcher measured on the reviewed attempt.\<close>

definition review_context ::
  "run_record \<Rightarrow> plan_step \<Rightarrow> worker_kind \<Rightarrow> store \<Rightarrow> exn + review_target option \<times> json list option" where
  "review_context r step kind st =
     (if kind \<noteq> Worker_reviewer then Inr (None, None)
      else bindr (review_target_of r step st) (\<lambda>target.
        bindr (load_dispatch_payload st (r_run_id r) (rt_executor_dispatch_id target)) (\<lambda>payload.
          Inr (Some target, pl_authoritative_verification payload))))"

text \<open>Everything after admission.\<close>

definition prepare_admitted ::
  "'g workflow \<Rightarrow> env \<Rightarrow> int \<Rightarrow> run_record \<Rightarrow> int \<Rightarrow> dispatch_request \<Rightarrow> retry_context \<Rightarrow> plan_step
   \<Rightarrow> worker_kind \<Rightarrow> string list \<Rightarrow> ('g system, prepared_worker) action" where
  "prepare_admitted flow e now r g command x step kind actions =
     (let c = wf_config flow; role_key = req_target_role command; mode = req_session_mode command in
     then_do (give (workspace_group_for_step r (ps_step_id step) None)) (\<lambda>wg.
     then_do (case wg of None \<Rightarrow> give (Inr None)
              | Some owner \<Rightarrow> then_do (give (workspace_child_of owner (ps_step_id step))) (\<lambda>child.
                  give (Inr (Some child)))) (\<lambda>child.
     then_do (give (config_repository c (ps_repo_id step))) (\<lambda>repository.
     let workdir = (case child of None \<Rightarrow> repo_root repository | Some owned \<Rightarrow> wc_worktree_path owned) in
     then_do (repository_baseline flow step kind mode child workdir x) (\<lambda>earlier.
     then_do (give (worker_policy c step role_key actions)) (\<lambda>(rules, policy).
     then_do (query (review_context r step kind)) (\<lambda>(target, measured).
     then_do (give (record_step r (ps_step_id step))) (\<lambda>s.
     then_do (give (resolve_role_mcp_tools c role_key)) (\<lambda>tools.
     let dispatch_id = ''dispatch-'' @ env_uuid e 0;
         coordinate = dispatch_coordinate earlier (map_option wg_base_branch wg);
         prompt = worker_prompt (wf_schema flow) (wf_source_path flow)
           \<lparr>px_dispatch_id = dispatch_id, px_attempt = next_attempt kind s, px_role_kind = kind, px_step = step,
            px_task = req_prompt command, px_sources = np_sources (r_plan r), px_repository = coordinate,
            px_evidence_roots = repo_evidence_roots repository, px_review_target = target,
            px_review_verification = measured, px_authorized_actions = actions, px_mcp_tools = tools,
            px_feedback = rx_feedback x\<rparr>
     in
     then_do (give (prepare_dispatch_record e r step kind role_key (map_option wg_workspace_group_id wg)
                coordinate prompt (JObj policy))) (\<lambda>(updated, d).
     let keys = lease_keys step (wg = None); owner = dispatch_lease_owner_id (wf_owner_id flow) dispatch_id in
     then_do (query (\<lambda>st. owned_session_id st (r_run_id r) kind role_key mode)) (\<lambda>session_id.
     then_do (acquire (wf_world flow) (r_run_id r) owner keys now) (\<lambda>_.
     then_do
       (catching
         (commit (prepare_dispatch updated g d prompt policy (json_snapshot earlier)
            (Some (dispatch_metadata mode session_id target (rx_feedback x))) None now))
         (unlock_and_raise owner keys)) (\<lambda>generation.
       give (Inr \<lparr>pw_run_id = r_run_id r, pw_generation = generation, pw_dispatch = d, pw_prompt = prompt,
         pw_workdir = workdir, pw_permission_config = policy, pw_auto_approve = should_auto_approve rules,
         pw_lease_keys = keys, pw_lease_owner_id = owner, pw_review_target = target, pw_session_mode = mode,
         pw_session_id = session_id, pw_repository_before = earlier\<rparr>))))))))))))))"

definition prepare_worker ::
  "'g workflow \<Rightarrow> env \<Rightarrow> int \<Rightarrow> run_record \<Rightarrow> int \<Rightarrow> dispatch_request \<Rightarrow> retry_context
   \<Rightarrow> ('g system, dispatch_outcome) action" where
  "prepare_worker flow e now r g command x =
     then_do (query (\<lambda>st. admit_dispatch e (wf_config flow) (wo_sources (wf_world flow) (r_plan r))
                (session_of st (r_run_id r)) r command)) (\<lambda>admission.
       case admission of
         Gate_requested waiting \<Rightarrow>
           then_do (saved now waiting g) (\<lambda>(waiting, g). give (Inr (Run_waits waiting g)))
       | Admitted step kind actions \<Rightarrow>
           then_do (prepare_admitted flow e now r g command x step kind actions) (\<lambda>prepared.
             give (Inr (Worker_prepared prepared))))"

text \<open>A fresh dispatch after a stall.\<close>

definition prepare_stall_retry ::
  "'g workflow \<Rightarrow> env \<Rightarrow> int \<Rightarrow> run_record \<Rightarrow> int \<Rightarrow> prepared_worker \<Rightarrow> string \<Rightarrow> ('g system, prepared_worker) action" where
  "prepare_stall_retry flow e now r g p category =
     (let command = \<lparr>req_step_id = d_step_id (pw_dispatch p), req_target_role = d_role_key (pw_dispatch p),
            req_session_mode = Mode_new, req_repo_id = None,
            req_prompt = ''Continue the current approved step from its last durable result. ''
              @ ''Do not repeat completed side effects. Return the required typed result only. ''
              @ ''The previous interruption category was '' @ category @ ''.'',
            req_rationale = Some ''dispatcher-owned bounded stall continuation''\<rparr> in
     then_do (give (checked dispatch_request_errors command)) (\<lambda>command.
     then_do (prepare_worker flow e now r g command no_retry) (\<lambda>outcome.
       case outcome of
         Worker_prepared retried \<Rightarrow> give (Inr retried)
       | Run_waits _ _ \<Rightarrow> raise_workflow ''stall retry could not prepare a worker dispatch'')))"

section \<open>Launch\<close>

definition check_not_stale :: "'g workflow \<Rightarrow> prepared_worker \<Rightarrow> int \<Rightarrow> string \<Rightarrow> exn + unit" where
  "check_not_stale flow p g message =
     raise_if (g \<noteq> pw_generation p \<and> is_sequential (wf_config flow)) (SequentialWorkflowError message)"

text \<open>The first worker of a prepared batch starts the batch.\<close>

definition start_batch :: "env \<Rightarrow> nat \<Rightarrow> run_record \<Rightarrow> dispatch_record \<Rightarrow> exn + run_record" where
  "start_batch e n r d =
     (case d_batch_id d of
        None \<Rightarrow> Inr r
      | Some batch_id \<Rightarrow>
          bindr (dict_item (r_batches r) batch_id) (\<lambda>batch.
          if b_state batch \<noteq> Batch_prepared then Inr r
          else
            bindr (make_event e n r Actor_dispatcher ''batch worker process launched'' (b_batch_id batch) None) (\<lambda>event.
            bindr (transition_batch batch Batch_running event) (\<lambda>running.
              Inr (with_event (r\<lparr>r_batches := dset (b_batch_id batch) running (r_batches r)\<rparr>) event)))))"

definition mark_running ::
  "'g workflow \<Rightarrow> env \<Rightarrow> int \<Rightarrow> prepared_worker \<Rightarrow> int \<Rightarrow> rat \<Rightarrow> ('g system, prepared_worker) action" where
  "mark_running flow e now p process_id process_create_time =
     (let dispatch_id = d_dispatch_id (pw_dispatch p) in
     then_do (query (\<lambda>st. load_run st (pw_run_id p))) (\<lambda>(r, g).
     then_do (give (check_not_stale flow p g ''prepared dispatch generation is stale'')) (\<lambda>_.
     then_do (give (dict_item (r_dispatches r) dispatch_id)) (\<lambda>d.
     then_do (give (start_batch e 0 r d)) (\<lambda>r.
     then_do (event_of e 1 r Actor_dispatcher ''worker process launched'' dispatch_id) (\<lambda>event.
     then_do (commit (commit_dispatch_transition r g dispatch_id Dispatch_running event
                (no_update\<lparr>du_process_id := Some process_id, du_process_host := Some (wo_host (wf_world flow)),
                   du_process_started_at := Some (te_occurred_at event),
                   du_process_create_time := Some process_create_time\<rparr>) no_commit_extras now)) (\<lambda>(updated, g).
     then_do (give (dict_item (r_dispatches updated) dispatch_id)) (\<lambda>d.
       give (Inr (p\<lparr>pw_generation := g, pw_dispatch := d\<rparr>))))))))))"

definition record_session_id ::
  "'g workflow \<Rightarrow> env \<Rightarrow> int \<Rightarrow> prepared_worker \<Rightarrow> string \<Rightarrow> ('g system, prepared_worker) action" where
  "record_session_id flow e now p runtime_session_id =
     then_do (query (\<lambda>st. load_run st (pw_run_id p))) (\<lambda>(r, g).
     then_do (give (check_not_stale flow p g ''running dispatch generation is stale'')) (\<lambda>_.
     then_do (give (dict_item (r_dispatches r) (d_dispatch_id (pw_dispatch p)))) (\<lambda>d.
     if d_state d \<noteq> Dispatch_running then
       raise_workflow ''session ID arrived for a dispatch that is not RUNNING''
     else
     then_do (event_of e 0 r Actor_dispatcher ''OpenCode session identified'' (d_dispatch_id d)) (\<lambda>event.
     let (kind, key) = session_registry_identity d in
     then_do (commit (bind_dispatch_session r g (d_dispatch_id d) runtime_session_id event (pool_name kind) key
                [(''session_id'', JStr runtime_session_id), (''logical_session_key'', JStr (d_logical_session_key d)),
                 (''role_key'', JStr (d_role_key d)), (''working_directory'', JStr (pw_workdir p)),
                 (''status'', JStr ''active'')] now)) (\<lambda>(updated, g).
     then_do (give (dict_item (r_dispatches updated) (d_dispatch_id d))) (\<lambda>d.
       give (Inr (p\<lparr>pw_generation := g, pw_dispatch := d\<rparr>))))))))"

end
