(* ===== verification/Result_Operations.thy ===== *)
theory Result_Operations
  imports Worker_Dispatch
begin

text \<open>
  What is done with the answer of a worker: the operations of class \<open>SequentialWorkflow\<close>
  (\<open>src/src/dispatcher/sequential.py\<close>) that record a proposal, apply a result, forward it to the supervisor,
  recover a completed dispatch and acknowledge a forwarding. Applying a result takes two transactions: the
  first saves the completed dispatch with its step, the second the result with its forwarding.
\<close>

section \<open>Forwarding texts\<close>

text \<open>\<open>json.dumps(value, sort_keys=True)\<close> with the default separators.\<close>

fun spaced_encode :: "json \<Rightarrow> string" where
  "spaced_encode (JArr xs) = CHR ''['' # join_text '', '' (map spaced_encode xs) @ '']''"
| "spaced_encode (JObj kvs) =
     CHR ''{'' # join_text '', '' (map (\<lambda>kv. quote_text (fst kv) @ '': '' @ spaced_encode (snd kv)) kvs) @ ''}''"
| "spaced_encode j = encode j"

definition spaced_dumps :: "json \<Rightarrow> string" where
  "spaced_dumps j = spaced_encode (canon j)"

text \<open>An object of members already written, given in the order of their keys.\<close>

definition spaced_members :: "(string \<times> string) list \<Rightarrow> string" where
  "spaced_members members =
     CHR ''{'' # join_text '', '' (map (\<lambda>(k, v). quote_text k @ '': '' @ v) members) @ ''}''"

definition usage_text :: "(rat \<Rightarrow> string) \<Rightarrow> usage_amount \<Rightarrow> string" where
  "usage_text float_text u = spaced_members
     [(''cost_usd'', float_text (ua_cost_usd u)), (''tokens_input'', int_text (ua_tokens_input u)),
      (''tokens_output'', int_text (ua_tokens_output u)), (''tokens_reasoning'', int_text (ua_tokens_reasoning u)),
      (''tokens_total'', int_text (ua_tokens_total u))]"

definition json_authoritative :: "authoritative_verification list \<Rightarrow> json list" where
  "json_authoritative vs = map json_authoritative_verification vs"

definition executor_forwarding ::
  "(rat \<Rightarrow> string) \<Rightarrow> executor_result \<Rightarrow> usage_amount \<Rightarrow> authoritative_verification list \<Rightarrow> string" where
  "executor_forwarding float_text result usage authoritative = spaced_members
     [(''authoritative_verification'', spaced_dumps (JArr (json_authoritative authoritative))),
      (''dispatch_id'', quote_text (er_dispatch_id result)),
      (''evidence'', spaced_dumps (JArr (map json_artifact (er_evidence result)))),
      (''kind'', quote_text ''executor_result''), (''outcome'', quote_text (outcome_text (er_outcome result))),
      (''summary'', quote_text (er_summary result)), (''usage'', usage_text float_text usage)]"

definition reviewer_forwarding ::
  "(rat \<Rightarrow> string) \<Rightarrow> reviewer_result \<Rightarrow> usage_amount \<Rightarrow> authoritative_verification list \<Rightarrow> string" where
  "reviewer_forwarding float_text result usage authoritative = spaced_members
     [(''authoritative_verification'', spaced_dumps (JArr (json_authoritative authoritative))),
      (''dispatch_id'', quote_text (rr_dispatch_id result)), (''kind'', quote_text ''reviewer_result''),
      (''review_target'', spaced_dumps (JObj (json_review_target (rr_review_target result)))),
      (''summary'', quote_text (rr_summary result)), (''usage'', usage_text float_text usage),
      (''verdict'', quote_text (verdict_text (rr_verdict result)))]"

section \<open>Stored verification\<close>

fun as_bool :: "bool decoder" where
  "as_bool (JBool b) = Inr b"
| "as_bool _ = Inl [Field ''boolean'']"

definition decode_authoritative_verification :: "authoritative_verification decoder" where
  "decode_authoritative_verification v =
     bindr (closed_object [''check_id'', ''status'', ''argv'', ''exit_code'', ''timed_out'', ''output_truncated'',
       ''stdout_sha256'', ''stderr_sha256'', ''transcript_sha256'', ''duration_ms'', ''backend'', ''summary''] v) (\<lambda>m.
     bindr (member ''check_id'' as_text m) (\<lambda>check_id.
     bindr (member ''status'' (one_of [(''passed'', True), (''failed'', False)]) m) (\<lambda>passed.
     bindr (member ''argv'' (as_list as_text) m) (\<lambda>argv.
     bindr (member ''exit_code'' (nullable as_int) m) (\<lambda>exit_code.
     bindr (member ''timed_out'' as_bool m) (\<lambda>timed_out.
     bindr (member ''output_truncated'' as_bool m) (\<lambda>output_truncated.
     bindr (member ''stdout_sha256'' as_text m) (\<lambda>stdout_sha256.
     bindr (member ''stderr_sha256'' as_text m) (\<lambda>stderr_sha256.
     bindr (member ''transcript_sha256'' as_text m) (\<lambda>transcript_sha256.
     bindr (member ''duration_ms'' as_int m) (\<lambda>duration_ms.
     bindr (member ''backend'' as_text m) (\<lambda>backend.
     bindr (member ''summary'' as_text m) (\<lambda>summary.
       Inr \<lparr>av_check_id = check_id, av_passed = passed, av_argv = argv, av_exit_code = exit_code,
            av_timed_out = timed_out, av_output_truncated = output_truncated, av_stdout_sha256 = stdout_sha256,
            av_stderr_sha256 = stderr_sha256, av_transcript_sha256 = transcript_sha256,
            av_duration_ms = duration_ms, av_backend = backend, av_summary = summary\<rparr>)))))))))))))"

definition authoritative_verification_errors :: "authoritative_verification \<Rightarrow> verror list" where
  "authoritative_verification_errors v = field_errors
     [(''check_id'', identifier_ok (av_check_id v)), (''stdout_sha256'', sha256_ok (av_stdout_sha256 v)),
      (''stderr_sha256'', sha256_ok (av_stderr_sha256 v)), (''transcript_sha256'', sha256_ok (av_transcript_sha256 v)),
      (''duration_ms'', 0 \<le> av_duration_ms v), (''backend'', identifier_ok (av_backend v)),
      (''summary'', length_between 1 2000 (av_summary v))]"

definition stored_verification :: "json list option \<Rightarrow> exn + authoritative_verification list" where
  "stored_verification stored =
     map_result (\<lambda>v. case decode_authoritative_verification v of
         Inl es \<Rightarrow> Inl (ValidationError es) | Inr x \<Rightarrow> checked authoritative_verification_errors x)
       (case stored of None \<Rightarrow> [] | Some vs \<Rightarrow> vs)"

section \<open>Proposals\<close>

definition apply_executor_proposal ::
  "'g workflow \<Rightarrow> int \<Rightarrow> prepared_worker \<Rightarrow> executor_proposal \<Rightarrow> ('g system, repository_snapshot) action" where
  "apply_executor_proposal flow now p proposal =
     (if d_role_kind (pw_dispatch p) \<noteq> Worker_executor then
        raise_workflow ''executor proposal does not match a reviewer dispatch''
      else
      then_do (query (\<lambda>st. load_run st (pw_run_id p))) (\<lambda>(r, g).
      then_do (give (dict_item (r_dispatches r) (d_dispatch_id (pw_dispatch p)))) (\<lambda>d.
      then_do (give (find_plan_step r (d_step_id d))) (\<lambda>step.
      then_do (give (validate_executor_proposal step proposal d)) (\<lambda>_.
      then_do (inspect_dispatch_repository flow r d False) (\<lambda>later.
      then_do
        (if ep_outcome proposal = Outcome_completed then
           then_do (give (config_repository (wf_config flow) (ps_repo_id step))) (\<lambda>repository.
           then_do (pending_changes flow (di_repository (d_intent d)) (pw_repository_before p) later (pw_workdir p)
                      (auth_writable_paths (ps_authorization step))
                      (repo_commit_policy repository = Commit_required)) (\<lambda>_.
           then_do (give (authoritative_evidence (wf_config flow) (ps_repo_id step) later
                      (ps_evidence_requirements step) (ep_evidence proposal))) (\<lambda>_.
             give (Inr ()))))
         else if later \<noteq> pw_repository_before p then
           raise_workflow ''blocked or failed executor proposal left repository changes''
         else give (Inr ())) (\<lambda>_.
      then_do (commit (record_executor_proposal (r_run_id r) (d_dispatch_id d)
                 (json_executor_proposal proposal) now)) (\<lambda>_.
        give (Inr later)))))))))"

section \<open>Usage and budget\<close>

fun journal_status_of :: "usage_status option \<Rightarrow> journal_status" where
  "journal_status_of None = Journal_none"
| "journal_status_of (Some Usage_pending) = Journal_pending"
| "journal_status_of (Some Usage_complete) = Journal_complete"
| "journal_status_of (Some Usage_missing) = Journal_missing"

text \<open>\<open>_record_usage\<close>: only usage without a journal entry is added here, and saved unless it is persisted later.\<close>

definition account_usage ::
  "'g workflow \<Rightarrow> int \<Rightarrow> run_record \<Rightarrow> int \<Rightarrow> dispatch_record \<Rightarrow> usage_amount option \<Rightarrow> bool
   \<Rightarrow> ('g system, run_record \<times> int) action" where
  "account_usage flow now r g d usage persist =
     then_do (query (\<lambda>st. Inr (invocation_usage_for_dispatch st (r_run_id r) (d_dispatch_id d)))) (\<lambda>(journaled, status).
     then_do (give (record_usage (wf_config flow) r d (journal_status_of status) journaled usage)) (\<lambda>updated.
       if status = None \<and> usage \<noteq> None \<and> persist then saved now updated g else give (Inr (updated, g))))"

definition session_usage :: "run_record \<Rightarrow> dispatch_record \<Rightarrow> usage_amount" where
  "session_usage r d = bucket (ul_by_session (r_usage r)) (session_key d)"

definition budget_excess :: "budget_definition \<Rightarrow> run_record \<Rightarrow> dispatch_record \<Rightarrow> exn + string option" where
  "budget_excess budget r d =
     bindr (dict_item (ul_by_step (r_usage r)) (d_step_id d)) (\<lambda>step_usage.
     bindr (dict_item (ul_by_session (r_usage r)) (session_key d)) (\<lambda>session_usage.
       Inr (if bud_max_run_cost_usd budget < ua_cost_usd (ul_run (r_usage r)) then Some ''run cost budget exceeded''
            else if bud_max_step_cost_usd budget < ua_cost_usd step_usage then
              Some (''step '' @ d_step_id d @ '' cost budget exceeded'')
            else if bud_max_context_tokens budget < ua_tokens_total session_usage then
              Some (''session context token limit exceeded for '' @ d_logical_session_key d)
            else None)))"

definition apply_budget_limit ::
  "'g workflow \<Rightarrow> env \<Rightarrow> nat \<Rightarrow> int \<Rightarrow> run_record \<Rightarrow> int \<Rightarrow> dispatch_record \<Rightarrow> string
   \<Rightarrow> ('g system, run_record \<times> int \<times> string) action" where
  "apply_budget_limit flow e n now r g d forwarding =
     (let budget = pc_budget (cfg_model (wf_config flow)) in
      if r_state r \<noteq> Run_running \<or> \<not> bud_enabled budget then give (Inr (r, g, forwarding))
      else
      then_do (give (budget_excess budget r d)) (\<lambda>excess.
      case excess of
        None \<Rightarrow> give (Inr (r, g, forwarding))
      | Some detail \<Rightarrow>
          then_do
            (if bud_on_limit budget = Limit_halt then
               move_run e n now r g Run_halted Actor_dispatcher detail (d_dispatch_id d)
             else
               ask_operator e n now r g detail (d_dispatch_id d)
                 \<lparr>or_request_id = ''request-'' @ env_uuid e (n + 1),
                  or_question = detail @ ''; configured action is ask. Halt this run?'',
                  or_allowed_answers = [''halt''], or_context_ref = d_dispatch_id d, or_resume_to = Run_halted,
                  or_expires_at = None, or_required_role = None, or_kind = Req_budget,
                  or_step_id = Some (d_step_id d), or_reassignment_role_key = None\<rparr>) (\<lambda>(r, g).
            give (Inr (r, g, forwarding)))))"

section \<open>Completion\<close>

text \<open>
  The first transaction: the dispatch is \<open>COMPLETED\<close> with the digest of its result and the step has its
  outcome. \<open>outcome\<close> is the outcome of the step for the record, the step and the event of the result.
\<close>

definition completed_record ::
  "env \<Rightarrow> nat \<Rightarrow> run_record \<Rightarrow> dispatch_record \<Rightarrow> actor \<Rightarrow> string \<Rightarrow> json_object
   \<Rightarrow> exn + run_record \<times> dispatch_record" where
  "completed_record e n r d actor reason result =
     bindr (make_event e n r actor reason (d_dispatch_id d) None) (\<lambda>event.
     bindr (transition_dispatch d Dispatch_completed event
              (no_update\<lparr>du_result_digest := Some (object_digest result)\<rparr>)) (\<lambda>completed.
       Inr (with_dispatch r (d_dispatch_id d) completed event, completed)))"

text \<open>The second transaction, with the leases of the worker and the budget after it.\<close>

definition forward_result ::
  "'g workflow \<Rightarrow> env \<Rightarrow> nat \<Rightarrow> int \<Rightarrow> prepared_worker \<Rightarrow> run_record \<Rightarrow> int \<Rightarrow> plan_step \<Rightarrow> dispatch_record
   \<Rightarrow> dispatch_record \<Rightarrow> bool \<Rightarrow> string \<Rightarrow> forwarded_result \<Rightarrow> ('g system, run_record \<times> int \<times> string) action" where
  "forward_result flow e n now p r g step d completed escalation reason f =
     then_do (give (forwarding_record e n r completed (d_dispatch_id d) reason (fw_forwarding_payload f))) (\<lambda>r.
     then_do (if escalation then give (escalation_waiting_record e (n + 1) r step d) else give (Inr r)) (\<lambda>r.
     then_do (commit (persist_forwarded_dispatch r g (d_dispatch_id d) f now)) (\<lambda>(r, g).
     then_do (release (pw_lease_owner_id p) (pw_lease_keys p)) (\<lambda>_.
       if escalation then give (Inr (r, g, fw_forwarding_payload f))
       else apply_budget_limit flow e (n + 3) now r g d (fw_forwarding_payload f)))))"

record executor_completion =
  xc_record :: run_record
  xc_generation :: int
  xc_step :: plan_step
  xc_dispatch :: dispatch_record
  xc_completed :: dispatch_record
  xc_escalation :: bool
  xc_verification :: "authoritative_verification list"
  xc_repository_after :: repository_snapshot

definition complete_executor ::
  "'g workflow \<Rightarrow> env \<Rightarrow> int \<Rightarrow> prepared_worker \<Rightarrow> executor_result \<Rightarrow> authoritative_verification list
   \<Rightarrow> usage_amount option \<Rightarrow> repository_snapshot option \<Rightarrow> bool \<Rightarrow> ('g system, executor_completion) action" where
  "complete_executor flow e now p result authoritative usage observed persist_usage =
     (let c = wf_config flow in
      if d_role_kind (pw_dispatch p) \<noteq> Worker_executor then
        raise_workflow ''executor result does not match a reviewer dispatch''
      else
      then_do (query (\<lambda>st. load_run st (pw_run_id p))) (\<lambda>(r, g).
      then_do (give (check_not_stale flow p g ''running dispatch generation is stale'')) (\<lambda>_.
      then_do (give (dict_item (r_dispatches r) (d_dispatch_id (pw_dispatch p)))) (\<lambda>d.
      then_do (account_usage flow now r g d usage persist_usage) (\<lambda>(r, g).
      then_do (give (validate_executor_result result d)) (\<lambda>_.
      then_do (give (find_plan_step r (d_step_id d))) (\<lambda>step.
      let measured = effective_authoritative_verification c (Executor_result result) authoritative in
      then_do (give (validate_result_verification step (Executor_result result) measured)) (\<lambda>_.
      then_do (if er_outcome result = Outcome_completed then give (validate_executor_evidence step result)
               else give (Inr ())) (\<lambda>_.
      then_do (case observed of None \<Rightarrow> inspect_dispatch_repository flow r d False | Some s \<Rightarrow> give (Inr s)) (\<lambda>later.
      then_do (as_workflow_error (on_disk (\<lambda>disk. (validate_executor_snapshot c
                 (working_patch flow (rc_repo_id (di_repository (d_intent d))) disk) (di_repository (d_intent d))
                 (pw_repository_before p) later result, disk)))) (\<lambda>_.
      then_do (give (completed_record e 0 r d Actor_executor ''typed executor result received''
                 (json_executor_result result))) (\<lambda>(r, completed).
      then_do (give (record_step r (ps_step_id step))) (\<lambda>s.
      then_do (event_of e 1 r Actor_dispatcher (''executor outcome '' @ outcome_text (er_outcome result))
                 (d_dispatch_id d)) (\<lambda>event.
      then_do (give (executor_step_outcome e 2 c r step s d result event)) (\<lambda>(s', escalation).
      then_do (replace_step e 5 now r g s') (\<lambda>(r, g).
        give (Inr \<lparr>xc_record = r, xc_generation = g, xc_step = step, xc_dispatch = d, xc_completed = completed,
          xc_escalation = escalation, xc_verification = measured, xc_repository_after = later\<rparr>)))))))))))))))))"

definition apply_executor_result ::
  "'g workflow \<Rightarrow> env \<Rightarrow> int \<Rightarrow> prepared_worker \<Rightarrow> executor_result \<Rightarrow> authoritative_verification list
   \<Rightarrow> usage_amount option \<Rightarrow> repository_snapshot option \<Rightarrow> git_final option
   \<Rightarrow> ('g system, run_record \<times> int \<times> string) action" where
  "apply_executor_result flow e now p result authoritative usage observed git_final =
     then_do (complete_executor flow e now p result authoritative usage observed (git_final = None)) (\<lambda>x.
       forward_result flow e 6 now p (xc_record x) (xc_generation x) (xc_step x) (xc_dispatch x) (xc_completed x)
         (xc_escalation x) ''supervisor forwarding persisted''
         \<lparr>fw_result = json_executor_result result,
          fw_authoritative_verification = Some (json_authoritative (xc_verification x)),
          fw_repository_after = Some (json_snapshot (xc_repository_after x)),
          fw_forwarding_payload = executor_forwarding (wf_float_text flow) result
            (session_usage (xc_record x) (xc_dispatch x)) (xc_verification x),
          fw_review_id = None, fw_review = None, fw_structured_git_final = git_final, fw_sessions = None\<rparr>)"

section \<open>Reviews\<close>

definition inspect_reviewer_result ::
  "'g workflow \<Rightarrow> prepared_worker \<Rightarrow> reviewer_result \<Rightarrow> ('g system, repository_snapshot) action" where
  "inspect_reviewer_result flow p result =
     (let c = wf_config flow in
      if d_role_kind (pw_dispatch p) \<noteq> Worker_reviewer \<or> pw_review_target p = None then
        raise_workflow ''reviewer result does not match a prepared review dispatch''
      else
      then_do (query (\<lambda>st. load_run st (pw_run_id p))) (\<lambda>(r, g).
      then_do (give (check_not_stale flow p g ''running review generation is stale'')) (\<lambda>_.
      then_do (give (dict_item (r_dispatches r) (d_dispatch_id (pw_dispatch p)))) (\<lambda>d.
      then_do (give (as_worker_error (validate_reviewer_result_context result
                 ((result_expectation_of d)\<lparr>re_expected_review_target := pw_review_target p\<rparr>)))) (\<lambda>_.
      then_do (give (find_plan_step r (d_step_id d))) (\<lambda>step.
      then_do (give (record_step r (ps_step_id step))) (\<lambda>s.
      if rr_verdict result = Verdict_accepted \<and> d_role_key d \<in> set (s_accepted_reviewer_role_keys s) then
        give (Inl (WorkerResultValidationError ''reviewer role already accepted this immutable artifact''))
      else
      then_do (give (validate_model_verification step (Reviewer_result result))) (\<lambda>_.
      then_do (inspect_dispatch_repository flow r d False) (\<lambda>later.
      then_do (as_workflow_error (on_disk (\<lambda>disk. (validate_review_snapshot c
                 (working_patch flow (rc_repo_id (di_repository (d_intent d))) disk) (di_repository (d_intent d))
                 (pw_repository_before p) later (rr_review_target result), disk)))) (\<lambda>_.
        give (Inr later)))))))))))"

definition complete_reviewer ::
  "'g workflow \<Rightarrow> env \<Rightarrow> int \<Rightarrow> prepared_worker \<Rightarrow> reviewer_result \<Rightarrow> authoritative_verification list
   \<Rightarrow> usage_amount option \<Rightarrow> ('g system, executor_completion) action" where
  "complete_reviewer flow e now p result authoritative usage =
     (let c = wf_config flow in
      if d_role_kind (pw_dispatch p) \<noteq> Worker_reviewer \<or> pw_review_target p = None then
        raise_workflow ''reviewer result does not match a prepared review dispatch''
      else
      then_do (query (\<lambda>st. load_run st (pw_run_id p))) (\<lambda>(r, g).
      then_do (give (check_not_stale flow p g ''running review generation is stale'')) (\<lambda>_.
      then_do (give (dict_item (r_dispatches r) (d_dispatch_id (pw_dispatch p)))) (\<lambda>d.
      then_do (inspect_reviewer_result flow p result) (\<lambda>later.
      then_do (account_usage flow now r g d usage True) (\<lambda>(r, g).
      then_do (give (find_plan_step r (d_step_id d))) (\<lambda>step.
      let measured = effective_authoritative_verification c (Reviewer_result result) authoritative in
      then_do (give (validate_result_verification step (Reviewer_result result) measured)) (\<lambda>_.
      then_do (give (completed_record e 0 r d Actor_reviewer ''typed reviewer result received''
                 (json_reviewer_result result))) (\<lambda>(r, completed).
      then_do (give (record_step r (ps_step_id step))) (\<lambda>s.
      then_do (event_of e 1 r Actor_dispatcher (''review verdict '' @ verdict_text (rr_verdict result))
                 (d_dispatch_id d)) (\<lambda>event.
      then_do (give (reviewer_step_outcome e 2 c r step s d result event)) (\<lambda>(s', escalation).
      then_do (replace_step e 5 now r g s') (\<lambda>(r, g).
        give (Inr \<lparr>xc_record = r, xc_generation = g, xc_step = step, xc_dispatch = d, xc_completed = completed,
          xc_escalation = escalation, xc_verification = measured, xc_repository_after = later\<rparr>))))))))))))))"

definition apply_reviewer_result ::
  "'g workflow \<Rightarrow> env \<Rightarrow> int \<Rightarrow> prepared_worker \<Rightarrow> reviewer_result \<Rightarrow> authoritative_verification list
   \<Rightarrow> usage_amount option \<Rightarrow> ('g system, run_record \<times> int \<times> string) action" where
  "apply_reviewer_result flow e now p result authoritative usage =
     then_do (complete_reviewer flow e now p result authoritative usage) (\<lambda>x.
       forward_result flow e 6 now p (xc_record x) (xc_generation x) (xc_step x) (xc_dispatch x) (xc_completed x)
         (xc_escalation x) ''review forwarding persisted''
         \<lparr>fw_result = json_reviewer_result result,
          fw_authoritative_verification = Some (json_authoritative (xc_verification x)),
          fw_repository_after = Some (json_snapshot (xc_repository_after x)),
          fw_forwarding_payload = reviewer_forwarding (wf_float_text flow) result
            (session_usage (xc_record x) (xc_dispatch x)) (xc_verification x),
          fw_review_id = Some (''review-'' @ env_uuid e 11), fw_review = Some (json_reviewer_result result),
          fw_structured_git_final = None, fw_sessions = None\<rparr>)"

end
