(* ===== verification/Recovery_Operations.thy ===== *)
theory Recovery_Operations
  imports Result_Operations
begin

text \<open>
  Recovery, acknowledgement and failure: the operations of class \<open>SequentialWorkflow\<close>
  (\<open>src/src/dispatcher/sequential.py\<close>) that forward a result after a restart, acknowledge a forwarding and
  integrate a finished workspace group, turn an interrupted or failed worker into a state the operator or a
  retry can continue from, and join a batch.
\<close>

section \<open>Recovering a completed dispatch\<close>

text \<open>
  Only the stored result, verification and dispatch are used. The outcome of the step is applied again
  unless the step already left the dispatch.
\<close>

definition check_recovered_context :: "exn + unit \<Rightarrow> string \<Rightarrow> exn + unit" where
  "check_recovered_context checked_context worker =
     (case checked_context of
        Inl (ResultError message) \<Rightarrow> Inl (SequentialWorkflowError
          (''completed '' @ worker @ '' dispatch has an invalid durable result: '' @ message))
      | x \<Rightarrow> x)"

definition incompatible_step :: "string \<Rightarrow> step_record \<Rightarrow> exn" where
  "incompatible_step worker s = SequentialWorkflowError
     (''completed '' @ worker @ '' dispatch has incompatible step state '' @ step_status_value (s_state s))"

definition recovered_executor ::
  "'g workflow \<Rightarrow> env \<Rightarrow> run_record \<Rightarrow> plan_step \<Rightarrow> step_record \<Rightarrow> dispatch_record \<Rightarrow> bool \<Rightarrow> dispatch_payload
   \<Rightarrow> json_object \<Rightarrow> exn + run_record \<times> bool \<times> string" where
  "recovered_executor flow e r step s d applied payload stored =
     bindr (parse_executor_result_json (JObj stored)) (\<lambda>result.
     bindr (check_recovered_context (validate_executor_result_context result (result_expectation_of d)) ''executor'') (\<lambda>_.
     bindr (stored_verification (pl_authoritative_verification payload)) (\<lambda>measured.
     bindr (validate_result_verification step (Executor_result result) measured) (\<lambda>_.
     bindr
       (if applied then Inr (r, False)
        else if s_state s \<noteq> Step_executing then Inl (incompatible_step ''executor'' s)
        else
          bindr (make_event e 0 r Actor_dispatcher (''executor outcome '' @ outcome_text (er_outcome result))
                   (d_dispatch_id d) None) (\<lambda>event.
          bindr (executor_step_outcome e 1 (wf_config flow) r step s d result event) (\<lambda>(s', escalation).
          bindr (step_replacement_record e 4 r s') (\<lambda>r. Inr (r, escalation))))) (\<lambda>(r, escalation).
       Inr (r, escalation, executor_forwarding (wf_float_text flow) result (session_usage r d) measured))))))"

definition recovered_reviewer ::
  "'g workflow \<Rightarrow> env \<Rightarrow> run_record \<Rightarrow> plan_step \<Rightarrow> step_record \<Rightarrow> dispatch_record \<Rightarrow> bool \<Rightarrow> dispatch_payload
   \<Rightarrow> json_object \<Rightarrow> store \<Rightarrow> exn + run_record \<times> bool \<times> string" where
  "recovered_reviewer flow e r step s d applied payload stored st =
     bindr (parse_reviewer_result_json (JObj stored)) (\<lambda>result.
     bindr (review_target_of r step st) (\<lambda>target.
     bindr (check_recovered_context (validate_reviewer_result_context result
              ((result_expectation_of d)\<lparr>re_expected_review_target := Some target\<rparr>)) ''reviewer'') (\<lambda>_.
     bindr (stored_verification (pl_authoritative_verification payload)) (\<lambda>measured.
     bindr (validate_result_verification step (Reviewer_result result) measured) (\<lambda>_.
     bindr
       (if rr_verdict result = Verdict_accepted \<and> d_role_key d \<in> set (s_accepted_reviewer_role_keys s) \<and> \<not> applied then
          Inl (SequentialWorkflowError
            (''completed reviewer dispatch was already accepted; '' @ ''duplicate acceptance recovery is forbidden''))
        else if applied then Inr (r, False)
        else if s_state s \<noteq> Step_reviewing then Inl (incompatible_step ''reviewer'' s)
        else
          bindr (make_event e 0 r Actor_dispatcher (''review verdict '' @ verdict_text (rr_verdict result))
                   (d_dispatch_id d) None) (\<lambda>event.
          bindr (reviewer_step_outcome e 1 (wf_config flow) r step s d result event) (\<lambda>(s', escalation).
          bindr (step_replacement_record e 4 r s') (\<lambda>r. Inr (r, escalation))))) (\<lambda>(r, escalation).
       Inr (r, escalation, reviewer_forwarding (wf_float_text flow) result (session_usage r d) measured)))))))"

text \<open>The stored result of a completed dispatch, or why there is nothing to recover from.\<close>

definition recovery_source ::
  "run_record \<Rightarrow> string \<Rightarrow> store \<Rightarrow> exn + dispatch_record \<times> dispatch_payload \<times> json_object" where
  "recovery_source r dispatch_id st =
     (case dget (r_dispatches r) dispatch_id of
        None \<Rightarrow> Inl (SequentialWorkflowError (''unknown recovery dispatch: '' @ dispatch_id))
      | Some d \<Rightarrow>
          if d_state d \<noteq> Dispatch_completed then
            Inl (SequentialWorkflowError ''completed forwarding recovery requires a COMPLETED dispatch'')
          else bindr (load_dispatch_payload st (r_run_id r) dispatch_id) (\<lambda>payload.
            case pl_result payload of
              None \<Rightarrow> Inl (SequentialWorkflowError ''completed dispatch has no durable result payload'')
            | Some stored \<Rightarrow>
                if pl_forwarding_payload payload \<noteq> None \<and> pl_forwarding_payload payload \<noteq> Some [] then
                  Inl (SequentialWorkflowError ''completed dispatch already has a durable forwarding payload'')
                else Inr (d, payload, stored)))"

definition recover_completed_dispatch ::
  "'g workflow \<Rightarrow> env \<Rightarrow> int \<Rightarrow> string \<Rightarrow> string \<Rightarrow> ('g system, run_record \<times> int \<times> string) action" where
  "recover_completed_dispatch flow e now run_id dispatch_id =
     then_do (query (\<lambda>st. load_run st run_id)) (\<lambda>(r, g).
     then_do (query (recovery_source r dispatch_id)) (\<lambda>(d, payload, stored).
     then_do (give (find_plan_step r (d_step_id d))) (\<lambda>step.
     then_do (give (record_step r (d_step_id d))) (\<lambda>s.
     let applied = (s_active_dispatch_id s \<noteq> Some dispatch_id) in
     then_do (query (\<lambda>st. if d_role_kind d = Worker_executor
                then recovered_executor flow e r step s d applied payload stored
                else recovered_reviewer flow e r step s d applied payload stored st)) (\<lambda>(r, escalation, forwarding).
     then_do (query (\<lambda>st. Inr (d_role_kind d = Worker_reviewer \<and> \<not> review_for_dispatch st run_id dispatch_id)))
       (\<lambda>new_review.
     then_do (give (forwarding_record e 5 r d dispatch_id ''supervisor forwarding recovered'' forwarding)) (\<lambda>r.
     then_do (if escalation then give (escalation_waiting_record e 6 r step d) else give (Inr r)) (\<lambda>r.
     then_do (commit (persist_forwarded_dispatch r g dispatch_id
        \<lparr>fw_result = stored,
         fw_authoritative_verification =
           Some (case pl_authoritative_verification payload of None \<Rightarrow> [] | Some vs \<Rightarrow> vs),
         fw_repository_after = pl_repository_after payload, fw_forwarding_payload = forwarding,
         fw_review_id = (if new_review then Some (''review-'' @ env_uuid e 8) else None),
         fw_review = (if new_review then Some stored else None),
         fw_structured_git_final = None, fw_sessions = None\<rparr> now)) (\<lambda>(r, g).
       give (Inr (r, g, forwarding)))))))))))"

section \<open>Acknowledgement and integration\<close>

definition workspace_request :: "env \<Rightarrow> nat \<Rightarrow> string \<Rightarrow> operator_request" where
  "workspace_request e n group_id =
     \<lparr>or_request_id = ''request-'' @ env_uuid e n,
      or_question = ''Workspace group '' @ group_id @ '' could not be integrated. ''
        @ ''Reconcile the temporary branches before continuing.'',
      or_allowed_answers = [''reconcile'', ''halt''], or_context_ref = group_id, or_resume_to = Run_running,
      or_expires_at = None, or_required_role = None, or_kind = Req_workspace_reconciliation, or_step_id = None,
      or_reassignment_role_key = None\<rparr>"

text \<open>\<open>any(...)\<close> over the steps of the group stops at the first that is not accepted.\<close>

fun all_accepted :: "run_record \<Rightarrow> string list \<Rightarrow> exn + bool" where
  "all_accepted r [] = Inr True"
| "all_accepted r (i # is) = bindr (record_step r i) (\<lambda>s.
     if s_state s \<noteq> Step_accepted then Inr False else all_accepted r is)"

definition maybe_integrate_workspace_group ::
  "'g workflow \<Rightarrow> env \<Rightarrow> nat \<Rightarrow> int \<Rightarrow> run_record \<Rightarrow> int \<Rightarrow> string \<Rightarrow> ('g system, run_record \<times> int) action" where
  "maybe_integrate_workspace_group flow e n now r g group_id =
     (case dget (r_workspace_groups r) group_id of
        None \<Rightarrow> raise_workflow ''workspace group disappeared before integration''
      | Some wg \<Rightarrow>
          if wg_state wg \<noteq> Group_active then give (Inr (r, g))
          else
          then_do (give (all_accepted r (map wc_step_id (wg_children wg)))) (\<lambda>accepted.
          if \<not> accepted then give (Inr (r, g))
          else if list_ex (\<lambda>d. d_workspace_group_id d = Some group_id \<and> d_state d \<in> set ACTIVE_DISPATCH_STATES)
                    (map snd (r_dispatches r)) then give (Inr (r, g))
          else
            catching_workspace
              (then_do (integrate_workspace (wf_config flow) (wf_machine flow) e n now (r_run_id r) g group_id)
                (\<lambda>(r, g, _). give (Inr (r, g))))
              (\<lambda>_.
                then_do (query (\<lambda>st. load_run st (r_run_id r))) (\<lambda>(r, g).
                  ask_operator e (n + 6) now r g ''workspace integration requires operator reconciliation'' group_id
                    (workspace_request e (n + 7) group_id)))))"

definition acknowledge_forwarding ::
  "'g workflow \<Rightarrow> env \<Rightarrow> int \<Rightarrow> string \<Rightarrow> int \<Rightarrow> string \<Rightarrow> ('g system, run_record \<times> int) action" where
  "acknowledge_forwarding flow e now run_id expected_generation dispatch_id =
     then_do (query (\<lambda>st. load_run st run_id)) (\<lambda>(r, g).
     if g \<noteq> expected_generation then raise_workflow ''forwarding acknowledgement generation is stale''
     else
     then_do (event_of e 0 r Actor_supervisor ''supervisor forwarding acknowledged'' dispatch_id) (\<lambda>event.
     then_do (commit (commit_dispatch_transition r g dispatch_id Dispatch_acknowledged event no_update
                no_commit_extras now)) (\<lambda>(updated, g).
     then_do (give (dict_item (r_dispatches updated) dispatch_id)) (\<lambda>d.
       case d_workspace_group_id d of
         None \<Rightarrow> give (Inr (updated, g))
       | Some group_id \<Rightarrow> maybe_integrate_workspace_group flow e 1 now updated g group_id))))"

section \<open>Failures\<close>

text \<open>Only a worker of this host that is known to have exited is not active.\<close>

definition dispatch_process_is_active :: "world \<Rightarrow> dispatch_record \<Rightarrow> bool" where
  "dispatch_process_is_active w d =
     (case d_process_id d of
        None \<Rightarrow> True
      | Some pid \<Rightarrow>
          d_process_create_time d = None \<or> d_process_host d \<noteq> Some (wo_host w) \<or> \<not> wo_process_gone w pid)"

text \<open>The state a step is left in when its worker did not finish.\<close>

definition step_without_worker :: "step_record \<Rightarrow> transition_event \<Rightarrow> string \<Rightarrow> exn + step_record" where
  "step_without_worker s event message =
     (if s_state s = Step_executing then transition_step s Step_blocked event None None None
      else if s_state s = Step_reviewing then transition_step s Step_review_required event None None None
      else Inl (SequentialWorkflowError (message @ step_status_value (s_state s))))"

definition reconciliation_request :: "env \<Rightarrow> nat \<Rightarrow> dispatch_record \<Rightarrow> string \<Rightarrow> operator_request" where
  "reconciliation_request e n d question =
     \<lparr>or_request_id = ''request-'' @ env_uuid e n, or_question = question,
      or_allowed_answers = [''reconcile'', ''halt''], or_context_ref = d_dispatch_id d, or_resume_to = Run_running,
      or_expires_at = None, or_required_role = None, or_kind = Req_reconciliation, or_step_id = Some (d_step_id d),
      or_reassignment_role_key = None\<rparr>"

definition recovery_question :: "string option \<Rightarrow> string" where
  "recovery_question recovery_reason =
     (case recovery_reason of
        Some detail \<Rightarrow> ''The persisted worker prompt cannot be safely replayed: '' @ take 5000 (redact_text detail)
          @ ''. It was not launched. Reconcile the dispatch record or halt.''
      | None \<Rightarrow> ''An interrupted OpenCode worker may have made external changes without a durable result. ''
          @ ''Reconcile repository and session state before any retry.'')"

definition recover_interrupted_dispatch ::
  "'g workflow \<Rightarrow> env \<Rightarrow> int \<Rightarrow> string \<Rightarrow> string \<Rightarrow> string option \<Rightarrow> ('g system, run_record \<times> int) action" where
  "recover_interrupted_dispatch flow e now run_id dispatch_id recovery_reason =
     then_do (query (\<lambda>st. load_run st run_id)) (\<lambda>(r, g).
     case dget (r_dispatches r) dispatch_id of
       None \<Rightarrow> raise_workflow (''unknown interrupted dispatch '' @ dispatch_id)
     | Some d \<Rightarrow>
       if d_state d \<notin> {Dispatch_prepared, Dispatch_running} then give (Inr (r, g))
       else if d_state d = Dispatch_running \<and> dispatch_process_is_active (wf_world flow) d then
         raise_workflow (''interrupted dispatch '' @ dispatch_id
           @ '' may still have an active process; cancel it before recovery'')
       else
       let invalid_prompt = (recovery_reason \<noteq> None);
           detail = (case recovery_reason of
               Some reason \<Rightarrow> if reason = [] then ''OpenCode invocation did not durably apply a worker result'' else reason
             | None \<Rightarrow> ''OpenCode invocation did not durably apply a worker result'');
           target = (if d_state d = Dispatch_prepared then Dispatch_abandoned else Dispatch_failed) in
       then_do (event_of e 0 r Actor_dispatcher
          (if invalid_prompt then ''invalid persisted worker prompt requires operator reconciliation''
           else ''interrupted OpenCode invocation requires operator reconciliation'') dispatch_id) (\<lambda>event.
       then_do (give (transition_dispatch d target event
          (no_update\<lparr>du_failure_category := Some (if invalid_prompt then ''invalid_persisted_prompt'' else ''interrupted''),
                     du_failure_detail := Some detail\<rparr>))) (\<lambda>recovered.
       let r = with_dispatch r dispatch_id recovered event;
           reason = (if invalid_prompt then ''invalid persisted worker prompt requires operator reconciliation''
                     else ''interrupted worker requires operator reconciliation'') in
       then_do (give (record_step r (d_step_id d))) (\<lambda>s.
       then_do (event_of e 1 r Actor_dispatcher reason dispatch_id) (\<lambda>step_event.
       then_do (give (step_without_worker s step_event
          (''interrupted dispatch '' @ dispatch_id @ '' has incompatible step state ''))) (\<lambda>s'.
       then_do (give (step_replacement_record e 2 r s')) (\<lambda>r.
       if d_batch_id d \<noteq> None then saved now r g
       else ask_operator e 3 now r g reason dispatch_id
         (reconciliation_request e 4 d (recovery_question (if invalid_prompt then Some detail else None))))))))))"

definition cluster_failure_question :: "string \<Rightarrow> string" where
  "cluster_failure_question safe_reason =
     ''The dispatcher-owned cluster-operation lifecycle did not reach SUCCEEDED. ''
     @ ''Inspect the preserved cluster-operation journal before authorizing any further work. ''
     @ ''Reason: '' @ safe_reason"

definition record_cluster_operation_failure ::
  "'g workflow \<Rightarrow> env \<Rightarrow> int \<Rightarrow> prepared_worker \<Rightarrow> string \<Rightarrow> ('g system, run_record \<times> int) action" where
  "record_cluster_operation_failure flow e now p reason =
     (let redacted = take 5000 (stripped (redact_text reason));
          safe_reason = (if redacted = [] then ''cluster operation lifecycle failed'' else redacted) in
     ensuring
       (then_do (query (\<lambda>st. load_run st (pw_run_id p))) (\<lambda>(r, g).
        then_do (give (check_not_stale flow p g ''cluster operation failure generation is stale'')) (\<lambda>_.
        then_do (give (dict_item (r_dispatches r) (d_dispatch_id (pw_dispatch p)))) (\<lambda>d.
        if d_role_kind d \<noteq> Worker_reviewer \<or> d_state d \<noteq> Dispatch_running then
          raise_workflow ''cluster operation failure requires a running reviewer dispatch''
        else
        then_do (give (record_step r (d_step_id d))) (\<lambda>s.
        if s_state s \<noteq> Step_reviewing then
          raise_workflow ''cluster operation failure requires a REVIEWING step''
        else
        then_do (event_of e 0 r Actor_dispatcher ''cluster operation lifecycle prevented review acceptance''
                   (d_dispatch_id d)) (\<lambda>event.
        then_do (commit (commit_dispatch_transition r g (d_dispatch_id d) Dispatch_failed event
                   (no_update\<lparr>du_failure_category := Some ''cluster_operation'', du_failure_detail := Some safe_reason\<rparr>)
                   no_commit_extras now)) (\<lambda>(r, g).
        then_do (event_of e 1 r Actor_dispatcher ''cluster operation lifecycle requires reconciliation''
                   (d_dispatch_id d)) (\<lambda>blocked_event.
        then_do (give (record_step r (d_step_id d))) (\<lambda>s.
        then_do (give (transition_step s Step_blocked blocked_event None None None)) (\<lambda>blocked.
        then_do (replace_step e 2 now r g blocked) (\<lambda>(r, g).
          ask_operator e 3 now r g ''cluster operation reconciliation requested'' (d_dispatch_id d)
            (reconciliation_request e 4 d (cluster_failure_question safe_reason)))))))))))))
       (unlock (pw_lease_owner_id p) (pw_lease_keys p)))"

definition fail_dispatch ::
  "'g workflow \<Rightarrow> env \<Rightarrow> int \<Rightarrow> prepared_worker \<Rightarrow> string \<Rightarrow> string \<Rightarrow> string \<Rightarrow> ('g system, run_record \<times> int) action" where
  "fail_dispatch flow e now p reason failure_category failure_detail =
     ensuring
       (then_do (query (\<lambda>st. load_run st (pw_run_id p))) (\<lambda>(r, g).
        then_do (give (check_not_stale flow p g ''failed dispatch generation is stale'')) (\<lambda>_.
        then_do (give (dict_item (r_dispatches r) (d_dispatch_id (pw_dispatch p)))) (\<lambda>d.
        if d_state d \<notin> {Dispatch_prepared, Dispatch_running} then
          raise_workflow (''cannot fail dispatch from state '' @ dispatch_status_value (d_state d))
        else
        let target = (if d_state d = Dispatch_prepared then Dispatch_abandoned else Dispatch_failed) in
        then_do (event_of e 0 r Actor_dispatcher (take 5000 (redact_text reason)) (d_dispatch_id d)) (\<lambda>event.
        then_do (commit (commit_dispatch_transition r g (d_dispatch_id d) target event
                   (no_update\<lparr>du_failure_category := Some failure_category,
                              du_failure_detail := Some (take 5000 (redact_text failure_detail))\<rparr>)
                   no_commit_extras now)) (\<lambda>(r, g).
        then_do (give (record_step r (d_step_id d))) (\<lambda>s.
        then_do (event_of e 1 r Actor_dispatcher ''worker boundary failed'' (d_dispatch_id d)) (\<lambda>step_event.
        then_do (give (step_without_worker s step_event ''failed dispatch has incompatible step state '')) (\<lambda>s'.
        then_do (replace_step e 2 now r g s') (\<lambda>(r, g).
        if d_state d = Dispatch_running \<and> d_batch_id d = None then
          ask_operator e 3 now r g ''uncertain external side effect requires operator reconciliation'' (d_dispatch_id d)
            (reconciliation_request e 4 d
              (''The worker process started but did not produce an applicable result. ''
               @ ''Reconcile repository and session state before any retry.''))
        else give (Inr (r, g))))))))))))
       (unlock (pw_lease_owner_id p) (pw_lease_keys p))"

section \<open>Stalls\<close>

definition stall_policy_of :: "'g workflow \<Rightarrow> stall_policy_definition" where
  "stall_policy_of flow = exe_stall_policy (pc_execution (cfg_model (wf_config flow)))"

definition stall_retry_allowed :: "'g workflow \<Rightarrow> dispatch_record \<Rightarrow> plan_step \<Rightarrow> step_record \<Rightarrow> bool" where
  "stall_retry_allowed flow d step s \<longleftrightarrow>
     s_stalls s + 1 \<le> stall_maximum_retries_per_step (stall_policy_of flow)
     \<and> (if d_role_kind d = Worker_executor then s_executor_attempts s < rt_max_executor_attempts (ps_retry step)
        else s_reviewer_attempts s < rt_max_reviewer_attempts (ps_retry step))"

text \<open>The step after a stall: interrupted, then ready again, failed, or left for the operator.\<close>

definition stalled_step ::
  "'g workflow \<Rightarrow> env \<Rightarrow> nat \<Rightarrow> run_record \<Rightarrow> dispatch_record \<Rightarrow> plan_step \<Rightarrow> step_record \<Rightarrow> string \<Rightarrow> string
   \<Rightarrow> exn + step_record" where
  "stalled_step flow e n r d step s category reason =
     bindr (make_event e n r Actor_dispatcher ''stall recorded'' (d_dispatch_id d) None) (\<lambda>event.
     bindr (step_without_worker s event ''stalled dispatch has incompatible step state '') (\<lambda>interrupted.
     let noted = (\<lambda>t. t\<lparr>s_stalls := s_stalls s + 1, s_last_stall_category := Some category,
             s_last_stall_reason := Some (take 5000 reason)\<rparr>);
         retry_state = (if s_state s = Step_executing then Step_ready else Step_review_required);
         interrupted = noted interrupted
     in if stall_retry_allowed flow d step s then
          bindr (make_event e (n + 1) r Actor_dispatcher ''stall retry is ready'' (d_dispatch_id d) None) (\<lambda>ready_event.
          bindr (if s_state interrupted \<noteq> retry_state then transition_step interrupted retry_state ready_event None None None
                 else Inr (interrupted\<lparr>s_last_event := ready_event\<rparr>)) (\<lambda>ready.
            Inr (noted ready)))
        else if stall_on_exhausted (stall_policy_of flow) = Exhausted_fail then
          bindr (make_event e (n + 1) r Actor_dispatcher ''stall retry limit exhausted; step failed'' (d_step_id d)
                   (Some (te_sequence (s_last_event interrupted) + 1))) (\<lambda>failed_event.
            transition_step interrupted Step_failed failed_event None None None)
        else Inr interrupted))"

definition stall_request :: "env \<Rightarrow> nat \<Rightarrow> dispatch_record \<Rightarrow> int \<Rightarrow> operator_request" where
  "stall_request e n d stall_count =
     \<lparr>or_request_id = ''request-'' @ env_uuid e n,
      or_question = ''Step '' @ d_step_id d @ '' exhausted stall retries after '' @ int_text stall_count
        @ '' interruptions. Retry once more or halt?'',
      or_allowed_answers = [''retry'', ''halt''], or_context_ref = d_dispatch_id d, or_resume_to = Run_running,
      or_expires_at = None, or_required_role = None, or_kind = Req_stall_recovery, or_step_id = Some (d_step_id d),
      or_reassignment_role_key = None\<rparr>"

text \<open>\<open>next(...)\<close> without a default raises \<open>StopIteration\<close>.\<close>

definition next_plan_step :: "run_record \<Rightarrow> string \<Rightarrow> exn + plan_step" where
  "next_plan_step r step_id =
     (case find (\<lambda>step. ps_step_id step = step_id) (np_steps (r_plan r)) of None \<Rightarrow> Inl StopIteration | Some s \<Rightarrow> Inr s)"

definition handle_stall ::
  "'g workflow \<Rightarrow> env \<Rightarrow> int \<Rightarrow> prepared_worker \<Rightarrow> string \<Rightarrow> string \<Rightarrow> ('g system, run_record \<times> int \<times> bool) action" where
  "handle_stall flow e now p category reason =
     then_do (query (\<lambda>st. load_run st (pw_run_id p))) (\<lambda>(r, g).
     then_do (give (dict_item (r_dispatches r) (d_dispatch_id (pw_dispatch p)))) (\<lambda>d.
     if d_state d \<notin> {Dispatch_prepared, Dispatch_running} then
       raise_workflow (''cannot record stall from dispatch state '' @ dispatch_status_value (d_state d))
     else
     then_do (event_of e 0 r Actor_dispatcher (''worker stall: '' @ category) (d_dispatch_id d)) (\<lambda>event.
     then_do (commit (commit_dispatch_transition r g (d_dispatch_id d)
                (if d_state d = Dispatch_running then Dispatch_failed else Dispatch_abandoned) event
                (no_update\<lparr>du_failure_category := Some category, du_failure_detail := Some reason\<rparr>)
                no_commit_extras now)) (\<lambda>(r, g).
     then_do (give (record_step r (d_step_id d))) (\<lambda>s.
     then_do (give (next_plan_step r (d_step_id d))) (\<lambda>step.
     then_do (give (stalled_step flow e 1 r d step s category reason)) (\<lambda>s'.
     let allowed = stall_retry_allowed flow d step s; on_exhausted = stall_on_exhausted (stall_policy_of flow) in
     then_do (replace_step e 3 now r g s') (\<lambda>(r, g).
     then_do
       (if \<not> allowed \<and> on_exhausted = Exhausted_ask then
          ask_operator e 4 now r g ''stall retry limit exhausted'' (d_step_id d) (stall_request e 5 d (s_stalls s + 1))
        else if \<not> allowed \<and> on_exhausted = Exhausted_halt then
          move_run e 4 now r g Run_halted Actor_dispatcher ''stall retry limit exhausted; halted'' (d_step_id d)
        else give (Inr (r, g))) (\<lambda>(r, g).
     then_do (release (pw_lease_owner_id p) (pw_lease_keys p)) (\<lambda>_.
       give (Inr (r, g, allowed))))))))))))"

section \<open>Batches\<close>

definition batch_forwarding :: "string \<Rightarrow> dispatch_record list \<Rightarrow> string list \<Rightarrow> string" where
  "batch_forwarding batch_id children failed = spaced_dumps (JObj
     [(''kind'', JStr ''batch_result''), (''batch_id'', JStr batch_id),
      (''children'', JArr (map (\<lambda>d. JObj [(''dispatch_id'', JStr (d_dispatch_id d)), (''step_id'', JStr (d_step_id d)),
         (''state'', JStr (dispatch_status_value (d_state d)))]) children)),
      (''failed_dispatch_ids'', json_strings failed)])"

definition batch_request :: "env \<Rightarrow> nat \<Rightarrow> string \<Rightarrow> string list \<Rightarrow> operator_request" where
  "batch_request e n batch_id failed =
     \<lparr>or_request_id = ''request-'' @ env_uuid e n,
      or_question = ''Batch '' @ batch_id @ '' has failed dispatches '' @ join_text '', '' failed
        @ ''. Reconcile every child before continuing.'',
      or_allowed_answers = [''reconcile'', ''halt''], or_context_ref = batch_id, or_resume_to = Run_running,
      or_expires_at = None, or_required_role = None, or_kind = Req_batch_reconciliation, or_step_id = None,
      or_reassignment_role_key = None\<rparr>"

definition joined_batch ::
  "env \<Rightarrow> run_record \<Rightarrow> batch_record \<Rightarrow> string list \<Rightarrow> exn + run_record" where
  "joined_batch e r batch failed =
     bindr (make_event e 0 r Actor_dispatcher
              (if failed = [] then ''batch joined successfully'' else ''batch joined with failures'') (b_batch_id batch) None)
       (\<lambda>event.
     bindr (transition_batch batch (if failed = [] then Batch_joined else Batch_failed) event) (\<lambda>joined.
       Inr (with_event (r\<lparr>r_batches :=
         dset (b_batch_id batch) (joined\<lparr>b_failed_dispatch_ids := failed\<rparr>) (r_batches r)\<rparr>) event)))"

definition finalize_batch ::
  "'g workflow \<Rightarrow> env \<Rightarrow> int \<Rightarrow> string \<Rightarrow> int \<Rightarrow> string \<Rightarrow> ('g system, run_record \<times> int \<times> string) action" where
  "finalize_batch flow e now run_id expected_generation batch_id =
     then_do (query (\<lambda>st. load_run st run_id)) (\<lambda>(r, g).
     if g \<noteq> expected_generation \<and> is_sequential (wf_config flow) then raise_workflow ''batch generation is stale''
     else case dget (r_batches r) batch_id of
       None \<Rightarrow> raise_workflow (''unknown batch '' @ batch_id)
     | Some batch \<Rightarrow>
       if b_state batch \<notin> {Batch_prepared, Batch_running} then
         raise_workflow (''batch '' @ batch_id @ '' is already joined'')
       else
       then_do (give (map_result (dict_item (r_dispatches r)) (b_dispatch_ids batch))) (\<lambda>children.
       let unresolved = map d_dispatch_id (filter
             (\<lambda>d. d_state d \<in> {Dispatch_prepared, Dispatch_running, Dispatch_completed}) children);
           failed = map d_dispatch_id (filter (\<lambda>d. d_state d \<in> {Dispatch_failed, Dispatch_abandoned}) children) in
       if unresolved \<noteq> [] then
         raise_workflow (''batch '' @ batch_id @ '' cannot join with unresolved dispatches '' @ list_repr (sort unresolved))
       else
       then_do (give (joined_batch e r batch failed)) (\<lambda>r.
       then_do (saved now r g) (\<lambda>(r, g).
       then_do
         (if failed \<noteq> [] \<and> r_state r = Run_running then
            ask_operator e 1 now r g ''batch requires operator reconciliation'' batch_id (batch_request e 2 batch_id failed)
          else give (Inr (r, g))) (\<lambda>(r, g).
         give (Inr (r, g, batch_forwarding batch_id children failed)))))))"

end
