(* ===== verification/Batch_Preparation.thy ===== *)
theory Batch_Preparation
  imports Worker_Dispatch
begin

text \<open>
  Batches of class \<open>SequentialWorkflow\<close> (\<open>src/src/dispatcher/sequential.py\<close>): \<open>prepare_batch\<close> prepares every
  child in memory, takes the leases of all of them and stores them in one transaction;
  \<open>prepare_workspace_batch\<close> first provisions a workspace group for them. The lemmas say what a child needs
  for its leases.
\<close>

section \<open>Sources and children\<close>

definition verify_dispatch_sources :: "'g workflow \<Rightarrow> run_record \<Rightarrow> exn + unit" where
  "verify_dispatch_sources flow r =
     (case wo_sources (wf_world flow) (r_plan r) of
        Inl (PlanError m) \<Rightarrow> Inl (SequentialWorkflowError (''cannot prepare worker dispatch: '' @ m))
      | x \<Rightarrow> x)"

text \<open>\<open>{exc}\<close> of a \<open>SchedulingError\<close> joins its reasons.\<close>

definition schedulable :: "string \<Rightarrow> exn + 'a \<Rightarrow> exn + 'a" where
  "schedulable what x = (case x of
       Inl (SchedulingError reasons) \<Rightarrow>
         Inl (SequentialWorkflowError (what @ '' is not schedulable: '' @ join_text ''; '' reasons))
     | y \<Rightarrow> y)"

definition batch_children ::
  "config \<Rightarrow> run_record \<Rightarrow> dispatch_request list \<Rightarrow> workspace_group option \<Rightarrow> exn + dispatch_request list" where
  "batch_children c r children wg =
     (if wg = None then schedulable ''batch'' (validate_batch c r children)
      else bindr (map_result (\<lambda>child. bindr (find_plan_step r (req_step_id child)) (\<lambda>step. Inr (ps_ordinal step, child))) children)
        (\<lambda>pairs. Inr (map snd (sort_key fst pairs))))"

text \<open>The random numbers and clock readings after the first \<open>n\<close>.\<close>

definition later_env :: "nat \<Rightarrow> env \<Rightarrow> env" where
  "later_env n e = \<lparr>env_uuid = (\<lambda>k. env_uuid e (n + k)), env_now = (\<lambda>k. env_now e (n + k))\<rparr>"

section \<open>One child\<close>

definition batch_dispatch_record ::
  "env \<Rightarrow> run_record \<Rightarrow> step_record \<Rightarrow> plan_step \<Rightarrow> worker_kind \<Rightarrow> string \<Rightarrow> string option \<Rightarrow> string
   \<Rightarrow> repository_coordinate \<Rightarrow> string \<Rightarrow> json \<Rightarrow> transition_event \<Rightarrow> exn + run_record \<times> dispatch_record" where
  "batch_dispatch_record e r s step kind role_key group_id batch_id coordinate prompt policy event =
     bindr (checked dispatch_record_errors
       ((prepared_dispatch e step kind role_key group_id coordinate prompt (digest_json policy) (next_attempt kind s) event)
          \<lparr>d_batch_id := Some batch_id\<rparr>)) (\<lambda>d.
     bindr (dispatched_step s kind event (d_dispatch_id d)) (\<lambda>s'.
       Inr (r\<lparr>r_steps := dset (ps_step_id step) s' (r_steps r),
              r_dispatches := dset (d_dispatch_id d) d (r_dispatches r),
              r_sequence := te_sequence event, r_updated_at := te_occurred_at event\<rparr>, d)))"

text \<open>What is checked of a child before anything is inspected.\<close>

definition admit_child ::
  "'g workflow \<Rightarrow> run_record \<Rightarrow> dispatch_request \<Rightarrow> store \<Rightarrow> exn + plan_step \<times> worker_kind \<times> string list" where
  "admit_child flow r child st =
     (let c = wf_config flow; sessions = session_of st (r_run_id r) in
      bindr (find_plan_step r (req_step_id child)) (\<lambda>step.
      bindr (case req_repo_id child of
               None \<Rightarrow> Inr ()
             | Some repo_id \<Rightarrow> raise_if (repo_id \<noteq> ps_repo_id step)
                 (SupervisorCommandRejectedError (''supervisor repository assertion '' @ repr_text repo_id
                    @ '' does not match step repository '' @ repr_text (ps_repo_id step)))) (\<lambda>_.
      bindr (dispatch_role_kind c (req_target_role child)) (\<lambda>kind.
      bindr (role_scoped_authorized_actions (auth_authorized_actions (ps_authorization step))
               (role_kind_of_worker kind)) (\<lambda>actions.
      bindr (record_step r (ps_step_id step)) (\<lambda>s.
      if \<not> s_operator_gate_resolved s then
        Inl (SequentialWorkflowError (''batch step '' @ ps_step_id step @ '' has an unresolved operator gate''))
      else
        bindr (ensure_budget_allows_dispatch c (sessions kind) r step (req_target_role child) (req_session_mode child)) (\<lambda>_.
        bindr (validate_step_readiness c sessions r step kind (req_session_mode child) (req_target_role child)) (\<lambda>_.
          Inr (step, kind, actions)))))))))"

definition prepare_child ::
  "'g workflow \<Rightarrow> env \<Rightarrow> int \<Rightarrow> string \<Rightarrow> workspace_group option \<Rightarrow> run_record \<Rightarrow> dispatch_request
   \<Rightarrow> ('g system, run_record \<times> prepared_worker) action" where
  "prepare_child flow e g batch_id wg r child =
     (let c = wf_config flow; role_key = req_target_role child; mode = req_session_mode child in
     then_do (query (admit_child flow r child)) (\<lambda>(step, kind, actions).
     then_do (give (case wg of None \<Rightarrow> Inr None
              | Some owner \<Rightarrow> bindr (workspace_child_of owner (ps_step_id step)) (\<lambda>w. Inr (Some w)))) (\<lambda>place.
     then_do (give (config_repository c (ps_repo_id step))) (\<lambda>repository.
     let workdir = (case place of None \<Rightarrow> repo_root repository | Some w \<Rightarrow> wc_worktree_path w) in
     then_do (case place of
                None \<Rightarrow> inspect_registered flow (ps_repo_id step) True
              | Some w \<Rightarrow> inspect_child flow (ps_repo_id step) w True) (\<lambda>earlier.
     then_do (give (worker_policy c step role_key actions)) (\<lambda>(rules, policy).
     then_do (give (record_step r (ps_step_id step))) (\<lambda>s.
     let dispatch_id = ''dispatch-'' @ env_uuid e 0 in
     then_do (event_of e 1 r Actor_dispatcher (''prepared '' @ worker_kind_text kind @ '' batch dispatch'') dispatch_id) (\<lambda>event.
     then_do (query (review_context r step kind)) (\<lambda>(target, measured).
     then_do (give (resolve_role_mcp_tools c role_key)) (\<lambda>tools.
     let coordinate = dispatch_coordinate earlier (map_option wg_base_branch wg);
         prompt = worker_prompt (wf_schema flow) (wf_source_path flow)
           \<lparr>px_dispatch_id = dispatch_id, px_attempt = next_attempt kind s, px_role_kind = kind, px_step = step,
            px_task = req_prompt child, px_sources = np_sources (r_plan r), px_repository = coordinate,
            px_evidence_roots = repo_evidence_roots repository, px_review_target = target,
            px_review_verification = measured, px_authorized_actions = actions, px_mcp_tools = tools,
            px_feedback = []\<rparr>
     in
     then_do (give (batch_dispatch_record e r s step kind role_key (map_option wg_workspace_group_id wg) batch_id
                coordinate prompt (JObj policy) event)) (\<lambda>(r, d).
     then_do (query (\<lambda>st. owned_session_id st (r_run_id r) kind role_key mode)) (\<lambda>session_id.
       give (Inr (r, \<lparr>pw_run_id = r_run_id r, pw_generation = g, pw_dispatch = d, pw_prompt = prompt,
         pw_workdir = workdir, pw_permission_config = policy, pw_auto_approve = should_auto_approve rules,
         pw_lease_keys = lease_keys step (wg = None),
         pw_lease_owner_id = dispatch_lease_owner_id (wf_owner_id flow) dispatch_id, pw_review_target = target,
         pw_session_mode = mode, pw_session_id = session_id, pw_repository_before = earlier\<rparr>))))))))))))))"

text \<open>Each child takes three random numbers.\<close>

fun prepare_children ::
  "'g workflow \<Rightarrow> env \<Rightarrow> int \<Rightarrow> string \<Rightarrow> workspace_group option \<Rightarrow> run_record \<Rightarrow> dispatch_request list
   \<Rightarrow> ('g system, run_record \<times> prepared_worker list) action" where
  "prepare_children flow e g batch_id wg r [] = give (Inr (r, []))"
| "prepare_children flow e g batch_id wg r (child # children) =
     then_do (prepare_child flow e g batch_id wg r child) (\<lambda>(r, p).
     then_do (prepare_children flow (later_env 3 e) g batch_id wg r children) (\<lambda>(r, ps).
       give (Inr (r, p # ps))))"

section \<open>Leases and commit\<close>

definition unlock_workers :: "prepared_worker list \<Rightarrow> exn \<Rightarrow> ('g system, 'a) action" where
  "unlock_workers held exc =
     (\<lambda>s. (Inl exc, fold (\<lambda>p. unlock (pw_lease_owner_id p) (pw_lease_keys p)) held s))"

text \<open>The leases of each child in turn, then the continuation; a failure gives back what was taken.\<close>

fun lease_each ::
  "'g workflow \<Rightarrow> string \<Rightarrow> int \<Rightarrow> ('g system, 'a) action \<Rightarrow> prepared_worker list \<Rightarrow> prepared_worker list
   \<Rightarrow> ('g system, 'a) action" where
  "lease_each flow run_id now finish held [] = catching finish (unlock_workers held)"
| "lease_each flow run_id now finish held (p # ps) =
     then_do
       (catching
         (then_do (acquire (wf_world flow) run_id (pw_lease_owner_id p) (pw_lease_keys p) now) (\<lambda>_. give (Inr ())))
         (unlock_workers held)) (\<lambda>_.
     lease_each flow run_id now finish (held @ [p]) ps)"

definition worker_payload :: "prepared_worker \<Rightarrow> string \<times> dispatch_payload" where
  "worker_payload p =
     (d_dispatch_id (pw_dispatch p),
      (new_payload (pw_prompt p) (pw_permission_config p))
        \<lparr>pl_repository_before := Some (json_snapshot (pw_repository_before p)),
         pl_session_metadata := Some
           [(''session_mode'', JStr (session_mode_text (pw_session_mode p))),
            (''parent_session_id'', json_optional JStr (pw_session_id p)),
            (''review_target'', json_optional (\<lambda>t. JObj (json_review_target t)) (pw_review_target p))]\<rparr>)"

record prepared_batch =
  pb_run_id :: string
  pb_generation :: int
  pb_batch_id :: string
  pb_dispatches :: "prepared_worker list"

definition new_batch :: "env \<Rightarrow> nat \<Rightarrow> run_record \<Rightarrow> string \<Rightarrow> prepared_worker list \<Rightarrow> exn + run_record" where
  "new_batch e n r batch_id workers =
     bindr (make_event e n r Actor_dispatcher ''prepared dispatch batch'' batch_id None) (\<lambda>event.
     bindr (checked batch_record_errors
       \<lparr>b_batch_id = batch_id, b_dispatch_ids = map (\<lambda>p. d_dispatch_id (pw_dispatch p)) workers,
        b_state = Batch_prepared, b_failed_dispatch_ids = [], b_last_event = event\<rparr>) (\<lambda>batch.
       Inr (with_event (r\<lparr>r_batches := dset batch_id batch (r_batches r)\<rparr>) event)))"

definition prepare_batch ::
  "'g workflow \<Rightarrow> env \<Rightarrow> int \<Rightarrow> run_record \<Rightarrow> int \<Rightarrow> dispatch_request list \<Rightarrow> workspace_group option \<Rightarrow> bool
   \<Rightarrow> ('g system, prepared_batch) action" where
  "prepare_batch flow e now r g command wg sources_verified =
     then_do (give (if sources_verified then Inr () else verify_dispatch_sources flow r)) (\<lambda>_.
     if r_state r \<noteq> Run_running then raise_workflow ''only RUNNING runs may prepare a batch''
     else
     then_do (give (batch_children (wf_config flow) r command wg)) (\<lambda>children.
     let batch_id = ''batch-'' @ env_uuid e 0 in
     then_do (prepare_children flow (later_env 1 e) g batch_id wg r children) (\<lambda>(working, workers).
     then_do (give (new_batch e (1 + 3 * length children) working batch_id workers)) (\<lambda>working.
     then_do
       (lease_each flow (r_run_id r) now
         (commit (prepare_dispatch_batch working g (map worker_payload workers) now)) [] workers) (\<lambda>generation.
       give (Inr \<lparr>pb_run_id = r_run_id r, pb_generation = generation, pb_batch_id = batch_id,
         pb_dispatches = map (\<lambda>p. p\<lparr>pw_generation := generation\<rparr>) workers\<rparr>))))))"

section \<open>Workspace batches\<close>

text \<open>A workflow error is raised again, with its class; any other exception becomes one.\<close>

definition workspace_batch_failed :: "exn \<Rightarrow> exn" where
  "workspace_batch_failed exc = (case exc of
       SequentialWorkflowError _ \<Rightarrow> exc
     | SupervisorCommandRejectedError _ \<Rightarrow> exc
     | WorkerResultValidationError _ \<Rightarrow> exc
     | _ \<Rightarrow> SequentialWorkflowError (''workspace batch preparation failed: '' @ exn_text exc))"

definition is_rejection :: "exn \<Rightarrow> bool" where
  "is_rejection exc = (case exc of SupervisorCommandRejectedError _ \<Rightarrow> True | _ \<Rightarrow> False)"

text \<open>\<open>force=True\<close>; a \<open>WorkspaceError\<close> of the cleanup is dropped.\<close>

definition discard_group ::
  "'g workflow \<Rightarrow> env \<Rightarrow> nat \<Rightarrow> int \<Rightarrow> run_record \<Rightarrow> int \<Rightarrow> workspace_group \<Rightarrow> ('g system, unit) action" where
  "discard_group flow e n now r g wg =
     catching_workspace
       (then_do (cleanup_workspace (wf_config flow) (wf_machine flow) e n now (r_run_id r) g (wg_workspace_group_id wg) True)
          (\<lambda>_. give (Inr ())))
       (\<lambda>_. give (Inr ()))"

definition prepare_workspace_batch ::
  "'g workflow \<Rightarrow> env \<Rightarrow> int \<Rightarrow> run_record \<Rightarrow> int \<Rightarrow> dispatch_request list \<Rightarrow> ('g system, prepared_batch) action" where
  "prepare_workspace_batch flow e now r g command =
     (let c = wf_config flow in
     then_do (give (verify_dispatch_sources flow r)) (\<lambda>_.
     then_do (give (map_result (\<lambda>child. dispatch_role_kind c (req_target_role child)) command)) (\<lambda>_.
     then_do (give (schedulable ''workspace batch'' (validate_workspace_batch c r command))) (\<lambda>children.
     then_do (give (find_plan_step r (req_step_id (hd children)))) (\<lambda>first.
     then_do
       (catching
         (prepare_workspace c (wf_machine flow) (wf_world flow) e now (r_run_id r) g (ps_repo_id first) (map req_step_id children))
         (\<lambda>exc. give (Inl (workspace_batch_failed exc)))) (\<lambda>(r, g, wg).
     catching
       (prepare_batch flow (later_env 4 e) now r g command (Some wg) True)
       (\<lambda>exc. then_do (discard_group flow (later_env (6 + 3 * length command) e) 0 now r g wg) (\<lambda>_.
          give (Inl (if is_rejection exc
             then SequentialWorkflowError ''workspace batch command became invalid after workspace preparation''
             else workspace_batch_failed exc))))))))))"

section \<open>What a child needs for its leases\<close>

text \<open>
  Within a workspace group the lock of the repository belongs to the group, so a step that declares no resource
  lock has nothing to take. An acquisition of no key is refused.
\<close>

lemma case_prod_Inr [ok_dests]:
  "(case p of (a, b) \<Rightarrow> f a b) s = (Inr y, s') \<longleftrightarrow> (\<exists>a b. p = (a, b) \<and> f a b s = (Inr y, s'))"
  by (cases p) simp

lemma give_Inr [ok_dests]: "give r s = (Inr y, s') \<longleftrightarrow> r = Inr y \<and> s' = s"
  by auto

lemma query_Inr [ok_dests]: "query q s = (Inr y, s') \<longleftrightarrow> q (sy_store s) = Inr y \<and> s' = s"
  by auto

lemma catching_raise_Inr [ok_dests]:
  "catching m (\<lambda>e. give (Inl (h e))) s = (Inr x, s') \<longleftrightarrow> m s = (Inr x, s')"
  "catching m (\<lambda>e. then_do (k e) (\<lambda>u. give (Inl (h e)))) s = (Inr x, s') \<longleftrightarrow> m s = (Inr x, s')"
  by (auto simp: catching_eq)

lemma lease_keys_lockless: "ps_resource_locks step = [] \<Longrightarrow> lease_keys step False = []"
  by (simp add: lease_keys_def resource_keys_def)

lemma acquire_needs_keys: "acquire w run_id owner keys now s = (Inr held, s') \<Longrightarrow> keys \<noteq> []"
  by (auto simp: acquire_def acquire_resource_leases_def split: if_splits)

lemma admit_child_Inr:
  "admit_child flow r child st = Inr (step, kind, actions) \<Longrightarrow> find_plan_step r (req_step_id child) = Inr step"
  unfolding admit_child_def Let_def ok_dests by auto

lemma batch_dispatch_record_Inr:
  "batch_dispatch_record e r s step kind role_key group_id batch_id coordinate prompt policy event = Inr (r', d)
   \<Longrightarrow> r_plan r' = r_plan r"
  unfolding batch_dispatch_record_def ok_dests by auto

lemma prepare_child_Inr:
  assumes "prepare_child flow e g batch_id wg r child s = (Inr (r', p), s')"
  shows "r_plan r' = r_plan r"
    and "\<exists>step. find_plan_step r (req_step_id child) = Inr step \<and> pw_lease_keys p = lease_keys step (wg = None)"
proof -
  have "(\<exists>step kind actions. admit_child flow r child (sy_store s) = Inr (step, kind, actions)
      \<and> pw_lease_keys p = lease_keys step (wg = None)) \<and> r_plan r' = r_plan r"
    using assms unfolding prepare_child_def Let_def ok_dests then_do_Inr
    by (auto dest: batch_dispatch_record_Inr)
  then show "r_plan r' = r_plan r"
    and "\<exists>step. find_plan_step r (req_step_id child) = Inr step \<and> pw_lease_keys p = lease_keys step (wg = None)"
    by (auto dest: admit_child_Inr)
qed

lemma find_plan_step_plan: "r_plan r' = r_plan r \<Longrightarrow> find_plan_step r' i = find_plan_step r i"
  by (simp add: find_plan_step_def)

lemma prepare_children_keys:
  assumes "prepare_children flow e g batch_id wg r children s = (Inr (r', ps), s')" "child \<in> set children"
  shows "\<exists>p \<in> set ps. \<exists>step. find_plan_step r (req_step_id child) = Inr step \<and> pw_lease_keys p = lease_keys step (wg = None)"
  using assms
proof (induction children arbitrary: e r s ps)
  case (Cons first children)
  from Cons.prems(1) obtain r1 p s1 ps' where first: "prepare_child flow e g batch_id wg r first s = (Inr (r1, p), s1)"
    and others: "prepare_children flow (later_env 3 e) g batch_id wg r1 children s1 = (Inr (r', ps'), s')"
    and ps: "ps = p # ps'"
    by (auto split: prod.splits)
  show ?case
  proof (cases "child = first")
    case True
    with prepare_child_Inr(2) [OF first] ps show ?thesis by auto
  next
    case False
    with Cons.IH [OF others] Cons.prems(2) ps find_plan_step_plan [OF prepare_child_Inr(1) [OF first]]
    show ?thesis by auto
  qed
qed simp

lemma lease_each_keys:
  assumes "lease_each flow run_id now finish held ps s = (Inr x, s')" "p \<in> set ps"
  shows "pw_lease_keys p \<noteq> []"
  using assms
proof (induction ps arbitrary: held s)
  case (Cons q ps)
  then show ?case
    by (auto simp: catching_eq unlock_workers_def dest: acquire_needs_keys)
qed simp

lemma prepare_batch_Inr:
  assumes "prepare_batch flow e now r g command wg verified s = (Inr b, s')"
  obtains children working workers s1 stored where
    "batch_children (wf_config flow) r command wg = Inr children"
    "prepare_children flow (later_env 1 e) g (''batch-'' @ env_uuid e 0) wg r children s = (Inr (working, workers), s1)"
    "new_batch e (1 + 3 * length children) working (''batch-'' @ env_uuid e 0) workers = Inr stored"
    "lease_each flow (r_run_id r) now (commit (prepare_dispatch_batch stored g (map worker_payload workers) now))
       [] workers s1 = (Inr (pb_generation b), s')"
    "b = \<lparr>pb_run_id = r_run_id r, pb_generation = pb_generation b, pb_batch_id = ''batch-'' @ env_uuid e 0,
       pb_dispatches = map (\<lambda>p. p\<lparr>pw_generation := pb_generation b\<rparr>) workers\<rparr>"
  using assms that
  unfolding prepare_batch_def Let_def raise_workflow_def ok_dests then_do_Inr by auto

lemma ranked_members:
  "map_result (\<lambda>child. bindr (f child) (\<lambda>step. Inr (h step, child))) children = Inr marked \<Longrightarrow> map snd marked = children"
  by (induction children arbitrary: marked) (auto simp: bindr_Inr_iff)

theorem lockless_children_fail:
  assumes "child \<in> set command" "find_plan_step r (req_step_id child) = Inr step" "ps_resource_locks step = []"
  shows "\<exists>exc. fst (prepare_batch flow e now r g command (Some wg) verified s) = Inl exc"
proof (rule ccontr)
  assume "\<not> ?thesis"
  then obtain b s' where "prepare_batch flow e now r g command (Some wg) verified s = (Inr b, s')"
    by (metis sum.exhaust surjective_pairing)
  then obtain children working workers s1 stored where
    children: "batch_children (wf_config flow) r command (Some wg) = Inr children"
    and prepared: "prepare_children flow (later_env 1 e) g (''batch-'' @ env_uuid e 0) (Some wg) r children s
      = (Inr (working, workers), s1)"
    and leased: "lease_each flow (r_run_id r) now (commit (prepare_dispatch_batch stored g (map worker_payload workers) now))
       [] workers s1 = (Inr (pb_generation b), s')"
    by (rule prepare_batch_Inr)
  have "child \<in> set children"
  proof -
    from children obtain marked where marked: "map_result (\<lambda>child. bindr (find_plan_step r (req_step_id child))
        (\<lambda>step. Inr (ps_ordinal step, child))) command = Inr marked" "children = map snd (sort_key fst marked)"
      by (auto simp: batch_children_def bindr_Inr_iff)
    have "set children = snd ` set marked" by (simp add: marked(2))
    with ranked_members [OF marked(1)] assms(1) show ?thesis by (metis set_map)
  qed
  from prepare_children_keys [OF prepared this] assms(2,3) obtain p where "p \<in> set workers" "pw_lease_keys p = []"
    by (auto simp: lease_keys_lockless)
  with lease_each_keys [OF leased] show False by blast
qed

text \<open>The same of the operation that provisions the group first.\<close>

lemma schedulable_Inr: "schedulable what x = Inr y \<longleftrightarrow> x = Inr y"
  by (auto simp: schedulable_def split: sum.splits exn.splits)

lemma fail_group_never: "fail_group e n now r g wg i what exc s \<noteq> (Inr x, s')"
  unfolding fail_group_def workspace_event_def ok_dests then_do_Inr by auto

lemma save_workspace_group_plan:
  "save_workspace_group r g wg now st = Inr ((r', g'), st') \<Longrightarrow> r_plan r' = r_plan r \<and> r_run_id r' = r_run_id r"
  unfolding save_workspace_group_def Let_def ok_dests by (auto simp: with_event_def)

lemma prepare_workspace_Inr:
  assumes "prepare_workspace c m w e now run_id expected repo_id step_ids s = (Inr (r', g', wg), s')"
    "load_run (sy_store s) run_id = Inr (r, g)"
  shows "r_plan r' = r_plan r"
  using assms
  unfolding prepare_workspace_def Let_def workspace_event_def ok_dests then_do_Inr catching_eq
  by (auto simp: fail_group_never dest!: save_workspace_group_plan)

lemma prepare_workspace_batch_Inr:
  assumes "prepare_workspace_batch flow e now r g command s = (Inr b, s')"
  obtains children first r' g' wg s1 where
    "schedulable ''workspace batch'' (validate_workspace_batch (wf_config flow) r command) = Inr children"
    "find_plan_step r (req_step_id (hd children)) = Inr first"
    "prepare_workspace (wf_config flow) (wf_machine flow) (wf_world flow) e now (r_run_id r) g (ps_repo_id first)
       (map req_step_id children) s = (Inr (r', g', wg), s1)"
    "prepare_batch flow (later_env 4 e) now r' g' command (Some wg) True s1 = (Inr b, s')"
  using assms unfolding prepare_workspace_batch_def Let_def ok_dests then_do_Inr
  by (elim exE conjE, hypsubst) (rule that)

theorem lockless_workspace_batches_fail:
  assumes "child \<in> set command" "find_plan_step r (req_step_id child) = Inr step" "ps_resource_locks step = []"
    "load_run (sy_store s) (r_run_id r) = Inr (r, g)"
  shows "\<exists>exc. fst (prepare_workspace_batch flow e now r g command s) = Inl exc"
proof (rule ccontr)
  assume "\<not> ?thesis"
  then obtain b s' where "prepare_workspace_batch flow e now r g command s = (Inr b, s')"
    by (metis sum.exhaust surjective_pairing)
  then show False
  proof (rule prepare_workspace_batch_Inr)
    fix children first r' g' wg s1
    assume provisioned: "prepare_workspace (wf_config flow) (wf_machine flow) (wf_world flow) e now (r_run_id r) g
        (ps_repo_id first) (map req_step_id children) s = (Inr (r', g', wg), s1)"
      and batch: "prepare_batch flow (later_env 4 e) now r' g' command (Some wg) True s1 = (Inr b, s')"
    from prepare_workspace_Inr [OF provisioned assms(4)] assms(2) have "find_plan_step r' (req_step_id child) = Inr step"
      using find_plan_step_plan by metis
    from lockless_children_fail [OF assms(1) this assms(3), where flow = flow and e = "later_env 4 e" and now = now
        and g = g' and wg = wg and verified = True and s = s1] batch
    show False by simp
  qed
qed

end
