(* ===== verification/Json_Text.thy ===== *)
theory Json_Text
  imports Canonical_Text
begin

text \<open>
  Reading JSON text: the scanner of Python's \<open>json.JSONDecoder\<close> in strict mode with an object hook that refuses
  duplicate keys, as \<open>protocol.py\<close> uses it. The reader returns the value and the text after it. A reading
  takes at most two units of fuel per character. Fractions and
  escapes beyond the code points of the model are read as \<open>Outside\<close>.
\<close>

datatype read_failure = Malformed | Duplicate_key string | Outside

definition json_space :: "char \<Rightarrow> bool" where
  "json_space c \<longleftrightarrow> c \<in> {CHR '' '', CHR 0x09, CHR 0x0A, CHR 0x0D}"

definition skip_space :: "string \<Rightarrow> string" where
  "skip_space s = dropWhile json_space s"

section \<open>Strings\<close>

definition is_hex :: "char \<Rightarrow> bool" where
  "is_hex c \<longleftrightarrow> is_digit c \<or> (65 \<le> code_point c \<and> code_point c \<le> 70) \<or> (97 \<le> code_point c \<and> code_point c \<le> 102)"

definition hex_of :: "char \<Rightarrow> nat" where
  "hex_of c = (if is_digit c then code_point c - 48
     else if code_point c < 97 then code_point c - 55 else code_point c - 87)"

text \<open>The character of an escape, given the text after the backslash.\<close>

definition read_escape :: "string \<Rightarrow> read_failure + char \<times> string" where
  "read_escape s = (case s of
       [] \<Rightarrow> Inl Malformed
     | c # r \<Rightarrow>
         if c = CHR ''u'' then
           (if length (take 4 r) < 4 \<or> \<not> list_all is_hex (take 4 r) then Inl Malformed
            else let n = foldl (\<lambda>a d. a * 16 + hex_of d) 0 (take 4 r) in
              if 256 \<le> n then Inl Outside else Inr (char_of n, drop 4 r))
         else (case dget [(CHR 0x22, CHR 0x22), (CHR 0x5C, CHR 0x5C), (CHR ''/'', CHR ''/''), (CHR ''b'', CHR 0x08),
                 (CHR ''f'', CHR 0x0C), (CHR ''n'', CHR 0x0A), (CHR ''r'', CHR 0x0D), (CHR ''t'', CHR 0x09)] c of
             None \<Rightarrow> Inl Malformed | Some x \<Rightarrow> Inr (x, r)))"

lemma read_escape_shorter: "read_escape s = Inr (x, r) \<Longrightarrow> length r < length s"
  by (auto simp: read_escape_def Let_def split: list.splits if_splits option.splits)

text \<open>A string after its opening quote.\<close>

function read_text :: "string \<Rightarrow> read_failure + string \<times> string" where
  "read_text s = (case s of
       [] \<Rightarrow> Inl Malformed
     | c # r \<Rightarrow>
         if c = CHR 0x22 then Inr ([], r)
         else if c = CHR 0x5C then
           (case read_escape r of
              Inl f \<Rightarrow> Inl f
            | Inr (x, r) \<Rightarrow> bindr (read_text r) (\<lambda>(t, r). Inr (x # t, r)))
         else if code_point c < 32 then Inl Malformed
         else bindr (read_text r) (\<lambda>(t, r). Inr (c # t, r)))"
  by pat_completeness auto
termination by (relation "measure length") (auto dest!: read_escape_shorter)

declare read_text.simps [simp del]

lemma read_text_simps [simp]:
  "read_text [] = Inl Malformed"
  "read_text (c # r) =
     (if c = CHR 0x22 then Inr ([], r)
      else if c = CHR 0x5C then bindr (read_escape r) (\<lambda>(x, r). bindr (read_text r) (\<lambda>(t, r). Inr (x # t, r)))
      else if code_point c < 32 then Inl Malformed
      else bindr (read_text r) (\<lambda>(t, r). Inr (c # t, r)))"
  by (simp_all add: read_text.simps [of "[]"] read_text.simps [of "c # r"] split: sum.splits)

lemma read_text_shorter: "read_text s = Inr (t, r) \<Longrightarrow> length r < length s"
proof (induction s arbitrary: t rule: read_text.induct)
  case (1 s)
  show ?case
  proof (cases s)
    case Nil
    with "1.prems" show ?thesis by simp
  next
    case (Cons c r')
    consider "c = CHR 0x22" | "c = CHR 0x5C" | "c \<noteq> CHR 0x22" "c \<noteq> CHR 0x5C" by blast
    then show ?thesis
    proof cases
      case 1
      with "1.prems" Cons show ?thesis by simp
    next
      case 2
      with "1.prems" Cons obtain x r1 t' where "read_escape r' = Inr (x, r1)" "read_text r1 = Inr (t', r)"
        by (auto simp: bindr_Inr_iff)
      with 2 "1.IH"(1) [OF Cons _ 2, of "(x, r1)" x r1 t'] read_escape_shorter Cons show ?thesis by fastforce
    next
      case 3
      with "1.prems" Cons obtain t' where "\<not> code_point c < 32" "read_text r' = Inr (t', r)"
        by (auto simp: bindr_Inr_iff split: if_splits)
      with "1.IH"(2) [OF Cons 3, of t'] Cons show ?thesis by simp
    qed
  qed
qed

section \<open>Numbers\<close>

text \<open>An integer literal without superfluous zeros; a fraction or exponent after it makes it a float.\<close>

definition literal_digits :: "string \<Rightarrow> string" where
  "literal_digits s =
     (let ds = takeWhile is_digit s in if ds \<noteq> [] \<and> hd ds = CHR ''0'' then [CHR ''0''] else ds)"

definition float_follows :: "string \<Rightarrow> bool" where
  "float_follows r = (case r of
       [] \<Rightarrow> False
     | c # t \<Rightarrow>
         if c = CHR ''.'' then t \<noteq> [] \<and> is_digit (hd t)
         else if c \<in> {CHR ''e'', CHR ''E''} then
           (let u = (if t \<noteq> [] \<and> hd t \<in> {CHR ''+'', CHR ''-''} then tl t else t) in u \<noteq> [] \<and> is_digit (hd u))
         else False)"

definition read_number :: "string \<Rightarrow> read_failure + json \<times> string" where
  "read_number s =
     (let negative = (s \<noteq> [] \<and> hd s = CHR ''-'');
          body = (if negative then tl s else s);
          ds = literal_digits body;
          r = drop (length ds) body
      in if ds = [] then Inl Malformed
         else if float_follows r then Inl Outside
         else Inr (JInt (if negative then - int (undigits ds) else int (undigits ds)), r))"

section \<open>Values\<close>

text \<open>Everything but strings, arrays and objects.\<close>

definition starts_with :: "string \<Rightarrow> string \<Rightarrow> bool" where
  "starts_with w s \<longleftrightarrow> take (length w) s = w"

definition read_scalar :: "string \<Rightarrow> read_failure + json \<times> string" where
  "read_scalar s =
     (if starts_with ''null'' s then Inr (JNull, drop 4 s)
      else if starts_with ''true'' s then Inr (JBool True, drop 4 s)
      else if starts_with ''false'' s then Inr (JBool False, drop 5 s)
      else if starts_with ''NaN'' s \<or> starts_with ''Infinity'' s \<or> starts_with ''-Infinity'' s then Inl Outside
      else read_number s)"

text \<open>The hook of \<open>protocol.py\<close>: the first key that was read before.\<close>

fun repeated_key :: "string list \<Rightarrow> (string \<times> json) list \<Rightarrow> string option" where
  "repeated_key seen [] = None"
| "repeated_key seen ((k, v) # ms) = (if k \<in> set seen then Some k else repeated_key (k # seen) ms)"

definition closed_members :: "(string \<times> json) list \<times> string \<Rightarrow> read_failure + json \<times> string" where
  "closed_members = (\<lambda>(ms, r). case repeated_key [] ms of Some k \<Rightarrow> Inl (Duplicate_key k) | None \<Rightarrow> Inr (JObj ms, r))"

text \<open>The text after the separator \<open>c\<close> and the white space around it.\<close>

definition after :: "char \<Rightarrow> string \<Rightarrow> string option" where
  "after c s = (case skip_space s of x # r \<Rightarrow> if x = c then Some (skip_space r) else None | [] \<Rightarrow> None)"

definition closing :: "char \<Rightarrow> string \<Rightarrow> string option" where
  "closing c s = (case skip_space s of x # r \<Rightarrow> if x = c then Some r else None | [] \<Rightarrow> None)"

text \<open>The readers of an array after its first value and of an object after a key are arguments of what follows.\<close>

type_synonym 'a reader = "string \<Rightarrow> read_failure + 'a \<times> string"

definition value_from :: "json list reader \<Rightarrow> (string \<times> json) list reader \<Rightarrow> json reader" where
  "value_from items members s = (case s of
       [] \<Rightarrow> Inl Malformed
     | c # r \<Rightarrow>
         if c = CHR 0x22 then bindr (read_text r) (\<lambda>(t, r). Inr (JStr t, r))
         else if c = CHR ''['' then
           (case closing (CHR '']'') r of
              Some r \<Rightarrow> Inr (JArr [], r)
            | None \<Rightarrow> bindr (items (skip_space r)) (\<lambda>(vs, r). Inr (JArr vs, r)))
         else if c = CHR ''{'' then
           (case closing (CHR ''}'') r of
              Some r \<Rightarrow> Inr (JObj [], r)
            | None \<Rightarrow> bindr (members (skip_space r)) closed_members)
         else read_scalar s)"

text \<open>What follows a value \<open>x\<close> in a sequence closed by \<open>c\<close>.\<close>

definition rest_of :: "char \<Rightarrow> 'a list reader \<Rightarrow> 'a \<Rightarrow> 'a list reader" where
  "rest_of c others x r =
     (case closing c r of
        Some r \<Rightarrow> Inr ([x], r)
      | None \<Rightarrow>
          (case after (CHR '','') r of
             Some r \<Rightarrow> bindr (others r) (\<lambda>(xs, r). Inr (x # xs, r))
           | None \<Rightarrow> Inl Malformed))"

definition read_key :: "string reader" where
  "read_key s = (case s of
       [] \<Rightarrow> Inl Malformed
     | q # r \<Rightarrow>
         if q \<noteq> CHR 0x22 then Inl Malformed
         else bindr (read_text r) (\<lambda>(k, r).
           case after (CHR '':'') r of None \<Rightarrow> Inl Malformed | Some r \<Rightarrow> Inr (k, r)))"

fun read_value :: "nat \<Rightarrow> json reader"
  and read_items :: "nat \<Rightarrow> json list reader"
  and read_members :: "nat \<Rightarrow> (string \<times> json) list reader" where
  "read_value 0 s = Inl Malformed"
| "read_value (Suc n) s = value_from (\<lambda>t. read_items n t) (\<lambda>t. read_members n t) s"
| "read_items 0 s = Inl Malformed"
| "read_items (Suc n) s = bindr (read_value n s) (\<lambda>(v, r). rest_of (CHR '']'') (\<lambda>t. read_items n t) v r)"
| "read_members 0 s = Inl Malformed"
| "read_members (Suc n) s = bindr (read_key s) (\<lambda>(k, r).
     bindr (read_value n r) (\<lambda>(v, r). rest_of (CHR ''}'') (\<lambda>t. read_members n t) (k, v) r))"

text \<open>\<open>raw_decode\<close>.\<close>

definition read_json :: "string \<Rightarrow> read_failure + json \<times> string" where
  "read_json s = read_value (2 * length s + 1) s"

section \<open>The fuel is enough\<close>

lemma skip_space_length: "length (skip_space s) \<le> length s"
  by (simp add: skip_space_def length_dropWhile_le)

lemma closing_shorter: "closing c s = Some r \<Longrightarrow> length r < length s"
  using skip_space_length [of s] by (auto simp: closing_def split: list.splits if_splits)

lemma after_shorter: "after c s = Some r \<Longrightarrow> length r < length s"
proof -
  assume "after c s = Some r"
  then obtain t where "skip_space s = c # t" "r = skip_space t" by (auto simp: after_def split: list.splits if_splits)
  with skip_space_length [of s] skip_space_length [of t] show ?thesis by simp
qed

lemma read_number_shorter: "read_number s = Inr (v, r) \<Longrightarrow> length r < length s"
  by (cases s) (auto simp: read_number_def literal_digits_def Let_def split: if_splits)

lemma starts_with_nonempty: "starts_with (c # w) s \<Longrightarrow> s \<noteq> []"
  by (auto simp: starts_with_def)

lemma read_scalar_shorter: "read_scalar s = Inr (v, r) \<Longrightarrow> length r < length s"
  by (auto simp: read_scalar_def split: if_splits dest: starts_with_nonempty read_number_shorter)

text \<open>Every part takes at least one character.\<close>

definition consumes :: "'a reader \<Rightarrow> bool" where
  "consumes f \<longleftrightarrow> (\<forall>s x r. f s = Inr (x, r) \<longrightarrow> length r < length s)"

lemma consumesD: "consumes f \<Longrightarrow> f s = Inr (x, r) \<Longrightarrow> length r < length s"
  by (auto simp: consumes_def)

lemma value_from_consumes:
  assumes "consumes items" "consumes members" shows "consumes (value_from items members)"
  unfolding consumes_def
proof (intro allI impI)
  fix s v r
  assume finished: "value_from items members s = Inr (v, r)"
  show "length r < length s"
  proof (cases s)
    case (Cons c t)
    have "length r < length (skip_space t) \<Longrightarrow> length r < Suc (length t)" using skip_space_length [of t] by simp
    with finished Cons show ?thesis
      by (auto simp: value_from_def bindr_Inr_iff closed_members_def split: if_splits option.splits
          dest!: read_text_shorter closing_shorter read_scalar_shorter
          dest: consumesD [OF assms(1)] consumesD [OF assms(2)])
  qed (use finished in \<open>simp add: value_from_def\<close>)
qed

lemma rest_of_consumes: "consumes others \<Longrightarrow> consumes (rest_of c others x)"
  unfolding consumes_def rest_of_def
  by (auto simp: bindr_Inr_iff split: option.splits dest!: closing_shorter after_shorter dest: less_trans)

lemma read_key_consumes: "consumes read_key"
  unfolding consumes_def read_key_def
  by (fastforce simp: bindr_Inr_iff split: list.splits if_splits option.splits dest: read_text_shorter after_shorter)

lemma consumes_then: "consumes f \<Longrightarrow> (\<And>x. consumes (g x)) \<Longrightarrow> consumes (\<lambda>s. bindr (f s) (\<lambda>(x, r). g x r))"
  unfolding consumes_def by (auto simp: bindr_Inr_iff) (meson less_trans)

lemma readers_consume: "consumes (read_value n) \<and> consumes (read_items n) \<and> consumes (read_members n)"
proof (induction n)
  case (Suc n)
  then have "consumes (\<lambda>s. read_value (Suc n) s)" "consumes (\<lambda>s. read_items (Suc n) s)"
    "consumes (\<lambda>s. read_members (Suc n) s)"
    by (simp_all add: value_from_consumes rest_of_consumes read_key_consumes consumes_then)
  then show ?case by simp
qed (simp add: consumes_def)

lemma value_from_cong:
  assumes "\<And>t. length t < length s \<Longrightarrow> items t = items' t \<and> members t = members' t"
  shows "value_from items members s = value_from items' members' s"
proof (cases s)
  case (Cons c r)
  then have "length (skip_space r) < length s" using skip_space_length [of r] by simp
  from assms [OF this] Cons show ?thesis by (simp add: value_from_def cong: option.case_cong)
qed (simp add: value_from_def)

lemma rest_of_cong:
  "(\<And>t. length t < length r \<Longrightarrow> others t = others' t) \<Longrightarrow> rest_of c others x r = rest_of c others' x r"
  by (auto simp: rest_of_def dest: after_shorter split: option.split)

lemma enough_fuel:
  "(2 * length s < n \<longrightarrow> read_value (Suc n) s = read_value n s)
   \<and> (2 * length s + 1 < n \<longrightarrow> read_items (Suc n) s = read_items n s \<and> read_members (Suc n) s = read_members n s)"
proof (induction n arbitrary: s)
  case (Suc n)
  have "read_value (Suc (Suc n)) s = read_value (Suc n) s" if "2 * length s < Suc n"
    unfolding read_value.simps(2) [of "Suc n"] read_value.simps(2) [of n]
    by (rule value_from_cong) (use Suc that in simp)
  moreover have "read_items (Suc (Suc n)) s = read_items (Suc n) s" if less: "2 * length s + 1 < Suc n"
    unfolding read_items.simps(2) [of "Suc n" s] read_items.simps(2) [of n s]
  proof (rule bindr_cong)
    show "read_value (Suc n) s = read_value n s" using Suc less by simp
    fix x assume "read_value n s = Inr x"
    then have "length (snd x) < length s" using readers_consume [of n] consumesD [of "read_value n" s "fst x" "snd x"] by simp
    then show "(case x of (v, r) \<Rightarrow> rest_of (CHR '']'') (\<lambda>t. read_items (Suc n) t) v r)
        = (case x of (v, r) \<Rightarrow> rest_of (CHR '']'') (\<lambda>t. read_items n t) v r)"
      using Suc less by (auto intro!: rest_of_cong split: prod.split)
  qed
  moreover have "read_members (Suc (Suc n)) s = read_members (Suc n) s" if less: "2 * length s + 1 < Suc n"
    unfolding read_members.simps(2) [of "Suc n" s] read_members.simps(2) [of n s]
  proof (rule bindr_cong [OF refl])
    fix x assume "read_key s = Inr x"
    then have x: "length (snd x) < length s" using read_key_consumes consumesD [of read_key s "fst x" "snd x"] by simp
    have "bindr (read_value (Suc n) r) (\<lambda>(v, r). rest_of (CHR ''}'') (\<lambda>t. read_members (Suc n) t) (k, v) r)
        = bindr (read_value n r) (\<lambda>(v, r). rest_of (CHR ''}'') (\<lambda>t. read_members n t) (k, v) r)"
      if r: "length r < length s" for k r
    proof (rule bindr_cong)
      show "read_value (Suc n) r = read_value n r" using Suc less r by simp
      fix y assume "read_value n r = Inr y"
      then have "length (snd y) < length r" using readers_consume [of n] consumesD [of "read_value n" r "fst y" "snd y"] by simp
      then show "(case y of (v, r) \<Rightarrow> rest_of (CHR ''}'') (\<lambda>t. read_members (Suc n) t) (k, v) r)
          = (case y of (v, r) \<Rightarrow> rest_of (CHR ''}'') (\<lambda>t. read_members n t) (k, v) r)"
        using Suc less r by (auto intro!: rest_of_cong split: prod.split)
    qed
    with x show "(case x of (k, r) \<Rightarrow> bindr (read_value (Suc n) r)
          (\<lambda>(v, r). rest_of (CHR ''}'') (\<lambda>t. read_members (Suc n) t) (k, v) r))
        = (case x of (k, r) \<Rightarrow> bindr (read_value n r) (\<lambda>(v, r). rest_of (CHR ''}'') (\<lambda>t. read_members n t) (k, v) r))"
      by (auto split: prod.split)
  qed
  ultimately show ?case by simp
qed simp

theorem read_json_fuel: "2 * length s < n \<Longrightarrow> read_value n s = read_json s"
proof (induction n rule: less_induct)
  case (less n)
  show ?case
  proof (cases "n = 2 * length s + 1")
    case False
    with less.prems obtain k where "n = Suc k" "2 * length s < k" by (cases n) auto
    with less.IH [of k] enough_fuel [of s k] show ?thesis by simp
  qed (simp add: read_json_def)
qed

section \<open>Written text is read back\<close>

fun distinct_keys :: "json \<Rightarrow> bool" where
  "distinct_keys (JArr vs) \<longleftrightarrow> list_all distinct_keys vs"
| "distinct_keys (JObj ms) \<longleftrightarrow> distinct (map fst ms) \<and> list_all (\<lambda>m. distinct_keys (snd m)) ms"
| "distinct_keys j \<longleftrightarrow> True"

lemma repeated_key_None: "repeated_key seen ms = None \<longleftrightarrow> distinct (map fst ms) \<and> set (map fst ms) \<inter> set seen = {}"
  by (induction seen ms rule: repeated_key.induct) auto

lemma hex_of_hex_char: "d < 16 \<Longrightarrow> hex_of (hex_char d) = d \<and> is_hex (hex_char d)"
  by (auto simp: hex_of_def hex_char_def is_hex_def is_digit_def)

lemma hex_digits_read:
  "list_all is_hex (hex_digits w n) \<and> foldl (\<lambda>a d. a * 16 + hex_of d) 0 (hex_digits w n) = n mod 16 ^ w"
proof (induction w n rule: hex_digits.induct)
  case (2 w n)
  then show ?case by (simp add: hex_of_hex_char mod_mult2_eq [of n 16] algebra_simps)
qed simp

lemma read_text_escape: "read_text (escape_char c @ s) = bindr (read_text s) (\<lambda>(t, r). Inr (c # t, r))"
proof -
  have small: "code_point c mod 65536 = code_point c"
    by (rule mod_less) (rule less_trans [OF nat_of_char_less_256], simp)
  have bound: "\<not> 256 \<le> code_point c" using nat_of_char_less_256 [of c] by (simp only: not_le)
  have "read_text (CHR 0x5C # CHR ''u'' # hex_digits 4 (code_point c) @ s) = bindr (read_text s) (\<lambda>(t, r). Inr (c # t, r))"
    using hex_digits_read [of 4 "code_point c"] small hex_digits_shape [of 4 "code_point c"] bound
    by (simp add: read_escape_def Let_def)
  then show ?thesis by (auto simp: escape_char_def plain_char_def read_escape_def)
qed

lemma read_text_quoted: "read_text (concat (map escape_char t) @ CHR 0x22 # r) = Inr (t, r)"
  by (induction t) (simp_all add: read_text_escape)

definition ends_number :: "string \<Rightarrow> bool" where
  "ends_number r \<longleftrightarrow> r = [] \<or> (\<not> is_digit (hd r) \<and> hd r \<notin> {CHR ''.'', CHR ''e'', CHR ''E''})"

lemma digit_char_zero: "d < 10 \<Longrightarrow> digit_char d = CHR ''0'' \<longleftrightarrow> d = 0"
proof
  assume "d < 10" "digit_char d = CHR ''0''"
  then have "code_point (char_of (48 + d)) = 48" by (simp add: digit_char_def)
  with \<open>d < 10\<close> show "d = 0" by simp
next
  assume "d = 0"
  then show "digit_char d = CHR ''0''" by (simp add: digit_char_def) code_simp
qed

lemma nat_digits_zero: "hd (nat_digits n) = CHR ''0'' \<longleftrightarrow> n = 0"
proof (induction n rule: nat_digits.induct)
  case (1 n)
  show ?case
  proof (cases "n < 10")
    case True
    then show ?thesis by (simp add: nat_digits.simps [of n] digit_char_zero)
  next
    case False
    with 1 nat_digits_are_digits [of "n div 10"] show ?thesis by (simp add: nat_digits.simps [of n])
  qed
qed

lemma read_number_literal:
  assumes ds: "list_all is_digit ds" "ds \<noteq> []" "hd ds = CHR ''0'' \<Longrightarrow> ds = [CHR ''0'']" and r: "ends_number r"
  shows "read_number (ds @ r) = Inr (JInt (int (undigits ds)), r)"
    and "read_number (CHR ''-'' # ds @ r) = Inr (JInt (- int (undigits ds)), r)"
proof -
  obtain c cs where c: "ds = c # cs" using ds(2) by (cases ds) auto
  have plus: "hd (ds @ r) \<noteq> CHR ''-''" using ds(1) c by (auto simp: is_digit_def)
  have digits: "takeWhile is_digit (ds @ r) = ds"
    using r ds(1) by (intro takeWhile_digits) (auto simp: ends_number_def stops_number_def)
  then have kept: "literal_digits (ds @ r) = ds" using ds(3) by (auto simp: literal_digits_def Let_def)
  have quiet: "\<not> float_follows r" using r by (cases r) (auto simp: float_follows_def ends_number_def)
  show "read_number (ds @ r) = Inr (JInt (int (undigits ds)), r)"
    using plus ds(2) by (simp add: read_number_def Let_def kept quiet)
  show "read_number (CHR ''-'' # ds @ r) = Inr (JInt (- int (undigits ds)), r)"
    using ds(2) by (simp add: read_number_def Let_def kept quiet)
qed

lemma read_number_int_text: "ends_number r \<Longrightarrow> read_number (int_text i @ r) = Inr (JInt i, r)"
proof -
  assume r: "ends_number r"
  have zero: "nat_digits n = [CHR ''0'']" if "hd (nat_digits n) = CHR ''0''" for n
    using that digit_char_zero [of 0] by (simp add: nat_digits_zero nat_digits.simps [of 0])
  note read = read_number_literal [OF conjunct1 [OF nat_digits_are_digits] conjunct2 [OF nat_digits_are_digits] zero r]
  show ?thesis by (simp add: int_text_def read undigits_nat_digits)
qed

lemma ends_number_simps [simp]:
  "ends_number []" "ends_number (CHR '','' # r)" "ends_number (CHR '']'' # r)" "ends_number (CHR ''}'' # r)"
  by (simp_all add: ends_number_def is_digit_def)

lemma encode_tail_ends: "ends_number (encode_tail xs @ r)"
  by (cases xs) simp_all

lemma encode_members_ends: "ends_number (encode_members ms @ r)"
  by (cases ms rule: list.exhaust) (auto simp: ends_number_def is_digit_def)

lemma encode_first: "\<exists>c cs. encode j = c # cs \<and> \<not> json_space c \<and> c \<noteq> CHR '']'' \<and> c \<noteq> CHR ''}''"
  using encode_starts [of j] by (cases j) (auto simp: json_space_def is_digit_def split: if_splits)

lemma skip_encode [simp]: "skip_space (encode j @ r) = encode j @ r"
  using encode_first [of j] by (auto simp: skip_space_def)

lemma closing_encode [simp]: "closing (CHR '']'') (encode j @ r) = None"
  using encode_first [of j] by (auto simp: closing_def)

lemma skip_quoted [simp]: "skip_space (quote_text t @ r) = quote_text t @ r"
  by (simp add: skip_space_def quote_text_def json_space_def)

lemma closing_quoted [simp]: "closing (CHR ''}'') (quote_text t @ r) = None"
  by (simp add: closing_def) (simp add: quote_text_def)

lemma separators [simp]:
  "closing c (c # r) = (if json_space c then closing c r else Some r)"
  "closing (CHR '']'') (CHR '','' # r) = None" "closing (CHR ''}'') (CHR '','' # r) = None"
  "after (CHR '','') (CHR '','' # r) = Some (skip_space r)" "after (CHR '':'') (CHR '':'' # r) = Some (skip_space r)"
  by (auto simp: closing_def after_def skip_space_def json_space_def)

lemma brackets_space [simp]: "\<not> json_space (CHR '']'')" "\<not> json_space (CHR ''}'')"
  by (simp_all add: json_space_def)

lemma read_key_quoted: "read_key (quote_text k @ CHR '':'' # r) = Inr (k, skip_space r)"
  by (simp add: read_key_def quote_text_def read_text_quoted)

lemma read_scalar_words:
  "read_scalar (''null'' @ r) = Inr (JNull, r)" "read_scalar (''true'' @ r) = Inr (JBool True, r)"
  "read_scalar (''false'' @ r) = Inr (JBool False, r)"
  by (simp_all add: read_scalar_def starts_with_def)

lemma read_scalar_int: "ends_number r \<Longrightarrow> read_scalar (int_text i @ r) = Inr (JInt i, r)"
proof -
  assume r: "ends_number r"
  obtain c cs where digits: "nat_digits (nat (if i < 0 then - i else i)) = c # cs" "is_digit c" using nat_digits_hd by blast
  have "\<not> starts_with w (int_text i @ r)" if "w \<in> {''null'', ''true'', ''false'', ''NaN'', ''Infinity'', ''-Infinity''}" for w
    using digits that by (cases "i < 0") (auto simp: starts_with_def int_text_def is_digit_def)
  then show ?thesis by (simp add: read_scalar_def read_number_int_text [OF r])
qed

lemma read_value_scalar:
  assumes "read_scalar (c # r) = x" "c \<notin> {CHR 0x22, CHR ''['', CHR ''{''}" "0 < n"
  shows "read_value n (c # r) = x"
  using assms by (cases n) (simp_all add: value_from_def)

lemma encoded_lengths: "0 < length (encode j)" "0 < length (encode_tail xs)" "0 < length (encode_members ms)"
proof -
  show "0 < length (encode j)" using encode_first [of j] by auto
  show "0 < length (encode_tail xs)" by (cases xs) simp_all
  show "0 < length (encode_members ms)" by (cases ms rule: list.exhaust) auto
qed

lemma read_encode:
  "\<And>n r. distinct_keys j \<Longrightarrow> ends_number r \<Longrightarrow> length (encode j) \<le> n \<Longrightarrow> read_value n (encode j @ r) = Inr (j, r)"
  "\<And>n x r. list_all distinct_keys xs \<Longrightarrow> length (encode_tail xs) \<le> n \<Longrightarrow>
     rest_of (CHR '']'') (\<lambda>t. read_items n t) x (encode_tail xs @ r) = Inr (x # xs, r)"
  "\<And>n m r. list_all (\<lambda>m. distinct_keys (snd m)) ms \<Longrightarrow> length (encode_members ms) \<le> n \<Longrightarrow>
     rest_of (CHR ''}'') (\<lambda>t. read_members n t) m (encode_members ms @ r) = Inr (m # ms, r)"
proof (induction j and xs and ms rule: encode_encode_tail_encode_members.induct)
  case 1
  with read_scalar_words(1) [of r] show ?case by (auto intro: read_value_scalar)
next
  case 2
  with read_scalar_words(2) [of r] show ?case by (auto intro: read_value_scalar)
next
  case 3
  with read_scalar_words(3) [of r] show ?case by (auto intro: read_value_scalar)
next
  case (4 i)
  from int_text_hd [of i] obtain c cs where c: "int_text i = c # cs" "c = CHR ''-'' \<or> is_digit c" by blast
  with 4 read_scalar_int [of r i] show ?case by (auto simp: is_digit_def intro!: read_value_scalar)
next
  case (5 t)
  then obtain k where "n = Suc k" by (cases n) (auto simp: quote_text_def)
  then show ?case by (simp add: value_from_def quote_text_def read_text_quoted)
next
  case 6
  then obtain k where "n = Suc k" by (cases n) auto
  then show ?case by (simp add: value_from_def)
next
  case (7 x xs)
  then obtain k where n: "n = Suc k" by (cases n) auto
  with "7.prems" have "length (encode x) + length (encode_tail xs) \<le> k" by simp
  with encoded_lengths(1) [of x] encoded_lengths(2) [of xs]
  obtain k' where k: "k = Suc k'" "length (encode x) \<le> k'" "length (encode_tail xs) \<le> k'" by (cases k) auto
  with 7 n encode_tail_ends show ?case by (simp add: value_from_def)
next
  case 8
  then obtain k where "n = Suc k" by (cases n) auto
  then show ?case by (simp add: value_from_def)
next
  case (9 key v ms)
  then obtain k where n: "n = Suc k" by (cases n) auto
  with "9.prems" have "length (encode v) + length (encode_members ms) < k" by (simp add: quote_text_def)
  then obtain k' where k: "k = Suc k'" "length (encode v) \<le> k'" "length (encode_members ms) \<le> k'" by (cases k) auto
  have "repeated_key [key] ms = None" using "9.prems"(1) by (simp add: repeated_key_None)
  with 9 n k encode_members_ends show ?case
    by (simp add: value_from_def read_key_quoted closed_members_def)
next
  case 10
  then show ?case by (simp add: rest_of_def)
next
  case (11 y ys)
  then obtain k where n: "n = Suc k" "length (encode y) \<le> k" "length (encode_tail ys) \<le> k" by (cases n) auto
  with 11 encode_tail_ends show ?case by (simp add: rest_of_def)
next
  case 12
  then show ?case by (simp add: rest_of_def)
next
  case (13 key v ms)
  then obtain k where n: "n = Suc k" "length (encode v) \<le> k" "length (encode_members ms) \<le> k" by (cases n) auto
  with 13 encode_members_ends show ?case by (simp add: rest_of_def read_key_quoted)
qed

theorem read_json_encode: "distinct_keys j \<Longrightarrow> ends_number r \<Longrightarrow> read_json (encode j @ r) = Inr (j, r)"
  unfolding read_json_def by (rule read_encode(1)) auto

text \<open>What is read has no key twice.\<close>

definition reads_distinct :: "nat \<Rightarrow> bool" where
  "reads_distinct n \<longleftrightarrow>
     (\<forall>s v r. read_value n s = Inr (v, r) \<longrightarrow> distinct_keys v)
     \<and> (\<forall>s vs r. read_items n s = Inr (vs, r) \<longrightarrow> list_all distinct_keys vs)
     \<and> (\<forall>s ms r. read_members n s = Inr (ms, r) \<longrightarrow> list_all (\<lambda>m. distinct_keys (snd m)) ms)"

lemma read_scalar_distinct: "read_scalar s = Inr (v, r) \<Longrightarrow> distinct_keys v"
  by (auto simp: read_scalar_def read_number_def Let_def split: if_splits)

lemma readers_distinct: "reads_distinct n"
proof (induction n)
  case (Suc n)
  then have parts: "\<And>s v r. read_value n s = Inr (v, r) \<Longrightarrow> distinct_keys v"
    "\<And>s vs r. read_items n s = Inr (vs, r) \<Longrightarrow> list_all distinct_keys vs"
    "\<And>s ms r. read_members n s = Inr (ms, r) \<Longrightarrow> list_all (\<lambda>m. distinct_keys (snd m)) ms"
    unfolding reads_distinct_def by blast+
  have "distinct_keys v" if "read_value (Suc n) s = Inr (v, r)" for s v r
    using that by (auto simp: value_from_def bindr_Inr_iff closed_members_def repeated_key_None
        split: list.splits if_splits option.splits dest: read_scalar_distinct parts)
  moreover have "list_all distinct_keys vs" if "read_items (Suc n) s = Inr (vs, r)" for s vs r
    using that by (auto simp: rest_of_def bindr_Inr_iff split: option.splits) (blast intro: parts)+
  moreover have "list_all (\<lambda>m. distinct_keys (snd m)) ms" if "read_members (Suc n) s = Inr (ms, r)" for s ms r
    using that by (auto simp: rest_of_def bindr_Inr_iff split: option.splits) (blast intro: parts)+
  ultimately show ?case unfolding reads_distinct_def by blast
qed (simp add: reads_distinct_def)

theorem read_json_distinct: "read_json s = Inr (v, r) \<Longrightarrow> distinct_keys v"
  using readers_distinct unfolding reads_distinct_def read_json_def by blast

end
