(* ===== verification/Verification_Rework.thy ===== *)
theory Verification_Rework
  imports Recovery_Operations Batch_Preparation Json_Text
begin

text \<open>
  Failed dispatcher checks and malformed reviews in class \<open>SequentialWorkflow\<close>
  (\<open>src/src/dispatcher/sequential.py\<close>): what is saved of them, the bounded rework they start, and the
  retries that are prepared from what was saved.
\<close>

section \<open>Stored snapshots and review targets\<close>

definition decode_manifest_entry :: "manifest_entry decoder" where
  "decode_manifest_entry v =
     bindr (closed_object [''root'', ''relative_path'', ''file_type'', ''size_bytes'', ''mode'', ''mtime_ns'', ''sha256''] v) (\<lambda>m.
     bindr (member ''root'' as_text m) (\<lambda>base.
     bindr (member ''relative_path'' as_text m) (\<lambda>relative_path.
     bindr (member ''file_type'' (one_of (map (\<lambda>x. (manifest_file_type_text x, x)) [Manifest_file, Manifest_symlink])) m) (\<lambda>file_type.
     bindr (member ''size_bytes'' as_int m) (\<lambda>size_bytes.
     bindr (member ''mode'' as_int m) (\<lambda>file_mode.
     bindr (member ''mtime_ns'' as_int m) (\<lambda>mtime_ns.
     bindr (member ''sha256'' as_text m) (\<lambda>sha256.
       Inr \<lparr>me_root = base, me_relative_path = relative_path, me_file_type = file_type, me_size_bytes = size_bytes,
            me_mode = file_mode, me_mtime_ns = mtime_ns, me_sha256 = sha256\<rparr>))))))))"

definition decode_repository_change :: "repository_change decoder" where
  "decode_repository_change v =
     bindr (closed_object [''change_type'', ''paths'', ''index_status'', ''worktree_status'', ''mode_changed''] v) (\<lambda>m.
     bindr (member ''change_type'' (one_of (map (\<lambda>x. (change_type_text x, x)) [Created, Modified, Deleted, Renamed, Untracked])) m)
       (\<lambda>change_type.
     bindr (member ''paths'' (as_list as_text) m) (\<lambda>paths.
     bindr (member ''index_status'' as_text m) (\<lambda>index_status.
     bindr (member ''worktree_status'' as_text m) (\<lambda>worktree_status.
     bindr (member ''mode_changed'' as_bool m) (\<lambda>mode_changed.
       Inr \<lparr>ch_change_type = change_type, ch_paths = paths, ch_index_status = index_status,
            ch_worktree_status = worktree_status, ch_mode_changed = mode_changed\<rparr>))))))"

definition decode_snapshot :: "repository_snapshot decoder" where
  "decode_snapshot v =
     bindr (closed_object [''repo_id'', ''branch'', ''revision'', ''worktree_id'', ''remote_name'', ''remote_url'',
       ''evidence'', ''external'', ''changes'', ''ignored'', ''dirty_patch_sha256'', ''git_metadata_sha256'',
       ''git_refs_sha256'', ''clean'', ''manifest_sha256''] v) (\<lambda>m.
     bindr (member ''repo_id'' as_text m) (\<lambda>repo_id.
     bindr (member ''branch'' as_text m) (\<lambda>branch.
     bindr (member ''revision'' as_text m) (\<lambda>revision.
     bindr (member ''worktree_id'' as_text m) (\<lambda>worktree_id.
     bindr (member ''remote_name'' as_text m) (\<lambda>remote_name.
     bindr (member ''remote_url'' as_text m) (\<lambda>remote_url.
     bindr (member ''evidence'' (as_list decode_manifest_entry) m) (\<lambda>evidence.
     bindr (member ''external'' (as_list decode_manifest_entry) m) (\<lambda>external.
     bindr (member ''changes'' (as_list decode_repository_change) m) (\<lambda>changes.
     bindr (member ''ignored'' (as_list as_text) m) (\<lambda>ignored.
     bindr (member ''dirty_patch_sha256'' as_text m) (\<lambda>dirty_patch.
     bindr (member ''git_metadata_sha256'' as_text m) (\<lambda>git_metadata.
     bindr (member ''git_refs_sha256'' as_text m) (\<lambda>git_refs.
     bindr (member ''clean'' as_bool m) (\<lambda>is_clean.
     bindr (member ''manifest_sha256'' as_text m) (\<lambda>manifest.
       Inr \<lparr>sn_repo_id = repo_id, sn_branch = branch, sn_revision = revision, sn_worktree_id = worktree_id,
            sn_remote_name = remote_name, sn_remote_url = remote_url, sn_clean = is_clean, sn_evidence = evidence,
            sn_external = external, sn_changes = changes, sn_ignored = ignored, sn_dirty_patch_sha256 = dirty_patch,
            sn_git_metadata_sha256 = git_metadata, sn_git_refs_sha256 = git_refs,
            sn_manifest_sha256 = manifest\<rparr>))))))))))))))))"

text \<open>\<open>X.model_validate_json(json.dumps(stored))\<close>.\<close>

definition read_stored :: "'a decoder \<Rightarrow> ('a \<Rightarrow> verror list) \<Rightarrow> json_object \<Rightarrow> exn + 'a" where
  "read_stored dec errors stored = (case dec (JObj stored) of Inl es \<Rightarrow> Inl (ValidationError es) | Inr x \<Rightarrow> checked errors x)"

definition stored_snapshot :: "json_object \<Rightarrow> exn + repository_snapshot" where
  "stored_snapshot = read_stored decode_snapshot repository_snapshot_errors"

definition stored_target :: "json_object \<Rightarrow> exn + review_target" where
  "stored_target = read_stored decode_review_target review_target_errors"

lemma manifest_entry_inverse [simp]: "decode_manifest_entry (json_manifest_entry x) = Inr x"
  by (cases "me_file_type x") (simp_all add: decode_manifest_entry_def json_manifest_entry_def closed_object_def member_def one_of_def)

lemma repository_change_inverse [simp]: "decode_repository_change (json_repository_change x) = Inr x"
  by (cases "ch_change_type x")
    (simp_all add: decode_repository_change_def json_repository_change_def closed_object_def member_def one_of_def)

lemma snapshot_inverse: "decode_snapshot (JObj (json_snapshot s)) = Inr s"
  by (simp add: decode_snapshot_def json_snapshot_def snapshot_payload_def closed_object_def member_def
      as_list_inverse [of decode_manifest_entry json_manifest_entry]
      as_list_inverse [of decode_repository_change json_repository_change])

lemma stored_snapshot_inverse: "repository_snapshot_errors s = [] \<Longrightarrow> stored_snapshot (json_snapshot s) = Inr s"
  by (simp add: stored_snapshot_def read_stored_def snapshot_inverse checked_def)

section \<open>Feedback of failed checks\<close>

definition supports_rework :: "dispatch_record \<Rightarrow> bool" where
  "supports_rework d \<longleftrightarrow> d_batch_id d = None \<and> d_workspace_group_id d = None"

definition verification_failure_text :: "authoritative_verification \<Rightarrow> string" where
  "verification_failure_text v =
     av_check_id v @ ''(exit='' @ (case av_exit_code v of None \<Rightarrow> ''None'' | Some i \<Rightarrow> int_text i)
     @ '', timeout='' @ (if av_timed_out v then ''True'' else ''False'')
     @ '', truncated='' @ (if av_output_truncated v then ''True'' else ''False'')
     @ '', backend='' @ av_backend v @ '', transcript='' @ av_transcript_sha256 v @ '', summary='' @ av_summary v @ '')''"

definition verification_failure_detail :: "authoritative_verification list \<Rightarrow> string" where
  "verification_failure_detail vs =
     take 5000 (redact_text (join_text ''; '' (map verification_failure_text (filter (\<lambda>v. \<not> av_passed v) vs))))"

text \<open>The two messages are those of an executor's proposal or of a review.\<close>

definition check_failed_verification ::
  "plan_step \<Rightarrow> authoritative_verification list \<Rightarrow> string \<Rightarrow> string \<Rightarrow> exn + unit" where
  "check_failed_verification step vs coverage none_failed =
     (if map av_check_id vs \<noteq> map crit_criterion_id (ps_acceptance_criteria step) then
        Inl (WorkerResultValidationError coverage)
      else raise_if (\<not> list_ex (\<lambda>v. \<not> av_passed v) vs) (WorkerResultValidationError none_failed))"

text \<open>\<open>except SequentialWorkflowError\<close>: the class and its two subclasses.\<close>

definition is_workflow_error :: "exn \<Rightarrow> bool" where
  "is_workflow_error exc = (case exc of
       SequentialWorkflowError _ \<Rightarrow> True | SupervisorCommandRejectedError _ \<Rightarrow> True
     | WorkerResultValidationError _ \<Rightarrow> True | _ \<Rightarrow> False)"

text \<open>An untrusted usage does not stop the failure from being saved; its error is kept.\<close>

definition tolerated_usage ::
  "'g workflow \<Rightarrow> int \<Rightarrow> run_record \<Rightarrow> int \<Rightarrow> dispatch_record \<Rightarrow> usage_amount option
   \<Rightarrow> ('g system, run_record \<times> int \<times> exn option) action" where
  "tolerated_usage flow now r g d usage =
     catching
       (then_do (account_usage flow now r g d usage False) (\<lambda>(r, g). give (Inr (r, g, None))))
       (\<lambda>exc. give (if is_workflow_error exc then Inr (r, g, Some exc) else Inl exc))"

definition failed_record ::
  "env \<Rightarrow> nat \<Rightarrow> run_record \<Rightarrow> dispatch_record \<Rightarrow> string \<Rightarrow> string \<Rightarrow> string \<Rightarrow> exn + run_record" where
  "failed_record e n r d reason category detail =
     bindr (make_event e n r Actor_dispatcher reason (d_dispatch_id d) None) (\<lambda>event.
     bindr (transition_dispatch d Dispatch_failed event
              (no_update\<lparr>du_failure_category := Some category, du_failure_detail := Some detail\<rparr>)) (\<lambda>failed.
       Inr (with_dispatch r (d_dispatch_id d) failed event)))"

text \<open>A further transition of the step, one event after the last.\<close>

definition then_step ::
  "env \<Rightarrow> nat \<Rightarrow> run_record \<Rightarrow> dispatch_record \<Rightarrow> step_record \<Rightarrow> step_status \<Rightarrow> string \<Rightarrow> exn + step_record" where
  "then_step e n r d s target reason =
     bindr (make_event e n r Actor_dispatcher reason (d_dispatch_id d) (Some (te_sequence (s_last_event s) + 1))) (\<lambda>event.
       transition_step s target event None None None)"

definition rework_rounds_left :: "config \<Rightarrow> plan_step \<Rightarrow> step_record \<Rightarrow> bool" where
  "rework_rounds_left c step s \<longleftrightarrow>
     rt_on_changes_requested (ps_retry step) = On_retry
     \<and> s_rework_rounds s < exe_max_rounds_per_step (pc_execution (cfg_model c))
     \<and> s_executor_attempts s < rt_max_executor_attempts (ps_retry step)"

definition executor_rework ::
  "config \<Rightarrow> env \<Rightarrow> nat \<Rightarrow> run_record \<Rightarrow> plan_step \<Rightarrow> step_record \<Rightarrow> dispatch_record \<Rightarrow> bool \<Rightarrow> exn + step_record" where
  "executor_rework c e n r step s d usage_failed =
     bindr (make_event e n r Actor_dispatcher ''authoritative verification failed'' (d_dispatch_id d) None) (\<lambda>event.
     bindr (transition_step s Step_blocked event None None None) (\<lambda>t.
     let blocked = t\<lparr>s_rework_rounds := s_rework_rounds s + 1\<rparr> in
     if usage_failed then Inr blocked
     else if supports_rework d \<and> rework_rounds_left c step blocked then
       then_step e (n + 1) r d blocked Step_ready ''verification rework is ready''
     else if supports_rework d \<and> rt_on_changes_requested (ps_retry step) = On_escalate then Inr blocked
     else if supports_rework d then
       then_step e (n + 1) r d blocked Step_failed ''verification rework policy halted the step''
     else Inr blocked))"

definition reviewer_rework ::
  "config \<Rightarrow> env \<Rightarrow> nat \<Rightarrow> run_record \<Rightarrow> plan_step \<Rightarrow> step_record \<Rightarrow> dispatch_record \<Rightarrow> bool \<Rightarrow> exn + step_record" where
  "reviewer_rework c e n r step s d usage_failed =
     bindr (make_event e n r Actor_dispatcher ''fresh acceptance verification failed'' (d_dispatch_id d) None) (\<lambda>event.
     bindr (transition_step s Step_changes_requested event None None None) (\<lambda>t.
     let changed = t\<lparr>s_rework_rounds := s_rework_rounds s + 1, s_review_acceptances := 0,
             s_accepted_reviewer_role_keys := [], s_accepted_artifact_ids := []\<rparr> in
     if usage_failed then
       then_step e (n + 1) r d changed Step_blocked ''post-review verification usage could not be validated''
     else if supports_rework d \<and> rework_rounds_left c step changed
             \<and> s_reviewer_attempts changed < rt_max_reviewer_attempts (ps_retry step) then
       then_step e (n + 1) r d changed Step_ready ''post-review verification rework is ready''
     else if supports_rework d \<and> rt_on_changes_requested (ps_retry step) = On_escalate then
       then_step e (n + 1) r d changed Step_blocked ''post-review verification rework requires escalation''
     else if supports_rework d then
       then_step e (n + 1) r d changed Step_failed ''post-review verification rework policy halted the step''
     else then_step e (n + 1) r d changed Step_blocked ''post-review verification requires operator reconciliation''))"

section \<open>What the run waits for\<close>

definition budget_stop :: "config \<Rightarrow> string option \<Rightarrow> bool" where
  "budget_stop c reason \<longleftrightarrow>
     bud_enabled (pc_budget (cfg_model c))
     \<and> (case reason of None \<Rightarrow> True
        | Some text \<Rightarrow> contains_text ''budget'' (lower_text text) \<or> contains_text ''token limit'' (lower_text text))"

text \<open>A request that a budget reduces to a halt.\<close>

definition stop_request :: "env \<Rightarrow> nat \<Rightarrow> dispatch_record \<Rightarrow> bool \<Rightarrow> string \<Rightarrow> operator_request" where
  "stop_request e n d budget question =
     \<lparr>or_request_id = ''request-'' @ env_uuid e n, or_question = question,
      or_allowed_answers = (if budget then [''halt''] else [''reconcile'', ''halt'']), or_context_ref = d_dispatch_id d,
      or_resume_to = (if budget then Run_halted else Run_running), or_expires_at = None, or_required_role = None,
      or_kind = (if budget then Req_budget else Req_reconciliation), or_step_id = Some (d_step_id d),
      or_reassignment_role_key = None\<rparr>"

definition usage_waiting_record ::
  "config \<Rightarrow> env \<Rightarrow> nat \<Rightarrow> run_record \<Rightarrow> dispatch_record \<Rightarrow> exn \<Rightarrow> exn + run_record" where
  "usage_waiting_record c e n r d exc =
     (let budget = budget_stop c None in
      bindr (make_event e n r Actor_dispatcher
               ''verification evidence persisted but OpenCode usage could not be validated'' (d_dispatch_id d) None) (\<lambda>event.
        wait_with r event (stop_request e (n + 1) d budget
          (''Dispatcher-owned verification evidence was saved, but OpenCode usage could not be validated: ''
           @ take 5000 (redact_text (exn_text exc)) @ ''. ''
           @ (if budget then ''Budget enforcement forbids further paid work; halt this run.''
              else ''Reconcile the usage record and session state or halt.'')))))"

definition unsupported_waiting_record ::
  "env \<Rightarrow> nat \<Rightarrow> run_record \<Rightarrow> dispatch_record \<Rightarrow> exn + run_record" where
  "unsupported_waiting_record e n r d =
     bindr (make_event e n r Actor_dispatcher ''verification rework is unsupported for this workspace dispatch''
              (d_dispatch_id d) None) (\<lambda>event.
       wait_with r event (reconciliation_request e (n + 1) d
         (''Dispatcher-owned verification failed for a workspace dispatch. ''
          @ ''Reconcile the workspace and session state or halt.'')))"

definition rework_waiting_record ::
  "config \<Rightarrow> env \<Rightarrow> nat \<Rightarrow> run_record \<Rightarrow> plan_step \<Rightarrow> dispatch_record \<Rightarrow> exn option \<Rightarrow> exn + run_record" where
  "rework_waiting_record c e n r step d usage_error =
     (if usage_error \<noteq> None \<and> supports_rework d then usage_waiting_record c e n r d (the usage_error)
      else if supports_rework d \<and> rt_on_changes_requested (ps_retry step) = On_escalate then
        escalation_waiting_record e n r step d
      else if d_batch_id d = None \<and> \<not> supports_rework d then unsupported_waiting_record e n r d
      else Inr r)"

section \<open>Recording a failed verification\<close>

text \<open>One transaction: the record with the result, the measurements and the repository they were taken of.\<close>

definition save_rework ::
  "int \<Rightarrow> prepared_worker \<Rightarrow> run_record \<Rightarrow> int \<Rightarrow> dispatch_record \<Rightarrow> json_object \<Rightarrow> authoritative_verification list
   \<Rightarrow> repository_snapshot \<Rightarrow> ('g system, run_record \<times> int) action" where
  "save_rework now p r g d result authoritative observed =
     then_do (query (\<lambda>st. load_dispatch_payload st (r_run_id r) (d_dispatch_id d))) (\<lambda>payload.
     let metadata = (case pl_session_metadata payload of None \<Rightarrow> [] | Some m \<Rightarrow> m) in
     then_do (commit (save_run r g (no_extras\<lparr>se_payloads := [(d_dispatch_id d,
         payload\<lparr>pl_result := Some result,
                 pl_authoritative_verification := Some (json_authoritative authoritative),
                 pl_session_metadata :=
                   Some (dset ''verification_feedback'' (JArr (json_authoritative authoritative)) metadata),
                 pl_repository_after := Some (json_snapshot observed)\<rparr>)]\<rparr>) now)) (\<lambda>g.
     then_do (release (pw_lease_owner_id p) (pw_lease_keys p)) (\<lambda>_. give (Inr (r, g)))))"

definition record_executor_verification_failure ::
  "'g workflow \<Rightarrow> env \<Rightarrow> int \<Rightarrow> prepared_worker \<Rightarrow> executor_proposal \<Rightarrow> authoritative_verification list
   \<Rightarrow> usage_amount option \<Rightarrow> repository_snapshot \<Rightarrow> ('g system, run_record \<times> int) action" where
  "record_executor_verification_failure flow e now p proposal authoritative usage verified =
     (let c = wf_config flow in
     then_do (query (\<lambda>st. load_run st (pw_run_id p))) (\<lambda>(r, g).
     then_do (give (check_not_stale flow p g ''running dispatch generation is stale'')) (\<lambda>_.
     then_do (give (dict_item (r_dispatches r) (d_dispatch_id (pw_dispatch p)))) (\<lambda>d.
     then_do (give (find_plan_step r (d_step_id d))) (\<lambda>step.
     then_do (give (validate_executor_proposal step proposal d)) (\<lambda>_.
     then_do (give (check_failed_verification step authoritative
                ''failed authoritative verification does not exactly cover plan criteria''
                ''verification feedback requires at least one failed dispatcher check'')) (\<lambda>_.
     then_do (inspect_dispatch_repository flow r d False) (\<lambda>observed.
     if observed \<noteq> verified then give (Inl (WorkerResultValidationError
       ''repository changed between proposal inspection and failed verification persistence''))
     else
     then_do (give (config_repository c (ps_repo_id step))) (\<lambda>repository.
     then_do (pending_changes flow (di_repository (d_intent d)) (pw_repository_before p) observed (pw_workdir p)
                (auth_writable_paths (ps_authorization step)) (repo_commit_policy repository = Commit_required)) (\<lambda>_.
     then_do (tolerated_usage flow now r g d usage) (\<lambda>(r, g, usage_error).
     then_do (give (failed_record e 0 r d ''dispatcher-owned verification requested executor rework''
                ''authoritative_verification'' (verification_failure_detail authoritative))) (\<lambda>r.
     then_do (give (record_step r (ps_step_id step))) (\<lambda>s.
     then_do (give (executor_rework c e 1 r step s d (usage_error \<noteq> None))) (\<lambda>s'.
     then_do (give (step_replacement_record e 3 r s')) (\<lambda>r.
     then_do (give (rework_waiting_record c e 4 r step d usage_error)) (\<lambda>r.
       save_rework now p r g d (json_executor_proposal proposal) authoritative observed))))))))))))))))"

definition record_reviewer_verification_failure ::
  "'g workflow \<Rightarrow> env \<Rightarrow> int \<Rightarrow> prepared_worker \<Rightarrow> reviewer_result \<Rightarrow> authoritative_verification list
   \<Rightarrow> usage_amount option \<Rightarrow> repository_snapshot \<Rightarrow> ('g system, run_record \<times> int) action" where
  "record_reviewer_verification_failure flow e now p result authoritative usage verified =
     (let c = wf_config flow in
     then_do (query (\<lambda>st. load_run st (pw_run_id p))) (\<lambda>(r, g).
     then_do (give (check_not_stale flow p g ''running review generation is stale'')) (\<lambda>_.
     then_do (give (dict_item (r_dispatches r) (d_dispatch_id (pw_dispatch p)))) (\<lambda>d.
     then_do (give (find_plan_step r (d_step_id d))) (\<lambda>step.
     then_do (give (check_failed_verification step authoritative
                ''failed acceptance verification does not exactly cover plan criteria''
                ''post-review feedback requires at least one failed dispatcher check'')) (\<lambda>_.
     then_do (inspect_reviewer_result flow p result) (\<lambda>observed.
     if observed \<noteq> verified then give (Inl (WorkerResultValidationError
       ''repository changed between review inspection and failed verification persistence''))
     else
     then_do (tolerated_usage flow now r g d usage) (\<lambda>(r, g, usage_error).
     then_do (give (failed_record e 0 r d ''post-review dispatcher verification requested executor rework''
                ''acceptance_verification'' (verification_failure_detail authoritative))) (\<lambda>r.
     then_do (give (record_step r (ps_step_id step))) (\<lambda>s.
     then_do (give (reviewer_rework c e 1 r step s d (usage_error \<noteq> None))) (\<lambda>s'.
     then_do (give (step_replacement_record e 3 r s')) (\<lambda>r.
     then_do (give (rework_waiting_record c e 4 r step d usage_error)) (\<lambda>r.
       save_rework now p r g d (json_reviewer_result result) authoritative observed)))))))))))))"

section \<open>Retries after a failed verification\<close>

datatype retry_outcome = No_retry | Retry_prepared prepared_worker | Retry_stopped run_record int

fun select_result :: "('a \<Rightarrow> exn + bool) \<Rightarrow> 'a list \<Rightarrow> exn + 'a list" where
  "select_result p [] = Inr []"
| "select_result p (x # xs) = bindr (p x) (\<lambda>b. bindr (select_result p xs) (\<lambda>ys. Inr (if b then x # ys else ys)))"

text \<open>\<open>max(candidates, key=...)\<close> by sequence and identifier: the first of the greatest.\<close>

definition latest_failure :: "dispatch_record list \<Rightarrow> dispatch_record" where
  "latest_failure ds = foldl (\<lambda>best d.
     if (te_sequence (d_last_event best), d_dispatch_id best) < (te_sequence (d_last_event d), d_dispatch_id d)
     then d else best) (hd ds) (tl ds)"

definition awaits_rework :: "run_record \<Rightarrow> dispatch_record \<Rightarrow> exn + bool" where
  "awaits_rework r d =
     (if d_state d \<noteq> Dispatch_failed
         \<or> d_failure_category d \<notin> {Some ''authoritative_verification'', Some ''acceptance_verification''} then Inr False
      else bindr (record_step r (d_step_id d)) (\<lambda>s.
        Inr (s_state s = Step_ready \<and> supports_rework d
             \<and> d_attempt d = (if d_role_kind d = Worker_executor then s_executor_attempts s else s_reviewer_attempts s))))"

definition durable_feedback :: "dispatch_payload \<Rightarrow> exn + authoritative_verification list" where
  "durable_feedback payload =
     (if pl_authoritative_verification payload = None \<or> pl_authoritative_verification payload = Some [] then
        Inl (SequentialWorkflowError ''verification retry has no durable feedback'')
      else case stored_verification (pl_authoritative_verification payload) of
        Inl _ \<Rightarrow> Inl (SequentialWorkflowError ''durable verification feedback is malformed'')
      | Inr vs \<Rightarrow> Inr vs)"

definition durable_target :: "dispatch_payload \<Rightarrow> string \<Rightarrow> exn + json_object" where
  "durable_target payload message =
     (case dget (case pl_session_metadata payload of None \<Rightarrow> [] | Some m \<Rightarrow> m) ''review_target'' of
        Some (JObj target) \<Rightarrow> Inr target | _ \<Rightarrow> Inl (SequentialWorkflowError message))"

text \<open>The snapshots before and after the failed attempt.\<close>

definition durable_snapshots :: "dispatch_payload \<Rightarrow> string \<Rightarrow> exn + repository_snapshot \<times> repository_snapshot" where
  "durable_snapshots payload message =
     (case (pl_repository_before payload, pl_repository_after payload) of
        (Some earlier, Some later) \<Rightarrow>
          bindr (stored_snapshot earlier) (\<lambda>earlier. bindr (stored_snapshot later) (\<lambda>later. Inr (earlier, later)))
      | _ \<Rightarrow> Inl (SequentialWorkflowError message))"

definition rework_request :: "dispatch_record \<Rightarrow> string \<Rightarrow> string \<Rightarrow> string \<Rightarrow> dispatch_request" where
  "rework_request d role_key prompt rationale =
     \<lparr>req_step_id = d_step_id d, req_target_role = role_key, req_session_mode = Mode_resume, req_repo_id = None,
      req_prompt = prompt, req_rationale = Some rationale\<rparr>"

definition planned_rework ::
  "run_record \<Rightarrow> dispatch_record \<Rightarrow> authoritative_verification list \<Rightarrow> dispatch_payload
   \<Rightarrow> exn + dispatch_request \<times> retry_context" where
  "planned_rework r d feedback payload =
     (if \<not> supports_rework d then Inl (SequentialWorkflowError
        ''automatic verification rework is unsupported for batch or workspace dispatches'')
      else
      bindr (record_step r (d_step_id d)) (\<lambda>s.
      if s_state s \<noteq> Step_ready then
        Inl (SequentialWorkflowError ''failed verification is not eligible for automatic retry'')
      else if d_failure_category d = Some ''authoritative_verification'' then
        bindr (durable_snapshots payload ''verification retry is missing durable repository snapshots'') (\<lambda>(earlier, later).
          Inr (rework_request d (d_role_key d)
             (''Correct the same authorized step after dispatcher-owned verification failed. ''
              @ ''Use verification_feedback and return a new '' @ ''dispatcher.executor_proposal.v2 object.'')
             ''Dispatcher-owned verification requested bounded rework.'',
           \<lparr>rx_repository_before = Some earlier, rx_expected_snapshot = Some later, rx_require_changes = None,
            rx_feedback = feedback\<rparr>))
      else if d_failure_category d = Some ''acceptance_verification'' then
        bindr (durable_snapshots payload ''post-review verification retry is missing durable repository snapshots'')
          (\<lambda>(earlier, later).
        bindr (durable_target payload ''failed review has no durable executor target'') (\<lambda>stored.
        bindr (stored_target stored) (\<lambda>target.
          case dget (r_dispatches r) (rt_executor_dispatch_id target) of
            None \<Rightarrow> Inl (SequentialWorkflowError ''failed review executor target disappeared'')
          | Some executor \<Rightarrow>
              Inr (rework_request d (d_role_key executor)
                 (''Correct the same authorized step because the fresh post-review dispatcher ''
                  @ ''verification failed. Use verification_feedback and return a new ''
                  @ ''dispatcher.executor_proposal.v2 object.'')
                 ''Fresh post-review verification requested bounded rework.'',
               \<lparr>rx_repository_before = Some earlier, rx_expected_snapshot = Some later,
                rx_require_changes = Some False, rx_feedback = feedback\<rparr>))))
      else Inl (SequentialWorkflowError ''dispatch has no recoverable verification failure'')))"

definition prepare_durable_verification_retry ::
  "'g workflow \<Rightarrow> env \<Rightarrow> int \<Rightarrow> run_record \<Rightarrow> int \<Rightarrow> dispatch_record \<Rightarrow> authoritative_verification list
   \<Rightarrow> dispatch_payload \<Rightarrow> ('g system, prepared_worker) action" where
  "prepare_durable_verification_retry flow e now r g d feedback payload =
     then_do (give (planned_rework r d feedback payload)) (\<lambda>(command, x).
     then_do (give (checked dispatch_request_errors command)) (\<lambda>command.
     then_do (prepare_worker flow e now r g command x) (\<lambda>outcome.
       case outcome of
         Worker_prepared prepared \<Rightarrow> give (Inr prepared)
       | Run_waits _ _ \<Rightarrow> raise_workflow ''verification retry unexpectedly requested an operator gate'')))"

definition verification_retry_waiting ::
  "'g workflow \<Rightarrow> env \<Rightarrow> nat \<Rightarrow> int \<Rightarrow> run_record \<Rightarrow> int \<Rightarrow> dispatch_record \<Rightarrow> string
   \<Rightarrow> ('g system, run_record \<times> int) action" where
  "verification_retry_waiting flow e n now r g d reason =
     (let safe_reason = take 5000 (redact_text reason); budget = budget_stop (wf_config flow) (Some safe_reason) in
     then_do (give (record_step r (d_step_id d))) (\<lambda>s.
     then_do (event_of e n r Actor_dispatcher ''verification retry preparation requires operator action''
                (d_dispatch_id d)) (\<lambda>event.
     then_do (give (transition_step s Step_blocked event None None None)) (\<lambda>blocked.
     then_do (give (step_replacement_record e (n + 1) r blocked)) (\<lambda>r.
       ask_operator e (n + 2) now r g ''verification retry could not be prepared safely'' (d_dispatch_id d)
         (stop_request e (n + 3) d budget
           (''Verification retry preparation failed: '' @ safe_reason @ ''. ''
            @ (if budget then ''Halt this run.'' else ''Reconcile repository and session state or halt.''))))))))"

text \<open>\<open>except (SequentialWorkflowError, RepositoryValidationError, StateStoreError, ValueError)\<close>.\<close>

definition stops_retry :: "exn \<Rightarrow> bool" where
  "stops_retry exc \<longleftrightarrow> is_value_error exc \<or> (case exc of
       StateStoreError _ \<Rightarrow> True | StateStoreConflictError _ \<Rightarrow> True | StateStoreCorruptionError _ \<Rightarrow> True
     | LeaseConflictError _ \<Rightarrow> True | StaleLeaseRecoveryRequired _ \<Rightarrow> True | RecoveryRequiredError _ \<Rightarrow> True
     | _ \<Rightarrow> False)"

definition stopping ::
  "('s, 'a) action \<Rightarrow> (string \<Rightarrow> ('s, 'a) action) \<Rightarrow> ('s, 'a) action" where
  "stopping m h = catching m (\<lambda>exc. if stops_retry exc then h (exn_text exc) else give (Inl exc))"

definition prepare_pending_verification_retry ::
  "'g workflow \<Rightarrow> env \<Rightarrow> int \<Rightarrow> run_record \<Rightarrow> int \<Rightarrow> ('g system, retry_outcome) action" where
  "prepare_pending_verification_retry flow e now r g =
     then_do (give (select_result (awaits_rework r) (map snd (r_dispatches r)))) (\<lambda>candidates.
     if candidates = [] then give (Inr No_retry)
     else
     let d = latest_failure candidates in
     stopping
       (then_do (query (\<lambda>st. load_dispatch_payload st (r_run_id r) (d_dispatch_id d))) (\<lambda>payload.
        then_do (give (durable_feedback payload)) (\<lambda>feedback.
        then_do (prepare_durable_verification_retry flow e now r g d feedback payload) (\<lambda>prepared.
          give (Inr (Retry_prepared prepared))))))
       (\<lambda>reason. then_do (verification_retry_waiting flow e 20 now r g d reason) (\<lambda>(r, g).
          give (Inr (Retry_stopped r g)))))"

section \<open>Malformed reviews\<close>

definition record_reviewer_result_validation_failure ::
  "'g workflow \<Rightarrow> env \<Rightarrow> int \<Rightarrow> prepared_worker \<Rightarrow> string \<Rightarrow> string \<Rightarrow> ('g system, run_record \<times> int) action" where
  "record_reviewer_result_validation_failure flow e now p reason failure_detail =
     (let safe_reason = take 5000 (redact_text reason); safe_detail = take 5000 (redact_text failure_detail) in
     ensuring
       (then_do (query (\<lambda>st. load_run st (pw_run_id p))) (\<lambda>(r, g).
        then_do (give (check_not_stale flow p g ''reviewer response validation generation is stale'')) (\<lambda>_.
        then_do (give (dict_item (r_dispatches r) (d_dispatch_id (pw_dispatch p)))) (\<lambda>d.
        if d_role_kind d \<noteq> Worker_reviewer \<or> d_state d \<noteq> Dispatch_running then
          raise_workflow ''post-session reviewer response validation requires a running reviewer dispatch''
        else
        then_do (event_of e 0 r Actor_dispatcher safe_reason (d_dispatch_id d)) (\<lambda>event.
        then_do (commit (commit_dispatch_transition r g (d_dispatch_id d) Dispatch_failed event
                   (no_update\<lparr>du_failure_category := Some ''result_validation'', du_failure_detail := Some safe_detail\<rparr>)
                   no_commit_extras now)) (\<lambda>(r, g).
        then_do (give (record_step r (d_step_id d))) (\<lambda>s.
        if s_state s \<noteq> Step_reviewing then
          raise_workflow (''reviewer response validation has incompatible step state '' @ step_status_value (s_state s))
        else
        then_do (event_of e 1 r Actor_dispatcher ''read-only reviewer response validation failed'' (d_dispatch_id d))
          (\<lambda>step_event.
        then_do (give (transition_step s Step_review_required step_event None None None)) (\<lambda>t.
          replace_step e 2 now r g
            (t\<lparr>s_stalls := s_stalls s + 1, s_last_stall_category := Some ''result_validation'',
               s_last_stall_reason := Some safe_detail\<rparr>))))))))))
       (unlock (pw_lease_owner_id p) (pw_lease_keys p)))"

text \<open>
  The sources of a stored prompt. The digest that is compared before it leaves only a text that
  \<open>_worker_prompt\<close> wrote, which has no fraction and no key twice.
\<close>

definition prompt_sources :: "string \<Rightarrow> exn + json option" where
  "prompt_sources prompt = (case read_json (skip_space prompt) of
       Inl Malformed \<Rightarrow> Inl (SequentialWorkflowError ''failed reviewer prompt is not a valid immutable worker context'')
     | Inl _ \<Rightarrow> Inr None
     | Inr (v, r) \<Rightarrow>
         if skip_space r \<noteq> [] then
           Inl (SequentialWorkflowError ''failed reviewer prompt is not a valid immutable worker context'')
         else Inr (case v of JObj members \<Rightarrow> dget members ''authoritative_sources'' | _ \<Rightarrow> None))"

definition check_prompt_sources :: "'g workflow \<Rightarrow> run_record \<Rightarrow> string \<Rightarrow> exn + unit" where
  "check_prompt_sources flow r prompt =
     bindr (prompt_sources prompt) (\<lambda>sources.
       raise_if (map_option canon sources
           \<noteq> Some (canon (authoritative_sources (wf_source_path flow) (np_sources (r_plan r)))))
         (SequentialWorkflowError ''failed reviewer prompt lacks the exact authoritative-source ledger''))"

text \<open>The failed review is still the current attempt of an obligation of its step, and nothing else runs.\<close>

definition check_retryable_review ::
  "'g workflow \<Rightarrow> run_record \<Rightarrow> dispatch_record \<Rightarrow> plan_step \<Rightarrow> step_record \<Rightarrow> exn + unit" where
  "check_retryable_review flow r d step s =
     bindr (raise_if (d_attempt d \<noteq> s_reviewer_attempts s)
       (SequentialWorkflowError ''failed reviewer attempt is not the step's current reviewer attempt'')) (\<lambda>_.
     bindr (review_obligation_of (wf_config flow) r step) (\<lambda>obligation.
     bindr (raise_if (d_role_key d \<notin> set (cro_reviewer_role_keys obligation))
       (SequentialWorkflowError ''failed reviewer role is no longer obligated for the step'')) (\<lambda>_.
     bindr (raise_if (d_role_key d \<in> set (s_accepted_reviewer_role_keys s))
       (SequentialWorkflowError ''failed reviewer role already accepted the immutable artifact'')) (\<lambda>_.
     bindr (raise_if (list_ex (\<lambda>other. d_dispatch_id other \<noteq> d_dispatch_id d \<and> d_state other \<in> set ACTIVE_DISPATCH_STATES)
         (map snd (r_dispatches r)))
       (SequentialWorkflowError ''another dispatch is unresolved during reviewer retry recovery'')) (\<lambda>_.
       verify_dispatch_sources flow r)))))"

definition check_unapplied_review :: "run_record \<Rightarrow> dispatch_record \<Rightarrow> dispatch_payload \<Rightarrow> bool \<Rightarrow> exn + unit" where
  "check_unapplied_review r d payload reviewed =
     bindr (raise_if (pl_result payload \<noteq> None \<or> pl_forwarding_payload payload \<noteq> None \<or> reviewed)
       (SequentialWorkflowError ''failed reviewer response was already durably applied'')) (\<lambda>_.
     bindr (raise_if (sha256_text (pl_prompt payload) \<noteq> di_prompt_sha256 (d_intent d))
       (SequentialWorkflowError ''failed reviewer prompt does not match its immutable dispatch intent'')) (\<lambda>_.
       raise_if (object_digest (pl_policy payload) \<noteq> di_policy_digest (d_intent d))
         (SequentialWorkflowError ''failed reviewer policy does not match its immutable dispatch intent'')))"

text \<open>The target and the snapshot the review was made of.\<close>

definition reviewed_product :: "dispatch_payload \<Rightarrow> exn + review_target \<times> repository_snapshot" where
  "reviewed_product payload =
     (case pl_repository_before payload of
        None \<Rightarrow> Inl (SequentialWorkflowError ''failed reviewer dispatch has no durable repository snapshot'')
      | Some earlier \<Rightarrow>
          bindr (durable_target payload ''failed reviewer dispatch has no durable review target'') (\<lambda>target.
          case bindr (stored_target target) (\<lambda>target. bindr (stored_snapshot earlier) (\<lambda>earlier. Inr (target, earlier))) of
            Inl _ \<Rightarrow> Inl (SequentialWorkflowError ''failed reviewer retry recovery metadata is malformed'')
          | Inr x \<Rightarrow> Inr x))"

definition verify_reviewer_result_validation_retry ::
  "'g workflow \<Rightarrow> run_record \<Rightarrow> dispatch_record \<Rightarrow> ('g system, unit) action" where
  "verify_reviewer_result_validation_retry flow r d =
     (if d_batch_id d \<noteq> None then
        raise_workflow ''batch reviewer result-validation retries require reconciliation''
      else
      then_do (give (find_plan_step r (d_step_id d))) (\<lambda>step.
      then_do (give (record_step r (d_step_id d))) (\<lambda>s.
      then_do (give (check_retryable_review flow r d step s)) (\<lambda>_.
      then_do (query (\<lambda>st. load_dispatch_payload st (r_run_id r) (d_dispatch_id d))) (\<lambda>payload.
      then_do (query (\<lambda>st. Inr (review_for_dispatch st (r_run_id r) (d_dispatch_id d)))) (\<lambda>reviewed.
      then_do (give (check_unapplied_review r d payload reviewed)) (\<lambda>_.
      then_do (give (check_prompt_sources flow r (pl_prompt payload))) (\<lambda>_.
      then_do (give (reviewed_product payload)) (\<lambda>(target, earlier).
      then_do (query (review_target_of r step)) (\<lambda>current.
      if target \<noteq> current then
        raise_workflow ''failed reviewer target no longer matches the immutable work product''
      else
      then_do (inspect_dispatch_repository flow r d True) (\<lambda>observed.
      if observed \<noteq> earlier then
        raise_workflow ''repository snapshot changed after the malformed reviewer response''
      else
        on_disk (\<lambda>disk. (validate_review_snapshot (wf_config flow)
          (working_patch flow (rc_repo_id (di_repository (d_intent d))) disk) (di_repository (d_intent d))
          earlier observed target, disk)))))))))))))"

definition review_retry_exhausted :: "'g workflow \<Rightarrow> plan_step \<Rightarrow> step_record \<Rightarrow> bool" where
  "review_retry_exhausted flow step s \<longleftrightarrow>
     rt_max_reviewer_attempts (ps_retry step) \<le> s_reviewer_attempts s
     \<or> stall_maximum_retries_per_step (stall_policy_of flow) \<le> s_stalls s"

definition review_retry_request :: "env \<Rightarrow> nat \<Rightarrow> dispatch_record \<Rightarrow> operator_request" where
  "review_retry_request e n d =
     \<lparr>or_request_id = ''request-'' @ env_uuid e n,
      or_question = ''Step '' @ d_step_id d @ '' exhausted safe reviewer result-validation retries. ''
        @ ''Retry once more or halt?'',
      or_allowed_answers = [''retry'', ''halt''], or_context_ref = d_dispatch_id d, or_resume_to = Run_running,
      or_expires_at = None, or_required_role = None, or_kind = Req_stall_recovery, or_step_id = Some (d_step_id d),
      or_reassignment_role_key = None\<rparr>"

definition review_retry_stopped ::
  "'g workflow \<Rightarrow> env \<Rightarrow> int \<Rightarrow> run_record \<Rightarrow> int \<Rightarrow> dispatch_record \<Rightarrow> step_record \<Rightarrow> ('g system, run_record \<times> int) action" where
  "review_retry_stopped flow e now r g d s =
     (case stall_on_exhausted (stall_policy_of flow) of
        Exhausted_ask \<Rightarrow>
          ask_operator e 0 now r g ''safe reviewer result-validation retry limit exhausted'' (d_dispatch_id d)
            (review_retry_request e 1 d)
      | Exhausted_halt \<Rightarrow>
          move_run e 0 now r g Run_halted Actor_dispatcher
            ''safe reviewer result-validation retry limit exhausted; halted'' (d_dispatch_id d)
      | Exhausted_fail \<Rightarrow>
          then_do (give (make_event e 0 r Actor_dispatcher
             ''safe reviewer result-validation retry limit exhausted; step failed'' (d_step_id d)
             (Some (te_sequence (s_last_event s) + 1)))) (\<lambda>event.
          then_do (give (transition_step s Step_failed event None None None)) (\<lambda>failed.
            replace_step e 1 now r g failed)))"

definition review_retry_waiting ::
  "env \<Rightarrow> nat \<Rightarrow> int \<Rightarrow> run_record \<Rightarrow> int \<Rightarrow> dispatch_record \<Rightarrow> string \<Rightarrow> ('g system, run_record \<times> int) action" where
  "review_retry_waiting e n now r g d reason =
     (if r_state r = Run_waiting_operator then give (Inr (r, g))
      else if r_state r \<noteq> Run_running then
        raise_workflow (''failed reviewer retry cannot enter recovery from '' @ run_status_value (r_state r))
      else
        ask_operator e n now r g ''malformed reviewer response retry requires operator reconciliation'' (d_dispatch_id d)
          (reconciliation_request e (n + 1) d
            (''A malformed response from reviewer '' @ d_role_key d @ '' cannot be retried safely: ''
             @ take 5000 (redact_text reason)
             @ ''. Reconcile the immutable review target and repository snapshot or halt.'')))"

definition fresh_review_request :: "dispatch_record \<Rightarrow> dispatch_request" where
  "fresh_review_request d =
     \<lparr>req_step_id = d_step_id d, req_target_role = d_role_key d, req_session_mode = Mode_new, req_repo_id = None,
      req_prompt = ''Return the required typed reviewer result for the same immutable review target. ''
        @ ''Do not repeat any executor work or accepted reviewer work.'',
      req_rationale = Some ''dispatcher-owned malformed reviewer response recovery''\<rparr>"

definition awaits_review_retry :: "run_record \<Rightarrow> dispatch_record \<Rightarrow> exn + bool" where
  "awaits_review_retry r d =
     (if d_role_kind d \<noteq> Worker_reviewer \<or> d_state d \<notin> {Dispatch_failed, Dispatch_abandoned}
         \<or> d_failure_category d \<noteq> Some ''result_validation'' then Inr False
      else bindr (record_step r (d_step_id d)) (\<lambda>s. Inr (s_state s = Step_review_required)))"

definition retry_malformed_review ::
  "'g workflow \<Rightarrow> env \<Rightarrow> int \<Rightarrow> run_record \<Rightarrow> int \<Rightarrow> dispatch_record \<Rightarrow> ('g system, retry_outcome) action" where
  "retry_malformed_review flow e now r g d =
     then_do (verify_reviewer_result_validation_retry flow r d) (\<lambda>_.
     if r_state r \<noteq> Run_running then
       raise_workflow (''failed reviewer retry requires a RUNNING run, found '' @ run_status_value (r_state r))
     else
     then_do (give (find_plan_step r (d_step_id d))) (\<lambda>step.
     then_do (give (record_step r (d_step_id d))) (\<lambda>s.
     if review_retry_exhausted flow step s then
       then_do (review_retry_stopped flow e now r g d s) (\<lambda>(r, g). give (Inr (Retry_stopped r g)))
     else
     then_do (give (checked dispatch_request_errors (fresh_review_request d))) (\<lambda>command.
     then_do (prepare_worker flow e now r g command no_retry) (\<lambda>outcome.
       case outcome of
         Worker_prepared retried \<Rightarrow> give (Inr (Retry_prepared retried))
       | Run_waits _ _ \<Rightarrow>
           raise_workflow ''reviewer result-validation retry unexpectedly requested an operator gate'')))))"

definition prepare_pending_reviewer_result_validation_retry ::
  "'g workflow \<Rightarrow> env \<Rightarrow> int \<Rightarrow> run_record \<Rightarrow> int \<Rightarrow> ('g system, retry_outcome) action" where
  "prepare_pending_reviewer_result_validation_retry flow e now r g =
     (if r_state r = Run_waiting_operator then give (Inr (Retry_stopped r g))
      else
      then_do (give (select_result (awaits_review_retry r) (map snd (r_dispatches r)))) (\<lambda>candidates.
      if candidates = [] then give (Inr No_retry)
      else
      let d = latest_failure candidates in
      stopping (retry_malformed_review flow e now r g d)
        (\<lambda>reason. then_do (review_retry_waiting e 20 now r g d reason) (\<lambda>(r, g). give (Inr (Retry_stopped r g))))))"

end
