(* ===== verification/Protocol.thy ===== *)
theory Protocol
  imports Json_Text Worker_Dispatch
begin

text \<open>
  The command protocol of the supervisor (\<open>src/src/dispatcher/protocol.py\<close>): one JSON object, with no prose
  around it and no key twice, of one of six shapes. Of several structural errors the first is reported. The
  position in the message of a JSON syntax error is left out.
\<close>

datatype supervisor_command =
    Dispatch_command dispatch_request
  | Batch_command "dispatch_request list" "string option"
  | Ask_operator_command "string option" string "string option"
  | Review_waiver_command string string
  | Halt_command string
  | Completion_command "string option"

section \<open>Validation\<close>

definition batch_command_errors :: "dispatch_request list \<Rightarrow> string option \<Rightarrow> verror list" where
  "batch_command_errors children rationale =
     field_errors
       [(''children'', 1 \<le> length children \<and> length children \<le> 100),
        (''rationale'', optional (length_between 1 5000) rationale)]
     @ concat (map dispatch_request_errors children)
     @ first_rule [(\<not> distinct (map req_step_id children), ''batch children must not target the same step'')]"

fun command_errors :: "supervisor_command \<Rightarrow> verror list" where
  "command_errors (Dispatch_command q) = dispatch_request_errors q"
| "command_errors (Batch_command children rationale) = batch_command_errors children rationale"
| "command_errors (Ask_operator_command step_id question rationale) = field_errors
     [(''step_id'', optional identifier_ok step_id), (''question'', length_between 1 10000 question),
      (''rationale'', optional (length_between 1 5000) rationale)]"
| "command_errors (Review_waiver_command step_id rationale) = field_errors
     [(''step_id'', identifier_ok step_id), (''rationale'', length_between 1 5000 rationale)]"
| "command_errors (Halt_command reason) = field_errors [(''reason'', length_between 1 10000 reason)]"
| "command_errors (Completion_command rationale) = field_errors
     [(''rationale'', optional (length_between 1 5000) rationale)]"

section \<open>JSON values\<close>

definition session_mode_options :: "(string \<times> session_mode) list" where
  "session_mode_options = map (\<lambda>x. (session_mode_text x, x)) [Mode_new, Mode_resume, Mode_fork]"

definition REQUEST_FIELDS :: "string list" where
  "REQUEST_FIELDS = [''step_id'', ''target_role'', ''session_mode'', ''repo_id'', ''prompt'', ''rationale'']"

definition request_members :: "(string \<times> json) list \<Rightarrow> verror list + dispatch_request" where
  "request_members m =
     bindr (member ''step_id'' as_text m) (\<lambda>step_id.
     bindr (member ''target_role'' as_text m) (\<lambda>target_role.
     bindr (member ''session_mode'' (one_of session_mode_options) m) (\<lambda>session_mode.
     bindr (member_or_none ''repo_id'' as_text m) (\<lambda>repo_id.
     bindr (member ''prompt'' as_text m) (\<lambda>prompt.
     bindr (member_or_none ''rationale'' as_text m) (\<lambda>rationale.
       Inr \<lparr>req_step_id = step_id, req_target_role = target_role, req_session_mode = session_mode,
            req_repo_id = repo_id, req_prompt = prompt, req_rationale = rationale\<rparr>))))))"

definition decode_request :: "dispatch_request decoder" where
  "decode_request v = bindr (closed_object REQUEST_FIELDS v) request_members"

text \<open>The members of a command besides its version and action.\<close>

definition command_members ::
  "int \<Rightarrow> string list \<Rightarrow> ((string \<times> json) list \<Rightarrow> verror list + supervisor_command) \<Rightarrow> supervisor_command decoder" where
  "command_members version names build v =
     bindr (closed_object ([''protocol_version'', ''action''] @ names) v) (\<lambda>m.
     bindr (member ''protocol_version'' (literal_int version) m) (\<lambda>_. build m))"

definition decode_command :: "supervisor_command decoder" where
  "decode_command v = (case v of
       JObj m \<Rightarrow> bindr (member ''action'' as_text m) (\<lambda>action.
         if action = ''dispatch'' then
           command_members 1 REQUEST_FIELDS (\<lambda>m. bindr (request_members m) (\<lambda>q. Inr (Dispatch_command q))) v
         else if action = ''dispatch_batch'' then
           command_members 2 [''children'', ''rationale''] (\<lambda>m.
             bindr (member ''children'' (as_list decode_request) m) (\<lambda>children.
             bindr (member_or_none ''rationale'' as_text m) (\<lambda>rationale. Inr (Batch_command children rationale)))) v
         else if action = ''ask_operator'' then
           command_members 1 [''step_id'', ''question'', ''rationale''] (\<lambda>m.
             bindr (member_or_none ''step_id'' as_text m) (\<lambda>step_id.
             bindr (member ''question'' as_text m) (\<lambda>question.
             bindr (member_or_none ''rationale'' as_text m) (\<lambda>rationale.
               Inr (Ask_operator_command step_id question rationale))))) v
         else if action = ''request_review_waiver'' then
           command_members 1 [''step_id'', ''rationale''] (\<lambda>m.
             bindr (member ''step_id'' as_text m) (\<lambda>step_id.
             bindr (member ''rationale'' as_text m) (\<lambda>rationale. Inr (Review_waiver_command step_id rationale)))) v
         else if action = ''halt'' then
           command_members 1 [''reason''] (\<lambda>m.
             bindr (member ''reason'' as_text m) (\<lambda>reason. Inr (Halt_command reason))) v
         else if action = ''request_completion'' then
           command_members 1 [''rationale''] (\<lambda>m.
             bindr (member_or_none ''rationale'' as_text m) (\<lambda>rationale. Inr (Completion_command rationale))) v
         else Inl [Field ''action''])
     | _ \<Rightarrow> Inl [Field ''object''])"

section \<open>Parsing\<close>

fun read_failure_text :: "read_failure \<Rightarrow> string" where
  "read_failure_text (Duplicate_key k) = ''duplicate JSON object key: '' @ k"
| "read_failure_text Malformed = ''malformed text''"
| "read_failure_text Outside = ''unsupported literal''"

definition invalid_command :: "verror list \<Rightarrow> exn" where
  "invalid_command es = ProtocolError (''invalid supervisor command: '' @ join_text ''; '' (map verror_text es))"

definition command_of :: "json \<Rightarrow> exn + supervisor_command" where
  "command_of payload = (case decode_command payload of
       Inl es \<Rightarrow> Inl (invalid_command es)
     | Inr c \<Rightarrow> if command_errors c \<noteq> [] then Inl (invalid_command (command_errors c)) else Inr c)"

definition parse_supervisor_command :: "string \<Rightarrow> exn + supervisor_command" where
  "parse_supervisor_command input =
     (let s = dropWhile is_space input in
      if s = [] then Inl (ProtocolError ''supervisor response must start with one JSON command object'')
      else case read_json s of
        Inl f \<Rightarrow> Inl (ProtocolError (''invalid supervisor command JSON: '' @ read_failure_text f))
      | Inr (payload, r) \<Rightarrow>
          if stripped r \<noteq> [] then
            Inl (ProtocolError ''supervisor command must not contain trailing prose or a second object'')
          else (case payload of
              JObj _ \<Rightarrow> command_of payload
            | _ \<Rightarrow> Inl (ProtocolError ''supervisor command must be a JSON object'')))"

section \<open>Writing commands\<close>

definition json_request_members :: "dispatch_request \<Rightarrow> (string \<times> json) list" where
  "json_request_members q =
     [(''step_id'', JStr (req_step_id q)), (''target_role'', JStr (req_target_role q)),
      (''session_mode'', JStr (session_mode_text (req_session_mode q))),
      (''repo_id'', json_optional JStr (req_repo_id q)), (''prompt'', JStr (req_prompt q)),
      (''rationale'', json_optional JStr (req_rationale q))]"

fun json_command_members :: "supervisor_command \<Rightarrow> int \<times> string \<times> (string \<times> json) list" where
  "json_command_members (Dispatch_command q) = (1, ''dispatch'', json_request_members q)"
| "json_command_members (Batch_command children rationale) =
     (2, ''dispatch_batch'', [(''children'', JArr (map (\<lambda>q. JObj (json_request_members q)) children)),
      (''rationale'', json_optional JStr rationale)])"
| "json_command_members (Ask_operator_command step_id question rationale) =
     (1, ''ask_operator'', [(''step_id'', json_optional JStr step_id), (''question'', JStr question),
      (''rationale'', json_optional JStr rationale)])"
| "json_command_members (Review_waiver_command step_id rationale) =
     (1, ''request_review_waiver'', [(''step_id'', JStr step_id), (''rationale'', JStr rationale)])"
| "json_command_members (Halt_command reason) = (1, ''halt'', [(''reason'', JStr reason)])"
| "json_command_members (Completion_command rationale) =
     (1, ''request_completion'', [(''rationale'', json_optional JStr rationale)])"

definition json_command :: "supervisor_command \<Rightarrow> json" where
  "json_command c = (case json_command_members c of (version, action, members) \<Rightarrow>
     JObj ((''protocol_version'', JInt version) # (''action'', JStr action) # members))"

section \<open>Commands are read back\<close>

lemma session_mode_inverse [simp]: "one_of session_mode_options (JStr (session_mode_text m)) = Inr m"
  by (cases m) (simp_all add: one_of_def session_mode_options_def)

lemma optional_text [simp]: "nullable as_text (json_optional JStr x) = Inr x"
  by (rule nullable_inverse) simp_all

lemma request_inverse [simp]: "decode_request (JObj (json_request_members q)) = Inr q"
  by (simp add: decode_request_def REQUEST_FIELDS_def request_members_def json_request_members_def closed_object_def
      member_def member_or_none_def)

lemma requests_inverse [simp]: "as_list decode_request (JArr (map (\<lambda>q. JObj (json_request_members q)) qs)) = Inr qs"
  by (rule as_list_inverse) simp

lemma command_inverse: "decode_command (json_command c) = Inr c"
proof (cases c)
  case (Batch_command children rationale)
  have "map_result decode_request (map (\<lambda>q. JObj (json_request_members q)) children) = Inr children"
    by (rule map_result_inverse) simp
  then show ?thesis
    unfolding Batch_command
    by (simp add: json_command_def decode_command_def command_members_def closed_object_def member_def member_or_none_def)
qed (simp_all add: json_command_def decode_command_def command_members_def closed_object_def member_def
      member_or_none_def request_members_def json_request_members_def REQUEST_FIELDS_def)

lemma distinct_keys_optional [simp]: "distinct_keys (json_optional JStr x)"
  by (cases x) (simp_all add: json_optional_def)

lemma command_distinct: "distinct_keys (json_command c)"
  by (cases c) (simp_all add: json_command_def json_request_members_def list_all_iff)

lemma is_space_ends: "list_all is_space r \<Longrightarrow> ends_number r"
  by (cases r) (auto simp: ends_number_def is_space_def is_digit_def)

lemma stripped_space: "list_all is_space r \<Longrightarrow> stripped r = []"
  by (auto simp: stripped_def list_all_iff dest: set_dropWhileD)

theorem command_text_inverse:
  assumes "list_all is_space lead" "list_all is_space trail" "command_errors c = []"
  shows "parse_supervisor_command (lead @ encode (json_command c) @ trail) = Inr c"
proof -
  obtain m where m: "json_command c = JObj m" by (cases c) (simp_all add: json_command_def)
  obtain rest where rest: "encode (JObj m) = CHR ''{'' # rest" "\<not> is_space (CHR ''{'')"
    using encode_starts [of "JObj m"] by (auto simp: is_space_def)
  have "dropWhile is_space (lead @ encode (JObj m) @ trail) = encode (JObj m) @ trail"
    using assms(1) rest by (simp add: dropWhile_append list_all_iff)
  moreover have "read_json (encode (JObj m) @ trail) = Inr (JObj m, trail)"
    using read_json_encode [OF command_distinct is_space_ends [OF assms(2)]] m by metis
  moreover have "command_of (JObj m) = Inr c"
    using command_inverse [of c] assms(3) by (simp add: command_of_def m)
  ultimately show ?thesis
    using rest(1) stripped_space [OF assms(2)] by (simp add: parse_supervisor_command_def Let_def m)
qed

text \<open>An accepted text holds one object without a key twice, and white space.\<close>

theorem accepted_commands:
  assumes "parse_supervisor_command input = Inr c"
  shows "\<exists>m r. read_json (dropWhile is_space input) = Inr (JObj m, r) \<and> stripped r = [] \<and> distinct_keys (JObj m)
    \<and> decode_command (JObj m) = Inr c \<and> command_errors c = []"
  using assms
  by (auto simp: parse_supervisor_command_def Let_def command_of_def dest: read_json_distinct
      split: if_splits sum.splits json.splits prod.splits)

end
