(* ===== verification/Supervisor_Commands.thy ===== *)
theory Supervisor_Commands
  imports Protocol Batch_Preparation
begin

text \<open>
  \<open>prepare_from_supervisor\<close> of class \<open>SequentialWorkflow\<close> (\<open>src/src/dispatcher/sequential.py\<close>): the answer of the
  supervisor is parsed and routed to the operation it asks for. A rejected command is answered with a
  correction and the turn goes on (\<open>src/src/dispatcher/execution.py\<close>), so a rejection must not leave anything
  behind; the lemmas show that it does not.
\<close>

section \<open>Routing\<close>

datatype supervisor_outcome =
    Worker_ready prepared_worker
  | Batch_ready prepared_batch
  | Completion_evaluated completion_decision
  | Run_left run_record

definition is_workspace_batch_candidate :: "config \<Rightarrow> run_record \<Rightarrow> dispatch_request list \<Rightarrow> bool" where
  "is_workspace_batch_candidate c r children \<longleftrightarrow>
     conc_same_repository_mode (exe_concurrency (pc_execution (cfg_model c))) = Worktree_barrier
     \<and> 2 \<le> length children
     \<and> (case map_result (\<lambda>child. find_plan_step r (req_step_id child)) children of
          Inl _ \<Rightarrow> False
        | Inr steps \<Rightarrow> length (remdups (map ps_repo_id steps)) = 1)"

definition dispatch_outcome_of :: "dispatch_outcome \<Rightarrow> supervisor_outcome" where
  "dispatch_outcome_of x = (case x of Worker_prepared p \<Rightarrow> Worker_ready p | Run_waits r _ \<Rightarrow> Run_left r)"

definition route_command ::
  "'g workflow \<Rightarrow> env \<Rightarrow> int \<Rightarrow> run_record \<Rightarrow> int \<Rightarrow> supervisor_command \<Rightarrow> ('g system, supervisor_outcome) action" where
  "route_command flow e now r g command = (case command of
       Dispatch_command q \<Rightarrow>
         then_do (prepare_worker flow e now r g q no_retry) (\<lambda>x. give (Inr (dispatch_outcome_of x)))
     | Batch_command children _ \<Rightarrow>
         then_do
           (if is_workspace_batch_candidate (wf_config flow) r children
            then prepare_workspace_batch flow e now r g children
            else prepare_batch flow e now r g children None False) (\<lambda>b. give (Inr (Batch_ready b)))
     | Completion_command _ \<Rightarrow>
         then_do (evaluate_completion flow e now r g) (\<lambda>d. give (Inr (Completion_evaluated d)))
     | Ask_operator_command step_id question _ \<Rightarrow>
         then_do (wait_for_operator e now r g step_id question) (\<lambda>(waiting, _). give (Inr (Run_left waiting)))
     | Review_waiver_command step_id rationale \<Rightarrow>
         then_do (request_review_waiver flow e now r g step_id rationale) (\<lambda>(waiting, _). give (Inr (Run_left waiting)))
     | Halt_command reason \<Rightarrow>
         then_do (halt_run e now r g reason) (\<lambda>(halted, _). give (Inr (Run_left halted))))"

definition command_from :: "string \<Rightarrow> exn + supervisor_command" where
  "command_from input = (case parse_supervisor_command input of
       Inl (ProtocolError message) \<Rightarrow> Inl (SupervisorCommandRejectedError message)
     | x \<Rightarrow> x)"

definition prepare_from_supervisor ::
  "'g workflow \<Rightarrow> env \<Rightarrow> int \<Rightarrow> string \<Rightarrow> int \<Rightarrow> string \<Rightarrow> ('g system, supervisor_outcome) action" where
  "prepare_from_supervisor flow e now run_id expected_generation input =
     then_do (give (command_from input)) (\<lambda>command.
     then_do (query (\<lambda>st. load_run st run_id)) (\<lambda>(r, g).
     if g \<noteq> expected_generation then raise_workflow ''run generation changed before supervisor command''
     else route_command flow e now r g command))"

section \<open>Long reasons\<close>

text \<open>
  The protocol takes reasons of up to 10000 characters, an event only 5000: the transition of a longer one
  is no valid event.
\<close>

lemma long_reason_event:
  "5000 < length reason \<Longrightarrow> \<exists>es. make_event e n r actor reason i None = Inl (ValidationError es)"
  by (simp add: make_event_def checked_def transition_event_errors_def length_between_def)

theorem long_halt_fails:
  assumes "5000 < length reason" "length reason \<le> 10000" "load_run (sy_store s) run_id = Inr (r, g)"
  shows "command_errors (Halt_command reason) = []"
    and "\<exists>es. prepare_from_supervisor flow e now run_id g (encode (json_command (Halt_command reason))) s
      = (Inl (ValidationError es), s)"
proof -
  show valid: "command_errors (Halt_command reason) = []" using assms(1,2) by (simp add: length_between_def)
  from command_text_inverse [of "[]" "[]", OF _ _ valid]
  have "parse_supervisor_command (encode (json_command (Halt_command reason))) = Inr (Halt_command reason)" by simp
  moreover obtain es where "make_event e 0 r Actor_supervisor reason ''supervisor-halt'' None = Inl (ValidationError es)"
    using long_reason_event [OF assms(1)] by blast
  ultimately show "\<exists>es. prepare_from_supervisor flow e now run_id g (encode (json_command (Halt_command reason))) s
      = (Inl (ValidationError es), s)"
    using assms(3)
    by (simp add: prepare_from_supervisor_def command_from_def route_command_def halt_run_def move_run_def event_of_def
        then_do_def give_def query_def)
qed

section \<open>Rejections leave nothing behind\<close>

text \<open>\<open>accepts x\<close>: \<open>x\<close> is no rejection. The operations of the store and of the lease table never_rejects raise one.\<close>

definition accepts :: "exn + 'a \<Rightarrow> bool" where
  "accepts x \<longleftrightarrow> (\<forall>e. x = Inl e \<longrightarrow> \<not> is_rejection e)"

named_theorems accepting \<open>operations that never reject\<close>

lemma is_rejection_simps [simp]:
  "\<not> is_rejection (StateStoreError m)" "\<not> is_rejection (StateStoreConflictError m)" "\<not> is_rejection (ValueError m)"
  "\<not> is_rejection (WorkspaceError m)" "\<not> is_rejection (SequentialWorkflowError m)" "\<not> is_rejection (LeaseConflictError m)"
  "\<not> is_rejection (StaleLeaseRecoveryRequired m)" "\<not> is_rejection (TransitionError m)" "\<not> is_rejection (ValidationError es)"
  "is_rejection (SupervisorCommandRejectedError m)" "\<not> is_rejection (transaction_failed m)"
  "\<not> is_rejection (generation_conflict i g f)" "\<not> is_rejection (StateStoreCorruptionError m)"
  by (simp_all add: is_rejection_def transaction_failed_def generation_conflict_def)

lemma accepts_simps [simp]: "accepts (Inr x)" "accepts (Inl e) \<longleftrightarrow> \<not> is_rejection e"
  by (simp_all add: accepts_def)

lemma accepts_bindr [accepting]: "accepts m \<Longrightarrow> (\<And>x. m = Inr x \<Longrightarrow> accepts (f x)) \<Longrightarrow> accepts (bindr m f)"
  by (cases m) (auto simp: accepts_def)

lemma accepts_foldr [accepting]: "(\<And>st x. accepts (f st x)) \<Longrightarrow> accepts (foldr_result f st xs)"
  by (induction xs arbitrary: st) (auto intro: accepting)

lemma accepts_map [accepting]: "(\<And>x. accepts (f x)) \<Longrightarrow> accepts (map_result f xs)"
  by (induction xs) (auto intro!: accepts_bindr)

lemma accepts_checked [accepting]: "accepts (checked errors x)"
  by (simp add: checked_def)

lemma accepts_make_event [accepting]: "accepts (make_event e n r actor reason i k)"
  by (simp add: make_event_def accepting)

lemma accepts_transition [accepting]: "accepts (validate_transition what value source target table)"
  unfolding validate_transition_def raise_if_def by simp

lemma accepts_write_snapshot [accepting]: "accepts (write_snapshot r g sessions st)"
  unfolding write_snapshot_def Let_def
  by (intro accepting) (auto simp: write_run_row_def write_dispatch_row_def Let_def split: option.split)

lemma accepts_save_run [accepting]: "accepts (save_run r g x now st)"
  unfolding save_run_def Let_def
  by (auto simp: write_dispatch_payload_def write_structured_git_final_def Let_def
      split: option.split prod.split intro!: accepting)

lemma accepts_prepare_dispatch [accepting]:
  "accepts (prepare_dispatch r g d prompt policy snapshot metadata sessions now st)"
  unfolding prepare_dispatch_def by (auto intro: accepting)

lemma accepts_prepare_batch [accepting]: "accepts (prepare_dispatch_batch r g payloads now st)"
  unfolding prepare_dispatch_batch_def check_prepared_def Let_def
  by (auto split: option.split intro!: accepting)

lemma accepts_save_group [accepting]: "accepts (save_workspace_group r g wg now st)"
  unfolding save_workspace_group_def Let_def by (auto intro!: accepting)

lemma accepts_complete_run [accepting]: "accepts (complete_run r g i n c path now st)"
  unfolding complete_run_def append_audit_event_def insert_audit_event_def Let_def
  by (auto split: option.split intro!: accepting)

lemma accepts_acquire [accepting]: "accepts (acquire_resource_leases stale_after clock c now keys leases)"
proof -
  have "accepts (acquire_each stale_after clock c now ks leases)" for ks leases
    by (induction ks arbitrary: leases) (auto simp: refusal_def split: option.split intro!: accepting)
  then show ?thesis by (simp add: acquire_resource_leases_def)
qed

text \<open>Actions that leave the store and the leases, whatever their outcome.\<close>

definition unchanged :: "'g system \<Rightarrow> 'g system \<Rightarrow> bool" where
  "unchanged s s' \<longleftrightarrow> sy_store s' = sy_store s \<and> sy_leases s' = sy_leases s"

interpretation quiet: transactional unchanged
  by unfold_locales (auto simp: unchanged_def)

lemma quiet_query: "quiet.keeps (query q)"
  by (rule quiet.keepsI) (auto simp: unchanged_def)

lemma quiet_on_disk: "quiet.keeps (on_disk m)"
  by (rule quiet.keepsI) (auto simp: unchanged_def)

lemma quiet_event_of: "quiet.keeps (event_of e n r actor reason i)"
  by (simp add: event_of_def quiet.keeps_give)

lemma quiet_raise: "quiet.keeps (raise_workflow message)"
  by (simp add: raise_workflow_def quiet.keeps_give)

lemmas quiet_parts = quiet.keeps_rules quiet_query quiet_on_disk quiet_event_of quiet_raise

lemma quiet_as_workflow_error: "quiet.keeps m \<Longrightarrow> quiet.keeps (as_workflow_error m)"
  unfolding as_workflow_error_def by (intro quiet_parts) (auto split: exn.split intro: quiet_parts)

lemma quiet_inspect_registered: "quiet.keeps (inspect_registered flow repo_id require_clean)"
  unfolding inspect_registered_def by (intro quiet_parts quiet_as_workflow_error)

lemma quiet_inspect_child: "quiet.keeps (inspect_child flow repo_id child require_clean)"
  unfolding inspect_child_def by (intro quiet_parts quiet_as_workflow_error)

lemma quiet_pending: "quiet.keeps (pending_changes flow coordinate earlier later worktree scopes require_changes)"
  unfolding pending_changes_def by (intro quiet_parts)

lemma quiet_baseline: "quiet.keeps (repository_baseline flow step kind mode child workdir x)"
  unfolding repository_baseline_def
  by (intro quiet_parts quiet_inspect_registered quiet_inspect_child quiet_pending)

lemma quiet_prepare_child: "quiet.keeps (prepare_child flow e g batch_id wg r child)"
  unfolding prepare_child_def by (intro quiet_parts quiet_inspect_registered quiet_inspect_child)

lemma quiet_prepare_children: "quiet.keeps (prepare_children flow e g batch_id wg r children)"
  by (induction children arbitrary: e r) (auto intro!: quiet_parts quiet_prepare_child)

text \<open>
  \<open>never_rejects m\<close>: \<open>m\<close> raises no rejection; \<open>rejects_cleanly m\<close>: a rejection of \<open>m\<close> leaves store and leases as they were. Once
  something was changed, what follows has to be \<open>never_rejects\<close>.
\<close>

definition never_rejects :: "('s, 'a) action \<Rightarrow> bool" where
  "never_rejects m \<longleftrightarrow> (\<forall>s. accepts (fst (m s)))"

definition rejects_cleanly :: "('g system, 'a) action \<Rightarrow> bool" where
  "rejects_cleanly m \<longleftrightarrow> (\<forall>s. accepts (fst (m s)) \<or> unchanged s (snd (m s)))"

lemma never_give: "accepts r \<Longrightarrow> never_rejects (give r)"
  by (simp add: never_rejects_def give_def)

lemma never_then: "never_rejects m \<Longrightarrow> (\<And>x. never_rejects (f x)) \<Longrightarrow> never_rejects (then_do m f)"
  unfolding never_rejects_def then_do_def by (auto split: prod.split sum.split) (metis accepts_def fst_conv)

lemma never_catching: "(\<And>e. never_rejects (h e)) \<Longrightarrow> never_rejects (catching m h)"
  unfolding never_rejects_def catching_def by (auto split: prod.split sum.split)

lemma never_commit: "(\<And>st. accepts (t st)) \<Longrightarrow> never_rejects (commit t)"
  unfolding never_rejects_def commit_def by (auto split: sum.split) (metis accepts_def)

lemma never_lock: "(\<And>l. accepts (t l)) \<Longrightarrow> never_rejects (lock t)"
  unfolding never_rejects_def lock_def by (auto split: sum.split) (metis accepts_def)

lemma never_release: "never_rejects (release owner keys)"
  by (simp add: never_rejects_def release_def)

lemma never_case_prod: "(\<And>a b. never_rejects (f a b)) \<Longrightarrow> never_rejects (case p of (a, b) \<Rightarrow> f a b)"
  by (cases p) simp

lemma never_saved: "never_rejects (saved now r g)"
  unfolding saved_def by (intro never_then never_commit accepting never_give) simp

lemma never_acquire: "never_rejects (acquire w run_id owner keys now)"
  unfolding acquire_def by (intro never_lock accepting)

lemma clean_never: "never_rejects m \<Longrightarrow> rejects_cleanly m"
  by (simp add: never_rejects_def rejects_cleanly_def)

lemma clean_quiet: "quiet.keeps m \<Longrightarrow> rejects_cleanly m"
  by (simp add: quiet.keeps_def rejects_cleanly_def)

lemma clean_after_quiet:
  assumes "quiet.keeps m" "\<And>x. rejects_cleanly (f x)" shows "rejects_cleanly (then_do m f)"
  unfolding rejects_cleanly_def
proof
  fix s
  obtain o1 s1 where m: "m s = (o1, s1)" by fastforce
  with quiet.keepsD [OF assms(1) m] have same: "unchanged s s1" by simp
  show "accepts (fst (then_do m f s)) \<or> unchanged s (snd (then_do m f s))"
  proof (cases o1)
    case (Inr x)
    from assms(2) [of x, unfolded rejects_cleanly_def, rule_format, of s1] same m Inr show ?thesis
      by (auto simp: then_do_def intro: quiet.rel_trans)
  qed (use same m in \<open>simp add: then_do_def\<close>)
qed

lemma clean_then_never:
  assumes "rejects_cleanly m" "\<And>x. never_rejects (f x)" shows "rejects_cleanly (then_do m f)"
  unfolding rejects_cleanly_def
proof
  fix s
  obtain o1 s1 where m: "m s = (o1, s1)" by fastforce
  with assms(1) [unfolded rejects_cleanly_def, rule_format, of s] assms(2)
  show "accepts (fst (then_do m f s)) \<or> unchanged s (snd (then_do m f s))"
    by (cases o1) (auto simp: then_do_def never_rejects_def)
qed

lemma clean_if: "rejects_cleanly a \<Longrightarrow> rejects_cleanly b \<Longrightarrow> rejects_cleanly (if c then a else b)"
  by simp

lemma clean_case_prod: "(\<And>a b. rejects_cleanly (f a b)) \<Longrightarrow> rejects_cleanly (case p of (a, b) \<Rightarrow> f a b)"
  by (cases p) simp

lemma never_catching_unlock: "never_rejects m \<Longrightarrow> never_rejects (catching m (unlock_and_raise owner keys))"
  unfolding never_rejects_def catching_def unlock_and_raise_def
  by (auto split: prod.split sum.split) (metis accepts_simps(2) fst_conv)

lemma never_catching_unlock_workers: "never_rejects m \<Longrightarrow> never_rejects (catching m (unlock_workers held))"
  unfolding never_rejects_def catching_def unlock_workers_def
  by (auto split: prod.split sum.split) (metis accepts_simps(2) fst_conv)

text \<open>What takes a lease or saves comes first in the part that never rejects.\<close>

lemma clean_acquire: "(\<And>x. never_rejects (f x)) \<Longrightarrow> rejects_cleanly (then_do (acquire w run_id owner keys now) f)"
  by (intro clean_never never_then never_acquire)

lemma clean_saved: "(\<And>x. never_rejects (f x)) \<Longrightarrow> rejects_cleanly (then_do (saved now r g) f)"
  by (intro clean_never never_then never_saved)

lemma clean_complete: "(\<And>x. never_rejects (f x)) \<Longrightarrow> rejects_cleanly (then_do (commit (complete_run r g i n c path now)) f)"
  by (intro clean_never never_then never_commit accepting)

lemmas clean_parts = clean_acquire clean_saved clean_complete clean_after_quiet clean_if clean_case_prod
  clean_quiet [OF quiet.keeps_give] clean_quiet [OF quiet_raise]

lemmas never_parts = never_then never_commit never_case_prod never_catching_unlock never_catching_unlock_workers
  never_saved never_acquire never_release accepting

lemma clean_prepare_admitted: "rejects_cleanly (prepare_admitted flow e now r g command x step kind actions)"
  unfolding prepare_admitted_def Let_def
  by (intro clean_parts quiet_parts quiet_baseline quiet_inspect_child never_parts never_give accepts_simps(1))

lemma clean_prepare_worker: "rejects_cleanly (prepare_worker flow e now r g command x)"
proof -
  have "rejects_cleanly (case admission of
      Gate_requested waiting \<Rightarrow> then_do (saved now waiting g) (\<lambda>(waiting, g). give (Inr (Run_waits waiting g)))
    | Admitted step kind actions \<Rightarrow>
        then_do (prepare_admitted flow e now r g command x step kind actions) (\<lambda>p. give (Inr (Worker_prepared p))))"
    for admission
    by (cases admission)
      (auto intro!: clean_saved clean_then_never clean_prepare_admitted never_case_prod never_give)
  then show ?thesis unfolding prepare_worker_def by (intro clean_after_quiet quiet_query)
qed

lemma never_lease_each: "never_rejects finish \<Longrightarrow> never_rejects (lease_each flow run_id now finish held ps)"
  by (induction ps arbitrary: held) (auto intro!: never_parts never_give)

lemma clean_prepare_batch: "rejects_cleanly (prepare_batch flow e now r g command wg verified)"
proof -
  have tail: "rejects_cleanly (then_do (lease_each flow (r_run_id r) now (commit (prepare_dispatch_batch stored g payloads now)) [] ps)
      (\<lambda>generation. give (Inr (b generation))))" for stored payloads ps b
    by (intro clean_never never_then never_lease_each never_commit accepting never_give) simp
  show ?thesis
    unfolding prepare_batch_def Let_def
    by (intro tail clean_parts quiet_parts quiet_prepare_children)
qed

lemma clean_prepare_workspace: "rejects_cleanly (prepare_workspace c m w e now run_id expected repo_id step_ids)"
proof -
  have fail: "never_rejects (fail_group e n now r g wg i what exc)" for n r g wg i what exc
    unfolding fail_group_def workspace_event_def
    by (intro never_parts never_give) (auto simp: transition_workspace_group_def intro!: accepts_bindr accepts_transition)
  have tail: "never_rejects (then_do (commit (save_workspace_group r g prepared now)) (\<lambda>(r, g). catching (m' r g)
      (\<lambda>exc. then_do (release owner keys) (\<lambda>_. fail_group e 3 now r g wg i what exc))))"
    for r g prepared m' owner keys wg i what
    by (intro never_then never_commit accepting never_case_prod never_catching never_release fail)
  show ?thesis
    unfolding prepare_workspace_def Let_def workspace_event_def
    by (intro clean_never [OF tail] clean_parts quiet_parts)
qed

lemma never_fail_group: "never_rejects (fail_group e n now r g wg i what exc)"
  unfolding fail_group_def workspace_event_def
  by (intro never_parts never_give) (auto simp: transition_workspace_group_def intro!: accepts_bindr accepts_transition)

lemma never_query: "(\<And>st. accepts (q st)) \<Longrightarrow> never_rejects (query q)"
  by (simp add: never_rejects_def query_def)

lemma accepts_load_run: "accepts (load_run st run_id)"
  by (auto simp: load_run_def split: option.split)

lemma never_prod_app: "(\<And>a b. never_rejects (f a b y)) \<Longrightarrow> never_rejects ((case p of (a, b) \<Rightarrow> f a b) y)"
  by (cases p) simp

lemma never_if: "(b \<Longrightarrow> never_rejects m) \<Longrightarrow> (\<not> b \<Longrightarrow> never_rejects m') \<Longrightarrow> never_rejects (if b then m else m')"
  by simp

lemma never_option: "never_rejects m \<Longrightarrow> (\<And>x. never_rejects (f x)) \<Longrightarrow> never_rejects (case y of None \<Rightarrow> m | Some x \<Rightarrow> f x)"
  by (cases y) simp_all

lemma never_cleanup_workspace: "never_rejects (cleanup_workspace c m e n now run_id expected i force)"
  unfolding cleanup_workspace_def workspace_event_def begin_cleanup_def transition_workspace_group_def
  by (intro never_prod_app never_query accepts_load_run never_catching never_fail_group never_option never_if never_parts never_give)
    (auto intro!: accepts_bindr accepts_transition)

lemma never_discard: "never_rejects (discard_group flow e n now r g wg)"
proof -
  have keep: "never_rejects (catching m h)" if "never_rejects m" "\<And>e. \<not> is_rejection e \<Longrightarrow> never_rejects (h e)"
    for m :: "('a system, unit) action" and h
    unfolding never_rejects_def
  proof
    fix s
    obtain o1 s1 where m: "m s = (o1, s1)" by fastforce
    with that(1) [unfolded never_rejects_def, rule_format, of s] that(2) show "accepts (fst (catching m h s))"
      by (cases o1) (auto simp: catching_def never_rejects_def)
  qed
  have "never_rejects (case e of WorkspaceError message \<Rightarrow> h message | _ \<Rightarrow> give (Inl e))"
    if "\<not> is_rejection e" "\<And>message. never_rejects (h message)" for e and h :: "string \<Rightarrow> ('a system, unit) action"
    using that by (cases e) (simp_all add: never_give)
  then show ?thesis
    unfolding discard_group_def catching_workspace_def
    by (intro keep never_then never_cleanup_workspace never_give) (simp_all add: never_give)
qed

lemma clean_catching_raise:
  assumes "rejects_cleanly m" "\<And>e. is_rejection (h e) \<Longrightarrow> is_rejection e"
  shows "rejects_cleanly (catching m (\<lambda>e. give (Inl (h e))))"
  unfolding rejects_cleanly_def
proof
  fix s
  obtain o1 s1 where m: "m s = (o1, s1)" by fastforce
  with assms(1) [unfolded rejects_cleanly_def, rule_format, of s] assms(2)
  show "accepts (fst (catching m (\<lambda>e. give (Inl (h e))) s)) \<or> unchanged s (snd (catching m (\<lambda>e. give (Inl (h e))) s))"
    by (cases o1) (auto simp: catching_def give_def)
qed

lemma is_rejection_failed: "is_rejection (workspace_batch_failed e) \<Longrightarrow> is_rejection e"
  by (cases e) (simp_all add: workspace_batch_failed_def is_rejection_def)

lemma clean_workspace_batch: "rejects_cleanly (prepare_workspace_batch flow e now r g command)"
proof -
  have tail: "never_rejects (catching m (\<lambda>exc. then_do (discard_group flow e' 0 now r g wg) (\<lambda>_. give (Inl (if is_rejection exc
      then SequentialWorkflowError message else workspace_batch_failed exc)))))" for m e' r g wg message
    by (intro never_catching never_then never_discard never_give) (auto dest: is_rejection_failed)
  show ?thesis
    unfolding prepare_workspace_batch_def Let_def
    by (intro clean_after_quiet [OF quiet.keeps_give] clean_then_never clean_catching_raise clean_prepare_workspace
        never_case_prod tail) (erule is_rejection_failed)
qed

lemma clean_saves: "rejects_cleanly (then_do (saved now r g) (\<lambda>(r, g). give (Inr (f r))))"
  by (intro clean_saved never_case_prod never_give) simp

lemma clean_completion: "rejects_cleanly (evaluate_completion flow e now r g)"
  unfolding evaluate_completion_def by (intro clean_parts quiet_parts never_give) simp

theorem rejections_are_clean: "rejects_cleanly (prepare_from_supervisor flow e now run_id g input)"
proof -
  have route: "rejects_cleanly (route_command flow e now r g command)" for r g command
    unfolding route_command_def
  proof (cases command, simp_all only: supervisor_command.case)
    fix q show "rejects_cleanly (then_do (prepare_worker flow e now r g q no_retry) (\<lambda>x. give (Inr (dispatch_outcome_of x))))"
      by (intro clean_then_never clean_prepare_worker never_give) simp
  next
    fix children show "rejects_cleanly (then_do (if is_workspace_batch_candidate (wf_config flow) r children
        then prepare_workspace_batch flow e now r g children else prepare_batch flow e now r g children None False)
        (\<lambda>b. give (Inr (Batch_ready b))))"
      by (intro clean_then_never clean_if clean_workspace_batch clean_prepare_batch never_give) simp
  next
    show "rejects_cleanly (then_do (evaluate_completion flow e now r g) (\<lambda>d. give (Inr (Completion_evaluated d))))"
      by (intro clean_then_never clean_completion never_give) simp
  qed (unfold wait_for_operator_def request_review_waiver_def halt_run_def move_run_def,
      (intro clean_then_never clean_after_quiet quiet_parts never_case_prod never_give clean_never [OF never_saved]; simp)+)
  show ?thesis
    unfolding prepare_from_supervisor_def by (intro clean_parts quiet_parts route)
qed

end
