(* ===== verification/Workflow_Life.thy ===== *)
theory Workflow_Life
  imports Verification_Rework Supervisor_Commands
begin

text \<open>
  The operations of class \<open>SequentialWorkflow\<close> as moves of the system: each is a sequence of transactions of the
  store, so that what every transaction keeps holds after each operation, finished or not, and each operation
  gives back or takes leases of its own owners only.
\<close>

section \<open>Every operation is a sequence of store transactions\<close>

lemma moves_record_proposal: "moves.keeps (commit (record_executor_proposal run_id i proposal now))"
  by (rule moves_commit) (erule step_proposal)

lemma moves_commit_dispatch: "moves.keeps (commit (commit_dispatch_transition r g i target event u x now))"
  by (rule moves_commit) (erule commit_dispatch_transition_step)

lemma moves_forwarded: "moves.keeps (commit (persist_forwarded_dispatch r g i f now))"
  by (rule moves_commit) (metis step_forwarded prod.collapse)

lemma moves_complete_run: "moves.keeps (commit (complete_run r g i n c path now))"
  by (rule moves_commit) (erule step_complete_run)

lemma moves_bind_session: "moves.keeps (commit (bind_dispatch_session r g i session_id event pool key session now))"
  by (rule moves_commit) (erule bind_dispatch_session_step)

lemma moves_prepare: "moves.keeps (commit (prepare_dispatch r g d prompt policy snapshot metadata sessions now))"
  by (rule moves_commit) (erule prepare_dispatch_step)

lemma moves_event_of: "moves.keeps (event_of e n r actor reason i)"
  by (simp add: event_of_def moves_rules)

lemma moves_raise: "moves.keeps (raise_workflow message)"
  by (simp add: raise_workflow_def moves_rules)

lemmas moves_parts = moves_rules moves_record_proposal moves_commit_dispatch moves_forwarded moves_complete_run
  moves_bind_session moves_prepare moves_event_of moves_raise moves_save_group

lemma moves_move_run: "moves.keeps (move_run e n now r g target actor reason i)"
  unfolding move_run_def by (intro moves_parts)

lemma moves_ask: "moves.keeps (ask_operator e n now r g reason i request)"
  unfolding ask_operator_def by (intro moves_parts)

lemma moves_replace_step: "moves.keeps (replace_step e n now r g s')"
  unfolding replace_step_def by (intro moves_parts)

lemma moves_as_workflow_error: "moves.keeps m \<Longrightarrow> moves.keeps (as_workflow_error m)"
  unfolding as_workflow_error_def
  by (intro moves_parts) (auto split: exn.split intro: moves_parts)

lemma moves_inspect_registered: "moves.keeps (inspect_registered flow repo_id require_clean)"
  unfolding inspect_registered_def by (intro moves_parts moves_as_workflow_error)

lemma moves_inspect_child: "moves.keeps (inspect_child flow repo_id child require_clean)"
  unfolding inspect_child_def by (intro moves_parts moves_as_workflow_error)

lemma moves_inspect_dispatch: "moves.keeps (inspect_dispatch_repository flow r d require_clean)"
  unfolding inspect_dispatch_repository_def
  by (intro moves_parts moves_inspect_registered moves_inspect_child)

lemma moves_pending: "moves.keeps (pending_changes flow coordinate earlier later worktree scopes require_changes)"
  unfolding pending_changes_def by (intro moves_parts)

lemmas moves_shared = moves_parts moves_move_run moves_ask moves_replace_step moves_as_workflow_error
  moves_inspect_registered moves_inspect_child moves_inspect_dispatch moves_pending

lemma moves_compile_policy: "moves.keeps (compile_policy_of_run c now r g)"
  unfolding compile_policy_of_run_def
  by (intro moves_shared) (auto split: exn.split intro: moves_shared)

lemma moves_refresh: "moves.keeps (refresh_readiness e now r g)"
  unfolding refresh_readiness_def by (intro moves_shared)

lemma moves_activate: "moves.keeps (activate flow e now run_id g)"
  unfolding activate_def by (intro moves_shared moves_compile_policy moves_refresh)

lemma moves_wait: "moves.keeps (wait_for_operator e now r g step_id question)"
  unfolding wait_for_operator_def by (intro moves_shared)

lemma moves_waiver: "moves.keeps (request_review_waiver flow e now r g step_id rationale)"
  unfolding request_review_waiver_def by (intro moves_shared)

lemma moves_halt: "moves.keeps (halt_run e now r g reason)"
  unfolding halt_run_def by (intro moves_shared)

lemma moves_completion: "moves.keeps (evaluate_completion flow e now r g)"
  unfolding evaluate_completion_def by (intro moves_shared)

lemma moves_baseline: "moves.keeps (repository_baseline flow step kind mode child workdir x)"
  unfolding repository_baseline_def by (intro moves_shared)

lemma moves_prepare_admitted: "moves.keeps (prepare_admitted flow e now r g command x step kind actions)"
  unfolding prepare_admitted_def by (intro moves_shared moves_baseline)

lemma moves_prepare_worker: "moves.keeps (prepare_worker flow e now r g command x)"
  unfolding prepare_worker_def
  by (intro moves_shared) (auto split: admission.split intro: moves_shared moves_prepare_admitted)

lemma moves_prepare_child: "moves.keeps (prepare_child flow e g batch_id wg r child)"
  unfolding prepare_child_def by (intro moves_shared)

lemma moves_prepare_children: "moves.keeps (prepare_children flow e g batch_id wg r children)"
  by (induction children arbitrary: e r) (auto intro!: moves_shared moves_prepare_child)

lemma moves_unlock_workers: "moves.keeps (unlock_workers held exc)"
proof (rule moves.keepsI)
  fix s o' s'
  have "store_moves s (fold (\<lambda>p. unlock (pw_lease_owner_id p) (pw_lease_keys p)) held s)"
    by (induction held arbitrary: s) (auto intro: moves.rel_refl moves.rel_trans moves_unlock)
  moreover assume "unlock_workers held exc s = (o', s')"
  ultimately show "store_moves s s'" by (simp add: unlock_workers_def)
qed

lemma moves_lease_each: "moves.keeps finish \<Longrightarrow> moves.keeps (lease_each flow run_id now finish held ps)"
  by (induction ps arbitrary: held) (auto intro!: moves_shared moves_unlock_workers)

lemma moves_commit_batch: "moves.keeps (commit (prepare_dispatch_batch r g payloads now))"
  by (rule moves_commit) (erule prepare_dispatch_batch_step)

lemma moves_prepare_batch: "moves.keeps (prepare_batch flow e now r g command wg verified)"
  unfolding prepare_batch_def by (intro moves_shared moves_prepare_children moves_lease_each moves_commit_batch)

lemma moves_catching_workspace:
  "moves.keeps m \<Longrightarrow> (\<And>message. moves.keeps (h message)) \<Longrightarrow> moves.keeps (catching_workspace m h)"
  unfolding catching_workspace_def by (intro moves_rules) (auto split: exn.split intro: moves_rules)

lemma moves_workspace_batch: "moves.keeps (prepare_workspace_batch flow e now r g command)"
  unfolding prepare_workspace_batch_def discard_group_def
  by (intro moves_shared moves_prepare_workspace moves_prepare_batch moves_catching_workspace moves_cleanup_workspace)

lemma moves_from_supervisor: "moves.keeps (prepare_from_supervisor flow e now run_id g input)"
proof -
  have "moves.keeps (route_command flow e now r g command)" for r g command
    unfolding route_command_def
    by (cases command) (auto intro!: moves_shared moves_prepare_worker moves_prepare_batch moves_workspace_batch
        moves_completion moves_wait moves_waiver moves_halt)
  then show ?thesis unfolding prepare_from_supervisor_def by (intro moves_shared)
qed

lemma moves_stall_retry: "moves.keeps (prepare_stall_retry flow e now r g p category)"
  unfolding prepare_stall_retry_def
  by (intro moves_shared moves_prepare_worker) (auto split: dispatch_outcome.split intro: moves_shared)

lemma moves_mark_running: "moves.keeps (mark_running flow e now p pid created)"
  unfolding mark_running_def by (intro moves_shared)

lemma moves_record_session: "moves.keeps (record_session_id flow e now p session_id)"
  unfolding record_session_id_def by (intro moves_shared)

lemma moves_apply_proposal: "moves.keeps (apply_executor_proposal flow now p proposal)"
  unfolding apply_executor_proposal_def by (intro moves_shared)

lemma moves_account: "moves.keeps (account_usage flow now r g d usage persist)"
  unfolding account_usage_def by (intro moves_shared)

lemma moves_budget: "moves.keeps (apply_budget_limit flow e n now r g d forwarding)"
  unfolding apply_budget_limit_def by (intro moves_shared)

lemma moves_forward: "moves.keeps (forward_result flow e n now p r g step d completed escalation reason f)"
  unfolding forward_result_def by (intro moves_shared moves_budget)

lemma moves_complete_executor:
  "moves.keeps (complete_executor flow e now p result authoritative usage observed persist)"
  unfolding complete_executor_def by (intro moves_shared moves_account)

lemma moves_apply_executor: "moves.keeps (apply_executor_result flow e now p result authoritative usage observed git)"
  unfolding apply_executor_result_def by (intro moves_shared moves_complete_executor moves_forward)

lemma moves_inspect_reviewer: "moves.keeps (inspect_reviewer_result flow p result)"
  unfolding inspect_reviewer_result_def by (intro moves_shared)

lemma moves_complete_reviewer: "moves.keeps (complete_reviewer flow e now p result authoritative usage)"
  unfolding complete_reviewer_def by (intro moves_shared moves_account moves_inspect_reviewer)

lemma moves_apply_reviewer: "moves.keeps (apply_reviewer_result flow e now p result authoritative usage)"
  unfolding apply_reviewer_result_def by (intro moves_shared moves_complete_reviewer moves_forward)

lemma moves_recover_completed: "moves.keeps (recover_completed_dispatch flow e now run_id i)"
  unfolding recover_completed_dispatch_def by (intro moves_shared)

lemma moves_maybe_integrate: "moves.keeps (maybe_integrate_workspace_group flow e n now r g i)"
  unfolding maybe_integrate_workspace_group_def
  by (intro moves_shared moves_catching_workspace moves_integrate_workspace)

lemma moves_acknowledge: "moves.keeps (acknowledge_forwarding flow e now run_id g i)"
  unfolding acknowledge_forwarding_def by (intro moves_shared moves_maybe_integrate)

lemma moves_recover_interrupted: "moves.keeps (recover_interrupted_dispatch flow e now run_id i reason)"
  unfolding recover_interrupted_dispatch_def by (intro moves_shared)

lemma moves_cluster_failure: "moves.keeps (record_cluster_operation_failure flow e now p reason)"
  unfolding record_cluster_operation_failure_def by (intro moves_shared)

lemma moves_fail_dispatch: "moves.keeps (fail_dispatch flow e now p reason category detail)"
  unfolding fail_dispatch_def by (intro moves_shared)

lemma moves_handle_stall: "moves.keeps (handle_stall flow e now p category reason)"
  unfolding handle_stall_def by (intro moves_shared)

lemma moves_finalize_batch: "moves.keeps (finalize_batch flow e now run_id g batch_id)"
  unfolding finalize_batch_def by (intro moves_shared)

lemma moves_tolerated: "moves.keeps (tolerated_usage flow now r g d usage)"
  unfolding tolerated_usage_def by (intro moves_shared moves_account)

lemma moves_save_rework: "moves.keeps (save_rework now p r g d result authoritative observed)"
  unfolding save_rework_def Let_def by (intro moves_shared moves_commit) (erule step_save_run)

lemma moves_executor_rework:
  "moves.keeps (record_executor_verification_failure flow e now p proposal authoritative usage verified)"
  unfolding record_executor_verification_failure_def Let_def
  by (intro moves_shared moves_tolerated moves_save_rework)

lemma moves_reviewer_rework:
  "moves.keeps (record_reviewer_verification_failure flow e now p result authoritative usage verified)"
  unfolding record_reviewer_verification_failure_def Let_def
  by (intro moves_shared moves_inspect_reviewer moves_tolerated moves_save_rework)

lemma moves_stopping: "moves.keeps m \<Longrightarrow> (\<And>reason. moves.keeps (h reason)) \<Longrightarrow> moves.keeps (stopping m h)"
  unfolding stopping_def by (intro moves_shared) auto

lemma moves_retry_waiting: "moves.keeps (verification_retry_waiting flow e n now r g d reason)"
  unfolding verification_retry_waiting_def Let_def by (intro moves_shared)

lemma moves_durable_retry: "moves.keeps (prepare_durable_verification_retry flow e now r g d feedback payload)"
  unfolding prepare_durable_verification_retry_def
  by (intro moves_shared moves_prepare_worker) (auto split: dispatch_outcome.split intro: moves_shared)

lemma moves_verification_retry: "moves.keeps (prepare_pending_verification_retry flow e now r g)"
  unfolding prepare_pending_verification_retry_def Let_def
  by (intro moves_shared moves_stopping moves_durable_retry moves_retry_waiting)

lemma moves_malformed_review: "moves.keeps (record_reviewer_result_validation_failure flow e now p reason detail)"
  unfolding record_reviewer_result_validation_failure_def Let_def by (intro moves_shared)

lemma moves_verify_review: "moves.keeps (verify_reviewer_result_validation_retry flow r d)"
  unfolding verify_reviewer_result_validation_retry_def by (intro moves_shared)

lemma moves_review_stopped: "moves.keeps (review_retry_stopped flow e now r g d s)"
  unfolding review_retry_stopped_def
  by (cases "stall_on_exhausted (stall_policy_of flow)") (simp_all, (intro moves_shared)+)

lemma moves_review_waiting: "moves.keeps (review_retry_waiting e n now r g d reason)"
  unfolding review_retry_waiting_def by (intro moves_shared)

lemma moves_retry_review: "moves.keeps (retry_malformed_review flow e now r g d)"
  unfolding retry_malformed_review_def
  by (intro moves_shared moves_verify_review moves_review_stopped moves_prepare_worker)
    (auto split: dispatch_outcome.split intro: moves_shared)

lemma moves_review_retry: "moves.keeps (prepare_pending_reviewer_result_validation_retry flow e now r g)"
  unfolding prepare_pending_reviewer_result_validation_retry_def Let_def
  by (intro moves_shared moves_stopping moves_retry_review moves_review_waiting)

section \<open>Steps of the workflow\<close>

text \<open>
  A step is an operation, whatever its outcome. Between the operations another process may commit a
  transaction of its own, take or give back leases, and the machine may change.
\<close>

inductive workflow_step :: "'g workflow \<Rightarrow> 'g system \<Rightarrow> 'g system \<Rightarrow> bool" for flow where
  activates: "activate flow e now run_id g s = (outcome, s') \<Longrightarrow> workflow_step flow s s'"
| waits: "wait_for_operator e now r g step_id question s = (outcome, s') \<Longrightarrow> workflow_step flow s s'"
| asks_waiver: "request_review_waiver flow e now r g step_id rationale s = (outcome, s') \<Longrightarrow> workflow_step flow s s'"
| halts: "halt_run e now r g reason s = (outcome, s') \<Longrightarrow> workflow_step flow s s'"
| completes_run: "evaluate_completion flow e now r g s = (outcome, s') \<Longrightarrow> workflow_step flow s s'"
| prepares: "prepare_worker flow e now r g command x s = (outcome, s') \<Longrightarrow> workflow_step flow s s'"
| answers: "prepare_from_supervisor flow e now run_id g input s = (outcome, s') \<Longrightarrow> workflow_step flow s s'"
| retries_stalled: "prepare_stall_retry flow e now r g p category s = (outcome, s') \<Longrightarrow> workflow_step flow s s'"
| launches: "mark_running flow e now p pid created s = (outcome, s') \<Longrightarrow> workflow_step flow s s'"
| binds_session: "record_session_id flow e now p session_id s = (outcome, s') \<Longrightarrow> workflow_step flow s s'"
| proposes: "apply_executor_proposal flow now p proposal s = (outcome, s') \<Longrightarrow> workflow_step flow s s'"
| applies_executor: "apply_executor_result flow e now p result authoritative usage observed git s = (outcome, s') \<Longrightarrow> workflow_step flow s s'"
| applies_reviewer: "apply_reviewer_result flow e now p review authoritative usage s = (outcome, s') \<Longrightarrow> workflow_step flow s s'"
| recovers_completed: "recover_completed_dispatch flow e now run_id i s = (outcome, s') \<Longrightarrow> workflow_step flow s s'"
| acknowledges: "acknowledge_forwarding flow e now run_id g i s = (outcome, s') \<Longrightarrow> workflow_step flow s s'"
| recovers_interrupted: "recover_interrupted_dispatch flow e now run_id i recovery_reason s = (outcome, s') \<Longrightarrow> workflow_step flow s s'"
| fails_cluster: "record_cluster_operation_failure flow e now p reason s = (outcome, s') \<Longrightarrow> workflow_step flow s s'"
| fails: "fail_dispatch flow e now p reason category detail s = (outcome, s') \<Longrightarrow> workflow_step flow s s'"
| stalls: "handle_stall flow e now p category reason s = (outcome, s') \<Longrightarrow> workflow_step flow s s'"
| fails_checks: "record_executor_verification_failure flow e now p proposal authoritative usage verified s = (outcome, s') \<Longrightarrow> workflow_step flow s s'"
| fails_acceptance: "record_reviewer_verification_failure flow e now p review authoritative usage verified s = (outcome, s') \<Longrightarrow> workflow_step flow s s'"
| reworks: "prepare_pending_verification_retry flow e now r g s = (outcome, s') \<Longrightarrow> workflow_step flow s s'"
| refuses_review: "record_reviewer_result_validation_failure flow e now p reason detail s = (outcome, s') \<Longrightarrow> workflow_step flow s s'"
| reviews_again: "prepare_pending_reviewer_result_validation_retry flow e now r g s = (outcome, s') \<Longrightarrow> workflow_step flow s s'"
| joins_batch: "finalize_batch flow e now run_id g batch_id s = (outcome, s') \<Longrightarrow> workflow_step flow s s'"
| prepares_group: "prepare_workspace (wf_config flow) (wf_machine flow) (wf_world flow) e now run_id g repo_id step_ids s = (outcome, s') \<Longrightarrow> workflow_step flow s s'"
| integrates_group: "integrate_workspace (wf_config flow) (wf_machine flow) e n now run_id g i s = (outcome, s') \<Longrightarrow> workflow_step flow s s'"
| cleans_group: "cleanup_workspace (wf_config flow) (wf_machine flow) e n now run_id g i force s = (outcome, s') \<Longrightarrow> workflow_step flow s s'"
| others_commit: "store_step (sy_store s) st \<Longrightarrow> workflow_step flow s (s\<lparr>sy_store := st\<rparr>)"
| others_lock: "workflow_step flow s (s\<lparr>sy_leases := leases\<rparr>)"
| machine_changes: "workflow_step flow s (s\<lparr>sy_disk := disk\<rparr>)"

abbreviation workflow_steps :: "'g workflow \<Rightarrow> 'g system \<Rightarrow> 'g system \<Rightarrow> bool" where
  "workflow_steps flow \<equiv> (workflow_step flow)\<^sup>*\<^sup>*"

lemmas operations_move = moves_activate moves_wait moves_waiver moves_halt moves_completion moves_prepare_worker moves_from_supervisor moves_stall_retry moves_mark_running moves_record_session moves_apply_proposal moves_apply_executor moves_apply_reviewer moves_recover_completed moves_acknowledge moves_recover_interrupted moves_cluster_failure moves_fail_dispatch moves_handle_stall moves_executor_rework moves_reviewer_rework moves_verification_retry moves_malformed_review moves_review_retry moves_finalize_batch moves_prepare_workspace moves_integrate_workspace moves_cleanup_workspace

theorem workflow_step_moves: "workflow_step flow s s' \<Longrightarrow> store_moves s s'"
  by (induction rule: workflow_step.induct)
    (erule operations_move [THEN moves.keepsD] | (auto simp: store_moves_def))+

lemma workflow_steps_move: "workflow_steps flow s s' \<Longrightarrow> store_moves s s'"
  by (induction rule: rtranclp_induct)
    (auto intro: moves.rel_refl moves.rel_trans dest: workflow_step_moves)

text \<open>What the store keeps over any steps of the workflow.\<close>

theorem workflow_steps_keep:
  assumes "workflow_steps flow s s'" "store_ok (sy_store s)"
  shows "store_ok (sy_store s')" "identities_kept (sy_store s) (sy_store s')"
    and "run_generation (sy_store s) i = Some g \<Longrightarrow> run_generation (sy_store s') i = Some g
      \<Longrightarrow> stored_run (sy_store s') i = stored_run (sy_store s) i"
proof -
  from workflow_steps_move [OF assms(1)] have steps: "store_steps (sy_store s) (sy_store s')"
    by (simp add: store_moves_def)
  show "store_ok (sy_store s')" by (rule store_steps_ok [OF steps assms(2)])
  show "identities_kept (sy_store s) (sy_store s')" by (rule store_steps_identity [OF steps])
  show "run_generation (sy_store s) i = Some g \<Longrightarrow> run_generation (sy_store s') i = Some g
      \<Longrightarrow> stored_run (sy_store s') i = stored_run (sy_store s) i"
    by (rule runs.same_version_same_content [OF steps assms(2)])
qed

section \<open>Every operation touches leases of its own dispatch only\<close>

lemma stay_event_of: "stay.keeps owners (event_of e n r actor reason i)"
  by (simp add: event_of_def stay_rules)

lemma stay_raise: "stay.keeps owners (raise_workflow message)"
  by (simp add: raise_workflow_def stay_rules)

lemmas stay_parts = stay_rules stay_event_of stay_raise

lemma stay_move_run: "stay.keeps owners (move_run e n now r g target actor reason i)"
  unfolding move_run_def by (intro stay_parts)

lemma stay_ask: "stay.keeps owners (ask_operator e n now r g reason i request)"
  unfolding ask_operator_def by (intro stay_parts)

lemma stay_replace_step: "stay.keeps owners (replace_step e n now r g s')"
  unfolding replace_step_def by (intro stay_parts)

lemma stay_as_workflow_error: "stay.keeps owners m \<Longrightarrow> stay.keeps owners (as_workflow_error m)"
  unfolding as_workflow_error_def
  by (intro stay_parts) (auto split: exn.split intro: stay_parts)

lemma stay_inspect_registered: "stay.keeps owners (inspect_registered flow repo_id require_clean)"
  unfolding inspect_registered_def by (intro stay_parts stay_as_workflow_error)

lemma stay_inspect_child: "stay.keeps owners (inspect_child flow repo_id child require_clean)"
  unfolding inspect_child_def by (intro stay_parts stay_as_workflow_error)

lemma stay_inspect_dispatch: "stay.keeps owners (inspect_dispatch_repository flow r d require_clean)"
  unfolding inspect_dispatch_repository_def
  by (intro stay_parts stay_inspect_registered stay_inspect_child)

lemma stay_pending: "stay.keeps owners (pending_changes flow coordinate earlier later worktree scopes require_changes)"
  unfolding pending_changes_def by (intro stay_parts)

lemmas stay_shared = stay_parts stay_move_run stay_ask stay_replace_step stay_as_workflow_error
  stay_inspect_registered stay_inspect_child stay_inspect_dispatch stay_pending

text \<open>The owner of the leases a preparation takes.\<close>

definition new_dispatch_owner :: "'g workflow \<Rightarrow> env \<Rightarrow> string" where
  "new_dispatch_owner flow e = dispatch_lease_owner_id (wf_owner_id flow) (''dispatch-'' @ env_uuid e 0)"

lemma stay_baseline: "stay.keeps owners (repository_baseline flow step kind mode child workdir x)"
  unfolding repository_baseline_def by (intro stay_shared)

lemma stay_prepare_admitted:
  assumes "new_dispatch_owner flow e \<in> owners"
  shows "stay.keeps owners (prepare_admitted flow e now r g command x step kind actions)"
  using assms unfolding prepare_admitted_def Let_def new_dispatch_owner_def
  by (intro stay_shared stay_baseline)

lemma stay_prepare_worker:
  assumes "new_dispatch_owner flow e \<in> owners"
  shows "stay.keeps owners (prepare_worker flow e now r g command x)"
  unfolding prepare_worker_def
  by (intro stay_shared) (auto split: admission.split intro: stay_shared stay_prepare_admitted [OF assms])

lemma stay_account: "stay.keeps owners (account_usage flow now r g d usage persist)"
  unfolding account_usage_def by (intro stay_shared)

lemma stay_budget: "stay.keeps owners (apply_budget_limit flow e n now r g d forwarding)"
  unfolding apply_budget_limit_def by (intro stay_shared)

lemma stay_forward:
  "pw_lease_owner_id p \<in> owners
   \<Longrightarrow> stay.keeps owners (forward_result flow e n now p r g step d completed escalation reason f)"
  unfolding forward_result_def by (intro stay_shared stay_budget)

lemma stay_complete_executor:
  "stay.keeps owners (complete_executor flow e now p result authoritative usage observed persist)"
  unfolding complete_executor_def by (intro stay_shared stay_account)

lemma stay_apply_executor:
  "pw_lease_owner_id p \<in> owners
   \<Longrightarrow> stay.keeps owners (apply_executor_result flow e now p result authoritative usage observed git)"
  unfolding apply_executor_result_def by (intro stay_shared stay_complete_executor stay_forward)

lemma stay_inspect_reviewer: "stay.keeps owners (inspect_reviewer_result flow p result)"
  unfolding inspect_reviewer_result_def by (intro stay_shared)

lemma stay_complete_reviewer: "stay.keeps owners (complete_reviewer flow e now p result authoritative usage)"
  unfolding complete_reviewer_def by (intro stay_shared stay_account stay_inspect_reviewer)

lemma stay_apply_reviewer:
  "pw_lease_owner_id p \<in> owners
   \<Longrightarrow> stay.keeps owners (apply_reviewer_result flow e now p result authoritative usage)"
  unfolding apply_reviewer_result_def by (intro stay_shared stay_complete_reviewer stay_forward)

lemma stay_fail_dispatch:
  "pw_lease_owner_id p \<in> owners \<Longrightarrow> stay.keeps owners (fail_dispatch flow e now p reason category detail)"
  unfolding fail_dispatch_def by (intro stay_shared)

lemma stay_cluster_failure:
  "pw_lease_owner_id p \<in> owners \<Longrightarrow> stay.keeps owners (record_cluster_operation_failure flow e now p reason)"
  unfolding record_cluster_operation_failure_def by (intro stay_shared)

lemma stay_handle_stall:
  "pw_lease_owner_id p \<in> owners \<Longrightarrow> stay.keeps owners (handle_stall flow e now p category reason)"
  unfolding handle_stall_def by (intro stay_shared)

lemma stay_mark_running: "stay.keeps owners (mark_running flow e now p pid created)"
  unfolding mark_running_def by (intro stay_shared)

lemma stay_record_session: "stay.keeps owners (record_session_id flow e now p session_id)"
  unfolding record_session_id_def by (intro stay_shared)

lemma stay_apply_proposal: "stay.keeps owners (apply_executor_proposal flow now p proposal)"
  unfolding apply_executor_proposal_def by (intro stay_shared)

lemma stay_tolerated: "stay.keeps owners (tolerated_usage flow now r g d usage)"
  unfolding tolerated_usage_def by (intro stay_shared stay_account)

lemma stay_save_rework:
  "pw_lease_owner_id p \<in> owners \<Longrightarrow> stay.keeps owners (save_rework now p r g d result authoritative observed)"
  unfolding save_rework_def Let_def by (intro stay_shared)

lemma stay_executor_rework:
  "pw_lease_owner_id p \<in> owners
   \<Longrightarrow> stay.keeps owners (record_executor_verification_failure flow e now p proposal authoritative usage verified)"
  unfolding record_executor_verification_failure_def Let_def
  by (intro stay_shared stay_tolerated stay_save_rework)

lemma stay_reviewer_rework:
  "pw_lease_owner_id p \<in> owners
   \<Longrightarrow> stay.keeps owners (record_reviewer_verification_failure flow e now p result authoritative usage verified)"
  unfolding record_reviewer_verification_failure_def Let_def
  by (intro stay_shared stay_inspect_reviewer stay_tolerated stay_save_rework)

lemma stay_malformed_review:
  "pw_lease_owner_id p \<in> owners
   \<Longrightarrow> stay.keeps owners (record_reviewer_result_validation_failure flow e now p reason detail)"
  unfolding record_reviewer_result_validation_failure_def Let_def by (intro stay_shared)

text \<open>What a worker's own operations do to the leases of everybody else.\<close>

inductive worker_step :: "'g workflow \<Rightarrow> prepared_worker \<Rightarrow> 'g system \<Rightarrow> 'g system \<Rightarrow> bool" for flow p where
  worker_launched: "mark_running flow e now p pid created s = (outcome, s') \<Longrightarrow> worker_step flow p s s'"
| worker_bound: "record_session_id flow e now p session_id s = (outcome, s') \<Longrightarrow> worker_step flow p s s'"
| worker_proposed: "apply_executor_proposal flow now p proposal s = (outcome, s') \<Longrightarrow> worker_step flow p s s'"
| worker_executed:
    "apply_executor_result flow e now p result authoritative usage observed git s = (outcome, s')
     \<Longrightarrow> worker_step flow p s s'"
| worker_reviewed:
    "apply_reviewer_result flow e now p review authoritative usage s = (outcome, s') \<Longrightarrow> worker_step flow p s s'"
| worker_failed: "fail_dispatch flow e now p reason category detail s = (outcome, s') \<Longrightarrow> worker_step flow p s s'"
| worker_cluster_failed: "record_cluster_operation_failure flow e now p reason s = (outcome, s') \<Longrightarrow> worker_step flow p s s'"
| worker_failed_checks:
    "record_executor_verification_failure flow e now p proposal authoritative usage verified s = (outcome, s')
     \<Longrightarrow> worker_step flow p s s'"
| worker_failed_acceptance:
    "record_reviewer_verification_failure flow e now p review authoritative usage verified s = (outcome, s')
     \<Longrightarrow> worker_step flow p s s'"
| worker_malformed:
    "record_reviewer_result_validation_failure flow e now p reason detail s = (outcome, s') \<Longrightarrow> worker_step flow p s s'"
| worker_stalled: "handle_stall flow e now p category reason s = (outcome, s') \<Longrightarrow> worker_step flow p s s'"

lemmas worker_operations_stay = stay_mark_running stay_record_session stay_apply_proposal stay_apply_executor
  stay_apply_reviewer stay_fail_dispatch stay_cluster_failure stay_executor_rework stay_reviewer_rework stay_malformed_review
  stay_handle_stall

theorem worker_step_stays: "worker_step flow p s s' \<Longrightarrow> leases_stay {pw_lease_owner_id p} s s'"
  by (induction rule: worker_step.induct) (erule worker_operations_stay [THEN stay.keepsD, rotated -1], simp?)+

end
