(* ===== verification/Sample_System.thy ===== *)
theory Sample_System
  imports Sample_Store Workflow_Life
begin

text \<open>
  A concrete workflow on a machine without files, whose commands print nothing, and the systems the examples
  start from.
\<close>

section \<open>Machine, workflow and systems\<close>

definition sample_machine :: "unit machine" where
  "sample_machine =
     \<lparr>ma_command = (\<lambda>_ _ _ g. (Inr [], g)), ma_exists = (\<lambda>_ _. False), ma_is_symlink = (\<lambda>_ _. False),
      ma_resolve = (\<lambda>path _. path), ma_make_parents = (\<lambda>_. give (Inr ())), ma_remove_tree = (\<lambda>_. give (Inr ())),
      ma_search_path = None, ma_file_sha256 = (\<lambda>_ _. None), ma_hook_names = (\<lambda>_ _. []), ma_ref_paths = (\<lambda>_ _. []),
      ma_walk = (\<lambda>_ _. []), ma_patch = (\<lambda>_ _. Inr (replicate 64 (CHR ''a'')))\<rparr>"

definition sample_world :: world where
  "sample_world = \<lparr>wo_pid = 10, wo_host = ''host'', wo_stale_after = 30, wo_clock = (\<lambda>_. 0),
     wo_process_gone = (\<lambda>_. True), wo_sources = (\<lambda>_. Inr ())\<rparr>"

definition sample_flow :: "unit workflow" where
  "sample_flow = \<lparr>wf_config = sample_config, wf_owner_id = ''owner'', wf_machine = sample_machine,
     wf_world = sample_world, wf_schema = (\<lambda>_. JObj []), wf_source_path = (\<lambda>s. src_relative_path s),
     wf_float_text = (\<lambda>_. ''0.0''), wf_export_report = (\<lambda>_ _. Inr ''report.md'')\<rparr>"

definition sample_system :: "store \<Rightarrow> lease_table \<Rightarrow> unit system" where
  "sample_system st leases = \<lparr>sy_store = st, sy_leases = leases, sy_disk = ()\<rparr>"

lemma sample_system_simps [simp]:
  "sy_store (sample_system st leases) = st" "sy_leases (sample_system st leases) = leases"
  "(sample_system st leases)\<lparr>sy_store := st'\<rparr> = sample_system st' leases"
  by (simp_all add: sample_system_def)

section \<open>A halted run\<close>

definition sample_halt :: transition_event where
  "sample_halt = \<lparr>te_event_id = ''event-'' @ nat_digits 0, te_sequence = 2, te_actor = Actor_supervisor,
     te_reason = ''stop'', te_correlation_id = ''supervisor-halt'', te_occurred_at = 200\<rparr>"

definition halted_record :: run_record where
  "halted_record = signed (sample_run\<lparr>r_state := Run_halted, r_sequence := 2, r_updated_at := 200\<rparr>)"

lemma sample_halts:
  "make_event sample_env 0 (running_run []) Actor_supervisor ''stop'' ''supervisor-halt'' None = Inr sample_halt"
  "transition_run (running_run []) Run_halted sample_halt None = Inr halted_record"
  "run_record_errors halted_record = []"
proof -
  have "transition_event_errors sample_halt = []" by code_simp
  then show "make_event sample_env 0 (running_run []) Actor_supervisor ''stop'' ''supervisor-halt'' None = Inr sample_halt"
    by (simp add: make_event_def checked_def sample_halt_def sample_env_def running_run_def signed_def sample_run_def)
  have "unsigned_errors (sample_run\<lparr>r_state := Run_halted, r_sequence := 2, r_updated_at := 200\<rparr>) = []"
    by (rule unsigned_errors_state [OF sample_run_unsigned]) (simp_all add: sample_run_def)
  then show valid: "run_record_errors halted_record = []" by (simp add: halted_record_def signed_errors)
  have "(running_run [])\<lparr>r_state := Run_halted, r_sequence := te_sequence sample_halt, r_operator_request := None,
      r_updated_at := te_occurred_at sample_halt\<rparr> = halted_record"
    by (simp add: running_run_def halted_record_def signed_def sample_run_def sample_halt_def)
  moreover have "validate_transition ''run'' run_status_value Run_running Run_halted run_transitions = Inr ()" by code_simp
  ultimately show "transition_run (running_run []) Run_halted sample_halt None = Inr halted_record"
    using valid by (simp add: transition_run_def checked_def)
qed

text \<open>The command text, and the two stores before and after it.\<close>

lemma sample_halted:
  "\<exists>st st'. store_steps empty_store st \<and> load_run st ''run-1'' = Inr (running_run [], 1)
     \<and> prepare_from_supervisor sample_flow sample_env 7 ''run-1'' 1 (encode (json_command (Halt_command ''stop'')))
         (sample_system st []) = (Inr (Run_left halted_record), sample_system st' [])
     \<and> load_run st' ''run-1'' = Inr (halted_record, 2)"
proof -
  obtain st where st: "create_run (running_run []) [] empty_store = Inr (1, st)"
    "st_runs st = [(''run-1'', \<lparr>rr_record = running_run [], rr_generation = 1\<rparr>)]"
    using sample_created by blast
  note loads = sample_created_loads [OF st(1)]
  have halted: "r_run_id halted_record = ''run-1''" "\<not> is_active halted_record" "r_dispatches halted_record = []"
    by (simp_all add: halted_record_def signed_def sample_run_def is_active_def TERMINAL_RUN_STATES_def)
  obtain st' where "write_snapshot halted_record 2 (sessions_for_run st ''run-1'') st = Inr st'"
    using write_snapshot_no_dispatch [of 2 halted_record st] halted by auto
  then have saved: "save_run halted_record 1 no_extras 7 st = Inr (2, st')"
    using st(2) halted by (simp add: save_run_def no_extras_def)
  have command: "command_errors (Halt_command ''stop'') = []" by code_simp
  have "command_from (encode (json_command (Halt_command ''stop''))) = Inr (Halt_command ''stop'')"
    using command_text_inverse [of "[]" "[]", OF _ _ command] by (simp add: command_from_def)
  moreover have "halt_run sample_env 7 (running_run []) 1 ''stop'' (sample_system st [])
      = (Inr (halted_record, 2), sample_system st' [])"
    using saved by (simp add: halt_run_def move_run_def event_of_def sample_halts then_do_def give_def saved_def commit_def)
  ultimately have "prepare_from_supervisor sample_flow sample_env 7 ''run-1'' 1 (encode (json_command (Halt_command ''stop'')))
         (sample_system st []) = (Inr (Run_left halted_record), sample_system st' [])"
    using loads(1) by (simp add: prepare_from_supervisor_def route_command_def then_do_def give_def query_def)
  moreover have "load_run st' ''run-1'' = Inr (halted_record, 2)"
    using save_run_frame(3) [OF saved] halted sample_halts(3) by (simp add: load_run_def)
  ultimately show ?thesis using loads st(1) by blast
qed

section \<open>A worker whose run is unknown\<close>

definition sample_repository_snapshot :: repository_snapshot where
  "sample_repository_snapshot =
     \<lparr>sn_repo_id = ''app'', sn_branch = ''main'', sn_revision = ''abc'', sn_worktree_id = replicate 64 (CHR ''a''),
      sn_remote_name = ''o'', sn_remote_url = ''u'', sn_clean = True, sn_evidence = [], sn_external = [],
      sn_changes = [], sn_ignored = [], sn_dirty_patch_sha256 = replicate 64 (CHR ''a''),
      sn_git_metadata_sha256 = replicate 64 (CHR ''b''), sn_git_refs_sha256 = replicate 64 (CHR ''c''),
      sn_manifest_sha256 = replicate 64 (CHR ''d'')\<rparr>"

definition sample_worker :: prepared_worker where
  "sample_worker =
     \<lparr>pw_run_id = ''run-1'', pw_generation = 1, pw_dispatch = plain_dispatch, pw_prompt = ''go'', pw_workdir = ''/a'',
      pw_permission_config = [], pw_auto_approve = False, pw_lease_keys = [''db'', ''ui''], pw_lease_owner_id = ''w-1'',
      pw_review_target = None, pw_session_mode = Mode_new, pw_session_id = None,
      pw_repository_before = sample_repository_snapshot\<rparr>"

definition held_by :: "string \<Rightarrow> lease" where
  "held_by owner = \<lparr>le_owner_id = owner, le_owner_pid = 10, le_owner_host = ''host'', le_run_id = ''run-1'',
     le_acquired_at = 1, le_heartbeat_at = 1, le_recovery_approved_by = None\<rparr>"

end
