(* ===== verification/Git_Reports.thy ===== *)
theory Git_Reports
  imports Inspections
begin

text \<open>
  What Git prints for \<open>git diff --raw -z --no-renames\<close>, and how the two reports of \<open>_git_changes\<close>
  (\<open>src/src/dispatcher/repository.py\<close>) are read together: the second gives \<open>mode_changed\<close> of the first.
\<close>

section \<open>Words\<close>

lemma words_from_word:
  assumes "list_all (\<lambda>ch. \<not> is_space ch) x" "word @ x \<noteq> []"
  shows "words_from word (x @ CHR '' '' # rest) = (word @ x) # words_from [] rest"
    and "words_from word x = [word @ x]"
  using assms by (induction x arbitrary: word) (auto simp: is_space_def)

section \<open>Raw differences\<close>

text \<open>The two modes, the two object names, the status letter and the path of one difference.\<close>

record raw_difference =
  rd_old_mode :: string
  rd_new_mode :: string
  rd_old_object :: string
  rd_new_object :: string
  rd_status :: string
  rd_path :: string

definition raw_fields :: "raw_difference \<Rightarrow> string list" where
  "raw_fields d =
     ['':'' @ rd_old_mode d @ '' '' @ rd_new_mode d @ '' '' @ rd_old_object d @ '' '' @ rd_new_object d @ '' '' @ rd_status d,
      rd_path d]"

definition raw_word :: "string \<Rightarrow> bool" where
  "raw_word w \<longleftrightarrow> w \<noteq> [] \<and> list_all (\<lambda>ch. \<not> is_space ch) w"

definition raw_ok :: "raw_difference \<Rightarrow> bool" where
  "raw_ok d \<longleftrightarrow> list_all raw_word [rd_old_mode d, rd_new_mode d, rd_old_object d, rd_new_object d, rd_status d]"

definition mode_changes :: "raw_difference list \<Rightarrow> string list" where
  "mode_changes ds = map rd_path (filter (\<lambda>d. rd_old_mode d \<noteq> rd_new_mode d) ds)"

lemma raw_words:
  assumes "raw_ok d"
  shows "words_from [] (tl (raw_fields d ! 0))
    = [rd_old_mode d, rd_new_mode d, rd_old_object d, rd_new_object d, rd_status d]"
  using assms words_from_word(1) [of _ "[]"] words_from_word(2) [of _ "[]"]
  by (simp add: raw_fields_def raw_ok_def raw_word_def)

lemma git_mode_changes_read_back:
  assumes "list_all raw_ok ds"
  shows "git_mode_changes (concat (map raw_fields ds) @ [[]]) = Inr (mode_changes ds)"
  using assms
proof (induction ds)
  case (Cons d ds)
  obtain line where fields: "raw_fields d = [CHR '':'' # line, rd_path d]" by (simp add: raw_fields_def)
  from raw_words [of d] Cons.prems fields
  have words: "words_from [] line = [rd_old_mode d, rd_new_mode d, rd_old_object d, rd_new_object d, rd_status d]" by simp
  from Cons show ?case by (simp add: fields words mode_changes_def)
qed (simp add: mode_changes_def)

text \<open>A deleted file has the new mode \<open>000000\<close>.\<close>

definition deletion_of :: "string \<Rightarrow> string \<Rightarrow> string \<Rightarrow> raw_difference" where
  "deletion_of mode name path =
     \<lparr>rd_old_mode = mode, rd_new_mode = ''000000'', rd_old_object = name, rd_new_object = replicate 40 (CHR ''0''),
      rd_status = ''D'', rd_path = path\<rparr>"

lemma deletion_changes_mode:
  "deletion_of mode name path \<in> set ds \<Longrightarrow> mode \<noteq> ''000000'' \<Longrightarrow> path \<in> set (mode_changes ds)"
  by (force simp: mode_changes_def deletion_of_def)

section \<open>Both reports\<close>

definition deletion_status :: "string \<Rightarrow> status_entry" where
  "deletion_status path = Change_entry '' D'' path"

lemma unsupported_deletion:
  assumes "h \<in> set (sn_changes later)" "ch_mode_changed h" "ch_paths h \<noteq> []"
  shows "\<exists>e. validate_pending_executor_changes c symlink outside coordinate earlier later scopes require_changes = Inl e"
proof (rule ccontr)
  assume "\<not> ?thesis"
  then obtain paths where
    "validate_pending_executor_changes c symlink outside coordinate earlier later scopes require_changes = Inr paths"
    by (cases "validate_pending_executor_changes c symlink outside coordinate earlier later scopes require_changes") auto
  then obtain repository where "pending_changes_ok repository symlink outside scopes earlier later"
    by (rule validate_pending_Inr)
  with assms(1) have "\<forall>p \<in> set (ch_paths h). \<not> ch_mode_changed h" unfolding pending_changes_ok_def by blast
  with assms(2,3) show False by (cases "ch_paths h") auto
qed

lemma deletions_are_rejected:
  assumes entries: "list_all entry_ok entries" "deletion_status path \<in> set entries"
    and raw: "list_all raw_ok ds" "deletion_of mode name path \<in> set ds" "mode \<noteq> ''000000''"
    and modes: "git_mode_changes (concat (map raw_fields ds) @ [[]]) = Inr modes"
    and status: "git_changes modes (concat (map entry_fields entries) @ [[]]) = Inr (sn_changes later, sn_ignored later)"
  shows "\<exists>e. validate_pending_executor_changes c symlink outside coordinate earlier later scopes require_changes = Inl e"
proof -
  from git_mode_changes_read_back [OF raw(1)] modes have modes: "modes = mode_changes ds" by simp
  from git_changes_read_back [OF entries(1), of modes] status
  have "sn_changes later = concat (map (entry_changes modes) entries)" by simp
  moreover have "reported_change modes '' D'' [path] \<in> set (entry_changes modes (deletion_status path))"
    by (simp add: deletion_status_def)
  ultimately have "reported_change modes '' D'' [path] \<in> set (sn_changes later)" using entries(2) by fastforce
  moreover have "ch_mode_changed (reported_change modes '' D'' [path])"
    using deletion_changes_mode [OF raw(2,3)] modes by (simp add: reported_change_def)
  ultimately show ?thesis by (rule unsupported_deletion) (simp add: reported_change_def)
qed

end
