(* ===== verification/Sample_Work.thy ===== *)
theory Sample_Work
  imports Sample_System Git_Reports
begin

text \<open>
  A workspace group with two machines to clean it on, and the results, the review and the prompt of a small
  dispatch.
\<close>

section \<open>A workspace group\<close>

definition sample_group :: workspace_group where
  "sample_group =
     \<lparr>wg_workspace_group_id = ''g-1'', wg_repo_id = ''app'', wg_base_revision = ''abc'', wg_base_branch = ''main'',
      wg_integration_branch = ''wf/g-1/integration'', wg_integration_worktree_path = ''/w/g-1/integration'',
      wg_integration_revision = None, wg_worktree_root = ''/w/g-1'', wg_lease_owner_id = ''workspace-g-1'',
      wg_children = [\<lparr>wc_step_id = ''a'', wc_branch = ''wf/g-1/a'', wc_worktree_path = ''/w/g-1/a'',
        wc_base_revision = ''abc'', wc_head_revision = None\<rparr>],
      wg_state = Group_cleanup_pending, wg_last_event = sample_event\<rparr>"

text \<open>A machine that counts the commands it is given.\<close>

definition counting_machine :: "nat machine" where
  "counting_machine =
     \<lparr>ma_command = (\<lambda>_ _ _ n. (Inr [], n + 1)), ma_exists = (\<lambda>_ _. False), ma_is_symlink = (\<lambda>_ _. False),
      ma_resolve = (\<lambda>path _. path), ma_make_parents = (\<lambda>_. give (Inr ())), ma_remove_tree = (\<lambda>_. give (Inr ())),
      ma_search_path = None, ma_file_sha256 = (\<lambda>_ _. None), ma_hook_names = (\<lambda>_ _. []), ma_ref_paths = (\<lambda>_ _. []),
      ma_walk = (\<lambda>_ _. []), ma_patch = (\<lambda>_ _. Inr [])\<rparr>"

text \<open>A machine whose branches are gone: \<open>git branch\<close> finds nothing to delete.\<close>

definition branchless_machine :: "unit machine" where
  "branchless_machine = sample_machine\<lparr>ma_command := (\<lambda>_ _ argv g.
     if ''branch'' \<in> set argv then (Inl \<lparr>cf_text = ''exit 1'', cf_detail = ''not found''\<rparr>, g) else (Inr [], g))\<rparr>"

section \<open>Results\<close>

definition sample_coordinate :: result_coordinate where
  "sample_coordinate = \<lparr>rcd_repo_id = ''app'', rcd_base_revision = ''abc'', rcd_result_revision = Some ''abc'',
     rcd_patch_sha256 = None\<rparr>"

definition blocked_result :: executor_result where
  "blocked_result = \<lparr>er_dispatch_id = ''d-1'', er_attempt = 1, er_step_id = ''a'', er_repository = sample_coordinate,
     er_evidence = [], er_verification = [\<lparr>vr_check_id = ''c1'', vr_status = Check_skipped, vr_summary = ''s''\<rparr>],
     er_summary = ''no access'', er_transcript_ref = None, er_outcome = Outcome_blocked [''no access'']\<rparr>"

definition sample_target :: review_target where
  "sample_target = \<lparr>rt_executor_dispatch_id = ''d-1'', rt_executor_attempt = 1, rt_result_revision = Some ''abc'',
     rt_patch_sha256 = None, rt_artifact_hashes = []\<rparr>"

definition sample_verdict :: reviewer_result where
  "sample_verdict = \<lparr>rr_dispatch_id = ''d-2'', rr_attempt = 1, rr_step_id = ''a'', rr_repo_id = ''app'',
     rr_review_target = sample_target, rr_findings = [],
     rr_verification = [\<lparr>vr_check_id = ''c1'', vr_status = Check_passed, vr_summary = ''s''\<rparr>],
     rr_required_remediation = [], rr_summary = ''fine'', rr_transcript_ref = None, rr_verdict = Verdict_accepted\<rparr>"

definition sample_prompt :: prompt_context where
  "sample_prompt = \<lparr>px_dispatch_id = ''d-1'', px_attempt = 1, px_role_kind = Worker_executor, px_step = step_a,
     px_task = ''go'', px_sources = [], px_repository = di_repository (d_intent plain_dispatch),
     px_evidence_roots = [''docs''], px_review_target = None, px_review_verification = None,
     px_authorized_actions = [''inspect''], px_mcp_tools = [], px_feedback = []\<rparr>"

end
