(* ===== verification/Further_Facts.thy ===== *)
theory Further_Facts
  imports Sample_Compilation Sample_Work
begin

text \<open>
  Further facts about single components, with examples: readiness, recovery, redaction, leases, digests, the
  cycle check, permission layers, the usage ledger and the templates of a prompt.
\<close>

text \<open>
  A dispatch record that transitions lead to from a prepared one keeps its identity, its intent and its
  attempt, and holds the evidence of its state: a process creation time once it has run, a session and a
  result digest once it is completed, a forwarding digest once it is forwarded.
\<close>

theorem dispatch_records_carry_evidence:
  assumes "dispatch_evolves\<^sup>*\<^sup>* d d'" "d_state d = Dispatch_prepared"
  shows "d_dispatch_id d' = d_dispatch_id d \<and> d_intent d' = d_intent d \<and> d_attempt d' = d_attempt d
    \<and> dispatch_evidence d'"
proof -
  have "dispatch_evidence d" using assms(2) by (simp add: dispatch_evidence_def has_result_def)
  with assms(1) show ?thesis using dispatch_evolves_evidence dispatch_evolves_identity by blast
qed

definition sample_started :: dispatch_update where
  "sample_started = no_update\<lparr>du_process_create_time := Some 7\<rparr>"

lemma dispatch_records_carry_evidence_witness:
  "\<exists>d'. transition_dispatch sample_dispatch Dispatch_running sample_event sample_started = Inr d' \<and> dispatch_evidence d'"
proof -
  define d' where "d' = updated_dispatch sample_dispatch Dispatch_running sample_event sample_started"
  have "dispatch_record_errors (updated_dispatch sample_dispatch Dispatch_running sample_event sample_started) = []"
    by code_simp
  then have t: "transition_dispatch sample_dispatch Dispatch_running sample_event sample_started = Inr d'"
    unfolding transition_dispatch_Inr
    by (simp add: d'_def dispatch.step_def sample_dispatch_def sample_started_def)
  then have "dispatch_evolves\<^sup>*\<^sup>* sample_dispatch d'" by (blast intro: evolve_dispatch)
  moreover have "d_state sample_dispatch = Dispatch_prepared" by (simp add: sample_dispatch_def)
  ultimately have "dispatch_evidence d'" using dispatch_records_carry_evidence by blast
  with t show ?thesis by blast
qed

text \<open>
  One pass of \<open>refresh_readiness\<close> moves to \<open>READY\<close> exactly the pending steps whose gate is resolved and
  whose dependencies and producers are finished in the record it started from; every other step is untouched.
\<close>

theorem refresh_is_exact:
  assumes "refresh_readiness_record e r = Inr out" "accepted_plan (r_plan r)" "step \<in> set (np_steps (r_plan r))"
  shows "\<exists>s s'. dget (r_steps r) (ps_step_id step) = Some s
    \<and> dget (case out of None \<Rightarrow> r_steps r | Some r' \<Rightarrow> r_steps r') (ps_step_id step) = Some s'
    \<and> (if s_state s = Step_pending \<and> s_operator_gate_resolved s \<and> satisfied (r_steps r) step
       then s_state s' = Step_ready else s' = s)"
  using refresh_readiness_record_Inr [OF assms(1) accepted_plan_parts(1) [OF assms(2)] assms(3)]
  unfolding refreshed_to_def becomes_ready_def by (metis transition_step_state)

definition unblocked_run :: run_record where
  "unblocked_run = sample_run\<lparr>r_steps := dset ''a'' (sample_step_record step_a Step_accepted) (r_steps sample_run)\<rparr>"

lemma refresh_is_exact_witness:
  "\<exists>out s'. refresh_readiness_record sample_env unblocked_run = Inr out
    \<and> dget (case out of None \<Rightarrow> r_steps unblocked_run | Some r' \<Rightarrow> r_steps r') ''b'' = Some s' \<and> s_state s' = Step_ready"
proof -
  have "case refresh_readiness_record sample_env unblocked_run of Inr out \<Rightarrow> True | Inl _ \<Rightarrow> False" by code_simp
  then obtain out where out: "refresh_readiness_record sample_env unblocked_run = Inr out" by (auto split: sum.splits)
  have plan: "r_plan unblocked_run = sample_plan" by (simp add: unblocked_run_def sample_run_def)
  have accepted: "accepted_plan (r_plan unblocked_run)"
    using sample_plan_accepted by (simp add: plan accepted_plan_def)
  have b: "step_b \<in> set (np_steps (r_plan unblocked_run))" by (simp add: plan sample_plan_def)
  have s: "dget (r_steps unblocked_run) ''b'' = Some (sample_step_record step_b Step_pending)" "ps_step_id step_b = ''b''"
    "s_state (sample_step_record step_b Step_pending) = Step_pending"
    "s_operator_gate_resolved (sample_step_record step_b Step_pending)" by code_simp+
  have "satisfied (r_steps unblocked_run) step_b"
    by (simp add: satisfied_def finished_def is_done_def unblocked_run_def sample_run_def step_b_def
        sample_step_def sample_step_record_def)
  with refresh_is_exact [OF out accepted b] s out show ?thesis by auto
qed

text \<open>
  A dispatch row, once written, stays in the store, and its step, attempt, idempotency key, prompt and
  policy digests, repository and base revision never change, whatever operations follow.
\<close>

theorem dispatch_identities_are_durable:
  assumes "store_steps st st'" "dget (st_dispatches st) (run_id, i) = Some row"
  shows "\<exists>row'. dget (st_dispatches st') (run_id, i) = Some row'
    \<and> dispatch_identity row' = dispatch_identity row"
  using store_steps_identity [OF assms(1)] assms(2) unfolding identities_kept_def by blast

lemma dispatch_identities_are_durable_witness:
  "\<exists>st st' row row'. store_steps st st' \<and> dget (st_git st) (''run-1'', ''d-1'') \<noteq> dget (st_git st') (''run-1'', ''d-1'')
     \<and> dget (st_dispatches st) (''run-1'', ''d-1'') = Some row
     \<and> dget (st_dispatches st') (''run-1'', ''d-1'') = Some row' \<and> dispatch_identity row' = dispatch_identity row"
proof -
  obtain st st' git row where moved: "record_executor_proposal ''run-1'' ''d-1'' [] 8 st = Inr (git, st')"
    "dget (st_git st') (''run-1'', ''d-1'') = Some git" "dget (st_git st) (''run-1'', ''d-1'') = None"
    and row: "dget (st_dispatches st) (''run-1'', ''d-1'') = Some row"
    using sample_proposal by blast
  from step_proposal [OF moved(1)] have steps: "store_steps st st'" by simp
  obtain row' where "dget (st_dispatches st') (''run-1'', ''d-1'') = Some row'"
    "dispatch_identity row' = dispatch_identity row"
    using dispatch_identities_are_durable [OF steps row] by blast
  with steps row moved(2,3) show ?thesis by (metis option.distinct(1))
qed

text \<open>
  Recovery lists exactly the active dispatches of a stored run, in the order of their identifiers, and
  never says that one may be retried: a completed dispatch must be forwarded, a forwarded one acknowledged, a
  running one with a staged commit may have that commit adopted, and everything else needs an operator.
\<close>

theorem recovery_never_retries:
  assumes "classify_recovery st run_id = Inr items"
  shows "\<exists>r g. load_run st run_id = Inr (r, g)
    \<and> map ri_dispatch_id items =
        map d_dispatch_id (filter (\<lambda>d. d_state d \<in> set ACTIVE_DISPATCH_STATES) (sort_key d_dispatch_id (map snd (r_dispatches r))))
    \<and> (\<forall>item \<in> set items. ri_disposition item =
         (if ri_state item = Dispatch_completed then Forwarding_required
          else if ri_state item = Dispatch_forwarded then Acknowledgement_required
          else if ri_state item = Dispatch_running
               \<and> map_option gr_state (dget (st_git st) (run_id, ri_dispatch_id item)) = Some Git_staged
            then Structured_commit_adoption_required
          else Operator_reconciliation_required))"
proof -
  obtain r g where r: "load_run st run_id = Inr (r, g)"
    "items = concat (map (recovery_items st run_id) (sort_key d_dispatch_id (map snd (r_dispatches r))))"
    using assms by (rule classify_recovery_Inr)
  have "ri_disposition item =
         (if ri_state item = Dispatch_completed then Forwarding_required
          else if ri_state item = Dispatch_forwarded then Acknowledgement_required
          else if ri_state item = Dispatch_running
               \<and> map_option gr_state (dget (st_git st) (run_id, ri_dispatch_id item)) = Some Git_staged
            then Structured_commit_adoption_required
          else Operator_reconciliation_required)" if "item \<in> set items" for item
    using that r(2) by (auto simp: recovery_items_iff dest!: dispatch_disposition_cases)
  with r show ?thesis using map_ri_dispatch_id by blast
qed

lemma recovery_never_retries_witness:
  "\<exists>st items. classify_recovery st ''run-1'' = Inr items \<and> map ri_disposition items = [Operator_reconciliation_required]"
proof -
  obtain st items where items: "classify_recovery st ''run-1'' = Inr items" "map ri_state items = [Dispatch_prepared]"
    using sample_recovery by metis
  from recovery_never_retries [OF items(1)] items(2) have "map ri_disposition items = [Operator_reconciliation_required]"
    by (auto simp: map_eq_Cons_conv)
  with items(1) show ?thesis by (intro exI [of _ st] exI [of _ items]) simp
qed

text \<open>
  An acquisition succeeds exactly when it names a resource and every resource it names is free, already
  its own, or stale with an operator's approval; then the owner holds all of them and no other holder changes.
\<close>

theorem acquisition_is_all_or_nothing:
  "(\<exists>held table'. acquire_resource_leases stale_after clock c now keys table = Inr (held, table')
      \<and> (\<forall>k. holder table' k = (if k \<in> set keys then Some (cl_owner_id c) else holder table k)))
     \<longleftrightarrow> keys \<noteq> [] \<and> list_all (grantable stale_after clock c table) keys"
proof -
  have "list_all (grantable stale_after clock c table) (resource_keys_of keys) = list_all (grantable stale_after clock c table) keys"
    by (simp add: list_all_iff)
  with acquire_each_Inr_iff [OF distinct_resource_keys_of, of stale_after clock c now keys table]
  have "(\<exists>held table'. acquire_resource_leases stale_after clock c now keys table = Inr (held, table'))
     \<longleftrightarrow> keys \<noteq> [] \<and> list_all (grantable stale_after clock c table) keys"
    by (auto simp: acquire_Inr)
  then show ?thesis using acquire_holder by blast
qed

text \<open>
  Redacting a mapping replaces every value under a secret key, at any depth, and its outcome does not
  depend on those values: whatever a caller puts under the secret keys, the stored text is the same.
\<close>

theorem mapping_redaction_is_complete:
  "hidden_secrets (redact_value j) \<and> redact_value (with_secrets f j) = redact_value j"
  using hidden_redact redact_with_secrets by blast

text \<open>
  Redaction of a text that assigns a plain secret to a secret word: after "=" the whole secret is
  replaced. After ":" it is replaced when it holds no "="; a secret with "=" in it, such as padded base 64,
  is kept up to its first "=".
\<close>

theorem assignment_redaction:
  assumes "w \<in> set secret_words" "plain_secret s"
  shows "redact_text (w @ ''='' @ s) = w @ ''='' @ redacted
    \<and> redact_text (w @ '':'' @ s) =
       (if CHR ''='' \<in> set s then w @ '':'' @ takeWhile (\<lambda>c. c \<noteq> CHR ''='') s @ ''='' @ redacted
        else w @ '':'' @ redacted)"
  using redact_plain_assignment [OF assms] by blast

lemma assignment_redaction_witness:
  "redact_text ''password=c2VjcmV0=='' = ''password=[REDACTED]''
   \<and> redact_text ''password:c2VjcmV0=='' = ''password:c2VjcmV0=[REDACTED]''"
proof -
  have "''password'' \<in> set secret_words" "plain_secret ''c2VjcmV0==''" by code_simp+
  from assignment_redaction [OF this] show ?thesis by (simp add: redacted_def)
qed

text \<open>
  The only way a dispatch becomes acknowledged is running, completed, forwarded, acknowledged, in this order.
\<close>

theorem acknowledged_dispatches_ran:
  "dispatch.history Dispatch_prepared states \<and> last (Dispatch_prepared # states) = Dispatch_acknowledged \<longleftrightarrow>
     states = [Dispatch_running, Dispatch_completed, Dispatch_forwarded, Dispatch_acknowledged]"
  using acknowledged_history by (auto simp: dispatch.step_def)

text \<open>
  On a step map whose dependencies are all steps of the map, the recursive cycle check raises nothing
  exactly when the dependency relation has no cycle; in particular the search always ends.
\<close>

theorem cycle_check_decides:
  assumes "closed_map m"
  shows "(\<exists>visited. validate_no_cycles m = Inr visited) \<longleftrightarrow> acyclic (dep_rel m)"
  using assms by (rule no_cycles_iff)

definition looped_steps :: step_map where
  "looped_steps = [(''a'', sample_step 1 ''a'' ''app'' [''b''] ''db'' ''lib/''), (''b'', sample_step 2 ''b'' ''app'' [''a''] ''db'' ''lib/'')]"

lemma cycle_check_decides_witness: "\<not> acyclic (dep_rel looped_steps)"
proof -
  have closed: "closed_map looped_steps"
    by (simp add: closed_map_def looped_steps_def sample_step_def)
  have "case validate_no_cycles looped_steps of Inl _ \<Rightarrow> True | Inr _ \<Rightarrow> False" by code_simp
  with cycle_check_decides [OF closed] show ?thesis by (auto split: sum.splits)
qed

text \<open>
  The canonical JSON text of a value determines the value up to the order of object members, so two
  values with the same digest are equal up to that order unless their texts collide under SHA-256.
\<close>

theorem digests_bind_values:
  "digest_json j = digest_json k \<longleftrightarrow> canon j = canon k \<or> sha_collision (dumps j) (dumps k)"
  by (rule digest_json_cases)

text \<open>
  Compiling the run policy of an accepted plan gives exactly one obligation per step of the plan, and
  each of them is what compiling that step gives.
\<close>

theorem run_policies_cover_the_plan:
  assumes "compile_run_policy c plan = Inr p" "normalized_plan_errors plan = []"
  shows "set (dkeys (pol_review_obligations p)) = set (map ps_step_id (np_steps plan))
    \<and> (\<forall>step \<in> set (np_steps plan). \<exists>ob. dget (pol_review_obligations p) (ps_step_id step) = Some ob
         \<and> compile_review_obligation c step = Inr ob)"
proof -
  have "distinct (map ps_step_id (np_steps plan))"
    using accepted_plan_parts(1) assms(2) by (simp add: accepted_plan_def)
  from compile_run_policy_covers [OF assms(1) this] show ?thesis by blast
qed

lemma run_policies_cover_the_plan_witness:
  "\<exists>p. compile_run_policy sample_config (sample_plan\<lparr>np_steps := [step_a]\<rparr>) = Inr p
     \<and> set (dkeys (pol_review_obligations p)) = {''a''}"
proof -
  obtain p where p: "compile_run_policy sample_config (sample_plan\<lparr>np_steps := [step_a]\<rparr>) = Inr p"
    using sample_run_policy_compiles by blast
  have "normalized_plan_errors (sample_plan\<lparr>np_steps := [step_a]\<rparr>) = []" by code_simp
  from run_policies_cover_the_plan [OF p this] p show ?thesis by (simp add: step_a_def sample_step_def)
qed

text \<open>
  Merging the layers gives every configured action the decision of its last layer, or denies it when
  the dispatch does not authorise it, on every tool rule of the action; the default is that of the last layer.
\<close>

theorem later_layers_decide:
  assumes "compile_policy_layers layers authorized = Inr rules" "dget (layer_decisions layers) a = Some d"
  shows "decides rules a (if action_name a \<in> set authorized then d else Deny)
    \<and> dget rules ''*'' = Some (Decision (pp_default (last layers)))
    \<and> set authorized \<subseteq> set (map action_name PERMISSION_ACTIONS)"
  using compile_policy_layers_decides(2,4) [OF assms(1)] compile_policy_layers_decides(5) [OF assms]
  by (cases "action_name a \<in> set authorized") (simp_all add: effective_def)

lemma later_layers_decide_witness:
  "\<exists>rules. compile_policy_layers [sample_policy, sample_policy\<lparr>pp_actions := [(Modify, Ask)]\<rparr>] [''modify''] = Inr rules
    \<and> decides rules Modify Ask"
proof -
  let ?layers = "[sample_policy, sample_policy\<lparr>pp_actions := [(Modify, Ask)]\<rparr>]"
  have "case compile_policy_layers ?layers [''modify''] of Inr rules \<Rightarrow> True | Inl _ \<Rightarrow> False" by code_simp
  then obtain rules where rules: "compile_policy_layers ?layers [''modify''] = Inr rules" by (auto split: sum.splits)
  have "dget (layer_decisions ?layers) Modify = Some Ask" by code_simp
  from later_layers_decide [OF rules this] rules show ?thesis by auto
qed

text \<open>
  Recording usage keeps the ledger balanced: the amounts by step, by role and by session each add up
  to the amount of the run.
\<close>

theorem usage_stays_balanced:
  assumes "record_usage c r d journal journaled usage = Inr r'" "ledger_balanced (r_usage r)"
  shows "ledger_balanced (r_usage r')"
  using assms by (rule record_usage_balanced)

definition sample_amount :: usage_amount where
  "sample_amount = \<lparr>ua_cost_usd = 1, ua_tokens_total = 10, ua_tokens_input = 6, ua_tokens_output = 4,
     ua_tokens_reasoning = 0\<rparr>"

lemma usage_stays_balanced_witness:
  "\<exists>r'. record_usage sample_config sample_run sample_dispatch Journal_none None (Some sample_amount) = Inr r'
     \<and> ua_cost_usd (ul_run (r_usage r')) = 1 \<and> ledger_balanced (r_usage r')"
proof -
  let ?r = "sample_run\<lparr>r_usage := ledger_with (r_usage sample_run) sample_dispatch sample_amount\<rparr>"
  have r: "record_usage sample_config sample_run sample_dispatch Journal_none None (Some sample_amount) = Inr ?r"
    by (simp add: record_usage_def)
  have "ledger_balanced (r_usage sample_run)" by (simp add: sample_run_def empty_ledger_balanced)
  from usage_stays_balanced [OF r this] r show ?thesis
    by (simp add: ledger_with_def add_usage_def sample_run_def empty_ledger_def zero_usage_def sample_amount_def)
qed

text \<open>
  The example answers in an executor's prompt are answers the dispatcher accepts: both templates of a
  prompt for a valid step and dispatch are read as proposals of exactly that dispatch, with full criterion
  coverage.
\<close>

theorem templates_are_accepted:
  assumes "px_role_kind x = Worker_executor" "plan_step_errors (px_step x) = []" "dispatch_record_errors d = []"
    and "d_dispatch_id d = px_dispatch_id x" "d_attempt d = px_attempt x" "d_step_id d = ps_step_id (px_step x)"
    and "rc_repo_id (di_repository (d_intent d)) = ps_repo_id (px_step x)"
    and "rc_base_revision (di_repository (d_intent d)) = rc_base_revision (px_repository x)"
  shows "\<exists>p. parse_executor_proposal_json (JObj (response_template_of x requires_attention)) = Inr p
    \<and> validate_executor_proposal (px_step x) p d = Inr ()"
  using template_decodes_proposal [OF assms(1), of requires_attention]
    template_proposal_valid [OF assms(2-5,8), of requires_attention]
    template_proposal_matches [OF assms(4-8), of requires_attention]
  by (simp add: parse_executor_proposal_json_def parsed_as_def parse_executor_proposal_def parse_with_def)

lemma templates_are_accepted_witness:
  "\<exists>p. parse_executor_proposal_json (JObj (response_template_of sample_prompt False)) = Inr p
    \<and> validate_executor_proposal step_a p plain_dispatch = Inr ()"
proof -
  have same: "px_step sample_prompt = step_a" by (simp add: sample_prompt_def)
  have "dispatch_record_errors plain_dispatch = []" unfolding plain_dispatch_fields by code_simp
  moreover have "plan_step_errors step_a = []" by code_simp
  ultimately show ?thesis
    unfolding same [symmetric]
    by (intro templates_are_accepted)
      (simp_all add: same sample_prompt_def plain_dispatch_fields step_a_def sample_step_def)
qed

end
