(* ===== verification/Rework_Facts.thy ===== *)
theory Rework_Facts
  imports Verification_Rework Launch_Check
begin

text \<open>
  What a recorded verification failure leaves: the failed dispatch, the step with one more round and, only
  below the configured bounds, ready for the next one.
\<close>

lemma moved_step:
  assumes "transition_step s target event None None None = Inr t"
  shows "s_state t = target \<and> s_rework_rounds t = s_rework_rounds s \<and> s_executor_attempts t = s_executor_attempts s"
  using assms by (simp only: transition_step_Inr) simp

lemma then_step_moved:
  "then_step e n r d s target reason = Inr t
   \<Longrightarrow> s_state t = target \<and> s_rework_rounds t = s_rework_rounds s \<and> s_executor_attempts t = s_executor_attempts s"
  by (auto simp only: then_step_def bindr_Inr_iff dest: moved_step)

lemma executor_rework_outcome:
  assumes "executor_rework c e n r step s d usage_failed = Inr t"
  shows "s_rework_rounds t = s_rework_rounds s + 1
    \<and> (s_state t \<in> {Step_blocked, Step_failed}
       \<or> s_state t = Step_ready \<and> \<not> usage_failed \<and> supports_rework d \<and> rework_rounds_left c step t)"
proof -
  from assms obtain event blocked where blocked: "transition_step s Step_blocked event None None None = Inr blocked"
    and t: "(let b = blocked\<lparr>s_rework_rounds := s_rework_rounds s + 1\<rparr> in
      if usage_failed then Inr b
      else if supports_rework d \<and> rework_rounds_left c step b then
        then_step e (n + 1) r d b Step_ready ''verification rework is ready''
      else if supports_rework d \<and> rt_on_changes_requested (ps_retry step) = On_escalate then Inr b
      else if supports_rework d then
        then_step e (n + 1) r d b Step_failed ''verification rework policy halted the step''
      else Inr b) = Inr t"
    unfolding executor_rework_def bindr_Inr_iff by blast
  from t moved_step [OF blocked] show ?thesis
    unfolding Let_def by (auto simp: rework_rounds_left_def dest: then_step_moved split: if_splits)
qed

lemma step_replacement_Inr:
  assumes "step_replacement_record e n r t = Inr r'"
  shows "dget (r_steps r') (s_step_id t) = Some t" "r_dispatches r' = r_dispatches r" "r_run_id r' = r_run_id r"
  using assms
  by (auto simp: step_replacement_record_def Let_def bindr_Inr_iff transition_run_Inr dget_dset split: if_splits)

lemma wait_with_Inr:
  assumes "wait_with r event q = Inr r'"
  shows "r_steps r' = r_steps r" "r_dispatches r' = r_dispatches r" "r_run_id r' = r_run_id r"
  using assms by (auto simp: wait_with_def bindr_Inr_iff transition_run_Inr)

lemma rework_waiting_Inr:
  assumes "rework_waiting_record c e n r step d usage_error = Inr r'"
  shows "r_steps r' = r_steps r \<and> r_dispatches r' = r_dispatches r \<and> r_run_id r' = r_run_id r"
  using assms
  by (auto simp: rework_waiting_record_def usage_waiting_record_def unsupported_waiting_record_def
      escalation_waiting_record_def Let_def bindr_Inr_iff dest: wait_with_Inr split: if_splits option.splits)

lemma failed_record_Inr:
  assumes "failed_record e n r d reason category detail = Inr r'"
  shows "r_steps r' = r_steps r" "r_run_id r' = r_run_id r"
    and "\<exists>failed. r_dispatches r' = dset (d_dispatch_id d) failed (r_dispatches r) \<and> d_state failed = Dispatch_failed
      \<and> d_failure_category failed = Some category \<and> d_dispatch_id failed = d_dispatch_id d
      \<and> d_step_id failed = d_step_id d \<and> d_batch_id failed = d_batch_id d
      \<and> d_workspace_group_id failed = d_workspace_group_id d"
  using assms
  by (auto simp: failed_record_def bindr_Inr_iff transition_dispatch_Inr with_dispatch_def with_event_def
      updated_dispatch_def no_update_def)

lemma account_usage_Inr:
  assumes "account_usage flow now r g d usage False s = (Inr (r', g'), s')"
  shows "r_steps r' = r_steps r \<and> r_dispatches r' = r_dispatches r \<and> r_run_id r' = r_run_id r \<and> s' = s"
  using assms by (auto simp: account_usage_def dest!: record_usage_Inr [OF sym] split: if_splits prod.splits)

lemma tolerated_usage_Inr:
  assumes "tolerated_usage flow now r g d usage s = (Inr (r', g', x), s')"
  shows "r_steps r' = r_steps r" "r_dispatches r' = r_dispatches r" "r_run_id r' = r_run_id r"
  using assms by (auto simp: tolerated_usage_def catching_eq dest: account_usage_Inr split: if_splits)

lemma check_failed_verification_Inr [ok_dests]:
  "check_failed_verification step vs m m' = Inr () \<longleftrightarrow>
     map av_check_id vs = map crit_criterion_id (ps_acceptance_criteria step) \<and> list_ex (\<lambda>v. \<not> av_passed v) vs"
  by (auto simp: check_failed_verification_def)

lemma save_rework_Inr:
  assumes "save_rework now p r g d result authoritative observed s = (Inr (r', g'), s')"
  shows "r' = r" "stored_run (sy_store s') (r_run_id r) = Some r"
    and "\<exists>payload. dget (st_payloads (sy_store s')) (r_run_id r, d_dispatch_id d) = Some payload
      \<and> pl_authoritative_verification payload = Some (stored_list (json_authoritative authoritative))
      \<and> pl_repository_after payload = Some (stored_object (json_snapshot observed))"
proof -
  from assms obtain x st g'' payload where save: "save_run r g x now (sy_store s) = Inr (g'', st)"
    and x: "se_payloads x = [(d_dispatch_id d, payload)]" "se_git_updates x = []"
    and p: "pl_authoritative_verification payload = Some (json_authoritative authoritative)"
      "pl_repository_after payload = Some (json_snapshot observed)"
    and s': "sy_store s' = st" "r' = r"
    by (auto simp: save_rework_def Let_def no_extras_def unlock_def)
  from save_run_one_payload [OF save x] p s'
  show "r' = r" "stored_run (sy_store s') (r_run_id r) = Some r"
    and "\<exists>payload. dget (st_payloads (sy_store s')) (r_run_id r, d_dispatch_id d) = Some payload
      \<and> pl_authoritative_verification payload = Some (stored_list (json_authoritative authoritative))
      \<and> pl_repository_after payload = Some (stored_object (json_snapshot observed))"
    by (auto simp: stored_payload_def)
qed

text \<open>The records between the run that was read and the one that is saved.\<close>

definition recorded_failure ::
  "config \<Rightarrow> string \<Rightarrow> run_record \<Rightarrow> run_record \<Rightarrow> plan_step \<Rightarrow> dispatch_record \<Rightarrow> step_record \<Rightarrow> bool" where
  "recorded_failure c category earlier r step d t \<longleftrightarrow>
     dget (r_dispatches r) (d_dispatch_id d) = Some d \<and> d_state d = Dispatch_failed
     \<and> d_failure_category d = Some category
     \<and> find_plan_step earlier (d_step_id d) = Inr step
     \<and> dget (r_steps r) (s_step_id t) = Some t
     \<and> (\<exists>s. record_step earlier (d_step_id d) = Inr s \<and> s_rework_rounds t = s_rework_rounds s + 1)
     \<and> (s_state t \<in> {Step_blocked, Step_failed}
        \<or> (s_state t = Step_ready \<and> supports_rework d \<and> rework_rounds_left c step t))"

lemma executor_failure_recorded:
  assumes "record_executor_verification_failure flow e now p proposal authoritative usage verified s = (Inr (r, g), s')"
  shows "\<exists>earlier g0 step d t payload. load_run (sy_store s) (pw_run_id p) = Inr (earlier, g0)
    \<and> recorded_failure (wf_config flow) ''authoritative_verification'' earlier r step d t
    \<and> list_ex (\<lambda>v. \<not> av_passed v) authoritative
    \<and> stored_run (sy_store s') (r_run_id r) = Some r
    \<and> dget (st_payloads (sy_store s')) (r_run_id r, d_dispatch_id d) = Some payload
    \<and> pl_authoritative_verification payload = Some (stored_list (json_authoritative authoritative))
    \<and> pl_repository_after payload = Some (stored_object (json_snapshot verified))"
proof -
  from assms obtain r0 g0 d step r1 g1 ue s1 r2 s0 t r3 r4 s2 where
    l: "Inr (r0, g0) = load_run (sy_store s) (pw_run_id p)"
    and d: "Inr d = dict_item (r_dispatches r0) (d_dispatch_id (pw_dispatch p))"
    and step: "Inr step = find_plan_step r0 (d_step_id d)"
    and stale: "Inr () = check_not_stale flow p g0 ''running dispatch generation is stale''"
    and checks: "check_failed_verification step authoritative
        ''failed authoritative verification does not exactly cover plan criteria''
        ''verification feedback requires at least one failed dispatcher check''
        = check_not_stale flow p g0 ''running dispatch generation is stale''"
    and usage: "tolerated_usage flow now r0 g0 d usage s1 = (Inr (r1, g1, ue), s2)"
    and failed: "Inr r2 = failed_record e 0 r1 d ''dispatcher-owned verification requested executor rework''
        ''authoritative_verification'' (verification_failure_detail authoritative)"
    and s0: "Inr s0 = record_step r2 (ps_step_id step)"
    and t: "Inr t = executor_rework (wf_config flow) e (Suc 0) r2 step s0 d (\<exists>y. ue = Some y)"
    and r3: "Inr r3 = step_replacement_record e 3 r2 t"
    and r4: "Inr r4 = rework_waiting_record (wf_config flow) e 4 r3 step d ue"
    and save: "save_rework now p r4 g1 d (json_executor_proposal proposal) authoritative verified s2 = (Inr (r, g), s')"
    unfolding record_executor_verification_failure_def Let_def by (auto simp: ok_dests)
  note saved = save_rework_Inr [OF save]
  note failed = failed_record_Inr [OF failed [symmetric]]
  note replaced = step_replacement_Inr [OF r3 [symmetric]]
  note waits = rework_waiting_Inr [OF r4 [symmetric]]
  note usage = tolerated_usage_Inr [OF usage]
  from failed(3) obtain f where f: "r_dispatches r2 = dset (d_dispatch_id d) f (r_dispatches r1)"
    "d_state f = Dispatch_failed" "d_failure_category f = Some ''authoritative_verification''"
    "d_dispatch_id f = d_dispatch_id d" "d_step_id f = d_step_id d" "supports_rework f = supports_rework d"
    by (auto simp: supports_rework_def)
  have "record_step r0 (d_step_id f) = Inr s0"
    using s0 failed(1) usage(1) find_plan_step_Inr [OF step [symmetric]] f(5) by (simp add: record_step_def)
  moreover have "dget (r_dispatches r) (d_dispatch_id f) = Some f"
    using f waits replaced(2) saved(1) by (simp add: dget_dset)
  moreover have "dget (r_steps r) (s_step_id t) = Some t" using waits replaced(1) saved(1) by simp
  ultimately have "recorded_failure (wf_config flow) ''authoritative_verification'' r0 r step f t"
    using executor_rework_outcome [OF t [symmetric]] f step by (auto simp: recorded_failure_def)
  moreover have "list_ex (\<lambda>v. \<not> av_passed v) authoritative"
    using checks [unfolded stale [symmetric] check_failed_verification_Inr] by (rule conjunct2)
  moreover from saved(3) obtain payload where "dget (st_payloads (sy_store s')) (r_run_id r, d_dispatch_id f) = Some payload"
    "pl_authoritative_verification payload = Some (stored_list (json_authoritative authoritative))"
    "pl_repository_after payload = Some (stored_object (json_snapshot verified))"
    using saved(1) f(4) by auto
  moreover have "stored_run (sy_store s') (r_run_id r) = Some r" using saved(1,2) by simp
  ultimately show ?thesis
    using l [symmetric] by (intro exI [of _ r0] exI [of _ g0] exI [of _ step] exI [of _ f] exI [of _ t] exI [of _ payload]) simp
qed

end
