(* ===== verification/Spec2Isabelle.thy ===== *)
theory Spec2Isabelle
  imports Further_Facts Rework_Facts
begin

text \<open>
  A verification library for the workflow dispatcher under \<open>src/src/dispatcher\<close>: a program that runs a
  plan of steps with language-model workers. A supervisor proposes commands; the dispatcher decides. It
  validates the configuration and the plan, compiles a review policy, admits dispatches, checks what the
  workers return, moves the records of the run through their state machines and persists them.

  Theories and the code they model (file names below \<open>src/src/dispatcher\<close>):

  \<^item> \<open>Prelude\<close>: errors as values (\<open>exn\<close>, one constructor per exception class the code raises), the result
    combinators \<open>bindr\<close>, \<open>map_result\<close>, \<open>foldr_result\<close>, dictionaries as association lists in insertion order
    (\<open>dget\<close>, \<open>dset\<close>), contract-model validation (\<open>field_errors\<close>, \<open>first_rule\<close>, \<open>checked\<close>).
  \<^item> \<open>Digest\<close>, \<open>Canonical_Text\<close>: \<open>json.dumps\<close> with sorted keys and SHA-256 as the digests use them; the
    canonical text determines the value.
  \<^item> \<open>Paths\<close>: the parts of \<open>pathlib\<close> the code uses, writable scopes (plan.py) and their overlap
    (scheduler.py); a locale of path containment interpreted on POSIX paths.
  \<^item> \<open>Config_Model\<close>: the contract models of config.py and their cross-reference validation.
  \<^item> \<open>Plan\<close>, \<open>Plan_Graph\<close>, \<open>Plan_Approval\<close>: plan.py; graph validation, digests and approvals.
  \<^item> \<open>Workflow\<close>, \<open>Workflow_Machines\<close>: workflow.py; the records of runs, steps, dispatches, batches and
    workspace groups, their transition tables (a locale, interpreted on each table) and the completion
    obligations.
  \<^item> \<open>Policy\<close>: policy.py; the compiled review obligations.
  \<^item> \<open>Scheduler\<close>, \<open>Batch_Admission\<close>: scheduler.py; readiness and batch admission.
  \<^item> \<open>Permissions\<close>: permissions.py and mcp.py; tool rules from policy layers.
  \<^item> \<open>Results\<close>, \<open>Result_Checks\<close>: results.py and the result checks of sequential.py and verification.py.
  \<^item> \<open>Step_Outcomes\<close>, \<open>Dispatching\<close>, \<open>Usage_Budget\<close>, \<open>Readiness_Refresh\<close>: the pure parts of class
    \<open>SequentialWorkflow\<close> (sequential.py): readiness, outcomes of results, admission and preparation of a
    dispatch, usage and budget.
  \<^item> \<open>Operator_Answers\<close>: the decision part of \<open>StateStore.answer_operator_request\<close> (state_store.py).
  \<^item> \<open>Step_Life\<close>, \<open>Answered_Steps\<close>: the life of one step as a step relation over those operations, its
    invariant, and operator answers as moves of it.
  \<^item> \<open>Redaction\<close>: security.py; an ordered backtracking matcher for its three patterns, and redaction.
  \<^item> \<open>Store\<close>, \<open>Store_Dispatches\<close>, \<open>Invocations\<close>, \<open>Structured_Git\<close>: the tables and transactions of
    \<open>StateStore\<close> (state_store.py). A transaction is a function on the record \<open>store\<close> of all tables; an error
    leaves the tables as they were. \<open>Leases\<close>: the lease table, with a locale of lock tables interpreted on
    it. \<open>Recovery\<close>: the classification of interrupted work.
  \<^item> \<open>Store_Invariant\<close>, \<open>Store_Life\<close>, \<open>Store_Journals\<close>: what every transaction keeps, the step relation of
    the store, the locale of stores with versions, the identity of dispatches, the Git lifecycle and the
    accounting of invocations.
  \<^item> \<open>Launch_Check\<close>: \<open>_validate_persisted_worker_prompt\<close> (execution.py) on what the store keeps.
  \<^item> \<open>Snapshots\<close>, \<open>Inspections\<close>, \<open>Git_Reports\<close>: repository.py. Snapshots and the checks on them; inspection
    as actions on a machine; the two Git reports and how they are read together.
  \<^item> \<open>Transactions\<close>: programs with effects. An action takes the state to an outcome and the state it leaves,
    errors included (\<open>then_do\<close>, \<open>catching\<close>, \<open>ensuring\<close>); the system is the store, the lease table and the disk.
    The locale \<open>transactional\<close> gives what every action built from them keeps, and is interpreted on the steps
    of the store, on the leases of other owners, on the removals of a cleanup and on rejections.
  \<^item> \<open>Workspaces\<close>, \<open>Workspace_Groups\<close>: workspaces.py; worktrees for the children of a barrier batch.
  \<^item> \<open>Result_Json\<close>: the JSON of results, proposals and reviews (results.py). \<open>Worker_Prompt\<close>: \<open>_worker_prompt\<close>
    and the response templates (sequential.py).
  \<^item> \<open>Run_Operations\<close>, \<open>Worker_Dispatch\<close>, \<open>Batch_Preparation\<close>, \<open>Result_Operations\<close>, \<open>Recovery_Operations\<close>:
    the methods of \<open>SequentialWorkflow\<close> as actions on the system. \<open>Verification_Rework\<close>, \<open>Rework_Facts\<close>: failed
    checks of the dispatcher and malformed reviews, the bounded rework they start and its retries.
  \<^item> \<open>Json_Text\<close>: the reader of Python's \<open>json\<close> module with a hook for the pairs of an object. \<open>Protocol\<close>:
    protocol.py. \<open>Supervisor_Commands\<close>: \<open>prepare_from_supervisor\<close>, and that a rejection leaves nothing.
  \<^item> \<open>Workflow_Life\<close>: every operation as a step of the system; what all steps keep.
  \<^item> \<open>Sample_Project\<close>, \<open>Sample_Compilation\<close>, \<open>Sample_Store\<close>, \<open>Sample_System\<close>, \<open>Sample_Work\<close>: a concrete
    configuration, plan, run, store, machine and workflow for the examples. \<open>Further_Facts\<close>: facts about
    single components.

  Conventions. A class or contract model is a record, an enum a datatype; \<open>X_errors\<close> is the validation of
  the contract model X, field constraints first and then its model validators, \<open>[]\<close> meaning valid. A
  function that raises returns \<open>Inl\<close> of the exception. Fresh identifiers and the clock are inputs
  (\<open>env_uuid e n\<close>, \<open>env_now e n\<close>). Costs and process creation times are rationals, times are integers, the
  characters of a string are the code points 0 to 255. The text pydantic gives a field error is
  represented by the name of the field.

  Parameters. Git, the file system, the process table and the clock are functions of the records \<open>machine\<close>
  and \<open>world\<close>: a command is any function from the disk to an outcome and a disk. The JSON schema documents,
  the text of a float and the export of a report are parameters of the record \<open>workflow\<close>. No theorem assumes
  anything of them.

  Fuel. \<open>ancestor_steps\<close> recurses along dependencies with fuel and returns \<open>None\<close> when it runs out;
  C25 shows that the number of plan steps is enough for an accepted plan. The JSON reader takes twice the
  length of the text as fuel; \<open>read_json_fuel\<close> shows that more fuel never changes its answer. The cycle
  check needs no fuel: it terminates because the visited set grows.

  Not modelled: the execution of processes and the OpenCode command line (execution.py, sessions.py,
  git_commit.py, baseline.py, preflight.py, verification.py's runners); the adoption of
  failed reviews and structured Git materialisation in sequential.py; the command-line interface
  and the reports (cli.py, observability.py, audit.py); the migrations, transcripts, baselines and reports of
  state_store.py; and the cluster operations (cluster_*.py). SQLite itself is not modelled: a table is a
  dictionary on its primary key, a constraint of the schema is checked where the statement that could violate
  it runs.
\<close>

section \<open>The run, its steps and its store\<close>

text \<open>
  C1. A run can be moved to \<open>SUCCEEDED\<close> exactly when it is running, every step is accepted or waived with
  its dependencies finished, its evidence present, its review acceptances reached (or waived) and its gate
  resolved, every dispatch is in a terminal state and no operator request is open.
\<close>

theorem run_succeeds_iff_complete:
  "(\<exists>r'. transition_run r Run_succeeded event None = Inr r') \<longleftrightarrow>
     r_state r = Run_running \<and> run_complete r
     \<and> run_record_errors (r\<lparr>r_state := Run_succeeded, r_sequence := te_sequence event, r_operator_request := None,
          r_updated_at := te_occurred_at event\<rparr>) = []"
proof -
  have "run.step st Run_succeeded \<longleftrightarrow> st = Run_running" for st
    by (cases st) (simp_all add: run.step_def)
  then show ?thesis by (auto simp: transition_run_Inr completion_obligations_Nil_iff)
qed



text \<open>
  C3. Whatever sequence of operations of the workflow runs, in whatever order and with whatever outcome
  (activation, dispatch preparation, launch, results, recovery, stalls, batches, workspaces, and other
  writers of the store in between), the stored tables stay consistent, no dispatch identity changes, and a
  run whose generation is unchanged is unchanged.
\<close>

theorem workflow_keeps_the_store:
  assumes "workflow_steps flow s s'" "store_ok (sy_store s)"
  shows "store_ok (sy_store s') \<and> identities_kept (sy_store s) (sy_store s')
    \<and> (run_generation (sy_store s) i = Some g \<longrightarrow> run_generation (sy_store s') i = Some g
       \<longrightarrow> stored_run (sy_store s') i = stored_run (sy_store s) i)"
  using workflow_steps_keep [OF assms] by blast

lemma workflow_keeps_the_store_witness:
  "\<exists>s s'. load_run (sy_store s) ''run-1'' = Inr (running_run [], 1) \<and> workflow_steps sample_flow s s'
     \<and> load_run (sy_store s') ''run-1'' = Inr (halted_record, 2) \<and> store_ok (sy_store s')"
proof -
  obtain st st' where st: "store_steps empty_store st" "load_run st ''run-1'' = Inr (running_run [], 1)"
    "prepare_from_supervisor sample_flow sample_env 7 ''run-1'' 1 (encode (json_command (Halt_command ''stop'')))
       (sample_system st []) = (Inr (Run_left halted_record), sample_system st' [])"
    "load_run st' ''run-1'' = Inr (halted_record, 2)"
    using sample_halted by blast
  have steps: "workflow_steps sample_flow (sample_system st []) (sample_system st' [])"
    by (rule r_into_rtranclp, rule workflow_step.answers, rule st(3))
  have "store_ok (sy_store (sample_system st []))" using store_steps_ok [OF st(1) store_ok_empty] by simp
  from workflow_keeps_the_store [OF steps this] have "store_ok st'" by simp
  then have "load_run (sy_store (sample_system st [])) ''run-1'' = Inr (running_run [], 1)
      \<and> workflow_steps sample_flow (sample_system st []) (sample_system st' [])
      \<and> load_run (sy_store (sample_system st' [])) ''run-1'' = Inr (halted_record, 2)
      \<and> store_ok (sy_store (sample_system st' []))"
    using st(2,4) steps by simp
  then show ?thesis by (intro exI)
qed

text \<open>
  C4. A supervisor command that is rejected for correction (\<open>SupervisorCommandRejectedError\<close>) left the
  stored tables and the leases as they were, whichever command it was: nothing has to be undone before the
  supervisor is asked again. A workspace batch that fails after its worktrees were made is reported as a
  workflow error instead.
\<close>

theorem rejected_commands_leave_nothing:
  "case prepare_from_supervisor flow e now run_id g input s of
     (Inl (SupervisorCommandRejectedError m), s') \<Rightarrow> sy_store s' = sy_store s \<and> sy_leases s' = sy_leases s
   | _ \<Rightarrow> True"
proof -
  have "accepts (fst (prepare_from_supervisor flow e now run_id g input s))
      \<or> unchanged s (snd (prepare_from_supervisor flow e now run_id g input s))"
    using rejections_are_clean unfolding rejects_cleanly_def by blast
  then show ?thesis
    by (auto simp: accepts_def is_rejection_def unchanged_def split: prod.split sum.split exn.split)
qed

text \<open>
  C5. Whatever a worker's own operations do (launch, session, proposal, results, failure, cluster failure,
  stall), on success and on every error, a lease held by another owner stays with that owner.
\<close>

theorem workers_keep_other_leases:
  assumes "worker_step flow p s s'" "owner \<noteq> pw_lease_owner_id p" "holder (sy_leases s) key = Some owner"
  shows "holder (sy_leases s') key = Some owner"
  using worker_step_stays [OF assms(1)] assms(2,3) by (simp add: leases_stay_def)

lemma workers_keep_other_leases_witness:
  "\<exists>e s'. fail_dispatch sample_flow sample_env 7 sample_worker ''lost'' ''worker'' ''lost''
       (sample_system empty_store [(''db'', held_by ''w-1''), (''ui'', held_by ''w-2'')]) = (Inl e, s')
     \<and> holder (sy_leases s') ''db'' = None \<and> holder (sy_leases s') ''ui'' = Some ''w-2''"
proof -
  let ?s = "sample_system empty_store [(''db'', held_by ''w-1''), (''ui'', held_by ''w-2'')]"
  have worker: "pw_run_id sample_worker = ''run-1''" "pw_lease_owner_id sample_worker = ''w-1''"
    "pw_lease_keys sample_worker = [''db'', ''ui'']"
    by (simp_all add: sample_worker_def)
  have missing: "load_run empty_store ''run-1'' = Inl (StateStoreError ''run not found: run-1'')"
    by (simp add: load_run_def empty_store_def)
  have run: "fail_dispatch sample_flow sample_env 7 sample_worker ''lost'' ''worker'' ''lost'' ?s
      = (Inl (StateStoreError ''run not found: run-1''), unlock ''w-1'' [''db'', ''ui''] ?s)"
    by (simp add: fail_dispatch_def ensuring_def then_do_def query_def worker missing)
  have step: "worker_step sample_flow sample_worker ?s (unlock ''w-1'' [''db'', ''ui''] ?s)"
    by (rule worker_step.worker_failed, rule run)
  have "holder (sy_leases ?s) ''ui'' = Some ''w-2''" by (simp add: holder_def held_by_def)
  from workers_keep_other_leases [OF step _ this] worker
  have "holder (sy_leases (unlock ''w-1'' [''db'', ''ui''] ?s)) ''ui'' = Some ''w-2''" by simp
  moreover have "holder (sy_leases (unlock ''w-1'' [''db'', ''ui''] ?s)) ''db'' = None"
    by (simp add: unlock_def release_leases_def holder_def held_by_def sample_system_def)
  ultimately show ?thesis using run by metis
qed

text \<open>
  C6. A writer that read a run at some generation and saves with that generation replaces exactly the
  record it read, whatever other operations ran in between, and moves the generation on by one: no update
  is lost.
\<close>

theorem writers_replace_what_they_read:
  assumes "store_steps empty_store st" "load_run st run_id = Inr (r, g)" "store_steps st st'"
    and "save_run r' g x now st' = Inr (g', st'')" "r_run_id r' = run_id"
  shows "stored_run st' run_id = Some r \<and> stored_run st'' run_id = Some r'
    \<and> run_generation st'' run_id = Some (g + 1)"
  using save_replaces_what_was_read [OF store_steps_ok [OF assms(1) store_ok_empty] assms(2-5)] .

lemma writers_replace_what_they_read_witness:
  "\<exists>st st'. store_steps empty_store st \<and> load_run st ''run-1'' = Inr (running_run [], 1)
     \<and> stored_run st' ''run-1'' = Some (prepared_run ''go'') \<and> run_generation st' ''run-1'' = Some 2"
proof -
  obtain st x st' where st: "store_steps empty_store st" "load_run st ''run-1'' = Inr (running_run [], 1)"
    "save_run (prepared_run ''go'') 1 x 7 st = Inr (2, st')"
    using sample_saved by blast
  have "r_run_id (prepared_run ''go'') = ''run-1''" by (simp add: prepared_run_def)
  from writers_replace_what_they_read [OF st(1,2) _ st(3) this] st(1,2) show ?thesis by auto
qed



text \<open>
  C8. Whatever an operator answers, the run was waiting for exactly that request and that answer was
  offered; afterwards the run is running or halted, never succeeded or failed; and every step record stays
  as it was or makes one move of the step relation of C2.
\<close>

theorem operator_answers_are_moves:
  assumes "answer_record e now r request_id answer actor_id = Inr r'" "r_policy r = Some p"
  shows "(\<exists>q. r_operator_request r = Some q \<and> r_state r = Run_waiting_operator \<and> or_request_id q = request_id
      \<and> answer \<in> set (or_allowed_answers q))
    \<and> (r_state r' = Run_running \<or> r_state r' = Run_halted) \<and> steps_moved c p (r_steps r) (r_steps r')"
proof -
  from assms(1) obtain q event updated target where q: "r_operator_request r = Some q"
    "r_state r = Run_waiting_operator" "or_request_id q = request_id" "answer \<in> set (or_allowed_answers q)"
    and "apply_answer r q answer event (''decision-'' @ env_uuid e 1) = Inr (updated, target)"
    and "transition_run updated target event None = Inr r'"
    by (rule answer_record_Inr)
  then have "r_state r' = Run_running \<or> r_state r' = Run_halted" "steps_moved c p (r_steps r) (r_steps r')"
    using apply_answer_target apply_answer_moved [OF _ assms(2)] transition_run_frame(2)
    by (fastforce simp: transition_run_Inr)+
  with q show ?thesis by blast
qed

definition waiting_run :: run_record where
  "waiting_run = sample_run\<lparr>r_state := Run_waiting_operator, r_operator_request :=
     Some \<lparr>or_request_id = ''q1'', or_question = ''?'', or_allowed_answers = [''halt''], or_context_ref = ''c'',
       or_resume_to = Run_running, or_expires_at = None, or_required_role = None, or_kind = Req_budget,
       or_step_id = None, or_reassignment_role_key = None\<rparr>\<rparr>"

definition answer_event :: transition_event where
  "answer_event = \<lparr>te_event_id = ''event-0'', te_sequence = 2, te_actor = Actor_operator,
     te_reason = ''operator answered request q1'', te_correlation_id = ''c'', te_occurred_at = 200\<rparr>"

definition halted_run :: run_record where
  "halted_run = sample_run\<lparr>r_state := Run_halted, r_sequence := 2, r_updated_at := 200\<rparr>"

lemma waiting_run_answered:
  "answer_record sample_env 150 (signed waiting_run) ''q1'' ''halt'' ''op'' = Inr (signed halted_run)"
proof -
  have event: "make_event sample_env 0 (signed waiting_run) Actor_operator ''operator answered request q1'' ''c'' None
      = Inr answer_event"
    by (simp add: make_event_def signed_def) code_simp
  have valid: "run_record_errors (signed halted_run) = []"
    unfolding signed_errors by code_simp
  have same: "signed halted_run = (signed waiting_run)\<lparr>r_state := Run_halted, r_sequence := te_sequence answer_event,
      r_operator_request := None, r_updated_at := te_occurred_at answer_event\<rparr>"
    by (simp add: signed_def halted_run_def waiting_run_def answer_event_def sample_run_def)
  have run: "transition_run (signed waiting_run) Run_halted answer_event None = Inr (signed halted_run)"
    using valid unfolding transition_run_Inr same
    by (simp add: run.step_def signed_def waiting_run_def)
  show ?thesis
    using event run by (simp add: answer_record_def apply_answer_def signed_def waiting_run_def)
qed

lemma operator_answers_are_moves_witness:
  "r_state (signed halted_run) = Run_running \<or> r_state (signed halted_run) = Run_halted"
proof -
  have "r_policy (signed waiting_run) = Some sample_run_policy"
    by (simp add: signed_def waiting_run_def sample_run_def)
  from operator_answers_are_moves [OF waiting_run_answered this] show ?thesis by blast
qed

text \<open>
  C9. A dispatch is admitted only from a running run, for a step of the plan whose gate is resolved and
  whose state is the one its role works on, with every dependency and producer finished, with attempts
  left, under a role compiled to review it when it is a review, and, when scheduling is sequential, with no
  other dispatch active. The actions it is given are scoped to the role.
\<close>

theorem admitted_dispatches_are_ready:
  assumes "admit_dispatch e c sources sessions r command = Inr (Admitted step kind actions)"
  shows "r_state r = Run_running \<and> step \<in> set (np_steps (r_plan r)) \<and> ps_step_id step = req_step_id command
    \<and> (exe_scheduling (pc_execution (cfg_model c)) = Sequential_scheduling \<longrightarrow> active_dispatches r = [])
    \<and> role_scoped_authorized_actions (auth_authorized_actions (ps_authorization step)) (role_kind_of_worker kind)
        = Inr actions
    \<and> (\<exists>s. dget (r_steps r) (ps_step_id step) = Some s \<and> s_operator_gate_resolved s
         \<and> readiness_facts c r step s kind (req_session_mode command) (req_target_role command))"
  by (rule admit_dispatch_Admitted [OF assms]) blast

lemma admitted_dispatches_are_ready_witness:
  "r_state sample_run = Run_running \<and> active_dispatches sample_run = []"
proof -
  have "exe_scheduling (pc_execution (cfg_model serial_config)) = Sequential_scheduling"
    by (simp add: serial_config_def)
  with admitted_dispatches_are_ready [OF sample_admission] show ?thesis by blast
qed

text \<open>
  C10. A batch is admitted only if it fits the configured batch size and the free dispatch slots, names
  every step once, respects the capacity of every role together with the dispatches already active, and its
  children hold pairwise disjoint lock keys, none of them held by an active dispatch.
\<close>

theorem admitted_batches_are_exclusive:
  assumes "validate_batch c r children = Inr ordered"
  shows "int (length ordered) \<le> conc_max_batch_size (exe_concurrency (pc_execution (cfg_model c)))
    \<and> int (length (active_dispatches r)) + int (length ordered)
        \<le> conc_max_active_dispatches (exe_concurrency (pc_execution (cfg_model c)))
    \<and> mset ordered = mset children \<and> distinct (map req_step_id ordered)
    \<and> sorted_wrt (\<lambda>a b. child_keys r a \<inter> child_keys r b = {}) ordered
    \<and> (\<exists>active_keys. active_resource_keys r (step_map_of (np_steps (r_plan r))) = Inr active_keys
         \<and> (\<forall>child \<in> set ordered. child_admitted c r active_keys child))
    \<and> (\<forall>child \<in> set ordered. \<exists>n. capacity_of c (req_target_role child) = Inr n
         \<and> count_of (active_role_counts (active_dispatches r)) (req_target_role child)
             + role_load ordered (req_target_role child) \<le> n)"
proof (rule validate_batch_Inr [OF assms], goal_cases)
  case (1 active_keys)
  from 1(2) have "length ordered = length children" "mset ordered = mset children"
    by (simp_all add: order_children_mset)
  with 1 show ?case by (intro conjI exI [of _ active_keys]) auto
qed

lemma admitted_batches_are_exclusive_witness:
  "sorted_wrt (\<lambda>a b. child_keys sample_run a \<inter> child_keys sample_run b = {})
     [sample_request ''a'' ''e1'', sample_request ''d'' ''e2'']"
  using admitted_batches_are_exclusive [OF sample_batch] by blast

text \<open>
  C11. When the pending changes of an executor are accepted, every changed path is unstaged, authorised by the
  writable scopes of the step, below a writable root of the repository, inside the worktree, no symbolic link
  and without a mode change; new ignored files are in the scopes as well; and nothing else was touched: the
  commit, the Git metadata, the refs and the external directories are the ones before the dispatch.
\<close>

theorem accepted_work_stays_in_scope:
  assumes "validate_pending_executor_changes c symlink outside coordinate earlier later scopes require_changes = Inr paths"
  shows "\<exists>repository. config_repository c (rc_repo_id coordinate) = Inr repository
    \<and> pending_changes_ok repository symlink outside scopes earlier later
    \<and> sn_revision later = sn_revision earlier \<and> sn_external later = sn_external earlier
    \<and> sn_git_metadata_sha256 later = sn_git_metadata_sha256 earlier
    \<and> sn_git_refs_sha256 later = sn_git_refs_sha256 earlier
    \<and> paths = sorted_set (change_paths (sn_changes later)) \<and> (require_changes \<longrightarrow> sn_changes later \<noteq> [])"
  using assms by (rule validate_pending_Inr) metis

lemma accepted_work_stays_in_scope_witness:
  "let later = sample_repository_snapshot\<lparr>sn_clean := False, sn_changes :=
         [\<lparr>ch_change_type = Modified, ch_paths = [''lib/a/x.py''], ch_index_status = '' '', ch_worktree_status = ''M'',
           ch_mode_changed = False\<rparr>]\<rparr> in
   validate_pending_executor_changes sample_config (\<lambda>_. False) (\<lambda>_. False)
     (dispatch_coordinate sample_repository_snapshot None) sample_repository_snapshot later [''lib/a/''] True
     = Inr [''lib/a/x.py'']
   \<and> pending_changes_ok sample_repository (\<lambda>_. False) (\<lambda>_. False) [''lib/a/''] sample_repository_snapshot later"
proof -
  let ?later = "sample_repository_snapshot\<lparr>sn_clean := False, sn_changes :=
         [\<lparr>ch_change_type = Modified, ch_paths = [''lib/a/x.py''], ch_index_status = '' '', ch_worktree_status = ''M'',
           ch_mode_changed = False\<rparr>]\<rparr>"
  have accepted: "validate_pending_executor_changes sample_config (\<lambda>_. False) (\<lambda>_. False)
     (dispatch_coordinate sample_repository_snapshot None) sample_repository_snapshot ?later [''lib/a/''] True
     = Inr [''lib/a/x.py'']"
    by code_simp
  moreover have "config_repository sample_config (rc_repo_id (dispatch_coordinate sample_repository_snapshot None))
     = Inr sample_repository" by code_simp
  ultimately show ?thesis using accepted_work_stays_in_scope [OF accepted] by simp
qed

text \<open>
  C12. Finishing an invocation adds the usage it reports to the usage of its run and to the total of the
  invocation journal, both by the same amount, when the invocation was still prepared; finishing it again
  with the same outcome changes nothing.
\<close>

theorem invocations_count_once:
  assumes "store_steps empty_store st" "finish_opencode_invocation i x now st = Inr ((r', g'), st')"
    and "dget (st_invocations st) i = Some row"
  shows "let amount = (if iv_lifecycle row = Invocation_prepared
           then (case io_usage x of None \<Rightarrow> zero_usage | Some u \<Rightarrow> u) else zero_usage) in
     run_usage st' (iv_run_id row) = add_usage (run_usage st (iv_run_id row)) amount
     \<and> invocation_total st' (iv_run_id row) = add_usage (invocation_total st (iv_run_id row)) amount
     \<and> (iv_lifecycle row \<noteq> Invocation_prepared \<longrightarrow> st' = st)"
  using finish_counts_once [OF store_steps_ok [OF assms(1) store_ok_empty] assms(2,3)] .

lemma invocations_count_once_witness:
  "\<exists>st r st'. finish_opencode_invocation ''i-1'' sample_outcome 9 st = Inr ((r, 2), st')
     \<and> run_usage st' ''run-1'' = add_usage (run_usage st ''run-1'') (the (io_usage sample_outcome))
     \<and> invocation_total st' ''run-1'' = add_usage (invocation_total st ''run-1'') (the (io_usage sample_outcome))"
proof -
  obtain st r st' where st: "store_steps empty_store st"
    "dget (st_invocations st) ''i-1'' = Some (prepared_row sample_identity 8)"
    "finish_opencode_invocation ''i-1'' sample_outcome 9 st = Inr ((r, 2), st')"
    using sample_finished by blast
  have "iv_run_id (prepared_row sample_identity 8) = ''run-1''" "io_usage sample_outcome \<noteq> None"
    "iv_lifecycle (prepared_row sample_identity 8) = Invocation_prepared" by code_simp+
  with invocations_count_once [OF st(1,3,2)]
  have "run_usage st' ''run-1'' = add_usage (run_usage st ''run-1'') (the (io_usage sample_outcome))"
    "invocation_total st' ''run-1'' = add_usage (invocation_total st ''run-1'') (the (io_usage sample_outcome))"
    by (auto simp: Let_def)
  with st(3) show ?thesis by blast
qed





section \<open>Workspace batches and worktrees\<close>

text \<open>
  C15. The children of an admitted workspace batch work on one repository that requires commits and has no
  other active workspace group, and any two of them share neither a resource nor a writable scope.
\<close>

theorem admitted_workspace_batches_are_independent:
  assumes "validate_workspace_batch c r children = Inr ordered"
  shows "2 \<le> length ordered \<and> distinct (map req_step_id ordered) \<and> sorted_wrt (independent r) ordered
    \<and> (\<forall>child \<in> set ordered. workspace_child_admitted c r child)
    \<and> (\<exists>repo_id repository. config_repository c repo_id = Inr repository
         \<and> repo_commit_policy repository = Commit_required
         \<and> (\<forall>child \<in> set ordered. \<exists>step. child_step r child = Some step \<and> ps_repo_id step = repo_id)
         \<and> (\<forall>g \<in> set (active_groups r). wg_repo_id g \<noteq> repo_id))"
  using validate_workspace_batch_Inr(2,6,7,9,11) [OF assms] by blast

lemma admitted_workspace_batches_are_independent_witness:
  "sorted_wrt (independent sample_run) [sample_request ''a'' ''e1'', sample_request ''c'' ''e2'']"
  using admitted_workspace_batches_are_independent [OF sample_workspace_batch] by blast

text \<open>
  C16. A workspace batch with a step that declares no resource locks always fails, although the plan contract
  accepts such steps: within a group the repository lock belongs to the group, so the child asks for no lease
  at all, and the store refuses an acquisition of nothing.
\<close>

theorem workspace_batches_need_locks:
  assumes "child \<in> set command" "find_plan_step r (req_step_id child) = Inr step" "ps_resource_locks step = []"
    "load_run (sy_store s) (r_run_id r) = Inr (r, g)"
  shows "\<exists>exc. fst (prepare_workspace_batch flow e now r g command s) = Inl exc"
  using lockless_workspace_batches_fail [OF assms] .

definition lockless_run :: run_record where
  "lockless_run = signed (sample_run\<lparr>r_plan := sample_plan\<lparr>np_steps :=
     [step_a\<lparr>ps_resource_locks := []\<rparr>, step_b, step_c, step_d]\<rparr>\<rparr>)"

definition lockless_store :: store where
  "lockless_store = empty_store\<lparr>st_runs := [(''run-1'', \<lparr>rr_record = lockless_run, rr_generation = 1\<rparr>)]\<rparr>"

lemma lockless_run_loads: "load_run lockless_store ''run-1'' = Inr (lockless_run, 1)"
proof -
  have "unsigned_errors (sample_run\<lparr>r_plan := sample_plan\<lparr>np_steps :=
      [step_a\<lparr>ps_resource_locks := []\<rparr>, step_b, step_c, step_d]\<rparr>\<rparr>) = []" by code_simp
  then show ?thesis by (simp add: load_run_def lockless_store_def lockless_run_def signed_errors)
qed

lemma workspace_batches_need_locks_witness:
  "load_run lockless_store ''run-1'' = Inr (lockless_run, 1)
   \<and> (\<exists>exc. fst (prepare_workspace_batch sample_flow sample_env 7 lockless_run 1
         [sample_request ''a'' ''e1'', sample_request ''c'' ''e2''] (sample_system lockless_store [])) = Inl exc)"
proof -
  have "find_plan_step lockless_run ''a'' = Inr (step_a\<lparr>ps_resource_locks := []\<rparr>)"
    by (simp add: lockless_run_def signed_def find_plan_step_def step_a_def sample_step_def sample_run_def)
  then have "find_plan_step lockless_run (req_step_id (sample_request ''a'' ''e1'')) = Inr (step_a\<lparr>ps_resource_locks := []\<rparr>)"
    by (simp add: sample_request_def)
  moreover have "r_run_id lockless_run = ''run-1''" by (simp add: lockless_run_def signed_def sample_run_def)
  then have "load_run (sy_store (sample_system lockless_store [])) (r_run_id lockless_run) = Inr (lockless_run, 1)"
    using lockless_run_loads by simp
  ultimately have "\<exists>exc. fst (prepare_workspace_batch sample_flow sample_env 7 lockless_run 1
      [sample_request ''a'' ''e1'', sample_request ''c'' ''e2''] (sample_system lockless_store [])) = Inl exc"
    by (intro workspace_batches_need_locks [where child = "sample_request ''a'' ''e1''"
        and step = "step_a\<lparr>ps_resource_locks := []\<rparr>"]) simp_all
  with lockless_run_loads show ?thesis by (intro conjI)
qed

text \<open>
  C17. Whatever a cleanup of a workspace group does to the machine, forced or not, successful or not, is a
  sequence of reads, prunes, removals of worktrees and branches of that group and of its own directory; and
  nothing changes at all unless these lie below the configured root and the branches carry the prefix of the
  group.
\<close>

theorem cleanup_touches_only_owned:
  assumes "cleanup c m wg event force g = (o', g')"
  shows "removals m wg g g' \<and> (g' = g \<or> group_owned c m wg g)"
  using removing.keepsD [OF removing_cleanup assms] cleanup_not_owned [OF assms] by blast

lemma cleanup_touches_only_owned_witness:
  "\<exists>o' g'. cleanup sample_config counting_machine sample_group sample_event True 0 = (o', g') \<and> g' = 4
     \<and> removals counting_machine sample_group 0 g' \<and> group_owned sample_config counting_machine sample_group 0"
proof -
  have "snd (cleanup sample_config counting_machine sample_group sample_event True 0) = 4" by code_simp
  then obtain o' where run: "cleanup sample_config counting_machine sample_group sample_event True 0 = (o', 4)"
    by (metis prod.collapse)
  from cleanup_touches_only_owned [OF run] run show ?thesis by auto
qed



text \<open>
  C19. An executor can never delete a tracked file: Git reports the deletion with the new mode 000000, the
  difference of the modes is taken for a mode change, and pending changes with a mode change are rejected,
  whatever the scopes, the configuration and the other changes are.
\<close>

theorem tracked_deletions_are_rejected:
  assumes "list_all entry_ok entries" "deletion_status path \<in> set entries"
    and "list_all raw_ok ds" "deletion_of mode name path \<in> set ds" "mode \<noteq> ''000000''"
    and "git_mode_changes (concat (map raw_fields ds) @ [[]]) = Inr modes"
    and "git_changes modes (concat (map entry_fields entries) @ [[]]) = Inr (sn_changes later, sn_ignored later)"
  shows "\<exists>e. validate_pending_executor_changes c symlink outside coordinate earlier later scopes require_changes = Inl e"
  using deletions_are_rejected [OF assms] .

lemma tracked_deletions_are_rejected_witness:
  "let later = sample_repository_snapshot\<lparr>sn_clean := False, sn_changes :=
         [\<lparr>ch_change_type = Deleted, ch_paths = [''lib/a/x.py''], ch_index_status = '' '', ch_worktree_status = ''D'',
           ch_mode_changed = True\<rparr>]\<rparr> in
   git_mode_changes (raw_fields (deletion_of ''100644'' (replicate 40 (CHR ''a'')) ''lib/a/x.py'') @ [[]]) = Inr [''lib/a/x.py'']
   \<and> git_changes [''lib/a/x.py''] ['' D lib/a/x.py'', []] = Inr (sn_changes later, [])
   \<and> (\<exists>e. validate_pending_executor_changes sample_config (\<lambda>_. False) (\<lambda>_. False)
     (dispatch_coordinate sample_repository_snapshot None) sample_repository_snapshot later [''lib/a/''] True = Inl e)"
proof -
  let ?later = "sample_repository_snapshot\<lparr>sn_clean := False, sn_changes :=
         [\<lparr>ch_change_type = Deleted, ch_paths = [''lib/a/x.py''], ch_index_status = '' '', ch_worktree_status = ''D'',
           ch_mode_changed = True\<rparr>]\<rparr>"
  let ?d = "deletion_of ''100644'' (replicate 40 (CHR ''a'')) ''lib/a/x.py''"
  have modes: "git_mode_changes (concat (map raw_fields [?d]) @ [[]]) = Inr [''lib/a/x.py'']" by code_simp
  have status: "git_changes [''lib/a/x.py''] (concat (map entry_fields [deletion_status ''lib/a/x.py'']) @ [[]])
      = Inr (sn_changes ?later, sn_ignored ?later)" by code_simp
  have "\<exists>e. validate_pending_executor_changes sample_config (\<lambda>_. False) (\<lambda>_. False)
     (dispatch_coordinate sample_repository_snapshot None) sample_repository_snapshot ?later [''lib/a/''] True = Inl e"
  proof (rule tracked_deletions_are_rejected [OF _ _ _ _ _ modes status])
    show "list_all entry_ok [deletion_status ''lib/a/x.py'']" "list_all raw_ok [?d]" "''100644'' \<noteq> ''000000''" by code_simp+
  qed simp_all
  with modes status show ?thesis by (simp add: deletion_status_def sample_repository_snapshot_def)
qed

section \<open>What the store keeps\<close>



text \<open>
  C21. The store keeps the redacted text of a prompt and the launch check compares it with the digest of the
  prompt as it was given: a dispatch prepared with a prompt that redaction changes is never launched, short
  of a SHA-256 collision.
\<close>

theorem redacted_prompts_never_launch:
  assumes "prepare_dispatch r g d prompt policy snapshot metadata sessions now st = Inr (g', st')"
    and "redact_text prompt \<noteq> prompt"
  shows "validate_persisted_worker_prompt sources ledger (r_run_id r) (d_dispatch_id d) launched st' \<noteq> Inr ()
    \<or> sha_collision prompt (redact_text prompt)"
  using redacted_prompt_refused [OF assms] by blast

lemma redacted_prompts_never_launch_witness:
  "\<exists>st st'. prepare_dispatch (prepared_run ''password=x1'') 1 (sample_attempt ''password=x1'' [] Dispatch_prepared)
       ''password=x1'' [] sample_snapshot None None 7 st = Inr (2, st')
     \<and> (validate_persisted_worker_prompt (\<lambda>_. Inr ()) (\<lambda>_ _. True) ''run-1'' ''d-1'' ''password=x1'' st' \<noteq> Inr ()
        \<or> sha_collision ''password=x1'' (redact_text ''password=x1''))"
proof -
  obtain st st' where st: "prepare_dispatch (prepared_run ''password=x1'') 1
      (sample_attempt ''password=x1'' [] Dispatch_prepared) ''password=x1'' [] sample_snapshot None None 7 st = Inr (2, st')"
    using sample_prepared by blast
  have "redact_text ''password=x1'' \<noteq> ''password=x1''" by code_simp
  from redacted_prompts_never_launch [OF st this, of "\<lambda>_. Inr ()" "\<lambda>_ _. True" "''password=x1''"] st
  show ?thesis by (auto simp: prepared_run_def sample_attempt_def)
qed

section \<open>Reviews that cannot be finished\<close>

text \<open>
  C22. A blocked or inconclusive review of a step whose policy retries blocked work never yields a step: the
  retry moves the step from \<open>BLOCKED\<close> to \<open>REVIEW_REQUIRED\<close>, which the transition table does not contain, so
  applying the result always raises.
\<close>

theorem blocked_review_retry_never_returns:
  assumes "rt_on_blocked (ps_retry step) = On_retry"
    and "s_reviewer_attempts s < rt_max_reviewer_attempts (ps_retry step)"
    and "rr_verdict result = Verdict_blocked blockers \<or> rr_verdict result = Verdict_inconclusive reason"
  shows "\<exists>x. reviewer_step_outcome e n c r step s d result event = Inl x"
  using review_blocked_retry_never_returns [OF assms(1,2)] assms(3) by (auto simp: reviewer_step_outcome_def)

definition sample_review :: "verdict \<Rightarrow> reviewer_result" where
  "sample_review v = \<lparr>rr_dispatch_id = ''dispatch-0'', rr_attempt = 1, rr_step_id = ''a'', rr_repo_id = ''app'',
     rr_review_target = \<lparr>rt_executor_dispatch_id = ''x'', rt_executor_attempt = 1, rt_result_revision = Some ''r'',
       rt_patch_sha256 = None, rt_artifact_hashes = []\<rparr>, rr_findings = [], rr_verification = [],
     rr_required_remediation = [], rr_summary = ''s'', rr_transcript_ref = None, rr_verdict = v\<rparr>"

lemma blocked_review_retry_never_returns_witness:
  "\<exists>x. reviewer_step_outcome sample_env 0 sample_config sample_run step_a (sample_step_record step_a Step_reviewing)
     sample_dispatch (sample_review (Verdict_blocked [''no tools''])) sample_event = Inl x"
  by (rule blocked_review_retry_never_returns)
    (simp_all add: step_a_def sample_step_def sample_step_record_def new_step_record_def sample_review_def)

text \<open>
  C23. When the first of several required acceptances has been recorded and the operator then waives the
  review, the run can never succeed: the first acceptance cleared the accepted artifact ids, the waiver
  accepts the step without them, and the accepted step is final.
\<close>

theorem waiver_after_first_acceptance_is_stuck:
  assumes "reviewer_accepted_outcome c r step s d event = Inr (s1, escalate)" "s_state s1 = Step_review_required"
    and "or_step_id q = Some (ps_step_id step)" "dget (r_steps r1) (ps_step_id step) = Some s1"
    and "answer_review_waiver r1 q ''waive'' event2 decision = Inr (r2, target)"
    and "dget (step_map_of (np_steps (r_plan r1))) (ps_step_id step) = Some step" "plan_step_errors step = []"
  shows "\<not> run_complete r2
    \<and> (\<exists>s2. dget (r_steps r2) (ps_step_id step) = Some s2
         \<and> (\<nexists>t ev a w rw s3. transition_step s2 t ev a w rw = Inr s3))"
proof -
  have "ps_evidence_requirements step \<noteq> []"
    using assms(7) by (auto simp: plan_step_errors_def validate_step_collections_def)
  from waiver_after_acceptance_incomplete [OF assms(1-6) this] show ?thesis by blast
qed

definition voted_step :: step_record where
  "voted_step = (sample_step_record step_a Step_review_required)\<lparr>s_review_acceptances := 1,
     s_accepted_reviewer_role_keys := [''r1'']\<rparr>"

definition voted_run :: run_record where
  "voted_run = sample_run\<lparr>r_steps := dset ''a'' voted_step (r_steps sample_run)\<rparr>"

definition waiver_request :: operator_request where
  "waiver_request = \<lparr>or_request_id = ''q1'', or_question = ''?'', or_allowed_answers = [''waive'', ''halt''],
     or_context_ref = ''a'', or_resume_to = Run_running, or_expires_at = None, or_required_role = None,
     or_kind = Req_review_waiver, or_step_id = Some ''a'', or_reassignment_role_key = None\<rparr>"

lemma waiver_after_first_acceptance_is_stuck_witness:
  "\<exists>r2. answer_review_waiver voted_run waiver_request ''waive'' sample_event ''decision-1'' = Inr (r2, Run_running)
    \<and> \<not> run_complete r2"
proof -
  have voted: "reviewer_accepted_outcome sample_config sample_run step_a (sample_step_record step_a Step_reviewing)
      sample_dispatch sample_event = Inr (voted_step, False)"
    by code_simp
  have "case answer_review_waiver voted_run waiver_request ''waive'' sample_event ''decision-1'' of
      Inr (r2, target) \<Rightarrow> target = Run_running | Inl _ \<Rightarrow> False" by code_simp
  then obtain r2 where answer:
    "answer_review_waiver voted_run waiver_request ''waive'' sample_event ''decision-1'' = Inr (r2, Run_running)"
    by (auto split: sum.splits)
  have facts: "s_state voted_step = Step_review_required" "or_step_id waiver_request = Some (ps_step_id step_a)"
    "dget (r_steps voted_run) (ps_step_id step_a) = Some voted_step"
    "dget (step_map_of (np_steps (r_plan voted_run))) (ps_step_id step_a) = Some step_a" "plan_step_errors step_a = []"
    by code_simp+
  from waiver_after_first_acceptance_is_stuck [OF voted facts(1-3) answer facts(4,5)] answer show ?thesis by blast
qed

section \<open>Plans\<close>

text \<open>
  C24. In an accepted plan any two different steps that hold a write lock on the same resource are ordered
  by the dependency relation, so they never run at the same time.
\<close>

theorem accepted_plans_order_writers:
  assumes "normalized_plan_errors p = []" "s \<in> set (np_steps p)" "t \<in> set (np_steps p)" "s \<noteq> t"
    and "writes s r" "writes t r"
  shows "(ps_step_id s, ps_step_id t) \<in> (dep_rel (step_map_of (np_steps p)))\<^sup>+
    \<or> (ps_step_id t, ps_step_id s) \<in> (dep_rel (step_map_of (np_steps p)))\<^sup>+"
  using writers_ordered [of p s t r] assms by (simp add: accepted_plan_def)

lemma accepted_plans_order_writers_witness:
  "(''a'', ''b'') \<in> (dep_rel (step_map_of (np_steps sample_plan)))\<^sup>+
   \<or> (''b'', ''a'') \<in> (dep_rel (step_map_of (np_steps sample_plan)))\<^sup>+"
proof -
  have parts: "step_a \<in> set (np_steps sample_plan)" "step_b \<in> set (np_steps sample_plan)" "step_a \<noteq> step_b"
    "writes step_a ''db''" "writes step_b ''db''" "ps_step_id step_a = ''a''" "ps_step_id step_b = ''b''"
    by (simp_all add: sample_plan_def step_a_def step_b_def sample_step_def writes_def)
  show ?thesis
    using accepted_plans_order_writers [OF sample_plan_accepted parts(1-5)] unfolding parts(6,7) .
qed

text \<open>
  C25. For every step of an accepted plan the recursive ancestor computation ends within one call per step
  of the plan and returns exactly the transitive dependencies of the step.
\<close>

theorem ancestors_are_transitive_dependencies:
  assumes "normalized_plan_errors p = []" "s \<in> set (np_steps p)" "length (np_steps p) \<le> fuel"
  shows "\<exists>as. ancestor_steps fuel (step_map_of (np_steps p)) (ps_step_id s) = Some (Inr as)
    \<and> set as = {d. (d, ps_step_id s) \<in> (dep_rel (step_map_of (np_steps p)))\<^sup>+}"
proof -
  have acc: "accepted_plan p" using assms(1) by (simp add: accepted_plan_def)
  note look = step_map_lookup [OF accepted_plan_parts(1) [OF acc]]
  show ?thesis
  proof (rule ancestor_steps_correct [OF accepted_plan_ordinals(1) [OF acc]])
    show "\<forall>i s. dget (step_map_of (np_steps p)) i = Some s \<longrightarrow> 1 \<le> ps_ordinal s"
      using accepted_plan_ordinals(2) [OF acc] look by blast
    show "dget (step_map_of (np_steps p)) (ps_step_id s) = Some s" using look assms(2) by blast
    show "ps_ordinal s \<le> int fuel" using accepted_plan_ordinals(2) [OF acc assms(2)] assms(3) by simp
  qed
qed

lemma ancestors_are_transitive_dependencies_witness:
  "\<exists>as. ancestor_steps 4 (step_map_of (np_steps sample_plan)) (ps_step_id step_b) = Some (Inr as)
    \<and> set as = {d. (d, ps_step_id step_b) \<in> (dep_rel (step_map_of (np_steps sample_plan)))\<^sup>+}"
  by (rule ancestors_are_transitive_dependencies [OF sample_plan_accepted]) (simp_all add: sample_plan_def)

text \<open>
  C26. The text of a writable scope reads back as the scope: a relative path of plain segments, with or
  without the final slash that makes it a directory.
\<close>

theorem scopes_read_back:
  assumes "path_root p = []" "path_parts p \<noteq> []" "list_all scope_segment (path_parts p)"
  shows "parse_writable_path (scope_text p directory) = Inr (p, directory)"
  using assms by (rule parse_scope_text)

definition scope_path :: posix_path where
  "scope_path = \<lparr>path_root = [], path_parts = [''lib'', ''a'']\<rparr>"

lemma scopes_read_back_witness: "parse_writable_path (scope_text scope_path True) = Inr (scope_path, True)"
proof (rule scopes_read_back)
  show "list_all scope_segment (path_parts scope_path)"
    unfolding scope_path_def posix_path.select_convs by code_simp
qed (simp_all add: scope_path_def)

text \<open>
  C27. The scheduler calls two writable scopes overlapping exactly when some path is authorised by both of
  them, as the authorisation check itself decides.
\<close>

theorem overlap_is_a_common_path:
  assumes "parse_writable_path s = Inr (p, d)" "parse_writable_path t = Inr (q, e)"
  shows "writable_paths_overlap s t = Inr True \<longleftrightarrow>
    (\<exists>v. writable_path_allows [s] v = Inr True \<and> writable_path_allows [t] v = Inr True)"
proof -
  have "pure_posix_path (as_posix p) = p" "pure_posix_path (as_posix q) = q"
    using as_posix_inverse assms by blast+
  moreover have "posix.overlaps (p, d) (q, e) \<longleftrightarrow>
      posix.authorises (p, d) p \<and> posix.authorises (q, e) p \<or> posix.authorises (p, d) q \<and> posix.authorises (q, e) q"
    by (auto simp: posix.overlaps_def posix.authorises_def)
  ultimately show ?thesis
    using posix.overlaps_iff_common [of "(p, d)" "(q, e)"]
    unfolding writable_paths_overlap_eq [OF assms] writable_path_allows_one [OF assms(1)]
      writable_path_allows_one [OF assms(2)] sum.inject by metis
qed

lemma overlap_is_a_common_path_witness:
  "\<exists>v. writable_path_allows [''lib/''] v = Inr True \<and> writable_path_allows [''lib/a''] v = Inr True"
proof -
  have "parse_writable_path ''lib/'' = Inr (pure_posix_path ''lib'', True)"
    "parse_writable_path ''lib/a'' = Inr (pure_posix_path ''lib/a'', False)"
    "writable_paths_overlap ''lib/'' ''lib/a'' = Inr True" by code_simp+
  with overlap_is_a_common_path show ?thesis by blast
qed

section \<open>Approvals and review policy\<close>

text \<open>
  C28. An approval produced for one plan is accepted for another plan exactly when the two plans have the
  same version, id, steps and sources, up to explicit SHA-256 collisions of their canonical texts.
\<close>

theorem approvals_bind_the_plan:
  assumes "approve_plan p ref now = Inr a"
  shows "validate_plan_approval q a = Inr () \<longleftrightarrow>
    (np_schema_version p = np_schema_version q \<and> np_plan_id p = np_plan_id q \<and> np_steps p = np_steps q
       \<or> sha_collision (dumps (plan_payload p)) (dumps (plan_payload q)))
    \<and> (np_sources p = np_sources q \<or> sha_collision (dumps (source_payload p)) (dumps (source_payload q)))"
  unfolding approval_transfer [OF assms] plan_digest_cases source_digest_cases ..

lemma approvals_bind_the_plan_witness:
  "\<exists>a. approve_plan sample_plan ''op'' 1 = Inr a \<and> validate_plan_approval sample_plan a = Inr ()"
proof -
  have "identifier_ok ''op''" by code_simp
  then obtain a where a: "approve_plan sample_plan ''op'' 1 = Inr a" by (auto simp: approve_plan_Inr)
  from approvals_bind_the_plan [OF a, of sample_plan] a show ?thesis by blast
qed

text \<open>
  C29. A compiled obligation asks at least what the plan step and the selected profile ask: a review
  required by either is required, their reviewers are all compiled, and the number of acceptances is at
  least the number each of them asks for; a mandatory review is never waivable.
\<close>

theorem compiled_obligations_are_strong_enough:
  assumes "compile_review_obligation c step = Inr ob" "selected_profile c = Inr profile"
    and "review_required c profile step"
  shows "cro_required ob
    \<and> set (rev_reviewer_role_keys (ps_review step)) \<subseteq> set (cro_reviewer_role_keys ob)
    \<and> rev_required_acceptances (ps_review step) \<le> cro_required_acceptances ob
    \<and> (profile_applies c profile step \<longrightarrow> set (prof_reviewer_role_keys profile) \<subseteq> set (cro_reviewer_role_keys ob)
         \<and> prof_required_acceptances profile \<le> cro_required_acceptances ob)
    \<and> (review_mandatory c step \<longrightarrow> \<not> cro_waivable ob)
    \<and> cro_required_acceptances ob \<le> rt_max_reviewer_attempts (ps_retry step)"
proof (rule compile_review_obligation_Inr [OF assms(1)], goal_cases)
  case (1 profile' digest)
  then have [simp]: "profile' = profile" using assms(2) by simp
  from compiled_roles_cover [OF assms(3)] 1 assms(3) show ?case by (auto dest: set_mono_prefix)
qed

lemma compiled_obligations_are_strong_enough_witness:
  "\<exists>ob. compile_review_obligation sample_config step_a = Inr ob \<and> 2 \<le> cro_required_acceptances ob"
proof -
  obtain ob where ob: "compile_review_obligation sample_config step_a = Inr ob" using sample_compilation by blast
  have "prof_required_acceptances sample_profile = 2" by (simp add: sample_profile_def)
  with compiled_obligations_are_strong_enough [OF ob sample_compilation_parts(1,3)] ob sample_compilation_parts(4)
  show ?thesis by auto
qed

section \<open>Permissions\<close>

text \<open>
  C30. In a validated configuration compiling the policy layers of a known repository and role never fails
  on a lookup.
\<close>

theorem policy_layers_resolve:
  assumes "validate_references executable (cfg_model c) = []"
    and "config_repository c repo_id = Inr repository" "config_role c role_key = Inr role"
  shows "\<exists>layers. permission_policy_layers c repo_id role_key = Inr layers"
  using assms by (rule permission_policy_layers_total)

lemma policy_layers_resolve_witness:
  "\<exists>layers. permission_policy_layers sample_config ''app'' ''e1'' = Inr layers"
proof -
  have "config_repository sample_config ''app'' = Inr sample_repository" "config_role sample_config ''e1'' = Inr sample_role"
    by code_simp+
  from policy_layers_resolve [OF sample_config_valid this] show ?thesis .
qed



text \<open>
  C32. Under a validated configuration an executor's rules deny every tool rule of every action its dispatch
  does not authorise.
\<close>

theorem unauthorised_actions_are_denied:
  assumes "compile_effective_policy c repo_id role_key authorized = Inr rules"
    and "config_role_kind c role_key = Inr Executor" "validate_references executable (cfg_model c) = []"
    and "action_name a \<notin> set authorized"
  shows "decides rules a Deny"
  using assms by (rule executor_unauthorised_denied)

lemma unauthorised_actions_are_denied_witness:
  "\<exists>rules. compile_effective_policy sample_config ''app'' ''e1'' [''inspect''] = Inr rules \<and> decides rules Push Deny"
proof -
  have "case compile_effective_policy sample_config ''app'' ''e1'' [''inspect''] of Inr rules \<Rightarrow> True | Inl _ \<Rightarrow> False"
    by code_simp
  then obtain rules where rules: "compile_effective_policy sample_config ''app'' ''e1'' [''inspect''] = Inr rules"
    by (auto split: sum.splits)
  from unauthorised_actions_are_denied [OF rules sample_config_kinds(1) sample_config_valid, of Push] rules
  show ?thesis by simp
qed

section \<open>Commands, prompts and results\<close>

text \<open>
  C33. Every command of the protocol that its contract allows is written and read back: its JSON text, with
  any white space around it, is parsed to exactly that command.
\<close>

theorem commands_read_back:
  assumes "list_all is_space lead" "list_all is_space trail" "command_errors c = []"
  shows "parse_supervisor_command (lead @ encode (json_command c) @ trail) = Inr c"
  using command_text_inverse [OF assms] .

lemma commands_read_back_witness:
  "parse_supervisor_command ('' '' @ encode (json_command
      (Batch_command [sample_request ''a'' ''e1'', sample_request ''d'' ''e2''] None)) @ [CHR 0x0A])
   = Inr (Batch_command [sample_request ''a'' ''e1'', sample_request ''d'' ''e2''] None)"
proof (rule commands_read_back)
  show "list_all is_space '' ''" "list_all is_space [CHR 0x0A]" by code_simp+
  show "command_errors (Batch_command [sample_request ''a'' ''e1'', sample_request ''d'' ''e2''] None) = []"
  proof -
    have "identifier_ok ''a''" "identifier_ok ''d''" "identifier_ok ''e1''" "identifier_ok ''e2''" by code_simp+
    then show ?thesis
      by (simp add: batch_command_errors_def dispatch_request_errors_def sample_request_def length_between_def)
  qed
qed

text \<open>
  C34. A text that is accepted as a command is exactly one JSON object, with nothing but white space around
  it and no object in it that repeats a key, and the command satisfies its contract.
\<close>

theorem accepted_commands_are_unambiguous:
  assumes "parse_supervisor_command input = Inr c"
  shows "\<exists>m r. read_json (dropWhile is_space input) = Inr (JObj m, r) \<and> stripped r = []
    \<and> distinct_keys (JObj m) \<and> decode_command (JObj m) = Inr c \<and> command_errors c = []"
  using accepted_commands [OF assms] .

lemma accepted_commands_are_unambiguous_witness:
  "\<exists>m. distinct_keys (JObj m) \<and> decode_command (JObj m) = Inr (Halt_command ''stop'')"
proof -
  have "command_errors (Halt_command ''stop'') = []" by code_simp
  from command_text_inverse [of "[]" "[]", OF _ _ this]
  have "parse_supervisor_command (encode (json_command (Halt_command ''stop''))) = Inr (Halt_command ''stop'')" by simp
  from accepted_commands_are_unambiguous [OF this] show ?thesis by blast
qed

text \<open>
  C35. A halt command whose reason has more than 5000 and at most 10000 characters satisfies the protocol, yet
  it neither halts the run nor is it rejected for correction: the reason does not fit a transition event, and
  the validation error of that event is raised, whatever the run and the machine are.
\<close>

theorem long_halt_reasons_fail:
  assumes "5000 < length reason" "length reason \<le> 10000" "load_run (sy_store s) run_id = Inr (r, g)"
  shows "command_errors (Halt_command reason) = []
    \<and> (\<exists>es. prepare_from_supervisor flow e now run_id g (encode (json_command (Halt_command reason))) s
         = (Inl (ValidationError es), s))"
  using long_halt_fails [OF assms] by blast

lemma long_halt_reasons_fail_witness:
  "\<exists>s es. load_run (sy_store s) ''run-1'' = Inr (running_run [], 1)
     \<and> prepare_from_supervisor sample_flow sample_env 7 ''run-1'' 1
         (encode (json_command (Halt_command (replicate 6000 (CHR ''x''))))) s = (Inl (ValidationError es), s)"
proof -
  obtain st where st: "load_run st ''run-1'' = Inr (running_run [], 1)" using sample_halted by blast
  have "load_run (sy_store (sample_system st [])) ''run-1'' = Inr (running_run [], 1)" using st by simp
  from long_halt_reasons_fail [of "replicate 6000 (CHR ''x'')", OF _ _ this, of sample_flow sample_env 7]
  obtain es where "prepare_from_supervisor sample_flow sample_env 7 ''run-1'' 1
      (encode (json_command (Halt_command (replicate 6000 (CHR ''x''))))) (sample_system st [])
      = (Inl (ValidationError es), sample_system st [])" by auto
  with \<open>load_run (sy_store (sample_system st [])) ''run-1'' = Inr (running_run [], 1)\<close> show ?thesis by (intro exI conjI)
qed





text \<open>
  C39. A result that claims success is verified exactly when the model's self-reports cover every acceptance
  criterion once and all pass, and the dispatcher itself ran every criterion, in plan order, and all passed.
\<close>

theorem success_is_verified_independently:
  assumes "result_success result"
  shows "validate_result_verification step result authoritative = Inr () \<longleftrightarrow>
     distinct (map vr_check_id (result_verification result))
     \<and> set (map vr_check_id (result_verification result)) = set (map crit_criterion_id (ps_acceptance_criteria step))
     \<and> (\<forall>v \<in> set (result_verification result). vr_status v = Check_passed)
     \<and> map av_check_id authoritative = map crit_criterion_id (ps_acceptance_criteria step)
     \<and> (\<forall>v \<in> set authoritative. av_passed v)"
  using validate_result_verification_Inr [OF assms] assms by (auto simp: validate_model_verification_Inr)

definition reported :: "verification_result" where
  "reported = \<lparr>vr_check_id = ''c1'', vr_status = Check_passed, vr_summary = ''s''\<rparr>"

definition measured :: "bool \<Rightarrow> authoritative_verification" where
  "measured ok = \<lparr>av_check_id = ''c1'', av_passed = ok, av_argv = [''make''], av_exit_code = Some 0, av_timed_out = False,
     av_output_truncated = False, av_stdout_sha256 = [], av_stderr_sha256 = [], av_transcript_sha256 = [],
     av_duration_ms = 1, av_backend = ''b'', av_summary = ''s''\<rparr>"

lemma success_is_verified_independently_witness:
  "validate_result_verification step_a (Reviewer_result ((sample_review Verdict_accepted)\<lparr>rr_verification := [reported]\<rparr>))
     [measured True] = Inr ()
   \<and> validate_result_verification step_a (Reviewer_result ((sample_review Verdict_accepted)\<lparr>rr_verification := [reported]\<rparr>))
     [measured False] \<noteq> Inr ()"
proof -
  let ?result = "Reviewer_result ((sample_review Verdict_accepted)\<lparr>rr_verification := [reported]\<rparr>)"
  have "result_success ?result" "result_verification ?result = [reported]"
    by (simp_all add: sample_review_def)
  with success_is_verified_independently [of ?result step_a] show ?thesis
    by (simp add: step_a_def sample_step_def reported_def measured_def)
qed

section \<open>Budget\<close>



end
